(* ===== verification/TH_Prelude.thy ===== *)
theory TH_Prelude
  imports Main
begin

text \<open>
  Shared vocabulary of the development: the results and errors of Go functions, instants and
  durations, the functions of package \<open>strings\<close> that the code calls, and the SQL statements the
  store issues, over tables that are lists of rows.

  \<^item> A Go \<open>(T, error)\<close> pair is \<open>err + 'a\<close>; an operation on the database returns that result
    paired with the database it leaves. A transaction that is rolled back leaves it unchanged.
  \<^item> An instant is the number of nanoseconds since the zero \<open>time.Time\<close>, so \<open>IsZero\<close> is \<open>t = 0\<close>.
    Every operation takes the instant it runs at; \<open>now()\<close> in its SQL and \<open>time.Now()\<close> in its Go
    code read that same instant.
  \<^item> A Go string is its list of bytes. \<open>TrimSpace\<close> removes exactly the runes of
    \<open>unicode.IsSpace\<close>, in their UTF-8 form. \<open>ToLower\<close>, \<open>ToUpper\<close> and \<open>EqualFold\<close> act on the ASCII
    letters and leave every other byte alone: the code compares their results with ASCII
    words only.
\<close>

named_theorems time_simps \<open>durations as nanoseconds\<close>
named_theorems sql_simps \<open>selecting and updating rows\<close>

section \<open>Results\<close>

datatype err =
    ErrNoRows
  | ErrNamed string
  | ErrConstraint string
  | ErrPanic string

type_synonym 'a res = "err + 'a"

definition is_ok :: "'a res \<Rightarrow> bool" where
  "is_ok r = (case r of Inl _ \<Rightarrow> False | Inr _ \<Rightarrow> True)"

lemma is_ok_simps [simp]: "\<not> is_ok (Inl e)" "is_ok (Inr x)"
  by (simp_all add: is_ok_def)

lemma is_ok_iff: "is_ok r \<longleftrightarrow> (\<exists>x. r = Inr x)"
  by (cases r) simp_all

text \<open>A condition on the state an operation leaves, and how it passes through the branches.\<close>

definition ends_in :: "('s \<Rightarrow> bool) \<Rightarrow> 'r \<times> 's \<Rightarrow> bool" where
  "ends_in P rs = P (snd rs)"

lemma ends_in_if:
  assumes "c \<Longrightarrow> ends_in P a" and "\<not> c \<Longrightarrow> ends_in P b"
  shows "ends_in P (if c then a else b)"
  using assms by simp

lemma ends_in_case:
  assumes "\<And>e. r = Inl e \<Longrightarrow> ends_in P (f e)" and "\<And>x. r = Inr x \<Longrightarrow> ends_in P (g x)"
  shows "ends_in P (case r of Inl e \<Rightarrow> f e | Inr x \<Rightarrow> g x)"
  using assms by (cases r) simp_all

lemma ends_in_pair: "P s \<Longrightarrow> ends_in P (r, s)"
  by (simp add: ends_in_def)

lemmas branches = ends_in_if ends_in_case

text \<open>An operation that fails and leaves the state as it was.\<close>

definition rejected :: "'s \<Rightarrow> 'a res \<times> 's \<Rightarrow> bool" where
  "rejected s rs = (\<not> is_ok (fst rs) \<and> snd rs = s)"

lemma rejected_if: "(c \<Longrightarrow> rejected s a) \<Longrightarrow> (\<not> c \<Longrightarrow> rejected s b) \<Longrightarrow> rejected s (if c then a else b)"
  by simp

lemma rejected_case:
  "(\<And>e. r = Inl e \<Longrightarrow> rejected s (f e)) \<Longrightarrow> (\<And>x. r = Inr x \<Longrightarrow> rejected s (k x))
   \<Longrightarrow> rejected s (case r of Inl e \<Rightarrow> f e | Inr x \<Rightarrow> k x)"
  by (cases r) simp_all

lemma rejected_error: "rejected s (Inl e, s)"
  by (simp add: rejected_def)

lemmas rejections = rejected_if rejected_case rejected_error

section \<open>Time\<close>

type_synonym time = int
type_synonym duration = int

definition second :: duration where "second = 1000000000"
definition minute :: duration where "minute = 60 * second"
definition hour :: duration where "hour = 60 * minute"

lemma second_ns [time_simps]: "second = 1000000000"
  by (simp add: second_def)

lemma minute_ns [time_simps]: "minute = 60000000000"
  by (simp add: minute_def second_def)

lemma hour_ns [time_simps]: "hour = 3600000000000"
  by (simp add: hour_def minute_def second_def)

text \<open>\<open>if now.IsZero() { now = time.Now() }\<close>\<close>

definition or_clock :: "time \<Rightarrow> time \<Rightarrow> time" where
  "or_clock t clock = (if t = 0 then clock else t)"

lemma or_clock_nonzero [simp]: "t \<noteq> 0 \<Longrightarrow> or_clock t clock = t"
  by (simp add: or_clock_def)

lemma or_clock_same [simp]: "or_clock t t = t"
  by (simp add: or_clock_def)

section \<open>Package strings\<close>

subsection \<open>White space\<close>

definition unicode_spaces :: "string list" where
  "unicode_spaces =
     [[CHR 0x09], [CHR 0x0A], [CHR 0x0B], [CHR 0x0C], [CHR 0x0D], [CHR 0x20],
      [CHR 0xC2, CHR 0x85], [CHR 0xC2, CHR 0xA0], [CHR 0xE1, CHR 0x9A, CHR 0x80],
      [CHR 0xE2, CHR 0x80, CHR 0x80], [CHR 0xE2, CHR 0x80, CHR 0x81],
      [CHR 0xE2, CHR 0x80, CHR 0x82], [CHR 0xE2, CHR 0x80, CHR 0x83],
      [CHR 0xE2, CHR 0x80, CHR 0x84], [CHR 0xE2, CHR 0x80, CHR 0x85],
      [CHR 0xE2, CHR 0x80, CHR 0x86], [CHR 0xE2, CHR 0x80, CHR 0x87],
      [CHR 0xE2, CHR 0x80, CHR 0x88], [CHR 0xE2, CHR 0x80, CHR 0x89],
      [CHR 0xE2, CHR 0x80, CHR 0x8A], [CHR 0xE2, CHR 0x80, CHR 0xA8],
      [CHR 0xE2, CHR 0x80, CHR 0xA9], [CHR 0xE2, CHR 0x80, CHR 0xAF],
      [CHR 0xE2, CHR 0x81, CHR 0x9F], [CHR 0xE3, CHR 0x80, CHR 0x80]]"

fun strip_prefix :: "string \<Rightarrow> string \<Rightarrow> string option" where
  "strip_prefix [] s = Some s"
| "strip_prefix (p # ps) [] = None"
| "strip_prefix (p # ps) (c # cs) = (if p = c then strip_prefix ps cs else None)"

fun strip_any :: "string list \<Rightarrow> string \<Rightarrow> string option" where
  "strip_any [] s = None"
| "strip_any (p # ps) s =
     (case strip_prefix p s of
        None \<Rightarrow> strip_any ps s
      | Some r \<Rightarrow> if length r < length s then Some r else strip_any ps s)"

lemma strip_any_shorter: "strip_any ps s = Some r \<Longrightarrow> length r < length s"
  by (induction ps) (auto split: option.splits if_splits)

function trim_left_by :: "string list \<Rightarrow> string \<Rightarrow> string" where
  "trim_left_by ps s = (case strip_any ps s of None \<Rightarrow> s | Some r \<Rightarrow> trim_left_by ps r)"
  by pat_completeness auto
termination
  by (relation "measure (\<lambda>(ps, s). length s)") (auto dest: strip_any_shorter)

declare trim_left_by.simps [simp del]

definition trim_left :: "string \<Rightarrow> string" where
  "trim_left s = trim_left_by unicode_spaces s"

definition trim_right :: "string \<Rightarrow> string" where
  "trim_right s = rev (trim_left_by (map rev unicode_spaces) (rev s))"

definition trim_space :: "string \<Rightarrow> string" where
  "trim_space s = trim_right (trim_left s)"

lemma trim_left_by_Nil [simp]: "trim_left_by ps [] = []"
proof -
  have "strip_any ps [] = None"
    by (cases "strip_any ps []") (auto dest: strip_any_shorter)
  then show ?thesis by (simp add: trim_left_by.simps)
qed

lemma trim_space_Nil [simp]: "trim_space [] = []"
  by (simp add: trim_space_def trim_left_def trim_right_def)

subsection \<open>Letter case\<close>

definition lower_char :: "char \<Rightarrow> char" where
  "lower_char c = (let n = of_char c :: nat in if 65 \<le> n \<and> n \<le> 90 then char_of (n + 32) else c)"

definition upper_char :: "char \<Rightarrow> char" where
  "upper_char c = (let n = of_char c :: nat in if 97 \<le> n \<and> n \<le> 122 then char_of (n - 32) else c)"

definition to_lower :: "string \<Rightarrow> string" where
  "to_lower s = map lower_char s"

definition to_upper :: "string \<Rightarrow> string" where
  "to_upper s = map upper_char s"

definition equal_fold :: "string \<Rightarrow> string \<Rightarrow> bool" where
  "equal_fold a b = (to_lower a = to_lower b)"

lemma lower_char_idem [simp]: "lower_char (lower_char c) = lower_char c"
proof (cases "65 \<le> (of_char c :: nat) \<and> (of_char c :: nat) \<le> 90")
  case True
  then have "(of_char (char_of (of_char c + 32 :: nat)) :: nat) = of_char c + 32"
    by (simp add: of_char_of)
  with True show ?thesis by (simp add: lower_char_def Let_def)
next
  case False
  then have "lower_char c = c" by (auto simp: lower_char_def Let_def)
  then show ?thesis by simp
qed

lemma to_lower_idem [simp]: "to_lower (to_lower s) = to_lower s"
  by (simp add: to_lower_def)

lemma to_lower_Nil [simp]: "to_lower [] = []"
  by (simp add: to_lower_def)

subsection \<open>Searching and joining\<close>

definition has_prefix :: "string \<Rightarrow> string \<Rightarrow> bool" where
  "has_prefix s p = (strip_prefix p s \<noteq> None)"

definition has_suffix :: "string \<Rightarrow> string \<Rightarrow> bool" where
  "has_suffix s p = (strip_prefix (rev p) (rev s) \<noteq> None)"

definition trim_prefix :: "string \<Rightarrow> string \<Rightarrow> string" where
  "trim_prefix s p = (case strip_prefix p s of None \<Rightarrow> s | Some r \<Rightarrow> r)"

fun str_contains :: "string \<Rightarrow> string \<Rightarrow> bool" where
  "str_contains [] p = (p = [])"
| "str_contains (c # cs) p = (has_prefix (c # cs) p \<or> str_contains cs p)"

fun join :: "string \<Rightarrow> string list \<Rightarrow> string" where
  "join sep [] = []"
| "join sep [x] = x"
| "join sep (x # y # ys) = x @ sep @ join sep (y # ys)"

lemma strip_prefix_append [simp]: "strip_prefix p (p @ s) = Some s"
  by (induction p) simp_all

lemma strip_prefix_Some: "strip_prefix p s = Some r \<longleftrightarrow> s = p @ r"
  by (induction p s rule: strip_prefix.induct) auto

lemma has_prefix_iff: "has_prefix s p \<longleftrightarrow> (\<exists>r. s = p @ r)"
  by (auto simp: has_prefix_def strip_prefix_Some)

lemma has_prefix_append [simp]: "has_prefix (p @ s) p"
  by (auto simp: has_prefix_iff)

lemma trim_prefix_append [simp]: "trim_prefix (p @ s) p = s"
  by (simp add: trim_prefix_def)

lemma str_contains_iff: "str_contains s p \<longleftrightarrow> (\<exists>a b. s = a @ p @ b)"
proof (induction s)
  case (Cons c cs)
  have "(\<exists>a b. c # cs = a @ p @ b) \<longleftrightarrow> (\<exists>b. c # cs = p @ b) \<or> (\<exists>a b. cs = a @ p @ b)"
    by (metis append.assoc append_Cons append_Nil list.exhaust list.sel(3))
  then show ?case by (simp add: has_prefix_iff Cons.IH)
qed auto

text \<open>\<open>TrimSpace\<close> twice is \<open>TrimSpace\<close>.\<close>

lemma strip_any_None: "strip_any ps s = None \<longleftrightarrow> (\<forall>p\<in>set ps. p \<noteq> [] \<longrightarrow> strip_prefix p s = None)"
proof (induction ps)
  case (Cons p ps)
  have "strip_prefix p s = Some r \<Longrightarrow> length r < length s \<longleftrightarrow> p \<noteq> []" for r by (auto simp: strip_prefix_Some)
  with Cons.IH show ?case by (auto split: option.splits)
qed simp

lemma trim_left_by_stuck: "strip_any ps (trim_left_by ps s) = None"
  by (induction s rule: trim_left_by.induct [of "\<lambda>ps s. strip_any ps (trim_left_by ps s) = None"])
     (subst trim_left_by.simps, simp split: option.split)

lemma trim_left_by_same: "strip_any ps s = None \<Longrightarrow> trim_left_by ps s = s"
  by (simp add: trim_left_by.simps)

lemma trim_left_by_suffix: "\<exists>r. s = r @ trim_left_by ps s"
proof (induction ps s rule: trim_left_by.induct)
  case (1 ps s)
  show ?case
  proof (cases "strip_any ps s")
    case None
    then show ?thesis by (simp add: trim_left_by.simps)
  next
    case (Some r)
    have "\<exists>p. s = p @ r" using Some by (induction ps) (auto simp: strip_prefix_Some split: option.splits if_splits)
    with 1 [OF Some] Some show ?thesis by (subst trim_left_by.simps) (metis append.assoc option.simps(5))
  qed
qed

lemma trim_space_idem [simp]: "trim_space (trim_space s) = trim_space s"
proof -
  let ?u = "trim_left s"
  obtain r where r: "?u = trim_space s @ rev r"
    using trim_left_by_suffix [of "rev ?u" "map rev unicode_spaces"]
    by (auto simp: trim_space_def trim_right_def) (metis rev_append rev_rev_ident)
  have "strip_any unicode_spaces ?u = None" by (simp add: trim_left_def trim_left_by_stuck)
  then have "strip_any unicode_spaces (trim_space s) = None"
    unfolding strip_any_None r by (auto simp: strip_prefix_Some not_Some_eq [symmetric] simp del: not_Some_eq)
  then have "trim_left (trim_space s) = trim_space s" by (simp add: trim_left_def trim_left_by_same)
  moreover have "strip_any (map rev unicode_spaces) (rev (trim_space s)) = None"
    by (simp add: trim_space_def trim_right_def trim_left_by_stuck)
  ultimately show ?thesis by (simp add: trim_space_def [of "trim_space s"] trim_right_def trim_left_by_same)
qed

subsection \<open>Numbers in strings\<close>

fun digit_of :: "char \<Rightarrow> int option" where
  "digit_of c = (let n = of_char c :: int in if 48 \<le> n \<and> n \<le> 57 then Some (n - 48) else None)"

fun number_of_digits :: "int \<Rightarrow> string \<Rightarrow> int option" where
  "number_of_digits acc [] = Some acc"
| "number_of_digits acc (c # cs) =
     (case digit_of c of None \<Rightarrow> None | Some d \<Rightarrow> number_of_digits (10 * acc + d) cs)"

text \<open>\<open>strconv.Atoi\<close> of a decimal string on 64 bits; and its result when the error is ignored: 0 for
  what is no number, the nearest \<open>int\<close> for a number out of range.\<close>

definition decimal :: "string \<Rightarrow> int option" where
  "decimal s =
     (let negative = has_prefix s ''-''; digits = (if negative \<or> has_prefix s ''+'' then tl s else s)
      in if digits = [] then None
         else if negative then map_option uminus (number_of_digits 0 digits) else number_of_digits 0 digits)"

definition atoi :: "string \<Rightarrow> int option" where
  "atoi s = (case decimal s of
      None \<Rightarrow> None
    | Some n \<Rightarrow> if - (2 ^ 63) \<le> n \<and> n < 2 ^ 63 then Some n else None)"

definition atoi_value :: "string \<Rightarrow> int" where
  "atoi_value s = (case decimal s of None \<Rightarrow> 0 | Some n \<Rightarrow> max (- (2 ^ 63)) (min (2 ^ 63 - 1) n))"

text \<open>\<open>strconv.Itoa\<close>.\<close>

fun digits :: "nat \<Rightarrow> string" where
  "digits n = (if n < 10 then [char_of (48 + n)] else digits (n div 10) @ [char_of (48 + n mod 10)])"

definition itoa :: "int \<Rightarrow> string" where
  "itoa i = (if i < 0 then ''-'' @ digits (nat (- i)) else digits (nat i))"

text \<open>
  \<open>len([]rune(s))\<close> of valid UTF-8: the bytes that are not continuation bytes; and
  \<open>string([]rune(s)[:n])\<close>, which keeps the first \<open>n\<close> runes.
\<close>

definition is_cont :: "char \<Rightarrow> bool" where
  "is_cont c = (let n = of_char c :: nat in 128 \<le> n \<and> n < 192)"

definition rune_count :: "string \<Rightarrow> nat" where
  "rune_count s = length (filter (\<lambda>c. \<not> is_cont c) s)"

fun take_runes :: "nat \<Rightarrow> string \<Rightarrow> string" where
  "take_runes n [] = []"
| "take_runes n (c # cs) =
     (if is_cont c then c # take_runes n cs
      else case n of 0 \<Rightarrow> [] | Suc m \<Rightarrow> c # take_runes m cs)"

lemma rune_count_take_runes: "rune_count (take_runes n s) \<le> n"
proof (induction n s rule: take_runes.induct)
  case (2 n c cs)
  then show ?case by (cases n) (auto simp: rune_count_def)
qed (simp add: rune_count_def)

text \<open>\<open>uniqueStrings\<close>-style loops: drop blanks and repeats, keep the first of each.\<close>

fun unique_trimmed :: "string list \<Rightarrow> string list \<Rightarrow> string list" where
  "unique_trimmed seen [] = []"
| "unique_trimmed seen (v # vs) =
     (let t = trim_space v
      in if t = [] \<or> t \<in> set seen then unique_trimmed seen vs
         else t # unique_trimmed (t # seen) vs)"

lemma unique_trimmed_props:
  "distinct (unique_trimmed seen vs) \<and> set (unique_trimmed seen vs) \<inter> set seen = {}
   \<and> [] \<notin> set (unique_trimmed seen vs)"
proof (induction vs arbitrary: seen)
  case (Cons v vs)
  from Cons.IH [of seen] Cons.IH [of "trim_space v # seen"] show ?case
    by (auto simp: Let_def)
qed simp

section \<open>SQL over lists of rows\<close>

text \<open>
  \<open>sql_update p f\<close> is \<open>UPDATE ... SET f WHERE p\<close>, \<open>sql_affected\<close> its row count,
  \<open>query_row\<close> is \<open>QueryRow(...).Scan\<close>: the first row or \<open>pgx.ErrNoRows\<close>.
\<close>

definition sql_update :: "('r \<Rightarrow> bool) \<Rightarrow> ('r \<Rightarrow> 'r) \<Rightarrow> 'r list \<Rightarrow> 'r list" where
  "sql_update p f rows = map (\<lambda>r. if p r then f r else r) rows"

definition sql_affected :: "('r \<Rightarrow> bool) \<Rightarrow> 'r list \<Rightarrow> nat" where
  "sql_affected p rows = length (filter p rows)"

definition sql_exists :: "('r \<Rightarrow> bool) \<Rightarrow> 'r list \<Rightarrow> bool" where
  "sql_exists p rows = list_ex p rows"

definition query_row :: "('r \<Rightarrow> bool) \<Rightarrow> 'r list \<Rightarrow> 'r res" where
  "query_row p rows = (case filter p rows of [] \<Rightarrow> Inl ErrNoRows | r # _ \<Rightarrow> Inr r)"

lemma query_row_Inr: "query_row p rows = Inr r \<Longrightarrow> r \<in> set rows \<and> p r"
  by (cases "filter p rows") (auto simp: query_row_def filter_eq_Cons_iff)

lemma query_row_Inl: "query_row p rows = Inl e \<longleftrightarrow> e = ErrNoRows \<and> (\<forall>r\<in>set rows. \<not> p r)"
  by (cases "filter p rows") (auto simp: query_row_def filter_empty_conv filter_eq_Cons_iff)

lemma sql_exists_iff [sql_simps]: "sql_exists p rows \<longleftrightarrow> (\<exists>r\<in>set rows. p r)"
  by (simp add: sql_exists_def list_ex_iff)

lemma set_sql_update [sql_simps]: "set (sql_update p f rows) = (\<lambda>r. if p r then f r else r) ` set rows"
  by (simp add: sql_update_def)

lemma length_sql_update [simp]: "length (sql_update p f rows) = length rows"
  by (simp add: sql_update_def)

lemma sql_update_Nil [simp]: "sql_update p f [] = []"
  by (simp add: sql_update_def)

lemma sql_update_Cons [simp]:
  "sql_update p f (r # rows) = (if p r then f r else r) # sql_update p f rows"
  by (simp add: sql_update_def)

lemma sql_update_none: "(\<And>r. r \<in> set rows \<Longrightarrow> \<not> p r) \<Longrightarrow> sql_update p f rows = rows"
  by (simp add: sql_update_def map_idI)

lemma map_sql_update:
  "(\<And>r. r \<in> set rows \<Longrightarrow> p r \<Longrightarrow> g (f r) = g r) \<Longrightarrow> map g (sql_update p f rows) = map g rows"
  by (simp add: sql_update_def)

lemma sql_affected_0 [sql_simps]: "sql_affected p rows = 0 \<longleftrightarrow> (\<forall>r\<in>set rows. \<not> p r)"
  by (simp add: sql_affected_def filter_empty_conv)

lemma query_row_updated:
  "(\<And>r. p r \<Longrightarrow> \<not> p (f r)) \<Longrightarrow> query_row p (sql_update p f rows) = Inl ErrNoRows"
  by (auto simp: query_row_Inl set_sql_update)

text \<open>A table whose key is unique has at most one row that satisfies a condition on the key.\<close>

lemma distinct_key_unique:
  "distinct (map k rows) \<Longrightarrow> r \<in> set rows \<Longrightarrow> r' \<in> set rows \<Longrightarrow> k r = k r' \<Longrightarrow> r = r'"
  by (meson distinct_map inj_onD)

text \<open>The row with a given key, and selecting and updating through it.\<close>

definition row_at :: "('r \<Rightarrow> 'k) \<Rightarrow> 'k \<Rightarrow> 'r list \<Rightarrow> 'r option" where
  "row_at k c rows = find (\<lambda>r. k r = c) rows"

lemma row_at_Some: "row_at k c rows = Some r \<Longrightarrow> r \<in> set rows \<and> k r = c"
  by (auto simp: row_at_def find_Some_iff)

lemma row_at_None: "row_at k c rows = None \<longleftrightarrow> (\<forall>r\<in>set rows. k r \<noteq> c)"
  by (auto simp: row_at_def find_None_iff)

lemma row_at_unique:
  "distinct (map k rows) \<Longrightarrow> r \<in> set rows \<Longrightarrow> row_at k (k r) rows = Some r"
  by (induction rows) (auto simp: row_at_def)

lemma row_at_append:
  "row_at k c (xs @ ys) = (case row_at k c xs of None \<Rightarrow> row_at k c ys | Some r \<Rightarrow> Some r)"
  by (induction xs) (auto simp: row_at_def)

lemma row_at_sql_update [sql_simps]:
  "(\<And>r. p r \<Longrightarrow> k (f r) = k r) \<Longrightarrow>
   row_at k c (sql_update p f rows) = map_option (\<lambda>r. if p r then f r else r) (row_at k c rows)"
  by (induction rows) (auto simp: row_at_def)

lemma row_at_filter:
  "distinct (map k rows) \<Longrightarrow>
   row_at k c (filter q rows)
     = (case row_at k c rows of None \<Rightarrow> None | Some r \<Rightarrow> if q r then Some r else None)"
proof (induction rows)
  case (Cons r rows)
  have "\<forall>x\<in>set rows. k x \<noteq> k r"
  proof
    fix x assume "x \<in> set rows"
    then have "k x \<in> k ` set rows" by (rule imageI)
    with Cons.prems show "k x \<noteq> k r" by auto
  qed
  then have absent: "k r = c \<Longrightarrow> row_at k c rows = None \<and> row_at k c (filter q rows) = None"
    by (auto simp: row_at_None)
  from Cons have "row_at k c (filter q rows)
      = (case row_at k c rows of None \<Rightarrow> None | Some r \<Rightarrow> if q r then Some r else None)"
    by simp
  then show ?case using absent
    by (cases "k r = c"; cases "q r") (simp_all add: row_at_def)
qed (simp add: row_at_def)

lemma query_row_key:
  assumes "distinct (map k rows)"
  shows "query_row (\<lambda>r. k r = c \<and> q r) rows
     = (case row_at k c rows of None \<Rightarrow> Inl ErrNoRows
        | Some r \<Rightarrow> if q r then Inr r else Inl ErrNoRows)"
  using assms
proof (induction rows)
  case Nil
  then show ?case by (simp add: query_row_def row_at_def)
next
  case (Cons r rows)
  show ?case
  proof (cases "k r = c")
    case True
    from Cons.prems have "\<forall>x\<in>set rows. k x \<noteq> k r"
      by (metis distinct.simps(2) imageI list.set_map list.simps(9))
    with True have "\<forall>r'\<in>set rows. k r' \<noteq> c" by auto
    then have "filter (\<lambda>r. k r = c \<and> q r) rows = []" by (simp add: filter_empty_conv)
    with True show ?thesis by (simp add: query_row_def row_at_def)
  next
    case False
    with Cons.IH Cons.prems show ?thesis by (simp add: query_row_def row_at_def)
  qed
qed

lemma sql_affected_key:
  assumes "distinct (map k rows)" and "\<And>r. p r \<Longrightarrow> k r = c"
  shows "sql_affected p rows = (case row_at k c rows of None \<Rightarrow> 0 | Some r \<Rightarrow> if p r then 1 else 0)"
  using assms(1)
proof (induction rows)
  case (Cons r rows)
  show ?case
  proof (cases "k r = c")
    case True
    have "\<not> p r'" if "r' \<in> set rows" for r'
    proof
      assume "p r'"
      then have "k r' = k r" using assms(2) True by simp
      moreover have "k r' \<in> k ` set rows" using that by simp
      ultimately show False using Cons.prems by auto
    qed
    then have "filter p rows = []" by (simp add: filter_empty_conv)
    with True show ?thesis by (simp add: sql_affected_def row_at_def)
  next
    case False
    with assms(2) have "\<not> p r" by blast
    with False Cons show ?thesis by (simp add: sql_affected_def row_at_def)
  qed
qed (simp add: sql_affected_def row_at_def)

lemma sql_affected_key_1:
  assumes "distinct (map k rows)" and "\<And>r. p r \<Longrightarrow> k r = c" and "sql_affected p rows = 1"
  obtains r where "row_at k c rows = Some r" and "p r"
  using sql_affected_key [OF assms(1,2)] assms(3) by (cases "row_at k c rows") (auto split: if_splits)

lemma distinct_sql_update:
  "(\<And>r. r \<in> set rows \<Longrightarrow> p r \<Longrightarrow> k (f r) = k r) \<Longrightarrow> distinct (map k rows)
   \<Longrightarrow> distinct (map k (sql_update p f rows))"
  by (simp add: map_sql_update)

text \<open>\<open>order by k asc limit 1\<close>; of rows with the same key the first in table order.\<close>

fun first_by :: "('r \<Rightarrow> int) \<Rightarrow> 'r list \<Rightarrow> 'r option" where
  "first_by k [] = None"
| "first_by k (r # rs) =
     (case first_by k rs of None \<Rightarrow> Some r | Some m \<Rightarrow> if k m < k r then Some m else Some r)"

lemma first_by_None [simp]: "first_by k rs = None \<longleftrightarrow> rs = []"
  by (cases rs) (auto split: option.splits)

lemma first_by_in: "first_by k rs = Some r \<Longrightarrow> r \<in> set rs \<and> (\<forall>r'\<in>set rs. k r \<le> k r')"
  by (induction rs arbitrary: r) (fastforce split: option.splits if_splits)+

end
