(* ===== verification/Rate_Guard.thy ===== *)
theory Rate_Guard
  imports TH_Prelude
begin

text \<open>
  The contract of a persistent request guard, as the two connector stores implement it: a
  counter over a window that restarts when it has lasted \<open>span\<close>, a limit on the counter, and a
  minimum distance between two granted requests. The guard is driven by operations of any kind
  (\<open>'o\<close>); some of them are reservations, and \<open>granted\<close> says which of those succeed.

  The locale proves, once for every guard, what a caller may rely on over any sequence of
  operations whose clock does not run backwards: granted requests are at least \<open>gap\<close> apart, and
  no interval of length \<open>span\<close>, wherever it starts, holds more than twice the limit. The factor
  two is the price of a counter that restarts instead of sliding.
\<close>

section \<open>Traces of operations\<close>

fun guard_run :: "('o \<Rightarrow> 's \<Rightarrow> time \<Rightarrow> 's) \<Rightarrow> 's \<Rightarrow> ('o \<times> time) list \<Rightarrow> 's" where
  "guard_run step s [] = s"
| "guard_run step s ((x, t) # es) = guard_run step (step x s t) es"

fun granted_times ::
  "('o \<Rightarrow> 's \<Rightarrow> time \<Rightarrow> bool) \<Rightarrow> ('o \<Rightarrow> 's \<Rightarrow> time \<Rightarrow> 's) \<Rightarrow> 's \<Rightarrow> ('o \<times> time) list \<Rightarrow> time list"
where
  "granted_times granted step s [] = []"
| "granted_times granted step s ((x, t) # es) =
     (if granted x s t then [t] else []) @ granted_times granted step (step x s t) es"

definition clock_ordered :: "('o \<times> time) list \<Rightarrow> bool" where
  "clock_ordered es = sorted (map snd es)"

definition in_interval :: "time \<Rightarrow> duration \<Rightarrow> time \<Rightarrow> bool" where
  "in_interval a span g = (a \<le> g \<and> g < a + span)"

definition grants_within :: "time \<Rightarrow> duration \<Rightarrow> time list \<Rightarrow> nat" where
  "grants_within a span gs = length (filter (in_interval a span) gs)"

fun spaced :: "duration \<Rightarrow> time list \<Rightarrow> bool" where
  "spaced gap [] = True"
| "spaced gap [x] = True"
| "spaced gap (x # y # ys) = (x + gap \<le> y \<and> spaced gap (y # ys))"

text \<open>Ghost log: each grant with the start of the window it was counted in.\<close>

fun window_log ::
  "('o \<Rightarrow> 's \<Rightarrow> time \<Rightarrow> bool) \<Rightarrow> ('o \<Rightarrow> 's \<Rightarrow> time \<Rightarrow> 's) \<Rightarrow> ('s \<Rightarrow> time) \<Rightarrow> 's \<Rightarrow> ('o \<times> time) list
    \<Rightarrow> (time \<times> time) list"
where
  "window_log granted step win s [] = []"
| "window_log granted step win s ((x, t) # es) =
     (if granted x s t then [(win (step x s t), t)] else [])
     @ window_log granted step win (step x s t) es"

lemma granted_times_window_log:
  "granted_times granted step s es = map snd (window_log granted step win s es)"
  by (induction granted step win s es rule: window_log.induct) simp_all

lemma clock_ordered_Cons [simp]:
  "clock_ordered ((x, t) # es) \<longleftrightarrow> (\<forall>e\<in>set es. t \<le> snd e) \<and> clock_ordered es"
  by (auto simp: clock_ordered_def)

definition log_count :: "time \<Rightarrow> (time \<times> time) list \<Rightarrow> nat" where
  "log_count w log = length (filter (\<lambda>p. fst p = w) log)"

definition log_entries :: "duration \<Rightarrow> (time \<times> time) list \<Rightarrow> bool" where
  "log_entries span log =
     ((\<forall>p\<in>set log. fst p \<le> snd p \<and> snd p < fst p + span)
      \<and> (\<forall>p\<in>set log. \<forall>q\<in>set log. fst p < fst q \<longrightarrow> fst p + span \<le> fst q))"

section \<open>Counting\<close>

lemma length_filter_card_bound:
  assumes "finite W" and "\<And>p. p \<in> set xs \<Longrightarrow> P p \<Longrightarrow> f p \<in> W"
    and "\<And>w. w \<in> W \<Longrightarrow> length (filter (\<lambda>p. f p = w) xs) \<le> n"
  shows "length (filter P xs) \<le> card W * n"
proof -
  have "length (filter P xs) \<le> length (filter (\<lambda>p. f p \<in> W) xs)"
    using assms(2) by (induction xs) auto
  also have "\<dots> = (\<Sum>w\<in>W. length (filter (\<lambda>p. f p = w) xs))"
  proof (induction xs)
    case (Cons x xs)
    have "(\<Sum>w\<in>W. length (filter (\<lambda>p. f p = w) (x # xs)))
        = (\<Sum>w\<in>W. (if f x = w then 1 else 0) + length (filter (\<lambda>p. f p = w) xs))"
      by (intro sum.cong) auto
    also have "\<dots> = (if f x \<in> W then 1 else 0) + (\<Sum>w\<in>W. length (filter (\<lambda>p. f p = w) xs))"
      using assms(1) by (simp add: sum.distrib)
    finally show ?case using Cons.IH by simp
  qed simp
  also have "\<dots> \<le> (\<Sum>w\<in>W. n)"
    by (intro sum_mono assms(3))
  finally show ?thesis by simp
qed

text \<open>Points at least \<open>d\<close> apart: an open interval of length \<open>2 d\<close> holds at most two of them.\<close>

lemma spread_card_le_2:
  fixes W :: "int set"
  assumes "finite W" and "\<And>v w. v \<in> W \<Longrightarrow> w \<in> W \<Longrightarrow> v < w \<Longrightarrow> v + d \<le> w"
    and "\<And>w. w \<in> W \<Longrightarrow> a - d < w \<and> w < a + d"
  shows "card W \<le> 2"
proof (rule ccontr)
  assume "\<not> card W \<le> 2"
  then have "Suc (Suc (Suc 0)) \<le> card W" by simp
  then obtain T where T: "T \<subseteq> W" "card T = 3"
    by (metis obtain_subset_with_card_n numeral_3_eq_3)
  then obtain x y z where xyz: "{x, y, z} \<subseteq> W" "x \<noteq> y" "y \<noteq> z" "x \<noteq> z"
    by (auto simp: card_3_iff)
  define p where "p = Min {x, y, z}"
  define q where "q = Max {x, y, z}"
  have pq: "p \<in> W" "q \<in> W" using xyz(1) by (auto simp: p_def q_def min_def max_def)
  have "\<exists>m\<in>{x, y, z}. p < m \<and> m < q"
    using xyz(2-4) by (auto simp: p_def q_def min_def max_def)
  then obtain m where "m \<in> W" "p < m" "m < q" using xyz(1) by auto
  with pq have "p + d \<le> m" "m + d \<le> q" using assms(2) by auto
  then have "p + d + d \<le> q" by linarith
  moreover have "a - d < p" "q < a + d" using assms(3) \<open>p \<in> W\<close> \<open>q \<in> W\<close> by auto
  ultimately show False by linarith
qed

section \<open>The contract\<close>

text \<open>A window \<open>(start, count)\<close>: it restarts when it is over or lies in the future.\<close>

definition window_restart :: "duration \<Rightarrow> time \<Rightarrow> time \<times> int \<Rightarrow> time \<times> int" where
  "window_restart span t w = (if t - fst w \<ge> span \<or> t < fst w then (t, 0) else w)"

definition window_count :: "time \<times> int \<Rightarrow> time \<times> int" where
  "window_count w = (fst w, snd w + 1)"

locale rate_guard =
  fixes inv :: "'s \<Rightarrow> bool"
    and step :: "'o \<Rightarrow> 's \<Rightarrow> time \<Rightarrow> 's"
    and granted :: "'o \<Rightarrow> 's \<Rightarrow> time \<Rightarrow> bool"
    and window :: "'s \<Rightarrow> time \<times> int"
    and last_grant :: "'s \<Rightarrow> time option"
    and lim :: int
    and span :: duration
    and gap :: duration
  assumes span_pos: "0 < span"
    and inv_step: "inv s \<Longrightarrow> inv (step x s t)"
    and count_nonneg: "inv s \<Longrightarrow> 0 \<le> snd (window s)"
    and denied_window: "inv s \<Longrightarrow> \<not> granted x s t \<Longrightarrow>
      window (step x s t) = window s \<or> window (step x s t) = window_restart span t (window s)"
    and granted_window: "inv s \<Longrightarrow> granted x s t \<Longrightarrow>
      snd (window_restart span t (window s)) < lim
      \<and> window (step x s t) = window_count (window_restart span t (window s))"
    and last_kept: "inv s \<Longrightarrow> \<not> granted x s t \<Longrightarrow> last_grant (step x s t) = last_grant s"
    and last_set: "inv s \<Longrightarrow> granted x s t \<Longrightarrow> last_grant (step x s t) = Some t"
    and grant_gap: "inv s \<Longrightarrow> granted x s t \<Longrightarrow> last_grant s = Some u \<Longrightarrow> u + gap \<le> t"
begin

abbreviation win :: "'s \<Rightarrow> time" where "win s \<equiv> fst (window s)"
abbreviation cnt :: "'s \<Rightarrow> int" where "cnt s \<equiv> snd (window s)"

lemma cnt_nonneg: "inv s \<Longrightarrow> 0 \<le> cnt s"
  by (rule count_nonneg)

lemma step_window:
  assumes "inv s" and "\<not> granted x s t"
  shows "(win (step x s t) = win s \<and> cnt (step x s t) = cnt s)
      \<or> ((win s + span \<le> t \<or> t < win s) \<and> win (step x s t) = t \<and> cnt (step x s t) = 0)"
  using denied_window [OF assms] by (auto simp: window_restart_def algebra_simps)

lemma grant_window:
  assumes "inv s" and "granted x s t"
  shows "(win s \<le> t \<and> t < win s + span \<and> win (step x s t) = win s
         \<and> cnt (step x s t) = cnt s + 1 \<and> cnt s < lim)
      \<or> ((win s + span \<le> t \<or> t < win s) \<and> win (step x s t) = t
         \<and> cnt (step x s t) = 1 \<and> 0 < lim)"
  using granted_window [OF assms]
  by (auto simp: window_restart_def window_count_def algebra_simps split: if_splits)

lemma inv_run: "inv s \<Longrightarrow> inv (guard_run step s es)"
  by (induction es arbitrary: s) (auto simp: inv_step)

lemma grants_spaced:
  assumes "inv s"
  shows "spaced gap (granted_times granted step s es)
    \<and> (\<forall>u g gs. last_grant s = Some u \<longrightarrow> granted_times granted step s es = g # gs \<longrightarrow> u + gap \<le> g)"
  using assms
proof (induction es arbitrary: s)
  case (Cons e es)
  obtain x t where e: "e = (x, t)" by force
  from Cons.prems have i: "inv (step x s t)" by (rule inv_step)
  note IH = Cons.IH [OF i]
  show ?case
  proof (cases "granted x s t")
    case False
    with e IH last_kept [OF Cons.prems False] show ?thesis by auto
  next
    case True
    have l: "last_grant (step x s t) = Some t" by (rule last_set [OF Cons.prems True])
    have "spaced gap (t # granted_times granted step (step x s t) es)"
      using IH l by (cases "granted_times granted step (step x s t) es") auto
    with e True grant_gap [OF Cons.prems True] show ?thesis by auto
  qed
qed simp

text \<open>
  The log from a state whose window has begun: every entry belongs to the current window or to
  one that starts a full span later, and the current window takes no more entries than it has
  room for.
\<close>

definition log_from :: "'s \<Rightarrow> (time \<times> time) list \<Rightarrow> bool" where
  "log_from s log =
     ((\<forall>p\<in>set log. (fst p = win s \<or> win s + span \<le> fst p))
      \<and> log_entries span log
      \<and> log_count (win s) log \<le> nat (lim - cnt s)
      \<and> (\<forall>w. w \<noteq> win s \<longrightarrow> log_count w log \<le> nat lim))"

lemma log_from_reset:
  assumes "log_from s' log" and "win s + span \<le> win s'" and "0 \<le> cnt s'"
  shows "log_from s log"
proof -
  have "log_count (win s) log = 0"
    using assms(1,2) span_pos by (force simp: log_from_def log_count_def filter_empty_conv)
  moreover have "log_count w log \<le> nat lim" for w
    using assms(1,3) by (cases "w = win s'") (auto simp: log_from_def)
  moreover have "win s + span \<le> fst p" if "p \<in> set log" for p
    using assms(1,2) span_pos that by (force simp: log_from_def)
  ultimately show ?thesis using assms(1) by (auto simp: log_from_def)
qed

lemma log_from_grant:
  assumes "log_from s' log" and "win s' \<le> t" and "t < win s' + span"
    and "cnt s' = c + 1" and "c < lim"
  shows "log_entries span ((win s', t) # log)"
    and "log_count (win s') ((win s', t) # log) \<le> nat (lim - c)"
    and "w \<noteq> win s' \<Longrightarrow> log_count w ((win s', t) # log) \<le> nat lim"
proof -
  show "log_entries span ((win s', t) # log)"
    using assms(1-3) by (fastforce simp: log_from_def log_entries_def)
  have "log_count (win s') log \<le> nat (lim - cnt s')" using assms(1) by (simp add: log_from_def)
  with assms(4,5) show "log_count (win s') ((win s', t) # log) \<le> nat (lim - c)"
    by (simp add: log_count_def)
  show "w \<noteq> win s' \<Longrightarrow> log_count w ((win s', t) # log) \<le> nat lim"
    using assms(1) by (simp add: log_from_def log_count_def)
qed

lemma log_from_run:
  assumes "inv s" and "clock_ordered es" and "\<forall>e\<in>set es. win s \<le> snd e"
  shows "log_from s (window_log granted step win s es)"
  using assms
proof (induction es arbitrary: s)
  case Nil
  then show ?case by (simp add: log_from_def log_entries_def log_count_def)
next
  case (Cons e es)
  obtain x t where e: "e = (x, t)" by force
  let ?s = "step x s t" and ?log = "window_log granted step win (step x s t) es"
  have i: "inv ?s" using Cons.prems(1) by (rule inv_step)
  have t: "win s \<le> t" "clock_ordered es" "\<forall>e\<in>set es. t \<le> snd e" "\<forall>e\<in>set es. win s \<le> snd e"
    using Cons.prems(2,3) e by auto
  show ?case
  proof (cases "granted x s t")
    case False
    from step_window [OF Cons.prems(1) False] t(1)
    consider (kept) "win ?s = win s" "cnt ?s = cnt s" | (reset) "win s + span \<le> t" "win ?s = t" "cnt ?s = 0"
      by auto
    then show ?thesis
    proof cases
      case kept
      with Cons.IH [OF i t(2)] t(4) e False show ?thesis by (simp add: log_from_def)
    next
      case reset
      with Cons.IH [OF i t(2)] t(3) e False log_from_reset [of ?s ?log s] show ?thesis by simp
    qed
  next
    case True
    from grant_window [OF Cons.prems(1) True] t(1)
    consider (kept) "t < win s + span" "win ?s = win s" "cnt ?s = cnt s + 1" "cnt s < lim"
      | (reset) "win s + span \<le> t" "win ?s = t" "cnt ?s = 1" "0 < lim"
      by auto
    then show ?thesis
    proof cases
      case kept
      with Cons.IH [OF i t(2)] t(4) have "log_from ?s ?log" by simp
      note g = log_from_grant [OF this _ _ kept(3,4), of t] and this
      with kept t(1) e True show ?thesis by (auto simp: log_from_def)
    next
      case reset
      with Cons.IH [OF i t(2)] t(3) have l: "log_from ?s ?log" by simp
      have "log_from ?s ?log \<Longrightarrow> log_count w ((t, t) # ?log) \<le> nat lim" for w
        using log_from_grant(2,3) [of ?s ?log t 0] reset span_pos by (cases "w = t") auto
      moreover have "log_count (win s) ((t, t) # ?log) = 0"
        using l reset span_pos by (force simp: log_from_def log_count_def filter_empty_conv)
      moreover have "\<forall>p\<in>set ?log. win s + span \<le> fst p"
        using l reset span_pos by (force simp: log_from_def)
      moreover have "log_entries span ((t, t) # ?log)"
        using log_from_grant(1) [OF l, of t 0] reset span_pos by simp
      ultimately show ?thesis using l e True reset by (simp add: log_from_def)
    qed
  qed
qed

text \<open>A window that lies in the future grants nothing before it restarts.\<close>

lemma log_run:
  assumes "inv s" and "clock_ordered es"
  shows "log_entries span (window_log granted step win s es)
    \<and> (\<forall>w. log_count w (window_log granted step win s es) \<le> nat lim)"
  using assms
proof (induction es arbitrary: s)
  case Nil
  then show ?case by (simp add: log_entries_def log_count_def)
next
  case (Cons e es)
  obtain x t where e: "e = (x, t)" by force
  let ?s = "step x s t" and ?log = "window_log granted step win (step x s t) es"
  have i: "inv ?s" using Cons.prems(1) by (rule inv_step)
  have t: "clock_ordered es" "\<forall>e\<in>set es. t \<le> snd e" using Cons.prems(2) e by auto
  have close: "log_from s' log \<Longrightarrow> inv s' \<Longrightarrow> log_entries span log \<and> (\<forall>w. log_count w log \<le> nat lim)" for s' log
    using cnt_nonneg [of s'] by (auto simp: log_from_def intro: order_trans)
      (metis diff_ge_0_iff_ge diff_left_mono diff_zero dual_order.trans nat_mono)
  show ?case
  proof (cases "win s \<le> t")
    case True
    then have "\<forall>e\<in>set (e # es). win s \<le> snd e" using t(2) e by auto
    from close [OF log_from_run [OF Cons.prems this] Cons.prems(1)] show ?thesis .
  next
    case future: False
    show ?thesis
    proof (cases "granted x s t")
      case True
      from grant_window [OF Cons.prems(1) True] future
      have w: "win ?s = t" "cnt ?s = 1" "0 < lim" by auto
      have l: "log_from ?s ?log" using log_from_run [OF i t(1)] t(2) w by simp
      have "log_count w ((t, t) # ?log) \<le> nat lim" for w
        using log_from_grant(2,3) [OF l, of t 0] w span_pos by (cases "w = t") auto
      moreover have "log_entries span ((t, t) # ?log)"
        using log_from_grant(1) [OF l, of t 0] w span_pos by simp
      ultimately show ?thesis using e True w by simp
    next
      case False
      from step_window [OF Cons.prems(1) False]
      consider "win ?s = win s" | "win ?s = t" by auto
      then show ?thesis
      proof cases
        case 1
        with Cons.IH [OF i t(1)] e False show ?thesis by simp
      next
        case 2
        then have "log_from ?s ?log" using log_from_run [OF i t(1)] t(2) by simp
        from close [OF this i] e False show ?thesis by simp
      qed
    qed
  qed
qed

theorem grants_bounded:
  assumes "inv s" and "clock_ordered es"
  shows "grants_within a span (granted_times granted step s es) \<le> 2 * nat lim"
proof -
  let ?log = "window_log granted step win s es"
  let ?W = "fst ` {p \<in> set ?log. in_interval a span (snd p)}"
  from log_run [OF assms] have ok: "log_entries span ?log" and c: "\<And>w. log_count w ?log \<le> nat lim"
    by auto
  have "grants_within a span (granted_times granted step s es)
      = length (filter (\<lambda>p. in_interval a span (snd p)) ?log)"
    by (simp add: grants_within_def granted_times_window_log [of _ _ _ _ win] filter_map o_def)
  also have "\<dots> \<le> card ?W * nat lim"
    by (rule length_filter_card_bound [where f = fst]) (use c in \<open>auto simp: log_count_def\<close>)
  also have "\<dots> \<le> 2 * nat lim"
  proof (rule mult_le_mono1, rule spread_card_le_2)
    show "v + span \<le> w" if "v \<in> ?W" "w \<in> ?W" "v < w" for v w
      using ok that by (fastforce simp: log_entries_def)
    show "a - span < w \<and> w < a + span" if "w \<in> ?W" for w
      using ok that by (fastforce simp: log_entries_def in_interval_def)
  qed simp
  finally show ?thesis .
qed

end

end
