(* ===== verification/Store_Tables.thy ===== *)
theory Store_Tables
  imports TH_Prelude
begin

text \<open>
  Rows that several stores share: the connections of \<open>ai_connections\<close> (the columns the modelled
  statements read or write), the account tables behind every "user, organisation and membership
  are active" condition, and the text helper of \<open>internal/store/browser_connectors.go\<close>.
\<close>

section \<open>Connections\<close>

record connection =
  cn_id :: string
  cn_owner :: string
  cn_org :: string
  cn_provider :: string
  cn_auth_method :: string
  cn_status :: string
  cn_auth_status :: string
  cn_risk_level :: string
  cn_connector_id :: string
  cn_fingerprint :: string
  cn_last_error_code :: string
  cn_last_error_message :: string
  cn_deleted_at :: "time option"
  cn_updated_at :: time

text \<open>\<open>auth_method=m and status <> 'deleted' and deleted_at is null\<close>\<close>

definition conn_live :: "string \<Rightarrow> connection \<Rightarrow> bool" where
  "conn_live m c = (cn_auth_method c = m \<and> cn_status c \<noteq> ''deleted'' \<and> cn_deleted_at c = None)"

definition conn_of :: "string \<Rightarrow> string \<Rightarrow> string \<Rightarrow> connection \<Rightarrow> bool" where
  "conn_of owner org cid c = (cn_id c = cid \<and> cn_owner c = owner \<and> cn_org c = org)"

text \<open>The five columns every status change of a connection sets, with \<open>updated_at=now()\<close>.\<close>

definition conn_set_status ::
  "string \<Rightarrow> string \<Rightarrow> string \<Rightarrow> string \<Rightarrow> string \<Rightarrow> time \<Rightarrow> connection \<Rightarrow> connection"
where
  "conn_set_status status auth risk code msg now c =
     c\<lparr>cn_status := status, cn_auth_status := auth, cn_risk_level := risk,
       cn_last_error_code := code, cn_last_error_message := msg, cn_updated_at := now\<rparr>"

lemma conn_set_status_sel [simp]:
  "cn_id (conn_set_status s a k e m n c) = cn_id c"
  "cn_owner (conn_set_status s a k e m n c) = cn_owner c"
  "cn_org (conn_set_status s a k e m n c) = cn_org c"
  "cn_auth_method (conn_set_status s a k e m n c) = cn_auth_method c"
  "cn_deleted_at (conn_set_status s a k e m n c) = cn_deleted_at c"
  "cn_status (conn_set_status s a k e m n c) = s"
  "cn_auth_status (conn_set_status s a k e m n c) = a"
  "cn_risk_level (conn_set_status s a k e m n c) = k"
  "cn_last_error_code (conn_set_status s a k e m n c) = e"
  by (simp_all add: conn_set_status_def)

section \<open>Accounts\<close>

text \<open>Ids of active users, of active organisations, and the active memberships (org, user).\<close>

record accounts =
  active_users :: "string list"
  active_orgs :: "string list"
  active_members :: "(string \<times> string) list"

definition account_active :: "accounts \<Rightarrow> string \<Rightarrow> string \<Rightarrow> bool" where
  "account_active a owner org =
     (owner \<in> set (active_users a) \<and> org \<in> set (active_orgs a) \<and> (org, owner) \<in> set (active_members a))"

section \<open>Text\<close>

definition truncate_store_text :: "string \<Rightarrow> nat \<Rightarrow> string" where
  "truncate_store_text v mx =
     (let value = trim_space v in if rune_count value \<le> mx then value else take_runes mx value)"

lemma truncate_store_text_bound: "rune_count (truncate_store_text v mx) \<le> mx"
  by (simp add: truncate_store_text_def Let_def rune_count_take_runes)

end
