(* ===== verification/Client_Risk.thy ===== *)
theory Client_Risk
  imports Rate_Guard Store_Tables
begin

text \<open>
  The request guard of official-client connections, \<open>internal/store/client_connectors.go\<close>: the
  table \<open>ai_client_account_risk\<close> and the operations that read and write it, each one
  transaction on the two tables it touches. Foreign keys to users, organisations and connectors
  are taken to hold; the one to the connection is modelled.
\<close>

section \<open>State\<close>

datatype client_state =
    CNormal | CCooldown | CReauthRequired | CSecurityLocked | CPolicyLocked | CManualRecovery | CPaused

fun client_state_name :: "client_state \<Rightarrow> string" where
  "client_state_name CNormal = ''normal''"
| "client_state_name CCooldown = ''cooldown''"
| "client_state_name CReauthRequired = ''reauth_required''"
| "client_state_name CSecurityLocked = ''security_locked''"
| "client_state_name CPolicyLocked = ''policy_locked''"
| "client_state_name CManualRecovery = ''manual_recovery''"
| "client_state_name CPaused = ''paused''"

record client_risk =
  cr_connection_id :: string
  cr_owner :: string
  cr_org :: string
  cr_connector_id :: string
  cr_provider :: string
  cr_account_subject :: string
  cr_assurance :: string
  cr_state :: client_state
  cr_cooldown_until :: "time option"
  cr_hour_start :: time
  cr_day_start :: time
  cr_rate_start :: time
  cr_requests_hour :: int
  cr_requests_day :: int
  cr_rate_events :: int
  cr_identity_changes :: int
  cr_failures :: int
  cr_last_request :: "time option"
  cr_last_success :: "time option"
  cr_last_error :: "time option"
  cr_last_error_code :: string
  cr_updated_at :: time

record client_risk_view = client_risk +
  cv_interval_seconds :: int
  cv_hourly_limit :: int
  cv_daily_limit :: int

record client_decision =
  cd_allowed :: bool
  cd_reason :: string
  cd_retry_at :: "time option"
  cd_risk :: client_risk_view

record risk_db =
  rd_risks :: "client_risk list"
  rd_conns :: "connection list"

definition client_min_interval :: duration where "client_min_interval = 15 * second"
definition client_hourly_limit :: int where "client_hourly_limit = 20"
definition client_daily_limit :: int where "client_daily_limit = 80"

section \<open>Reading and writing a row\<close>

definition client_select :: "string \<Rightarrow> string \<Rightarrow> string \<Rightarrow> risk_db \<Rightarrow> client_risk res" where
  "client_select owner org cid db =
     query_row (\<lambda>r. cr_connection_id r = cid \<and> cr_owner r = owner \<and> cr_org r = org) (rd_risks db)"

definition client_columns :: "client_risk \<Rightarrow> client_risk \<Rightarrow> client_risk" where
  "client_columns st r = r\<lparr>
     cr_state := cr_state st, cr_cooldown_until := cr_cooldown_until st,
     cr_hour_start := cr_hour_start st, cr_day_start := cr_day_start st,
     cr_rate_start := cr_rate_start st, cr_requests_hour := cr_requests_hour st,
     cr_requests_day := cr_requests_day st, cr_rate_events := cr_rate_events st,
     cr_identity_changes := cr_identity_changes st, cr_failures := cr_failures st,
     cr_last_request := cr_last_request st, cr_last_success := cr_last_success st,
     cr_last_error := cr_last_error st, cr_last_error_code := cr_last_error_code st,
     cr_updated_at := cr_updated_at st, cr_assurance := cr_assurance st\<rparr>"

definition client_update :: "client_risk \<Rightarrow> risk_db \<Rightarrow> risk_db" where
  "client_update st db = db\<lparr>rd_risks :=
     sql_update (\<lambda>r. cr_connection_id r = cr_connection_id st) (client_columns st) (rd_risks db)\<rparr>"

definition client_limits :: "client_risk \<Rightarrow> client_risk_view" where
  "client_limits st = client_risk.extend st
     (client_risk_view.fields (client_min_interval div second) client_hourly_limit client_daily_limit)"

lemma client_limits_sel [simp]:
  "cr_state (client_limits st) = cr_state st"
  "cr_cooldown_until (client_limits st) = cr_cooldown_until st"
  "cr_requests_hour (client_limits st) = cr_requests_hour st"
  "cr_requests_day (client_limits st) = cr_requests_day st"
  by (cases st, simp add: client_limits_def client_risk.defs client_risk_view.defs)+

definition client_normalize :: "client_risk \<Rightarrow> time \<Rightarrow> client_risk" where
  "client_normalize s0 now =
     (let s1 = (if now - cr_hour_start s0 \<ge> hour \<or> now < cr_hour_start s0
                then s0\<lparr>cr_hour_start := now, cr_requests_hour := 0\<rparr> else s0);
          s2 = (if now - cr_day_start s1 \<ge> 24 * hour \<or> now < cr_day_start s1
                then s1\<lparr>cr_day_start := now, cr_requests_day := 0\<rparr> else s1);
          s3 = (if now - cr_rate_start s2 \<ge> 24 * hour \<or> now < cr_rate_start s2
                then s2\<lparr>cr_rate_start := now, cr_rate_events := 0\<rparr> else s2)
      in if cr_state s3 = CCooldown \<and> (case cr_cooldown_until s3 of None \<Rightarrow> False | Some u \<Rightarrow> u \<le> now)
         then s3\<lparr>cr_state := CNormal, cr_cooldown_until := None\<rparr> else s3)"

section \<open>Operations\<close>

definition initialize_client_risk ::
  "string \<Rightarrow> string \<Rightarrow> string \<Rightarrow> string \<Rightarrow> string \<Rightarrow> string \<Rightarrow> string \<Rightarrow> time \<Rightarrow> risk_db \<Rightarrow> unit res \<times> risk_db"
where
  "initialize_client_risk cid owner org connector provider subject assurance0 now db =
     (let assurance = (if assurance0 \<noteq> ''account'' then ''device'' else assurance0);
          fresh = \<lparr>cr_connection_id = cid, cr_owner = owner, cr_org = org, cr_connector_id = connector,
             cr_provider = provider, cr_account_subject = subject, cr_assurance = assurance,
             cr_state = CNormal, cr_cooldown_until = None, cr_hour_start = now, cr_day_start = now,
             cr_rate_start = now, cr_requests_hour = 0, cr_requests_day = 0, cr_rate_events = 0,
             cr_identity_changes = 0, cr_failures = 0, cr_last_request = None, cr_last_success = None,
             cr_last_error = None, cr_last_error_code = [], cr_updated_at = now\<rparr>
      in if provider \<noteq> ''openai'' \<and> provider \<noteq> ''grok''
         then (Inl (ErrConstraint ''provider''), db)
         else if sql_exists (\<lambda>r. cr_connection_id r = cid) (rd_risks db)
         then (Inr (), db\<lparr>rd_risks := sql_update (\<lambda>r. cr_connection_id r = cid)
             (\<lambda>r. r\<lparr>cr_connector_id := connector, cr_account_subject := subject,
                    cr_assurance := assurance, cr_updated_at := now\<rparr>) (rd_risks db)\<rparr>)
         else if \<not> sql_exists (\<lambda>c. cn_id c = cid) (rd_conns db)
         then (Inl (ErrConstraint ''connection_id''), db)
         else (Inr (), db\<lparr>rd_risks := rd_risks db @ [fresh]\<rparr>))"

definition client_risk_for_connection ::
  "string \<Rightarrow> string \<Rightarrow> string \<Rightarrow> time \<Rightarrow> risk_db \<Rightarrow> client_risk_view res"
where
  "client_risk_for_connection owner org cid clock db =
     (case client_select owner org cid db of
        Inl e \<Rightarrow> Inl e
      | Inr st \<Rightarrow> Inr (client_limits (client_normalize st clock)))"

text \<open>The decision of a reservation on the normalised row, and the row it writes back.\<close>

definition client_admit :: "client_risk \<Rightarrow> time \<Rightarrow> (bool \<times> string \<times> time option) \<times> client_risk" where
  "client_admit st now =
     (if cr_state st \<noteq> CNormal
      then ((False, client_state_name (cr_state st), cr_cooldown_until st), st)
      else if (case cr_last_request st of None \<Rightarrow> False | Some l \<Rightarrow> l + client_min_interval > now)
      then ((False, ''minimum_interval'',
             map_option (\<lambda>l. l + client_min_interval) (cr_last_request st)), st)
      else if cr_requests_hour st \<ge> client_hourly_limit
      then ((False, ''hourly_limit'', Some (cr_hour_start st + hour)), st)
      else if cr_requests_day st \<ge> client_daily_limit
      then ((False, ''daily_limit'', Some (cr_day_start st + 24 * hour)), st)
      else ((True, [], None),
            st\<lparr>cr_requests_hour := cr_requests_hour st + 1,
               cr_requests_day := cr_requests_day st + 1, cr_last_request := Some now\<rparr>))"

definition reserve_client_request ::
  "string \<Rightarrow> string \<Rightarrow> string \<Rightarrow> time \<Rightarrow> time \<Rightarrow> risk_db \<Rightarrow> client_decision res \<times> risk_db"
where
  "reserve_client_request owner org cid now0 clock db =
     (let now = or_clock now0 clock in
      case client_select owner org cid db of
        Inl e \<Rightarrow> (Inl e, db)
      | Inr row \<Rightarrow>
          (let ((allowed, reason, retry), st1) = client_admit (client_normalize row now) now;
               st2 = st1\<lparr>cr_updated_at := now\<rparr>
           in (Inr \<lparr>cd_allowed = allowed, cd_reason = reason, cd_retry_at = retry,
                    cd_risk = client_limits st2\<rparr>,
               client_update st2 db)))"

text \<open>The \<open>switch errorCode\<close> of a failed request; the failure counters are already updated.\<close>

definition client_failure :: "string \<Rightarrow> duration \<Rightarrow> time \<Rightarrow> client_risk \<Rightarrow> client_risk" where
  "client_failure code retry_after now st =
     (if code \<in> {''unauthorized'', ''login_required'', ''401''}
      then st\<lparr>cr_state := CReauthRequired, cr_cooldown_until := None\<rparr>
      else if code \<in> {''forbidden'', ''security_challenge'', ''403'', ''identity_changed''}
      then (let st1 = st\<lparr>cr_state := CSecurityLocked, cr_cooldown_until := None\<rparr>
            in if code = ''identity_changed''
               then st1\<lparr>cr_identity_changes := cr_identity_changes st1 + 1\<rparr> else st1)
      else if code \<in> {''tool_event'', ''tool_call'', ''policy_violation''}
      then st\<lparr>cr_state := CPolicyLocked, cr_cooldown_until := None\<rparr>
      else if code \<in> {''rate_limited'', ''429''}
      then (let st1 = (if now - cr_rate_start st \<ge> 24 * hour
                       then st\<lparr>cr_rate_start := now, cr_rate_events := 0\<rparr> else st);
                st2 = st1\<lparr>cr_rate_events := cr_rate_events st1 + 1\<rparr>
            in if cr_rate_events st2 \<ge> 2
               then st2\<lparr>cr_state := CManualRecovery, cr_cooldown_until := None\<rparr>
               else let retry = (if retry_after < hour then hour else retry_after)
                    in st2\<lparr>cr_state := CCooldown, cr_cooldown_until := Some (now + retry)\<rparr>)
      else st\<lparr>cr_state := CCooldown, cr_cooldown_until := Some (now + 5 * minute)\<rparr>)"

definition client_result :: "bool \<Rightarrow> string \<Rightarrow> duration \<Rightarrow> time \<Rightarrow> client_risk \<Rightarrow> client_risk" where
  "client_result ok code retry_after now st =
     (if ok
      then (let st1 = st\<lparr>cr_failures := 0, cr_last_success := Some now\<rparr>
            in if cr_state st1 = CCooldown
               then st1\<lparr>cr_state := CNormal, cr_cooldown_until := None\<rparr> else st1)
      else client_failure code retry_after now
             (st\<lparr>cr_failures := cr_failures st + 1, cr_last_error := Some now,
                 cr_last_error_code := code\<rparr>))"

definition record_client_result ::
  "string \<Rightarrow> string \<Rightarrow> string \<Rightarrow> bool \<Rightarrow> string \<Rightarrow> duration \<Rightarrow> time \<Rightarrow> time \<Rightarrow> risk_db
    \<Rightarrow> client_risk_view res \<times> risk_db"
where
  "record_client_result owner org cid ok code0 retry_after now0 clock db =
     (let now = or_clock now0 clock in
      case client_select owner org cid db of
        Inl e \<Rightarrow> (Inl e, db)
      | Inr row \<Rightarrow>
          (let st0 = client_normalize row now;
               code = to_lower (trim_space code0);
               st = (client_result ok code retry_after now st0)\<lparr>cr_updated_at := now\<rparr>
           in (Inr (client_limits st), client_update st db)))"

definition set_client_paused ::
  "string \<Rightarrow> string \<Rightarrow> string \<Rightarrow> bool \<Rightarrow> time \<Rightarrow> risk_db \<Rightarrow> client_risk_view res \<times> risk_db"
where
  "set_client_paused owner org cid paused clock db =
     (case client_select owner org cid db of
        Inl e \<Rightarrow> (Inl e, db)
      | Inr st0 \<Rightarrow>
          if paused \<and> cr_state st0 \<noteq> CNormal \<and> cr_state st0 \<noteq> CPaused
          then (Inl (ErrNamed ''ErrAIClientRiskTransitionDenied''), db)
          else if \<not> paused \<and> cr_state st0 \<noteq> CNormal \<and> cr_state st0 \<noteq> CPaused
                  \<and> cr_state st0 \<noteq> CManualRecovery
          then (Inl (ErrNamed ''ErrAIClientRiskTransitionDenied''), db)
          else
            (let st1 = (if paused \<and> cr_state st0 = CNormal then st0\<lparr>cr_state := CPaused\<rparr>
                        else if \<not> paused \<and> (cr_state st0 = CPaused \<or> cr_state st0 = CManualRecovery)
                        then st0\<lparr>cr_state := CNormal, cr_failures := 0, cr_last_error_code := [],
                                 cr_rate_events := 0\<rparr>
                        else st0);
                 st = st1\<lparr>cr_updated_at := clock\<rparr>;
                 db1 = client_update st db;
                 (status, auth, risk, code, msg) =
                   (if cr_state st = CNormal then (''active'', ''active'', ''elevated'', [], [])
                    else (''attention'', ''active'', ''paused'', ''official_client_paused'',
                          ''Official client connection is paused''));
                 sel = (\<lambda>c. conn_of owner org cid c \<and> conn_live ''official_client'' c)
             in if sql_affected sel (rd_conns db1) \<noteq> 1 then (Inl ErrNoRows, db)
                else (Inr (client_limits st),
                      db1\<lparr>rd_conns := sql_update sel
                            (conn_set_status status auth risk code msg clock) (rd_conns db1)\<rparr>)))"

definition confirm_client_identity ::
  "string \<Rightarrow> string \<Rightarrow> string \<Rightarrow> string \<Rightarrow> string \<Rightarrow> time \<Rightarrow> time \<Rightarrow> risk_db
    \<Rightarrow> (client_risk_view \<times> bool) res \<times> risk_db"
where
  "confirm_client_identity owner org cid subject assurance0 now0 clock db =
     (let now = or_clock now0 clock;
          assurance = (if assurance0 \<noteq> ''account'' then ''device'' else assurance0) in
      case client_select owner org cid db of
        Inl e \<Rightarrow> (Inl e, db)
      | Inr row \<Rightarrow>
          (let st0 = client_normalize row now;
               matched = (trim_space subject \<noteq> [] \<and> cr_account_subject st0 = trim_space subject);
               st1 = (if \<not> matched
                      then st0\<lparr>cr_state := CSecurityLocked, cr_cooldown_until := None,
                               cr_identity_changes := cr_identity_changes st0 + 1,
                               cr_last_error := Some now, cr_last_error_code := ''identity_changed''\<rparr>
                      else (let s = st0\<lparr>cr_assurance := assurance, cr_failures := 0,
                                        cr_last_error_code := []\<rparr>
                            in if cr_state s = CReauthRequired then s\<lparr>cr_state := CPaused\<rparr> else s));
               st = st1\<lparr>cr_updated_at := now\<rparr>
           in (Inr (client_limits st, matched), client_update st db)))"

definition set_client_connection_risk ::
  "string \<Rightarrow> string \<Rightarrow> string \<Rightarrow> string \<Rightarrow> string \<Rightarrow> string \<Rightarrow> time \<Rightarrow> risk_db \<Rightarrow> unit res \<times> risk_db"
where
  "set_client_connection_risk owner org cid risk_state code0 msg0 clock db =
     (let (status, auth, risk, code, msg) =
            (if risk_state = ''normal'' then (''active'', ''active'', ''elevated'', [], [])
             else if risk_state = ''reauth_required''
             then (''attention'', ''reauth_required'', ''paused'', code0, msg0)
             else if risk_state = ''paused''
             then (''attention'', ''active'', ''paused'', code0, msg0)
             else (''attention'', ''attention'', ''paused'', code0, msg0));
          sel = (\<lambda>c. conn_of owner org cid c \<and> conn_live ''official_client'' c)
      in if sql_affected sel (rd_conns db) \<noteq> 1
         then (Inl ErrNoRows,
               db\<lparr>rd_conns := sql_update sel (conn_set_status status auth risk (trim_space code)
                    (truncate_store_text msg 512) clock) (rd_conns db)\<rparr>)
         else (Inr (),
               db\<lparr>rd_conns := sql_update sel (conn_set_status status auth risk (trim_space code)
                    (truncate_store_text msg 512) clock) (rd_conns db)\<rparr>))"

section \<open>Operations as steps\<close>

datatype client_op =
    CInitialize string string string string string string string
  | CReserve string string string
  | CRecord string string string bool string duration
  | CSetPaused string string string bool
  | CConfirm string string string string string
  | CSetConnection string string string string string string

fun client_step :: "client_op \<Rightarrow> risk_db \<Rightarrow> time \<Rightarrow> risk_db" where
  "client_step (CInitialize cid owner org connector provider subject assurance) db t =
     snd (initialize_client_risk cid owner org connector provider subject assurance t db)"
| "client_step (CReserve owner org cid) db t = snd (reserve_client_request owner org cid t t db)"
| "client_step (CRecord owner org cid ok code retry) db t =
     snd (record_client_result owner org cid ok code retry t t db)"
| "client_step (CSetPaused owner org cid paused) db t =
     snd (set_client_paused owner org cid paused t db)"
| "client_step (CConfirm owner org cid subject assurance) db t =
     snd (confirm_client_identity owner org cid subject assurance t t db)"
| "client_step (CSetConnection owner org cid state code msg) db t =
     snd (set_client_connection_risk owner org cid state code msg t db)"

text \<open>A step that is a reservation of this connection, and is allowed.\<close>

definition client_granted ::
  "string \<Rightarrow> string \<Rightarrow> string \<Rightarrow> client_op \<Rightarrow> risk_db \<Rightarrow> time \<Rightarrow> bool"
where
  "client_granted owner org cid x db t =
     (x = CReserve owner org cid
      \<and> (case fst (reserve_client_request owner org cid t t db) of
           Inl _ \<Rightarrow> False | Inr d \<Rightarrow> cd_allowed d))"

section \<open>Rows under operations\<close>

definition client_row :: "string \<Rightarrow> risk_db \<Rightarrow> client_risk option" where
  "client_row cid db = row_at cr_connection_id cid (rd_risks db)"

definition client_counts_ok :: "client_risk \<Rightarrow> bool" where
  "client_counts_ok r = (0 \<le> cr_requests_hour r \<and> 0 \<le> cr_requests_day r)"

definition client_db_ok :: "risk_db \<Rightarrow> bool" where
  "client_db_ok db = (distinct (map cr_connection_id (rd_risks db))
     \<and> (\<forall>r\<in>set (rd_risks db). client_counts_ok r))"

text \<open>The fields admission depends on and only reservations advance.\<close>

definition guard_fields :: "client_risk \<Rightarrow> (time \<times> int) \<times> (time \<times> int) \<times> time option" where
  "guard_fields r = ((cr_hour_start r, cr_requests_hour r), (cr_day_start r, cr_requests_day r),
     cr_last_request r)"

lemma client_columns_sel [simp]:
  "cr_connection_id (client_columns st r) = cr_connection_id r"
  "cr_owner (client_columns st r) = cr_owner r" "cr_org (client_columns st r) = cr_org r"
  "cr_state (client_columns st r) = cr_state st"
  "cr_account_subject (client_columns st r) = cr_account_subject r"
  "guard_fields (client_columns st r) = guard_fields st"
  by (simp_all add: client_columns_def guard_fields_def)

lemma client_normalize_sel [simp]:
  "cr_connection_id (client_normalize r t) = cr_connection_id r"
  "cr_owner (client_normalize r t) = cr_owner r" "cr_org (client_normalize r t) = cr_org r"
  "cr_last_request (client_normalize r t) = cr_last_request r"
  "cr_account_subject (client_normalize r t) = cr_account_subject r"
  by (simp_all add: client_normalize_def Let_def)

lemma client_failure_sel [simp]:
  "cr_connection_id (client_failure code ra t st) = cr_connection_id st"
  "guard_fields (client_failure code ra t st) = guard_fields st"
  by (simp_all add: client_failure_def guard_fields_def Let_def)

lemma client_result_sel [simp]:
  "cr_connection_id (client_result ok code ra t st) = cr_connection_id st"
  "guard_fields (client_result ok code ra t st) = guard_fields st"
  by (simp_all add: client_result_def Let_def) (simp_all add: guard_fields_def)

lemma client_select_row:
  "client_db_ok db \<Longrightarrow> client_select owner org cid db =
     (case client_row cid db of None \<Rightarrow> Inl ErrNoRows
      | Some r \<Rightarrow> if cr_owner r = owner \<and> cr_org r = org then Inr r else Inl ErrNoRows)"
  by (simp add: client_select_def client_row_def client_db_ok_def query_row_key)

lemma client_update_row:
  "client_row cid (client_update st db)
   = map_option (\<lambda>r. if cr_connection_id r = cr_connection_id st then client_columns st r else r)
       (client_row cid db)"
  by (simp add: client_row_def client_update_def row_at_sql_update)

lemma client_row_id: "client_row cid db = Some r \<Longrightarrow> r \<in> set (rd_risks db) \<and> cr_connection_id r = cid"
  by (auto simp: client_row_def dest: row_at_Some)

lemma client_update_row_other:
  "k \<noteq> cr_connection_id st \<Longrightarrow> client_row k (client_update st db) = client_row k db"
  by (cases "client_row k db") (auto simp: client_update_row dest: client_row_id)

lemma client_update_row_same:
  "client_row k db = Some r \<Longrightarrow> k = cr_connection_id st \<Longrightarrow>
   client_row k (client_update st db) = Some (client_columns st r)"
  by (auto simp: client_update_row dest: client_row_id)

lemma guard_fields_upd [simp]:
  "guard_fields (r\<lparr>cr_updated_at := t\<rparr>) = guard_fields r"
  "guard_fields (r\<lparr>cr_state := st\<rparr>) = guard_fields r"
  "guard_fields (r\<lparr>cr_cooldown_until := cu\<rparr>) = guard_fields r"
  "guard_fields (r\<lparr>cr_failures := n\<rparr>) = guard_fields r"
  "guard_fields (r\<lparr>cr_rate_events := n\<rparr>) = guard_fields r"
  "guard_fields (r\<lparr>cr_identity_changes := n\<rparr>) = guard_fields r"
  "guard_fields (r\<lparr>cr_last_error := e\<rparr>) = guard_fields r"
  "guard_fields (r\<lparr>cr_last_success := e\<rparr>) = guard_fields r"
  "guard_fields (r\<lparr>cr_last_error_code := c\<rparr>) = guard_fields r"
  "guard_fields (r\<lparr>cr_assurance := c\<rparr>) = guard_fields r"
  "guard_fields (r\<lparr>cr_connector_id := c\<rparr>) = guard_fields r"
  "guard_fields (r\<lparr>cr_account_subject := c\<rparr>) = guard_fields r"
  by (simp_all add: guard_fields_def)

lemma client_admit_denied:
  "\<not> fst (fst (client_admit st t)) \<Longrightarrow> snd (client_admit st t) = st"
  by (auto simp: client_admit_def)

lemma client_admit_id [simp]:
  "cr_connection_id (snd (client_admit st t)) = cr_connection_id st"
  by (simp add: client_admit_def)

lemma client_row_select:
  assumes "client_db_ok db" and "client_select owner org cid db = Inr r"
  shows "client_row cid db = Some r" and "cr_owner r = owner" and "cr_org r = org"
    and "cr_connection_id r = cid"
  using assms by (auto simp: client_select_row client_row_id split: option.splits if_splits)

lemma client_update_conns [simp]: "rd_conns (client_update st db) = rd_conns db"
  by (simp add: client_update_def)

lemma client_row_conns [simp]: "client_row cid (db\<lparr>rd_conns := cs\<rparr>) = client_row cid db"
  by (simp add: client_row_def)

lemma reserve_run:
  "client_select owner org cid db = Inr row \<Longrightarrow>
   reserve_client_request owner org cid t t db
     = (let a = client_admit (client_normalize row t) t; st = (snd a)\<lparr>cr_updated_at := t\<rparr>
        in (Inr \<lparr>cd_allowed = fst (fst a), cd_reason = fst (snd (fst a)),
                 cd_retry_at = snd (snd (fst a)), cd_risk = client_limits st\<rparr>, client_update st db))"
  by (simp add: reserve_client_request_def Let_def split_def)

text \<open>What one operation does to the row of one connection.\<close>

lemma client_step_row:
  assumes ok: "client_db_ok db" and row: "client_row cid db = Some r"
    and own: "cr_owner r = owner" "cr_org r = org"
  shows "\<exists>r'. client_row cid (client_step x db t) = Some r' \<and> cr_owner r' = owner \<and> cr_org r' = org
    \<and> (if client_granted owner org cid x db t
       then fst (fst (client_admit (client_normalize r t) t))
            \<and> guard_fields r' = guard_fields (snd (client_admit (client_normalize r t) t))
       else guard_fields r' = guard_fields r \<or> guard_fields r' = guard_fields (client_normalize r t))"
proof (cases x)
  case (CInitialize cid' owner' org' connector provider subject assurance)
  then show ?thesis using row own
    by (auto simp: initialize_client_risk_def client_granted_def Let_def client_row_def
        row_at_sql_update row_at_append)
next
  case (CReserve owner' org' cid')
  show ?thesis
  proof (cases "client_select owner' org' cid' db")
    case (Inl e)
    with CReserve row own ok show ?thesis
      by (auto simp: reserve_client_request_def client_granted_def)
  next
    case (Inr r1)
    note s = client_row_select [OF ok Inr]
    show ?thesis
    proof (cases "cid' = cid")
      case True
      with s row have "r1 = r" by simp
      with CReserve Inr row own s True show ?thesis
        by (auto simp: reserve_run client_granted_def client_update_row client_row_id
            client_admit_denied Let_def)
    next
      case False
      with CReserve Inr row own s show ?thesis
        by (auto simp: reserve_run client_granted_def client_update_row client_row_id Let_def)
    qed
  qed
next
  case (CRecord owner' org' cid' ok code retry)
  then show ?thesis using row own client_row_select [OF assms(1), of owner' org' cid']
    by (cases "client_select owner' org' cid' db")
      (auto simp: record_client_result_def client_granted_def Let_def client_update_row client_row_id)
next
  case (CSetPaused owner' org' cid' paused)
  then show ?thesis using row own client_row_select [OF ok, of owner' org' cid']
    by (cases "client_select owner' org' cid' db")
      (auto simp: set_client_paused_def client_granted_def Let_def client_update_row client_row_id)
next
  case (CConfirm owner' org' cid' subject assurance)
  then show ?thesis using row own client_row_select [OF ok, of owner' org' cid']
    by (cases "client_select owner' org' cid' db")
      (auto simp: confirm_client_identity_def client_granted_def Let_def client_update_row client_row_id)
next
  case (CSetConnection owner' org' cid' state code msg)
  then show ?thesis using row own
    by (simp add: set_client_connection_risk_def client_granted_def Let_def split: prod.splits)
qed

text \<open>Every operation keeps the table well formed.\<close>

lemma client_counts_ok_fields:
  "guard_fields a = guard_fields b \<Longrightarrow> client_counts_ok a = client_counts_ok b"
  by (simp add: guard_fields_def client_counts_ok_def)

lemma client_counts_ok_simps [simp]:
  "client_counts_ok (client_columns st r) = client_counts_ok st"
  "client_counts_ok (client_result ok code ra t st) = client_counts_ok st"
  "client_counts_ok (r\<lparr>cr_updated_at := t\<rparr>) = client_counts_ok r"
  by (rule client_counts_ok_fields, simp)+

lemma client_counts_ok_normalize: "client_counts_ok r \<Longrightarrow> client_counts_ok (client_normalize r t)"
  by (simp add: client_counts_ok_def client_normalize_def Let_def)

lemma client_counts_ok_admit: "client_counts_ok r \<Longrightarrow> client_counts_ok (snd (client_admit r t))"
  by (simp add: client_counts_ok_def client_admit_def)

lemma client_db_ok_update:
  "client_db_ok db \<Longrightarrow> client_counts_ok st \<Longrightarrow> client_db_ok (client_update st db)"
  by (auto simp: client_db_ok_def client_update_def map_sql_update set_sql_update)

lemma client_db_ok_row: "client_db_ok db \<Longrightarrow> r \<in> set (rd_risks db) \<Longrightarrow> client_counts_ok r"
  by (simp add: client_db_ok_def)

lemma client_db_ok_conns [simp]: "client_db_ok (db\<lparr>rd_conns := cs\<rparr>) = client_db_ok db"
  by (simp add: client_db_ok_def)

lemma client_select_counts:
  "client_db_ok db \<Longrightarrow> client_select owner org cid db = Inr r \<Longrightarrow> client_counts_ok r"
  by (auto simp: client_select_def dest!: query_row_Inr intro: client_db_ok_row)

lemma client_db_ok_initialize:
  "client_db_ok db \<Longrightarrow>
   client_db_ok (snd (initialize_client_risk cid owner org connector provider subject assurance t db))"
  by (auto simp: initialize_client_risk_def Let_def client_db_ok_def map_sql_update set_sql_update
      sql_exists_iff client_counts_ok_def)

lemma client_db_ok_set_paused:
  assumes "client_db_ok db"
  shows "client_db_ok (snd (set_client_paused owner org cid paused t db))"
proof (cases "client_select owner org cid db")
  case (Inr r)
  then have "client_counts_ok r" using assms by (rule client_select_counts [rotated])
  then have "client_counts_ok r'" if "guard_fields r' = guard_fields r" for r'
    using client_counts_ok_fields that by blast
  with Inr assms show ?thesis
    by (auto simp: set_client_paused_def Let_def intro!: client_db_ok_update)
qed (use assms in \<open>simp add: set_client_paused_def\<close>)

lemma client_db_ok_step:
  assumes "client_db_ok db"
  shows "client_db_ok (client_step x db t)"
proof (cases x)
  case (CReserve owner org cid)
  then show ?thesis using assms client_select_counts [OF assms, of owner org cid]
    by (cases "client_select owner org cid db")
      (auto simp: reserve_client_request_def split_def Let_def
        intro!: client_db_ok_update client_counts_ok_normalize client_counts_ok_admit)
next
  case (CRecord owner org cid ok code retry)
  then show ?thesis using assms client_select_counts [OF assms, of owner org cid]
    by (cases "client_select owner org cid db")
      (auto simp: record_client_result_def Let_def
        intro!: client_db_ok_update client_counts_ok_normalize)
next
  case (CConfirm owner org cid subject assurance)
  show ?thesis
  proof (cases "client_select owner org cid db")
    case (Inr r)
    then have "client_counts_ok (client_normalize r t)"
      using assms by (auto intro: client_counts_ok_normalize client_select_counts)
    then have "client_counts_ok r'" if "guard_fields r' = guard_fields (client_normalize r t)" for r'
      using client_counts_ok_fields that by blast
    with Inr CConfirm assms show ?thesis
      by (auto simp: confirm_client_identity_def Let_def intro!: client_db_ok_update)
  qed (use assms CConfirm in \<open>simp add: confirm_client_identity_def\<close>)
qed (use assms in \<open>simp_all add: client_db_ok_initialize client_db_ok_set_paused
  set_client_connection_risk_def Let_def split_def\<close>)

section \<open>The guard contract\<close>

text \<open>
  The four laws of \<open>rate_guard\<close>, for the row of one connection while any operation runs on any
  connection.
\<close>

definition client_guarded :: "string \<Rightarrow> string \<Rightarrow> string \<Rightarrow> risk_db \<Rightarrow> bool" where
  "client_guarded owner org cid db = (client_db_ok db
     \<and> (case client_row cid db of None \<Rightarrow> False | Some r \<Rightarrow> cr_owner r = owner \<and> cr_org r = org))"

definition client_field :: "(client_risk \<Rightarrow> 'a) \<Rightarrow> 'a \<Rightarrow> string \<Rightarrow> risk_db \<Rightarrow> 'a" where
  "client_field f z cid db = (case client_row cid db of None \<Rightarrow> z | Some r \<Rightarrow> f r)"

lemma client_guarded_step:
  assumes "client_guarded owner org cid db"
  obtains r r' where "client_row cid db = Some r" and "client_row cid (client_step x db t) = Some r'"
    and "client_guarded owner org cid (client_step x db t)" and "client_counts_ok r"
    and "client_granted owner org cid x db t \<Longrightarrow>
      fst (fst (client_admit (client_normalize r t) t))
      \<and> guard_fields r' = guard_fields (snd (client_admit (client_normalize r t) t))"
    and "\<not> client_granted owner org cid x db t \<Longrightarrow>
      guard_fields r' = guard_fields r \<or> guard_fields r' = guard_fields (client_normalize r t)"
proof -
  from assms obtain r where r: "client_db_ok db" "client_row cid db = Some r"
      "cr_owner r = owner" "cr_org r = org"
    by (auto simp: client_guarded_def split: option.splits)
  moreover from client_step_row [OF this, of x t] client_db_ok_step [OF r(1), of x t]
  obtain r' where "client_row cid (client_step x db t) = Some r'"
    "client_guarded owner org cid (client_step x db t)"
    "if client_granted owner org cid x db t
       then fst (fst (client_admit (client_normalize r t) t))
            \<and> guard_fields r' = guard_fields (snd (client_admit (client_normalize r t) t))
       else guard_fields r' = guard_fields r \<or> guard_fields r' = guard_fields (client_normalize r t)"
    by (auto simp: client_guarded_def)
  moreover have "client_counts_ok r"
    using r(1) client_row_id [OF r(2)] by (auto intro: client_db_ok_row)
  ultimately show thesis by (intro that) auto
qed

definition client_hour :: "client_risk \<Rightarrow> time \<times> int" where
  "client_hour r = (cr_hour_start r, cr_requests_hour r)"

definition client_day :: "client_risk \<Rightarrow> time \<times> int" where
  "client_day r = (cr_day_start r, cr_requests_day r)"

lemma client_normalize_windows:
  "client_hour (client_normalize r t) = window_restart hour t (client_hour r)"
  "client_day (client_normalize r t) = window_restart (24 * hour) t (client_day r)"
  by (simp_all add: client_normalize_def client_hour_def client_day_def window_restart_def Let_def)

lemma guard_fields_windows:
  "guard_fields r = (client_hour r, client_day r, cr_last_request r)"
  by (simp add: guard_fields_def client_hour_def client_day_def)

lemma client_admit_allowed:
  assumes "fst (fst (client_admit st t))"
  shows "cr_state st = CNormal" and "snd (client_hour st) < client_hourly_limit"
    and "snd (client_day st) < client_daily_limit"
    and "cr_last_request st = Some l \<Longrightarrow> l + client_min_interval \<le> t"
    and "guard_fields (snd (client_admit st t))
      = (window_count (client_hour st), window_count (client_day st), Some t)"
  using assms
  by (auto simp: client_admit_def client_hour_def client_day_def guard_fields_def window_count_def
      split: if_splits option.splits)

text \<open>The laws for one row, in the form both interpretations use.\<close>

lemma client_laws:
  assumes "client_guarded owner org cid db"
  shows "0 \<le> snd (client_field client_hour (0, 0) cid db)"
    and "0 \<le> snd (client_field client_day (0, 0) cid db)"
    and "\<not> client_granted owner org cid x db t \<Longrightarrow>
      client_field client_hour (0, 0) cid (client_step x db t) = client_field client_hour (0, 0) cid db
      \<or> client_field client_hour (0, 0) cid (client_step x db t)
        = window_restart hour t (client_field client_hour (0, 0) cid db)"
    and "\<not> client_granted owner org cid x db t \<Longrightarrow>
      client_field client_day (0, 0) cid (client_step x db t) = client_field client_day (0, 0) cid db
      \<or> client_field client_day (0, 0) cid (client_step x db t)
        = window_restart (24 * hour) t (client_field client_day (0, 0) cid db)"
    and "client_granted owner org cid x db t \<Longrightarrow>
      snd (window_restart hour t (client_field client_hour (0, 0) cid db)) < client_hourly_limit
      \<and> client_field client_hour (0, 0) cid (client_step x db t)
        = window_count (window_restart hour t (client_field client_hour (0, 0) cid db))"
    and "client_granted owner org cid x db t \<Longrightarrow>
      snd (window_restart (24 * hour) t (client_field client_day (0, 0) cid db)) < client_daily_limit
      \<and> client_field client_day (0, 0) cid (client_step x db t)
        = window_count (window_restart (24 * hour) t (client_field client_day (0, 0) cid db))"
    and "\<not> client_granted owner org cid x db t \<Longrightarrow>
      client_field cr_last_request None cid (client_step x db t)
      = client_field cr_last_request None cid db"
    and "client_granted owner org cid x db t \<Longrightarrow>
      client_field cr_last_request None cid (client_step x db t) = Some t"
    and "client_granted owner org cid x db t \<Longrightarrow>
      client_field cr_last_request None cid db = Some u \<Longrightarrow> u + client_min_interval \<le> t"
proof -
  from client_guarded_step [OF assms, of x t] obtain r r' where
    *: "client_row cid db = Some r" "client_row cid (client_step x db t) = Some r'"
      "client_counts_ok r"
    and g: "client_granted owner org cid x db t \<Longrightarrow>
      fst (fst (client_admit (client_normalize r t) t))
      \<and> guard_fields r' = guard_fields (snd (client_admit (client_normalize r t) t))"
    and n: "\<not> client_granted owner org cid x db t \<Longrightarrow>
      guard_fields r' = guard_fields r \<or> guard_fields r' = guard_fields (client_normalize r t)"
    by blast
  note F = client_field_def *(1,2) client_normalize_windows [symmetric]
  show "0 \<le> snd (client_field client_hour (0, 0) cid db)"
    and "0 \<le> snd (client_field client_day (0, 0) cid db)"
    using *(3) by (simp_all add: client_field_def *(1) client_hour_def client_day_def client_counts_ok_def)
  {
    assume "\<not> client_granted owner org cid x db t"
    from n [OF this]
    show "client_field client_hour (0, 0) cid (client_step x db t) = client_field client_hour (0, 0) cid db
      \<or> client_field client_hour (0, 0) cid (client_step x db t)
        = window_restart hour t (client_field client_hour (0, 0) cid db)"
      and "client_field client_day (0, 0) cid (client_step x db t) = client_field client_day (0, 0) cid db
      \<or> client_field client_day (0, 0) cid (client_step x db t)
        = window_restart (24 * hour) t (client_field client_day (0, 0) cid db)"
      and "client_field cr_last_request None cid (client_step x db t)
        = client_field cr_last_request None cid db"
      by (auto simp: F guard_fields_windows)
  next
    assume "client_granted owner org cid x db t"
    note a = g [OF this]
    note b = client_admit_allowed [OF a [THEN conjunct1]]
    from a b(2,3,5)
    show "snd (window_restart hour t (client_field client_hour (0, 0) cid db)) < client_hourly_limit
      \<and> client_field client_hour (0, 0) cid (client_step x db t)
        = window_count (window_restart hour t (client_field client_hour (0, 0) cid db))"
      and "snd (window_restart (24 * hour) t (client_field client_day (0, 0) cid db)) < client_daily_limit
      \<and> client_field client_day (0, 0) cid (client_step x db t)
        = window_count (window_restart (24 * hour) t (client_field client_day (0, 0) cid db))"
      and "client_field cr_last_request None cid (client_step x db t) = Some t"
      by (auto simp: F guard_fields_windows)
    show "client_field cr_last_request None cid db = Some u \<Longrightarrow> u + client_min_interval \<le> t"
      using b(4) by (simp add: client_field_def *(1))
  }
qed

interpretation client_hourly: rate_guard "client_guarded owner org cid" client_step
  "client_granted owner org cid" "client_field client_hour (0, 0) cid"
  "client_field cr_last_request None cid" client_hourly_limit hour client_min_interval
  for owner org cid
  by unfold_locales
    (auto simp: time_simps dest: client_laws elim: client_guarded_step)

interpretation client_daily: rate_guard "client_guarded owner org cid" client_step
  "client_granted owner org cid" "client_field client_day (0, 0) cid"
  "client_field cr_last_request None cid" client_daily_limit "24 * hour" client_min_interval
  for owner org cid
  by unfold_locales
    (auto simp: time_simps dest: client_laws elim: client_guarded_step)

section \<open>Locks\<close>

definition client_locked :: "string \<Rightarrow> risk_db \<Rightarrow> bool" where
  "client_locked cid db = (case client_row cid db of None \<Rightarrow> False
     | Some r \<Rightarrow> cr_state r = CSecurityLocked \<or> cr_state r = CPolicyLocked)"

fun client_fails :: "string \<Rightarrow> client_op \<Rightarrow> bool" where
  "client_fails cid (CRecord owner org cid' ok code retry) = (cid' = cid \<and> \<not> ok)"
| "client_fails cid _ = False"

lemma client_normalize_locked:
  "cr_state r = CSecurityLocked \<or> cr_state r = CPolicyLocked \<Longrightarrow>
   cr_state (client_normalize r t) = cr_state r"
  by (auto simp: client_normalize_def Let_def split: option.splits)

lemma client_admit_locked:
  "cr_state r = CSecurityLocked \<or> cr_state r = CPolicyLocked \<Longrightarrow>
   \<not> fst (fst (client_admit r t)) \<and> snd (client_admit r t) = r"
  by (auto simp: client_admit_def)

lemma client_result_ok_locked:
  "cr_state r = CSecurityLocked \<or> cr_state r = CPolicyLocked \<Longrightarrow>
   cr_state (client_result True code ra t r) = cr_state r"
  by (auto simp: client_result_def Let_def)

lemma client_locked_update:
  assumes "client_locked cid db"
    and "cr_connection_id st = cid \<Longrightarrow> cr_state st = CSecurityLocked \<or> cr_state st = CPolicyLocked"
  shows "client_locked cid (client_update st db)"
  using assms by (auto simp: client_locked_def client_update_row split: option.splits dest: client_row_id)

lemma client_locked_conns [simp]: "client_locked cid (db\<lparr>rd_conns := cs\<rparr>) = client_locked cid db"
  by (simp add: client_locked_def)

lemma client_locked_step:
  assumes ok: "client_db_ok db" and lock: "client_locked cid db" and nf: "\<not> client_fails cid x"
  shows "client_locked cid (client_step x db t)"
proof -
  have sel: "cr_connection_id r = cid' \<and> (cid' = cid \<longrightarrow> cr_state r = CSecurityLocked \<or> cr_state r = CPolicyLocked)"
    if "client_select owner' org' cid' db = Inr r" for owner' org' cid' r
    using client_row_select [OF ok that] lock by (auto simp: client_locked_def)
  show ?thesis
  proof (cases x)
    case (CInitialize cid' owner' org' connector provider subject assurance)
    then show ?thesis using lock
      by (auto simp: initialize_client_risk_def Let_def client_locked_def client_row_def
          row_at_sql_update row_at_append split: option.splits)
  next
    case (CReserve owner' org' cid')
    then show ?thesis using lock sel [of owner' org' cid']
      by (cases "client_select owner' org' cid' db")
        (auto simp: reserve_client_request_def split_def Let_def client_normalize_locked
          client_admit_locked intro!: client_locked_update)
  next
    case (CRecord owner' org' cid' ok code retry)
    then show ?thesis using lock nf sel [of owner' org' cid']
      by (cases "client_select owner' org' cid' db")
        (auto simp: record_client_result_def Let_def client_normalize_locked
          client_result_ok_locked intro!: client_locked_update)
  next
    case (CSetPaused owner' org' cid' paused)
    then show ?thesis using lock sel [of owner' org' cid']
      by (cases "client_select owner' org' cid' db")
        (auto simp: set_client_paused_def Let_def intro!: client_locked_update)
  next
    case (CConfirm owner' org' cid' subject assurance)
    then show ?thesis using lock sel [of owner' org' cid']
      by (cases "client_select owner' org' cid' db")
        (auto simp: confirm_client_identity_def Let_def client_normalize_locked
          intro!: client_locked_update)
  next
    case (CSetConnection owner' org' cid' state code msg)
    then show ?thesis using lock
      by (simp add: set_client_connection_risk_def client_locked_def Let_def split: prod.splits)
  qed
qed

lemma client_locked_not_granted:
  assumes ok: "client_db_ok db" and lock: "client_locked cid db"
  shows "\<not> client_granted owner org cid x db t"
proof (cases "client_select owner org cid db")
  case (Inr r)
  with client_row_select [OF ok Inr] lock
  have "cr_state r = CSecurityLocked \<or> cr_state r = CPolicyLocked" by (simp add: client_locked_def)
  with Inr show ?thesis
    by (simp add: client_granted_def reserve_run Let_def client_admit_locked client_normalize_locked)
qed (simp add: client_granted_def reserve_client_request_def)

section \<open>Properties\<close>

text \<open>C1: granted requests of one official-client connection are at least 15 seconds apart, and
  whatever operations run in between on whatever connections, no hour holds more than 40 of them
  and no day more than 160. (A counter that restarts every hour allows twice its limit of 20 in
  an hour that straddles a restart; the README states the limits themselves.)\<close>

theorem client_rate_limited:
  assumes "client_guarded owner org cid db" and "clock_ordered es"
  shows "spaced client_min_interval (granted_times (client_granted owner org cid) client_step db es)
    \<and> grants_within a hour (granted_times (client_granted owner org cid) client_step db es) \<le> 40
    \<and> grants_within a (24 * hour) (granted_times (client_granted owner org cid) client_step db es) \<le> 160"
  using client_hourly.grants_spaced [OF assms(1)] client_hourly.grants_bounded [OF assms, of a]
    client_daily.grants_bounded [OF assms, of a]
  by (simp add: client_hourly_limit_def client_daily_limit_def)

text \<open>a connection that is security-locked or policy-locked stays locked, and is granted no
  request, over every sequence of operations that reports no further failed request for it:
  reservations, successful results, pausing, resuming, confirming the identity and
  re-initialising the connection cannot unlock it.\<close>

theorem client_lock_persists:
  assumes "client_db_ok db" and "client_locked cid db"
    and "\<And>e. e \<in> set es \<Longrightarrow> \<not> client_fails cid (fst e)"
  shows "client_locked cid (guard_run client_step db es)
    \<and> granted_times (client_granted owner org cid) client_step db es = []"
  using assms
proof (induction es arbitrary: db)
  case (Cons e es)
  obtain x t where e: "e = (x, t)" by force
  with Cons.prems have "client_locked cid (client_step x db t)" "client_db_ok (client_step x db t)"
    using client_locked_step client_db_ok_step by fastforce+
  from Cons.IH [OF this(2,1)] Cons.prems(3) e client_locked_not_granted [OF Cons.prems(1,2)]
  show ?case by simp
qed simp


lemma client_failure_cools:
  "cr_state (client_result False code ra t st) \<noteq> CNormal"
  "cr_state (client_result False code ra t st) = CCooldown \<Longrightarrow>
   \<exists>v. cr_cooldown_until (client_result False code ra t st) = Some v \<and> t + 5 * minute \<le> v"
  by (simp_all add: client_result_def client_failure_def Let_def time_simps split: if_splits)

lemma client_cooling_denied:
  assumes "cr_state r \<noteq> CNormal"
    and "cr_state r = CCooldown \<Longrightarrow> \<exists>v. cr_cooldown_until r = Some v \<and> t < v"
  shows "\<not> fst (fst (client_admit (client_normalize r t) t))"
proof -
  have "cr_state (client_normalize r t) = cr_state r"
    using assms by (auto simp: client_normalize_def Let_def)
  with assms(1) show ?thesis by (simp add: client_admit_def)
qed

lemma client_record_row:
  assumes "client_db_ok db" and "client_select owner org cid db = Inr r"
  shows "client_row cid (snd (record_client_result owner org cid ok code ra t t db))
    = Some (client_columns ((client_result ok (to_lower (trim_space code)) ra t
        (client_normalize r t))\<lparr>cr_updated_at := t\<rparr>) r)"
  using client_row_select [OF assms] assms(2)
  by (simp add: record_client_result_def Let_def client_update_row)

text \<open>a failed request blocks its connection: whatever the error code and whatever state the
  connection was in, no reservation in the next five minutes is granted.\<close>

theorem client_failure_blocks:
  assumes "client_db_ok db" and "u < t + 5 * minute"
    and "client_select owner org cid db = Inr r"
  shows "\<not> client_granted owner org cid x
    (client_step (CRecord owner org cid False code ra) db t) u"
proof -
  let ?db = "client_step (CRecord owner org cid False code ra) db t"
  let ?st = "client_result False (to_lower (trim_space code)) ra t (client_normalize r t)"
  obtain r' where row: "client_row cid ?db = Some r'" "cr_state r' = cr_state ?st"
      "cr_cooldown_until r' = cr_cooldown_until ?st" "cr_owner r' = owner" "cr_org r' = org"
    using client_record_row [OF assms(1,3)] client_row_select [OF assms(1,3)]
    by (simp add: client_columns_def)
  have ok: "client_db_ok ?db" by (rule client_db_ok_step [OF assms(1)])
  with row have sel: "client_select owner org cid ?db = Inr r'" by (simp add: client_select_row)
  have "\<not> fst (fst (client_admit (client_normalize r' u) u))"
    using row(2,3) assms(2) client_failure_cools(1) client_failure_cools(2)
    by (intro client_cooling_denied) (metis, metis order_less_le_trans)
  then show ?thesis
    by (simp add: client_granted_def reserve_run [OF sel] Let_def del: client_step.simps)
qed

text \<open>pausing and resuming is one transaction over the risk table and the connection table.
  When it fails nothing changed. When it succeeds, the risk row and the live connection agree
  (paused and \<open>attention\<close>, or normal and \<open>active\<close>), and no row of another connection changed.\<close>

theorem set_client_paused_atomic:
  assumes "client_db_ok db" and "set_client_paused owner org cid paused t db = (res, db')"
  shows "(\<forall>e. res = Inl e \<longrightarrow> db' = db)
    \<and> (is_ok res \<longrightarrow>
        (\<exists>r. client_row cid db' = Some r \<and> cr_state r = (if paused then CPaused else CNormal))
        \<and> (\<forall>c\<in>set (rd_conns db'). conn_of owner org cid c \<and> conn_live ''official_client'' c \<longrightarrow>
             cn_status c = (if paused then ''attention'' else ''active''))
        \<and> (\<forall>c. \<not> conn_of owner org cid c \<longrightarrow> (c \<in> set (rd_conns db') \<longleftrightarrow> c \<in> set (rd_conns db)))
        \<and> (\<forall>k. k \<noteq> cid \<longrightarrow> client_row k db' = client_row k db))"
proof (cases "client_select owner org cid db")
  case (Inl e)
  with assms(2) show ?thesis by (auto simp: set_client_paused_def)
next
  case (Inr r)
  note row = client_row_select [OF assms(1) Inr]
  show ?thesis
    using assms(2) Inr row
    by (auto simp: set_client_paused_def Let_def client_update_row_same
        client_update_row_other set_sql_update
        conn_of_def conn_live_def split: if_splits)
qed

section \<open>The properties on a concrete table\<close>

definition client_example_row :: "client_state \<Rightarrow> client_risk" where
  "client_example_row st = \<lparr>cr_connection_id = ''c1'', cr_owner = ''u1'', cr_org = ''o1'',
     cr_connector_id = ''k1'', cr_provider = ''openai'', cr_account_subject = ''subject'',
     cr_assurance = ''account'', cr_state = st, cr_cooldown_until = None, cr_hour_start = 0,
     cr_day_start = 0, cr_rate_start = 0, cr_requests_hour = 3, cr_requests_day = 9,
     cr_rate_events = 0, cr_identity_changes = 0, cr_failures = 0, cr_last_request = None,
     cr_last_success = None, cr_last_error = None, cr_last_error_code = [], cr_updated_at = 0\<rparr>"

definition client_example_db :: "client_state \<Rightarrow> risk_db" where
  "client_example_db st = \<lparr>rd_risks = [client_example_row st],
     rd_conns = [\<lparr>cn_id = ''c1'', cn_owner = ''u1'', cn_org = ''o1'', cn_provider = ''openai'',
       cn_auth_method = ''official_client'', cn_status = ''active'', cn_auth_status = ''active'',
       cn_risk_level = ''elevated'', cn_connector_id = ''k1'', cn_fingerprint = [],
       cn_last_error_code = [], cn_last_error_message = [], cn_deleted_at = None,
       cn_updated_at = 0\<rparr>]\<rparr>"

definition client_example_events :: "(client_op \<times> time) list" where
  "client_example_events = [(CReserve ''u1'' ''o1'' ''c1'', 1 * second),
     (CReserve ''u1'' ''o1'' ''c1'', 2 * second), (CReserve ''u1'' ''o1'' ''c1'', 16 * second)]"

lemma client_rate_limited_witness:
  "granted_times (client_granted ''u1'' ''o1'' ''c1'') client_step (client_example_db CNormal)
     client_example_events = [1 * second, 16 * second]
   \<and> spaced client_min_interval (granted_times (client_granted ''u1'' ''o1'' ''c1'') client_step
        (client_example_db CNormal) client_example_events)"
proof -
  have "client_guarded ''u1'' ''o1'' ''c1'' (client_example_db CNormal)" by code_simp
  moreover have "clock_ordered client_example_events" by code_simp
  ultimately show ?thesis
    using client_rate_limited [of "''u1''" "''o1''" "''c1''" "client_example_db CNormal"
        client_example_events 0]
    by (intro conjI) (code_simp, simp)
qed

lemma client_lock_persists_witness:
  "client_locked ''c1'' (guard_run client_step (client_example_db CPolicyLocked)
     [(CSetPaused ''u1'' ''o1'' ''c1'' False, 1), (CRecord ''u1'' ''o1'' ''c1'' True [] 0, 2)])"
proof -
  have "client_db_ok (client_example_db CPolicyLocked)" by code_simp
  moreover have "client_locked ''c1'' (client_example_db CPolicyLocked)" by code_simp
  moreover have "\<not> client_fails ''c1'' (fst e)"
    if "e \<in> set [(CSetPaused ''u1'' ''o1'' ''c1'' False, 1), (CRecord ''u1'' ''o1'' ''c1'' True [] 0, 2)]"
    for e using that by auto
  ultimately show ?thesis using client_lock_persists by blast
qed


lemma client_failure_blocks_witness:
  "\<not> client_granted ''u1'' ''o1'' ''c1'' (CReserve ''u1'' ''o1'' ''c1'')
     (client_step (CRecord ''u1'' ''o1'' ''c1'' False ''429'' 0) (client_example_db CNormal) 1) 2"
proof -
  have "client_db_ok (client_example_db CNormal)" by code_simp
  moreover have "client_select ''u1'' ''o1'' ''c1'' (client_example_db CNormal)
    = Inr (client_example_row CNormal)" by code_simp
  ultimately show ?thesis
    using client_failure_blocks [of "client_example_db CNormal" 2 1]
    by (simp add: time_simps del: client_step.simps)
qed

lemma set_client_paused_atomic_witness:
  "client_row ''c2'' (snd (set_client_paused ''u1'' ''o1'' ''c1'' True 5 (client_example_db CNormal)))
     = client_row ''c2'' (client_example_db CNormal)
   \<and> is_ok (fst (set_client_paused ''u1'' ''o1'' ''c1'' True 5 (client_example_db CNormal)))"
proof -
  have "client_db_ok (client_example_db CNormal)" by code_simp
  moreover have ok: "is_ok (fst (set_client_paused ''u1'' ''o1'' ''c1'' True 5 (client_example_db CNormal)))"
    by code_simp
  ultimately show ?thesis
    using set_client_paused_atomic [of "client_example_db CNormal" "''u1''" "''o1''" "''c1''" True 5
        "fst (set_client_paused ''u1'' ''o1'' ''c1'' True 5 (client_example_db CNormal))"
        "snd (set_client_paused ''u1'' ''o1'' ''c1'' True 5 (client_example_db CNormal))"]
    by auto
qed

end
