(* ===== verification/Row_Lifecycle.thy ===== *)
theory Row_Lifecycle
  imports TH_Prelude
begin

text \<open>
  Contracts of stores that keep rows for ever and change their status. \<open>row_lifecycle\<close> says that
  no operation drops a row and that every change of a row is one of \<open>can\<close>; its lemmas carry that
  over runs. \<open>task_queue\<close> extends it for the task tables of the two connector stores: a
  connector has at most one active task, a finished task stays finished, and so a task is
  completed at most once.
\<close>

section \<open>Runs\<close>

fun store_run :: "('o \<Rightarrow> 's \<Rightarrow> time \<Rightarrow> 's) \<Rightarrow> 's \<Rightarrow> ('o \<times> time) list \<Rightarrow> 's" where
  "store_run step s [] = s"
| "store_run step s (e # es) = store_run step (step (fst e) s (snd e)) es"

fun count_steps :: "('o \<Rightarrow> 's \<Rightarrow> time \<Rightarrow> 's) \<Rightarrow> ('o \<Rightarrow> 's \<Rightarrow> time \<Rightarrow> bool) \<Rightarrow> 's \<Rightarrow> ('o \<times> time) list \<Rightarrow> nat"
where
  "count_steps step ev s [] = 0"
| "count_steps step ev s (e # es) =
     (if ev (fst e) s (snd e) then 1 else 0) + count_steps step ev (step (fst e) s (snd e)) es"

text \<open>How updates and inserts look through \<open>row_at\<close>.\<close>

definition keeps_rows :: "('r \<Rightarrow> 'k) \<Rightarrow> ('r \<Rightarrow> 'r \<Rightarrow> bool) \<Rightarrow> 'r list \<Rightarrow> 'r list \<Rightarrow> bool" where
  "keeps_rows key can rows rows' =
     (\<forall>k r. row_at key k rows = Some r \<longrightarrow> (\<exists>r'. row_at key k rows' = Some r' \<and> can r r'))"

lemma keeps_rows_refl: "(\<And>r. can r r) \<Longrightarrow> keeps_rows key can rows rows"
  by (simp add: keeps_rows_def)

lemma keeps_rows_trans:
  assumes "\<And>a b c. can a b \<Longrightarrow> can b c \<Longrightarrow> can a c"
    and "keeps_rows key can xs ys" and "keeps_rows key can ys zs"
  shows "keeps_rows key can xs zs"
  using assms unfolding keeps_rows_def by metis

lemma keeps_rows_update:
  assumes "\<And>r. can r r" and "\<And>r. p r \<Longrightarrow> key (f r) = key r \<and> can r (f r)"
  shows "keeps_rows key can rows (sql_update p f rows)"
  using assms by (auto simp: keeps_rows_def row_at_sql_update)

lemma keeps_rows_update_in:
  assumes "\<And>r. can r r" and "\<And>r. key (f r) = key r"
    and "\<And>r. r \<in> set rows \<Longrightarrow> p r \<Longrightarrow> can r (f r)"
  shows "keeps_rows key can rows (sql_update p f rows)"
  using assms(1,3) by (auto simp: keeps_rows_def row_at_sql_update assms(2) dest: row_at_Some)

lemma keeps_rows_append: "(\<And>r. can r r) \<Longrightarrow> keeps_rows key can rows (rows @ new)"
  by (auto simp: keeps_rows_def row_at_append)

text \<open>What one operation does to a table: nothing, one update of allowed changes, or one new row.\<close>

inductive table_change ::
  "('r \<Rightarrow> 'k) \<Rightarrow> ('r \<Rightarrow> 'r \<Rightarrow> bool) \<Rightarrow> ('r list \<Rightarrow> 'r \<Rightarrow> bool) \<Rightarrow> 'r list \<Rightarrow> 'r list \<Rightarrow> bool"
  for key :: "'r \<Rightarrow> 'k" and can :: "'r \<Rightarrow> 'r \<Rightarrow> bool" and new :: "'r list \<Rightarrow> 'r \<Rightarrow> bool"
where
  same: "table_change key can new rows rows"
| updated: "(\<And>r. r \<in> set rows \<Longrightarrow> p r \<Longrightarrow> can r (f r)) \<Longrightarrow> table_change key can new rows (sql_update p f rows)"
| added: "key r \<notin> key ` set rows \<Longrightarrow> new rows r \<Longrightarrow> table_change key can new rows (rows @ [r])"

lemma table_change_keys:
  assumes "table_change key can new rows rows'" and "\<And>r r'. can r r' \<Longrightarrow> key r' = key r"
  shows "distinct (map key rows) \<Longrightarrow> distinct (map key rows')" and "key ` set rows \<subseteq> key ` set rows'"
proof -
  have same: "map key (sql_update p f rows) = map key rows" if "\<And>r. r \<in> set rows \<Longrightarrow> p r \<Longrightarrow> can r (f r)" for p f
    using that assms(2) by (intro map_sql_update) blast
  show "distinct (map key rows')" if "distinct (map key rows)"
    using assms(1)
  proof cases
    case updated
    then show ?thesis using same that by metis
  qed (use that in auto)
  show "key ` set rows \<subseteq> key ` set rows'"
    using assms(1)
  proof cases
    case (updated p f)
    with same [of p f] have "map key rows' = map key rows" by blast
    then show ?thesis by (metis list.set_map order_refl)
  qed auto
qed

lemma table_change_keeps:
  assumes "table_change key can new rows rows'" and "\<And>r. can r r" and "\<And>r r'. can r r' \<Longrightarrow> key r' = key r"
  shows "keeps_rows key can rows rows'"
  using assms(1)
proof cases
  case same
  then show ?thesis by (simp add: keeps_rows_refl assms(2))
next
  case (updated p f)
  have "\<forall>r\<in>set rows. p r \<longrightarrow> key (f r) = key r" using updated(2) assms(3) by blast
  then have "row_at key k (sql_update p f rows) = map_option (\<lambda>r. if p r then f r else r) (row_at key k rows)" for k
    by (induction rows) (auto simp: row_at_def)
  with updated assms(2) show ?thesis by (auto simp: keeps_rows_def dest!: row_at_Some)
next
  case added
  then show ?thesis by (simp add: keeps_rows_append assms(2))
qed

lemma table_change_all:
  assumes "table_change key can new rows rows'" and "\<And>r r'. r \<in> set rows \<Longrightarrow> can r r' \<Longrightarrow> Q r \<Longrightarrow> Q r'" and "\<And>r. new rows r \<Longrightarrow> Q r"
    and "\<forall>r\<in>set rows. Q r"
  shows "\<forall>r\<in>set rows'. Q r"
  using assms(1)
proof cases
  case (updated p f)
  then show ?thesis using assms(2,4) by (auto simp: set_sql_update)
qed (use assms(3,4) in auto)

section \<open>Rows that only change as allowed\<close>

locale row_lifecycle =
  fixes inv :: "'s \<Rightarrow> bool"
    and step :: "'o \<Rightarrow> 's \<Rightarrow> time \<Rightarrow> 's"
    and rows :: "'s \<Rightarrow> 'r list"
    and key :: "'r \<Rightarrow> string"
    and can :: "'r \<Rightarrow> 'r \<Rightarrow> bool"
  assumes can_refl: "can r r"
    and can_trans: "can r r' \<Longrightarrow> can r' r'' \<Longrightarrow> can r r''"
    and inv_step: "inv s \<Longrightarrow> inv (step x s t)"
    and row_kept: "inv s \<Longrightarrow> row_at key k (rows s) = Some r \<Longrightarrow>
      \<exists>r'. row_at key k (rows (step x s t)) = Some r' \<and> can r r'"
begin

lemma inv_run: "inv s \<Longrightarrow> inv (store_run step s es)"
  by (induction es arbitrary: s) (auto simp: inv_step)

lemma row_run:
  assumes "inv s" and "row_at key k (rows s) = Some r"
  shows "\<exists>r'. row_at key k (rows (store_run step s es)) = Some r' \<and> can r r'"
  using assms
proof (induction es arbitrary: s r)
  case Nil
  then show ?case using can_refl by simp
next
  case (Cons e es)
  from row_kept [OF Cons.prems] obtain r' where
    "row_at key k (rows (step (fst e) s (snd e))) = Some r'" "can r r'" by blast
  moreover from Cons.IH [OF inv_step [OF Cons.prems(1)] this(1)] obtain r'' where
    "row_at key k (rows (store_run step (step (fst e) s (snd e)) es)) = Some r''" "can r' r''"
    by blast
  ultimately show ?case using can_trans by auto
qed

end

section \<open>One-shot events\<close>

text \<open>An event \<open>fires k\<close> that needs the row \<open>k\<close> open and closes it, where closed rows stay closed.\<close>

locale one_shot = row_lifecycle inv step rows key can
  for inv :: "'s \<Rightarrow> bool" and step :: "'o \<Rightarrow> 's \<Rightarrow> time \<Rightarrow> 's" and rows :: "'s \<Rightarrow> 'r list"
    and key :: "'r \<Rightarrow> string" and can :: "'r \<Rightarrow> 'r \<Rightarrow> bool" +
  fixes opened :: "'r \<Rightarrow> bool"
    and fires :: "string \<Rightarrow> 'o \<Rightarrow> 's \<Rightarrow> time \<Rightarrow> bool"
  assumes closed_final: "\<not> opened r \<Longrightarrow> can r r' \<Longrightarrow> \<not> opened r'"
    and fires_open: "inv s \<Longrightarrow> fires k x s t \<Longrightarrow>
      \<exists>r. row_at key k (rows s) = Some r \<and> opened r"
    and fires_closes: "inv s \<Longrightarrow> fires k x s t \<Longrightarrow>
      row_at key k (rows (step x s t)) = Some r' \<Longrightarrow> \<not> opened r'"
begin

lemma closed_never_fires:
  assumes "inv s" and "row_at key k (rows s) = Some r" and "\<not> opened r"
  shows "count_steps step (fires k) s es = 0"
  using assms
proof (induction es arbitrary: s r)
  case (Cons e es)
  from row_kept [OF Cons.prems(1,2)] obtain r' where
    r': "row_at key k (rows (step (fst e) s (snd e))) = Some r'" "can r r'" by blast
  have "\<not> fires k (fst e) s (snd e)"
    using fires_open [OF Cons.prems(1)] Cons.prems(2,3) by fastforce
  with Cons.IH [OF inv_step [OF Cons.prems(1)] r'(1) closed_final [OF Cons.prems(3) r'(2)]]
  show ?case by simp
qed simp

theorem fires_at_most_once:
  assumes "inv s"
  shows "count_steps step (fires k) s es \<le> 1"
  using assms
proof (induction es arbitrary: s)
  case (Cons e es)
  note i = inv_step [OF Cons.prems]
  show ?case
  proof (cases "fires k (fst e) s (snd e)")
    case False
    with Cons.IH [OF i] show ?thesis by simp
  next
    case True
    from fires_open [OF Cons.prems this] row_kept [OF Cons.prems] obtain r' where
      r': "row_at key k (rows (step (fst e) s (snd e))) = Some r'" by blast
    with closed_never_fires [OF i r'] fires_closes [OF Cons.prems True r'] True
    show ?thesis by simp
  qed
qed simp

lemma closed_run:
  assumes "inv s" and "row_at key k (rows s) = Some r" and "\<not> opened r"
  shows "\<exists>r'. row_at key k (rows (store_run step s es)) = Some r' \<and> can r r' \<and> \<not> opened r'"
  using row_run [OF assms(1,2)] closed_final [OF assms(3)] by blast

end

section \<open>Task queues\<close>

locale task_queue = one_shot inv step rows key can active completes
  for inv :: "'s \<Rightarrow> bool" and step :: "'o \<Rightarrow> 's \<Rightarrow> time \<Rightarrow> 's" and rows :: "'s \<Rightarrow> 'r list"
    and key :: "'r \<Rightarrow> string" and can :: "'r \<Rightarrow> 'r \<Rightarrow> bool" and active :: "'r \<Rightarrow> bool"
    and completes :: "string \<Rightarrow> 'o \<Rightarrow> 's \<Rightarrow> time \<Rightarrow> bool" +
  fixes worker :: "'r \<Rightarrow> string"
  assumes single_active: "inv s \<Longrightarrow> r \<in> set (rows s) \<Longrightarrow> r' \<in> set (rows s) \<Longrightarrow>
      active r \<Longrightarrow> active r' \<Longrightarrow> worker r = worker r' \<Longrightarrow> r = r'"
begin

theorem single_active_run:
  assumes "inv s" and "r \<in> set (rows (store_run step s es))" and "r' \<in> set (rows (store_run step s es))"
    and "active r" and "active r'" and "worker r = worker r'"
  shows "r = r'"
  using single_active [OF inv_run [OF assms(1)] assms(2-6)] .

end

end
