(* ===== verification/Connector_Base.thy ===== *)
theory Connector_Base
  imports Row_Lifecycle Store_Tables
begin

text \<open>
  What the stores of the two kinds of connectors (\<open>internal/store/client_connectors.go\<close> and
  \<open>internal/store/browser_connectors.go\<close>) have in common: the status columns, the columns both
  task tables share, and the conditions and assignments their claim transactions repeat. Tokens
  are random and their hash is a parameter, so both are arguments of the operations.
\<close>

section \<open>Status columns\<close>

datatype connector_status = KPending | KActive | KRevoked

datatype task_status = TQueued | TClaimed | TCompleted | TFailed | TExpired | TCancelled

record task =
  tk_id :: string
  tk_connector :: string
  tk_owner :: string
  tk_org :: string
  tk_connection :: "string option"
  tk_provider :: string
  tk_action :: string
  tk_status :: task_status
  tk_lease_hash :: string
  tk_lease_expires :: "time option"
  tk_error_code :: string
  tk_error_message :: string
  tk_expires :: time
  tk_claimed_at :: "time option"
  tk_completed_at :: "time option"
  tk_created :: time
  tk_updated :: time

definition task_active :: "'a task_scheme \<Rightarrow> bool" where
  "task_active t = (tk_status t = TQueued \<or> tk_status t = TClaimed)"

definition task_stale :: "string \<Rightarrow> time \<Rightarrow> 'a task_scheme \<Rightarrow> bool" where
  "task_stale cid now t = (tk_connector t = cid \<and> task_active t \<and> tk_expires t \<le> now)"

definition task_lapsed :: "string \<Rightarrow> time \<Rightarrow> 'a task_scheme \<Rightarrow> bool" where
  "task_lapsed cid now t = (tk_connector t = cid \<and> tk_status t = TClaimed
     \<and> (case tk_lease_expires t of None \<Rightarrow> False | Some l \<Rightarrow> l \<le> now) \<and> tk_expires t > now)"

definition task_leased :: "string \<Rightarrow> string \<Rightarrow> string \<Rightarrow> time \<Rightarrow> 'a task_scheme \<Rightarrow> bool" where
  "task_leased cid tid hash now t = (tk_id t = tid \<and> tk_connector t = cid \<and> tk_status t = TClaimed
     \<and> tk_lease_hash t = hash
     \<and> (case tk_lease_expires t of None \<Rightarrow> False | Some l \<Rightarrow> l > now) \<and> tk_expires t > now)"

text \<open>\<open>set status=..., lease_hash='', lease_expires_at=null, error_code=..., error_message=...,
  completed_at=now(), updated_at=now()\<close>\<close>

definition task_finish ::
  "task_status \<Rightarrow> string \<Rightarrow> string \<Rightarrow> time \<Rightarrow> 'a task_scheme \<Rightarrow> 'a task_scheme"
where
  "task_finish st code msg now t = t\<lparr>tk_status := st, tk_lease_hash := [], tk_lease_expires := None,
     tk_error_code := code, tk_error_message := msg, tk_completed_at := Some now, tk_updated := now\<rparr>"

definition task_requeue :: "time \<Rightarrow> 'a task_scheme \<Rightarrow> 'a task_scheme" where
  "task_requeue now t =
     t\<lparr>tk_status := TQueued, tk_lease_hash := [], tk_lease_expires := None, tk_updated := now\<rparr>"

definition task_next :: "string \<Rightarrow> time \<Rightarrow> 'a task_scheme list \<Rightarrow> 'a task_scheme option" where
  "task_next cid now ts =
     first_by tk_created (filter (\<lambda>t. tk_connector t = cid \<and> tk_status t = TQueued \<and> tk_expires t > now) ts)"

definition task_claim :: "string \<Rightarrow> time \<Rightarrow> time \<Rightarrow> 'a task_scheme \<Rightarrow> 'a task_scheme" where
  "task_claim hash until now t = t\<lparr>tk_status := TClaimed, tk_lease_hash := hash,
     tk_lease_expires := Some until, tk_claimed_at := Some now, tk_updated := now\<rparr>"

text \<open>The partial unique index over the active tasks of a connector, as the check an insert makes.\<close>

definition task_busy :: "string \<Rightarrow> 'a task_scheme list \<Rightarrow> bool" where
  "task_busy cid ts = sql_exists (\<lambda>t. tk_connector t = cid \<and> task_active t) ts"

section \<open>Allowed changes of a task\<close>

definition task_can :: "'a task_scheme \<Rightarrow> 'a task_scheme \<Rightarrow> bool" where
  "task_can t t' = (tk_id t' = tk_id t \<and> tk_connector t' = tk_connector t \<and> tk_owner t' = tk_owner t
     \<and> tk_org t' = tk_org t \<and> tk_created t' = tk_created t \<and> tk_expires t' = tk_expires t
     \<and> (task_active t \<or> tk_status t' = tk_status t))"

lemma task_can_refl: "task_can t t"
  by (simp add: task_can_def)

lemma task_can_trans: "task_can t t' \<Longrightarrow> task_can t' t'' \<Longrightarrow> task_can t t''"
  by (auto simp: task_can_def task_active_def)

lemma task_can_id: "task_can t t' \<Longrightarrow> tk_id t' = tk_id t"
  by (simp add: task_can_def)

lemma task_can_done: "\<not> task_active t \<Longrightarrow> task_can t t' \<Longrightarrow> \<not> task_active t'"
  by (simp add: task_can_def task_active_def)

text \<open>A task table changes well when every row changes as allowed.\<close>

definition tasks_evolve :: "'a task_scheme list \<Rightarrow> 'a task_scheme list \<Rightarrow> bool" where
  "tasks_evolve ts ts' = list_all2 task_can ts ts'"

definition tasks_ok :: "'a task_scheme list \<Rightarrow> bool" where
  "tasks_ok ts = (distinct (map tk_id ts)
     \<and> (\<forall>t\<in>set ts. \<forall>t'\<in>set ts. task_active t \<and> task_active t' \<and> tk_connector t = tk_connector t'
          \<longrightarrow> t = t'))"

lemma tasks_evolve_refl [simp]: "tasks_evolve ts ts"
  by (simp add: tasks_evolve_def list_all2_refl task_can_refl)

lemma tasks_evolve_trans: "tasks_evolve a b \<Longrightarrow> tasks_evolve b c \<Longrightarrow> tasks_evolve a c"
  unfolding tasks_evolve_def by (rule list_all2_trans [OF task_can_trans])

lemma tasks_evolve_update:
  "(\<And>t. t \<in> set ts \<Longrightarrow> p t \<Longrightarrow> task_can t (f t)) \<Longrightarrow> tasks_evolve ts (sql_update p f ts)"
  by (induction ts) (auto simp: tasks_evolve_def task_can_refl)

lemma tasks_evolve_ids: "tasks_evolve ts ts' \<Longrightarrow> map tk_id ts' = map tk_id ts"
  unfolding tasks_evolve_def by (induction rule: list_all2_induct) (auto dest: task_can_id)

lemma tasks_evolve_row:
  "tasks_evolve ts ts' \<Longrightarrow> row_at tk_id k ts = Some t \<Longrightarrow>
   \<exists>t'. row_at tk_id k ts' = Some t' \<and> task_can t t'"
  unfolding tasks_evolve_def
  by (induction rule: list_all2_induct) (auto simp: row_at_def dest: task_can_id split: if_splits)

lemma tasks_evolve_back:
  "tasks_evolve ts ts' \<Longrightarrow> t' \<in> set ts' \<Longrightarrow> \<exists>t\<in>set ts. task_can t t'"
  unfolding tasks_evolve_def by (induction rule: list_all2_induct) auto

lemma tasks_ok_evolve:
  assumes "tasks_ok ts" and "tasks_evolve ts ts'"
  shows "tasks_ok ts'"
proof -
  have d: "distinct (map tk_id ts')"
    using assms(1) tasks_evolve_ids [OF assms(2)] by (simp add: tasks_ok_def)
  have "a = b" if ab: "a \<in> set ts'" "b \<in> set ts'" "task_active a" "task_active b"
    "tk_connector a = tk_connector b" for a b
  proof -
    from tasks_evolve_back [OF assms(2)] ab(1,2) obtain s t where
      st: "s \<in> set ts" "task_can s a" "t \<in> set ts" "task_can t b" by blast
    then have "task_active s" "task_active t" using ab task_can_done by blast+
    moreover have "tk_connector s = tk_connector t" using st ab by (simp add: task_can_def)
    ultimately have "s = t" using assms(1) st by (simp add: tasks_ok_def)
    with st have "tk_id a = tk_id b" by (simp add: task_can_id)
    then show "a = b" by (rule distinct_key_unique [OF d ab(1,2)])
  qed
  with d show ?thesis by (simp add: tasks_ok_def)
qed

lemma tasks_ok_insert:
  assumes "tasks_ok ts" and "tk_id t \<notin> tk_id ` set ts" and "\<not> task_busy (tk_connector t) ts"
  shows "tasks_ok (ts @ [t])"
  using assms by (auto simp: tasks_ok_def task_busy_def sql_exists_iff)

lemma task_can_moves:
  "task_active t \<Longrightarrow> task_can t (task_finish st code msg now t)"
  "task_active t \<Longrightarrow> task_can t (task_requeue now t)"
  "task_active t \<Longrightarrow> task_can t (task_claim hash until now t)"
  by (simp_all add: task_can_def task_finish_def task_requeue_def task_claim_def)

lemma task_stale_active: "task_stale cid now t \<Longrightarrow> task_active t"
  by (simp add: task_stale_def)

lemma task_lapsed_active: "task_lapsed cid now t \<Longrightarrow> task_active t"
  by (simp add: task_lapsed_def task_active_def)

lemma task_leased_active: "task_leased cid tid hash now t \<Longrightarrow> task_active t"
  by (simp add: task_leased_def task_active_def)

lemma task_next_Some:
  "task_next cid now ts = Some t \<Longrightarrow>
   t \<in> set ts \<and> tk_connector t = cid \<and> tk_status t = TQueued \<and> tk_expires t > now"
  unfolding task_next_def by (drule first_by_in) auto

lemma task_leased_affected:
  "tasks_ok ts \<Longrightarrow> sql_affected (task_leased cid tid hash now) ts
     = (case row_at tk_id tid ts of None \<Rightarrow> 0 | Some t \<Rightarrow> if task_leased cid tid hash now t then 1 else 0)"
  by (rule sql_affected_key) (auto simp: tasks_ok_def task_leased_def)

lemma task_claim_sel [simp]:
  "tk_id (task_claim hash until now t) = tk_id t"
  "tk_connector (task_claim hash until now t) = tk_connector t"
  "tk_expires (task_claim hash until now t) = tk_expires t"
  "tk_status (task_claim hash until now t) = TClaimed"
  "tk_lease_hash (task_claim hash until now t) = hash"
  "tk_lease_expires (task_claim hash until now t) = Some until"
  by (simp_all add: task_claim_def)

lemma task_next_None:
  "\<forall>t\<in>set ts. tk_connector t = cid \<longrightarrow> \<not> task_active t \<Longrightarrow> task_next cid now ts = None"
  by (auto simp: task_next_def filter_empty_conv task_active_def)

section \<open>Tokens\<close>

text \<open>\<open>base64.RawURLEncoding.DecodeString\<close>: line breaks are skipped, every other byte must be in
  the alphabet, and one left-over character cannot be decoded. The code uses the length only.\<close>

definition rawurl_char :: "char \<Rightarrow> bool" where
  "rawurl_char c = (let n = of_char c :: nat in
     (65 \<le> n \<and> n \<le> 90) \<or> (97 \<le> n \<and> n \<le> 122) \<or> (48 \<le> n \<and> n \<le> 57) \<or> n = 45 \<or> n = 95)"

definition rawurl_decoded_len :: "string \<Rightarrow> nat option" where
  "rawurl_decoded_len s =
     (let cs = filter (\<lambda>c. c \<noteq> CHR 0x0A \<and> c \<noteq> CHR 0x0D) s; n = length cs
      in if list_all rawurl_char cs \<and> n mod 4 \<noteq> 1 then Some (n * 6 div 8) else None)"

definition token_prefix :: "string \<Rightarrow> string" where
  "token_prefix v = (if length v \<le> 8 then v else take 8 v)"

text \<open>\<open>normalizedClientCapabilities\<close> and \<open>normalizedBrowserCapabilities\<close>: allowed, lower case,
  first occurrence.\<close>

fun normalized_capabilities :: "string list \<Rightarrow> string list \<Rightarrow> string list \<Rightarrow> string list" where
  "normalized_capabilities allowed seen [] = []"
| "normalized_capabilities allowed seen (v # vs) =
     (let value = to_lower (trim_space v)
      in if value \<notin> set allowed \<or> value \<in> set seen then normalized_capabilities allowed seen vs
         else value # normalized_capabilities allowed (value # seen) vs)"

lemma normalized_capabilities_props:
  "set (normalized_capabilities allowed seen vs) \<subseteq> set allowed
   \<and> distinct (normalized_capabilities allowed seen vs)
   \<and> set (normalized_capabilities allowed seen vs) \<inter> set seen = {}"
proof (induction vs arbitrary: seen)
  case (Cons v vs)
  from Cons.IH [of seen] Cons.IH [of "to_lower (trim_space v) # seen"] show ?case
    by (auto simp: Let_def)
qed simp

end
