(* ===== verification/Client_Tasks.thy ===== *)
theory Client_Tasks
  imports Connector_Base
begin

text \<open>
  Official-client connectors, their task queue and their response sessions,
  \<open>internal/store/client_connectors.go\<close>: the tables \<open>ai_client_connectors\<close>, \<open>ai_client_tasks\<close>
  and \<open>ai_client_responses\<close>, with the unique indexes and checks of migration 0052 that the
  statements can run into. The parameter \<open>h\<close> is the hex SHA-256 of \<open>hashClientToken\<close>; random
  tokens and ids are arguments. The identity of a heart-beat is the JSON text \<open>json.Marshal\<close>
  made of it, or \<open>None\<close> when it failed.
\<close>

section \<open>State\<close>

record client_connector =
  cc_id :: string
  cc_owner :: string
  cc_org :: string
  cc_display_name :: string
  cc_status :: connector_status
  cc_pairing_hash :: string
  cc_pairing_expires :: "time option"
  cc_token_hash :: string
  cc_token_prefix :: string
  cc_public_key :: string
  cc_connector_version :: string
  cc_codex_version :: string
  cc_grok_version :: string
  cc_capabilities :: "string list"
  cc_identity :: string
  cc_last_seen :: "time option"
  cc_paired_at :: "time option"
  cc_revoked_at :: "time option"
  cc_created :: time
  cc_updated :: time

record client_task = task +
  ct_payload_key :: string
  ct_result_key :: string

datatype response_status = RActive | RExpired | RDeleted

record client_response =
  rs_id :: string
  rs_owner :: string
  rs_org :: string
  rs_gateway_key :: string
  rs_connection :: string
  rs_connector :: string
  rs_provider :: string
  rs_model :: string
  rs_ciphertext :: string
  rs_nonce :: string
  rs_previous :: "string option"
  rs_status :: response_status
  rs_idle_expires :: time
  rs_absolute_expires :: time
  rs_last_used :: time
  rs_created :: time
  rs_updated :: time

record client_db =
  cdb_connectors :: "client_connector list"
  cdb_tasks :: "client_task list"
  cdb_responses :: "client_response list"
  cdb_conns :: "connection list"
  cdb_accounts :: accounts

definition client_connector_online :: "time \<Rightarrow> client_connector \<Rightarrow> bool" where
  "client_connector_online now c = (cc_status c = KActive
     \<and> (case cc_last_seen c of None \<Rightarrow> False | Some s \<Rightarrow> s > now - 45 * second))"

section \<open>Connectors\<close>

definition default_client_name :: string where
  "default_client_name =
     [CHR 0xE6, CHR 0x88, CHR 0x91, CHR 0xE7, CHR 0x9A, CHR 0x84, CHR 0xE5, CHR 0xAE,
      CHR 0x98, CHR 0xE6, CHR 0x96, CHR 0xB9, CHR 0xE5, CHR 0xAE, CHR 0xA2, CHR 0xE6,
      CHR 0x88, CHR 0xB7, CHR 0xE7, CHR 0xAB, CHR 0xAF]"

definition client_connector_for_owner ::
  "string \<Rightarrow> string \<Rightarrow> string \<Rightarrow> client_db \<Rightarrow> client_connector res"
where
  "client_connector_for_owner owner org cid db =
     query_row (\<lambda>c. cc_id c = cid \<and> cc_owner c = owner \<and> cc_org c = org \<and> cc_status c \<noteq> KRevoked)
       (cdb_connectors db)"

definition client_connectors_for_owner ::
  "string \<Rightarrow> string \<Rightarrow> client_db \<Rightarrow> client_connector list"
where
  "client_connectors_for_owner owner org db =
     sort_key (\<lambda>c. - cc_created c)
       (filter (\<lambda>c. cc_owner c = owner \<and> cc_org c = org \<and> cc_status c \<noteq> KRevoked) (cdb_connectors db))"

definition client_connector_by_id :: "string \<Rightarrow> client_db \<Rightarrow> client_connector res" where
  "client_connector_by_id cid db = query_row (\<lambda>c. cc_id c = cid) (cdb_connectors db)"

definition create_client_connector ::
  "(string \<Rightarrow> string) \<Rightarrow> string \<Rightarrow> string \<Rightarrow> string \<Rightarrow> string \<Rightarrow> string \<Rightarrow> time \<Rightarrow> client_db
    \<Rightarrow> (client_connector \<times> string) res \<times> client_db"
where
  "create_client_connector h owner org name0 pairing_code uuid now db =
     (let name1 = trim_space name0;
          name = (if name1 = [] then default_client_name else name1);
          cid = ''aicc_'' @ uuid;
          row = \<lparr>cc_id = cid, cc_owner = owner, cc_org = org, cc_display_name = name,
             cc_status = KPending, cc_pairing_hash = h pairing_code,
             cc_pairing_expires = Some (now + 10 * minute), cc_token_hash = [], cc_token_prefix = [],
             cc_public_key = [], cc_connector_version = [], cc_codex_version = [], cc_grok_version = [],
             cc_capabilities = [], cc_identity = ''{}'', cc_last_seen = None, cc_paired_at = None,
             cc_revoked_at = None, cc_created = now, cc_updated = now\<rparr>;
          found = (\<lambda>db'. case client_connector_for_owner owner org cid db' of
                           Inl e \<Rightarrow> Inl e | Inr c \<Rightarrow> Inr (c, pairing_code))
      in if rune_count name > 80 then (Inl (ErrNamed ''official client connector name is too long''), db)
         else if \<not> account_active (cdb_accounts db) owner org then (found db, db)
         else if sql_exists (\<lambda>c. cc_id c = cid) (cdb_connectors db)
         then (Inl (ErrConstraint ''ai_client_connectors_pkey''), db)
         else if sql_exists (\<lambda>c. cc_pairing_hash c = h pairing_code \<and> h pairing_code \<noteq> [])
                (cdb_connectors db)
         then (Inl (ErrConstraint ''idx_ai_client_connectors_pairing_hash''), db)
         else if sql_exists (\<lambda>c. cc_owner c = owner \<and> cc_org c = org \<and> cc_status c \<noteq> KRevoked)
                (cdb_connectors db)
         then (Inl (ErrConstraint ''idx_ai_client_one_connector_per_owner''), db)
         else (let db' = db\<lparr>cdb_connectors := cdb_connectors db @ [row]\<rparr> in (found db', db')))"

definition client_pairable :: "(string \<Rightarrow> string) \<Rightarrow> string \<Rightarrow> time \<Rightarrow> accounts \<Rightarrow> client_connector \<Rightarrow> bool" where
  "client_pairable h pairing_code now acc c =
     (cc_pairing_hash c = h pairing_code
      \<and> (case cc_pairing_expires c of None \<Rightarrow> False | Some e \<Rightarrow> e > now)
      \<and> cc_status c = KPending \<and> account_active acc (cc_owner c) (cc_org c))"

definition pair_client_connector ::
  "(string \<Rightarrow> string) \<Rightarrow> string \<Rightarrow> string \<Rightarrow> string \<Rightarrow> time \<Rightarrow> client_db
    \<Rightarrow> (client_connector \<times> string) res \<times> client_db"
where
  "pair_client_connector h pairing_code0 public_key0 device_token now db =
     (let pairing_code = trim_space pairing_code0;
          public_key = trim_space public_key0;
          invalid = Inl (ErrNamed ''ErrAIClientConnectorPairingInvalid'');
          sel = client_pairable h pairing_code now (cdb_accounts db)
      in if rawurl_decoded_len public_key \<noteq> Some 32 \<or> length pairing_code < 32 then (invalid, db)
         else case query_row sel (cdb_connectors db) of
           Inl _ \<Rightarrow> (invalid, db)
         | Inr c \<Rightarrow>
             if h device_token \<noteq> []
                \<and> sql_exists (\<lambda>k. cc_token_hash k = h device_token \<and> cc_id k \<noteq> cc_id c) (cdb_connectors db)
             then (Inl (ErrConstraint ''idx_ai_client_connectors_token_hash''), db)
             else
               (let db' = db\<lparr>cdb_connectors := sql_update sel
                      (\<lambda>k. k\<lparr>cc_status := KActive, cc_pairing_hash := [], cc_pairing_expires := None,
                             cc_token_hash := h device_token, cc_token_prefix := token_prefix device_token,
                             cc_public_key := public_key, cc_paired_at := Some now,
                             cc_last_seen := Some now, cc_updated := now\<rparr>) (cdb_connectors db)\<rparr>
                in (case client_connector_by_id (cc_id c) db' of
                      Inl e \<Rightarrow> Inl e | Inr k \<Rightarrow> Inr (k, device_token), db')))"

definition authenticate_client_connector ::
  "(string \<Rightarrow> string) \<Rightarrow> string \<Rightarrow> client_db \<Rightarrow> client_connector res"
where
  "authenticate_client_connector h device_token0 db =
     (let device_token = trim_space device_token0;
          unauthorized = Inl (ErrNamed ''ErrAIClientConnectorUnauthorized'')
      in if length device_token < 40 then unauthorized
         else case query_row (\<lambda>c. cc_token_hash c = h device_token \<and> cc_status c = KActive
                       \<and> account_active (cdb_accounts db) (cc_owner c) (cc_org c))
                     (cdb_connectors db) of
           Inl _ \<Rightarrow> unauthorized
         | Inr c \<Rightarrow> Inr c)"

definition heartbeat_client_connector ::
  "string \<Rightarrow> string \<Rightarrow> string \<Rightarrow> string \<Rightarrow> string list \<Rightarrow> string option \<Rightarrow> time \<Rightarrow> client_db
    \<Rightarrow> client_connector res \<times> client_db"
where
  "heartbeat_client_connector cid version codex grok capabilities identity now db =
     (case identity of
        None \<Rightarrow> (Inl (ErrNamed ''official client identity payload is invalid''), db)
      | Some raw \<Rightarrow>
          if length raw > 16 * 1024
          then (Inl (ErrNamed ''official client identity payload is invalid''), db)
          else
            (let sel = (\<lambda>c. cc_id c = cid \<and> cc_status c = KActive);
                 db' = db\<lparr>cdb_connectors := sql_update sel
                   (\<lambda>c. c\<lparr>cc_connector_version := truncate_store_text version 64,
                          cc_codex_version := truncate_store_text codex 64,
                          cc_grok_version := truncate_store_text grok 64,
                          cc_capabilities := normalized_capabilities [''chatgpt'', ''grok''] [] capabilities,
                          cc_identity := raw, cc_last_seen := Some now, cc_updated := now\<rparr>)
                   (cdb_connectors db)\<rparr>
             in if sql_affected sel (cdb_connectors db) \<noteq> 1
                then (Inl (ErrNamed ''ErrAIClientConnectorUnauthorized''), db')
                else (client_connector_by_id cid db', db')))"

definition revoke_client_connector ::
  "string \<Rightarrow> string \<Rightarrow> string \<Rightarrow> time \<Rightarrow> client_db \<Rightarrow> unit res \<times> client_db"
where
  "revoke_client_connector owner org cid now db =
     (let sel = (\<lambda>c. cc_id c = cid \<and> cc_owner c = owner \<and> cc_org c = org \<and> cc_status c \<noteq> KRevoked)
      in if sql_affected sel (cdb_connectors db) \<noteq> 1 then (Inl ErrNoRows, db)
         else (Inr (), db\<lparr>
           cdb_connectors := sql_update sel
             (\<lambda>c. c\<lparr>cc_status := KRevoked, cc_token_hash := [], cc_pairing_hash := [],
                    cc_public_key := [], cc_revoked_at := Some now, cc_updated := now\<rparr>) (cdb_connectors db),
           cdb_tasks := sql_update (\<lambda>t. tk_connector t = cid \<and> task_active t)
             (task_finish TCancelled ''connector_revoked'' ''Official client connector revoked'' now)
             (cdb_tasks db),
           cdb_conns := sql_update (\<lambda>c. cn_owner c = owner \<and> cn_org c = org
               \<and> cn_auth_method c = ''official_client'' \<and> cn_connector_id c = cid \<and> cn_deleted_at c = None)
             (conn_set_status ''disabled'' ''disabled'' ''paused'' ''connector_revoked''
               ''Official client connector revoked'' now) (cdb_conns db),
           cdb_responses := sql_update (\<lambda>r. rs_connector r = cid \<and> rs_owner r = owner \<and> rs_org r = org
               \<and> rs_status r \<noteq> RDeleted)
             (\<lambda>r. r\<lparr>rs_status := RDeleted, rs_ciphertext := [], rs_nonce := [], rs_updated := now\<rparr>)
             (cdb_responses db)\<rparr>))"

section \<open>Tasks\<close>

definition client_expire_tasks :: "string \<Rightarrow> time \<Rightarrow> client_db \<Rightarrow> client_db" where
  "client_expire_tasks cid now db = db\<lparr>cdb_tasks := sql_update (task_stale cid now)
     (task_finish TExpired ''task_expired'' ''Official client task expired'' now) (cdb_tasks db)\<rparr>"

definition client_task_for_owner :: "string \<Rightarrow> string \<Rightarrow> string \<Rightarrow> client_db \<Rightarrow> client_task res" where
  "client_task_for_owner owner org tid db =
     query_row (\<lambda>t. tk_id t = tid \<and> tk_owner t = owner \<and> tk_org t = org) (cdb_tasks db)"

definition create_client_task ::
  "string \<Rightarrow> string \<Rightarrow> string \<Rightarrow> string \<Rightarrow> string \<Rightarrow> string \<Rightarrow> string \<Rightarrow> time \<Rightarrow> string \<Rightarrow> time \<Rightarrow> client_db
    \<Rightarrow> client_task res \<times> client_db"
where
  "create_client_task cid owner org connection provider0 action0 payload_key expires0 uuid now db0 =
     (let expires = (if expires0 = 0 then now + 3 * minute else expires0)
      in if trim_space payload_key = []
         then (Inl (ErrNamed ''official client payload key is required''), db0)
         else
           (let db = client_expire_tasks cid now db0;
                tid = ''aict_'' @ uuid;
                provider = to_lower (trim_space provider0);
                action = to_lower (trim_space action0);
                row = \<lparr>tk_id = tid, tk_connector = cid, tk_owner = owner, tk_org = org,
                   tk_connection = (if connection = [] then None else Some connection),
                   tk_provider = provider, tk_action = action, tk_status = TQueued, tk_lease_hash = [],
                   tk_lease_expires = None, tk_error_code = [], tk_error_message = [],
                   tk_expires = expires, tk_claimed_at = None, tk_completed_at = None,
                   tk_created = now, tk_updated = now, ct_payload_key = payload_key, ct_result_key = []\<rparr>
            in if \<not> sql_exists (\<lambda>c. cc_id c = cid \<and> cc_owner c = owner \<and> cc_org c = org
                     \<and> cc_status c = KActive) (cdb_connectors db)
               then (client_task_for_owner owner org tid db, db)
               else if provider \<notin> {''openai'', ''grok''}
               then (Inl (ErrConstraint ''ai_client_tasks_provider_check''), db)
               else if action \<notin> {''identify'', ''generate'', ''interrupt'', ''delete_session''}
               then (Inl (ErrConstraint ''ai_client_tasks_action_check''), db)
               else if sql_exists (\<lambda>t. tk_id t = tid) (cdb_tasks db)
               then (Inl (ErrConstraint ''ai_client_tasks_pkey''), db)
               else if task_busy cid (cdb_tasks db)
               then (Inl (ErrNamed ''ErrAIClientConnectorBusy''), db)
               else if connection \<noteq> [] \<and> \<not> sql_exists (\<lambda>c. cn_id c = connection) (cdb_conns db)
               then (Inl (ErrConstraint ''ai_client_tasks_connection_id_fkey''), db)
               else (let db' = db\<lparr>cdb_tasks := cdb_tasks db @ [row]\<rparr>
                     in (client_task_for_owner owner org tid db', db'))))"

definition claim_client_task ::
  "(string \<Rightarrow> string) \<Rightarrow> string \<Rightarrow> duration \<Rightarrow> string \<Rightarrow> time \<Rightarrow> client_db
    \<Rightarrow> (client_task \<times> string) option res \<times> client_db"
where
  "claim_client_task h cid lease0 lease_token now db0 =
     (let lease = (if lease0 < 10 * second \<or> lease0 > 5 * minute then 2 * minute else lease0);
          db1 = client_expire_tasks cid now db0;
          db2 = db1\<lparr>cdb_tasks := sql_update (task_lapsed cid now) (task_requeue now) (cdb_tasks db1)\<rparr>
      in case task_next cid now (cdb_tasks db2) of
           None \<Rightarrow> (Inr None, db2)
         | Some t \<Rightarrow>
             (let db3 = db2\<lparr>cdb_tasks := sql_update (\<lambda>k. tk_id k = tk_id t)
                    (task_claim (h lease_token) (now + lease) now) (cdb_tasks db2)\<rparr>
              in case query_row (\<lambda>k. tk_id k = tk_id t) (cdb_tasks db3) of
                   Inl e \<Rightarrow> (Inl e, db0)
                 | Inr k \<Rightarrow> (Inr (Some (k, lease_token)), db3)))"

definition complete_client_task ::
  "(string \<Rightarrow> string) \<Rightarrow> string \<Rightarrow> string \<Rightarrow> string \<Rightarrow> bool \<Rightarrow> string \<Rightarrow> string \<Rightarrow> string \<Rightarrow> time \<Rightarrow> client_db
    \<Rightarrow> unit res \<times> client_db"
where
  "complete_client_task h cid tid lease_token ok result_key error_code0 error_message0 now db =
     (let status = (if ok then TCompleted else TFailed);
          error_code = (if ok then [] else error_code0);
          error_message = (if ok then [] else error_message0);
          sel = task_leased cid tid (h (trim_space lease_token)) now;
          db' = db\<lparr>cdb_tasks := sql_update sel
             (\<lambda>t. task_finish status (trim_space error_code) (truncate_store_text error_message 512) now
                    (t\<lparr>ct_result_key := trim_space result_key\<rparr>)) (cdb_tasks db)\<rparr>
      in if sql_affected sel (cdb_tasks db) \<noteq> 1
         then (Inl (ErrNamed ''ErrAIClientTaskLeaseInvalid''), db')
         else (Inr (), db'))"

definition client_task_lease_active ::
  "(string \<Rightarrow> string) \<Rightarrow> string \<Rightarrow> string \<Rightarrow> string \<Rightarrow> time \<Rightarrow> client_db \<Rightarrow> bool"
where
  "client_task_lease_active h cid tid lease_token now db =
     sql_exists (task_leased cid tid (h (trim_space lease_token)) now) (cdb_tasks db)"

definition cancel_client_task ::
  "string \<Rightarrow> string \<Rightarrow> string \<Rightarrow> string \<Rightarrow> time \<Rightarrow> client_db \<Rightarrow> unit res \<times> client_db"
where
  "cancel_client_task owner org tid reason now db =
     (Inr (), db\<lparr>cdb_tasks := sql_update
        (\<lambda>t. tk_id t = tid \<and> tk_owner t = owner \<and> tk_org t = org)
        (\<lambda>t. t\<lparr>tk_status := (if task_active t then TCancelled else tk_status t),
               tk_lease_hash := [], tk_lease_expires := None,
               tk_error_code := (if task_active t then ''cancelled'' else tk_error_code t),
               tk_error_message := (if task_active t then truncate_store_text reason 512
                                    else tk_error_message t),
               tk_completed_at := (case tk_completed_at t of None \<Rightarrow> Some now | Some c \<Rightarrow> Some c),
               tk_updated := now\<rparr>) (cdb_tasks db)\<rparr>)"

section \<open>Response sessions\<close>

definition client_response_by_id :: "string \<Rightarrow> client_db \<Rightarrow> client_response res" where
  "client_response_by_id rid db = query_row (\<lambda>r. rs_id r = rid) (cdb_responses db)"

definition remove_dashes :: "string \<Rightarrow> string" where
  "remove_dashes s = filter (\<lambda>c. c \<noteq> CHR 0x2D) s"

text \<open>The input record of \<open>CreateAIClientResponse\<close> is the row without the columns it fills in.\<close>

definition create_client_response ::
  "client_response \<Rightarrow> string \<Rightarrow> time \<Rightarrow> client_db \<Rightarrow> client_response res \<times> client_db"
where
  "create_client_response inp uuid now db =
     (let rid = ''resp_'' @ remove_dashes uuid;
          row = inp\<lparr>rs_id := rid,
             rs_previous := (if rs_previous inp = Some [] then None else rs_previous inp),
             rs_status := RActive,
             rs_idle_expires := (if rs_idle_expires inp = 0 then now + 24 * hour else rs_idle_expires inp),
             rs_absolute_expires := (if rs_absolute_expires inp = 0 then now + 7 * 24 * hour
                                     else rs_absolute_expires inp),
             rs_last_used := now, rs_created := now, rs_updated := now\<rparr>
      in if rs_provider row \<notin> {''openai'', ''grok''}
         then (Inl (ErrConstraint ''ai_client_responses_provider_check''), db)
         else if sql_exists (\<lambda>r. rs_id r = rid) (cdb_responses db)
         then (Inl (ErrConstraint ''ai_client_responses_pkey''), db)
         else if (case rs_previous row of None \<Rightarrow> False
                  | Some p \<Rightarrow> p \<noteq> rid \<and> \<not> sql_exists (\<lambda>r. rs_id r = p) (cdb_responses db))
         then (Inl (ErrConstraint ''ai_client_responses_previous_response_id_fkey''), db)
         else (let db' = db\<lparr>cdb_responses := cdb_responses db @ [row]\<rparr>
               in (client_response_by_id rid db', db')))"

definition client_response_for_use ::
  "string \<Rightarrow> string \<Rightarrow> string \<Rightarrow> string \<Rightarrow> string \<Rightarrow> string \<Rightarrow> time \<Rightarrow> client_db
    \<Rightarrow> client_response res \<times> client_db"
where
  "client_response_for_use rid owner org gateway_key connection model now db =
     (case query_row (\<lambda>r. rs_id r = rid \<and> rs_owner r = owner \<and> rs_org r = org
             \<and> rs_gateway_key r = gateway_key \<and> rs_connection r = connection \<and> rs_model r = model
             \<and> rs_status r \<noteq> RDeleted) (cdb_responses db) of
        Inl e \<Rightarrow> (Inl e, db)
      | Inr r \<Rightarrow>
          if rs_status r \<noteq> RActive \<or> \<not> rs_idle_expires r > now \<or> \<not> rs_absolute_expires r > now
          then (Inl (ErrNamed ''ErrAIClientSessionExpired''),
                db\<lparr>cdb_responses := sql_update (\<lambda>k. rs_id k = rs_id r \<and> rs_status k = RActive)
                     (\<lambda>k. k\<lparr>rs_status := RExpired, rs_updated := now\<rparr>) (cdb_responses db)\<rparr>)
          else
            (let idle0 = now + 24 * hour;
                 idle = (if idle0 > rs_absolute_expires r then rs_absolute_expires r else idle0)
             in (Inr (r\<lparr>rs_idle_expires := idle, rs_last_used := now\<rparr>),
                 db\<lparr>cdb_responses := sql_update (\<lambda>k. rs_id k = rs_id r \<and> rs_status k = RActive)
                      (\<lambda>k. k\<lparr>rs_idle_expires := idle, rs_last_used := now, rs_updated := now\<rparr>)
                      (cdb_responses db)\<rparr>)))"

definition delete_client_response ::
  "string \<Rightarrow> string \<Rightarrow> string \<Rightarrow> time \<Rightarrow> client_db \<Rightarrow> client_response res \<times> client_db"
where
  "delete_client_response owner org rid now db =
     (case query_row (\<lambda>r. rs_id r = rid \<and> rs_owner r = owner \<and> rs_org r = org \<and> rs_status r \<noteq> RDeleted)
             (cdb_responses db) of
        Inl e \<Rightarrow> (Inl e, db)
      | Inr r \<Rightarrow>
          (Inr r, db\<lparr>cdb_responses := sql_update (\<lambda>k. rs_id k = rs_id r)
             (\<lambda>k. k\<lparr>rs_status := RDeleted, rs_ciphertext := [], rs_nonce := [], rs_updated := now\<rparr>)
             (cdb_responses db)\<rparr>))"

section \<open>Maintenance\<close>

definition maintain_client_state :: "time \<Rightarrow> client_db \<Rightarrow> nat res \<times> client_db" where
  "maintain_client_state now db =
     (let cs = (\<lambda>c. cc_status c = KPending
            \<and> (case cc_pairing_expires c of None \<Rightarrow> False | Some e \<Rightarrow> e \<le> now));
          ts = (\<lambda>t. task_active t \<and> tk_expires t \<le> now);
          rs = (\<lambda>r. rs_status r = RActive \<and> (rs_idle_expires r \<le> now \<or> rs_absolute_expires r \<le> now))
      in (Inr (sql_affected cs (cdb_connectors db) + sql_affected ts (cdb_tasks db)
               + sql_affected rs (cdb_responses db)),
          db\<lparr>cdb_connectors := sql_update cs
               (\<lambda>c. c\<lparr>cc_status := KRevoked, cc_pairing_hash := [], cc_pairing_expires := None,
                      cc_revoked_at := Some now, cc_updated := now\<rparr>) (cdb_connectors db),
             cdb_tasks := sql_update ts
               (task_finish TExpired ''task_expired'' ''Official client task expired'' now) (cdb_tasks db),
             cdb_responses := sql_update rs
               (\<lambda>r. r\<lparr>rs_status := RExpired, rs_ciphertext := [], rs_nonce := [], rs_updated := now\<rparr>)
               (cdb_responses db)\<rparr>))"

section \<open>Operations as steps\<close>

datatype client_task_op =
    KCreate string string string string string
  | KPair string string string
  | KHeartbeat string string string string "string list" "string option"
  | KRevoke string string string
  | KTask string string string string string string string time string
  | KClaim string duration string
  | KComplete string string string bool string string string
  | KCancel string string string string
  | KResponse client_response string
  | KUse string string string string string string
  | KDelete string string string
  | KMaintain

fun client_task_step :: "(string \<Rightarrow> string) \<Rightarrow> client_task_op \<Rightarrow> client_db \<Rightarrow> time \<Rightarrow> client_db" where
  "client_task_step h (KCreate owner org name code uuid) db t =
     snd (create_client_connector h owner org name code uuid t db)"
| "client_task_step h (KPair code pk token) db t = snd (pair_client_connector h code pk token t db)"
| "client_task_step h (KHeartbeat cid v1 v2 v3 caps ident) db t =
     snd (heartbeat_client_connector cid v1 v2 v3 caps ident t db)"
| "client_task_step h (KRevoke owner org cid) db t = snd (revoke_client_connector owner org cid t db)"
| "client_task_step h (KTask cid owner org conn prov act pay expires uuid) db t =
     snd (create_client_task cid owner org conn prov act pay expires uuid t db)"
| "client_task_step h (KClaim cid lease token) db t = snd (claim_client_task h cid lease token t db)"
| "client_task_step h (KComplete cid tid token ok res code msg) db t =
     snd (complete_client_task h cid tid token ok res code msg t db)"
| "client_task_step h (KCancel owner org tid reason) db t = snd (cancel_client_task owner org tid reason t db)"
| "client_task_step h (KResponse inp uuid) db t = snd (create_client_response inp uuid t db)"
| "client_task_step h (KUse rid owner org gk conn model) db t =
     snd (client_response_for_use rid owner org gk conn model t db)"
| "client_task_step h (KDelete owner org rid) db t = snd (delete_client_response owner org rid t db)"
| "client_task_step h KMaintain db t = snd (maintain_client_state t db)"

text \<open>The step is a completion of task \<open>k\<close> that the store accepts; a pairing that yields \<open>k\<close>.\<close>

definition client_completes :: "(string \<Rightarrow> string) \<Rightarrow> string \<Rightarrow> client_task_op \<Rightarrow> client_db \<Rightarrow> time \<Rightarrow> bool"
where
  "client_completes h k x db t = (case x of
     KComplete cid tid token ok res code msg \<Rightarrow>
       tid = k \<and> is_ok (fst (complete_client_task h cid tid token ok res code msg t db))
   | _ \<Rightarrow> False)"

definition client_pairs :: "(string \<Rightarrow> string) \<Rightarrow> string \<Rightarrow> client_task_op \<Rightarrow> client_db \<Rightarrow> time \<Rightarrow> bool"
where
  "client_pairs h k x db t = (case x of
     KPair code pk token \<Rightarrow>
       (case fst (pair_client_connector h code pk token t db) of
          Inl _ \<Rightarrow> False | Inr (c, _) \<Rightarrow> cc_id c = k)
   | _ \<Rightarrow> False)"

section \<open>Invariant\<close>

definition client_db_wf :: "client_db \<Rightarrow> bool" where
  "client_db_wf db = (tasks_ok (cdb_tasks db) \<and> distinct (map cc_id (cdb_connectors db))
     \<and> distinct (map rs_id (cdb_responses db)))"

definition connector_can :: "client_connector \<Rightarrow> client_connector \<Rightarrow> bool" where
  "connector_can c c' = (cc_id c' = cc_id c \<and> cc_owner c' = cc_owner c \<and> cc_org c' = cc_org c
     \<and> (cc_status c = KRevoked \<longrightarrow> cc_status c' = KRevoked)
     \<and> (cc_status c' = KPending \<longrightarrow> cc_status c = KPending))"

definition response_can :: "client_response \<Rightarrow> client_response \<Rightarrow> bool" where
  "response_can r r' = (rs_id r' = rs_id r \<and> rs_owner r' = rs_owner r \<and> rs_org r' = rs_org r
     \<and> rs_absolute_expires r' = rs_absolute_expires r
     \<and> (rs_status r = RDeleted \<longrightarrow> rs_status r' = RDeleted)
     \<and> (rs_status r' = RActive \<longrightarrow> rs_status r = RActive))"

lemma connector_can_refl: "connector_can c c"
  by (simp add: connector_can_def)

lemma connector_can_trans: "connector_can a b \<Longrightarrow> connector_can b c \<Longrightarrow> connector_can a c"
  unfolding connector_can_def by metis

lemma connector_can_pending:
  "cc_status c \<noteq> KPending \<Longrightarrow> connector_can c c' \<Longrightarrow> cc_status c' \<noteq> KPending"
  by (simp add: connector_can_def)

lemma response_can_refl: "response_can c c"
  by (simp add: response_can_def)

lemma response_can_trans: "response_can a b \<Longrightarrow> response_can b c \<Longrightarrow> response_can a c"
  unfolding response_can_def by metis

text \<open>What one step does to each table: rows change as allowed, new rows are appended.\<close>

definition client_tables_step :: "client_db \<Rightarrow> client_db \<Rightarrow> bool" where
  "client_tables_step db db' =
     ((\<exists>ts new. tasks_evolve (cdb_tasks db) ts \<and> cdb_tasks db' = ts @ new
         \<and> (\<forall>k\<in>set new. \<exists>c\<in>set (cdb_connectors db). cc_id c = tk_connector k \<and> cc_status c = KActive))
      \<and> keeps_rows cc_id connector_can (cdb_connectors db) (cdb_connectors db')
      \<and> keeps_rows rs_id response_can (cdb_responses db) (cdb_responses db')
      \<and> client_db_wf db')"

lemma client_tables_stepI:
  assumes "client_db_wf db"
    and "tasks_evolve (cdb_tasks db) (cdb_tasks db')"
    and "keeps_rows cc_id connector_can (cdb_connectors db) (cdb_connectors db')"
    and "distinct (map cc_id (cdb_connectors db'))"
    and "keeps_rows rs_id response_can (cdb_responses db) (cdb_responses db')"
    and "distinct (map rs_id (cdb_responses db'))"
  shows "client_tables_step db db'"
proof -
  have "cdb_tasks db' = cdb_tasks db' @ []" by simp
  then show ?thesis
    using assms tasks_ok_evolve [OF _ assms(2)]
    by (fastforce simp: client_tables_step_def client_db_wf_def)
qed

lemmas client_keeps_refl = keeps_rows_refl [of connector_can, OF connector_can_refl]
  keeps_rows_refl [of response_can, OF response_can_refl]

lemma client_tables_refl: "client_db_wf db \<Longrightarrow> client_tables_step db db"
  by (intro client_tables_stepI) (auto simp: client_keeps_refl client_db_wf_def)

lemma client_tables_connectors:
  assumes "client_db_wf db" and "\<And>c. p c \<Longrightarrow> connector_can c (f c)"
  shows "client_tables_step db (db\<lparr>cdb_connectors := sql_update p f (cdb_connectors db)\<rparr>)"
proof (rule client_tables_stepI [OF assms(1)])
  show "keeps_rows cc_id connector_can (cdb_connectors db)
      (cdb_connectors (db\<lparr>cdb_connectors := sql_update p f (cdb_connectors db)\<rparr>))"
    using assms(2) connector_can_refl connector_can_def by (auto intro!: keeps_rows_update)
  show "distinct (map cc_id (cdb_connectors (db\<lparr>cdb_connectors := sql_update p f (cdb_connectors db)\<rparr>)))"
    using assms connector_can_def by (auto simp: client_db_wf_def intro!: distinct_sql_update)
qed (use assms in \<open>simp_all add: client_keeps_refl client_db_wf_def\<close>)

lemma client_tables_responses:
  assumes "client_db_wf db" and "\<And>r. p r \<Longrightarrow> response_can r (f r)"
  shows "client_tables_step db (db\<lparr>cdb_responses := sql_update p f (cdb_responses db)\<rparr>)"
proof (rule client_tables_stepI [OF assms(1)])
  show "keeps_rows rs_id response_can (cdb_responses db)
      (cdb_responses (db\<lparr>cdb_responses := sql_update p f (cdb_responses db)\<rparr>))"
    using assms(2) response_can_refl response_can_def by (auto intro!: keeps_rows_update)
  show "distinct (map rs_id (cdb_responses (db\<lparr>cdb_responses := sql_update p f (cdb_responses db)\<rparr>)))"
    using assms response_can_def by (auto simp: client_db_wf_def intro!: distinct_sql_update)
qed (use assms in \<open>simp_all add: client_keeps_refl client_db_wf_def\<close>)

lemma client_tables_insert_connector:
  assumes "client_db_wf db" and "\<not> sql_exists (\<lambda>c. cc_id c = cc_id k) (cdb_connectors db)"
  shows "client_tables_step db (db\<lparr>cdb_connectors := cdb_connectors db @ [k]\<rparr>)"
  using assms
  by (intro client_tables_stepI)
    (auto simp: client_keeps_refl client_db_wf_def sql_exists_iff intro: keeps_rows_append connector_can_refl)

lemma client_tables_insert_response:
  assumes "client_db_wf db" and "\<not> sql_exists (\<lambda>c. rs_id c = rs_id k) (cdb_responses db)"
  shows "client_tables_step db (db\<lparr>cdb_responses := cdb_responses db @ [k]\<rparr>)"
  using assms
  by (intro client_tables_stepI)
    (auto simp: client_keeps_refl client_db_wf_def sql_exists_iff intro: keeps_rows_append response_can_refl)

lemma client_step_create:
  "client_db_wf db \<Longrightarrow>
   client_tables_step db (snd (create_client_connector h owner org name code uuid t db))"
  by (simp add: create_client_connector_def Let_def client_tables_refl client_tables_insert_connector)

lemma client_step_pair:
  assumes "client_db_wf db"
  shows "client_tables_step db (snd (pair_client_connector h code pk token t db))"
  using assms
  by (auto simp: pair_client_connector_def Let_def client_tables_refl client_pairable_def
      connector_can_def intro!: client_tables_connectors split: sum.split)

lemma client_step_heartbeat:
  assumes "client_db_wf db"
  shows "client_tables_step db (snd (heartbeat_client_connector cid v1 v2 v3 caps ident t db))"
  using assms
  by (auto simp: heartbeat_client_connector_def Let_def client_tables_refl connector_can_def
      intro!: client_tables_connectors split: option.split)

lemma client_step_revoke:
  assumes "client_db_wf db"
  shows "client_tables_step db (snd (revoke_client_connector owner org cid t db))"
  using assms
  by (auto simp: revoke_client_connector_def Let_def client_tables_refl
      intro!: client_tables_stepI keeps_rows_update connector_can_refl response_can_refl
        distinct_sql_update tasks_evolve_update task_can_moves)
    (auto simp: client_db_wf_def connector_can_def response_can_def)

lemma client_expire_tables:
  "client_db_wf db \<Longrightarrow> tasks_evolve (cdb_tasks db) (cdb_tasks (client_expire_tasks cid t db))
   \<and> cdb_connectors (client_expire_tasks cid t db) = cdb_connectors db
   \<and> cdb_responses (client_expire_tasks cid t db) = cdb_responses db
   \<and> cdb_conns (client_expire_tasks cid t db) = cdb_conns db
   \<and> cdb_accounts (client_expire_tasks cid t db) = cdb_accounts db"
  by (auto simp: client_expire_tasks_def intro!: tasks_evolve_update task_can_moves
      dest: task_stale_active)

lemma client_expire_step:
  "client_db_wf db \<Longrightarrow> client_tables_step db (client_expire_tasks cid t db)"
  using client_expire_tables [of db cid t]
  by (intro client_tables_stepI) (auto simp: client_keeps_refl client_db_wf_def)

lemma client_insert_task:
  assumes "client_db_wf db" and "tasks_evolve (cdb_tasks db) (cdb_tasks db')"
    and "cdb_connectors db' = cdb_connectors db" and "cdb_responses db' = cdb_responses db"
    and "\<not> sql_exists (\<lambda>r. tk_id r = tk_id k) (cdb_tasks db')"
    and "\<not> task_busy (tk_connector k) (cdb_tasks db')"
    and "sql_exists (\<lambda>c. cc_id c = tk_connector k \<and> cc_owner c = owner \<and> cc_org c = org
           \<and> cc_status c = KActive) (cdb_connectors db')"
  shows "client_tables_step db (db'\<lparr>cdb_tasks := cdb_tasks db' @ [k]\<rparr>)"
proof -
  have "tasks_ok (cdb_tasks db' @ [k])"
    using assms(1,5,6) tasks_ok_evolve [OF _ assms(2)]
    by (intro tasks_ok_insert) (auto simp: client_db_wf_def sql_exists_iff)
  moreover have "\<exists>ts new. tasks_evolve (cdb_tasks db) ts
      \<and> cdb_tasks (db'\<lparr>cdb_tasks := cdb_tasks db' @ [k]\<rparr>) = ts @ new
      \<and> (\<forall>k\<in>set new. \<exists>c\<in>set (cdb_connectors db). cc_id c = tk_connector k \<and> cc_status c = KActive)"
    using assms(2,3,7)
    by (intro exI [of _ "cdb_tasks db'"] exI [of _ "[k]"]) (auto simp: sql_exists_iff)
  ultimately show ?thesis
    using assms by (simp add: client_tables_step_def client_db_wf_def client_keeps_refl)
qed

lemma client_step_task:
  assumes "client_db_wf db"
  shows "client_tables_step db
    (snd (create_client_task cid owner org conn prov act pay expires uuid t db))"
proof -
  let ?db = "client_expire_tasks cid t db"
  note e = client_expire_step [OF assms, of cid t]
  note ins = client_insert_task [OF assms, of ?db _ owner org]
  show ?thesis
    using e assms client_expire_tables [OF assms, of cid t]
    by (simp add: create_client_task_def Let_def client_tables_refl ins del: insert_iff)
qed

lemma client_step_claim:
  assumes "client_db_wf db"
  shows "client_tables_step db (snd (claim_client_task h cid lease token t db))"
proof -
  let ?db1 = "client_expire_tasks cid t db"
  let ?db2 = "?db1\<lparr>cdb_tasks := sql_update (task_lapsed cid t) (task_requeue t) (cdb_tasks ?db1)\<rparr>"
  note e = client_expire_tables [OF assms, of cid t]
  have ev2: "tasks_evolve (cdb_tasks db) (cdb_tasks ?db2)"
    using e by (auto intro!: tasks_evolve_trans [of "cdb_tasks db" "cdb_tasks ?db1"]
        tasks_evolve_update task_can_moves dest: task_lapsed_active)
  have ok2: "tasks_ok (cdb_tasks ?db2)"
    using tasks_ok_evolve [OF _ ev2] assms by (simp add: client_db_wf_def)
  have s2: "client_tables_step db ?db2"
    using assms ev2 e by (intro client_tables_stepI) (auto simp: client_keeps_refl client_db_wf_def)
  show ?thesis
  proof (cases "task_next cid t (cdb_tasks ?db2)")
    case None
    with s2 show ?thesis by (simp add: claim_client_task_def Let_def)
  next
    case (Some k)
    from task_next_Some [OF this] have k: "k \<in> set (cdb_tasks ?db2)" "task_active k"
      by (auto simp: task_active_def)
    let ?db3 = "?db2\<lparr>cdb_tasks := sql_update (\<lambda>r. tk_id r = tk_id k)
      (task_claim (h token) (t + (if lease < 10 * second \<or> lease > 5 * minute then 2 * minute else lease)) t)
      (cdb_tasks ?db2)\<rparr>"
    have "task_active r" if "r \<in> set (cdb_tasks ?db2)" "tk_id r = tk_id k" for r
      using distinct_key_unique [of tk_id "cdb_tasks ?db2" r k] ok2 that k by (simp add: tasks_ok_def)
    then have "tasks_evolve (cdb_tasks ?db2) (cdb_tasks ?db3)"
      by (auto intro!: tasks_evolve_update task_can_moves)
    then have "client_tables_step db ?db3"
      using assms e tasks_evolve_trans [OF ev2]
      by (intro client_tables_stepI) (auto simp: client_keeps_refl client_db_wf_def)
    with Some assms show ?thesis
      by (auto simp: claim_client_task_def Let_def client_tables_refl split: sum.split)
  qed
qed

lemma client_step_complete:
  assumes "client_db_wf db"
  shows "client_tables_step db (snd (complete_client_task h cid tid token ok res code msg t db))"
  using assms
  by (auto simp: complete_client_task_def Let_def client_keeps_refl client_db_wf_def
      intro!: client_tables_stepI tasks_evolve_update dest!: task_leased_active)
    (auto simp: task_can_def task_finish_def)

lemma client_step_cancel:
  assumes "client_db_wf db"
  shows "client_tables_step db (snd (cancel_client_task owner org tid reason t db))"
  using assms
  by (auto simp: cancel_client_task_def Let_def client_keeps_refl client_db_wf_def
      intro!: client_tables_stepI tasks_evolve_update) (auto simp: task_can_def)

lemma client_step_response:
  assumes "client_db_wf db"
  shows "client_tables_step db (snd (create_client_response inp uuid t db))"
  using assms
  by (simp add: create_client_response_def Let_def client_tables_refl client_tables_insert_response
      del: insert_iff)

lemma client_step_use:
  assumes "client_db_wf db"
  shows "client_tables_step db (snd (client_response_for_use rid owner org gk conn model t db))"
  using assms
  by (auto simp: client_response_for_use_def Let_def client_tables_refl response_can_def
      intro!: client_tables_responses split: sum.split)

lemma client_step_delete:
  assumes "client_db_wf db"
  shows "client_tables_step db (snd (delete_client_response owner org rid t db))"
  using assms
  by (auto simp: delete_client_response_def Let_def client_tables_refl response_can_def
      intro!: client_tables_responses split: sum.split)

lemma client_step_maintain:
  assumes "client_db_wf db"
  shows "client_tables_step db (snd (maintain_client_state t db))"
  using assms
  by (auto simp: maintain_client_state_def Let_def
      intro!: client_tables_stepI keeps_rows_update connector_can_refl response_can_refl
        distinct_sql_update tasks_evolve_update task_can_moves)
    (auto simp: client_db_wf_def connector_can_def response_can_def)

lemma client_task_step_tables:
  "client_db_wf db \<Longrightarrow> client_tables_step db (client_task_step h x db t)"
  by (cases x) (simp_all add: client_step_create client_step_pair client_step_heartbeat
      client_step_revoke client_step_task client_step_claim client_step_complete client_step_cancel
      client_step_response client_step_use client_step_delete client_step_maintain)

lemma client_step_wf: "client_db_wf db \<Longrightarrow> client_db_wf (client_task_step h x db t)"
  using client_task_step_tables [of db h x t] by (simp add: client_tables_step_def)

lemma client_step_task_row:
  "client_db_wf db \<Longrightarrow> row_at tk_id k (cdb_tasks db) = Some r \<Longrightarrow>
   \<exists>r'. row_at tk_id k (cdb_tasks (client_task_step h x db t)) = Some r' \<and> task_can r r'"
  using client_task_step_tables [of db h x t]
  by (auto simp: client_tables_step_def row_at_append dest: tasks_evolve_row)

section \<open>The contracts on this store\<close>

definition client_completed :: "bool \<Rightarrow> string \<Rightarrow> string \<Rightarrow> string \<Rightarrow> time \<Rightarrow> client_task \<Rightarrow> client_task" where
  "client_completed ok res code msg now t =
     task_finish (if ok then TCompleted else TFailed) (trim_space (if ok then [] else code))
       (truncate_store_text (if ok then [] else msg) 512) now (t\<lparr>ct_result_key := trim_space res\<rparr>)"

lemma complete_run:
  "complete_client_task h cid tid token ok res code msg now db
   = (if sql_affected (task_leased cid tid (h (trim_space token)) now) (cdb_tasks db) = 1 then Inr ()
      else Inl (ErrNamed ''ErrAIClientTaskLeaseInvalid''),
      db\<lparr>cdb_tasks := sql_update (task_leased cid tid (h (trim_space token)) now)
        (client_completed ok res code msg now) (cdb_tasks db)\<rparr>)"
  by (simp add: complete_client_task_def Let_def client_completed_def [abs_def])

lemma client_completed_sel [simp]:
  "tk_id (client_completed ok res code msg now t) = tk_id t"
  "tk_status (client_completed ok res code msg now t) = (if ok then TCompleted else TFailed)"
  by (simp_all add: client_completed_def task_finish_def)

lemma client_completes_leased:
  assumes "client_db_wf db" and "client_completes h k x db t"
  shows "\<exists>r. row_at tk_id k (cdb_tasks db) = Some r \<and> task_active r"
    and "row_at tk_id k (cdb_tasks (client_task_step h x db t)) = Some r' \<Longrightarrow> \<not> task_active r'"
proof -
  from assms(2) obtain cid token ok res code msg where
    x: "x = KComplete cid k token ok res code msg"
    and ok: "is_ok (fst (complete_client_task h cid k token ok res code msg t db))"
    by (auto simp: client_completes_def split: client_task_op.splits)
  let ?sel = "task_leased cid k (h (trim_space token)) t"
  from ok have "sql_affected ?sel (cdb_tasks db) = 1"
    by (simp add: complete_run split: if_splits)
  then obtain r where r: "r \<in> set (cdb_tasks db)" "?sel r"
    by (metis sql_affected_0 zero_neq_one)
  then have at: "row_at tk_id k (cdb_tasks db) = Some r"
    using row_at_unique [of tk_id "cdb_tasks db" r] assms(1)
    by (simp add: client_db_wf_def tasks_ok_def task_leased_def)
  with r task_leased_active show "\<exists>r. row_at tk_id k (cdb_tasks db) = Some r \<and> task_active r"
    by blast
  show "row_at tk_id k (cdb_tasks (client_task_step h x db t)) = Some r' \<Longrightarrow> \<not> task_active r'"
    using x at r(2) by (auto simp: complete_run row_at_sql_update task_active_def split: if_splits)
qed

lemma client_pairs_pending:
  assumes "client_db_wf db" and "client_pairs h k x db t"
  shows "\<exists>c. row_at cc_id k (cdb_connectors db) = Some c \<and> cc_status c = KPending"
    and "row_at cc_id k (cdb_connectors (client_task_step h x db t)) = Some c' \<Longrightarrow>
      cc_status c' = KActive"
proof -
  from assms(2) obtain code pk token where x: "x = KPair code pk token"
    by (auto simp: client_pairs_def split: client_task_op.splits)
  let ?sel = "client_pairable h (trim_space code) t (cdb_accounts db)"
  let ?f = "\<lambda>k. k\<lparr>cc_status := KActive, cc_pairing_hash := [], cc_pairing_expires := None,
    cc_token_hash := h token, cc_token_prefix := token_prefix token,
    cc_public_key := trim_space pk, cc_paired_at := Some t, cc_last_seen := Some t, cc_updated := t\<rparr>"
  let ?db = "db\<lparr>cdb_connectors := sql_update ?sel ?f (cdb_connectors db)\<rparr>"
  from assms(2) x obtain c where c: "query_row ?sel (cdb_connectors db) = Inr c"
    and res: "pair_client_connector h code pk token t db
      = (case client_connector_by_id (cc_id c) ?db of Inl e \<Rightarrow> Inl e | Inr k \<Rightarrow> Inr (k, token), ?db)"
    by (auto simp: client_pairs_def pair_client_connector_def Let_def split: sum.splits if_splits)
  from query_row_Inr [OF c] have in_c: "c \<in> set (cdb_connectors db)" "?sel c" by auto
  with assms(1) have at: "row_at cc_id (cc_id c) (cdb_connectors db) = Some c"
    by (simp add: row_at_unique client_db_wf_def)
  have "client_pairs h k x db t \<Longrightarrow> cc_id c = k"
    using x res by (auto simp: client_pairs_def client_connector_by_id_def dest!: query_row_Inr
        split: sum.splits)
  with assms(2) have k: "cc_id c = k" by simp
  with at in_c show "\<exists>c. row_at cc_id k (cdb_connectors db) = Some c \<and> cc_status c = KPending"
    by (auto simp: client_pairable_def)
  show "row_at cc_id k (cdb_connectors (client_task_step h x db t)) = Some c' \<Longrightarrow> cc_status c' = KActive"
    using x res at k in_c by (auto simp: row_at_sql_update)
qed

interpretation client_queue: task_queue client_db_wf "client_task_step h" cdb_tasks tk_id task_can
  task_active "client_completes h" tk_connector for h
proof unfold_locales
  fix k :: string and x db t assume "client_db_wf db" "client_completes h k x db t"
  from client_completes_leased [OF this]
  show "\<exists>r. row_at tk_id k (cdb_tasks db) = Some r \<and> task_active r"
    and "row_at tk_id k (cdb_tasks (client_task_step h x db t)) = Some r' \<Longrightarrow> \<not> task_active r'" for r'
    by blast+
next
  fix db and r r' :: client_task
  assume "client_db_wf db" "r \<in> set (cdb_tasks db)" "r' \<in> set (cdb_tasks db)" "task_active r"
    "task_active r'" "tk_connector r = tk_connector r'"
  then show "r = r'" unfolding client_db_wf_def tasks_ok_def by blast
qed (fact task_can_refl task_can_trans client_step_wf client_step_task_row task_can_done)+

interpretation client_pairing: one_shot client_db_wf "client_task_step h" cdb_connectors cc_id
  connector_can "\<lambda>c. cc_status c = KPending" "client_pairs h" for h
proof unfold_locales
  fix k :: string and x db t assume "client_db_wf db" "client_pairs h k x db t"
  from client_pairs_pending [OF this]
  show "\<exists>c. row_at cc_id k (cdb_connectors db) = Some c \<and> cc_status c = KPending"
    and "row_at cc_id k (cdb_connectors (client_task_step h x db t)) = Some c' \<Longrightarrow>
      cc_status c' \<noteq> KPending" for c'
    by auto
next
  fix db k c x t assume "client_db_wf db" "row_at cc_id k (cdb_connectors db) = Some c"
  then show "\<exists>c'. row_at cc_id k (cdb_connectors (client_task_step h x db t)) = Some c' \<and> connector_can c c'"
    using client_task_step_tables [of db h x t] by (auto simp: client_tables_step_def keeps_rows_def)
qed (fact connector_can_refl connector_can_trans client_step_wf connector_can_pending)+

interpretation client_sessions: row_lifecycle client_db_wf "client_task_step h" cdb_responses rs_id
  response_can for h
proof unfold_locales
  fix db k r x t assume "client_db_wf db" "row_at rs_id k (cdb_responses db) = Some r"
  then show "\<exists>r'. row_at rs_id k (cdb_responses (client_task_step h x db t)) = Some r' \<and> response_can r r'"
    using client_task_step_tables [of db h x t] by (auto simp: client_tables_step_def keeps_rows_def)
qed (fact response_can_refl response_can_trans client_step_wf)+

section \<open>Properties\<close>

lemma claim_run:
  assumes "claim_client_task h cid lease token t db = (Inr (Some (k, tok)), db')"
  obtains ts n where "task_next cid t ts = Some n" and "tok = token"
    and "cdb_tasks db' = sql_update (\<lambda>r. tk_id r = tk_id n) (task_claim (h token)
        (t + (if lease < 10 * second \<or> lease > 5 * minute then 2 * minute else lease)) t) ts"
    and "query_row (\<lambda>r. tk_id r = tk_id n) (cdb_tasks db') = Inr k"
  using assms
  by (auto simp: claim_client_task_def Let_def split: option.splits sum.splits)

text \<open>C3: over every sequence of operations on well-formed tables, a connector never has two
  active tasks, and a task is completed at most once, whatever tokens are presented.\<close>

theorem client_task_queue_safe:
  assumes "client_db_wf db"
  shows "(\<forall>r r'. r \<in> set (cdb_tasks (store_run (client_task_step h) db es)) \<longrightarrow>
      r' \<in> set (cdb_tasks (store_run (client_task_step h) db es)) \<longrightarrow>
      task_active r \<longrightarrow> task_active r' \<longrightarrow> tk_connector r = tk_connector r' \<longrightarrow> r = r')
    \<and> count_steps (client_task_step h) (client_completes h k) db es \<le> 1"
  using client_queue.single_active_run [OF assms] client_queue.fires_at_most_once [OF assms] by blast+

text \<open>a claimed task can be completed exactly by the token it was claimed with, exactly while
  the lease and the task are both unexpired; the lease lasts between ten seconds and five minutes
  whatever duration the connector asks for.\<close>

theorem client_claim_complete:
  assumes "client_db_wf db"
    and "claim_client_task h cid lease token t db = (Inr (Some (k, tok)), db')"
  shows "tok = token \<and> tk_connector k = cid \<and> tk_status k = TClaimed
    \<and> (\<exists>e. tk_lease_expires k = Some e \<and> t + 10 * second \<le> e \<and> e \<le> t + 5 * minute
        \<and> (\<forall>u raw. is_ok (fst (complete_client_task h cid (tk_id k) raw ok res code msg u db'))
             \<longleftrightarrow> h (trim_space raw) = h token \<and> u < e \<and> u < tk_expires k))"
proof -
  from claim_run [OF assms(2)] obtain ts n where
    n: "task_next cid t ts = Some n" "tok = token"
    and db': "cdb_tasks db' = sql_update (\<lambda>r. tk_id r = tk_id n) (task_claim (h token)
        (t + (if lease < 10 * second \<or> lease > 5 * minute then 2 * minute else lease)) t) ts"
    and q: "query_row (\<lambda>r. tk_id r = tk_id n) (cdb_tasks db') = Inr k"
    by blast
  let ?e = "t + (if lease < 10 * second \<or> lease > 5 * minute then 2 * minute else lease)"
  have wf: "tasks_ok (cdb_tasks db')"
    using client_step_wf [OF assms(1), of h "KClaim cid lease token" t] assms(2)
    by (simp add: client_db_wf_def)
  have ids: "map tk_id (cdb_tasks db') = map tk_id ts"
    unfolding db' by (rule map_sql_update) simp
  from query_row_Inr [OF q] have k: "k \<in> set (cdb_tasks db')" "tk_id k = tk_id n" by auto
  then obtain r where r: "r \<in> set ts" "tk_id r = tk_id n" "k = task_claim (h token) ?e t r"
    unfolding db' by (auto simp: set_sql_update split: if_splits)
  have "r = n"
    using distinct_key_unique [of tk_id ts r n] wf ids r task_next_Some [OF n(1)]
    by (simp add: tasks_ok_def)
  with r have k': "k = task_claim (h token) ?e t n" by simp
  have at: "row_at tk_id (tk_id k) (cdb_tasks db') = Some k"
    using row_at_unique k(1) wf by (auto simp: tasks_ok_def)
  have "is_ok (fst (complete_client_task h cid (tk_id k) raw ok res code msg u db'))
      \<longleftrightarrow> task_leased cid (tk_id k) (h (trim_space raw)) u k" for u raw
    using task_leased_affected [OF wf, of cid "tk_id k" "h (trim_space raw)" u] at
    by (simp add: complete_run)
  moreover have "task_leased cid (tk_id k) (h (trim_space raw)) u k
      \<longleftrightarrow> h (trim_space raw) = h token \<and> u < ?e \<and> u < tk_expires k" for u raw
    using task_next_Some [OF n(1)] by (auto simp: k' task_leased_def)
  ultimately show ?thesis
    using n(2) task_next_Some [OF n(1)] by (auto simp: k' time_simps)
qed

text \<open>a connector is paired at most once: whatever codes and keys are presented and whatever
  runs in between, at most one pairing ever yields it.\<close>

theorem client_paired_once:
  assumes "client_db_wf db"
  shows "count_steps (client_task_step h) (client_pairs h k) db es \<le> 1"
  using client_pairing.fires_at_most_once [OF assms] .

definition client_dead :: "string \<Rightarrow> client_db \<Rightarrow> bool" where
  "client_dead cid db = ((\<exists>c. row_at cc_id cid (cdb_connectors db) = Some c \<and> cc_status c = KRevoked)
     \<and> (\<forall>t\<in>set (cdb_tasks db). tk_connector t = cid \<longrightarrow> \<not> task_active t))"

lemma client_dead_step:
  assumes "client_db_wf db" and "client_dead cid db"
  shows "client_dead cid (client_task_step h x db t)"
proof -
  let ?db = "client_task_step h x db t"
  from client_task_step_tables [OF assms(1), of h x t] obtain ts new where
    ev: "tasks_evolve (cdb_tasks db) ts" and tasks: "cdb_tasks ?db = ts @ new"
    and new: "\<And>k. k \<in> set new \<Longrightarrow> \<exists>c\<in>set (cdb_connectors db). cc_id c = tk_connector k \<and> cc_status c = KActive"
    and keep: "keeps_rows cc_id connector_can (cdb_connectors db) (cdb_connectors ?db)"
    by (auto simp: client_tables_step_def)
  from assms(2) obtain c where c: "row_at cc_id cid (cdb_connectors db) = Some c" "cc_status c = KRevoked"
    by (auto simp: client_dead_def)
  with keep have "\<exists>c'. row_at cc_id cid (cdb_connectors ?db) = Some c' \<and> cc_status c' = KRevoked"
    unfolding keeps_rows_def connector_can_def by metis
  moreover have "\<not> task_active k" if "k \<in> set ts" "tk_connector k = cid" for k
    using tasks_evolve_back [OF ev that(1)] assms(2) that(2) task_can_done
    by (fastforce simp: client_dead_def task_can_def)
  moreover have "tk_connector k \<noteq> cid" if "k \<in> set new" for k
  proof
    assume "tk_connector k = cid"
    with new [OF that] obtain c' where c': "c' \<in> set (cdb_connectors db)" "cc_id c' = cid" "cc_status c' = KActive"
      by auto
    with assms(1) have "row_at cc_id cid (cdb_connectors db) = Some c'"
      using row_at_unique [of cc_id "cdb_connectors db" c'] by (simp add: client_db_wf_def)
    with c c' show False by simp
  qed
  ultimately show ?thesis by (auto simp: client_dead_def tasks)
qed

lemma client_dead_run:
  "client_db_wf db \<Longrightarrow> client_dead cid db \<Longrightarrow> client_dead cid (store_run (client_task_step h) db es)"
  by (induction es arbitrary: db) (auto simp: client_dead_step client_step_wf)

lemma revoke_dead:
  assumes "client_db_wf db" and "revoke_client_connector owner org cid t db = (Inr (), db')"
  shows "client_dead cid db'"
proof -
  let ?sel = "\<lambda>c. cc_id c = cid \<and> cc_owner c = owner \<and> cc_org c = org \<and> cc_status c \<noteq> KRevoked"
  from assms(2) have a: "sql_affected ?sel (cdb_connectors db) = 1"
    by (simp add: revoke_client_connector_def Let_def split: if_splits)
  have "distinct (map cc_id (cdb_connectors db))" using assms(1) by (simp add: client_db_wf_def)
  from sql_affected_key_1 [OF this _ a] obtain c where
    "row_at cc_id cid (cdb_connectors db) = Some c" "?sel c" by blast
  with assms(2) a show ?thesis
    by (auto simp: revoke_client_connector_def Let_def client_dead_def row_at_sql_update
        set_sql_update task_finish_def task_active_def)
qed

text \<open>revoking a connector is final. After any further operations no device token
  authenticates as it, and it is never handed a task again.\<close>

theorem client_revoked_final:
  assumes "client_db_wf db" and "revoke_client_connector owner org cid t db = (Inr (), db')"
  shows "(\<forall>c. authenticate_client_connector h token (store_run (client_task_step h) db' es) = Inr c
      \<longrightarrow> cc_id c \<noteq> cid)
    \<and> fst (claim_client_task h cid lease token' u (store_run (client_task_step h) db' es)) = Inr None"
proof -
  let ?db = "store_run (client_task_step h) db' es"
  have wf': "client_db_wf db'"
    using client_step_wf [OF assms(1), of h "KRevoke owner org cid" t] assms(2) by simp
  have dead: "client_dead cid ?db" by (rule client_dead_run [OF wf' revoke_dead [OF assms]])
  have wf: "client_db_wf ?db" by (rule client_queue.inv_run [OF wf'])
  have auth: "cc_id c \<noteq> cid" if "authenticate_client_connector h token ?db = Inr c" for c
  proof -
    from that have c: "c \<in> set (cdb_connectors ?db)" "cc_status c = KActive"
      by (auto simp: authenticate_client_connector_def Let_def dest!: query_row_Inr
          split: if_splits sum.splits)
    with wf have "row_at cc_id (cc_id c) (cdb_connectors ?db) = Some c"
      by (simp add: row_at_unique client_db_wf_def)
    with c(2) dead show "cc_id c \<noteq> cid" by (auto simp: client_dead_def)
  qed
  from dead have idle: "\<forall>k\<in>set (cdb_tasks ?db). tk_connector k = cid \<longrightarrow> \<not> task_active k"
    by (simp add: client_dead_def)
  have "task_next cid u (sql_update (task_lapsed cid u) (task_requeue u)
      (cdb_tasks (client_expire_tasks cid u ?db))) = None"
    using idle by (intro task_next_None)
      (auto simp: client_expire_tasks_def set_sql_update task_stale_def task_lapsed_def task_active_def)
  with auth show ?thesis
    by (simp add: claim_client_task_def Let_def)
qed

text \<open>a response session is used at most until its absolute expiry, however often it is used
  and whatever else happens: a use at or after that instant fails, and every successful use
  leaves an idle expiry that is at most 24 hours away and not beyond the absolute one.\<close>

theorem client_session_bounded:
  assumes "client_db_wf db" and "row_at rs_id rid (cdb_responses db) = Some r"
    and "fst (client_response_for_use rid owner org gk conn model u
           (store_run (client_task_step h) db es)) = Inr r'"
  shows "u < rs_absolute_expires r \<and> rs_idle_expires r' \<le> rs_absolute_expires r
    \<and> rs_idle_expires r' \<le> u + 24 * hour \<and> rs_status r = RActive"
proof -
  let ?db = "store_run (client_task_step h) db es"
  from client_sessions.row_run [OF assms(1,2)] obtain k where
    k: "row_at rs_id rid (cdb_responses ?db) = Some k" "response_can r k" by blast
  have wf: "client_db_wf ?db" by (rule client_queue.inv_run [OF assms(1)])
  from assms(3) obtain q where
    q: "q \<in> set (cdb_responses ?db)" "rs_id q = rid" "rs_status q = RActive"
      "u < rs_absolute_expires q"
      "r' = q\<lparr>rs_idle_expires := if u + 24 * hour > rs_absolute_expires q then rs_absolute_expires q
                                else u + 24 * hour, rs_last_used := u\<rparr>"
    by (auto simp: client_response_for_use_def Let_def dest!: query_row_Inr
        split: sum.splits if_splits)
  with wf k(1) have "q = k" using row_at_unique [of rs_id "cdb_responses ?db" q]
    by (simp add: client_db_wf_def)
  with q k(2) show ?thesis by (auto simp: response_can_def)
qed

section \<open>The properties on concrete tables\<close>

definition example_hash :: "string \<Rightarrow> string" where
  "example_hash s = CHR ''#'' # s"

definition example_connector :: "connector_status \<Rightarrow> client_connector" where
  "example_connector st = \<lparr>cc_id = ''k1'', cc_owner = ''u1'', cc_org = ''o1'', cc_display_name = ''mac'',
     cc_status = st, cc_pairing_hash = (if st = KPending then example_hash (replicate 32 CHR ''p'') else []),
     cc_pairing_expires = (if st = KPending then Some (10 * minute) else None),
     cc_token_hash = (if st = KActive then example_hash (replicate 43 CHR ''t'') else []),
     cc_token_prefix = [], cc_public_key = [], cc_connector_version = [], cc_codex_version = [],
     cc_grok_version = [], cc_capabilities = [], cc_identity = ''{}'', cc_last_seen = None,
     cc_paired_at = None, cc_revoked_at = None, cc_created = 0, cc_updated = 0\<rparr>"

definition example_response :: client_response where
  "example_response = \<lparr>rs_id = ''resp_1'', rs_owner = ''u1'', rs_org = ''o1'', rs_gateway_key = ''g1'',
     rs_connection = ''c1'', rs_connector = ''k1'', rs_provider = ''openai'', rs_model = ''m'',
     rs_ciphertext = ''x'', rs_nonce = ''n'', rs_previous = None, rs_status = RActive,
     rs_idle_expires = 24 * hour, rs_absolute_expires = 30 * hour, rs_last_used = 0, rs_created = 0,
     rs_updated = 0\<rparr>"

definition example_client_tables :: "connector_status \<Rightarrow> client_db" where
  "example_client_tables st = \<lparr>cdb_connectors = [example_connector st], cdb_tasks = [],
     cdb_responses = [example_response], cdb_conns = [],
     cdb_accounts = \<lparr>active_users = [''u1''], active_orgs = [''o1''], active_members = [(''o1'', ''u1'')]\<rparr>\<rparr>"

definition example_task_events :: "(client_task_op \<times> time) list" where
  "example_task_events =
     [(KTask ''k1'' ''u1'' ''o1'' [] ''openai'' ''generate'' ''key'' 0 ''1'', 1),
      (KClaim ''k1'' 0 ''tok'', 2),
      (KComplete ''k1'' ''aict_1'' ''tok'' True ''res'' [] [], 3),
      (KComplete ''k1'' ''aict_1'' ''tok'' True ''res'' [] [], 4)]"

lemma example_wf: "client_db_wf (example_client_tables st)"
  by (simp add: client_db_wf_def example_client_tables_def tasks_ok_def)

lemma client_task_queue_safe_witness:
  "count_steps (client_task_step example_hash) (client_completes example_hash ''aict_1'')
     (example_client_tables KActive) example_task_events = 1"
proof -
  have "0 < count_steps (client_task_step example_hash) (client_completes example_hash ''aict_1'')
     (example_client_tables KActive) example_task_events" by code_simp
  with client_task_queue_safe [OF example_wf, THEN conjunct2, of example_hash "''aict_1''" KActive
      example_task_events]
  show ?thesis by simp
qed

lemma client_claim_complete_witness:
  "\<exists>k tok db'. claim_client_task example_hash ''k1'' 0 ''tok'' 2
       (store_run (client_task_step example_hash) (example_client_tables KActive)
         (take 1 example_task_events)) = (Inr (Some (k, tok)), db')
     \<and> tok = ''tok'' \<and> tk_status k = TClaimed"
proof -
  let ?db = "store_run (client_task_step example_hash) (example_client_tables KActive)
    (take 1 example_task_events)"
  have "(case fst (claim_client_task example_hash ''k1'' 0 ''tok'' 2 ?db) of
      Inr (Some x) \<Rightarrow> True | _ \<Rightarrow> False)" by code_simp
  then obtain k tok db' where
    c: "claim_client_task example_hash ''k1'' 0 ''tok'' 2 ?db = (Inr (Some (k, tok)), db')"
    by (cases "claim_client_task example_hash ''k1'' 0 ''tok'' 2 ?db")
      (auto split: sum.splits option.splits)
  have "client_db_wf ?db" by (rule client_queue.inv_run [OF example_wf])
  from client_claim_complete [OF this c] c show ?thesis by blast
qed

lemma client_paired_once_witness:
  "count_steps (client_task_step example_hash) (client_pairs example_hash ''k1'')
     (example_client_tables KPending)
     [(KPair (replicate 32 CHR ''p'') (replicate 43 CHR ''A'') (replicate 43 CHR ''t''), 1),
      (KPair (replicate 32 CHR ''p'') (replicate 43 CHR ''A'') (replicate 43 CHR ''t''), 2)] = 1"
proof -
  have "0 < count_steps (client_task_step example_hash) (client_pairs example_hash ''k1'')
     (example_client_tables KPending)
     [(KPair (replicate 32 CHR ''p'') (replicate 43 CHR ''A'') (replicate 43 CHR ''t''), 1),
      (KPair (replicate 32 CHR ''p'') (replicate 43 CHR ''A'') (replicate 43 CHR ''t''), 2)]"
    by code_simp
  with client_paired_once [OF example_wf, of example_hash "''k1''" KPending
     "[(KPair (replicate 32 CHR ''p'') (replicate 43 CHR ''A'') (replicate 43 CHR ''t''), 1),
      (KPair (replicate 32 CHR ''p'') (replicate 43 CHR ''A'') (replicate 43 CHR ''t''), 2)]"]
  show ?thesis by linarith
qed

lemma client_revoked_final_witness:
  "\<exists>db'. revoke_client_connector ''u1'' ''o1'' ''k1'' 1 (example_client_tables KActive) = (Inr (), db')
     \<and> fst (claim_client_task example_hash ''k1'' 0 ''tok'' 9
         (store_run (client_task_step example_hash) db' example_task_events)) = Inr None"
proof -
  have "is_ok (fst (revoke_client_connector ''u1'' ''o1'' ''k1'' 1 (example_client_tables KActive)))"
    by code_simp
  then obtain db' where
    r: "revoke_client_connector ''u1'' ''o1'' ''k1'' 1 (example_client_tables KActive) = (Inr (), db')"
    by (cases "revoke_client_connector ''u1'' ''o1'' ''k1'' 1 (example_client_tables KActive)")
      (auto simp: is_ok_iff)
  from client_revoked_final [OF example_wf this] r show ?thesis by blast
qed

lemma client_session_bounded_witness:
  "\<exists>r'. fst (client_response_for_use ''resp_1'' ''u1'' ''o1'' ''g1'' ''c1'' ''m'' hour
       (store_run (client_task_step example_hash) (example_client_tables KActive) example_task_events))
     = Inr r' \<and> rs_idle_expires r' \<le> rs_absolute_expires example_response"
proof -
  let ?db = "store_run (client_task_step example_hash) (example_client_tables KActive) example_task_events"
  have "is_ok (fst (client_response_for_use ''resp_1'' ''u1'' ''o1'' ''g1'' ''c1'' ''m'' hour ?db))"
    by code_simp
  then obtain r' where
    u: "fst (client_response_for_use ''resp_1'' ''u1'' ''o1'' ''g1'' ''c1'' ''m'' hour ?db) = Inr r'"
    by (auto simp: is_ok_iff)
  have "row_at rs_id ''resp_1'' (cdb_responses (example_client_tables KActive)) = Some example_response"
    by code_simp
  from client_session_bounded [OF example_wf this u] u show ?thesis by blast
qed

end
