(* ===== verification/Browser_Risk.thy ===== *)
theory Browser_Risk
  imports Rate_Guard Store_Tables
begin

text \<open>
  The request guard of local-browser connections, \<open>internal/store/browser_connectors.go\<close>: the
  table \<open>ai_browser_account_risk\<close>, keyed by owner, organisation, provider and account key, so
  that all connections of one account share a row. \<open>h\<close> is the hex SHA-256 of the account key.
  The subject fingerprint that the code joins from \<open>ai_connection_secrets\<close> is a column of the
  connection here. Every operation is one transaction; one that fails is rolled back.
\<close>

section \<open>State\<close>

datatype browser_state = BNormal | BCooldown | BReauthRequired | BSecurityLocked | BAdapterBlocked | BPaused

fun browser_state_name :: "browser_state \<Rightarrow> string" where
  "browser_state_name BNormal = ''normal''"
| "browser_state_name BCooldown = ''cooldown''"
| "browser_state_name BReauthRequired = ''reauth_required''"
| "browser_state_name BSecurityLocked = ''security_locked''"
| "browser_state_name BAdapterBlocked = ''adapter_blocked''"
| "browser_state_name BPaused = ''paused''"

record browser_policy =
  bp_interval :: duration
  bp_hourly :: int
  bp_daily :: int

record browser_risk =
  br_owner :: string
  br_org :: string
  br_provider :: string
  br_account_key :: string
  br_state :: browser_state
  br_requests_hour :: int
  br_requests_day :: int
  br_rate_events :: int
  br_failures :: int
  br_hour_start :: time
  br_day_start :: time
  br_rate_start :: time
  br_cooldown_until :: "time option"
  br_last_request :: "time option"
  br_last_success :: "time option"
  br_last_error :: "time option"
  br_last_error_code :: string
  br_last_challenge :: "time option"
  br_updated_at :: time

record browser_risk_view = browser_risk +
  bv_hourly_limit :: int
  bv_daily_limit :: int
  bv_interval_seconds :: int

record browser_decision =
  bd_allowed :: bool
  bd_reason :: string
  bd_retry_at :: "time option"
  bd_risk :: browser_risk_view

record browser_risk_db =
  bdb_risks :: "browser_risk list"
  bdb_conns :: "connection list"

section \<open>Policy and windows\<close>

definition normalize_browser_policy :: "browser_policy \<Rightarrow> browser_policy" where
  "normalize_browser_policy p0 =
     (let p1 = (if bp_interval p0 < second then p0\<lparr>bp_interval := 10 * second\<rparr> else p0);
          p2 = (if bp_hourly p1 < 1 then p1\<lparr>bp_hourly := 20\<rparr> else p1)
      in if bp_daily p2 < bp_hourly p2 then p2\<lparr>bp_daily := bp_hourly p2\<rparr> else p2)"

text \<open>The state with its windows brought up to \<open>now\<close>, and whether anything changed.\<close>

definition normalize_browser_windows :: "browser_risk \<Rightarrow> time \<Rightarrow> browser_risk \<times> bool" where
  "normalize_browser_windows s0 now =
     (let h = (now - br_hour_start s0 \<ge> hour \<or> now < br_hour_start s0);
          s1 = (if h then s0\<lparr>br_hour_start := now, br_requests_hour := 0\<rparr> else s0);
          d = (now - br_day_start s1 \<ge> 24 * hour \<or> now < br_day_start s1);
          s2 = (if d then s1\<lparr>br_day_start := now, br_requests_day := 0\<rparr> else s1);
          r = (now - br_rate_start s2 \<ge> 24 * hour \<or> now < br_rate_start s2);
          s3 = (if r then s2\<lparr>br_rate_start := now, br_rate_events := 0\<rparr> else s2)
      in (s3, h \<or> d \<or> r))"

definition browser_cooled :: "browser_risk \<Rightarrow> time \<Rightarrow> bool" where
  "browser_cooled s now = (br_state s = BCooldown
     \<and> (case br_cooldown_until s of None \<Rightarrow> False | Some u \<Rightarrow> u \<le> now))"

text \<open>Windows first, then an elapsed cool-down: the common start of reading and reserving.\<close>

definition normalize_browser_risk :: "browser_risk \<Rightarrow> time \<Rightarrow> browser_risk \<times> bool" where
  "normalize_browser_risk s0 now =
     (let (s, changed) = normalize_browser_windows s0 now
      in if browser_cooled s now then (s\<lparr>br_state := BNormal, br_cooldown_until := None\<rparr>, True)
         else (s, changed))"

definition browser_policy_view :: "browser_risk \<Rightarrow> browser_policy \<Rightarrow> browser_risk_view" where
  "browser_policy_view s policy =
     (let p = normalize_browser_policy policy
      in browser_risk.extend s (browser_risk_view.fields (bp_hourly p) (bp_daily p)
           (bp_interval p div second)))"

text \<open>The struct before any policy is applied has zero limits.\<close>

definition browser_plain_view :: "browser_risk \<Rightarrow> browser_risk_view" where
  "browser_plain_view s = browser_risk.extend s (browser_risk_view.fields 0 0 0)"

section \<open>Identity and row\<close>

definition hex_lower :: "char \<Rightarrow> bool" where
  "hex_lower c = (let n = of_char c :: nat in (48 \<le> n \<and> n \<le> 57) \<or> (97 \<le> n \<and> n \<le> 102))"

definition browser_account_key :: "(string \<Rightarrow> string) \<Rightarrow> string \<Rightarrow> string \<Rightarrow> string \<Rightarrow> string" where
  "browser_account_key h owner0 provider0 fingerprint0 =
     (let owner = trim_space owner0;
          provider = to_lower (trim_space provider0);
          fingerprint = to_lower (trim_space fingerprint0)
      in if owner = [] \<or> provider = [] \<or> length fingerprint \<noteq> 64 then []
         else if \<not> list_all hex_lower fingerprint then []
         else h (''tokhub-opencli-risk-v2'' @ [CHR 0x00] @ owner @ [CHR 0x00] @ provider))"

definition browser_identity ::
  "(string \<Rightarrow> string) \<Rightarrow> string \<Rightarrow> string \<Rightarrow> string \<Rightarrow> browser_risk_db \<Rightarrow> (string \<times> string) res"
where
  "browser_identity h owner org cid db =
     (case query_row (\<lambda>c. conn_of owner org cid c \<and> conn_live ''opencli_browser'' c) (bdb_conns db) of
        Inl e \<Rightarrow> Inl e
      | Inr c \<Rightarrow>
          (let key = browser_account_key h owner (cn_provider c) (cn_fingerprint c)
           in if key = [] then Inl (ErrNamed ''browser connection account identity is invalid'')
              else Inr (to_lower (trim_space (cn_provider c)), key)))"

definition browser_key :: "browser_risk \<Rightarrow> string \<times> string \<times> string \<times> string" where
  "browser_key r = (br_owner r, br_org r, br_provider r, br_account_key r)"

text \<open>The column defaults of a new row.\<close>

definition browser_fresh :: "string \<Rightarrow> string \<Rightarrow> string \<times> string \<Rightarrow> time \<Rightarrow> browser_risk" where
  "browser_fresh owner org ident now =
     \<lparr>br_owner = owner, br_org = org, br_provider = fst ident, br_account_key = snd ident,
      br_state = BNormal, br_requests_hour = 0, br_requests_day = 0, br_rate_events = 0,
      br_failures = 0, br_hour_start = now, br_day_start = now, br_rate_start = now,
      br_cooldown_until = None, br_last_request = None, br_last_success = None,
      br_last_error = None, br_last_error_code = [], br_last_challenge = None,
      br_updated_at = now\<rparr>"

definition ensure_browser_risk ::
  "string \<Rightarrow> string \<Rightarrow> string \<times> string \<Rightarrow> time \<Rightarrow> browser_risk_db \<Rightarrow> browser_risk_db res"
where
  "ensure_browser_risk owner org ident now db =
     (let fresh = browser_fresh owner org ident now
      in if fst ident \<notin> {''openai'', ''gemini'', ''deepseek''} then Inl (ErrConstraint ''provider'')
         else if sql_exists (\<lambda>r. browser_key r = browser_key fresh) (bdb_risks db) then Inr db
         else Inr (db\<lparr>bdb_risks := bdb_risks db @ [fresh]\<rparr>))"

definition browser_select :: "string \<Rightarrow> string \<Rightarrow> string \<times> string \<Rightarrow> browser_risk_db \<Rightarrow> browser_risk res"
where
  "browser_select owner org ident db =
     query_row (\<lambda>r. browser_key r = (owner, org, fst ident, snd ident)) (bdb_risks db)"

definition browser_columns :: "browser_risk \<Rightarrow> browser_risk \<Rightarrow> browser_risk" where
  "browser_columns s r = r\<lparr>br_state := br_state s, br_cooldown_until := br_cooldown_until s,
     br_hour_start := br_hour_start s, br_day_start := br_day_start s, br_rate_start := br_rate_start s,
     br_requests_hour := br_requests_hour s, br_requests_day := br_requests_day s,
     br_rate_events := br_rate_events s, br_failures := br_failures s,
     br_last_request := br_last_request s, br_last_success := br_last_success s,
     br_last_error := br_last_error s, br_last_error_code := br_last_error_code s,
     br_last_challenge := br_last_challenge s, br_updated_at := br_updated_at s\<rparr>"

definition browser_update ::
  "string \<Rightarrow> string \<Rightarrow> string \<Rightarrow> browser_risk \<Rightarrow> browser_risk_db \<Rightarrow> browser_risk_db"
where
  "browser_update owner org account_key s db = db\<lparr>bdb_risks :=
     sql_update (\<lambda>r. browser_key r = (owner, org, br_provider s, account_key)) (browser_columns s)
       (bdb_risks db)\<rparr>"

text \<open>The three statements every operation starts with: identity, insert if missing, select.\<close>

definition browser_load ::
  "(string \<Rightarrow> string) \<Rightarrow> string \<Rightarrow> string \<Rightarrow> string \<Rightarrow> time \<Rightarrow> browser_risk_db
    \<Rightarrow> (string \<times> browser_risk \<times> browser_risk_db) res"
where
  "browser_load h owner org cid now db =
     (case browser_identity h owner org cid db of
        Inl e \<Rightarrow> Inl e
      | Inr ident \<Rightarrow>
          (case ensure_browser_risk owner org ident now db of
             Inl e \<Rightarrow> Inl e
           | Inr db1 \<Rightarrow>
               (case browser_select owner org ident db1 of
                  Inl e \<Rightarrow> Inl e
                | Inr s \<Rightarrow> Inr (snd ident, s, db1))))"

section \<open>Operations\<close>

definition browser_risk_for_connection ::
  "(string \<Rightarrow> string) \<Rightarrow> string \<Rightarrow> string \<Rightarrow> string \<Rightarrow> browser_policy \<Rightarrow> time \<Rightarrow> browser_risk_db
    \<Rightarrow> browser_risk_view res \<times> browser_risk_db"
where
  "browser_risk_for_connection h owner org cid policy now db =
     (case browser_load h owner org cid now db of
        Inl e \<Rightarrow> (Inl e, db)
      | Inr (key, s0, db1) \<Rightarrow>
          (let (s, changed) = normalize_browser_risk s0 now
           in if changed
              then (let s' = s\<lparr>br_updated_at := now\<rparr>
                    in (Inr (browser_policy_view s' policy), browser_update owner org key s' db1))
              else (Inr (browser_policy_view s policy), db1)))"

definition browser_admit ::
  "browser_risk \<Rightarrow> browser_policy \<Rightarrow> time \<Rightarrow> (bool \<times> string \<times> time option) \<times> browser_risk"
where
  "browser_admit s policy now =
     (if br_state s \<noteq> BNormal
      then ((False, browser_state_name (br_state s), br_cooldown_until s), s)
      else if (case br_last_request s of None \<Rightarrow> False | Some l \<Rightarrow> l + bp_interval policy > now)
      then ((False, ''minimum_interval'',
             map_option (\<lambda>l. l + bp_interval policy) (br_last_request s)), s)
      else if br_requests_hour s \<ge> bp_hourly policy
      then ((False, ''hourly_limit'', Some (br_hour_start s + hour)), s)
      else if br_requests_day s \<ge> bp_daily policy
      then ((False, ''daily_limit'', Some (br_day_start s + 24 * hour)), s)
      else ((True, [], None),
            s\<lparr>br_requests_hour := br_requests_hour s + 1, br_requests_day := br_requests_day s + 1,
              br_last_request := Some now, br_updated_at := now\<rparr>))"

definition reserve_browser_request ::
  "(string \<Rightarrow> string) \<Rightarrow> string \<Rightarrow> string \<Rightarrow> string \<Rightarrow> browser_policy \<Rightarrow> time \<Rightarrow> time \<Rightarrow> browser_risk_db
    \<Rightarrow> browser_decision res \<times> browser_risk_db"
where
  "reserve_browser_request h owner org cid policy0 now0 clock db =
     (let now = or_clock now0 clock; policy = normalize_browser_policy policy0 in
      case browser_load h owner org cid clock db of
        Inl e \<Rightarrow> (Inl e, db)
      | Inr (key, s0, db1) \<Rightarrow>
          (let (s, changed) = normalize_browser_risk s0 now;
               ((allowed, reason, retry), s') = browser_admit s policy now
           in (Inr \<lparr>bd_allowed = allowed, bd_reason = reason, bd_retry_at = retry,
                    bd_risk = browser_policy_view s' policy\<rparr>,
               if allowed \<or> changed then browser_update owner org key s' db1 else db1)))"

text \<open>The cool-down of an unclassified failure grows with the consecutive failures.\<close>

definition browser_backoff :: "int \<Rightarrow> duration" where
  "browser_backoff failures =
     (let durations = [minute, 5 * minute, 15 * minute, hour];
          index0 = nat (failures - 1);
          index = (if index0 \<ge> length durations then length durations - 1 else index0)
      in durations ! index)"

definition browser_failure :: "string \<Rightarrow> time \<Rightarrow> browser_risk \<Rightarrow> browser_risk" where
  "browser_failure code now s =
     (if code \<in> {''login_required'', ''identity_mismatch''}
      then s\<lparr>br_state := BReauthRequired, br_cooldown_until := None\<rparr>
      else if code = ''security_challenge''
      then s\<lparr>br_state := BSecurityLocked, br_cooldown_until := None, br_last_challenge := Some now\<rparr>
      else if code = ''access_denied''
      then s\<lparr>br_state := BSecurityLocked, br_cooldown_until := Some (now + 24 * hour),
             br_last_challenge := Some now\<rparr>
      else if code = ''adapter_incompatible''
      then s\<lparr>br_state := BAdapterBlocked, br_cooldown_until := None\<rparr>
      else if code = ''rate_limited''
      then (let s1 = (if now - br_rate_start s \<ge> 24 * hour
                      then s\<lparr>br_rate_start := now, br_rate_events := 0\<rparr> else s);
                s2 = s1\<lparr>br_rate_events := br_rate_events s1 + 1, br_state := BCooldown\<rparr>;
                d = (if br_rate_events s2 \<ge> 3 then 24 * hour else 30 * minute)
            in s2\<lparr>br_cooldown_until := Some (now + d)\<rparr>)
      else s\<lparr>br_state := BCooldown, br_cooldown_until := Some (now + browser_backoff (br_failures s))\<rparr>)"

definition browser_result :: "bool \<Rightarrow> string \<Rightarrow> time \<Rightarrow> browser_risk \<Rightarrow> browser_risk" where
  "browser_result ok code now s =
     (if ok
      then (let denied = (br_state s = BSecurityLocked \<and> br_last_error_code s = ''access_denied''
                  \<and> (case br_cooldown_until s of None \<Rightarrow> False | Some u \<Rightarrow> u > now));
                s1 = (if br_state s \<noteq> BPaused \<and> \<not> denied
                      then s\<lparr>br_state := BNormal, br_cooldown_until := None, br_last_error_code := []\<rparr>
                      else s)
            in s1\<lparr>br_failures := 0, br_last_success := Some now\<rparr>)
      else browser_failure code now
             (s\<lparr>br_failures := br_failures s + 1, br_last_error := Some now, br_last_error_code := code\<rparr>))"

definition record_browser_result ::
  "(string \<Rightarrow> string) \<Rightarrow> string \<Rightarrow> string \<Rightarrow> string \<Rightarrow> bool \<Rightarrow> string \<Rightarrow> time \<Rightarrow> time \<Rightarrow> browser_risk_db
    \<Rightarrow> browser_risk_view res \<times> browser_risk_db"
where
  "record_browser_result h owner org cid ok code0 now0 clock db =
     (let now = or_clock now0 clock in
      case browser_load h owner org cid clock db of
        Inl e \<Rightarrow> (Inl e, db)
      | Inr (key, s0, db1) \<Rightarrow>
          (let s = fst (normalize_browser_windows s0 now);
               code = to_lower (trim_space code0);
               s' = (browser_result ok code now s)\<lparr>br_updated_at := now\<rparr>
           in (Inr (browser_plain_view s'), browser_update owner org key s' db1)))"

definition set_browser_paused ::
  "(string \<Rightarrow> string) \<Rightarrow> string \<Rightarrow> string \<Rightarrow> string \<Rightarrow> bool \<Rightarrow> time \<Rightarrow> browser_risk_db
    \<Rightarrow> browser_risk_view res \<times> browser_risk_db"
where
  "set_browser_paused h owner org cid paused clock db =
     (case browser_load h owner org cid clock db of
        Inl e \<Rightarrow> (Inl e, db)
      | Inr (key, s, db1) \<Rightarrow>
          (let s1 = (if paused
                     then (if br_state s = BNormal
                           then s\<lparr>br_state := BPaused, br_cooldown_until := None\<rparr> else s)
                     else if br_state s = BPaused
                     then s\<lparr>br_state := BNormal, br_failures := 0, br_last_error_code := []\<rparr>
                     else s);
               s' = s1\<lparr>br_updated_at := clock\<rparr>
           in (Inr (browser_plain_view s'), browser_update owner org key s' db1)))"

definition set_browser_auth_status ::
  "string \<Rightarrow> string \<Rightarrow> string \<Rightarrow> bool \<Rightarrow> string \<Rightarrow> string \<Rightarrow> time \<Rightarrow> browser_risk_db
    \<Rightarrow> unit res \<times> browser_risk_db"
where
  "set_browser_auth_status owner org cid active code0 msg0 now db =
     (let (status, auth, code, msg) =
            (if active then (''active'', ''active'', [], [])
             else if code0 \<in> {''login_required'', ''security_challenge'', ''identity_mismatch''}
             then (''attention'', ''reauth_required'', code0, msg0)
             else (''attention'', ''attention'', code0, msg0));
          sel = (\<lambda>c. conn_of owner org cid c \<and> conn_live ''opencli_browser'' c);
          db' = db\<lparr>bdb_conns := sql_update sel
            (\<lambda>c. c\<lparr>cn_status := status, cn_auth_status := auth, cn_last_error_code := trim_space code,
                   cn_last_error_message := truncate_store_text msg 512, cn_updated_at := now\<rparr>)
            (bdb_conns db)\<rparr>
      in if sql_affected sel (bdb_conns db) \<noteq> 1 then (Inl ErrNoRows, db') else (Inr (), db'))"

section \<open>Operations as steps\<close>

text \<open>The handlers choose the policy by the provider of the connection; \<open>pol\<close> is that choice.\<close>

datatype browser_op =
    BRead string string string
  | BReserve string string string
  | BRecord string string string bool string
  | BSetPaused string string string bool
  | BAuthStatus string string string bool string string

definition browser_policy_for ::
  "(string \<Rightarrow> string) \<Rightarrow> (string \<Rightarrow> browser_policy) \<Rightarrow> string \<Rightarrow> string \<Rightarrow> string \<Rightarrow> browser_risk_db \<Rightarrow> browser_policy"
where
  "browser_policy_for h pol owner org cid db =
     (case browser_identity h owner org cid db of Inl _ \<Rightarrow> pol [] | Inr (provider, _) \<Rightarrow> pol provider)"

fun browser_step ::
  "(string \<Rightarrow> string) \<Rightarrow> (string \<Rightarrow> browser_policy) \<Rightarrow> browser_op \<Rightarrow> browser_risk_db \<Rightarrow> time \<Rightarrow> browser_risk_db"
where
  "browser_step h pol (BRead owner org cid) db t =
     snd (browser_risk_for_connection h owner org cid (browser_policy_for h pol owner org cid db) t db)"
| "browser_step h pol (BReserve owner org cid) db t =
     snd (reserve_browser_request h owner org cid (browser_policy_for h pol owner org cid db) t t db)"
| "browser_step h pol (BRecord owner org cid ok code) db t =
     snd (record_browser_result h owner org cid ok code t t db)"
| "browser_step h pol (BSetPaused owner org cid paused) db t =
     snd (set_browser_paused h owner org cid paused t db)"
| "browser_step h pol (BAuthStatus owner org cid active code msg) db t =
     snd (set_browser_auth_status owner org cid active code msg t db)"

text \<open>An allowed reservation through any connection of the account \<open>(owner, org, provider, key)\<close>.\<close>

definition browser_granted ::
  "(string \<Rightarrow> string) \<Rightarrow> (string \<Rightarrow> browser_policy) \<Rightarrow> string \<times> string \<times> string \<times> string
    \<Rightarrow> browser_op \<Rightarrow> browser_risk_db \<Rightarrow> time \<Rightarrow> bool"
where
  "browser_granted h pol acct x db t = (case x of
     BReserve owner org cid \<Rightarrow>
       (case browser_identity h owner org cid db of
          Inl _ \<Rightarrow> False | Inr (provider, key) \<Rightarrow> acct = (owner, org, provider, key))
       \<and> (case fst (reserve_browser_request h owner org cid
                     (browser_policy_for h pol owner org cid db) t t db) of
            Inl _ \<Rightarrow> False | Inr d \<Rightarrow> bd_allowed d)
   | _ \<Rightarrow> False)"

section \<open>Rows under operations\<close>

type_synonym account = "string \<times> string \<times> string \<times> string"

definition browser_row :: "account \<Rightarrow> browser_risk_db \<Rightarrow> browser_risk option" where
  "browser_row acct db = row_at browser_key acct (bdb_risks db)"

definition browser_hour :: "browser_risk \<Rightarrow> time \<times> int" where
  "browser_hour r = (br_hour_start r, br_requests_hour r)"

definition browser_day :: "browser_risk \<Rightarrow> time \<times> int" where
  "browser_day r = (br_day_start r, br_requests_day r)"

definition browser_guard :: "browser_risk \<Rightarrow> (time \<times> int) \<times> (time \<times> int) \<times> time option" where
  "browser_guard r = (browser_hour r, browser_day r, br_last_request r)"

definition browser_db_ok :: "browser_risk_db \<Rightarrow> bool" where
  "browser_db_ok db = (distinct (map browser_key (bdb_risks db))
     \<and> (\<forall>r\<in>set (bdb_risks db). 0 \<le> snd (browser_hour r) \<and> 0 \<le> snd (browser_day r)))"

lemma browser_columns_sel [simp]:
  "browser_key (browser_columns s r) = browser_key r"
  "browser_hour (browser_columns s r) = browser_hour s"
  "browser_day (browser_columns s r) = browser_day s"
  "browser_guard (browser_columns s r) = browser_guard s"
  "br_state (browser_columns s r) = br_state s"
  "br_cooldown_until (browser_columns s r) = br_cooldown_until s"
  "br_last_request (browser_columns s r) = br_last_request s"
  by (simp_all add: browser_columns_def browser_key_def browser_guard_def browser_hour_def browser_day_def)

lemma browser_windows_sel [simp]:
  "browser_hour (fst (normalize_browser_windows r t)) = window_restart hour t (browser_hour r)"
  "browser_day (fst (normalize_browser_windows r t)) = window_restart (24 * hour) t (browser_day r)"
  "br_last_request (fst (normalize_browser_windows r t)) = br_last_request r"
  "browser_key (fst (normalize_browser_windows r t)) = browser_key r"
  "br_provider (fst (normalize_browser_windows r t)) = br_provider r"
  "br_state (fst (normalize_browser_windows r t)) = br_state r"
  "br_cooldown_until (fst (normalize_browser_windows r t)) = br_cooldown_until r"
  by (simp_all add: normalize_browser_windows_def browser_hour_def browser_day_def browser_key_def
      window_restart_def Let_def)

lemma normalize_browser_risk_fst:
  "fst (normalize_browser_risk r t) =
     (let s = fst (normalize_browser_windows r t)
      in if browser_cooled s t then s\<lparr>br_state := BNormal, br_cooldown_until := None\<rparr> else s)"
  by (simp add: normalize_browser_risk_def split_def Let_def)

lemma browser_fields_upd [simp]:
  "browser_hour (r\<lparr>br_state := st\<rparr>) = browser_hour r" "browser_day (r\<lparr>br_state := st\<rparr>) = browser_day r"
  "browser_hour (r\<lparr>br_cooldown_until := c\<rparr>) = browser_hour r"
  "browser_day (r\<lparr>br_cooldown_until := c\<rparr>) = browser_day r"
  "browser_hour (r\<lparr>br_updated_at := u\<rparr>) = browser_hour r" "browser_day (r\<lparr>br_updated_at := u\<rparr>) = browser_day r"
  "browser_key (r\<lparr>br_state := st\<rparr>) = browser_key r" "browser_key (r\<lparr>br_cooldown_until := c\<rparr>) = browser_key r"
  "browser_key (r\<lparr>br_updated_at := u\<rparr>) = browser_key r"
  "browser_guard (r\<lparr>br_state := st\<rparr>) = browser_guard r"
  "browser_guard (r\<lparr>br_cooldown_until := c\<rparr>) = browser_guard r"
  "browser_guard (r\<lparr>br_updated_at := u\<rparr>) = browser_guard r"
  "browser_guard (r\<lparr>br_failures := n\<rparr>) = browser_guard r"
  "browser_guard (r\<lparr>br_last_error_code := e\<rparr>) = browser_guard r"
  by (simp_all add: browser_guard_def browser_hour_def browser_day_def browser_key_def)

lemma normalize_browser_risk_sel [simp]:
  "browser_guard (fst (normalize_browser_risk r t))
     = (window_restart hour t (browser_hour r), window_restart (24 * hour) t (browser_day r), br_last_request r)"
  "br_provider (fst (normalize_browser_risk r t)) = br_provider r"
  by (simp_all add: normalize_browser_risk_fst Let_def browser_guard_def)

lemma normalize_browser_windows_unchanged:
  assumes "\<not> snd (normalize_browser_windows r t)"
  shows "fst (normalize_browser_windows r t) = r"
proof -
  have h: "\<not> (t - br_hour_start r \<ge> hour \<or> t < br_hour_start r)"
    using assms unfolding normalize_browser_windows_def Let_def snd_conv by blast
  then have d: "\<not> (t - br_day_start r \<ge> 24 * hour \<or> t < br_day_start r)"
    using assms unfolding normalize_browser_windows_def Let_def snd_conv by simp
  with h have "\<not> (t - br_rate_start r \<ge> 24 * hour \<or> t < br_rate_start r)"
    using assms unfolding normalize_browser_windows_def Let_def snd_conv by simp
  with h d show ?thesis unfolding normalize_browser_windows_def Let_def fst_conv by simp
qed

lemma normalize_browser_unchanged:
  "\<not> snd (normalize_browser_risk r t) \<Longrightarrow> fst (normalize_browser_risk r t) = r"
  using normalize_browser_windows_unchanged [of r t]
  by (simp add: normalize_browser_risk_def split_def Let_def split: if_splits)

lemma browser_admit_denied: "\<not> fst (fst (browser_admit s p t)) \<Longrightarrow> snd (browser_admit s p t) = s"
  by (auto simp: browser_admit_def)

lemma browser_admit_provider [simp]: "br_provider (snd (browser_admit s p t)) = br_provider s"
  by (simp add: browser_admit_def)

lemma browser_admit_allowed:
  assumes "fst (fst (browser_admit s p t))"
  shows "br_state s = BNormal" and "snd (browser_hour s) < bp_hourly p" and "snd (browser_day s) < bp_daily p"
    and "br_last_request s = Some l \<Longrightarrow> l + bp_interval p \<le> t"
    and "browser_guard (snd (browser_admit s p t))
      = (window_count (browser_hour s), window_count (browser_day s), Some t)"
  using assms
  by (auto simp: browser_admit_def browser_hour_def browser_day_def browser_guard_def window_count_def
      split: if_splits option.splits)

lemma browser_result_sel [simp]:
  "browser_guard (browser_result ok code t s) = browser_guard s"
  "br_provider (browser_result ok code t s) = br_provider s"
  by (simp_all add: browser_result_def browser_failure_def browser_guard_def browser_hour_def
      browser_day_def Let_def)

lemma browser_update_row:
  "browser_row acct (browser_update owner org key s db)
   = map_option (\<lambda>r. if browser_key r = (owner, org, br_provider s, key) then browser_columns s r else r)
       (browser_row acct db)"
  by (simp add: browser_row_def browser_update_def row_at_sql_update)

lemma browser_row_key: "browser_row acct db = Some r \<Longrightarrow> r \<in> set (bdb_risks db) \<and> browser_key r = acct"
  by (auto simp: browser_row_def dest: row_at_Some)

lemma browser_update_row_same:
  assumes "browser_row (owner, org, br_provider s, key) db = Some r"
  shows "browser_row (owner, org, br_provider s, key) (browser_update owner org key s db)
    = Some (browser_columns s r)"
  using assms browser_row_key [OF assms] by (simp add: browser_update_row)

lemma browser_update_row_other:
  "acct \<noteq> (owner, org, br_provider s, key) \<Longrightarrow>
   browser_row acct (browser_update owner org key s db) = browser_row acct db"
  by (cases "browser_row acct db") (auto simp: browser_update_row dest: browser_row_key)

lemma browser_db_ok_update:
  "browser_db_ok db \<Longrightarrow> 0 \<le> snd (browser_hour s) \<Longrightarrow> 0 \<le> snd (browser_day s) \<Longrightarrow>
   browser_db_ok (browser_update owner org key s db)"
  by (auto simp: browser_db_ok_def browser_update_def map_sql_update set_sql_update)

text \<open>A successful load: the row of the account the connection belongs to, and rows only added.\<close>

lemma browser_load_run:
  assumes "browser_db_ok db" and "browser_load h owner org cid now db = Inr (key, s, db1)"
  obtains provider where "browser_identity h owner org cid db = Inr (provider, key)"
    and "browser_row (owner, org, provider, key) db1 = Some s" and "br_provider s = provider"
    and "browser_db_ok db1" and "bdb_conns db1 = bdb_conns db"
    and "\<And>acct r. browser_row acct db = Some r \<Longrightarrow> browser_row acct db1 = Some r"
    and "0 \<le> snd (browser_hour s)" and "0 \<le> snd (browser_day s)"
proof -
  from assms(2) obtain provider where
    i: "browser_identity h owner org cid db = Inr (provider, key)"
    and e: "ensure_browser_risk owner org (provider, key) now db = Inr db1"
    and q: "browser_select owner org (provider, key) db1 = Inr s"
    by (auto simp: browser_load_def split: sum.splits)
  let ?f = "browser_fresh owner org (provider, key) now"
  have f: "snd (browser_hour ?f) = 0" "snd (browser_day ?f) = 0"
    by (simp_all add: browser_hour_def browser_day_def browser_fresh_def)
  from e consider "db1 = db"
    | "\<not> sql_exists (\<lambda>r. browser_key r = browser_key ?f) (bdb_risks db)"
      "db1 = db\<lparr>bdb_risks := bdb_risks db @ [?f]\<rparr>"
    unfolding ensure_browser_risk_def Let_def by (metis Inl_Inr_False sum.inject(2))
  then have ok: "browser_db_ok db1" and c: "bdb_conns db1 = bdb_conns db"
    and k: "\<And>acct r. browser_row acct db = Some r \<Longrightarrow> browser_row acct db1 = Some r"
    using assms(1) f
    by (atomize (full), cases) (auto simp: browser_db_ok_def sql_exists_iff browser_row_def row_at_append)
  from q have s: "s \<in> set (bdb_risks db1)" "browser_key s = (owner, org, provider, key)"
    by (auto simp: browser_select_def dest!: query_row_Inr)
  with ok have "browser_row (owner, org, provider, key) db1 = Some s"
    using row_at_unique [of browser_key "bdb_risks db1" s] by (simp add: browser_row_def browser_db_ok_def)
  with i ok c k s show thesis by (intro that) (auto simp: browser_key_def browser_db_ok_def)
qed


definition browser_idle_change :: "browser_risk \<Rightarrow> time \<Rightarrow> browser_risk \<Rightarrow> bool" where
  "browser_idle_change r t r' = (browser_guard r' = browser_guard r
     \<or> browser_guard r' = (window_restart hour t (browser_hour r),
          window_restart (24 * hour) t (browser_day r), br_last_request r))"

definition browser_grant_change :: "browser_policy \<Rightarrow> browser_risk \<Rightarrow> time \<Rightarrow> browser_risk \<Rightarrow> bool" where
  "browser_grant_change p r t r' =
     (let w = window_restart hour t (browser_hour r); d = window_restart (24 * hour) t (browser_day r)
      in snd w < bp_hourly p \<and> snd d < bp_daily p
         \<and> (\<forall>l. br_last_request r = Some l \<longrightarrow> l + bp_interval p \<le> t)
         \<and> browser_guard r' = (window_count w, window_count d, Some t))"

lemma browser_normalized_nonneg:
  assumes "0 \<le> snd (browser_hour s)" and "0 \<le> snd (browser_day s)"
  shows "0 \<le> snd (browser_hour (fst (normalize_browser_risk s t)))"
    and "0 \<le> snd (browser_day (fst (normalize_browser_risk s t)))"
  using assms normalize_browser_risk_sel(1) [of s t]
  by (auto simp: browser_guard_def window_restart_def)

lemma browser_guard_nonneg:
  "browser_guard a = browser_guard b \<Longrightarrow> 0 \<le> snd (browser_hour b) \<Longrightarrow> 0 \<le> snd (browser_day b) \<Longrightarrow>
   0 \<le> snd (browser_hour a) \<and> 0 \<le> snd (browser_day a)"
  by (simp add: browser_guard_def)

text \<open>The effect of writing back a loaded row, on the row of any account.\<close>

lemma browser_write_row:
  assumes "browser_row (owner, org, provider, key) db1 = Some s" and "br_provider s' = provider"
    and "browser_row acct db1 = Some r"
  shows "\<exists>r'. browser_row acct (browser_update owner org key s' db1) = Some r'
    \<and> (if acct = (owner, org, provider, key) then browser_guard r' = browser_guard s' \<and> s = r
       else r' = r)"
proof (cases "acct = (owner, org, provider, key)")
  case True
  with assms browser_update_row_same [of owner org s' key db1 s] show ?thesis by auto
next
  case False
  with assms(2,3) browser_update_row_other [of acct owner org s' key db1] show ?thesis by auto
qed

lemma browser_read_step:
  assumes ok: "browser_db_ok db" and row: "browser_row acct db = Some r"
  shows "browser_db_ok (snd (browser_risk_for_connection h owner org cid p t db))"
    and "\<exists>r'. browser_row acct (snd (browser_risk_for_connection h owner org cid p t db)) = Some r'
      \<and> browser_idle_change r t r'"
proof -
  have "browser_db_ok (snd (browser_risk_for_connection h owner org cid p t db))
    \<and> (\<exists>r'. browser_row acct (snd (browser_risk_for_connection h owner org cid p t db)) = Some r'
      \<and> browser_idle_change r t r')"
  proof (cases "browser_load h owner org cid t db")
    case (Inl e)
    with ok row show ?thesis by (simp add: browser_risk_for_connection_def browser_idle_change_def)
  next
    case (Inr l)
    obtain key s db1 where l: "l = (key, s, db1)" by (cases l)
    from browser_load_run [OF ok Inr [unfolded l]] obtain provider where
      b: "browser_row (owner, org, provider, key) db1 = Some s" "br_provider s = provider"
        "browser_db_ok db1" "browser_row acct db1 = Some r"
        "0 \<le> snd (browser_hour s)" "0 \<le> snd (browser_day s)"
      using row by metis
    let ?s = "(fst (normalize_browser_risk s t))\<lparr>br_updated_at := t\<rparr>"
    have "browser_db_ok (browser_update owner org key ?s db1)"
      using b(3) browser_normalized_nonneg [OF b(5,6), of t] by (intro browser_db_ok_update) simp_all
    moreover obtain r' where "browser_row acct (browser_update owner org key ?s db1) = Some r'"
      "if acct = (owner, org, provider, key) then browser_guard r' = browser_guard ?s \<and> s = r else r' = r"
      using browser_write_row [OF b(1) _ b(4), of ?s] b(2) by auto
    ultimately show ?thesis
      using b Inr l
      by (cases "acct = (owner, org, provider, key)")
        (auto simp: browser_risk_for_connection_def browser_idle_change_def split_def Let_def)
  qed
  then show "browser_db_ok (snd (browser_risk_for_connection h owner org cid p t db))"
    and "\<exists>r'. browser_row acct (snd (browser_risk_for_connection h owner org cid p t db)) = Some r'
      \<and> browser_idle_change r t r'" by blast+
qed

lemma reserve_browser_run:
  "browser_load h owner org cid t db = Inr (key, s, db1) \<Longrightarrow>
   reserve_browser_request h owner org cid p t t db
   = (let n = normalize_browser_risk s t; q = normalize_browser_policy p; a = browser_admit (fst n) q t
      in (Inr \<lparr>bd_allowed = fst (fst a), bd_reason = fst (snd (fst a)), bd_retry_at = snd (snd (fst a)),
               bd_risk = browser_policy_view (snd a) q\<rparr>,
          if fst (fst a) \<or> snd n then browser_update owner org key (snd a) db1 else db1))"
  by (simp add: reserve_browser_request_def Let_def split_def)

lemma browser_reserve_step:
  assumes ok: "browser_db_ok db" and row: "browser_row acct db = Some r"
  shows "browser_db_ok (browser_step h pol (BReserve owner org cid) db t)"
    and "\<exists>r'. browser_row acct (browser_step h pol (BReserve owner org cid) db t) = Some r'
      \<and> (if browser_granted h pol acct (BReserve owner org cid) db t
         then browser_grant_change (normalize_browser_policy (pol (fst (snd (snd acct))))) r t r'
         else browser_idle_change r t r')"
proof -
  let ?p = "browser_policy_for h pol owner org cid db"
  let ?q = "normalize_browser_policy ?p"
  have "browser_db_ok (snd (reserve_browser_request h owner org cid ?p t t db))
    \<and> (\<exists>r'. browser_row acct (snd (reserve_browser_request h owner org cid ?p t t db)) = Some r'
      \<and> (if browser_granted h pol acct (BReserve owner org cid) db t
         then browser_grant_change (normalize_browser_policy (pol (fst (snd (snd acct))))) r t r'
         else browser_idle_change r t r'))"
  proof (cases "browser_load h owner org cid t db")
    case (Inl e)
    with ok row show ?thesis
      by (auto simp: reserve_browser_request_def browser_idle_change_def browser_granted_def Let_def)
  next
    case (Inr l)
    obtain key s db1 where l: "l = (key, s, db1)" by (cases l)
    from browser_load_run [OF ok Inr [unfolded l]] obtain provider where
      i: "browser_identity h owner org cid db = Inr (provider, key)" and
      b: "browser_row (owner, org, provider, key) db1 = Some s" "br_provider s = provider"
        "browser_db_ok db1" "browser_row acct db1 = Some r"
        "0 \<le> snd (browser_hour s)" "0 \<le> snd (browser_day s)"
      using row by metis
    have p: "?p = pol provider" using i by (simp add: browser_policy_for_def)
    let ?n = "normalize_browser_risk s t"
    let ?a = "browser_admit (fst ?n) ?q t"
    note run = reserve_browser_run [OF Inr [unfolded l], of ?p]
    have granted: "browser_granted h pol acct (BReserve owner org cid) db t
        \<longleftrightarrow> acct = (owner, org, provider, key) \<and> fst (fst ?a)"
      using i run by (simp add: browser_granted_def Let_def)
    have nn: "0 \<le> snd (browser_hour (snd ?a)) \<and> 0 \<le> snd (browser_day (snd ?a))"
    proof (cases "fst (fst ?a)")
      case True
      from browser_admit_allowed(5) [OF this] browser_normalized_nonneg [OF b(5,6), of t]
      show ?thesis by (simp add: browser_guard_def window_count_def)
    next
      case False
      with browser_admit_denied [OF False] browser_normalized_nonneg [OF b(5,6), of t] show ?thesis by simp
    qed
    have ok': "browser_db_ok (browser_update owner org key (snd ?a) db1)"
      using b(3) nn by (intro browser_db_ok_update) simp_all
    obtain r' where w: "browser_row acct (browser_update owner org key (snd ?a) db1) = Some r'"
      "if acct = (owner, org, provider, key) then browser_guard r' = browser_guard (snd ?a) \<and> s = r else r' = r"
      using browser_write_row [OF b(1) _ b(4), of "snd ?a"] b(2) by auto
    show ?thesis
    proof (cases "fst (fst ?a)")
      case True
      note a = browser_admit_allowed [OF True]
      have g: "browser_hour (fst ?n) = window_restart hour t (browser_hour s)"
        "browser_day (fst ?n) = window_restart (24 * hour) t (browser_day s)"
        "br_last_request (fst ?n) = br_last_request s"
        using normalize_browser_risk_sel(1) [of s t] by (simp_all add: browser_guard_def)
      show ?thesis
        using True a ok' w g p unfolding run Let_def granted
        by (cases "acct = (owner, org, provider, key)")
          (auto simp: browser_grant_change_def browser_idle_change_def Let_def)
    next
      case False
      note d = browser_admit_denied [OF False]
      show ?thesis
        using False d ok' w b unfolding run Let_def granted
        by (cases "acct = (owner, org, provider, key)") (auto simp: browser_idle_change_def)
    qed
  qed
  then show "browser_db_ok (browser_step h pol (BReserve owner org cid) db t)"
    and "\<exists>r'. browser_row acct (browser_step h pol (BReserve owner org cid) db t) = Some r'
      \<and> (if browser_granted h pol acct (BReserve owner org cid) db t
         then browser_grant_change (normalize_browser_policy (pol (fst (snd (snd acct))))) r t r'
         else browser_idle_change r t r')"
    by simp_all
qed

lemma browser_write_step:
  assumes ok: "browser_db_ok db" and row: "browser_row acct db = Some r"
    and load: "browser_load h owner org cid now db = Inr (key, s, db1)"
    and s': "br_provider s' = br_provider s" "browser_idle_change s t s'"
  shows "browser_db_ok (browser_update owner org key s' db1)
    \<and> (\<exists>r'. browser_row acct (browser_update owner org key s' db1) = Some r' \<and> browser_idle_change r t r')"
proof -
  from browser_load_run [OF ok load] obtain provider where
    b: "browser_row (owner, org, provider, key) db1 = Some s" "br_provider s = provider"
      "browser_db_ok db1" "browser_row acct db1 = Some r"
      "0 \<le> snd (browser_hour s)" "0 \<le> snd (browser_day s)"
    using row by metis
  have "0 \<le> snd (browser_hour s') \<and> 0 \<le> snd (browser_day s')"
    using b(5,6) s'(2) by (auto simp: browser_idle_change_def browser_guard_def window_restart_def)
  then have "browser_db_ok (browser_update owner org key s' db1)"
    using b(3) by (intro browser_db_ok_update) simp_all
  moreover obtain r' where "browser_row acct (browser_update owner org key s' db1) = Some r'"
    "if acct = (owner, org, provider, key) then browser_guard r' = browser_guard s' \<and> s = r else r' = r"
    using browser_write_row [OF b(1) _ b(4), of s'] b(2) s'(1) by auto
  ultimately show ?thesis using s'(2)
    by (cases "acct = (owner, org, provider, key)") (auto simp: browser_idle_change_def)
qed

lemma browser_record_step:
  assumes ok: "browser_db_ok db" and row: "browser_row acct db = Some r"
  shows "browser_db_ok (snd (record_browser_result h owner org cid okay code t t db))
    \<and> (\<exists>r'. browser_row acct (snd (record_browser_result h owner org cid okay code t t db)) = Some r'
      \<and> browser_idle_change r t r')"
proof (cases "browser_load h owner org cid t db")
  case (Inl e)
  with ok row show ?thesis by (simp add: record_browser_result_def browser_idle_change_def Let_def)
next
  case (Inr l)
  obtain key s db1 where l: "l = (key, s, db1)" by (cases l)
  let ?s = "(browser_result okay (to_lower (trim_space code)) t
    (fst (normalize_browser_windows s t)))\<lparr>br_updated_at := t\<rparr>"
  have "browser_idle_change s t ?s"
    by (simp add: browser_idle_change_def) (simp add: browser_guard_def)
  with browser_write_step [OF ok row Inr [unfolded l], of ?s t] Inr l show ?thesis
    by (simp add: record_browser_result_def Let_def)
qed

lemma browser_paused_step:
  assumes ok: "browser_db_ok db" and row: "browser_row acct db = Some r"
  shows "browser_db_ok (snd (set_browser_paused h owner org cid paused t db))
    \<and> (\<exists>r'. browser_row acct (snd (set_browser_paused h owner org cid paused t db)) = Some r'
      \<and> browser_idle_change r t r')"
proof (cases "browser_load h owner org cid t db")
  case (Inl e)
  with ok row show ?thesis by (simp add: set_browser_paused_def browser_idle_change_def)
next
  case (Inr l)
  obtain key s db1 where l: "l = (key, s, db1)" by (cases l)
  note w = browser_write_step [OF ok row Inr [unfolded l], of _ t]
  show ?thesis using Inr l
    by (auto simp: set_browser_paused_def Let_def browser_idle_change_def [of s] intro!: w)
qed

lemma browser_step_row:
  assumes ok: "browser_db_ok db" and row: "browser_row acct db = Some r"
  shows "browser_db_ok (browser_step h pol x db t)"
    and "\<exists>r'. browser_row acct (browser_step h pol x db t) = Some r'
      \<and> (if browser_granted h pol acct x db t
         then browser_grant_change (normalize_browser_policy (pol (fst (snd (snd acct))))) r t r'
         else browser_idle_change r t r')"
proof -
  have "browser_db_ok (browser_step h pol x db t)
    \<and> (\<exists>r'. browser_row acct (browser_step h pol x db t) = Some r'
      \<and> (if browser_granted h pol acct x db t
         then browser_grant_change (normalize_browser_policy (pol (fst (snd (snd acct))))) r t r'
         else browser_idle_change r t r'))"
  proof (cases x)
    case (BReserve owner org cid)
    with browser_reserve_step [OF assms] show ?thesis by simp
  next
    case (BRead owner org cid)
    with browser_read_step [OF assms] show ?thesis by (simp add: browser_granted_def)
  next
    case (BRecord owner org cid okay code)
    with browser_record_step [OF assms] show ?thesis by (simp add: browser_granted_def)
  next
    case (BSetPaused owner org cid paused)
    with browser_paused_step [OF assms] show ?thesis by (simp add: browser_granted_def)
  next
    case (BAuthStatus owner org cid active code msg)
    with assms show ?thesis
      by (simp add: browser_granted_def set_browser_auth_status_def Let_def split_def browser_db_ok_def
          browser_row_def browser_idle_change_def)
  qed
  then show "browser_db_ok (browser_step h pol x db t)"
    and "\<exists>r'. browser_row acct (browser_step h pol x db t) = Some r'
      \<and> (if browser_granted h pol acct x db t
         then browser_grant_change (normalize_browser_policy (pol (fst (snd (snd acct))))) r t r'
         else browser_idle_change r t r')" by blast+
qed

section \<open>The guard contract\<close>

definition browser_guarded :: "account \<Rightarrow> browser_risk_db \<Rightarrow> bool" where
  "browser_guarded acct db = (browser_db_ok db \<and> browser_row acct db \<noteq> None)"

definition browser_field :: "(browser_risk \<Rightarrow> 'a) \<Rightarrow> 'a \<Rightarrow> account \<Rightarrow> browser_risk_db \<Rightarrow> 'a" where
  "browser_field f z acct db = (case browser_row acct db of None \<Rightarrow> z | Some r \<Rightarrow> f r)"

definition account_policy :: "(string \<Rightarrow> browser_policy) \<Rightarrow> account \<Rightarrow> browser_policy" where
  "account_policy pol acct = normalize_browser_policy (pol (fst (snd (snd acct))))"

lemma browser_laws:
  assumes "browser_guarded acct db"
  shows "browser_guarded acct (browser_step h pol x db t)"
    and "0 \<le> snd (browser_field browser_hour (0, 0) acct db)"
    and "0 \<le> snd (browser_field browser_day (0, 0) acct db)"
    and "\<not> browser_granted h pol acct x db t \<Longrightarrow>
      browser_field browser_hour (0, 0) acct (browser_step h pol x db t) = browser_field browser_hour (0, 0) acct db
      \<or> browser_field browser_hour (0, 0) acct (browser_step h pol x db t)
        = window_restart hour t (browser_field browser_hour (0, 0) acct db)"
    and "\<not> browser_granted h pol acct x db t \<Longrightarrow>
      browser_field browser_day (0, 0) acct (browser_step h pol x db t) = browser_field browser_day (0, 0) acct db
      \<or> browser_field browser_day (0, 0) acct (browser_step h pol x db t)
        = window_restart (24 * hour) t (browser_field browser_day (0, 0) acct db)"
    and "browser_granted h pol acct x db t \<Longrightarrow>
      snd (window_restart hour t (browser_field browser_hour (0, 0) acct db)) < bp_hourly (account_policy pol acct)
      \<and> browser_field browser_hour (0, 0) acct (browser_step h pol x db t)
        = window_count (window_restart hour t (browser_field browser_hour (0, 0) acct db))"
    and "browser_granted h pol acct x db t \<Longrightarrow>
      snd (window_restart (24 * hour) t (browser_field browser_day (0, 0) acct db)) < bp_daily (account_policy pol acct)
      \<and> browser_field browser_day (0, 0) acct (browser_step h pol x db t)
        = window_count (window_restart (24 * hour) t (browser_field browser_day (0, 0) acct db))"
    and "\<not> browser_granted h pol acct x db t \<Longrightarrow>
      browser_field br_last_request None acct (browser_step h pol x db t)
      = browser_field br_last_request None acct db"
    and "browser_granted h pol acct x db t \<Longrightarrow>
      browser_field br_last_request None acct (browser_step h pol x db t) = Some t"
    and "browser_granted h pol acct x db t \<Longrightarrow>
      browser_field br_last_request None acct db = Some u \<Longrightarrow> u + bp_interval (account_policy pol acct) \<le> t"
proof -
  from assms obtain r where r: "browser_db_ok db" "browser_row acct db = Some r"
    by (auto simp: browser_guarded_def)
  from browser_step_row(2) [OF r, of h pol x t] obtain r' where
    r': "browser_row acct (browser_step h pol x db t) = Some r'"
    and c: "if browser_granted h pol acct x db t
      then browser_grant_change (account_policy pol acct) r t r' else browser_idle_change r t r'"
    by (auto simp: account_policy_def)
  note F = browser_field_def r(2) r'
  show "browser_guarded acct (browser_step h pol x db t)"
    using browser_step_row(1) [OF r] r' by (simp add: browser_guarded_def)
  have "r \<in> set (bdb_risks db)" using browser_row_key [OF r(2)] by simp
  then show "0 \<le> snd (browser_field browser_hour (0, 0) acct db)"
    and "0 \<le> snd (browser_field browser_day (0, 0) acct db)"
    using r(1) by (simp_all add: F browser_db_ok_def)
  {
    assume "\<not> browser_granted h pol acct x db t"
    with c show "browser_field browser_hour (0, 0) acct (browser_step h pol x db t)
          = browser_field browser_hour (0, 0) acct db
        \<or> browser_field browser_hour (0, 0) acct (browser_step h pol x db t)
          = window_restart hour t (browser_field browser_hour (0, 0) acct db)"
      and "browser_field browser_day (0, 0) acct (browser_step h pol x db t)
          = browser_field browser_day (0, 0) acct db
        \<or> browser_field browser_day (0, 0) acct (browser_step h pol x db t)
          = window_restart (24 * hour) t (browser_field browser_day (0, 0) acct db)"
      and "browser_field br_last_request None acct (browser_step h pol x db t)
          = browser_field br_last_request None acct db"
      by (auto simp: F browser_idle_change_def browser_guard_def)
  next
    assume "browser_granted h pol acct x db t"
    with c show "snd (window_restart hour t (browser_field browser_hour (0, 0) acct db))
          < bp_hourly (account_policy pol acct)
        \<and> browser_field browser_hour (0, 0) acct (browser_step h pol x db t)
          = window_count (window_restart hour t (browser_field browser_hour (0, 0) acct db))"
      and "snd (window_restart (24 * hour) t (browser_field browser_day (0, 0) acct db))
          < bp_daily (account_policy pol acct)
        \<and> browser_field browser_day (0, 0) acct (browser_step h pol x db t)
          = window_count (window_restart (24 * hour) t (browser_field browser_day (0, 0) acct db))"
      and "browser_field br_last_request None acct (browser_step h pol x db t) = Some t"
      and "browser_field br_last_request None acct db = Some u \<Longrightarrow>
          u + bp_interval (account_policy pol acct) \<le> t"
      by (auto simp: F browser_grant_change_def browser_guard_def Let_def)
  }
qed

interpretation browser_hourly: rate_guard "browser_guarded acct" "browser_step h pol"
  "browser_granted h pol acct" "browser_field browser_hour (0, 0) acct"
  "browser_field br_last_request None acct" "bp_hourly (account_policy pol acct)" hour
  "bp_interval (account_policy pol acct)"
  for acct h pol
  by unfold_locales (auto simp: time_simps dest: browser_laws)

interpretation browser_daily: rate_guard "browser_guarded acct" "browser_step h pol"
  "browser_granted h pol acct" "browser_field browser_day (0, 0) acct"
  "browser_field br_last_request None acct" "bp_daily (account_policy pol acct)" "24 * hour"
  "bp_interval (account_policy pol acct)"
  for acct h pol
  by unfold_locales (auto simp: time_simps dest: browser_laws)

section \<open>Locks\<close>

text \<open>A row locked by \<open>access_denied\<close> until \<open>until\<close>.\<close>

definition browser_denied :: "time \<Rightarrow> browser_risk \<Rightarrow> bool" where
  "browser_denied until r = (br_state r = BSecurityLocked \<and> br_last_error_code r = ''access_denied''
     \<and> br_cooldown_until r = Some until)"

fun browser_fails :: "browser_op \<Rightarrow> bool" where
  "browser_fails (BRecord owner org cid ok code) = (\<not> ok)"
| "browser_fails _ = False"

lemma browser_windows_code [simp]:
  "br_last_error_code (fst (normalize_browser_windows r t)) = br_last_error_code r"
  by (simp add: normalize_browser_windows_def Let_def)

lemma browser_columns_code [simp]:
  "br_last_error_code (browser_columns s r) = br_last_error_code s"
  by (simp add: browser_columns_def)

lemma browser_denied_keeps:
  assumes "browser_denied until s"
  shows "browser_denied until (fst (normalize_browser_risk s t))"
    and "\<not> fst (fst (browser_admit s p t))"
    and "t < until \<Longrightarrow> browser_denied until (browser_result True code t (fst (normalize_browser_windows s t)))"
    and "browser_denied until (s\<lparr>br_updated_at := t\<rparr>)"
  using assms
  by (simp_all add: browser_denied_def normalize_browser_risk_fst browser_cooled_def browser_admit_def
      browser_result_def Let_def)

lemma browser_denied_write:
  assumes "browser_db_ok db" and "browser_load h owner org cid t db = Inr (key, s, db1)"
    and "browser_row acct db = Some r" and "browser_denied until r"
    and "br_provider s' = br_provider s" and "browser_denied until s \<Longrightarrow> browser_denied until s'"
  shows "(\<exists>r'. browser_row acct (browser_update owner org key s' db1) = Some r' \<and> browser_denied until r')
    \<and> (\<exists>r'. browser_row acct db1 = Some r' \<and> browser_denied until r')"
proof -
  from browser_load_run [OF assms(1,2)] obtain provider where
    b: "browser_row (owner, org, provider, key) db1 = Some s" "br_provider s = provider"
      "browser_row acct db1 = Some r"
    using assms(3) by metis
  have "\<exists>r'. browser_row acct (browser_update owner org key s' db1) = Some r' \<and> browser_denied until r'"
  proof (cases "acct = (owner, org, provider, key)")
    case True
    with b assms(4-6) have "browser_denied until s'" by auto
    with True b assms(5) browser_update_row_same [of owner org s' key db1 s] show ?thesis
      by (auto simp: browser_denied_def)
  next
    case False
    with b assms(4,5) browser_update_row_other [of acct owner org s' key db1] show ?thesis by auto
  qed
  with b(3) assms(4) show ?thesis by blast
qed

lemma browser_denied_step:
  assumes ok: "browser_db_ok db" and row: "browser_row acct db = Some r" and den: "browser_denied until r"
    and t: "t < until" and nf: "\<not> browser_fails x"
  shows "\<exists>r'. browser_row acct (browser_step h pol x db t) = Some r' \<and> browser_denied until r'"
proof (cases x)
  case (BAuthStatus owner org cid active code msg)
  with row den show ?thesis
    by (simp add: set_browser_auth_status_def Let_def split_def browser_row_def)
next
  case (BRead owner org cid)
  show ?thesis
  proof (cases "browser_load h owner org cid t db")
    case (Inr l)
    obtain key s db1 where l: "l = (key, s, db1)" by (cases l)
    from browser_denied_write [OF ok Inr [unfolded l] row den,
        of "(fst (normalize_browser_risk s t))\<lparr>br_updated_at := t\<rparr>"]
    show ?thesis using Inr l BRead browser_denied_keeps(1,4)
      by (auto simp: browser_risk_for_connection_def split_def Let_def)
  qed (use row den BRead in \<open>simp add: browser_risk_for_connection_def\<close>)
next
  case (BReserve owner org cid)
  show ?thesis
  proof (cases "browser_load h owner org cid t db")
    case (Inr l)
    obtain key s db1 where l: "l = (key, s, db1)" by (cases l)
    let ?a = "browser_admit (fst (normalize_browser_risk s t))
      (normalize_browser_policy (browser_policy_for h pol owner org cid db)) t"
    have "browser_denied until s \<Longrightarrow> browser_denied until (snd ?a)"
      using browser_denied_keeps(1,2) browser_admit_denied by metis
    from browser_denied_write [OF ok Inr [unfolded l] row den _ this]
    show ?thesis using BReserve reserve_browser_run [OF Inr [unfolded l]] by (simp add: Let_def)
  qed (use row den BReserve in \<open>simp add: reserve_browser_request_def Let_def\<close>)
next
  case (BRecord owner org cid okay code)
  show ?thesis
  proof (cases "browser_load h owner org cid t db")
    case (Inr l)
    obtain key s db1 where l: "l = (key, s, db1)" by (cases l)
    from browser_denied_write [OF ok Inr [unfolded l] row den,
        of "(browser_result True (to_lower (trim_space code)) t (fst (normalize_browser_windows s t)))
          \<lparr>br_updated_at := t\<rparr>"]
    show ?thesis using Inr l BRecord nf t browser_denied_keeps(3,4)
      by (auto simp: record_browser_result_def Let_def)
  qed (use row den BRecord in \<open>simp add: record_browser_result_def Let_def\<close>)
next
  case (BSetPaused owner org cid paused)
  show ?thesis
  proof (cases "browser_load h owner org cid t db")
    case (Inr l)
    obtain key s db1 where l: "l = (key, s, db1)" by (cases l)
    note w = browser_denied_write [OF ok Inr [unfolded l] row den, THEN conjunct1]
    show ?thesis using Inr l BSetPaused
      by (auto simp: set_browser_paused_def Let_def browser_denied_def [of _ s]
          intro!: w browser_denied_keeps(4))
  qed (use row den BSetPaused in \<open>simp add: set_browser_paused_def\<close>)
qed

lemma browser_denied_not_granted:
  assumes "browser_db_ok db" and "browser_row acct db = Some r" and "browser_denied until r"
  shows "\<not> browser_granted h pol acct x db t"
proof
  assume g: "browser_granted h pol acct x db t"
  then obtain owner org cid provider key d where
    x: "x = BReserve owner org cid" "browser_identity h owner org cid db = Inr (provider, key)"
      "acct = (owner, org, provider, key)"
    and d: "fst (reserve_browser_request h owner org cid (browser_policy_for h pol owner org cid db) t t db)
      = Inr d" "bd_allowed d"
    by (auto simp: browser_granted_def split: browser_op.splits sum.splits)
  then obtain key' s db1 where l: "browser_load h owner org cid t db = Inr (key', s, db1)"
    by (cases "browser_load h owner org cid t db") (auto simp: reserve_browser_request_def Let_def)
  from browser_load_run [OF assms(1) l] x(2,3) assms(2) have "s = r"
    by (metis Inr_inject fst_conv option.inject snd_conv)
  with assms(3) browser_denied_keeps(1,2) d reserve_browser_run [OF l] show False
    by (metis (no_types, lifting) browser_decision.select_convs(1) fst_conv sum.inject(2))
qed

section \<open>Properties\<close>

text \<open>C4: whatever connections share an account and whatever operations run on them, its granted
  requests are at least the policy's interval apart, no hour holds more than twice the hourly
  limit and no day more than twice the daily limit of the normalised policy of its provider.\<close>

theorem browser_rate_limited:
  assumes "browser_guarded acct db" and "clock_ordered es"
  shows "spaced (bp_interval (account_policy pol acct))
      (granted_times (browser_granted h pol acct) (browser_step h pol) db es)
    \<and> grants_within a hour (granted_times (browser_granted h pol acct) (browser_step h pol) db es)
      \<le> 2 * nat (bp_hourly (account_policy pol acct))
    \<and> grants_within a (24 * hour) (granted_times (browser_granted h pol acct) (browser_step h pol) db es)
      \<le> 2 * nat (bp_daily (account_policy pol acct))"
  using browser_hourly.grants_spaced [OF assms(1)] browser_hourly.grants_bounded [OF assms]
    browser_daily.grants_bounded [OF assms]
  by simp


lemma record_browser_run:
  "browser_load h owner org cid t db = Inr (key, s, db1) \<Longrightarrow>
   record_browser_result h owner org cid ok code t t db
   = (let s' = (browser_result ok (to_lower (trim_space code)) t
            (fst (normalize_browser_windows s t)))\<lparr>br_updated_at := t\<rparr>
      in (Inr (browser_plain_view s'), browser_update owner org key s' db1))"
  by (simp add: record_browser_result_def Let_def)

text \<open>the \<open>access_denied\<close> result sets that lock: whatever the account's state was, the row
  reads security-locked until exactly 24 hours later, and the failure is counted.\<close>

theorem browser_access_denied_locks:
  assumes "browser_db_ok db" and "browser_load h owner org cid t db = Inr (key, s, db1)"
  shows "\<exists>r. browser_row (owner, org, br_provider s, key)
        (snd (record_browser_result h owner org cid False ''access_denied'' t t db)) = Some r
    \<and> browser_denied (t + 24 * hour) r \<and> br_failures r = br_failures s + 1"
proof -
  have code: "to_lower (trim_space ''access_denied'') = ''access_denied''" by code_simp
  from browser_load_run [OF assms] obtain provider where
    "browser_row (owner, org, provider, key) db1 = Some s" "br_provider s = provider" by metis
  moreover have "br_failures (fst (normalize_browser_windows s t)) = br_failures s"
    by (simp add: normalize_browser_windows_def Let_def)
  ultimately show ?thesis
    using browser_update_row_same [of owner org
        "(browser_result False ''access_denied'' t (fst (normalize_browser_windows s t)))\<lparr>br_updated_at := t\<rparr>"
        key db1 s]
    by (simp add: record_browser_run [OF assms(2)] code Let_def)
      (simp add: browser_result_def browser_failure_def browser_denied_def browser_columns_def)
qed

text \<open>the back-off of unclassified failures: one, five and fifteen minutes after the first,
  second and third consecutive failure and an hour after every later one, whatever policy and
  state; a success resets it.\<close>

theorem browser_backoff_schedule:
  assumes "code \<notin> {''login_required'', ''identity_mismatch'', ''security_challenge'', ''access_denied'',
      ''adapter_incompatible'', ''rate_limited''}" and "0 \<le> br_failures s"
  shows "br_state (browser_result False code t s) = BCooldown
    \<and> br_cooldown_until (browser_result False code t s)
        = Some (t + (if br_failures s = 0 then minute else if br_failures s = 1 then 5 * minute
                     else if br_failures s = 2 then 15 * minute else hour))
    \<and> br_failures (browser_result False code t s) = br_failures s + 1
    \<and> br_failures (browser_result True code t s) = 0"
proof -
  consider "br_failures s = 0" | "br_failures s = 1" | "br_failures s = 2" | "3 \<le> br_failures s"
    using assms(2) by linarith
  then have "browser_backoff (br_failures s + 1)
      = (if br_failures s = 0 then minute else if br_failures s = 1 then 5 * minute
         else if br_failures s = 2 then 15 * minute else hour)"
  proof cases
    case 4
    then have "2 < nat (br_failures s)" by linarith
    with 4 show ?thesis by (auto simp: browser_backoff_def Let_def nth_Cons')
  qed (simp_all add: browser_backoff_def Let_def nth_Cons')
  with assms(1) show ?thesis
    by (simp add: browser_result_def browser_failure_def Let_def)
qed

section \<open>The properties on a concrete table\<close>

definition browser_example_hash :: "string \<Rightarrow> string" where
  "browser_example_hash s = ''key''"

definition browser_example_policy :: "string \<Rightarrow> browser_policy" where
  "browser_example_policy provider = \<lparr>bp_interval = 10 * second, bp_hourly = 2, bp_daily = 3\<rparr>"

definition browser_example_row :: "browser_state \<Rightarrow> browser_risk" where
  "browser_example_row st = \<lparr>br_owner = ''u1'', br_org = ''o1'', br_provider = ''openai'',
     br_account_key = ''key'', br_state = st, br_requests_hour = 0, br_requests_day = 0,
     br_rate_events = 0, br_failures = 0, br_hour_start = 0, br_day_start = 0, br_rate_start = 0,
     br_cooldown_until = (if st = BSecurityLocked then Some (24 * hour) else None),
     br_last_request = None, br_last_success = None, br_last_error = None,
     br_last_error_code = (if st = BSecurityLocked then ''access_denied'' else []),
     br_last_challenge = None, br_updated_at = 0\<rparr>"

definition browser_example_db :: "browser_state \<Rightarrow> browser_risk_db" where
  "browser_example_db st = \<lparr>bdb_risks = [browser_example_row st],
     bdb_conns = [\<lparr>cn_id = ''c1'', cn_owner = ''u1'', cn_org = ''o1'', cn_provider = ''OpenAI'',
       cn_auth_method = ''opencli_browser'', cn_status = ''active'', cn_auth_status = ''active'',
       cn_risk_level = ''elevated'', cn_connector_id = ''b1'', cn_fingerprint = replicate 64 CHR ''a'',
       cn_last_error_code = [], cn_last_error_message = [], cn_deleted_at = None,
       cn_updated_at = 0\<rparr>]\<rparr>"

definition browser_example_account :: account where
  "browser_example_account = (''u1'', ''o1'', ''openai'', ''key'')"

lemma browser_example_identity:
  "browser_identity browser_example_hash ''u1'' ''o1'' ''c1'' (browser_example_db st)
    = Inr (''openai'', ''key'')"
proof -
  have "browser_account_key browser_example_hash ''u1'' ''OpenAI'' (replicate 64 CHR ''a'') = ''key''"
    by code_simp
  moreover have "to_lower (trim_space ''OpenAI'') = ''openai''" by code_simp
  ultimately show ?thesis
    by (simp add: browser_identity_def browser_example_db_def query_row_def conn_of_def conn_live_def Let_def)
qed

lemma browser_example_granted:
  "browser_granted browser_example_hash browser_example_policy browser_example_account
     (BReserve ''u1'' ''o1'' ''c1'') (browser_example_db BNormal) 1"
proof -
  have i: "browser_identity browser_example_hash ''u1'' ''o1'' ''c1'' (browser_example_db BNormal)
      = Inr (''openai'', ''key'')"
    by (rule browser_example_identity)
  have e: "ensure_browser_risk ''u1'' ''o1'' (''openai'', ''key'') 1 (browser_example_db BNormal)
      = Inr (browser_example_db BNormal)" by code_simp
  have "browser_select ''u1'' ''o1'' (''openai'', ''key'') (browser_example_db BNormal)
      = Inr (browser_example_row BNormal)" by code_simp
  with i e have l: "browser_load browser_example_hash ''u1'' ''o1'' ''c1'' 1 (browser_example_db BNormal)
      = Inr (''key'', browser_example_row BNormal, browser_example_db BNormal)"
    by (simp add: browser_load_def)
  have "fst (fst (browser_admit (fst (normalize_browser_risk (browser_example_row BNormal) 1))
      (normalize_browser_policy (browser_example_policy ''openai'')) 1))" by code_simp
  with i reserve_browser_run [OF l] show ?thesis
    by (simp add: browser_granted_def browser_policy_for_def browser_example_account_def Let_def)
qed

lemma browser_rate_limited_witness:
  "granted_times (browser_granted browser_example_hash browser_example_policy browser_example_account)
     (browser_step browser_example_hash browser_example_policy) (browser_example_db BNormal)
     [(BReserve ''u1'' ''o1'' ''c1'', 1)] = [1]
   \<and> grants_within 0 hour (granted_times
       (browser_granted browser_example_hash browser_example_policy browser_example_account)
     (browser_step browser_example_hash browser_example_policy) (browser_example_db BNormal)
     [(BReserve ''u1'' ''o1'' ''c1'', 1)]) \<le> 4"
proof -
  have "browser_guarded browser_example_account (browser_example_db BNormal)" by code_simp
  moreover have "clock_ordered [(BReserve ''u1'' ''o1'' ''c1'', 1)]" by (simp add: clock_ordered_def)
  moreover have "bp_hourly (account_policy browser_example_policy browser_example_account) = 2"
    by code_simp
  ultimately show ?thesis
    using browser_rate_limited [of browser_example_account "browser_example_db BNormal"
        "[(BReserve ''u1'' ''o1'' ''c1'', 1)]" browser_example_policy browser_example_hash 0]
      browser_example_granted
    by simp
qed


lemma browser_access_denied_locks_witness:
  "\<exists>r. browser_row browser_example_account
      (snd (record_browser_result browser_example_hash ''u1'' ''o1'' ''c1'' False ''access_denied'' 5 5
        (browser_example_db BNormal))) = Some r \<and> browser_denied (5 + 24 * hour) r"
proof -
  have i: "browser_identity browser_example_hash ''u1'' ''o1'' ''c1'' (browser_example_db BNormal)
      = Inr (''openai'', ''key'')"
    by (rule browser_example_identity)
  have e: "ensure_browser_risk ''u1'' ''o1'' (''openai'', ''key'') 5 (browser_example_db BNormal)
      = Inr (browser_example_db BNormal)" by code_simp
  have "browser_select ''u1'' ''o1'' (''openai'', ''key'') (browser_example_db BNormal)
      = Inr (browser_example_row BNormal)" by code_simp
  with i e have "browser_load browser_example_hash ''u1'' ''o1'' ''c1'' 5 (browser_example_db BNormal)
      = Inr (''key'', browser_example_row BNormal, browser_example_db BNormal)"
    by (simp add: browser_load_def)
  moreover have "browser_db_ok (browser_example_db BNormal)" by code_simp
  ultimately show ?thesis
    using browser_access_denied_locks [of "browser_example_db BNormal" browser_example_hash "''u1''" "''o1''"
        "''c1''" 5 "''key''" "browser_example_row BNormal" "browser_example_db BNormal"]
    by (auto simp: browser_example_account_def browser_example_row_def)
qed

lemma browser_backoff_schedule_witness:
  "br_cooldown_until (browser_result False ''timeout'' 7 (browser_example_row BNormal)) = Some (7 + minute)"
  using browser_backoff_schedule [of "''timeout''" "browser_example_row BNormal" 7]
  by (simp add: browser_example_row_def)

end
