(* ===== verification/Browser_Tasks.thy ===== *)
theory Browser_Tasks
  imports Connector_Base
begin

text \<open>
  Local-browser connectors and their task queue, \<open>internal/store/browser_connectors.go\<close>: the
  tables \<open>ai_browser_connectors\<close> and \<open>ai_browser_tasks\<close> of migration 0049. As in
  \<open>Client_Tasks\<close>, \<open>h\<close> is the hex SHA-256 of a token, and random tokens and ids are arguments. A
  request or response is the JSON text \<open>json.Marshal\<close> made of it, \<open>None\<close> when it failed; the
  empty object is \<open>{}\<close>. Message texts are their UTF-8 bytes.
\<close>

section \<open>State\<close>

record browser_connector =
  bc_id :: string
  bc_owner :: string
  bc_org :: string
  bc_display_name :: string
  bc_status :: connector_status
  bc_pairing_hash :: string
  bc_pairing_expires :: "time option"
  bc_token_hash :: string
  bc_token_prefix :: string
  bc_opencli_version :: string
  bc_extension_version :: string
  bc_capabilities :: "string list"
  bc_last_seen :: "time option"
  bc_paired_at :: "time option"
  bc_revoked_at :: "time option"
  bc_created :: time
  bc_updated :: time

record browser_task = task +
  bt_request :: string
  bt_response :: string

record browser_db =
  bdb_connectors :: "browser_connector list"
  bdb_tasks :: "browser_task list"
  bdb_connections :: "connection list"
  bdb_accounts :: accounts

definition browser_connector_online :: "time \<Rightarrow> browser_connector \<Rightarrow> bool" where
  "browser_connector_online now c = (bc_status c = KActive
     \<and> (case bc_last_seen c of None \<Rightarrow> False | Some s \<Rightarrow> s > now - 45 * second))"

definition default_browser_name :: string where
  "default_browser_name =
     [CHR 0xE6, CHR 0x88, CHR 0x91, CHR 0xE7, CHR 0x9A, CHR 0x84, CHR 0x20, CHR 0x43,
      CHR 0x68, CHR 0x72, CHR 0x6F, CHR 0x6D, CHR 0x65]"

definition browser_expired_text :: string where
  "browser_expired_text =
     [CHR 0xE6, CHR 0xB5, CHR 0x8F, CHR 0xE8, CHR 0xA7, CHR 0x88, CHR 0xE5, CHR 0x99,
      CHR 0xA8, CHR 0xE4, CHR 0xBB, CHR 0xBB, CHR 0xE5, CHR 0x8A, CHR 0xA1, CHR 0xE5,
      CHR 0xB7, CHR 0xB2, CHR 0xE8, CHR 0xBF, CHR 0x87, CHR 0xE6, CHR 0x9C, CHR 0x9F]"

definition browser_revoked_text :: string where
  "browser_revoked_text =
     [CHR 0xE6, CHR 0xB5, CHR 0x8F, CHR 0xE8, CHR 0xA7, CHR 0x88, CHR 0xE5, CHR 0x99,
      CHR 0xA8, CHR 0xE8, CHR 0xBF, CHR 0x9E, CHR 0xE6, CHR 0x8E, CHR 0xA5, CHR 0xE5,
      CHR 0x99, CHR 0xA8, CHR 0xE5, CHR 0xB7, CHR 0xB2, CHR 0xE6, CHR 0x92, CHR 0xA4,
      CHR 0xE9, CHR 0x94, CHR 0x80]"

definition browser_local_revoked_text :: string where
  "browser_local_revoked_text =
     [CHR 0xE6, CHR 0x9C, CHR 0xAC, CHR 0xE5, CHR 0x9C, CHR 0xB0, CHR 0xE6, CHR 0xB5,
      CHR 0x8F, CHR 0xE8, CHR 0xA7, CHR 0x88, CHR 0xE5, CHR 0x99, CHR 0xA8, CHR 0xE8,
      CHR 0xBF, CHR 0x9E, CHR 0xE6, CHR 0x8E, CHR 0xA5, CHR 0xE5, CHR 0x99, CHR 0xA8,
      CHR 0xE5, CHR 0xB7, CHR 0xB2, CHR 0xE6, CHR 0x92, CHR 0xA4, CHR 0xE9, CHR 0x94,
      CHR 0x80]"

section \<open>Connectors\<close>

definition browser_connector_for_owner ::
  "string \<Rightarrow> string \<Rightarrow> string \<Rightarrow> browser_db \<Rightarrow> browser_connector res"
where
  "browser_connector_for_owner owner org cid db =
     query_row (\<lambda>c. bc_id c = cid \<and> bc_owner c = owner \<and> bc_org c = org \<and> bc_status c \<noteq> KRevoked)
       (bdb_connectors db)"

definition browser_connectors_for_owner ::
  "string \<Rightarrow> string \<Rightarrow> browser_db \<Rightarrow> browser_connector list"
where
  "browser_connectors_for_owner owner org db =
     sort_key (\<lambda>c. - bc_created c)
       (filter (\<lambda>c. bc_owner c = owner \<and> bc_org c = org \<and> bc_status c \<noteq> KRevoked) (bdb_connectors db))"

definition browser_connector_by_id :: "string \<Rightarrow> browser_db \<Rightarrow> browser_connector res" where
  "browser_connector_by_id cid db = query_row (\<lambda>c. bc_id c = cid) (bdb_connectors db)"

definition create_browser_connector ::
  "(string \<Rightarrow> string) \<Rightarrow> string \<Rightarrow> string \<Rightarrow> string \<Rightarrow> string \<Rightarrow> string \<Rightarrow> time \<Rightarrow> browser_db
    \<Rightarrow> (browser_connector \<times> string) res \<times> browser_db"
where
  "create_browser_connector h owner org name0 pairing_code uuid now db =
     (let name1 = trim_space name0;
          name = (if name1 = [] then default_browser_name else name1);
          cid = ''aibc_'' @ uuid;
          row = \<lparr>bc_id = cid, bc_owner = owner, bc_org = org, bc_display_name = name,
             bc_status = KPending, bc_pairing_hash = h pairing_code,
             bc_pairing_expires = Some (now + 10 * minute), bc_token_hash = [], bc_token_prefix = [],
             bc_opencli_version = [], bc_extension_version = [], bc_capabilities = [],
             bc_last_seen = None, bc_paired_at = None, bc_revoked_at = None,
             bc_created = now, bc_updated = now\<rparr>;
          found = (\<lambda>db'. case browser_connector_for_owner owner org cid db' of
                           Inl e \<Rightarrow> Inl e | Inr c \<Rightarrow> Inr (c, pairing_code))
      in if rune_count name > 80 then (Inl (ErrNamed ''browser connector name is too long''), db)
         else if \<not> account_active (bdb_accounts db) owner org then (found db, db)
         else if sql_exists (\<lambda>c. bc_id c = cid) (bdb_connectors db)
         then (Inl (ErrConstraint ''ai_browser_connectors_pkey''), db)
         else if sql_exists (\<lambda>c. bc_pairing_hash c = h pairing_code \<and> h pairing_code \<noteq> [])
                (bdb_connectors db)
         then (Inl (ErrConstraint ''idx_ai_browser_connectors_pairing_hash''), db)
         else (let db' = db\<lparr>bdb_connectors := bdb_connectors db @ [row]\<rparr> in (found db', db')))"

definition browser_pairable :: "(string \<Rightarrow> string) \<Rightarrow> string \<Rightarrow> time \<Rightarrow> accounts \<Rightarrow> browser_connector \<Rightarrow> bool" where
  "browser_pairable h pairing_code now acc c =
     (bc_pairing_hash c = h pairing_code
      \<and> (case bc_pairing_expires c of None \<Rightarrow> False | Some e \<Rightarrow> e > now)
      \<and> bc_status c = KPending \<and> account_active acc (bc_owner c) (bc_org c))"

definition pair_browser_connector ::
  "(string \<Rightarrow> string) \<Rightarrow> string \<Rightarrow> string \<Rightarrow> time \<Rightarrow> browser_db
    \<Rightarrow> (browser_connector \<times> string) res \<times> browser_db"
where
  "pair_browser_connector h pairing_code0 device_token now db =
     (let pairing_code = trim_space pairing_code0;
          invalid = Inl (ErrNamed ''ErrAIBrowserConnectorPairingInvalid'');
          sel = browser_pairable h pairing_code now (bdb_accounts db)
      in if length pairing_code < 32 then (invalid, db)
         else case query_row sel (bdb_connectors db) of
           Inl _ \<Rightarrow> (invalid, db)
         | Inr c \<Rightarrow>
             if h device_token \<noteq> []
                \<and> sql_exists (\<lambda>k. bc_token_hash k = h device_token \<and> bc_id k \<noteq> bc_id c) (bdb_connectors db)
             then (Inl (ErrConstraint ''idx_ai_browser_connectors_token_hash''), db)
             else
               (let db' = db\<lparr>bdb_connectors := sql_update sel
                      (\<lambda>k. k\<lparr>bc_status := KActive, bc_pairing_hash := [], bc_pairing_expires := None,
                             bc_token_hash := h device_token, bc_token_prefix := token_prefix device_token,
                             bc_paired_at := Some now, bc_last_seen := Some now, bc_updated := now\<rparr>)
                      (bdb_connectors db)\<rparr>
                in (case browser_connector_by_id (bc_id c) db' of
                      Inl e \<Rightarrow> Inl e | Inr k \<Rightarrow> Inr (k, device_token), db')))"

definition authenticate_browser_connector ::
  "(string \<Rightarrow> string) \<Rightarrow> string \<Rightarrow> browser_db \<Rightarrow> browser_connector res"
where
  "authenticate_browser_connector h device_token0 db =
     (let device_token = trim_space device_token0;
          unauthorized = Inl (ErrNamed ''ErrAIBrowserConnectorUnauthorized'')
      in if length device_token < 40 then unauthorized
         else case query_row (\<lambda>c. bc_token_hash c = h device_token \<and> bc_status c = KActive
                       \<and> account_active (bdb_accounts db) (bc_owner c) (bc_org c))
                     (bdb_connectors db) of
           Inl _ \<Rightarrow> unauthorized
         | Inr c \<Rightarrow> Inr c)"

definition heartbeat_browser_connector ::
  "string \<Rightarrow> string \<Rightarrow> string \<Rightarrow> string list \<Rightarrow> time \<Rightarrow> browser_db \<Rightarrow> browser_connector res \<times> browser_db"
where
  "heartbeat_browser_connector cid opencli extension capabilities now db =
     (let sel = (\<lambda>c. bc_id c = cid \<and> bc_status c = KActive);
          db' = db\<lparr>bdb_connectors := sql_update sel
            (\<lambda>c. c\<lparr>bc_opencli_version := truncate_store_text opencli 64,
                   bc_extension_version := truncate_store_text extension 64,
                   bc_capabilities :=
                     normalized_capabilities [''openai'', ''gemini'', ''deepseek''] [] capabilities,
                   bc_last_seen := Some now, bc_updated := now\<rparr>) (bdb_connectors db)\<rparr>
      in if sql_affected sel (bdb_connectors db) \<noteq> 1
         then (Inl (ErrNamed ''ErrAIBrowserConnectorUnauthorized''), db')
         else (browser_connector_by_id cid db', db'))"

definition revoke_browser_connector ::
  "string \<Rightarrow> string \<Rightarrow> string \<Rightarrow> time \<Rightarrow> browser_db \<Rightarrow> unit res \<times> browser_db"
where
  "revoke_browser_connector owner org cid now db =
     (let sel = (\<lambda>c. bc_id c = cid \<and> bc_owner c = owner \<and> bc_org c = org \<and> bc_status c \<noteq> KRevoked)
      in if sql_affected sel (bdb_connectors db) \<noteq> 1 then (Inl ErrNoRows, db)
         else (Inr (), db\<lparr>
           bdb_connectors := sql_update sel
             (\<lambda>c. c\<lparr>bc_status := KRevoked, bc_token_hash := [], bc_pairing_hash := [],
                    bc_revoked_at := Some now, bc_updated := now\<rparr>) (bdb_connectors db),
           bdb_tasks := sql_update (\<lambda>t. tk_connector t = cid \<and> task_active t)
             (\<lambda>t. task_finish TCancelled ''connector_revoked'' browser_revoked_text now
                    (t\<lparr>bt_request := ''{}'', bt_response := ''{}''\<rparr>)) (bdb_tasks db),
           bdb_connections := sql_update (\<lambda>c. cn_owner c = owner \<and> cn_org c = org
               \<and> cn_auth_method c = ''opencli_browser'' \<and> cn_connector_id c = cid \<and> cn_deleted_at c = None)
             (\<lambda>c. c\<lparr>cn_status := ''disabled'', cn_auth_status := ''disabled'',
                    cn_last_error_code := ''connector_revoked'',
                    cn_last_error_message := browser_local_revoked_text, cn_updated_at := now\<rparr>)
             (bdb_connections db)\<rparr>))"

section \<open>Tasks\<close>

definition browser_expire_tasks :: "string \<Rightarrow> time \<Rightarrow> browser_db \<Rightarrow> browser_db" where
  "browser_expire_tasks cid now db = db\<lparr>bdb_tasks := sql_update (task_stale cid now)
     (\<lambda>t. task_finish TExpired ''task_expired'' browser_expired_text now (t\<lparr>bt_request := ''{}''\<rparr>))
     (bdb_tasks db)\<rparr>"

definition browser_task_for_owner :: "string \<Rightarrow> string \<Rightarrow> string \<Rightarrow> browser_db \<Rightarrow> browser_task res" where
  "browser_task_for_owner owner org tid db =
     query_row (\<lambda>t. tk_id t = tid \<and> tk_owner t = owner \<and> tk_org t = org) (bdb_tasks db)"

definition create_browser_task ::
  "string \<Rightarrow> string \<Rightarrow> string \<Rightarrow> string \<Rightarrow> string \<Rightarrow> string \<Rightarrow> string option \<Rightarrow> time \<Rightarrow> string \<Rightarrow> time
    \<Rightarrow> browser_db \<Rightarrow> browser_task res \<times> browser_db"
where
  "create_browser_task cid owner org connection provider0 action0 request expires0 uuid now db0 =
     (case request of
        None \<Rightarrow> (Inl (ErrNamed ''json: unsupported value''), db0)
      | Some raw \<Rightarrow>
          (let expires = (if expires0 = 0 then now + 2 * minute else expires0);
               db = browser_expire_tasks cid now db0;
               tid = ''aibt_'' @ uuid;
               provider = to_lower (trim_space provider0);
               action = to_lower (trim_space action0);
               row = \<lparr>tk_id = tid, tk_connector = cid, tk_owner = owner, tk_org = org,
                  tk_connection = (if connection = [] then None else Some connection),
                  tk_provider = provider, tk_action = action, tk_status = TQueued, tk_lease_hash = [],
                  tk_lease_expires = None, tk_error_code = [], tk_error_message = [],
                  tk_expires = expires, tk_claimed_at = None, tk_completed_at = None,
                  tk_created = now, tk_updated = now, bt_request = raw, bt_response = ''{}''\<rparr>
           in if \<not> sql_exists (\<lambda>c. bc_id c = cid \<and> bc_owner c = owner \<and> bc_org c = org
                    \<and> bc_status c = KActive) (bdb_connectors db)
              then (browser_task_for_owner owner org tid db, db)
              else if provider \<notin> {''openai'', ''gemini'', ''deepseek''}
              then (Inl (ErrConstraint ''ai_browser_tasks_provider_check''), db)
              else if action \<notin> {''status'', ''ask''}
              then (Inl (ErrConstraint ''ai_browser_tasks_action_check''), db)
              else if sql_exists (\<lambda>t. tk_id t = tid) (bdb_tasks db)
              then (Inl (ErrConstraint ''ai_browser_tasks_pkey''), db)
              else if task_busy cid (bdb_tasks db)
              then (Inl (ErrNamed ''ErrAIBrowserConnectorBusy''), db)
              else if connection \<noteq> [] \<and> \<not> sql_exists (\<lambda>c. cn_id c = connection) (bdb_connections db)
              then (Inl (ErrConstraint ''ai_browser_tasks_connection_id_fkey''), db)
              else (let db' = db\<lparr>bdb_tasks := bdb_tasks db @ [row]\<rparr>
                    in (browser_task_for_owner owner org tid db', db'))))"

definition claim_browser_task ::
  "(string \<Rightarrow> string) \<Rightarrow> string \<Rightarrow> duration \<Rightarrow> string \<Rightarrow> time \<Rightarrow> browser_db
    \<Rightarrow> (browser_task \<times> string) option res \<times> browser_db"
where
  "claim_browser_task h cid lease0 lease_token now db0 =
     (let lease = (if lease0 < 5 * second \<or> lease0 > 2 * minute then 30 * second else lease0);
          db1 = browser_expire_tasks cid now db0;
          db2 = db1\<lparr>bdb_tasks := sql_update (task_lapsed cid now) (task_requeue now) (bdb_tasks db1)\<rparr>
      in case task_next cid now (bdb_tasks db2) of
           None \<Rightarrow> (Inr None, db2)
         | Some t \<Rightarrow>
             (let db3 = db2\<lparr>bdb_tasks := sql_update (\<lambda>k. tk_id k = tk_id t)
                    (task_claim (h lease_token) (now + lease) now) (bdb_tasks db2)\<rparr>
              in case query_row (\<lambda>k. tk_id k = tk_id t) (bdb_tasks db3) of
                   Inl e \<Rightarrow> (Inl e, db0)
                 | Inr k \<Rightarrow> (Inr (Some (k, lease_token)), db3)))"

definition complete_browser_task ::
  "(string \<Rightarrow> string) \<Rightarrow> string \<Rightarrow> string \<Rightarrow> string \<Rightarrow> bool \<Rightarrow> string option \<Rightarrow> string \<Rightarrow> string \<Rightarrow> time
    \<Rightarrow> browser_db \<Rightarrow> unit res \<times> browser_db"
where
  "complete_browser_task h cid tid lease_token ok response error_code0 error_message0 now db =
     (case response of
        None \<Rightarrow> (Inl (ErrNamed ''json: unsupported value''), db)
      | Some raw \<Rightarrow>
          (let status = (if ok then TCompleted else TFailed);
               error_code = (if ok then [] else error_code0);
               error_message = (if ok then [] else error_message0);
               sel = task_leased cid tid (h (trim_space lease_token)) now;
               db' = db\<lparr>bdb_tasks := sql_update sel
                  (\<lambda>t. task_finish status (trim_space error_code) (truncate_store_text error_message 512) now
                         (t\<lparr>bt_request := ''{}'', bt_response := raw\<rparr>)) (bdb_tasks db)\<rparr>
           in if sql_affected sel (bdb_tasks db) \<noteq> 1
              then (Inl (ErrNamed ''ErrAIBrowserTaskLeaseInvalid''), db')
              else (Inr (), db')))"

definition expire_browser_task ::
  "string \<Rightarrow> string \<Rightarrow> string \<Rightarrow> time \<Rightarrow> browser_db \<Rightarrow> unit res \<times> browser_db"
where
  "expire_browser_task owner org tid now db =
     (Inr (), db\<lparr>bdb_tasks := sql_update
        (\<lambda>t. tk_id t = tid \<and> tk_owner t = owner \<and> tk_org t = org)
        (\<lambda>t. t\<lparr>tk_status := (if task_active t then TExpired else tk_status t),
               bt_request := ''{}'', bt_response := ''{}'',
               tk_lease_hash := [], tk_lease_expires := None,
               tk_error_code := (if task_active t then ''task_expired'' else tk_error_code t),
               tk_error_message := (if task_active t then browser_expired_text else tk_error_message t),
               tk_completed_at := (case tk_completed_at t of None \<Rightarrow> Some now | Some c \<Rightarrow> Some c),
               tk_updated := now\<rparr>) (bdb_tasks db)\<rparr>)"

definition scrub_browser_task ::
  "string \<Rightarrow> string \<Rightarrow> string \<Rightarrow> time \<Rightarrow> browser_db \<Rightarrow> unit res \<times> browser_db"
where
  "scrub_browser_task owner org tid now db =
     (Inr (), db\<lparr>bdb_tasks := sql_update
        (\<lambda>t. tk_id t = tid \<and> tk_owner t = owner \<and> tk_org t = org
             \<and> tk_status t \<in> {TCompleted, TFailed, TExpired, TCancelled})
        (\<lambda>t. t\<lparr>bt_request := ''{}'', bt_response := ''{}'', tk_updated := now\<rparr>) (bdb_tasks db)\<rparr>)"

definition maintain_browser_tasks :: "duration \<Rightarrow> time \<Rightarrow> browser_db \<Rightarrow> nat res \<times> browser_db" where
  "maintain_browser_tasks retention0 now db =
     (let retention = (if retention0 < minute then 10 * minute else retention0);
          stale = (\<lambda>t. task_active t \<and> tk_expires t \<le> now);
          tasks1 = sql_update stale
            (\<lambda>t. (task_finish TExpired ''task_expired'' browser_expired_text now t)
                  \<lparr>bt_request := ''{}'', bt_response := ''{}'',
                   tk_completed_at := (case tk_completed_at t of None \<Rightarrow> Some now | Some c \<Rightarrow> Some c)\<rparr>)
            (bdb_tasks db);
          old = (\<lambda>t. tk_status t \<in> {TCompleted, TFailed, TExpired, TCancelled}
             \<and> (case tk_completed_at t of None \<Rightarrow> False | Some c \<Rightarrow> c \<le> now - retention)
             \<and> (bt_request t \<noteq> ''{}'' \<or> bt_response t \<noteq> ''{}''));
          tasks2 = sql_update old
            (\<lambda>t. t\<lparr>bt_request := ''{}'', bt_response := ''{}'', tk_updated := now\<rparr>) tasks1
      in (Inr (sql_affected stale (bdb_tasks db) + sql_affected old tasks1), db\<lparr>bdb_tasks := tasks2\<rparr>))"

section \<open>Operations as steps\<close>

datatype browser_task_op =
    WCreate string string string string string
  | WPair string string
  | WHeartbeat string string string "string list"
  | WRevoke string string string
  | WTask string string string string string string "string option" time string
  | WClaim string duration string
  | WComplete string string string bool "string option" string string
  | WExpire string string string
  | WScrub string string string
  | WMaintain duration

fun browser_task_step :: "(string \<Rightarrow> string) \<Rightarrow> browser_task_op \<Rightarrow> browser_db \<Rightarrow> time \<Rightarrow> browser_db" where
  "browser_task_step h (WCreate owner org name code uuid) db t =
     snd (create_browser_connector h owner org name code uuid t db)"
| "browser_task_step h (WPair code token) db t = snd (pair_browser_connector h code token t db)"
| "browser_task_step h (WHeartbeat cid v1 v2 caps) db t =
     snd (heartbeat_browser_connector cid v1 v2 caps t db)"
| "browser_task_step h (WRevoke owner org cid) db t = snd (revoke_browser_connector owner org cid t db)"
| "browser_task_step h (WTask cid owner org conn prov act req expires uuid) db t =
     snd (create_browser_task cid owner org conn prov act req expires uuid t db)"
| "browser_task_step h (WClaim cid lease token) db t = snd (claim_browser_task h cid lease token t db)"
| "browser_task_step h (WComplete cid tid token ok resp code msg) db t =
     snd (complete_browser_task h cid tid token ok resp code msg t db)"
| "browser_task_step h (WExpire owner org tid) db t = snd (expire_browser_task owner org tid t db)"
| "browser_task_step h (WScrub owner org tid) db t = snd (scrub_browser_task owner org tid t db)"
| "browser_task_step h (WMaintain retention) db t = snd (maintain_browser_tasks retention t db)"

definition browser_completes :: "(string \<Rightarrow> string) \<Rightarrow> string \<Rightarrow> browser_task_op \<Rightarrow> browser_db \<Rightarrow> time \<Rightarrow> bool"
where
  "browser_completes h k x db t = (case x of
     WComplete cid tid token ok resp code msg \<Rightarrow>
       tid = k \<and> is_ok (fst (complete_browser_task h cid tid token ok resp code msg t db))
   | _ \<Rightarrow> False)"

definition browser_pairs :: "(string \<Rightarrow> string) \<Rightarrow> string \<Rightarrow> browser_task_op \<Rightarrow> browser_db \<Rightarrow> time \<Rightarrow> bool"
where
  "browser_pairs h k x db t = (case x of
     WPair code token \<Rightarrow>
       (case fst (pair_browser_connector h code token t db) of
          Inl _ \<Rightarrow> False | Inr (c, _) \<Rightarrow> bc_id c = k)
   | _ \<Rightarrow> False)"

section \<open>Invariant\<close>

definition browser_db_wf :: "browser_db \<Rightarrow> bool" where
  "browser_db_wf db = (tasks_ok (bdb_tasks db) \<and> distinct (map bc_id (bdb_connectors db)))"

definition browser_connector_can :: "browser_connector \<Rightarrow> browser_connector \<Rightarrow> bool" where
  "browser_connector_can c c' = (bc_id c' = bc_id c \<and> bc_owner c' = bc_owner c \<and> bc_org c' = bc_org c
     \<and> (bc_status c = KRevoked \<longrightarrow> bc_status c' = KRevoked)
     \<and> (bc_status c' = KPending \<longrightarrow> bc_status c = KPending))"

lemma browser_can_refl: "browser_connector_can c c"
  by (simp add: browser_connector_can_def)

lemma browser_can_trans:
  "browser_connector_can a b \<Longrightarrow> browser_connector_can b c \<Longrightarrow> browser_connector_can a c"
  unfolding browser_connector_can_def by metis

lemma browser_can_pending:
  "bc_status c \<noteq> KPending \<Longrightarrow> browser_connector_can c c' \<Longrightarrow> bc_status c' \<noteq> KPending"
  by (simp add: browser_connector_can_def)

definition browser_tables_step :: "browser_db \<Rightarrow> browser_db \<Rightarrow> bool" where
  "browser_tables_step db db' =
     ((\<exists>ts new. tasks_evolve (bdb_tasks db) ts \<and> bdb_tasks db' = ts @ new
         \<and> (\<forall>k\<in>set new. \<exists>c\<in>set (bdb_connectors db). bc_id c = tk_connector k \<and> bc_status c = KActive))
      \<and> keeps_rows bc_id browser_connector_can (bdb_connectors db) (bdb_connectors db')
      \<and> browser_db_wf db')"

lemma browser_tables_stepI:
  assumes "browser_db_wf db"
    and "tasks_evolve (bdb_tasks db) (bdb_tasks db')"
    and "keeps_rows bc_id browser_connector_can (bdb_connectors db) (bdb_connectors db')"
    and "distinct (map bc_id (bdb_connectors db'))"
  shows "browser_tables_step db db'"
proof -
  have "bdb_tasks db' = bdb_tasks db' @ []" by simp
  then show ?thesis
    using assms tasks_ok_evolve [OF _ assms(2)]
    by (fastforce simp: browser_tables_step_def browser_db_wf_def)
qed

lemmas browser_keeps_refl = keeps_rows_refl [of browser_connector_can, OF browser_can_refl]

lemma browser_tables_refl: "browser_db_wf db \<Longrightarrow> browser_tables_step db db"
  by (intro browser_tables_stepI) (auto simp: browser_keeps_refl browser_db_wf_def)

lemma browser_tables_connectors:
  assumes "browser_db_wf db" and "\<And>c. p c \<Longrightarrow> browser_connector_can c (f c)"
  shows "browser_tables_step db (db\<lparr>bdb_connectors := sql_update p f (bdb_connectors db)\<rparr>)"
proof (rule browser_tables_stepI [OF assms(1)])
  show "keeps_rows bc_id browser_connector_can (bdb_connectors db)
      (bdb_connectors (db\<lparr>bdb_connectors := sql_update p f (bdb_connectors db)\<rparr>))"
    using assms(2) browser_can_refl browser_connector_can_def by (auto intro!: keeps_rows_update)
  show "distinct (map bc_id (bdb_connectors (db\<lparr>bdb_connectors := sql_update p f (bdb_connectors db)\<rparr>)))"
    using assms browser_connector_can_def by (auto simp: browser_db_wf_def intro!: distinct_sql_update)
qed (use assms in \<open>simp_all add: browser_keeps_refl browser_db_wf_def\<close>)

lemma browser_tables_tasks:
  assumes "browser_db_wf db" and "tasks_evolve (bdb_tasks db) ts"
  shows "browser_tables_step db (db\<lparr>bdb_tasks := ts\<rparr>)"
  using assms by (intro browser_tables_stepI) (auto simp: browser_keeps_refl browser_db_wf_def)

lemma browser_tables_insert_connector:
  assumes "browser_db_wf db" and "\<not> sql_exists (\<lambda>c. bc_id c = bc_id k) (bdb_connectors db)"
  shows "browser_tables_step db (db\<lparr>bdb_connectors := bdb_connectors db @ [k]\<rparr>)"
  using assms
  by (intro browser_tables_stepI)
    (auto simp: browser_keeps_refl browser_db_wf_def sql_exists_iff intro: keeps_rows_append browser_can_refl)

lemma browser_step_create:
  "browser_db_wf db \<Longrightarrow>
   browser_tables_step db (snd (create_browser_connector h owner org name code uuid t db))"
  by (simp add: create_browser_connector_def Let_def browser_tables_refl browser_tables_insert_connector)

lemma browser_step_pair:
  assumes "browser_db_wf db"
  shows "browser_tables_step db (snd (pair_browser_connector h code token t db))"
  using assms
  by (auto simp: pair_browser_connector_def Let_def browser_tables_refl browser_pairable_def
      browser_connector_can_def intro!: browser_tables_connectors split: sum.split)

lemma browser_step_heartbeat:
  assumes "browser_db_wf db"
  shows "browser_tables_step db (snd (heartbeat_browser_connector cid v1 v2 caps t db))"
  using assms
  by (auto simp: heartbeat_browser_connector_def Let_def browser_connector_can_def
      intro!: browser_tables_connectors)

lemma task_finish_payload_can:
  "task_active t \<Longrightarrow> task_can t (task_finish st code msg now (t\<lparr>bt_request := a\<rparr>))"
  "task_active t \<Longrightarrow> task_can t (task_finish st code msg now (t\<lparr>bt_request := a, bt_response := b\<rparr>))"
  by (simp_all add: task_can_def task_finish_def)

lemma browser_step_revoke:
  assumes "browser_db_wf db"
  shows "browser_tables_step db (snd (revoke_browser_connector owner org cid t db))"
  using assms
  by (auto simp: revoke_browser_connector_def Let_def browser_tables_refl
      intro!: browser_tables_stepI keeps_rows_update browser_can_refl
        distinct_sql_update tasks_evolve_update task_finish_payload_can)
    (auto simp: browser_db_wf_def browser_connector_can_def)

lemma browser_expire_tables:
  "tasks_evolve (bdb_tasks db) (bdb_tasks (browser_expire_tasks cid t db))
   \<and> bdb_connectors (browser_expire_tasks cid t db) = bdb_connectors db"
  by (auto simp: browser_expire_tasks_def intro!: tasks_evolve_update task_finish_payload_can
      dest: task_stale_active)

lemma browser_expire_step:
  "browser_db_wf db \<Longrightarrow> browser_tables_step db (browser_expire_tasks cid t db)"
  using browser_expire_tables [of db cid t]
  by (intro browser_tables_stepI) (auto simp: browser_keeps_refl browser_db_wf_def)

lemma browser_insert_task:
  assumes "browser_db_wf db" and "tasks_evolve (bdb_tasks db) (bdb_tasks db')"
    and "bdb_connectors db' = bdb_connectors db"
    and "\<not> sql_exists (\<lambda>r. tk_id r = tk_id k) (bdb_tasks db')"
    and "\<not> task_busy (tk_connector k) (bdb_tasks db')"
    and "sql_exists (\<lambda>c. bc_id c = tk_connector k \<and> bc_owner c = owner \<and> bc_org c = org
           \<and> bc_status c = KActive) (bdb_connectors db')"
  shows "browser_tables_step db (db'\<lparr>bdb_tasks := bdb_tasks db' @ [k]\<rparr>)"
proof -
  have "tasks_ok (bdb_tasks db' @ [k])"
    using assms(1,4,5) tasks_ok_evolve [OF _ assms(2)]
    by (intro tasks_ok_insert) (auto simp: browser_db_wf_def sql_exists_iff)
  moreover have "\<exists>ts new. tasks_evolve (bdb_tasks db) ts
      \<and> bdb_tasks (db'\<lparr>bdb_tasks := bdb_tasks db' @ [k]\<rparr>) = ts @ new
      \<and> (\<forall>k\<in>set new. \<exists>c\<in>set (bdb_connectors db). bc_id c = tk_connector k \<and> bc_status c = KActive)"
    using assms(2,3,6)
    by (intro exI [of _ "bdb_tasks db'"] exI [of _ "[k]"]) (auto simp: sql_exists_iff)
  ultimately show ?thesis
    using assms by (simp add: browser_tables_step_def browser_db_wf_def browser_keeps_refl)
qed

lemma browser_step_task:
  assumes "browser_db_wf db"
  shows "browser_tables_step db
    (snd (create_browser_task cid owner org conn prov act req expires uuid t db))"
proof -
  let ?db = "browser_expire_tasks cid t db"
  note e = browser_expire_step [OF assms, of cid t]
  note ins = browser_insert_task [OF assms, of ?db _ owner org]
  show ?thesis
    using e assms browser_expire_tables [of db cid t]
    by (cases req)
      (simp_all add: create_browser_task_def Let_def browser_tables_refl ins del: insert_iff)
qed

lemma browser_step_claim:
  assumes "browser_db_wf db"
  shows "browser_tables_step db (snd (claim_browser_task h cid lease token t db))"
proof -
  let ?db1 = "browser_expire_tasks cid t db"
  let ?db2 = "?db1\<lparr>bdb_tasks := sql_update (task_lapsed cid t) (task_requeue t) (bdb_tasks ?db1)\<rparr>"
  note e = browser_expire_tables [of db cid t]
  have ev2: "tasks_evolve (bdb_tasks db) (bdb_tasks ?db2)"
    using e by (auto intro!: tasks_evolve_trans [of "bdb_tasks db" "bdb_tasks ?db1"]
        tasks_evolve_update task_can_moves dest: task_lapsed_active)
  have ok2: "tasks_ok (bdb_tasks ?db2)"
    using tasks_ok_evolve [OF _ ev2] assms by (simp add: browser_db_wf_def)
  have s2: "browser_tables_step db ?db2"
    using assms ev2 e by (intro browser_tables_stepI) (auto simp: browser_keeps_refl browser_db_wf_def)
  show ?thesis
  proof (cases "task_next cid t (bdb_tasks ?db2)")
    case None
    with s2 show ?thesis by (simp add: claim_browser_task_def Let_def)
  next
    case (Some k)
    from task_next_Some [OF this] have k: "k \<in> set (bdb_tasks ?db2)" "task_active k"
      by (auto simp: task_active_def)
    let ?db3 = "?db2\<lparr>bdb_tasks := sql_update (\<lambda>r. tk_id r = tk_id k)
      (task_claim (h token) (t + (if lease < 5 * second \<or> lease > 2 * minute then 30 * second else lease)) t)
      (bdb_tasks ?db2)\<rparr>"
    have "task_active r" if "r \<in> set (bdb_tasks ?db2)" "tk_id r = tk_id k" for r
      using distinct_key_unique [of tk_id "bdb_tasks ?db2" r k] ok2 that k by (simp add: tasks_ok_def)
    then have "tasks_evolve (bdb_tasks ?db2) (bdb_tasks ?db3)"
      by (auto intro!: tasks_evolve_update task_can_moves)
    then have "browser_tables_step db ?db3"
      using assms e tasks_evolve_trans [OF ev2]
      by (intro browser_tables_stepI) (auto simp: browser_keeps_refl browser_db_wf_def)
    with Some assms show ?thesis
      by (auto simp: claim_browser_task_def Let_def browser_tables_refl split: sum.split)
  qed
qed

definition browser_completed ::
  "bool \<Rightarrow> string \<Rightarrow> string \<Rightarrow> string \<Rightarrow> time \<Rightarrow> browser_task \<Rightarrow> browser_task"
where
  "browser_completed ok raw code msg now t =
     task_finish (if ok then TCompleted else TFailed) (trim_space (if ok then [] else code))
       (truncate_store_text (if ok then [] else msg) 512) now (t\<lparr>bt_request := ''{}'', bt_response := raw\<rparr>)"

lemma browser_complete_run:
  "complete_browser_task h cid tid token ok (Some raw) code msg now db
   = (if sql_affected (task_leased cid tid (h (trim_space token)) now) (bdb_tasks db) = 1 then Inr ()
      else Inl (ErrNamed ''ErrAIBrowserTaskLeaseInvalid''),
      db\<lparr>bdb_tasks := sql_update (task_leased cid tid (h (trim_space token)) now)
        (browser_completed ok raw code msg now) (bdb_tasks db)\<rparr>)"
  by (simp add: complete_browser_task_def Let_def browser_completed_def [abs_def])

lemma browser_completed_sel [simp]:
  "tk_id (browser_completed ok raw code msg now t) = tk_id t"
  "tk_status (browser_completed ok raw code msg now t) = (if ok then TCompleted else TFailed)"
  by (simp_all add: browser_completed_def task_finish_def)

lemma browser_step_complete:
  assumes "browser_db_wf db"
  shows "browser_tables_step db (snd (complete_browser_task h cid tid token ok resp code msg t db))"
proof (cases resp)
  case None
  with assms show ?thesis by (simp add: complete_browser_task_def browser_tables_refl)
next
  case (Some raw)
  have "tasks_evolve (bdb_tasks db) (sql_update (task_leased cid tid (h (trim_space token)) t)
      (browser_completed ok raw code msg t) (bdb_tasks db))"
    by (auto intro!: tasks_evolve_update dest!: task_leased_active
        simp: browser_completed_def task_finish_payload_can)
  with assms Some show ?thesis by (simp add: browser_complete_run browser_tables_tasks)
qed

lemma browser_step_expire:
  assumes "browser_db_wf db"
  shows "browser_tables_step db (snd (expire_browser_task owner org tid t db))"
  using assms unfolding expire_browser_task_def snd_conv
  by (intro browser_tables_tasks tasks_evolve_update) (auto simp: task_can_def)

lemma browser_step_scrub:
  assumes "browser_db_wf db"
  shows "browser_tables_step db (snd (scrub_browser_task owner org tid t db))"
  using assms unfolding scrub_browser_task_def snd_conv
  by (intro browser_tables_tasks tasks_evolve_update) (auto simp: task_can_def)

lemma browser_step_maintain:
  assumes "browser_db_wf db"
  shows "browser_tables_step db (snd (maintain_browser_tasks retention t db))"
  using assms unfolding maintain_browser_tasks_def Let_def snd_conv
  by (intro browser_tables_tasks tasks_evolve_trans [OF tasks_evolve_update tasks_evolve_update])
    (auto simp: task_can_def task_finish_def)

lemma browser_task_step_tables:
  "browser_db_wf db \<Longrightarrow> browser_tables_step db (browser_task_step h x db t)"
  by (cases x) (simp_all add: browser_step_create browser_step_pair browser_step_heartbeat
      browser_step_revoke browser_step_task browser_step_claim browser_step_complete
      browser_step_expire browser_step_scrub browser_step_maintain)

lemma browser_step_wf: "browser_db_wf db \<Longrightarrow> browser_db_wf (browser_task_step h x db t)"
  using browser_task_step_tables [of db h x t] by (simp add: browser_tables_step_def)

lemma browser_step_task_row:
  "browser_db_wf db \<Longrightarrow> row_at tk_id k (bdb_tasks db) = Some r \<Longrightarrow>
   \<exists>r'. row_at tk_id k (bdb_tasks (browser_task_step h x db t)) = Some r' \<and> task_can r r'"
  using browser_task_step_tables [of db h x t]
  by (auto simp: browser_tables_step_def row_at_append dest: tasks_evolve_row)

section \<open>The contracts on this store\<close>

lemma browser_completes_leased:
  assumes "browser_db_wf db" and "browser_completes h k x db t"
  shows "\<exists>r. row_at tk_id k (bdb_tasks db) = Some r \<and> task_active r"
    and "row_at tk_id k (bdb_tasks (browser_task_step h x db t)) = Some r' \<Longrightarrow> \<not> task_active r'"
proof -
  from assms(2) obtain cid token okay raw code msg where
    x: "x = WComplete cid k token okay (Some raw) code msg"
    and ok: "is_ok (fst (complete_browser_task h cid k token okay (Some raw) code msg t db))"
    by (auto simp: browser_completes_def complete_browser_task_def
        split: browser_task_op.splits option.splits)
  let ?sel = "task_leased cid k (h (trim_space token)) t"
  from ok have a: "sql_affected ?sel (bdb_tasks db) = 1"
    by (simp add: browser_complete_run split: if_splits)
  have "distinct (map tk_id (bdb_tasks db))" using assms(1) by (simp add: browser_db_wf_def tasks_ok_def)
  from sql_affected_key_1 [OF this _ a, of k] obtain r where
    r: "row_at tk_id k (bdb_tasks db) = Some r" "?sel r" by (auto simp: task_leased_def)
  then show "\<exists>r. row_at tk_id k (bdb_tasks db) = Some r \<and> task_active r"
    using task_leased_active by blast
  show "row_at tk_id k (bdb_tasks (browser_task_step h x db t)) = Some r' \<Longrightarrow> \<not> task_active r'"
    using x r by (auto simp: browser_complete_run row_at_sql_update task_active_def split: if_splits)
qed

lemma browser_pairs_pending:
  assumes "browser_db_wf db" and "browser_pairs h k x db t"
  shows "\<exists>c. row_at bc_id k (bdb_connectors db) = Some c \<and> bc_status c = KPending"
    and "row_at bc_id k (bdb_connectors (browser_task_step h x db t)) = Some c' \<Longrightarrow>
      bc_status c' = KActive"
proof -
  from assms(2) obtain code token where x: "x = WPair code token"
    by (auto simp: browser_pairs_def split: browser_task_op.splits)
  let ?sel = "browser_pairable h (trim_space code) t (bdb_accounts db)"
  let ?f = "\<lambda>k. k\<lparr>bc_status := KActive, bc_pairing_hash := [], bc_pairing_expires := None,
    bc_token_hash := h token, bc_token_prefix := token_prefix token,
    bc_paired_at := Some t, bc_last_seen := Some t, bc_updated := t\<rparr>"
  let ?db = "db\<lparr>bdb_connectors := sql_update ?sel ?f (bdb_connectors db)\<rparr>"
  from assms(2) x obtain c where c: "query_row ?sel (bdb_connectors db) = Inr c"
    and res: "pair_browser_connector h code token t db
      = (case browser_connector_by_id (bc_id c) ?db of Inl e \<Rightarrow> Inl e | Inr k \<Rightarrow> Inr (k, token), ?db)"
    by (auto simp: browser_pairs_def pair_browser_connector_def Let_def split: sum.splits if_splits)
  from query_row_Inr [OF c] have in_c: "c \<in> set (bdb_connectors db)" "?sel c" by auto
  with assms(1) have at: "row_at bc_id (bc_id c) (bdb_connectors db) = Some c"
    by (simp add: row_at_unique browser_db_wf_def)
  have "browser_pairs h k x db t \<Longrightarrow> bc_id c = k"
    using x res by (auto simp: browser_pairs_def browser_connector_by_id_def dest!: query_row_Inr
        split: sum.splits)
  with assms(2) have k: "bc_id c = k" by simp
  with at in_c show "\<exists>c. row_at bc_id k (bdb_connectors db) = Some c \<and> bc_status c = KPending"
    by (auto simp: browser_pairable_def)
  show "row_at bc_id k (bdb_connectors (browser_task_step h x db t)) = Some c' \<Longrightarrow> bc_status c' = KActive"
    using x res at k in_c by (auto simp: row_at_sql_update)
qed

interpretation browser_queue: task_queue browser_db_wf "browser_task_step h" bdb_tasks tk_id task_can
  task_active "browser_completes h" tk_connector for h
proof unfold_locales
  fix k :: string and x db t assume "browser_db_wf db" "browser_completes h k x db t"
  from browser_completes_leased [OF this]
  show "\<exists>r. row_at tk_id k (bdb_tasks db) = Some r \<and> task_active r"
    and "row_at tk_id k (bdb_tasks (browser_task_step h x db t)) = Some r' \<Longrightarrow> \<not> task_active r'" for r'
    by blast+
next
  fix db and r r' :: browser_task
  assume "browser_db_wf db" "r \<in> set (bdb_tasks db)" "r' \<in> set (bdb_tasks db)" "task_active r"
    "task_active r'" "tk_connector r = tk_connector r'"
  then show "r = r'" unfolding browser_db_wf_def tasks_ok_def by blast
qed (fact task_can_refl task_can_trans browser_step_wf browser_step_task_row task_can_done)+

interpretation browser_pairing: one_shot browser_db_wf "browser_task_step h" bdb_connectors bc_id
  browser_connector_can "\<lambda>c. bc_status c = KPending" "browser_pairs h" for h
proof unfold_locales
  fix k :: string and x db t assume "browser_db_wf db" "browser_pairs h k x db t"
  from browser_pairs_pending [OF this]
  show "\<exists>c. row_at bc_id k (bdb_connectors db) = Some c \<and> bc_status c = KPending"
    and "row_at bc_id k (bdb_connectors (browser_task_step h x db t)) = Some c' \<Longrightarrow>
      bc_status c' \<noteq> KPending" for c'
    by auto
next
  fix db k c x t assume "browser_db_wf db" "row_at bc_id k (bdb_connectors db) = Some c"
  then show "\<exists>c'. row_at bc_id k (bdb_connectors (browser_task_step h x db t)) = Some c'
      \<and> browser_connector_can c c'"
    using browser_task_step_tables [of db h x t] by (auto simp: browser_tables_step_def keeps_rows_def)
qed (fact browser_can_refl browser_can_trans browser_step_wf browser_can_pending)+

section \<open>Properties\<close>

text \<open>over every sequence of operations on well-formed tables, a browser connector never has
  two active tasks, a task is completed at most once, and a connector is paired at most once.\<close>

theorem browser_task_queue_safe:
  assumes "browser_db_wf db"
  shows "(\<forall>r r'. r \<in> set (bdb_tasks (store_run (browser_task_step h) db es)) \<longrightarrow>
      r' \<in> set (bdb_tasks (store_run (browser_task_step h) db es)) \<longrightarrow>
      task_active r \<longrightarrow> task_active r' \<longrightarrow> tk_connector r = tk_connector r' \<longrightarrow> r = r')
    \<and> count_steps (browser_task_step h) (browser_completes h k) db es \<le> 1
    \<and> count_steps (browser_task_step h) (browser_pairs h k) db es \<le> 1"
  using browser_queue.single_active_run [OF assms] browser_queue.fires_at_most_once [OF assms]
    browser_pairing.fires_at_most_once [OF assms]
  by blast

text \<open>maintenance bounds what the queue retains: after it, no active task is past its expiry,
  and every finished task that completed before the retention period (ten minutes when less than
  one is asked for) has an empty request and an empty response; the tasks that are still active are left as they were.\<close>

theorem maintain_browser_retention:
  assumes "snd (maintain_browser_tasks retention now db) = db'" and "t \<in> set (bdb_tasks db')"
  shows "(task_active t \<longrightarrow> now < tk_expires t)
    \<and> (\<not> task_active t \<and> (\<exists>c. tk_completed_at t = Some c
          \<and> c \<le> now - (if retention < minute then 10 * minute else retention))
        \<longrightarrow> bt_request t = ''{}'' \<and> bt_response t = ''{}'')
    \<and> (task_active t \<longrightarrow> t \<in> set (bdb_tasks db))"
proof -
  have fin: "tk_status x \<in> {TCompleted, TFailed, TExpired, TCancelled} \<longleftrightarrow> \<not> task_active x" for x :: browser_task
    by (cases "tk_status x") (auto simp: task_active_def)
  show ?thesis
    using assms unfolding maintain_browser_tasks_def Let_def snd_conv fin
    by (auto simp: set_sql_update task_finish_def task_active_def split: option.splits)
qed

section \<open>The properties on concrete tables\<close>

definition browser_token_hash :: "string \<Rightarrow> string" where
  "browser_token_hash s = CHR ''#'' # s"

definition browser_example_connector :: browser_connector where
  "browser_example_connector = \<lparr>bc_id = ''b1'', bc_owner = ''u1'', bc_org = ''o1'',
     bc_display_name = ''chrome'', bc_status = KActive, bc_pairing_hash = [], bc_pairing_expires = None,
     bc_token_hash = ''#t'', bc_token_prefix = [], bc_opencli_version = [], bc_extension_version = [],
     bc_capabilities = [], bc_last_seen = None, bc_paired_at = None, bc_revoked_at = None,
     bc_created = 0, bc_updated = 0\<rparr>"

definition browser_example_task :: browser_task where
  "browser_example_task = \<lparr>tk_id = ''t0'', tk_connector = ''b1'', tk_owner = ''u1'', tk_org = ''o1'',
     tk_connection = None, tk_provider = ''openai'', tk_action = ''ask'', tk_status = TCompleted,
     tk_lease_hash = [], tk_lease_expires = None, tk_error_code = [], tk_error_message = [],
     tk_expires = minute, tk_claimed_at = Some 1, tk_completed_at = Some 2, tk_created = 0,
     tk_updated = 2, bt_request = ''{}'', bt_response = ''{secret}''\<rparr>"

definition browser_example_tables :: browser_db where
  "browser_example_tables = \<lparr>bdb_connectors = [browser_example_connector],
     bdb_tasks = [browser_example_task], bdb_connections = [],
     bdb_accounts = \<lparr>active_users = [''u1''], active_orgs = [''o1''], active_members = [(''o1'', ''u1'')]\<rparr>\<rparr>"

definition browser_example_events :: "(browser_task_op \<times> time) list" where
  "browser_example_events =
     [(WTask ''b1'' ''u1'' ''o1'' [] ''openai'' ''ask'' (Some ''{q}'') 0 ''1'', 1),
      (WClaim ''b1'' 0 ''tok'', 2),
      (WComplete ''b1'' ''aibt_1'' ''tok'' True (Some ''{a}'') [] [], 3),
      (WComplete ''b1'' ''aibt_1'' ''tok'' True (Some ''{b}'') [] [], 4)]"

lemma browser_task_queue_safe_witness:
  "count_steps (browser_task_step browser_token_hash) (browser_completes browser_token_hash ''aibt_1'')
     browser_example_tables browser_example_events = 1"
proof -
  have "browser_db_wf browser_example_tables"
    by (simp add: browser_db_wf_def browser_example_tables_def tasks_ok_def)
  from browser_task_queue_safe [OF this, of browser_token_hash browser_example_events "''aibt_1''"]
  have "count_steps (browser_task_step browser_token_hash) (browser_completes browser_token_hash ''aibt_1'')
     browser_example_tables browser_example_events \<le> 1" by blast
  moreover have "0 < count_steps (browser_task_step browser_token_hash)
     (browser_completes browser_token_hash ''aibt_1'') browser_example_tables browser_example_events"
    by code_simp
  ultimately show ?thesis by simp
qed

lemma maintain_browser_retention_witness:
  "list_all (\<lambda>t. bt_response t = ''{}'')
     (bdb_tasks (snd (maintain_browser_tasks 0 hour browser_example_tables)))"
  unfolding list_all_iff
proof
  fix t assume t: "t \<in> set (bdb_tasks (snd (maintain_browser_tasks 0 hour browser_example_tables)))"
  have "snd (maintain_browser_tasks 0 hour browser_example_tables)
    = browser_example_tables\<lparr>bdb_tasks := [browser_example_task\<lparr>bt_response := ''{}'', tk_updated := hour\<rparr>]\<rparr>"
    by code_simp
  with t have "\<not> task_active t" "tk_completed_at t = Some 2"
    by (auto simp: browser_example_task_def task_active_def)
  with maintain_browser_retention [OF refl t] show "bt_response t = ''{}''"
    by (simp add: time_simps)
qed

end

