(* ===== verification/Go_Json.thy ===== *)
theory Go_Json
  imports TH_Prelude Complex_Main
begin

text \<open>
  Values of type \<open>any\<close> as \<open>json.Unmarshal\<close> produces them, and the conversions package
  \<open>internal/gateway\<close> applies to them (\<open>upstream.go\<close>). A number is a \<open>float64\<close>, taken as an exact
  rational; a \<open>map[string]any\<close> is an association list whose first binding of a key counts.
  A body is represented by its value: \<open>json.Marshal\<close> of a value is the value, and
  \<open>json.Unmarshal\<close> of received bytes is a parameter \<open>dec :: string \<Rightarrow> json option\<close> where bytes
  matter. \<open>fmt.Sprint\<close> of a value that is not a string is a parameter \<open>spr\<close>.
\<close>

datatype json =
    JNull
  | JBool bool
  | JNum rat
  | JStr string
  | JArr "json list"
  | JObj "(string \<times> json) list"

type_synonym obj = "(string \<times> json) list"

section \<open>Maps\<close>

definition obj_get :: "string \<Rightarrow> obj \<Rightarrow> json option" where
  "obj_get k m = map_of m k"

text \<open>Indexing a map with a missing key yields \<open>nil\<close>.\<close>

definition obj_at :: "string \<Rightarrow> obj \<Rightarrow> json" where
  "obj_at k m = (case map_of m k of None \<Rightarrow> JNull | Some v \<Rightarrow> v)"

fun obj_set :: "string \<Rightarrow> json \<Rightarrow> obj \<Rightarrow> obj" where
  "obj_set k v [] = [(k, v)]"
| "obj_set k v ((k', v') # m) = (if k' = k then (k, v) # m else (k', v') # obj_set k v m)"

definition obj_del :: "string \<Rightarrow> obj \<Rightarrow> obj" where
  "obj_del k m = filter (\<lambda>(k', _). k' \<noteq> k) m"

lemma map_of_obj_set [simp]: "map_of (obj_set k v m) = (map_of m)(k \<mapsto> v)"
  by (induction m) (auto simp: fun_upd_twist)

lemma map_of_obj_del [simp]: "map_of (obj_del k m) k' = (if k' = k then None else map_of m k')"
  by (induction m) (auto simp: obj_del_def)

lemma obj_get_set [simp]: "obj_get k' (obj_set k v m) = (if k' = k then Some v else obj_get k' m)"
  by (simp add: obj_get_def)

lemma obj_at_set [simp]: "obj_at k' (obj_set k v m) = (if k' = k then v else obj_at k' m)"
  by (simp add: obj_at_def)

fun as_map :: "json \<Rightarrow> obj option" where
  "as_map (JObj m) = Some m"
| "as_map _ = None"

fun as_list :: "json \<Rightarrow> json list option" where
  "as_list (JArr xs) = Some xs"
| "as_list _ = None"

fun str_of :: "json \<Rightarrow> string option" where
  "str_of (JStr s) = Some s"
| "str_of _ = None"

fun is_null :: "json \<Rightarrow> bool" where
  "is_null JNull = True"
| "is_null _ = False"

lemma is_null_iff: "is_null v \<longleftrightarrow> v = JNull"
  by (cases v) simp_all

text \<open>The items of a list that are maps, in order: the loops skip the others.\<close>

definition maps_of :: "json list \<Rightarrow> obj list" where
  "maps_of xs = List.map_filter as_map xs"

section \<open>Conversions\<close>

text \<open>\<open>asString\<close> trims what it returns.\<close>

fun as_string :: "json \<Rightarrow> string" where
  "as_string (JStr s) = trim_space s"
| "as_string _ = []"

fun first_present :: "obj \<Rightarrow> string list \<Rightarrow> json" where
  "first_present m [] = JNull"
| "first_present m (k # ks) = (case map_of m k of Some v \<Rightarrow> v | None \<Rightarrow> first_present m ks)"

text \<open>\<open>int(v)\<close> of a float drops the fraction.\<close>

definition trunc_rat :: "rat \<Rightarrow> int" where
  "trunc_rat q = (if q < 0 then - \<lfloor>- q\<rfloor> else \<lfloor>q\<rfloor>)"

fun int_from_any :: "json \<Rightarrow> int" where
  "int_from_any (JNum q) = trunc_rat q"
| "int_from_any _ = 0"

definition number_or_default :: "json \<Rightarrow> int \<Rightarrow> int" where
  "number_or_default v fallback = (let n = int_from_any v in if n \<le> 0 then fallback else n)"

definition config_float :: "obj \<Rightarrow> string \<Rightarrow> rat \<Rightarrow> rat \<Rightarrow> rat option" where
  "config_float cfg key mn mx =
     (case map_of cfg key of
        Some (JNum n) \<Rightarrow> if n < mn \<or> n > mx then None else Some n
      | _ \<Rightarrow> None)"

definition config_int :: "obj \<Rightarrow> string \<Rightarrow> int \<Rightarrow> int \<Rightarrow> int option" where
  "config_int cfg key mn mx =
     (case map_of cfg key of
        Some (JNum v) \<Rightarrow>
          (if v \<noteq> of_int (trunc_rat v) then None
           else let n = trunc_rat v in if n < mn \<or> n > mx then None else Some n)
      | _ \<Rightarrow> None)"

definition config_string :: "obj \<Rightarrow> string \<Rightarrow> string option" where
  "config_string cfg key =
     (case map_of cfg key of
        Some (JStr s) \<Rightarrow> (let t = trim_space s in if t = [] then None else Some t)
      | _ \<Rightarrow> None)"

fun all_strings :: "json list \<Rightarrow> string list option" where
  "all_strings [] = Some []"
| "all_strings (JStr s # vs) =
     (case all_strings vs of None \<Rightarrow> None
      | Some out \<Rightarrow> Some (let t = trim_space s in if t = [] then out else t # out))"
| "all_strings (_ # vs) = None"

definition config_string_list :: "obj \<Rightarrow> string \<Rightarrow> string list option" where
  "config_string_list cfg key =
     (case map_of cfg key of
        Some (JStr s) \<Rightarrow> (let t = trim_space s in Some (if t = [] then [] else [t]))
      | Some (JArr vs) \<Rightarrow> all_strings vs
      | _ \<Rightarrow> None)"

lemma config_int_bounds: "config_int cfg key mn mx = Some n \<Longrightarrow> mn \<le> n \<and> n \<le> mx"
  by (auto simp: config_int_def Let_def split: option.splits json.splits if_splits)

lemma config_float_bounds: "config_float cfg key mn mx = Some q \<Longrightarrow> mn \<le> q \<and> q \<le> mx"
  by (auto simp: config_float_def split: option.splits json.splits if_splits)

text \<open>\<open>contentText\<close>: a string as it is, the texts of a list of parts, anything else printed.\<close>

definition content_text :: "(json \<Rightarrow> string) \<Rightarrow> json \<Rightarrow> string" where
  "content_text spr v = (case v of
      JNull \<Rightarrow> []
    | JStr s \<Rightarrow> s
    | JArr items \<Rightarrow>
        join [CHR 0x0A] (filter (\<lambda>t. t \<noteq> [])
          (map (\<lambda>p. trim_space (as_string (first_present p [''text'', ''content'']))) (maps_of items)))
    | _ \<Rightarrow> trim_space (spr v))"

section \<open>Usage\<close>

record usage =
  us_prompt :: int
  us_completion :: int
  us_total :: int
  us_estimated :: bool

definition no_usage :: usage where
  "no_usage = \<lparr>us_prompt = 0, us_completion = 0, us_total = 0, us_estimated = False\<rparr>"

definition usage_from_map :: "obj \<Rightarrow> usage" where
  "usage_from_map vs =
     (let prompt = int_from_any (first_present vs
            [''prompt_tokens'', ''input_tokens'', ''inputTokens'', ''promptTokenCount'']);
          completion = int_from_any (first_present vs
            [''completion_tokens'', ''output_tokens'', ''outputTokens'', ''candidatesTokenCount'']);
          total = int_from_any (first_present vs [''total_tokens'', ''totalTokens'', ''totalTokenCount''])
      in \<lparr>us_prompt = prompt, us_completion = completion,
          us_total = (if total = 0 \<and> (prompt > 0 \<or> completion > 0) then prompt + completion else total),
          us_estimated = False\<rparr>)"

text \<open>\<open>parseUsage\<close> of a body that is \<open>body\<close> after decoding, \<open>None\<close> when it is no JSON object.\<close>

definition parse_usage :: "obj option \<Rightarrow> usage" where
  "parse_usage body = (case body of
      None \<Rightarrow> no_usage
    | Some raw \<Rightarrow>
        (case as_map (obj_at ''usage'' raw) of
           Some m \<Rightarrow> usage_from_map m
         | None \<Rightarrow>
             (case as_map (obj_at ''usageMetadata'' raw) of
                Some m \<Rightarrow> usage_from_map m
              | None \<Rightarrow> no_usage)))"

text \<open>A usage without tokens is replaced by the estimate, marked as estimated.\<close>

definition usage_or_estimate :: "usage \<Rightarrow> usage \<Rightarrow> usage" where
  "usage_or_estimate u est = (if us_total u \<le> 0 then est\<lparr>us_estimated := True\<rparr> else u)"

end
