(* ===== verification/Probe_Status.thy ===== *)
theory Probe_Status
  imports Go_Json Store_Tables
begin

text \<open>
  Probe layers and the channel status they give: \<open>internal/prober/status.go\<close>, the pure parts of
  \<open>internal/prober/executor.go\<close> (steps, error kinds, layer summaries, probe modes and content
  checks) and the scores of \<open>internal/store/probe.go\<close>. What the network answers is an argument:
  of a Go error only the tests the code makes of it are kept.
\<close>

section \<open>Layers and decisions\<close>

record layer_summary =
  ls_status :: string
  ls_latency :: int
  ls_error :: string

record status_decision =
  sd_status :: string
  sd_error :: string

fun first_non_empty :: "string list \<Rightarrow> string" where
  "first_non_empty [] = []"
| "first_non_empty (v # vs) = (if v \<noteq> [] then v else first_non_empty vs)"

definition decide :: "string \<Rightarrow> string \<Rightarrow> status_decision" where
  "decide s e = \<lparr>sd_status = s, sd_error = e\<rparr>"

definition models_probe_error_type :: "layer_summary \<Rightarrow> string" where
  "models_probe_error_type l2 =
     (if ls_status l2 = ''auth_error'' \<or> ls_error l2 = ''auth_error'' then ''models_auth_error''
      else if ls_error l2 \<in> {''model_not_found'', ''model_unavailable''} then ls_error l2
      else if ls_error l2 = ''timeout'' then ''models_timeout''
      else if ls_error l2 = ''rate_limited'' then ''models_rate_limited''
      else if ls_error l2 \<in> {''l2_probe_skipped'', ''models_probe_skipped''} then ''models_probe_skipped''
      else ''models_unavailable'')"

text \<open>\<open>SynthesizeStatusWithL3\<close>: the block on the generation layer may return; then the other two.\<close>

definition l3_decision :: "layer_summary \<Rightarrow> layer_summary \<Rightarrow> layer_summary \<Rightarrow> status_decision option" where
  "l3_decision l1 l2 l3 =
     (if ls_status l3 = [] \<or> ls_status l3 = ''na'' then None
      else if ls_status l3 = ''auth_error'' \<or> ls_error l3 = ''auth_error''
      then Some (decide ''auth_error'' ''auth_error'')
      else if ls_status l3 = ''ok'' then
        Some (if ls_status l1 = ''down''
              then decide ''degraded'' (first_non_empty [ls_error l1, ''connectivity_down''])
              else if ls_status l2 \<notin> {[], ''na'', ''ok''}
              then decide ''degraded'' (models_probe_error_type l2)
              else decide ''healthy'' [])
      else if ls_status l3 = ''warn'' \<or> ls_error l3 = ''rate_limited'' \<or> ls_error l3 = ''slow_response''
      then Some (decide ''degraded'' (first_non_empty [ls_error l3, ''slow_response'']))
      else if ls_status l3 = ''down'' then
        Some (if ls_error l2 = ''model_not_found'' \<or> ls_error l2 = ''model_unavailable''
              then decide ''functional_down'' (ls_error l2)
              else decide ''functional_down'' (first_non_empty [ls_error l3, ''empty_content'']))
      else None)"

definition l12_decision :: "layer_summary \<Rightarrow> layer_summary \<Rightarrow> status_decision" where
  "l12_decision l1 l2 =
     (if ls_status l1 = ''down'' then
        (if ls_status l2 = ''ok''
         then decide ''degraded'' (first_non_empty [ls_error l1, ''connectivity_down''])
         else decide ''connectivity_down'' (first_non_empty [ls_error l1, ''connectivity_down'']))
      else if ls_status l1 = [] \<or> ls_status l1 = ''na'' \<or> ls_status l2 = [] \<or> ls_status l2 = ''na''
      then decide ''unknown'' ''unknown''
      else if ls_status l2 = ''auth_error'' \<or> ls_error l2 = ''auth_error''
      then decide ''auth_error'' ''auth_error''
      else if ls_status l2 = ''down''
      then decide ''connectivity_down'' (first_non_empty [ls_error l2, ''connectivity_down''])
      else if ls_status l1 = ''ok'' \<and> ls_status l2 = ''ok'' then decide ''healthy'' []
      else decide ''unknown'' (first_non_empty [ls_error l1, ls_error l2, ''unknown'']))"

definition synthesize_with_l3 :: "layer_summary \<Rightarrow> layer_summary \<Rightarrow> layer_summary \<Rightarrow> status_decision" where
  "synthesize_with_l3 l1 l2 l3 =
     (case l3_decision l1 l2 l3 of Some d \<Rightarrow> d | None \<Rightarrow> l12_decision l1 l2)"

definition na_layer :: layer_summary where
  "na_layer = \<lparr>ls_status = ''na'', ls_latency = 0, ls_error = []\<rparr>"

definition synthesize_status :: "layer_summary \<Rightarrow> layer_summary \<Rightarrow> status_decision" where
  "synthesize_status l1 l2 = synthesize_with_l3 l1 l2 na_layer"

section \<open>Steps\<close>

record step_result =
  sr_step :: string
  sr_status :: string
  sr_latency :: int
  sr_http :: int
  sr_error :: string
  sr_meta :: obj

definition blank_step :: "string \<Rightarrow> string \<Rightarrow> step_result" where
  "blank_step name st = \<lparr>sr_step = name, sr_status = st, sr_latency = 0, sr_http = 0, sr_error = [], sr_meta = []\<rparr>"

definition probe_step :: "string \<Rightarrow> bool \<Rightarrow> duration \<Rightarrow> string \<Rightarrow> int \<Rightarrow> obj \<Rightarrow> step_result" where
  "probe_step name ok d error_type code meta =
     \<lparr>sr_step = name, sr_status = (if ok then ''ok'' else ''down''), sr_latency = d div 1000000,
      sr_http = code, sr_error = (if ok then [] else error_type), sr_meta = meta\<rparr>"

definition mark_remaining :: "step_result list \<Rightarrow> string list \<Rightarrow> step_result list" where
  "mark_remaining results steps = results @ map (\<lambda>n. blank_step n ''na'') steps"

text \<open>The loop of \<open>Summarize\<close>: the running total, the first error, whether an \<open>ok\<close> was seen.\<close>

fun summarize_loop :: "int \<Rightarrow> string \<Rightarrow> bool \<Rightarrow> step_result list \<Rightarrow> layer_summary" where
  "summarize_loop ms first ok [] =
     \<lparr>ls_status = (if ok then ''ok'' else ''na''), ls_latency = ms, ls_error = first\<rparr>"
| "summarize_loop ms0 first0 ok (r # rs) =
     (let ms = ms0 + sr_latency r;
          first = (if first0 = [] \<and> sr_error r \<noteq> [] then sr_error r else first0)
      in if sr_status r = ''auth_error''
         then \<lparr>ls_status = ''auth_error'', ls_latency = ms, ls_error = ''auth_error''\<rparr>
         else if sr_status r = ''down''
         then \<lparr>ls_status = ''down'', ls_latency = ms, ls_error = sr_error r\<rparr>
         else if sr_status r = ''warn''
         then \<lparr>ls_status = ''warn'', ls_latency = ms, ls_error = sr_error r\<rparr>
         else summarize_loop ms first (ok \<or> sr_status r = ''ok'') rs)"

definition summarize :: "step_result list \<Rightarrow> layer_summary" where
  "summarize results = (if results = [] then na_layer else summarize_loop 0 [] False results)"

section \<open>Error kinds\<close>

datatype net_error = NetDNS | NetDeadline | NetOther

definition err_type :: "net_error option \<Rightarrow> string \<Rightarrow> string" where
  "err_type e fallback = (case e of
      None \<Rightarrow> []
    | Some NetDNS \<Rightarrow> ''dns_failed''
    | Some NetDeadline \<Rightarrow> ''timeout''
    | Some NetOther \<Rightarrow> fallback)"

definition http_error_type :: "net_error option \<Rightarrow> int \<Rightarrow> string" where
  "http_error_type e code =
     (case e of
        Some NetDeadline \<Rightarrow> ''timeout''
      | Some _ \<Rightarrow> ''http_failed''
      | None \<Rightarrow>
          if code = 401 \<or> code = 403 then ''auth_error''
          else if code = 429 then ''rate_limited''
          else if code \<ge> 500 then ''upstream_error''
          else if code \<ge> 400 then ''http_error''
          else [])"

text \<open>\<open>strings.ReplaceAll\<close> with a one-byte pattern.\<close>

definition replace_char :: "char \<Rightarrow> string \<Rightarrow> string \<Rightarrow> string" where
  "replace_char c new s = concat (map (\<lambda>x. if x = c then new else [x]) s)"

definition body_suggests_unavailable :: "string \<Rightarrow> bool" where
  "body_suggests_unavailable body =
     (body \<noteq> [] \<and>
      (let text = replace_char (CHR ''-'') '' '' (replace_char (CHR ''_'') '' '' (to_lower body));
           has = str_contains text
       in (has ''no available channel'' \<and> has ''model'')
          \<or> (has ''no available accounts'' \<and> has ''model'')
          \<or> (has ''model'' \<and> has ''does not exist'')
          \<or> (has ''model'' \<and> has ''not found'')
          \<or> (has [CHR 0xE6, CHR 0xA8, CHR 0xA1, CHR 0xE5, CHR 0x9E, CHR 0x8B] \<and> has [CHR 0xE6, CHR 0x97, CHR 0xA0, CHR 0xE5, CHR 0x8F, CHR 0xAF, CHR 0xE7, CHR 0x94, CHR 0xA8])
          \<or> (has [CHR 0xE6, CHR 0x97, CHR 0xA0, CHR 0xE5, CHR 0x8F, CHR 0xAF, CHR 0xE7, CHR 0x94, CHR 0xA8, CHR 0xE6, CHR 0xB8, CHR 0xA0, CHR 0xE9, CHR 0x81, CHR 0x93] \<and> has ''gpt'')))"

definition probe_upstream_error_type :: "net_error option \<Rightarrow> string \<Rightarrow> int \<Rightarrow> string \<Rightarrow> string" where
  "probe_upstream_error_type e upstream code body =
     (if e = None \<and> 200 \<le> code \<and> code < 300 then []
      else if code = 401 \<or> code = 403 \<or> upstream = ''upstream_auth_error'' then ''auth_error''
      else if code = 429 \<or> upstream = ''upstream_rate_limited'' then ''rate_limited''
      else if body_suggests_unavailable body then ''model_unavailable''
      else if upstream = ''upstream_timeout'' then ''timeout''
      else if upstream = ''upstream_unreachable'' then ''http_failed''
      else if upstream \<noteq> [] then upstream
      else http_error_type e code)"

section \<open>Targets and modes\<close>

record probe_target =
  pt_id :: string
  pt_owner_type :: string
  pt_owner_id :: string
  pt_name :: string
  pt_provider :: string
  pt_type :: string
  pt_endpoint :: string
  pt_status :: string
  pt_model :: string
  pt_config :: obj

definition probe_config_int :: "obj \<Rightarrow> string \<Rightarrow> int \<Rightarrow> int \<Rightarrow> int option" where
  "probe_config_int cfg key mn mx =
     (case (case map_of cfg key of
              Some (JNum v) \<Rightarrow> Some (trunc_rat v)
            | Some (JStr s) \<Rightarrow> atoi (trim_space s)
            | _ \<Rightarrow> None) of
        None \<Rightarrow> None
      | Some out \<Rightarrow> if out < mn \<or> out > mx then None else Some out)"

definition clamp_int :: "int \<Rightarrow> int \<Rightarrow> int \<Rightarrow> int" where
  "clamp_int v mn mx = (if v < mn then mn else if v > mx then mx else v)"

definition l3_warn_threshold :: "probe_target \<Rightarrow> int" where
  "l3_warn_threshold t =
     (case probe_config_int (pt_config t) ''l3WarnMs'' 500 600000 of
        Some v \<Rightarrow> v
      | None \<Rightarrow>
          (case probe_config_int (pt_config t) ''l3WarnThresholdMs'' 500 600000 of
             Some v \<Rightarrow> v
           | None \<Rightarrow>
               (let kind = to_lower (trim_space (pt_type t @ '' '' @ pt_provider t))
                in if str_contains kind ''anthropic'' \<or> str_contains kind ''claude''
                      \<or> str_contains kind ''gemini'' \<or> str_contains kind ''google''
                   then 6000 else 4000)))"

definition l3_max_tokens :: "probe_target \<Rightarrow> int" where
  "l3_max_tokens t =
     (case probe_config_int (pt_config t) ''l3ProbeMaxTokens'' (- 200000) 200000 of
        Some v \<Rightarrow> clamp_int v 1 8
      | None \<Rightarrow> if equal_fold (trim_space (pt_model t)) ''gpt-5.5'' then 8 else 2)"

definition l3_probe_mode :: "probe_target \<Rightarrow> string" where
  "l3_probe_mode t =
     (case config_string (pt_config t) ''l3ProbeMode'' of
        None \<Rightarrow> ''generate''
      | Some v \<Rightarrow> if to_lower v \<in> {''l2_only'', ''l2-only'', ''skip''} then ''l2_only'' else ''generate'')"

definition is_claude_code_profile :: "probe_target \<Rightarrow> bool" where
  "is_claude_code_profile t =
     (list_ex (\<lambda>v. let n = to_lower (replace_char (CHR ''_'') ''-'' (trim_space v))
                  in str_contains n ''claudecode'' \<or> str_contains n ''claude-code'')
        [pt_name t, pt_provider t, pt_endpoint t]
      \<or> (case config_string (pt_config t) ''clientProfile'' of
           None \<Rightarrow> False
         | Some p \<Rightarrow> to_lower (replace_char (CHR ''_'') ''-'' p) = ''claude-code''))"

definition l2_mode_of :: "string \<Rightarrow> string" where
  "l2_mode_of v = (if to_lower (replace_char (CHR ''-'') ''_'' v)
       \<in> {''skip'', ''disabled'', ''off'', ''l3_only'', ''l3only''} then ''skip'' else ''required'')"

definition l2_probe_mode :: "probe_target \<Rightarrow> string" where
  "l2_probe_mode t =
     (case config_string (pt_config t) ''l2ProbeMode'' of
        Some v \<Rightarrow> l2_mode_of v
      | None \<Rightarrow>
          (case config_string (pt_config t) ''modelsProbeMode'' of
             Some v \<Rightarrow> l2_mode_of v
           | None \<Rightarrow> if is_claude_code_profile t then ''skip'' else ''required''))"

section \<open>Contents\<close>

definition first_choice :: "obj option \<Rightarrow> obj option" where
  "first_choice body = (case body of
      None \<Rightarrow> None
    | Some b \<Rightarrow> (case obj_at ''choices'' b of JArr (c # _) \<Rightarrow> as_map c | _ \<Rightarrow> None))"

definition assistant_text :: "obj option \<Rightarrow> string option" where
  "assistant_text body = (case first_choice body of
      None \<Rightarrow> None
    | Some f \<Rightarrow>
        (case (case as_map (obj_at ''message'' f) of None \<Rightarrow> None | Some m \<Rightarrow> str_of (obj_at ''content'' m)) of
           Some s \<Rightarrow> Some s
         | None \<Rightarrow> str_of (obj_at ''text'' f)))"

definition assistant_reasoning :: "obj option \<Rightarrow> string" where
  "assistant_reasoning body = (case first_choice body of
      None \<Rightarrow> []
    | Some f \<Rightarrow>
        (case (case as_map (obj_at ''message'' f) of None \<Rightarrow> None
               | Some m \<Rightarrow> str_of (obj_at ''reasoning_content'' m)) of
           Some s \<Rightarrow> trim_space s
         | None \<Rightarrow> (case str_of (obj_at ''reasoning_content'' f) of Some s \<Rightarrow> trim_space s | None \<Rightarrow> [])))"

text \<open>\<open>l3ContentStatusWithPolicy\<close>: valid, or the reason it is not.\<close>

definition l3_content_check :: "obj option \<Rightarrow> string \<Rightarrow> string \<Rightarrow> bool \<times> string" where
  "l3_content_check body policy expected =
     (case assistant_text body of
        None \<Rightarrow> (False, if assistant_reasoning body \<noteq> [] then ''reasoning_only'' else ''empty_content'')
      | Some text \<Rightarrow>
          if trim_space text = []
          then (False, if assistant_reasoning body \<noteq> [] then ''reasoning_only'' else ''empty_content'')
          else if equal_fold (trim_space policy) ''non_empty'' then (True, [])
          else if trim_space text \<noteq> expected then (False, ''content_mismatch'')
          else (True, []))"

definition l3_content_for_target :: "obj option \<Rightarrow> probe_target \<Rightarrow> bool \<times> string" where
  "l3_content_for_target body t =
     (let policy = (case config_string (pt_config t) ''l3ContentPolicy'' of Some p \<Rightarrow> p | None \<Rightarrow> []);
          expected = (case config_string (pt_config t) ''l3ExpectedContent'' of Some e \<Rightarrow> e | None \<Rightarrow> ''K'')
      in l3_content_check body policy expected)"

text \<open>\<open>modelListMetadata\<close>: how many models a list names and whether the target's is among them.\<close>

definition model_names :: "json \<Rightarrow> string list" where
  "model_names row = (case row of
      JStr s \<Rightarrow> [s]
    | JObj m \<Rightarrow> filter (\<lambda>s. trim_space s \<noteq> [])
        (List.map_filter str_of [obj_at ''id'' m, obj_at ''name'' m])
    | _ \<Rightarrow> [])"

definition data_names :: "json \<Rightarrow> string list" where
  "data_names row = (case row of
      JObj m \<Rightarrow> filter (\<lambda>s. trim_space s \<noteq> []) (List.map_filter str_of [obj_at ''id'' m])
    | _ \<Rightarrow> [])"

definition listed_models :: "obj \<Rightarrow> string list" where
  "listed_models b =
     (case obj_at ''data'' b of JArr rows \<Rightarrow> concat (map data_names rows) | _ \<Rightarrow> [])
     @ (case obj_at ''models'' b of JArr rows \<Rightarrow> concat (map model_names rows) | _ \<Rightarrow> [])"

definition model_list_metadata :: "obj option \<Rightarrow> string \<Rightarrow> nat \<times> bool" where
  "model_list_metadata body model0 =
     (let model = trim_space model0
      in case body of
           None \<Rightarrow> (0, model = [])
         | Some b \<Rightarrow> (let seen = remdups (listed_models b)
                      in (length seen, model = [] \<or> model \<in> set seen)))"

section \<open>The model list and generation layers\<close>

text \<open>What the upstream client returned: its error, error type, status, body text and decoded body.\<close>

record upstream_answer =
  ua_err :: "net_error option"
  ua_error_type :: string
  ua_code :: int
  ua_text :: string
  ua_json :: "obj option"

definition l2_skipped :: "step_result list" where
  "l2_skipped = [(blank_step ''models'' ''na'')\<lparr>sr_error := ''models_probe_skipped'',
     sr_meta := [(''probe_mode'', JStr ''l2_skip''), (''reason'', JStr ''provider_profile_skips_models_probe'')]\<rparr>]"

definition probe_l2 :: "(obj option \<Rightarrow> string) \<Rightarrow> probe_target \<Rightarrow> upstream_answer \<Rightarrow> duration \<Rightarrow> step_result list" where
  "probe_l2 error_summary t a d =
     (if l2_probe_mode t = ''skip'' then l2_skipped
      else
        (let code = ua_code a;
             status = (ua_err a = None \<and> 200 \<le> code \<and> code < 300);
             (count, found) = model_list_metadata (ua_json a) (pt_model t);
             meta0 = [(''models_count'', JNum (of_nat count)), (''model_found'', JBool found)];
             summary = error_summary (ua_json a);
             meta = (if \<not> status \<and> summary \<noteq> [] then obj_set ''upstream_error_summary'' (JStr summary) meta0 else meta0);
             s0 = probe_step ''models'' status d
                    (probe_upstream_error_type (ua_err a) (ua_error_type a) code (ua_text a)) code meta;
             s1 = (if code = 401 \<or> code = 403 then s0\<lparr>sr_status := ''auth_error'', sr_error := ''auth_error''\<rparr> else s0);
             s2 = (if status \<and> \<not> found then s1\<lparr>sr_status := ''down'', sr_error := ''model_not_found''\<rparr> else s1)
         in [s2]))"

definition l3_skipped :: "step_result list" where
  "l3_skipped = [(blank_step ''generate'' ''na'')\<lparr>sr_error := ''l3_probe_skipped'',
     sr_meta := [(''probe_mode'', JStr ''l2_only''), (''reason'', JStr ''provider_requires_official_claude_code_cli'')]\<rparr>]"

text \<open>The step's metadata \<open>meta\<close> is for display only and is an argument.\<close>

definition probe_l3 :: "probe_target \<Rightarrow> upstream_answer \<Rightarrow> int \<Rightarrow> obj \<Rightarrow> step_result list" where
  "probe_l3 t a latency meta =
     (if l3_probe_mode t = ''l2_only'' then l3_skipped
      else
        (let code = ua_code a;
             (valid, content_error) = l3_content_for_target (ua_json a) t;
             ok = (ua_err a = None \<and> 200 \<le> code \<and> code < 300 \<and> valid);
             s0 = probe_step ''generate'' ok (latency * 1000000)
                    (probe_upstream_error_type (ua_err a) (ua_error_type a) code (ua_text a)) code meta;
             s1 = (if code = 401 \<or> code = 403 then s0\<lparr>sr_status := ''auth_error'', sr_error := ''auth_error''\<rparr> else s0);
             s2 = (if code = 429 then s1\<lparr>sr_status := ''warn'', sr_error := ''rate_limited''\<rparr> else s1);
             s3 = (if 200 \<le> code \<and> code < 300 \<and> \<not> ok then s2\<lparr>sr_status := ''down'', sr_error := content_error\<rparr> else s2);
             s4 = (if latency > l3_warn_threshold t \<and> sr_status s3 = ''ok''
                   then s3\<lparr>sr_status := ''warn'', sr_error := ''slow_response''\<rparr> else s3)
         in [s4]))"

text \<open>\<open>L1\<close> after the endpoint was parsed; \<open>https\<close> says its scheme. Each stage's outcome is an
  argument: its error and duration, and for the last one the status code (0 without an answer).\<close>

record l1_network =
  n_dns_err :: "net_error option"
  n_dns_ips :: nat
  n_dns_time :: duration
  n_tcp_err :: "net_error option"
  n_tcp_time :: duration
  n_tls_err :: "net_error option"
  n_tls_time :: duration
  n_tls_meta :: obj
  n_request_ok :: bool
  n_http_err :: "net_error option"
  n_http_code :: int
  n_http_time :: duration

definition l1_http :: "l1_network \<Rightarrow> step_result list \<Rightarrow> step_result list" where
  "l1_http n results =
     (if \<not> n_request_ok n then results @ [probe_step ''http'' False 0 ''bad_request'' 0 []]
      else results @ [probe_step ''http'' (n_http_err n = None \<and> n_http_code n < 500) (n_http_time n)
                        (http_error_type (n_http_err n) (n_http_code n)) (n_http_code n) []])"

definition probe_l1 :: "bool option \<Rightarrow> l1_network \<Rightarrow> step_result list" where
  "probe_l1 parsed n = (case parsed of
      None \<Rightarrow> [(blank_step ''parse_url'' ''down'')\<lparr>sr_error := ''bad_endpoint''\<rparr>]
    | Some https \<Rightarrow>
        (let r1 = [probe_step ''dns'' (n_dns_err n = None \<and> n_dns_ips n > 0) (n_dns_time n)
                     (err_type (n_dns_err n) ''dns_failed'') 0 []]
         in if n_dns_err n \<noteq> None then mark_remaining r1 [''tcp'', ''tls'', ''http'']
            else
              (let r2 = r1 @ [probe_step ''tcp'' (n_tcp_err n = None) (n_tcp_time n)
                                (err_type (n_tcp_err n) ''tcp_failed'') 0 []]
               in if n_tcp_err n \<noteq> None then mark_remaining r2 [''tls'', ''http'']
                  else if https then
                    (let r3 = r2 @ [probe_step ''tls'' (n_tls_err n = None) (n_tls_time n)
                                      (err_type (n_tls_err n) ''tls_failed'') 0 (n_tls_meta n)]
                     in if n_tls_err n \<noteq> None then mark_remaining r3 [''http''] else l1_http n r3)
                  else l1_http n (r2 @ [blank_step ''tls'' ''na'']))))"

section \<open>Scores\<close>

definition score_for_status :: "string \<Rightarrow> rat \<Rightarrow> int" where
  "score_for_status status success =
     (if status = ''healthy'' then (if success > 0 then min 99 (max 80 (trunc_rat success)) else 92)
      else if status = ''auth_error'' then 70
      else if status = ''degraded'' then 72
      else if status = ''functional_down'' then 42
      else if status = ''connectivity_down'' then 35
      else 50)"

definition success_rate_for_decision :: "string \<Rightarrow> rat \<Rightarrow> rat" where
  "success_rate_for_decision status fallback =
     (if status = ''healthy'' then 100
      else if status \<in> {''degraded'', ''auth_error''} then 75
      else if status \<in> {''functional_down'', ''connectivity_down''} then 0
      else fallback)"

definition uptime_for_status :: "string \<Rightarrow> rat" where
  "uptime_for_status status =
     (if status = ''healthy'' then 199 / 2
      else if status = ''auth_error'' then 98
      else if status = ''degraded'' then 96
      else if status = ''functional_down'' then 88
      else if status = ''connectivity_down'' then 55
      else 0)"

end
