(* ===== verification/Stable_Sort.thy ===== *)
theory Stable_Sort
  imports "HOL-Library.Multiset"
begin

text \<open>
  \<open>sort.SliceStable\<close> and \<open>ORDER BY\<close> as an insertion sort by a strict comparison, with the
  contract the comparisons of the code meet: a strict weak order. Under it the result is a
  permutation, no later element comes strictly before an earlier one, and ties keep their order.
\<close>

fun insert_stable :: "('a \<Rightarrow> 'a \<Rightarrow> bool) \<Rightarrow> 'a \<Rightarrow> 'a list \<Rightarrow> 'a list" where
  "insert_stable lt x [] = [x]"
| "insert_stable lt x (y # ys) = (if lt y x then y # insert_stable lt x ys else x # y # ys)"

fun sort_stable :: "('a \<Rightarrow> 'a \<Rightarrow> bool) \<Rightarrow> 'a list \<Rightarrow> 'a list" where
  "sort_stable lt [] = []"
| "sort_stable lt (x # xs) = insert_stable lt x (sort_stable lt xs)"

definition tied :: "('a \<Rightarrow> 'a \<Rightarrow> bool) \<Rightarrow> 'a \<Rightarrow> 'a \<Rightarrow> bool" where
  "tied lt a b = (\<not> lt a b \<and> \<not> lt b a)"

lemma mset_insert_stable [simp]: "mset (insert_stable lt x ys) = add_mset x (mset ys)"
  by (induction ys) auto

lemma mset_sort_stable [simp]: "mset (sort_stable lt xs) = mset xs"
  by (induction xs) auto

lemma set_sort_stable [simp]: "set (sort_stable lt xs) = set xs"
  by (metis mset_sort_stable set_mset_mset)

lemma length_sort_stable [simp]: "length (sort_stable lt xs) = length xs"
  by (metis mset_sort_stable size_mset)

lemma set_insert_stable [simp]: "set (insert_stable lt x ys) = insert x (set ys)"
  by (metis mset_insert_stable set_mset_add_mset_insert set_mset_mset)

locale weak_order =
  fixes lt :: "'a \<Rightarrow> 'a \<Rightarrow> bool"
  assumes asym: "lt a b \<Longrightarrow> \<not> lt b a"
    and neg_trans: "\<not> lt a b \<Longrightarrow> \<not> lt b c \<Longrightarrow> \<not> lt a c"
begin

lemma sorted_insert:
  assumes "sorted_wrt (\<lambda>a b. \<not> lt b a) ys"
  shows "sorted_wrt (\<lambda>a b. \<not> lt b a) (insert_stable lt x ys)"
  using assms
proof (induction ys)
  case (Cons y ys)
  show ?case
  proof (cases "lt y x")
    case True
    with Cons asym [OF True] show ?thesis by simp
  next
    case False
    with Cons.prems neg_trans show ?thesis by auto
  qed
qed simp

theorem sorted_sort: "sorted_wrt (\<lambda>a b. \<not> lt b a) (sort_stable lt xs)"
  by (induction xs) (simp_all add: sorted_insert)

lemma filter_insert:
  "filter (tied lt z) (insert_stable lt x ys)
    = (if tied lt z x then x # filter (tied lt z) ys else filter (tied lt z) ys)"
proof (induction ys)
  case (Cons y ys)
  have "\<not> (lt y x \<and> tied lt z x \<and> tied lt z y)"
    using neg_trans [of y z x] by (auto simp: tied_def)
  with Cons show ?case by auto
qed simp

theorem stable_sort: "filter (tied lt z) (sort_stable lt xs) = filter (tied lt z) xs"
  by (induction xs) (simp_all add: filter_insert)

lemma hd_best: "xs \<noteq> [] \<Longrightarrow> y \<in> set xs \<Longrightarrow> \<not> lt y (hd (sort_stable lt xs))"
proof -
  assume "xs \<noteq> []" "y \<in> set xs"
  moreover obtain z zs where z: "sort_stable lt xs = z # zs"
    using \<open>xs \<noteq> []\<close> by (cases "sort_stable lt xs") (auto dest: arg_cong [of _ _ length])
  ultimately have "y = z \<or> y \<in> set zs" by (metis set_ConsD set_sort_stable)
  with sorted_sort [of xs] z asym show ?thesis by auto
qed

end

text \<open>Lexicographic combination of a key into a linear order and a further weak order.\<close>

lemma weak_order_key: "weak_order (\<lambda>a b. (k a :: 'k :: linorder) < k b)"
  by unfold_locales auto

lemma weak_order_lex:
  assumes "weak_order lt"
  shows "weak_order (\<lambda>a b. (k a :: 'k :: linorder) < k b \<or> (k a = k b \<and> lt a b))"
proof (rule weak_order.intro)
  note o = weak_order.asym [OF assms] weak_order.neg_trans [OF assms]
  show "\<not> (k b < k a \<or> (k b = k a \<and> lt b a))" if "k a < k b \<or> (k a = k b \<and> lt a b)" for a b
    using that o(1) by auto
  show "\<not> (k a < k c \<or> (k a = k c \<and> lt a c))"
    if "\<not> (k a < k b \<or> (k a = k b \<and> lt a b))" "\<not> (k b < k c \<or> (k b = k c \<and> lt b c))" for a b c
  proof (cases "k c < k a")
    case False
    from that have "k b \<le> k a" "k c \<le> k b" by auto
    with False have "k a = k b" "k b = k c" by auto
    with that o(2) [of a b c] show ?thesis by auto
  qed auto
qed

end
