(* ===== verification/Go_Utf8.thy ===== *)
theory Go_Utf8
  imports TH_Prelude
begin

text \<open>
  Package \<open>unicode/utf8\<close> over strings that are lists of bytes: \<open>utf8.ValidString\<close>, the encoding
  of a rune, and the facts the code's slices rest on: a valid string can be cut before any byte
  that starts a rune, and a cut anywhere is at most three bytes away from such a place.
\<close>

section \<open>Valid strings\<close>

definition byte_of :: "char \<Rightarrow> nat" where
  "byte_of c = of_char c"

text \<open>
  The number of bytes a lead byte announces, 0 for a byte that is no lead byte, and the second
  bytes it excludes: overlong forms, surrogates and code points past \<open>U+10FFFF\<close>.
\<close>

definition lead_width :: "char \<Rightarrow> nat" where
  "lead_width a = (let n = byte_of a in
     if n < 0x80 then 1 else if 0xC2 \<le> n \<and> n \<le> 0xDF then 2
     else if 0xE0 \<le> n \<and> n \<le> 0xEF then 3 else if 0xF0 \<le> n \<and> n \<le> 0xF4 then 4 else 0)"

definition second_ok :: "nat \<Rightarrow> char \<Rightarrow> bool" where
  "second_ok n b =
     ((n = 0xE0 \<longrightarrow> 0xA0 \<le> byte_of b) \<and> (n = 0xED \<longrightarrow> byte_of b \<le> 0x9F)
      \<and> (n = 0xF0 \<longrightarrow> 0x90 \<le> byte_of b) \<and> (n = 0xF4 \<longrightarrow> byte_of b \<le> 0x8F))"

text \<open>The width of the rune a string starts with, 0 when it starts with none.\<close>

fun rune_width :: "string \<Rightarrow> nat" where
  "rune_width [] = 0"
| "rune_width (a # s) =
     (let k = lead_width a in
      if k \<le> Suc (length s) \<and> list_all is_cont (take (k - 1) s)
         \<and> (2 \<le> k \<longrightarrow> second_ok (byte_of a) (hd s)) then k else 0)"

function valid_utf8 :: "string \<Rightarrow> bool" where
  "valid_utf8 s =
     (if s = [] then True else if rune_width s = 0 then False else valid_utf8 (drop (rune_width s) s))"
  by pat_completeness auto
termination
  by (relation "measure length") auto

declare valid_utf8.simps [simp del]

text \<open>\<open>string([]rune\<close>\<open>{r})\<close> of a code point outside the surrogates, and of several.\<close>

definition utf8_encode :: "int \<Rightarrow> string" where
  "utf8_encode r =
     (if r < 0x80 then [char_of r]
      else if r < 0x800 then [char_of (0xC0 + r div 64), char_of (0x80 + r mod 64)]
      else if r < 0x10000 then
        [char_of (0xE0 + r div 4096), char_of (0x80 + r div 64 mod 64), char_of (0x80 + r mod 64)]
      else [char_of (0xF0 + r div 262144), char_of (0x80 + r div 4096 mod 64),
            char_of (0x80 + r div 64 mod 64), char_of (0x80 + r mod 64)])"

definition runes :: "int list \<Rightarrow> string" where
  "runes rs = concat (map utf8_encode rs)"

section \<open>Runes and where they start\<close>

lemma valid_utf8_Nil [simp]: "valid_utf8 []"
  by (simp add: valid_utf8.simps)

lemma lead_width_le: "lead_width a \<le> 4"
  by (simp add: lead_width_def Let_def)

lemma rune_width_le: "rune_width s \<le> 4"
  by (cases s) (use lead_width_le in \<open>auto simp: Let_def\<close>)

lemma rune_width_length: "rune_width s \<le> length s"
  by (cases s) (auto simp: Let_def)

lemma ascii_not_cont: "byte_of a < 0x80 \<Longrightarrow> \<not> is_cont a"
  by (simp add: byte_of_def is_cont_def)

text \<open>The first byte of a rune is no continuation byte, every other byte is one.\<close>

lemma rune_first: "rune_width (a # s) \<noteq> 0 \<Longrightarrow> \<not> is_cont a"
  by (auto simp: Let_def lead_width_def is_cont_def byte_of_def split: if_splits)

lemma rune_rest:
  assumes "0 < i" and "i < rune_width s"
  shows "is_cont (s ! i)"
proof (cases s)
  case (Cons a t)
  with assms have k: "lead_width a \<le> Suc (length t)" "list_all is_cont (take (lead_width a - 1) t)"
    "i < lead_width a" by (auto simp: Let_def split: if_splits)
  then have "take (lead_width a - 1) t ! (i - 1) = t ! (i - 1)" "i - 1 < length (take (lead_width a - 1) t)"
    using assms(1) by auto
  with k(2) have "is_cont (t ! (i - 1))" by (metis list_all_length)
  with Cons assms(1) show ?thesis by (simp add: nth_Cons')
qed (use assms in simp)

text \<open>Its width depends on its own bytes only.\<close>

lemma rune_width_take:
  assumes "rune_width s \<noteq> 0" and "rune_width s \<le> n"
  shows "rune_width (take n s) = rune_width s"
proof (cases s)
  case (Cons a t)
  with assms have k: "lead_width a \<le> Suc (length t)" "list_all is_cont (take (lead_width a - 1) t)"
    "2 \<le> lead_width a \<longrightarrow> second_ok (byte_of a) (hd t)" "lead_width a \<le> n" "lead_width a \<noteq> 0"
    by (auto simp: Let_def split: if_splits)
  obtain m where n: "n = Suc m" using k(4,5) by (cases n) auto
  have "take (lead_width a - 1) (take m t) = take (lead_width a - 1) t" using k(4) n by simp
  moreover have "2 \<le> lead_width a \<longrightarrow> hd (take m t) = hd t" using k(1,4) n by (cases m) auto
  ultimately show ?thesis using k n Cons by (simp add: Let_def)
qed (use assms in simp)

lemma rune_width_append:
  assumes "rune_width s \<noteq> 0"
  shows "rune_width (s @ t) = rune_width s"
proof (cases s)
  case (Cons a u)
  with assms have k: "lead_width a \<le> Suc (length u)" "list_all is_cont (take (lead_width a - 1) u)"
    "2 \<le> lead_width a \<longrightarrow> second_ok (byte_of a) (hd u)" by (auto simp: Let_def split: if_splits)
  moreover have "2 \<le> lead_width a \<longrightarrow> hd (u @ t) = hd u" using k(1) by (cases u) auto
  ultimately show ?thesis using Cons by (simp add: Let_def)
qed (use assms in simp)

lemma valid_utf8_step: "s \<noteq> [] \<Longrightarrow> valid_utf8 s \<longleftrightarrow> rune_width s \<noteq> 0 \<and> valid_utf8 (drop (rune_width s) s)"
  using valid_utf8.simps [of s] by simp

lemma valid_utf8_append: "valid_utf8 s \<Longrightarrow> valid_utf8 (s @ t) \<longleftrightarrow> valid_utf8 t"
proof (induction s rule: valid_utf8.induct)
  case (1 s)
  show ?case
  proof (cases "s = []")
    case False
    with "1.prems" have w: "rune_width s \<noteq> 0" and v: "valid_utf8 (drop (rune_width s) s)"
      by (simp_all add: valid_utf8_step)
    have "drop (rune_width s) (s @ t) = drop (rune_width s) s @ t"
      using rune_width_length [of s] by simp
    with False w show ?thesis
      using "1.IH" w v by (simp add: valid_utf8_step rune_width_append)
  qed simp
qed

text \<open>A valid string is cut into two valid ones before any byte that is no continuation byte.\<close>

lemma valid_utf8_cut: "valid_utf8 (s @ c # t) \<Longrightarrow> \<not> is_cont c \<Longrightarrow> valid_utf8 s \<and> valid_utf8 (c # t)"
proof (induction s rule: length_induct)
  case (1 s)
  let ?u = "s @ c # t" and ?w = "rune_width (s @ c # t)"
  show ?case
  proof (cases "s = []")
    case False
    from "1.prems" have w: "?w \<noteq> 0" and v: "valid_utf8 (drop ?w ?u)"
      by (simp_all add: valid_utf8_step)
    have inside: "?w \<le> length s"
    proof (rule ccontr)
      assume "\<not> ?w \<le> length s"
      then have "is_cont (?u ! length s)" using False by (intro rune_rest) auto
      with "1.prems" show False by simp
    qed
    then have "valid_utf8 (drop ?w s @ c # t)" using v by simp
    moreover have "length (drop ?w s) < length s" using w False by simp
    ultimately have cut: "valid_utf8 (drop ?w s) \<and> valid_utf8 (c # t)"
      using "1.IH" "1.prems"(2) by blast
    have "rune_width s = ?w"
      using rune_width_take [OF w inside] rune_width_take [OF w, of "length s"] inside by simp
    with False w cut show ?thesis by (simp add: valid_utf8_step)
  qed (use "1.prems" in simp)
qed

text \<open>Of the four places up to a place in a valid string, one cuts it into valid parts.\<close>

lemma valid_utf8_take:
  "valid_utf8 s \<Longrightarrow> n \<le> length s \<Longrightarrow> \<exists>k\<le>3. k \<le> n \<and> valid_utf8 (take (n - k) s)"
proof (induction s arbitrary: n rule: valid_utf8.induct)
  case (1 s)
  let ?w = "rune_width s"
  show ?case
  proof (cases "s = [] \<or> n < ?w")
    case True
    then have "n \<le> 3" using rune_width_le [of s] "1.prems" by auto
    then show ?thesis by (intro exI [of _ n]) simp
  next
    case False
    with "1.prems" have w: "?w \<noteq> 0" and v: "valid_utf8 (drop ?w s)" by (simp_all add: valid_utf8_step)
    have "n - ?w \<le> length (drop ?w s)" using "1.prems"(2) by simp
    with "1.IH" [of "n - ?w"] v w False obtain k where k: "k \<le> 3" "k \<le> n - ?w"
      and vk: "valid_utf8 (take (n - ?w - k) (drop ?w s))" by blast
    have split: "take (n - k) s = take ?w s @ take (n - ?w - k) (drop ?w s)"
    proof -
      have "?w + (n - ?w - k) = n - k" using k False by arith
      then show ?thesis using take_add [of ?w "n - ?w - k" s] by simp
    qed
    have "rune_width (take ?w s) = ?w" using rune_width_take [OF w] by simp
    moreover have "take ?w s \<noteq> []" using w False by simp
    ultimately have "valid_utf8 (take ?w s)" using w by (subst valid_utf8_step) simp_all
    with vk have "valid_utf8 (take (n - k) s)" by (simp add: split valid_utf8_append)
    with k show ?thesis by (intro exI [of _ k]) simp
  qed
qed

section \<open>Trimming keeps a string valid\<close>

lemma unicode_spaces_checked: "list_all (\<lambda>p. valid_utf8 p \<and> p \<noteq> [] \<and> \<not> is_cont (hd p)) unicode_spaces"
  by code_simp

lemma unicode_spaces_valid: "p \<in> set unicode_spaces \<Longrightarrow> valid_utf8 p \<and> p \<noteq> [] \<and> \<not> is_cont (hd p)"
  using unicode_spaces_checked by (simp add: list_all_iff)

lemma strip_any_SomeD: "strip_any ps s = Some r \<Longrightarrow> \<exists>p\<in>set ps. s = p @ r"
  by (induction ps) (auto simp: strip_prefix_Some split: option.splits if_splits)

lemma valid_trim_left: "valid_utf8 s \<Longrightarrow> valid_utf8 (trim_left s)"
proof -
  have "\<forall>p\<in>set ps. valid_utf8 p \<Longrightarrow> valid_utf8 s \<Longrightarrow> valid_utf8 (trim_left_by ps s)" for ps s
  proof (induction ps s rule: trim_left_by.induct)
    case (1 ps s)
    show ?case
    proof (cases "strip_any ps s")
      case None
      with "1.prems" show ?thesis by (simp add: trim_left_by_same)
    next
      case (Some r)
      then obtain p where "p \<in> set ps" "s = p @ r" using strip_any_SomeD by blast
      with "1.prems" have "valid_utf8 r" by (simp add: valid_utf8_append)
      with Some "1.IH" [OF Some] "1.prems" show ?thesis by (subst trim_left_by.simps) simp
    qed
  qed
  then show "valid_utf8 s \<Longrightarrow> valid_utf8 (trim_left s)"
    using unicode_spaces_valid by (simp add: trim_left_def)
qed

lemma valid_trim_right: "valid_utf8 s \<Longrightarrow> valid_utf8 (trim_right s)"
proof -
  have "\<forall>p\<in>set ps. rev p \<noteq> [] \<and> \<not> is_cont (hd (rev p)) \<Longrightarrow> valid_utf8 (rev s)
      \<Longrightarrow> valid_utf8 (rev (trim_left_by ps s))" for ps s
  proof (induction ps s rule: trim_left_by.induct)
    case (1 ps s)
    show ?case
    proof (cases "strip_any ps s")
      case None
      with "1.prems" show ?thesis by (simp add: trim_left_by_same)
    next
      case (Some r)
      then obtain p where p: "p \<in> set ps" "s = p @ r" using strip_any_SomeD by blast
      with "1.prems"(1) obtain c q where "rev p = c # q" "\<not> is_cont c" by (cases "rev p") auto
      with p "1.prems"(2) have "valid_utf8 (rev r)" using valid_utf8_cut [of "rev r" c q] by simp
      with Some "1.IH" [OF Some] "1.prems"(1) show ?thesis by (subst trim_left_by.simps) simp
    qed
  qed
  then show "valid_utf8 s \<Longrightarrow> valid_utf8 (trim_right s)"
    using unicode_spaces_valid by (simp add: trim_right_def)
qed

lemma valid_trim_space: "valid_utf8 s \<Longrightarrow> valid_utf8 (trim_space s)"
  by (simp add: trim_space_def valid_trim_left valid_trim_right)

end
