(* ===== verification/Probe_Store.thy ===== *)
theory Probe_Store
  imports Probe_Status Row_Lifecycle Stable_Sort Go_Utf8
begin

text \<open>
  Probe runs, their results and the status they give a channel, \<open>internal/store/probe.go\<close>, and
  the incidents of a channel, \<open>internal/store/phase7.go\<close>: the tables \<open>probe_runs\<close>,
  \<open>probe_results\<close>, \<open>channels\<close> (the columns used here), \<open>channel_status_snapshots\<close>,
  \<open>incidents\<close>, \<open>incident_events\<close> and the audit log. The unique index of migration 0005, one
  unresolved incident per channel, is checked at every write of \<open>incidents\<close>. New ids are
  arguments; the metadata of events and audits is not kept.
\<close>

section \<open>Tables\<close>

record probe_channel =
  pc_id :: string
  pc_name :: string
  pc_owner_type :: string
  pc_owner_id :: "string option"
  pc_org :: "string option"
  pc_status :: string
  pc_score :: int
  pc_deleted_at :: "time option"
  pc_updated :: time

record snapshot =
  sn_channel :: string
  sn_sampled :: time
  sn_status :: string
  sn_score :: int
  sn_uptime :: rat
  sn_success :: rat
  sn_latency :: int
  sn_l1_status :: string
  sn_l2_status :: string
  sn_l3_status :: string
  sn_l1_latency :: int
  sn_l2_latency :: int
  sn_l3_latency :: int
  sn_tokens :: int
  sn_cost :: rat
  sn_error :: "string option"

record incident =
  in_id :: string
  in_channel :: string
  in_status :: string
  in_title :: string
  in_opened :: time
  in_resolved :: "time option"
  in_deleted :: "time option"

record incident_event =
  ie_incident :: string
  ie_org :: string
  ie_type :: string
  ie_message :: string

record probe_run =
  pn_id :: string
  pn_channel :: string
  pn_layer :: string
  pn_source :: string
  pn_status :: string
  pn_started :: time
  pn_finished :: "time option"
  pn_error :: "string option"
  pn_meta :: obj

record probe_result =
  pr_run :: string
  pr_channel :: string
  pr_layer :: string
  pr_step :: string
  pr_status :: string
  pr_latency :: int
  pr_http :: "int option"
  pr_error :: "string option"
  pr_meta :: obj
  pr_created :: time

record probe_db =
  pdb_channels :: "probe_channel list"
  pdb_runs :: "probe_run list"
  pdb_results :: "probe_result list"
  pdb_snapshots :: "snapshot list"
  pdb_incidents :: "incident list"
  pdb_events :: "incident_event list"
  pdb_audits :: "(string \<times> string) list"

section \<open>Runs and results\<close>

definition upsert_probe_run ::
  "string \<Rightarrow> string \<Rightarrow> string \<Rightarrow> string \<Rightarrow> obj \<Rightarrow> time \<Rightarrow> probe_db \<Rightarrow> probe_db"
where
  "upsert_probe_run rid cid layer source meta now db =
     (if sql_exists (\<lambda>r. pn_id r = rid) (pdb_runs db)
      then db\<lparr>pdb_runs := sql_update (\<lambda>r. pn_id r = rid) (\<lambda>r. r\<lparr>pn_source := source, pn_meta := meta\<rparr>) (pdb_runs db)\<rparr>
      else db\<lparr>pdb_runs := pdb_runs db @
             [\<lparr>pn_id = rid, pn_channel = cid, pn_layer = layer, pn_source = source, pn_status = ''running'',
               pn_started = now, pn_finished = None, pn_error = None, pn_meta = meta\<rparr>]\<rparr>)"

definition null_text :: "string \<Rightarrow> string option" where
  "null_text v = (if v = [] then None else Some v)"

definition result_row :: "string \<Rightarrow> string \<Rightarrow> string \<Rightarrow> step_result \<Rightarrow> time \<Rightarrow> probe_result" where
  "result_row rid cid layer s now =
     \<lparr>pr_run = rid, pr_channel = cid, pr_layer = layer, pr_step = sr_step s, pr_status = sr_status s,
      pr_latency = sr_latency s, pr_http = (if sr_http s > 0 then Some (sr_http s) else None),
      pr_error = null_text (sr_error s), pr_meta = sr_meta s, pr_created = now\<rparr>"

definition upsert_result ::
  "string \<Rightarrow> string \<Rightarrow> string \<Rightarrow> step_result \<Rightarrow> time \<Rightarrow> probe_result list \<Rightarrow> probe_result list"
where
  "upsert_result rid cid layer s now rows =
     (let new = result_row rid cid layer s now;
          key = (\<lambda>r. pr_run r = rid \<and> pr_layer r = layer \<and> pr_step r = sr_step s)
      in if sql_exists key rows
         then sql_update key (\<lambda>r. r\<lparr>pr_status := pr_status new, pr_latency := pr_latency new,
                pr_http := pr_http new, pr_error := pr_error new, pr_meta := pr_meta new\<rparr>) rows
         else rows @ [new])"

text \<open>Each result is its own statement; \<open>ts\<close> are the instants they run at.\<close>

fun upsert_results ::
  "string \<Rightarrow> string \<Rightarrow> string \<Rightarrow> (step_result \<times> time) list \<Rightarrow> probe_result list \<Rightarrow> probe_result list"
where
  "upsert_results rid cid layer [] rows = rows"
| "upsert_results rid cid layer ((s, t) # ss) rows =
     upsert_results rid cid layer ss (upsert_result rid cid layer s t rows)"

definition upsert_probe_results ::
  "string \<Rightarrow> string \<Rightarrow> string \<Rightarrow> (step_result \<times> time) list \<Rightarrow> probe_db \<Rightarrow> probe_db"
where
  "upsert_probe_results rid cid layer ss db =
     db\<lparr>pdb_results := upsert_results rid cid layer ss (pdb_results db)\<rparr>"

definition complete_probe_run :: "string \<Rightarrow> string \<Rightarrow> string \<Rightarrow> time \<Rightarrow> probe_db \<Rightarrow> probe_db" where
  "complete_probe_run rid status error_type now db =
     db\<lparr>pdb_runs := sql_update (\<lambda>r. pn_id r = rid)
       (\<lambda>r. r\<lparr>pn_status := status, pn_error := null_text error_type, pn_finished := Some now\<rparr>) (pdb_runs db)\<rparr>"

definition error_text :: "string option \<Rightarrow> string" where
  "error_text e = (case e of None \<Rightarrow> [] | Some x \<Rightarrow> x)"

text \<open>The loop of \<open>LatestLayerSummary\<close> over the rows (status, latency, error).\<close>

fun layer_loop :: "int \<Rightarrow> string \<Rightarrow> string \<Rightarrow> (string \<times> int \<times> string) list \<Rightarrow> layer_summary" where
  "layer_loop ms first st [] = \<lparr>ls_status = st, ls_latency = ms, ls_error = first\<rparr>"
| "layer_loop ms0 first0 st ((status, latency, err) # rows) =
     (let ms = ms0 + latency;
          first = (if first0 = [] \<and> err \<noteq> [] then err else first0)
      in if status = ''auth_error''
         then \<lparr>ls_status = ''auth_error'', ls_latency = ms, ls_error = ''auth_error''\<rparr>
         else if status = ''down'' then \<lparr>ls_status = ''down'', ls_latency = ms, ls_error = err\<rparr>
         else if status = ''warn'' then \<lparr>ls_status = ''warn'', ls_latency = ms, ls_error = err\<rparr>
         else layer_loop ms first (if status = ''ok'' \<and> st \<noteq> ''down'' then ''ok'' else st) rows)"

text \<open>The latest finished run of the layer that has results.\<close>

definition latest_run :: "string \<Rightarrow> string \<Rightarrow> probe_db \<Rightarrow> probe_run option" where
  "latest_run cid layer db =
     first_by (\<lambda>r. - pn_started r)
       (filter (\<lambda>r. pn_channel r = cid \<and> pn_layer r = layer \<and> pn_status r \<noteq> ''running''
          \<and> pn_finished r \<noteq> None
          \<and> sql_exists (\<lambda>s. pr_run s = pn_id r \<and> pr_layer s = layer) (pdb_results db)) (pdb_runs db))"

definition latest_layer_summary :: "string \<Rightarrow> string \<Rightarrow> probe_db \<Rightarrow> layer_summary" where
  "latest_layer_summary cid layer db =
     (case latest_run cid layer db of
        None \<Rightarrow> na_layer
      | Some run \<Rightarrow>
          layer_loop 0 [] ''na''
            (map (\<lambda>r. (pr_status r, pr_latency r, error_text (pr_error r)))
              (sort_stable (\<lambda>a b. pr_created a < pr_created b)
                (filter (\<lambda>r. pr_channel r = cid \<and> pr_layer r = layer \<and> pr_run r = pn_id run)
                  (pdb_results db)))))"

section \<open>Applying a decision\<close>

definition round6 :: "rat \<Rightarrow> rat" where
  "round6 q = of_int \<lfloor>q * 1000000 + 1 / 2\<rfloor> / 1000000"

text \<open>\<open>latestL3MetricsTx\<close>: the tokens of the newest generation result and their price.\<close>

definition latest_l3_metrics :: "string \<Rightarrow> probe_db \<Rightarrow> int \<times> rat" where
  "latest_l3_metrics cid db =
     (case first_by (\<lambda>r. - pr_created r)
             (filter (\<lambda>r. pr_channel r = cid \<and> pr_layer r = ''l3'') (pdb_results db)) of
        None \<Rightarrow> (0, 0)
      | Some r \<Rightarrow>
          (let tokens = int_from_any (obj_at ''tokens_used'' (pr_meta r))
           in (tokens, round6 (of_int tokens / 1000000 * (52 / 10)))))"

definition channel_org :: "probe_channel \<Rightarrow> string" where
  "channel_org c = (if pc_owner_type c = ''user''
     then (case pc_org c of Some w \<Rightarrow> w
           | None \<Rightarrow> ''org_'' @ (case pc_owner_id c of Some u \<Rightarrow> u | None \<Rightarrow> []))
     else ''org_default'')"

definition is_open :: "incident \<Rightarrow> bool" where
  "is_open i = (in_resolved i = None \<and> in_deleted i = None)"

text \<open>The unique index \<open>uniq_open_incident_channel\<close>.\<close>

definition index_ok :: "incident list \<Rightarrow> bool" where
  "index_ok rows = distinct (map in_channel (filter (\<lambda>i. in_resolved i = None) rows))"

definition resolve_incidents :: "(incident \<Rightarrow> bool) \<Rightarrow> time \<Rightarrow> incident list \<Rightarrow> incident list" where
  "resolve_incidents sel now rows = sql_update sel (\<lambda>i. i\<lparr>in_resolved := Some now\<rparr>) rows"

definition event_rows :: "string list \<Rightarrow> string \<Rightarrow> string \<Rightarrow> string \<Rightarrow> incident_event list" where
  "event_rows ids org ty msg = map (\<lambda>i. \<lparr>ie_incident = i, ie_org = org, ie_type = ty, ie_message = msg\<rparr>) ids"

text \<open>Success rate, generation status and latency, tokens and cost of the new snapshot.\<close>

definition snapshot_metrics ::
  "string \<Rightarrow> string \<Rightarrow> layer_summary \<Rightarrow> probe_db \<Rightarrow> rat \<times> string \<times> int \<times> int \<times> rat"
where
  "snapshot_metrics cid decision l3 db =
     (let (rate, st, lat, tokens, cost) =
            (case first_by (\<lambda>s. - sn_sampled s) (filter (\<lambda>s. sn_channel s = cid) (pdb_snapshots db)) of
               None \<Rightarrow> (0, ''na'', 0, 0, 0)
             | Some s \<Rightarrow> (sn_success s, sn_l3_status s, sn_l3_latency s, sn_tokens s, sn_cost s))
      in if ls_status l3 \<noteq> [] \<and> ls_status l3 \<noteq> ''na''
         then (let (tk, co) = latest_l3_metrics cid db
               in (success_rate_for_decision decision rate, ls_status l3, ls_latency l3, tk, co))
         else if ls_status l3 = ''na'' \<and> ls_error l3 = ''l3_probe_skipped''
         then (success_rate_for_decision decision rate, ls_status l3, 0, 0, 0)
         else (rate, st, lat, tokens, cost))"

text \<open>The incident part of a status change to \<open>decision\<close>.\<close>

definition change_incidents ::
  "string \<Rightarrow> string \<Rightarrow> string \<Rightarrow> string \<Rightarrow> time \<Rightarrow> probe_db \<Rightarrow> probe_db res"
where
  "change_incidents cid org decision uuid now db =
     (let mine = (\<lambda>i. in_channel i = cid \<and> is_open i) in
      if decision = ''healthy'' then
        (let ids = map in_id (filter mine (pdb_incidents db))
         in Inr (db\<lparr>pdb_incidents := resolve_incidents mine now (pdb_incidents db),
                    pdb_events := pdb_events db @ event_rows ids org ''resolved'' ''Channel recovered to healthy''\<rparr>))
      else
        (case first_by (\<lambda>i. - in_opened i) (filter (\<lambda>i. mine i \<and> in_status i = ''manual'') (pdb_incidents db)) of
           Some m \<Rightarrow>
             Inr (db\<lparr>pdb_events := pdb_events db
               @ event_rows [in_id m] org ''status_changed'' (''Channel status changed to '' @ decision)\<rparr>)
         | None \<Rightarrow>
             (let other = (\<lambda>i. mine i \<and> in_status i \<noteq> decision);
                  ids = map in_id (filter other (pdb_incidents db));
                  rows = resolve_incidents other now (pdb_incidents db);
                  events = pdb_events db @ event_rows ids org ''resolved''
                             (''Incident closed by status change to '' @ decision);
                  same = (\<lambda>i. mine i \<and> in_status i = decision);
                  new = \<lparr>in_id = ''inc_'' @ uuid, in_channel = cid, in_status = decision,
                         in_title = ''Channel status changed to '' @ decision, in_opened = now,
                         in_resolved = None, in_deleted = None\<rparr>
              in if sql_exists same rows then
                   (case first_by (\<lambda>i. - in_opened i) (filter same rows) of
                      None \<Rightarrow> Inl ErrNoRows
                    | Some i \<Rightarrow> Inr (db\<lparr>pdb_incidents := rows, pdb_events := events
                        @ event_rows [in_id i] org ''opened'' (''Incident opened: '' @ decision)\<rparr>))
                 else if sql_exists (\<lambda>i. in_id i = in_id new) rows then Inl (ErrConstraint ''incidents_pkey'')
                 else if \<not> index_ok (rows @ [new]) then Inl (ErrConstraint ''uniq_open_incident_channel'')
                 else Inr (db\<lparr>pdb_incidents := rows @ [new], pdb_events := events
                        @ event_rows [in_id new] org ''opened'' (''Incident opened: '' @ decision)\<rparr>))))"

definition apply_probe_status ::
  "string \<Rightarrow> string \<Rightarrow> string \<Rightarrow> layer_summary \<Rightarrow> layer_summary \<Rightarrow> layer_summary \<Rightarrow> string \<Rightarrow> time \<Rightarrow> probe_db
    \<Rightarrow> unit res \<times> probe_db"
where
  "apply_probe_status cid decision error_type l1 l2 l3 uuid now db =
     (case query_row (\<lambda>c. pc_id c = cid) (pdb_channels db) of
        Inl e \<Rightarrow> (Inl e, db)
      | Inr c \<Rightarrow>
          if pc_status c = ''disabled'' \<or> pc_status c = ''deleted'' \<or> pc_deleted_at c \<noteq> None then (Inr (), db)
          else
            (let (rate, l3_status, l3_latency, tokens, cost) = snapshot_metrics cid decision l3 db;
                 score = score_for_status decision rate;
                 latency = (if ls_latency l2 = 0 then ls_latency l1 else ls_latency l2);
                 snap = \<lparr>sn_channel = cid, sn_sampled = now, sn_status = decision, sn_score = score,
                   sn_uptime = uptime_for_status decision, sn_success = rate, sn_latency = latency,
                   sn_l1_status = ls_status l1, sn_l2_status = ls_status l2, sn_l3_status = l3_status,
                   sn_l1_latency = ls_latency l1, sn_l2_latency = ls_latency l2,
                   sn_l3_latency = l3_latency, sn_tokens = tokens, sn_cost = cost,
                   sn_error = null_text error_type\<rparr>;
                 db1 = db\<lparr>pdb_channels := sql_update (\<lambda>x. pc_id x = cid)
                            (\<lambda>x. x\<lparr>pc_status := decision, pc_score := score, pc_updated := now\<rparr>) (pdb_channels db),
                          pdb_snapshots := pdb_snapshots db @ [snap]\<rparr>
             in if pc_status c = decision then (Inr (), db1)
                else case change_incidents cid (channel_org c) decision uuid now db1 of
                       Inl e \<Rightarrow> (Inl e, db)
                     | Inr db2 \<Rightarrow>
                         (Inr (), db2\<lparr>pdb_audits := pdb_audits db2 @ [(''probe.status.changed'', cid)]\<rparr>)))"

section \<open>Incidents handled by people\<close>

record incident_input =
  ii_channel :: string
  ii_status :: string
  ii_title :: string
  ii_message :: string

text \<open>\<open>status[:64]\<close>, \<open>title[:160]\<close> and \<open>message[:500]\<close> cut bytes.\<close>

definition normalize_incident_input :: "incident_input \<Rightarrow> incident_input" where
  "normalize_incident_input inp =
     (let status0 = to_lower (trim_space (ii_status inp));
          status1 = (if status0 = [] then ''manual'' else status0);
          status2 = replace_char (CHR '' '') ''_'' status1;
          status3 = replace_char (CHR ''-'') ''_'' status2;
          title = trim_space (ii_title inp);
          message = trim_space (ii_message inp)
      in \<lparr>ii_channel = trim_space (ii_channel inp),
          ii_status = (if length status3 > 64 then take 64 status3 else status3),
          ii_title = (if length title > 160 then take 160 title else title),
          ii_message = (if length message > 500 then take 500 message else message)\<rparr>)"

definition default_text :: "string \<Rightarrow> string \<Rightarrow> string" where
  "default_text v d = (if trim_space v = [] then d else v)"

definition org_matches :: "string \<Rightarrow> probe_channel \<Rightarrow> bool" where
  "org_matches org c = (org = [] \<or> channel_org c = org)"

definition incident_channel_for_org :: "string \<Rightarrow> string \<Rightarrow> probe_db \<Rightarrow> (string \<times> string) res" where
  "incident_channel_for_org cid org db =
     (case query_row (\<lambda>c. pc_id c = cid \<and> pc_status c \<noteq> ''deleted'' \<and> pc_deleted_at c = None
             \<and> org_matches (trim_space org) c) (pdb_channels db) of
        Inl e \<Rightarrow> Inl e
      | Inr c \<Rightarrow> Inr (channel_org c, pc_name c))"

text \<open>The join of an incident with its channel; the channel's org and id.\<close>

definition incident_for_org :: "string \<Rightarrow> string \<Rightarrow> probe_db \<Rightarrow> (string \<times> string) res" where
  "incident_for_org iid org db =
     (case [(i, c). i \<leftarrow> filter (\<lambda>i. in_id i = iid \<and> in_deleted i = None) (pdb_incidents db),
                    c \<leftarrow> filter (\<lambda>c. pc_id c = in_channel i \<and> org_matches (trim_space org) c) (pdb_channels db)] of
        [] \<Rightarrow> Inl ErrNoRows
      | (i, c) # _ \<Rightarrow> Inr (channel_org c, in_channel i))"

definition incident_by_id :: "string \<Rightarrow> string \<Rightarrow> probe_db \<Rightarrow> incident res" where
  "incident_by_id org iid db =
     (case [i. i \<leftarrow> filter (\<lambda>i. in_id i = trim_space iid \<and> in_deleted i = None) (pdb_incidents db),
               c \<leftarrow> filter (\<lambda>c. pc_id c = in_channel i \<and> org_matches (trim_space org) c) (pdb_channels db)] of
        [] \<Rightarrow> Inl ErrNoRows
      | i # _ \<Rightarrow> Inr i)"

definition err_invalid_incident :: err where "err_invalid_incident = ErrNamed ''invalid incident input''"

definition err_open_incident :: err where "err_open_incident = ErrNamed ''channel already has an open incident''"

definition created_message :: string where
  "created_message =
     [CHR 0xE5, CHR 0x90, CHR 0x8E, CHR 0xE5, CHR 0x8F, CHR 0xB0, CHR 0xE6, CHR 0x89, CHR 0x8B, CHR 0xE5,
      CHR 0x8A, CHR 0xA8, CHR 0xE7, CHR 0x99, CHR 0xBB, CHR 0xE8, CHR 0xAE, CHR 0xB0, CHR 0x20, CHR 0x49,
      CHR 0x6E, CHR 0x63, CHR 0x69, CHR 0x64, CHR 0x65, CHR 0x6E, CHR 0x74]"

definition updated_message :: string where
  "updated_message =
     [CHR 0xE5, CHR 0x90, CHR 0x8E, CHR 0xE5, CHR 0x8F, CHR 0xB0, CHR 0xE7, CHR 0xBC, CHR 0x96, CHR 0xE8,
      CHR 0xBE, CHR 0x91, CHR 0x20, CHR 0x49, CHR 0x6E, CHR 0x63, CHR 0x69, CHR 0x64, CHR 0x65, CHR 0x6E,
      CHR 0x74]"

text \<open>Postgres rejects text that is not valid UTF-8 (\<open>valid_utf8\<close>).\<close>

definition create_incident ::
  "string \<Rightarrow> incident_input \<Rightarrow> string \<Rightarrow> time \<Rightarrow> probe_db \<Rightarrow> incident res \<times> probe_db"
where
  "create_incident org0 inp0 uuid now db =
     (let inp = normalize_incident_input inp0; org = trim_space org0; cid = ii_channel inp in
      if cid = [] \<or> ii_title inp = [] then (Inl err_invalid_incident, db)
      else case incident_channel_for_org cid org db of
        Inl e \<Rightarrow> (Inl e, db)
      | Inr (corg, cname) \<Rightarrow>
          (let new = \<lparr>in_id = ''inc_'' @ uuid, in_channel = cid, in_status = ii_status inp,
                 in_title = ii_title inp, in_opened = now, in_resolved = None, in_deleted = None\<rparr>
           in if sql_exists (\<lambda>i. in_channel i = cid \<and> is_open i) (pdb_incidents db)
              then (Inl err_open_incident, db)
              else if \<not> valid_utf8 (ii_status inp) \<or> \<not> valid_utf8 (ii_title inp) \<or> \<not> valid_utf8 (ii_message inp)
              then (Inl (ErrConstraint ''invalid byte sequence for encoding UTF8''), db)
              else if sql_exists (\<lambda>i. in_id i = in_id new) (pdb_incidents db)
              then (Inl (ErrConstraint ''incidents_pkey''), db)
              else if \<not> index_ok (pdb_incidents db @ [new])
              then (Inl (ErrConstraint ''uniq_open_incident_channel''), db)
              else
                (let db' = db\<lparr>pdb_incidents := pdb_incidents db @ [new],
                       pdb_events := pdb_events db @ event_rows [in_id new] corg ''manual_created''
                         (default_text (ii_message inp) created_message),
                       pdb_audits := pdb_audits db @ [(''incident.created'', in_id new)]\<rparr>
                 in (incident_by_id org (in_id new) db', db'))))"

definition update_incident ::
  "string \<Rightarrow> string \<Rightarrow> incident_input \<Rightarrow> probe_db \<Rightarrow> incident res \<times> probe_db"
where
  "update_incident org iid0 inp0 db =
     (let iid = trim_space iid0; inp = normalize_incident_input inp0;
          sel = (\<lambda>i. in_id i = iid \<and> in_deleted i = None) in
      if iid = [] \<or> ii_title inp = [] \<or> ii_status inp = [] then (Inl err_invalid_incident, db)
      else case incident_for_org iid (trim_space org) db of
        Inl e \<Rightarrow> (Inl e, db)
      | Inr (corg, cid) \<Rightarrow>
          if \<not> valid_utf8 (ii_status inp) \<or> \<not> valid_utf8 (ii_title inp) \<or> \<not> valid_utf8 (ii_message inp)
          then (Inl (ErrConstraint ''invalid byte sequence for encoding UTF8''), db)
          else if sql_affected sel (pdb_incidents db) = 0 then (Inl ErrNoRows, db)
          else
            (let db' = db\<lparr>pdb_incidents := sql_update sel
                     (\<lambda>i. i\<lparr>in_status := ii_status inp, in_title := ii_title inp\<rparr>) (pdb_incidents db),
                   pdb_events := pdb_events db @ event_rows [iid] corg ''manual_updated''
                     (default_text (ii_message inp) updated_message),
                   pdb_audits := pdb_audits db @ [(''incident.updated'', iid)]\<rparr>
             in (incident_by_id org iid db', db')))"

datatype incident_change = IResolve | IReopen | IDelete

definition change_row :: "incident_change \<Rightarrow> time \<Rightarrow> incident \<Rightarrow> incident" where
  "change_row ch now i =
     (let first = (\<lambda>v. case v of None \<Rightarrow> Some now | Some t \<Rightarrow> Some t) in
      case ch of
        IResolve \<Rightarrow> i\<lparr>in_resolved := first (in_resolved i)\<rparr>
      | IReopen \<Rightarrow> i\<lparr>in_resolved := None\<rparr>
      | IDelete \<Rightarrow> i\<lparr>in_deleted := first (in_deleted i), in_resolved := first (in_resolved i)\<rparr>)"

definition change_event :: "incident_change \<Rightarrow> string \<times> string" where
  "change_event ch = (case ch of
      IResolve \<Rightarrow> (''manual_resolved'', ''incident.resolved'')
    | IReopen \<Rightarrow> (''manual_reopened'', ''incident.reopened'')
    | IDelete \<Rightarrow> (''manual_deleted'', ''incident.deleted''))"

text \<open>\<open>updateIncidentState\<close>; the result of a deletion carries the id only.\<close>

definition update_incident_state ::
  "string \<Rightarrow> string \<Rightarrow> incident_change \<Rightarrow> string \<Rightarrow> time \<Rightarrow> probe_db \<Rightarrow> incident option res \<times> probe_db"
where
  "update_incident_state org iid0 ch message now db =
     (let iid = trim_space iid0; sel = (\<lambda>i. in_id i = iid \<and> in_deleted i = None) in
      if iid = [] then (Inl err_invalid_incident, db)
      else case incident_for_org iid (trim_space org) db of
        Inl e \<Rightarrow> (Inl e, db)
      | Inr (corg, cid) \<Rightarrow>
          (let rows = sql_update sel (change_row ch now) (pdb_incidents db);
               db' = db\<lparr>pdb_incidents := rows,
                  pdb_events := pdb_events db @ event_rows [iid] corg (fst (change_event ch)) message,
                  pdb_audits := pdb_audits db @ [(snd (change_event ch), iid)]\<rparr>
           in if ch = IReopen \<and> sql_exists (\<lambda>i. in_channel i = cid \<and> in_id i \<noteq> iid \<and> is_open i) (pdb_incidents db)
              then (Inl err_open_incident, db)
              else if \<not> index_ok rows then (Inl (ErrConstraint ''uniq_open_incident_channel''), db)
              else if sql_affected sel (pdb_incidents db) = 0 then (Inl ErrNoRows, db)
              else if ch = IDelete then (Inr None, db')
              else (case incident_by_id org iid db' of
                      Inl e \<Rightarrow> (Inl e, db')
                    | Inr i \<Rightarrow> (Inr (Some i), db'))))"

text \<open>The states a bulk change locks: id, org and channel of the selected incidents.\<close>

definition incident_states :: "string \<Rightarrow> string list \<Rightarrow> probe_db \<Rightarrow> (string \<times> string \<times> string) list" where
  "incident_states org ids db =
     [(in_id i, channel_org c, in_channel i).
        i \<leftarrow> filter (\<lambda>i. in_deleted i = None \<and> in_id i \<in> set ids) (pdb_incidents db),
        c \<leftarrow> filter (\<lambda>c. pc_id c = in_channel i \<and> org_matches (trim_space org) c) (pdb_channels db)]"

definition parse_change :: "string \<Rightarrow> incident_change option" where
  "parse_change a0 = (let a = to_lower (trim_space a0) in
     if a = ''resolve'' \<or> a = ''close'' then Some IResolve
     else if a = ''reopen'' then Some IReopen
     else if a = ''delete'' then Some IDelete
     else None)"

text \<open>On success the code returns the list of incidents, read after the commit.\<close>

definition bulk_update_incidents ::
  "string \<Rightarrow> string \<Rightarrow> string list \<Rightarrow> string \<Rightarrow> time \<Rightarrow> probe_db \<Rightarrow> unit res \<times> probe_db"
where
  "bulk_update_incidents org action ids0 message now db =
     (let ids = unique_trimmed [] ids0 in
      if ids = [] then (Inl err_invalid_incident, db)
      else case parse_change action of
        None \<Rightarrow> (Inl err_invalid_incident, db)
      | Some ch \<Rightarrow>
          (let states = incident_states org ids db;
               chan = (\<lambda>i. case map_of states i of Some (w, c) \<Rightarrow> c | None \<Rightarrow> []);
               worg = (\<lambda>i. case map_of states i of Some (w, c) \<Rightarrow> w | None \<Rightarrow> []);
               channels = map chan ids;
               sel = (\<lambda>i. in_id i \<in> set ids \<and> in_deleted i = None);
               rows = sql_update sel (change_row ch now) (pdb_incidents db);
               db' = db\<lparr>pdb_incidents := rows,
                  pdb_events := pdb_events db
                    @ concat (map (\<lambda>i. event_rows [i] (worg i) (fst (change_event ch)) message) ids),
                  pdb_audits := pdb_audits db @ map (\<lambda>i. (snd (change_event ch), i)) ids\<rparr>
           in if length (remdups (map fst states)) \<noteq> length ids then (Inl ErrNoRows, db)
              else if ch = IReopen \<and> \<not> distinct channels then (Inl err_open_incident, db)
              else if ch = IReopen \<and> sql_exists (\<lambda>i. is_open i \<and> in_id i \<notin> set ids \<and> in_channel i \<in> set channels)
                     (pdb_incidents db)
              then (Inl err_open_incident, db)
              else if \<not> index_ok rows then (Inl (ErrConstraint ''uniq_open_incident_channel''), db)
              else if sql_affected sel (pdb_incidents db) \<noteq> length ids then (Inl ErrNoRows, db)
              else (Inr (), db')))"

end
