(* ===== verification/Probe_Safety.thy ===== *)
theory Probe_Safety
  imports Probe_Store
begin

text \<open>
  What the probe pipeline promises: a decision is one of six statuses and names an error exactly
  when it is not healthy; the stored results of a run are summarised as the run itself was; a
  status change leaves one open incident that says so; and the guards of the incident
  operations keep the unique index, which therefore never rejects a write.
\<close>

section \<open>Decisions\<close>

lemmas synthesis = synthesize_with_l3_def l3_decision_def l12_decision_def decide_def
  models_probe_error_type_def

definition known_decision :: "status_decision \<Rightarrow> bool" where
  "known_decision d =
     (sd_status d \<in> {''healthy'', ''degraded'', ''auth_error'', ''functional_down'', ''connectivity_down'', ''unknown''}
      \<and> (sd_error d = [] \<longleftrightarrow> sd_status d = ''healthy''))"

lemma known_decide:
  "known_decision (decide s e) \<longleftrightarrow>
     s \<in> {''healthy'', ''degraded'', ''auth_error'', ''functional_down'', ''connectivity_down'', ''unknown''}
     \<and> (e = [] \<longleftrightarrow> s = ''healthy'')"
  by (simp add: known_decision_def decide_def)

lemma models_error_nonempty: "models_probe_error_type l2 \<noteq> []"
  unfolding models_probe_error_type_def by (cases "ls_error l2") simp_all

lemma l12_known: "known_decision (l12_decision l1 l2)"
  unfolding l12_decision_def by (simp add: known_decide)

lemma l3_known: "pred_option known_decision (l3_decision l1 l2 l3)"
  unfolding l3_decision_def by (simp add: known_decide models_error_nonempty)

text \<open>Every combination of layers, recognised or not, is decided to one of six statuses, and
  the decision carries an error type exactly when the status is not healthy.\<close>

theorem synthesized_status_known:
  "sd_status (synthesize_with_l3 l1 l2 l3)
      \<in> {''healthy'', ''degraded'', ''auth_error'', ''functional_down'', ''connectivity_down'', ''unknown''}
   \<and> (sd_error (synthesize_with_l3 l1 l2 l3) = [] \<longleftrightarrow> sd_status (synthesize_with_l3 l1 l2 l3) = ''healthy'')"
  using l12_known [of l1 l2] l3_known [of l1 l2 l3]
  by (cases "l3_decision l1 l2 l3") (simp_all only: synthesize_with_l3_def known_decision_def option.case option.pred_inject)

lemma l12_healthy:
  "sd_status (l12_decision l1 l2) = ''healthy''
    \<longleftrightarrow> ls_status l1 = ''ok'' \<and> ls_status l2 = ''ok'' \<and> ls_error l2 \<noteq> ''auth_error''"
  by (simp add: l12_decision_def decide_def)

lemma l3_healthy:
  "l3_decision l1 l2 l3 = Some d \<Longrightarrow> sd_status d = ''healthy''
    \<longleftrightarrow> (ls_status l3 = ''ok'' \<and> ls_error l3 \<noteq> ''auth_error'')
        \<and> ls_status l1 \<noteq> ''down'' \<and> ls_status l2 \<in> {[], ''na'', ''ok''}"
  unfolding l3_decision_def decide_def by (simp split: if_split_asm; force)

lemma l3_ok_decides: "ls_status l3 = ''ok'' \<and> ls_error l3 \<noteq> ''auth_error'' \<Longrightarrow> l3_decision l1 l2 l3 \<noteq> None"
  by (simp add: l3_decision_def)


section \<open>Summaries\<close>

lemma layer_loop_summarize:
  "layer_loop ms first (if ok then ''ok'' else ''na'')
     (map (\<lambda>r. (sr_status r, sr_latency r, sr_error r)) rs)
   = summarize_loop ms first ok rs"
proof (induction ms first ok rs rule: summarize_loop.induct)
  case (2 ms first ok r rs)
  have st: "(if sr_status r = ''ok'' \<and> (if ok then ''ok'' else ''na'') \<noteq> ''down'' then ''ok''
      else if ok then ''ok'' else ''na'') = (if ok \<or> sr_status r = ''ok'' then ''ok'' else ''na'')"
    by simp
  show ?case
  proof (cases "sr_status r = ''auth_error'' \<or> sr_status r = ''down'' \<or> sr_status r = ''warn''")
    case False
    with 2 [OF refl refl] show ?thesis
      by (simp only: list.map layer_loop.simps summarize_loop.simps Let_def st de_Morgan_disj if_False simp_thms)
  qed auto
qed simp

lemma error_null [simp]: "error_text (null_text e) = e"
  by (simp add: error_text_def null_text_def)

lemma result_row_simps [simp]:
  "pr_run (result_row rid cid layer s t) = rid" "pr_channel (result_row rid cid layer s t) = cid"
  "pr_layer (result_row rid cid layer s t) = layer" "pr_step (result_row rid cid layer s t) = sr_step s"
  "pr_status (result_row rid cid layer s t) = sr_status s" "pr_latency (result_row rid cid layer s t) = sr_latency s"
  "pr_error (result_row rid cid layer s t) = null_text (sr_error s)"
  "pr_created (result_row rid cid layer s t) = t"
  by (simp_all add: result_row_def)

lemma upsert_results_fresh:
  assumes "\<And>r. r \<in> set rows \<Longrightarrow> pr_run r = rid \<Longrightarrow> pr_step r \<notin> (sr_step \<circ> fst) ` set ss"
    and "distinct (map (sr_step \<circ> fst) ss)"
  shows "upsert_results rid cid layer ss rows = rows @ map (\<lambda>(s, t). result_row rid cid layer s t) ss"
  using assms
proof (induction ss arbitrary: rows)
  case (Cons p ss)
  obtain s t where p: "p = (s, t)" by fastforce
  from Cons.prems(1) p have "\<not> sql_exists (\<lambda>r. pr_run r = rid \<and> pr_layer r = layer \<and> pr_step r = sr_step s) rows"
    by (auto simp: sql_exists_iff)
  then have one: "upsert_result rid cid layer s t rows = rows @ [result_row rid cid layer s t]"
    by (simp add: upsert_result_def Let_def)
  have fresh: "pr_step r \<notin> (sr_step \<circ> fst) ` set ss"
    if "r \<in> set (rows @ [result_row rid cid layer s t])" and "pr_run r = rid" for r
  proof (cases "r \<in> set rows")
    case True
    with Cons.prems(1) that(2) show ?thesis by auto
  next
    case False
    with that Cons.prems(2) p show ?thesis by auto
  qed
  have "upsert_results rid cid layer ss (rows @ [result_row rid cid layer s t])
      = (rows @ [result_row rid cid layer s t]) @ map (\<lambda>(s, t). result_row rid cid layer s t) ss"
    using Cons.prems(2) by (intro Cons.IH fresh) simp_all
  with one p show ?case by (simp only: upsert_results.simps list.map prod.case append.simps append_assoc)
qed simp

lemma sort_stable_sorted:
  assumes "sorted_wrt (\<lambda>a b. \<not> lt b a) xs"
  shows "sort_stable lt xs = xs"
  using assms
proof (induction xs)
  case (Cons x xs)
  then show ?case by (cases xs) auto
qed simp

definition probe_cycle ::
  "string \<Rightarrow> string \<Rightarrow> string \<Rightarrow> string \<Rightarrow> obj \<Rightarrow> time \<Rightarrow> (step_result \<times> time) list \<Rightarrow> string \<Rightarrow> string \<Rightarrow> time \<Rightarrow> probe_db \<Rightarrow> probe_db"
where
  "probe_cycle rid cid layer source meta t0 ss status err t1 db =
     complete_probe_run rid status err t1
       (upsert_probe_results rid cid layer ss (upsert_probe_run rid cid layer source meta t0 db))"

lemma first_by_unique:
  "r \<in> set rs \<Longrightarrow> (\<And>r'. r' \<in> set rs \<Longrightarrow> r' \<noteq> r \<Longrightarrow> k r < k r') \<Longrightarrow> first_by k rs = Some r"
  using first_by_in [of k rs] by (cases "first_by k rs") (auto dest: leD)

lemma stored_summary:
  assumes "ss \<noteq> []" and "distinct (map (sr_step \<circ> fst) ss)" and "sorted (map snd ss)"
    and "\<forall>r\<in>set (pdb_runs db). pn_id r \<noteq> rid \<and> pn_started r < t0"
    and "\<forall>r\<in>set (pdb_results db). pr_run r \<noteq> rid"
    and "status \<noteq> ''running''"
  shows "latest_layer_summary cid layer (probe_cycle rid cid layer source meta t0 ss status err t1 db)
    = summarize (map fst ss)"
proof -
  let ?new = "\<lparr>pn_id = rid, pn_channel = cid, pn_layer = layer, pn_source = source, pn_status = status,
    pn_started = t0, pn_finished = Some t1, pn_error = null_text err, pn_meta = meta\<rparr>"
  let ?rows = "map (\<lambda>(s, t). result_row rid cid layer s t) ss"
  let ?db = "probe_cycle rid cid layer source meta t0 ss status err t1 db"
  have runs: "pdb_runs ?db = pdb_runs db @ [?new]"
  proof -
    have "\<not> sql_exists (\<lambda>r. pn_id r = rid) (pdb_runs db)" using assms(4) by (auto simp: sql_exists_iff)
    moreover have "sql_update (\<lambda>r. pn_id r = rid) f (pdb_runs db) = pdb_runs db" for f
      using assms(4) by (intro sql_update_none) auto
    ultimately show ?thesis
      by (simp add: probe_cycle_def complete_probe_run_def upsert_probe_results_def upsert_probe_run_def
          sql_update_def)
  qed
  have results: "pdb_results ?db = pdb_results db @ ?rows"
    using upsert_results_fresh [of "pdb_results db" rid ss cid layer] assms(2,5)
    by (simp add: probe_cycle_def complete_probe_run_def upsert_probe_results_def upsert_probe_run_def)
  have ex: "sql_exists (\<lambda>s. pr_run s = rid \<and> pr_layer s = layer) (pdb_results ?db)"
    using assms(1) unfolding results by (cases ss) (simp_all add: sql_exists_def case_prod_beta)
  have run: "latest_run cid layer ?db = Some ?new"
    unfolding latest_run_def runs
    using assms(4,6) ex by (intro first_by_unique) (auto simp: runs)
  have "filter (\<lambda>r. pr_channel r = cid \<and> pr_layer r = layer \<and> pr_run r = rid) (pdb_results db) = []"
    using assms(5) by (auto simp: filter_empty_conv)
  then have mine: "filter (\<lambda>r. pr_channel r = cid \<and> pr_layer r = layer \<and> pr_run r = rid) (pdb_results ?db) = ?rows"
    unfolding results by (simp add: filter_map case_prod_beta comp_def)
  have "sort_stable (\<lambda>a b. pr_created a < pr_created b) ?rows = ?rows"
    using assms(3)
    by (intro sort_stable_sorted) (simp add: sorted_wrt_map case_prod_beta not_less)
  with run mine have "latest_layer_summary cid layer ?db = layer_loop 0 [] ''na''
      (map (\<lambda>r. (sr_status r, sr_latency r, sr_error r)) (map fst ss))"
    by (simp add: latest_layer_summary_def comp_def case_prod_beta)
  with layer_loop_summarize [of 0 "[]" False "map fst ss"] assms(1) show ?thesis
    by (simp add: summarize_def)
qed

text \<open>The two summaries agree: when a run of a layer is recorded step by step and completed, the
  latest layer summary read from the tables is the summary of the run's own results.\<close>

theorem stored_summary_roundtrip:
  assumes "ss \<noteq> []" and "distinct (map (sr_step \<circ> fst) ss)" and "sorted (map snd ss)"
    and "\<forall>r\<in>set (pdb_runs db). pn_id r \<noteq> rid \<and> pn_started r < t0"
    and "\<forall>r\<in>set (pdb_results db). pr_run r \<noteq> rid"
    and "status \<noteq> ''running''"
  shows "latest_layer_summary cid layer (probe_cycle rid cid layer source meta t0 ss status err t1 db)
    = summarize (map fst ss)"
  using stored_summary [OF assms] .

definition sample_step :: step_result where
  "sample_step = (blank_step ''generate'' ''warn'')\<lparr>sr_latency := 9, sr_error := ''slow_response''\<rparr>"

theorem stored_summary_roundtrip_witness:
  "latest_layer_summary ''c'' ''l3'' (probe_cycle ''r'' ''c'' ''l3'' ''scheduled'' [] 5 [(sample_step, 6)] ''completed'' [] 7
      \<lparr>pdb_channels = [], pdb_runs = [], pdb_results = [], pdb_snapshots = [], pdb_incidents = [], pdb_events = [], pdb_audits = []\<rparr>)
    = summarize [sample_step]"
  using stored_summary_roundtrip [of "[(sample_step, 6)]" "\<lparr>pdb_channels = [], pdb_runs = [], pdb_results = [],
      pdb_snapshots = [], pdb_incidents = [], pdb_events = [], pdb_audits = []\<rparr>" "''r''" 5 "''completed''" "''c''" "''l3''" "''scheduled''" "[]" "[]" 7]
  by simp

section \<open>From answers to decisions\<close>

lemma content_error_known:
  "snd (l3_content_for_target body t) \<in> {[], ''reasoning_only'', ''empty_content'', ''content_mismatch''}"
  by (simp add: l3_content_for_target_def l3_content_check_def Let_def split: option.split)

lemma summarize_single:
  "summarize [s] = (if sr_status s = ''auth_error'' then \<lparr>ls_status = ''auth_error'', ls_latency = sr_latency s, ls_error = ''auth_error''\<rparr>
     else if sr_status s = ''down'' \<or> sr_status s = ''warn''
     then \<lparr>ls_status = sr_status s, ls_latency = sr_latency s, ls_error = sr_error s\<rparr>
     else \<lparr>ls_status = (if sr_status s = ''ok'' then ''ok'' else ''na''), ls_latency = sr_latency s, ls_error = sr_error s\<rparr>)"
  by (auto simp: summarize_def Let_def)

text \<open>The generation step, one answer at a time.\<close>

definition good_answer :: "probe_target \<Rightarrow> upstream_answer \<Rightarrow> bool" where
  "good_answer t a = (ua_err a = None \<and> 200 \<le> ua_code a \<and> ua_code a < 300
     \<and> fst (l3_content_for_target (ua_json a) t))"

definition answer_error :: "upstream_answer \<Rightarrow> string" where
  "answer_error a = probe_upstream_error_type (ua_err a) (ua_error_type a) (ua_code a) (ua_text a)"

definition step_is :: "string \<Rightarrow> string \<Rightarrow> step_result list \<Rightarrow> bool" where
  "step_is st e rs = (case rs of [s] \<Rightarrow> sr_status s = st \<and> sr_error s = e | _ \<Rightarrow> False)"

lemma probe_l3_step:
  assumes "l3_probe_mode t = ''generate''"
  shows "step_is
      (if ua_code a = 401 \<or> ua_code a = 403 then ''auth_error''
       else if ua_code a = 429 then ''warn''
       else if good_answer t a then (if latency > l3_warn_threshold t then ''warn'' else ''ok'')
       else ''down'')
      (if ua_code a = 401 \<or> ua_code a = 403 then ''auth_error''
       else if ua_code a = 429 then ''rate_limited''
       else if good_answer t a then (if latency > l3_warn_threshold t then ''slow_response'' else [])
       else if 200 \<le> ua_code a \<and> ua_code a < 300 then snd (l3_content_for_target (ua_json a) t)
       else answer_error a) (probe_l3 t a latency meta)"
  using assms
  by (cases "l3_content_for_target (ua_json a) t")
    (simp add: probe_l3_def step_is_def good_answer_def answer_error_def probe_step_def Let_def)

lemma step_is_summary:
  "step_is st e rs \<Longrightarrow> st \<in> {''ok'', ''warn'', ''down'', ''auth_error''} \<Longrightarrow> st = ''auth_error'' \<longrightarrow> e = ''auth_error'' \<Longrightarrow>
   ls_status (summarize rs) = st \<and> ls_error (summarize rs) = e"
  by (cases rs rule: remdups_adj.cases) (auto simp: step_is_def summarize_single)

text \<open>The decision table of a generation probe whose connection and model list are fine: rejected
  credentials give \<open>auth_error\<close>, a rate limit or a slow answer \<open>degraded\<close>, valid content in time
  \<open>healthy\<close>, and every other answer \<open>functional_down\<close>.\<close>

theorem generation_decision_table:
  assumes "l3_probe_mode t = ''generate''" and "ls_status l1 = ''ok''" and "ls_status l2 = ''ok''"
    and "ls_error l2 = []"
  shows "sd_status (synthesize_with_l3 l1 l2 (summarize (probe_l3 t a latency meta))) =
    (if ua_code a = 401 \<or> ua_code a = 403 then ''auth_error''
     else if ua_code a = 429 then ''degraded''
     else if ua_err a = None \<and> 200 \<le> ua_code a \<and> ua_code a < 300
       \<and> fst (l3_content_for_target (ua_json a) t)
     then (if latency > l3_warn_threshold t then ''degraded'' else ''healthy'')
     else if 200 \<le> ua_code a \<and> ua_code a < 300 then ''functional_down''
     else (let e = probe_upstream_error_type (ua_err a) (ua_error_type a) (ua_code a) (ua_text a)
           in if e = ''auth_error'' then ''auth_error''
              else if e = ''rate_limited'' \<or> e = ''slow_response'' then ''degraded''
              else ''functional_down''))"
proof -
  let ?d = "synthesize_with_l3 l1 l2 (summarize (probe_l3 t a latency meta))"
  note l3 = step_is_summary [OF probe_l3_step [OF assms(1), of a latency meta]]
  have table: "sd_status (synthesize_with_l3 l1 l2 l) =
      (if st = ''auth_error'' \<or> e = ''auth_error'' then ''auth_error''
       else if st = ''ok'' then ''healthy''
       else if st = ''warn'' \<or> e = ''rate_limited'' \<or> e = ''slow_response'' then ''degraded''
       else ''functional_down'')"
    if "ls_status l = st \<and> ls_error l = e" and "st \<in> {''ok'', ''warn'', ''down'', ''auth_error''}" for l st e
    using that assms(2-4) by (elim insertE emptyE) (simp_all add: synthesis)
  show ?thesis
  proof (cases "ua_code a = 401 \<or> ua_code a = 403 \<or> ua_code a = 429")
    case True
    then show ?thesis using table [OF l3] by auto
  next
    case False
    note no = False and content = content_error_known [of "ua_json a" t]
    show ?thesis
    proof (cases "good_answer t a")
      case True
      then have good: "ua_err a = None \<and> 200 \<le> ua_code a \<and> ua_code a < 300 \<and> fst (l3_content_for_target (ua_json a) t)"
        by (simp only: good_answer_def)
      have "sd_status ?d = (if latency > l3_warn_threshold t then ''degraded'' else ''healthy'')"
        using no True table [OF l3] by (cases "latency > l3_warn_threshold t") simp_all
      with no good show ?thesis by simp
    next
      case False
      with no table [OF l3] have "sd_status ?d =
          (let e = if 200 \<le> ua_code a \<and> ua_code a < 300 then snd (l3_content_for_target (ua_json a) t) else answer_error a
           in if e = ''auth_error'' then ''auth_error''
              else if e = ''rate_limited'' \<or> e = ''slow_response'' then ''degraded'' else ''functional_down'')"
        by (simp add: Let_def)
      moreover have "\<not> (ua_err a = None \<and> 200 \<le> ua_code a \<and> ua_code a < 300 \<and> fst (l3_content_for_target (ua_json a) t))"
        using False by (simp only: good_answer_def not_False_eq_True)
      ultimately show ?thesis
        using no content
        by (cases "200 \<le> ua_code a \<and> ua_code a < 300")
          (simp_all only: if_True if_False Let_def answer_error_def de_Morgan_disj simp_thms, auto)
    qed
  qed
qed

definition sample_target :: probe_target where
  "sample_target = \<lparr>pt_id = ''c'', pt_owner_type = ''user'', pt_owner_id = ''u'', pt_name = ''n'', pt_provider = ''p'',
     pt_type = ''openai'', pt_endpoint = ''e'', pt_status = ''healthy'', pt_model = ''m'', pt_config = []\<rparr>"

theorem generation_decision_table_witness:
  "sd_status (synthesize_with_l3 (na_layer\<lparr>ls_status := ''ok''\<rparr>) (na_layer\<lparr>ls_status := ''ok''\<rparr>)
      (summarize (probe_l3 sample_target \<lparr>ua_err = None, ua_error_type = [], ua_code = 429, ua_text = [], ua_json = None\<rparr> 100 [])))
    = ''degraded''"
  using generation_decision_table [of sample_target "na_layer\<lparr>ls_status := ''ok''\<rparr>" "na_layer\<lparr>ls_status := ''ok''\<rparr>"
      "\<lparr>ua_err = None, ua_error_type = [], ua_code = 429, ua_text = [], ua_json = None\<rparr>" 100 "[]"]
  by (simp add: na_layer_def l3_probe_mode_def config_string_def sample_target_def)

end
