(* ===== verification/Incident_Safety.thy ===== *)
theory Incident_Safety
  imports Probe_Store
begin

text \<open>
  What holds of a channel's incidents over any sequence of probes and manual changes: the guards
  of the operations keep the unique index of migration 0005 by themselves, a deleted incident is
  final, a status change leaves the one incident that says so; and where the code cuts a title.
\<close>

section \<open>Operations and invariant\<close>

datatype incident_op =
    OProbe string string string layer_summary layer_summary layer_summary string
  | OCreateIncident string incident_input string
  | OUpdateIncident string string incident_input
  | OChangeIncident string string incident_change string
  | OBulkIncidents string string "string list" string

definition failed_with :: "'a res \<Rightarrow> err option" where
  "failed_with r = (case r of Inl e \<Rightarrow> Some e | Inr _ \<Rightarrow> None)"

text \<open>The error and the state after an operation.\<close>

fun incident_outcome :: "incident_op \<Rightarrow> probe_db \<Rightarrow> time \<Rightarrow> err option \<times> probe_db" where
  "incident_outcome (OProbe cid d e l1 l2 l3 u) db t = map_prod failed_with id (apply_probe_status cid d e l1 l2 l3 u t db)"
| "incident_outcome (OCreateIncident org inp u) db t = map_prod failed_with id (create_incident org inp u t db)"
| "incident_outcome (OUpdateIncident org i inp) db t = map_prod failed_with id (update_incident org i inp db)"
| "incident_outcome (OChangeIncident org i ch m) db t = map_prod failed_with id (update_incident_state org i ch m t db)"
| "incident_outcome (OBulkIncidents org a ids m) db t = map_prod failed_with id (bulk_update_incidents org a ids m t db)"

definition incident_step :: "incident_op \<Rightarrow> probe_db \<Rightarrow> time \<Rightarrow> probe_db" where
  "incident_step x db t = snd (incident_outcome x db t)"

definition incidents_ok :: "incident list \<Rightarrow> bool" where
  "incidents_ok rows = (distinct (map in_id rows) \<and> index_ok rows
     \<and> (\<forall>i\<in>set rows. in_resolved i = None \<longrightarrow> in_deleted i = None))"

definition unresolved :: "incident list \<Rightarrow> incident set" where
  "unresolved rows = {i \<in> set rows. in_resolved i = None}"

lemma index_ok_inj: "distinct (map in_id rows) \<Longrightarrow> index_ok rows \<longleftrightarrow> inj_on in_channel (unresolved rows)"
  by (simp add: index_ok_def unresolved_def distinct_map)

lemma incidents_okI:
  "distinct (map in_id rows) \<Longrightarrow> inj_on in_channel (unresolved rows)
   \<Longrightarrow> (\<And>i. i \<in> set rows \<Longrightarrow> in_resolved i = None \<Longrightarrow> in_deleted i = None) \<Longrightarrow> incidents_ok rows"
  by (auto simp: incidents_ok_def index_ok_inj)

lemma incidents_okD:
  assumes "incidents_ok rows"
  shows "distinct (map in_id rows)" "inj_on in_channel (unresolved rows)" "index_ok rows"
    "i \<in> set rows \<Longrightarrow> in_resolved i = None \<Longrightarrow> in_deleted i = None"
  using assms by (auto simp: incidents_ok_def index_ok_inj)

lemma open_unresolved: "incidents_ok rows \<Longrightarrow> i \<in> set rows \<Longrightarrow> is_open i \<longleftrightarrow> in_resolved i = None"
  by (auto simp: is_open_def dest: incidents_okD(4))

section \<open>Updates that keep the invariant\<close>

lemma incidents_ok_shrink:
  assumes ok: "incidents_ok rows"
    and keep: "\<And>i. p i \<Longrightarrow> in_id (f i) = in_id i \<and> in_channel (f i) = in_channel i
      \<and> (in_resolved (f i) = None \<longrightarrow> in_resolved i = None \<and> in_deleted (f i) = in_deleted i)"
  shows "incidents_ok (sql_update p f rows)"
proof (rule incidents_okI)
  let ?g = "\<lambda>i. if p i then f i else i"
  show "distinct (map in_id (sql_update p f rows))"
    using incidents_okD(1) [OF ok] keep by (simp add: map_sql_update)
  have orig: "\<exists>j\<in>unresolved rows. i = ?g j" if "i \<in> unresolved (sql_update p f rows)" for i
    using that keep by (auto simp: unresolved_def set_sql_update split: if_splits)
  have chan: "in_channel (?g j) = in_channel j" for j using keep by simp
  show "inj_on in_channel (unresolved (sql_update p f rows))"
  proof (rule inj_onI)
    fix i j assume "i \<in> unresolved (sql_update p f rows)" "j \<in> unresolved (sql_update p f rows)"
      and eq: "in_channel i = in_channel j"
    with orig obtain i' j' where "i' \<in> unresolved rows" "j' \<in> unresolved rows" "i = ?g i'" "j = ?g j'" by metis
    with eq chan inj_onD [OF incidents_okD(2) [OF ok]] show "i = j" by metis
  qed
  fix i assume "i \<in> set (sql_update p f rows)" "in_resolved i = None"
  then show "in_deleted i = None" using keep incidents_okD(4) [OF ok]
    by (auto simp: set_sql_update split: if_splits)
qed

lemma incidents_ok_insert:
  assumes "incidents_ok rows" and "\<not> sql_exists (\<lambda>i. in_id i = in_id new) rows"
    and "in_deleted new = None"
    and "\<And>i. i \<in> set rows \<Longrightarrow> is_open i \<Longrightarrow> in_channel i \<noteq> in_channel new"
  shows "incidents_ok (rows @ [new])"
proof (rule incidents_okI)
  show "distinct (map in_id (rows @ [new]))"
    using incidents_okD(1) [OF assms(1)] assms(2) by (auto simp: sql_exists_iff)
  have "unresolved (rows @ [new]) \<subseteq> insert new (unresolved rows)" by (auto simp: unresolved_def)
  moreover have "inj_on in_channel (insert new (unresolved rows))"
    using incidents_okD(2) [OF assms(1)] assms(4) open_unresolved [OF assms(1)]
    by (fastforce simp: inj_on_insert unresolved_def)
  ultimately show "inj_on in_channel (unresolved (rows @ [new]))" by (rule inj_on_subset [rotated])
qed (use assms(3) incidents_okD(4) [OF assms(1)] in auto)

text \<open>Reopening a set of incidents of different channels, none of which has another open one.\<close>

lemma incidents_ok_reopen:
  assumes ok: "incidents_ok rows"
    and sel: "\<And>i. sel i \<Longrightarrow> in_deleted i = None"
    and inj: "inj_on in_channel {i \<in> set rows. sel i}"
    and others: "\<And>i j. i \<in> set rows \<Longrightarrow> j \<in> set rows \<Longrightarrow> sel i \<Longrightarrow> \<not> sel j \<Longrightarrow> is_open j \<Longrightarrow> in_channel i \<noteq> in_channel j"
  shows "incidents_ok (sql_update sel (change_row IReopen now) rows)"
proof (rule incidents_okI)
  let ?g = "\<lambda>i. if sel i then change_row IReopen now i else i"
  have keep: "in_id (change_row IReopen now i) = in_id i" "in_channel (change_row IReopen now i) = in_channel i"
    "in_deleted (change_row IReopen now i) = in_deleted i" "in_resolved (change_row IReopen now i) = None" for i
    by (simp_all add: change_row_def)
  show "distinct (map in_id (sql_update sel (change_row IReopen now) rows))"
    using incidents_okD(1) [OF ok] keep by (simp add: map_sql_update)
  have orig: "\<exists>j\<in>set rows. i = ?g j \<and> (sel j \<or> is_open j)"
    if "i \<in> unresolved (sql_update sel (change_row IReopen now) rows)" for i
    using that open_unresolved [OF ok] by (auto simp: unresolved_def set_sql_update)
  have chan: "in_channel (?g j) = in_channel j" for j using keep by simp
  have same: "i = j" if "i \<in> set rows" "j \<in> set rows" "sel i \<or> is_open i" "sel j \<or> is_open j" "in_channel i = in_channel j" for i j
  proof -
    consider (both) "sel i" "sel j" | (one) "sel i" "\<not> sel j" | (two) "\<not> sel i" "sel j"
      | (none) "\<not> sel i" "\<not> sel j" by blast
    then show ?thesis
    proof cases
      case both
      with that show ?thesis by (intro inj_onD [OF inj]) auto
    next
      case one
      with that others [of i j] show ?thesis by simp
    next
      case two
      with that others [of j i] show ?thesis by simp
    next
      case none
      with that open_unresolved [OF ok] show ?thesis
        by (intro inj_onD [OF incidents_okD(2) [OF ok]]) (auto simp: unresolved_def)
    qed
  qed
  show "inj_on in_channel (unresolved (sql_update sel (change_row IReopen now) rows))"
  proof (rule inj_onI)
    fix i j assume i: "i \<in> unresolved (sql_update sel (change_row IReopen now) rows)"
      and j: "j \<in> unresolved (sql_update sel (change_row IReopen now) rows)" and eq: "in_channel i = in_channel j"
    from orig [OF i] obtain i' where i': "i' \<in> set rows" "i = ?g i'" "sel i' \<or> is_open i'" by blast
    from orig [OF j] obtain j' where j': "j' \<in> set rows" "j = ?g j'" "sel j' \<or> is_open j'" by blast
    from eq i'(2) j'(2) have "in_channel i' = in_channel j'" by (simp only: chan)
    with same i' j' have "i' = j'" by blast
    with i'(2) j'(2) show "i = j" by (simp only:)
  qed
  fix i assume "i \<in> set (sql_update sel (change_row IReopen now) rows)" "in_resolved i = None"
  then show "in_deleted i = None" using keep sel incidents_okD(4) [OF ok]
    by (auto simp: set_sql_update split: if_splits)
qed

section \<open>Every operation\<close>

text \<open>How a row may change: never after it was deleted, and its channel and opening never at all.\<close>

definition incident_can :: "incident \<Rightarrow> incident \<Rightarrow> bool" where
  "incident_can i i' = (in_id i' = in_id i \<and> in_channel i' = in_channel i \<and> in_opened i' = in_opened i
     \<and> (in_deleted i \<noteq> None \<longrightarrow> i' = i))"

definition uniq_violation :: err where
  "uniq_violation = ErrConstraint ''uniq_open_incident_channel''"

definition sound :: "probe_db \<Rightarrow> 'a res \<times> probe_db \<Rightarrow> bool" where
  "sound db rs = (fst rs \<noteq> Inl uniq_violation \<and> incidents_ok (pdb_incidents (snd rs))
     \<and> keeps_rows in_id incident_can (pdb_incidents db) (pdb_incidents (snd rs)))"

lemma incident_can_refl [simp]: "incident_can i i"
  by (simp add: incident_can_def)

lemma incident_can_trans: "incident_can a b \<Longrightarrow> incident_can b c \<Longrightarrow> incident_can a c"
  unfolding incident_can_def by metis

lemma sound_if: "(c \<Longrightarrow> sound db a) \<Longrightarrow> (\<not> c \<Longrightarrow> sound db b) \<Longrightarrow> sound db (if c then a else b)"
  by simp

lemma sound_case:
  "(\<And>e. r = Inl e \<Longrightarrow> sound db (f e)) \<Longrightarrow> (\<And>x. r = Inr x \<Longrightarrow> sound db (g x))
   \<Longrightarrow> sound db (case r of Inl e \<Rightarrow> f e | Inr x \<Rightarrow> g x)"
  by (cases r) simp_all

lemma sound_option:
  "(r = None \<Longrightarrow> sound db a) \<Longrightarrow> (\<And>x. r = Some x \<Longrightarrow> sound db (g x))
   \<Longrightarrow> sound db (case r of None \<Rightarrow> a | Some x \<Rightarrow> g x)"
  by (cases r) simp_all

lemma sound_prod: "(\<And>x y. r = (x, y) \<Longrightarrow> sound db (g x y)) \<Longrightarrow> sound db (case r of (x, y) \<Rightarrow> g x y)"
  by (cases r) simp

lemma sound_same:
  "incidents_ok (pdb_incidents db) \<Longrightarrow> pdb_incidents db' = pdb_incidents db \<Longrightarrow> r \<noteq> Inl uniq_violation \<Longrightarrow> sound db (r, db')"
  by (simp add: sound_def keeps_rows_refl)

lemma sound_update:
  assumes "incidents_ok (sql_update p f (pdb_incidents db))" and "r \<noteq> Inl uniq_violation"
    and "pdb_incidents db' = sql_update p f (pdb_incidents db)"
    and "\<And>i. p i \<Longrightarrow> incident_can i (f i)"
  shows "sound db (r, db')"
  using assms(1,2) keeps_rows_update [of incident_can p in_id f] assms(4)
  unfolding sound_def assms(3) fst_conv snd_conv assms(3)
  by (simp add: assms(3) incident_can_def)

lemma sound_insert:
  assumes "incidents_ok (rows @ [new])" and "r \<noteq> Inl uniq_violation"
    and "pdb_incidents db' = rows @ [new]" and "keeps_rows in_id incident_can (pdb_incidents db) rows"
  shows "sound db (r, db')"
  using assms keeps_rows_trans [OF incident_can_trans assms(4) keeps_rows_append] by (simp add: sound_def)

lemmas sound_branches = sound_if sound_case sound_option sound_prod

lemma lookup_errors:
  "query_row p rows = Inl e \<Longrightarrow> e = ErrNoRows"
  "incident_for_org iid org db = Inl e \<Longrightarrow> e = ErrNoRows"
  "incident_channel_for_org cid org db = Inl e \<Longrightarrow> e = ErrNoRows"
  "incident_by_id org iid db = Inl e \<Longrightarrow> e = ErrNoRows"
  by (auto simp: query_row_Inl incident_for_org_def incident_channel_for_org_def incident_by_id_def
      split: list.splits sum.splits)

lemma not_uniq [simp]:
  "ErrNoRows \<noteq> uniq_violation" "err_invalid_incident \<noteq> uniq_violation" "err_open_incident \<noteq> uniq_violation"
  "uniq_violation \<noteq> ErrNoRows" "uniq_violation \<noteq> err_invalid_incident" "uniq_violation \<noteq> err_open_incident"
  by (simp_all add: uniq_violation_def err_invalid_incident_def err_open_incident_def)

lemma by_id_not_uniq [simp]: "incident_by_id org iid db \<noteq> Inl uniq_violation"
  using lookup_errors(4) by force

lemma for_org_row:
  assumes "distinct (map in_id (pdb_incidents db))" and "incident_for_org iid org db = Inr (w, c)"
    and "i \<in> set (pdb_incidents db)" and "in_id i = iid"
  shows "in_channel i = c"
proof -
  let ?rows = "[(i, c). i \<leftarrow> filter (\<lambda>i. in_id i = iid \<and> in_deleted i = None) (pdb_incidents db),
      c \<leftarrow> filter (\<lambda>c. pc_id c = in_channel i \<and> org_matches (trim_space org) c) (pdb_channels db)]"
  from assms(2) obtain j d rest where rows: "?rows = (j, d) # rest" and c: "c = in_channel j"
    by (auto simp: incident_for_org_def split: list.splits)
  have "(j, d) \<in> set ?rows" unfolding rows by simp
  then have "j \<in> set (pdb_incidents db)" "in_id j = iid" by auto
  with distinct_key_unique [OF assms(1,3)] assms(4) c show ?thesis by metis
qed

lemma resolve_can: "is_open i \<Longrightarrow> incident_can i (i\<lparr>in_resolved := Some t\<rparr>)"
  by (simp add: incident_can_def is_open_def)

lemma change_can: "in_deleted i = None \<Longrightarrow> incident_can i (change_row ch t i)"
  by (cases ch) (simp_all add: incident_can_def change_row_def)

lemma resolve_ok:
  "incidents_ok rows \<Longrightarrow> incidents_ok (resolve_incidents p t rows)"
  unfolding resolve_incidents_def by (rule incidents_ok_shrink) simp_all

lemma change_ok:
  assumes "incidents_ok rows" and "ch \<noteq> IReopen"
  shows "incidents_ok (sql_update p (change_row ch t) rows)"
  using assms by (cases ch) (auto intro!: incidents_ok_shrink simp: change_row_def Let_def split: option.splits)

lemma open_after_resolve:
  "i \<in> set (resolve_incidents p t rows) \<Longrightarrow> is_open i \<Longrightarrow> i \<in> set rows \<and> \<not> p i"
  by (auto simp: resolve_incidents_def set_sql_update is_open_def split: if_splits)

definition fine :: "probe_db \<Rightarrow> probe_db res \<Rightarrow> bool" where
  "fine db r = (case r of Inl e \<Rightarrow> e \<noteq> uniq_violation
     | Inr db' \<Rightarrow> incidents_ok (pdb_incidents db') \<and> keeps_rows in_id incident_can (pdb_incidents db) (pdb_incidents db'))"

lemma fine_if: "(c \<Longrightarrow> fine db a) \<Longrightarrow> (\<not> c \<Longrightarrow> fine db b) \<Longrightarrow> fine db (if c then a else b)"
  by simp

lemma fine_option:
  "(r = None \<Longrightarrow> fine db a) \<Longrightarrow> (\<And>x. r = Some x \<Longrightarrow> fine db (g x))
   \<Longrightarrow> fine db (case r of None \<Rightarrow> a | Some x \<Rightarrow> g x)"
  by (cases r) simp_all

lemma fine_error: "e \<noteq> uniq_violation \<Longrightarrow> fine db (Inl e)"
  by (simp add: fine_def)

lemma fine_done:
  "incidents_ok rows \<Longrightarrow> keeps_rows in_id incident_can (pdb_incidents db) rows
   \<Longrightarrow> pdb_incidents db' = rows \<Longrightarrow> fine db (Inr db')"
  by (simp add: fine_def)

lemma change_fine:
  assumes ok: "incidents_ok (pdb_incidents db)"
  shows "fine db (change_incidents cid org decision uuid now db)"
proof -
  let ?mine = "\<lambda>i. in_channel i = cid \<and> is_open i"
  let ?other = "\<lambda>i. ?mine i \<and> in_status i \<noteq> decision"
  let ?rows = "resolve_incidents ?other now (pdb_incidents db)"
  have kept: "keeps_rows in_id incident_can (pdb_incidents db) (resolve_incidents p now (pdb_incidents db))"
    if "\<And>i. p i \<Longrightarrow> is_open i" for p
    unfolding resolve_incidents_def using that by (intro keeps_rows_update) (auto intro: resolve_can)
  have kept_rows: "keeps_rows in_id incident_can (pdb_incidents db) ?rows" by (rule kept) simp
  have kept_new: "keeps_rows in_id incident_can (pdb_incidents db) (?rows @ [new])" for new
    by (rule keeps_rows_trans [OF incident_can_trans kept_rows keeps_rows_append]) simp_all
  have fresh: "incidents_ok (?rows @ [new])"
    if "\<not> sql_exists (\<lambda>i. ?mine i \<and> in_status i = decision) ?rows" "\<not> sql_exists (\<lambda>i. in_id i = in_id new) ?rows"
      "in_deleted new = None" "in_channel new = cid" for new
  proof (rule incidents_ok_insert [OF resolve_ok [OF ok] that(2,3)])
    fix i assume i: "i \<in> set ?rows" "is_open i"
    from open_after_resolve [OF i] have "\<not> ?other i" by blast
    with that(1) i that(4) show "in_channel i \<noteq> in_channel new" by (auto simp: sql_exists_iff)
  qed
  have no_index: False
    if "\<not> index_ok (?rows @ [new])" "\<not> sql_exists (\<lambda>i. ?mine i \<and> in_status i = decision) ?rows"
      "\<not> sql_exists (\<lambda>i. in_id i = in_id new) ?rows" "in_deleted new = None" "in_channel new = cid" for new
    using fresh [OF that(2-5)] that(1) by (blast dest: incidents_okD(3))
  show ?thesis
    unfolding change_incidents_def Let_def
    apply (intro fine_if fine_option)
          apply (rule fine_done [OF resolve_ok [OF ok, of ?mine now] kept]; simp)
         apply (rule fine_error; simp)
        apply (rule fine_done [OF resolve_ok [OF ok, of ?other now] kept_rows]; simp)
       apply (rule fine_error; simp add: uniq_violation_def)
      apply (rule FalseE, erule (2) no_index; simp)
     apply (rule fine_done [OF fresh kept_new]; assumption?; simp)
    apply (rule fine_done [OF ok keeps_rows_refl]; simp)
    done
qed

lemma sound_probe:
  assumes "incidents_ok (pdb_incidents db)"
  shows "sound db (apply_probe_status cid decision error_type l1 l2 l3 uuid now db)"
proof -
  have change: "sound db (case change_incidents cid org decision uuid now db1 of
      Inl e \<Rightarrow> (Inl e, db) | Inr db2 \<Rightarrow> (Inr (), db2\<lparr>pdb_audits := a db2\<rparr>))"
    if "pdb_incidents db1 = pdb_incidents db" for db1 org a
    using change_fine [of db1 cid org decision uuid now] assms that
    by (auto simp: fine_def sound_def keeps_rows_refl split: sum.split)
  show ?thesis
    unfolding apply_probe_status_def Let_def
    by (intro sound_branches change sound_same assms) (auto dest: lookup_errors)
qed

lemma sound_create:
  assumes ok: "incidents_ok (pdb_incidents db)"
  shows "sound db (create_incident org inp uuid now db)"
proof -
  have fresh: "incidents_ok (pdb_incidents db @ [new])"
    if "\<not> sql_exists (\<lambda>i. in_channel i = cid \<and> is_open i) (pdb_incidents db)" "in_channel new = cid"
      "\<not> sql_exists (\<lambda>i. in_id i = in_id new) (pdb_incidents db)" "in_deleted new = None" for new cid
    using that by (intro incidents_ok_insert ok) (auto simp: sql_exists_iff)
  show ?thesis
    unfolding create_incident_def Let_def
    apply (intro sound_branches)
           apply (rule sound_same [OF ok]; simp)
          apply (rule sound_same [OF ok]; simp; auto dest: lookup_errors)
         apply (rule sound_same [OF ok]; simp)
        apply (rule sound_same [OF ok]; simp add: uniq_violation_def)
       apply (rule sound_same [OF ok]; simp add: uniq_violation_def)
      apply (erule notE; rule incidents_okD(3); rule fresh; simp)
     apply (rule sound_insert; (rule fresh)?; simp add: keeps_rows_refl)
    done
qed

lemma sound_edit:
  assumes ok: "incidents_ok (pdb_incidents db)"
  shows "sound db (update_incident org iid inp db)"
proof -
  have rows: "incidents_ok (sql_update p (\<lambda>i. i\<lparr>in_status := st, in_title := ti\<rparr>) (pdb_incidents db))" for p st ti
    by (rule incidents_ok_shrink [OF ok]) simp
  show ?thesis
    unfolding update_incident_def Let_def
    apply (intro sound_branches)
         apply (rule sound_same [OF ok]; simp)
        apply (rule sound_same [OF ok]; simp; auto dest: lookup_errors)
       apply (rule sound_same [OF ok]; simp add: uniq_violation_def)
      apply (rule sound_same [OF ok]; simp)
     apply (rule sound_update [where p = "\<lambda>i. in_id i = trim_space iid \<and> in_deleted i = None"
           and f = "\<lambda>i. i\<lparr>in_status := ii_status (normalize_incident_input inp),
             in_title := ii_title (normalize_incident_input inp)\<rparr>"]; simp add: rows incident_can_def)
    done
qed

lemma reopen_one_ok:
  assumes ok: "incidents_ok (pdb_incidents db)" and "incident_for_org iid org db = Inr (w, cid)"
    and "\<not> sql_exists (\<lambda>i. in_channel i = cid \<and> in_id i \<noteq> iid \<and> is_open i) (pdb_incidents db)"
  shows "incidents_ok (sql_update (\<lambda>i. in_id i = iid \<and> in_deleted i = None) (change_row IReopen now) (pdb_incidents db))"
proof (rule incidents_ok_reopen [OF ok])
  let ?sel = "\<lambda>i. in_id i = iid \<and> in_deleted i = None"
  note ids = incidents_okD(1) [OF ok]
  show "inj_on in_channel {i \<in> set (pdb_incidents db). ?sel i}"
    by (rule inj_onI) (auto dest: distinct_key_unique [OF ids])
  show "in_channel i \<noteq> in_channel j"
    if "i \<in> set (pdb_incidents db)" "j \<in> set (pdb_incidents db)" "?sel i" "\<not> ?sel j" "is_open j" for i j
    using that for_org_row [OF ids assms(2) that(1)] assms(3) by (auto simp: sql_exists_iff is_open_def)
qed simp

lemma sound_state:
  assumes ok: "incidents_ok (pdb_incidents db)"
  shows "sound db (update_incident_state org iid0 ch message now db)"
proof -
  let ?iid = "trim_space iid0"
  let ?rows = "sql_update (\<lambda>i. in_id i = ?iid \<and> in_deleted i = None) (change_row ch now) (pdb_incidents db)"
  have rows: "incidents_ok ?rows"
    if "incident_for_org ?iid (trim_space org) db = Inr (w, cid)"
      and "\<not> (ch = IReopen \<and> sql_exists (\<lambda>i. in_channel i = cid \<and> in_id i \<noteq> ?iid \<and> is_open i) (pdb_incidents db))"
    for w cid
    using that by (cases "ch = IReopen") (auto intro: reopen_one_ok [OF ok] change_ok [OF ok])
  have no_index: False
    if "incident_for_org ?iid (trim_space org) db = Inr (w, cid)"
      and "\<not> (ch = IReopen \<and> sql_exists (\<lambda>i. in_channel i = cid \<and> in_id i \<noteq> ?iid \<and> is_open i) (pdb_incidents db))"
      and "\<not> index_ok ?rows" for w cid
    using rows [OF that(1,2)] that(3) by (blast dest: incidents_okD(3))
  note update = sound_update [where p = "\<lambda>i. in_id i = ?iid \<and> in_deleted i = None" and f = "change_row ch now"]
  show ?thesis
    unfolding update_incident_state_def Let_def
    apply (intro sound_branches)
           apply (rule sound_same [OF ok]; simp)
          apply (rule sound_same [OF ok]; simp; auto dest: lookup_errors)
         apply (rule sound_same [OF ok]; simp)
        apply (simp only: prod.inject, rule FalseE, erule (2) no_index)
       apply (rule sound_same [OF ok]; simp)
      apply (rule update, rule rows, simp, assumption; simp add: change_can)
     apply (rule update, rule rows, simp, assumption; simp add: change_can; auto dest: lookup_errors)
    apply (rule update, rule rows, simp, assumption; simp add: change_can)
    done
qed

text \<open>What a bulk change knows of the incidents it selects.\<close>

lemma bulk_states:
  assumes ids: "distinct (map in_id (pdb_incidents db))" and d: "distinct ids"
    and all: "length (remdups (map fst (incident_states org ids db))) = length ids"
    and i: "i \<in> set (pdb_incidents db)" "in_id i \<in> set ids"
  shows "\<exists>w. map_of (incident_states org ids db) (in_id i) = Some (w, in_channel i)"
proof -
  let ?st = "incident_states org ids db"
  have sub: "fst ` set ?st \<subseteq> set ids" by (auto simp: incident_states_def)
  have "card (fst ` set ?st) = card (set ids)"
    using all distinct_card [OF d] by (simp add: length_remdups_card_conv)
  with sub have "fst ` set ?st = set ids" by (simp add: card_subset_eq)
  with i(2) obtain v where v: "map_of ?st (in_id i) = Some v"
    by (metis map_of_eq_None_iff not_Some_eq)
  then have "(in_id i, v) \<in> set ?st" by (rule map_of_SomeD)
  then obtain j c where "j \<in> set (pdb_incidents db)" "in_id j = in_id i" "v = (channel_org c, in_channel j)"
    by (auto simp: incident_states_def)
  with distinct_key_unique [OF ids _ i(1)] v show ?thesis by auto
qed

lemma bulk_reopen_ok:
  assumes ok: "incidents_ok (pdb_incidents db)" and d: "distinct ids"
    and all: "length (remdups (map fst (incident_states org ids db))) = length ids"
    and chan: "chan = (\<lambda>i. case map_of (incident_states org ids db) i of Some (w, c) \<Rightarrow> c | None \<Rightarrow> [])"
    and chans: "distinct (map chan ids)"
    and free: "\<not> sql_exists (\<lambda>i. is_open i \<and> in_id i \<notin> set ids \<and> in_channel i \<in> set (map chan ids)) (pdb_incidents db)"
  shows "incidents_ok (sql_update (\<lambda>i. in_id i \<in> set ids \<and> in_deleted i = None) (change_row IReopen now) (pdb_incidents db))"
proof (rule incidents_ok_reopen [OF ok])
  let ?sel = "\<lambda>i. in_id i \<in> set ids \<and> in_deleted i = None"
  note ids = incidents_okD(1) [OF ok]
  have c: "chan (in_id i) = in_channel i" if "i \<in> set (pdb_incidents db)" "in_id i \<in> set ids" for i
    using bulk_states [OF ids d all that] by (auto simp: chan)
  from chans have inj: "inj_on chan (set ids)" by (simp add: distinct_map)
  show "inj_on in_channel {i \<in> set (pdb_incidents db). ?sel i}"
  proof (rule inj_onI)
    fix i j assume "i \<in> {i \<in> set (pdb_incidents db). ?sel i}" "j \<in> {i \<in> set (pdb_incidents db). ?sel i}"
      and eq: "in_channel i = in_channel j"
    then have i: "i \<in> set (pdb_incidents db)" "in_id i \<in> set ids" and j: "j \<in> set (pdb_incidents db)" "in_id j \<in> set ids"
      by auto
    from eq c [OF i] c [OF j] inj_onD [OF inj] i(2) j(2) have "in_id i = in_id j" by metis
    with distinct_key_unique [OF ids] i(1) j(1) show "i = j" by blast
  qed
  show "in_channel i \<noteq> in_channel j"
    if "i \<in> set (pdb_incidents db)" "j \<in> set (pdb_incidents db)" "?sel i" "\<not> ?sel j" "is_open j" for i j
  proof
    assume eq: "in_channel i = in_channel j"
    from that(4,5) have "in_id j \<notin> set ids" by (simp add: is_open_def)
    moreover from c [OF that(1)] that(3) eq have "in_channel j \<in> set (map chan ids)" by (metis imageI set_map)
    ultimately show False using free that(2,5) by (auto simp: sql_exists_iff)
  qed
qed simp

lemma sound_bulk:
  assumes ok: "incidents_ok (pdb_incidents db)"
  shows "sound db (bulk_update_incidents org action ids0 message now db)"
proof -
  let ?ids = "unique_trimmed [] ids0"
  let ?st = "incident_states org ?ids db"
  let ?chan = "\<lambda>i. case map_of ?st i of Some (w, c) \<Rightarrow> c | None \<Rightarrow> []"
  have d: "distinct ?ids" using unique_trimmed_props [of "[]" ids0] by blast
  have rows: "incidents_ok (sql_update (\<lambda>i. in_id i \<in> set ?ids \<and> in_deleted i = None) (change_row ch now) (pdb_incidents db))"
    if "\<not> length (remdups (map fst ?st)) \<noteq> length ?ids"
      and "\<not> (ch = IReopen \<and> \<not> distinct (map ?chan ?ids))"
      and "\<not> (ch = IReopen \<and> sql_exists (\<lambda>i. is_open i \<and> in_id i \<notin> set ?ids \<and> in_channel i \<in> set (map ?chan ?ids))
            (pdb_incidents db))" for ch
    using that by (cases "ch = IReopen") (auto intro: change_ok [OF ok] bulk_reopen_ok [OF ok d _ refl])
  note update = sound_update [where p = "\<lambda>i. in_id i \<in> set ?ids \<and> in_deleted i = None"]
  show ?thesis
    unfolding bulk_update_incidents_def Let_def
    apply (intro sound_branches)
           apply (rule sound_same [OF ok]; simp)
          apply (rule sound_same [OF ok]; simp)
         apply (rule sound_same [OF ok]; simp)
        apply (rule sound_same [OF ok]; simp)
       apply (rule sound_same [OF ok]; simp)
      apply (rule FalseE, drule (2) rows, blast dest: incidents_okD(3))
     apply (rule sound_same [OF ok]; simp)
    subgoal for ch by (rule update [where f = "change_row ch now"], rule rows; simp add: change_can)
    done
qed

section \<open>Over runs\<close>

lemma sound_outcome:
  assumes "incidents_ok (pdb_incidents db)"
  shows "fst (incident_outcome x db t) \<noteq> Some uniq_violation"
    and "incidents_ok (pdb_incidents (incident_step x db t))"
    and "keeps_rows in_id incident_can (pdb_incidents db) (pdb_incidents (incident_step x db t))"
proof -
  have failed: "failed_with r \<noteq> Some uniq_violation \<longleftrightarrow> r \<noteq> Inl uniq_violation" for r :: "'b res"
    by (cases r) (simp_all add: failed_with_def)
  show "fst (incident_outcome x db t) \<noteq> Some uniq_violation"
    "incidents_ok (pdb_incidents (incident_step x db t))"
    "keeps_rows in_id incident_can (pdb_incidents db) (pdb_incidents (incident_step x db t))"
    using sound_probe [OF assms] sound_create [OF assms] sound_edit [OF assms] sound_state [OF assms] sound_bulk [OF assms]
    by (cases x; simp add: sound_def incident_step_def failed)+
qed

interpretation incident_rows: row_lifecycle "\<lambda>db :: probe_db. incidents_ok (pdb_incidents db)" incident_step pdb_incidents in_id incident_can
proof
  fix s :: probe_db and x t k r
  assume ok: "incidents_ok (pdb_incidents s)"
  show "incidents_ok (pdb_incidents (incident_step x s t))" by (rule sound_outcome(2) [OF ok])
next
  fix s :: probe_db and x t k r
  assume ok: "incidents_ok (pdb_incidents s)" and "row_at in_id k (pdb_incidents s) = Some r"
  with sound_outcome(3) [OF ok] show "\<exists>r'. row_at in_id k (pdb_incidents (incident_step x s t)) = Some r' \<and> incident_can r r'"
    unfolding keeps_rows_def by blast
qed (simp, erule (1) incident_can_trans)


definition sample_channel :: probe_channel where
  "sample_channel = \<lparr>pc_id = ''c'', pc_name = ''n'', pc_owner_type = ''user'', pc_owner_id = Some ''u'', pc_org = Some ''o'',
     pc_status = ''healthy'', pc_score = 92, pc_deleted_at = None, pc_updated = 0\<rparr>"

definition sample_incident :: "string \<Rightarrow> string \<Rightarrow> time option \<Rightarrow> time option \<Rightarrow> incident" where
  "sample_incident i st res del = \<lparr>in_id = i, in_channel = ''c'', in_status = st, in_title = ''t'', in_opened = 1,
     in_resolved = res, in_deleted = del\<rparr>"

definition sample_db :: probe_db where
  "sample_db = \<lparr>pdb_channels = [sample_channel], pdb_runs = [], pdb_results = [], pdb_snapshots = [],
     pdb_incidents = [sample_incident ''a'' ''degraded'' None None, sample_incident ''b'' ''manual'' (Some 4) (Some 4),
       sample_incident ''d'' ''manual'' (Some 3) None],
     pdb_events = [], pdb_audits = []\<rparr>"

lemma sample_ok: "incidents_ok (pdb_incidents sample_db)"
  by (simp add: sample_db_def sample_incident_def incidents_ok_def index_ok_def)


text \<open>A deleted incident is final: no probe, edit, reopening or bulk change touches its row again.\<close>

theorem deleted_incident_final:
  assumes "incidents_ok (pdb_incidents db)" and "row_at in_id k (pdb_incidents db) = Some i"
    and "in_deleted i \<noteq> None"
  shows "row_at in_id k (pdb_incidents (store_run incident_step db es)) = Some i"
  using incident_rows.row_run [OF assms(1,2), of es] assms(3) by (auto simp: incident_can_def)

theorem deleted_incident_final_witness:
  "row_at in_id ''b'' (pdb_incidents (store_run incident_step sample_db
      [(OChangeIncident ''o'' ''b'' IReopen ''m'', 7), (OBulkIncidents ''o'' ''reopen'' [''b''] ''m'', 8)]))
    = Some (sample_incident ''b'' ''manual'' (Some 4) (Some 4))"
  by (rule deleted_incident_final [OF sample_ok])
    (simp_all add: row_at_def sample_db_def sample_incident_def)

section \<open>Status changes\<close>

definition open_of :: "string \<Rightarrow> probe_db \<Rightarrow> incident list" where
  "open_of cid db = filter (\<lambda>i. in_channel i = cid \<and> is_open i) (pdb_incidents db)"

lemma singleton_list: "distinct xs \<Longrightarrow> set xs = {x} \<Longrightarrow> xs = [x]"
  by (cases xs rule: remdups_adj.cases) auto

lemma open_of_unique:
  assumes ok: "incidents_ok rows" and i: "i \<in> set (filter (\<lambda>i. in_channel i = cid \<and> is_open i) rows)"
  shows "filter (\<lambda>i. in_channel i = cid \<and> is_open i) rows = [i]"
proof (rule singleton_list)
  let ?f = "filter (\<lambda>i. in_channel i = cid \<and> is_open i) rows"
  show "distinct ?f" using incidents_okD(1) [OF ok] by (auto simp: distinct_map)
  have "j = i" if "j \<in> set ?f" for j
    using that i open_unresolved [OF ok]
    by (intro inj_onD [OF incidents_okD(2) [OF ok]]) (auto simp: unresolved_def)
  with i show "set ?f = {i}" by blast
qed

lemma change_opens:
  assumes ok: "incidents_ok (pdb_incidents db)"
    and fresh: "\<not> sql_exists (\<lambda>i. in_id i = ''inc_'' @ uuid) (pdb_incidents db)"
  shows "case change_incidents cid org decision uuid now db of
      Inl e \<Rightarrow> False
    | Inr db' \<Rightarrow> (decision = ''healthy'' \<longrightarrow> open_of cid db' = [])
        \<and> (decision \<noteq> ''healthy'' \<longrightarrow> \<not> sql_exists (\<lambda>i. in_status i = ''manual'') (open_of cid db)
             \<longrightarrow> (\<exists>i. open_of cid db' = [i] \<and> in_status i = decision))
        \<and> pdb_channels db' = pdb_channels db \<and> (\<forall>c. c \<noteq> cid \<longrightarrow> open_of c db' = open_of c db)"
proof -
  let ?mine = "\<lambda>i. in_channel i = cid \<and> is_open i"
  let ?other = "\<lambda>i. ?mine i \<and> in_status i \<noteq> decision"
  let ?rows = "resolve_incidents ?other now (pdb_incidents db)"
  have other_channel: "filter (\<lambda>i. in_channel i = c \<and> is_open i) (resolve_incidents p now rows)
      = filter (\<lambda>i. in_channel i = c \<and> is_open i) rows" if "c \<noteq> cid" "\<And>i. p i \<Longrightarrow> in_channel i = cid" for c p rows
    using that by (induction rows) (auto simp: resolve_incidents_def is_open_def)
  note others = other_channel [of _ ?mine] other_channel [of _ ?other] other_channel [of _ ?other, unfolded conj_assoc]
  have new_open: "is_open i = (in_resolved i = None)" if "in_deleted i = None" for i using that by (simp add: is_open_def)
  have none: "filter ?mine (resolve_incidents ?mine now rows) = []" for rows
    by (induction rows) (auto simp: resolve_incidents_def is_open_def)
  have ids: "sql_exists (\<lambda>i. in_id i = k) (resolve_incidents p now rows) = sql_exists (\<lambda>i. in_id i = k) rows" for k p rows
    by (induction rows) (auto simp: resolve_incidents_def sql_exists_def)
  have same: "\<exists>i. filter ?mine ?rows = [i] \<and> in_status i = decision"
    if "sql_exists (\<lambda>i. ?mine i \<and> in_status i = decision) ?rows"
    using that open_of_unique [OF resolve_ok [OF ok, of ?other now], of _ cid] by (auto simp: sql_exists_iff)
  have empty: "filter ?mine ?rows = []" if "\<not> sql_exists (\<lambda>i. ?mine i \<and> in_status i = decision) ?rows"
    using that open_after_resolve [of _ ?other now "pdb_incidents db"]
    by (fastforce simp: sql_exists_iff filter_empty_conv)
  have manual: "sql_exists (\<lambda>i. in_status i = ''manual'') (open_of cid db)
      \<longleftrightarrow> filter (\<lambda>i. ?mine i \<and> in_status i = ''manual'') (pdb_incidents db) \<noteq> []"
    by (auto simp: open_of_def sql_exists_iff filter_empty_conv)
  have ok': "index_ok (?rows @ [new])"
    if "\<not> sql_exists (\<lambda>i. ?mine i \<and> in_status i = decision) ?rows" "in_id new = ''inc_'' @ uuid" "in_channel new = cid"
      "in_deleted new = None" for new
    using that fresh empty [OF that(1)]
    by (intro incidents_okD(3) incidents_ok_insert [OF resolve_ok [OF ok]]) (auto simp: ids filter_empty_conv)
  show ?thesis
  proof (cases "decision = ''healthy''")
    case True
    then show ?thesis by (simp add: change_incidents_def Let_def open_of_def none others)
  next
    case False
    show ?thesis
    proof (cases "first_by (\<lambda>i. - in_opened i) (filter (\<lambda>i. ?mine i \<and> in_status i = ''manual'') (pdb_incidents db))")
      case (Some m)
      then have "sql_exists (\<lambda>i. in_status i = ''manual'') (open_of cid db)" unfolding manual by force
      with False Some show ?thesis by (simp add: change_incidents_def Let_def open_of_def)
    next
      case None
      show ?thesis
      proof (cases "sql_exists (\<lambda>i. ?mine i \<and> in_status i = decision) ?rows")
        case True
        then obtain f where "first_by (\<lambda>i. - in_opened i) (filter (\<lambda>i. ?mine i \<and> in_status i = decision) ?rows) = Some f"
          by (cases "first_by (\<lambda>i. - in_opened i) (filter (\<lambda>i. ?mine i \<and> in_status i = decision) ?rows)")
            (auto simp: sql_exists_iff filter_empty_conv)
        with False None True same [OF True] show ?thesis
          by (simp only: change_incidents_def Let_def option.case if_True if_False sum.case open_of_def
              others probe_db.simps) (simp add: others)
      next
        case no: False
        with False None ok' [OF no] empty [OF no] fresh show ?thesis
          by (simp only: change_incidents_def Let_def option.case if_True if_False sum.case open_of_def ids
              incident.simps not_not simp_thms probe_db.simps) (simp add: others new_open)
      qed
    qed
  qed
qed

lemma status_change_effect:
  assumes ok: "incidents_ok (pdb_incidents db)" and "query_row (\<lambda>c. pc_id c = cid) (pdb_channels db) = Inr c"
    and "pc_status c \<noteq> ''disabled''" and "pc_status c \<noteq> ''deleted''" and "pc_deleted_at c = None"
    and "pc_status c \<noteq> decision"
    and fresh: "\<not> sql_exists (\<lambda>i. in_id i = ''inc_'' @ uuid) (pdb_incidents db)"
    and out: "apply_probe_status cid decision error_type l1 l2 l3 uuid now db = (r, db')"
  shows "r = Inr ()
    \<and> (\<forall>c'\<in>set (pdb_channels db'). pc_id c' = cid \<longrightarrow> pc_status c' = decision)
    \<and> (decision = ''healthy'' \<longrightarrow> open_of cid db' = [])
    \<and> (decision \<noteq> ''healthy'' \<and> \<not> sql_exists (\<lambda>i. in_status i = ''manual'') (open_of cid db)
        \<longrightarrow> (\<exists>i. open_of cid db' = [i] \<and> in_status i = decision))
    \<and> (\<forall>c'. c' \<noteq> cid \<longrightarrow> open_of c' db' = open_of c' db)"
proof -
  obtain rate l3_status l3_latency tokens cost where m: "snapshot_metrics cid decision l3 db = (rate, l3_status, l3_latency, tokens, cost)"
    by (metis prod.exhaust)
  define db1 where "db1 = db\<lparr>pdb_channels := sql_update (\<lambda>x. pc_id x = cid)
      (\<lambda>x. x\<lparr>pc_status := decision, pc_score := score_for_status decision rate, pc_updated := now\<rparr>) (pdb_channels db),
    pdb_snapshots := pdb_snapshots db @ [\<lparr>sn_channel = cid, sn_sampled = now, sn_status = decision,
      sn_score = score_for_status decision rate, sn_uptime = uptime_for_status decision, sn_success = rate,
      sn_latency = (if ls_latency l2 = 0 then ls_latency l1 else ls_latency l2),
      sn_l1_status = ls_status l1, sn_l2_status = ls_status l2, sn_l3_status = l3_status,
      sn_l1_latency = ls_latency l1, sn_l2_latency = ls_latency l2, sn_l3_latency = l3_latency,
      sn_tokens = tokens, sn_cost = cost, sn_error = null_text error_type\<rparr>]\<rparr>"
  have same: "pdb_incidents db1 = pdb_incidents db" by (simp add: db1_def)
  then have opened: "open_of k db1 = open_of k db" for k by (simp add: open_of_def)
  note change = change_opens [where db = db1 and uuid = uuid and cid = cid and org = "channel_org c" and decision = decision and now = now, unfolded same, OF ok fresh]
  have channels: "\<forall>c'\<in>set (pdb_channels db1). pc_id c' = cid \<longrightarrow> pc_status c' = decision"
  proof -
    have "\<forall>c'\<in>set (sql_update (\<lambda>x. pc_id x = cid)
        (\<lambda>x. x\<lparr>pc_status := decision, pc_score := sc, pc_updated := now\<rparr>) rows). pc_id c' = cid \<longrightarrow> pc_status c' = decision"
      for sc rows by (induction rows) simp_all
    moreover have "pdb_channels db1 = sql_update (\<lambda>x. pc_id x = cid)
        (\<lambda>x. x\<lparr>pc_status := decision, pc_score := score_for_status decision rate, pc_updated := now\<rparr>) (pdb_channels db)"
      by (simp add: db1_def)
    ultimately show ?thesis by (simp only:)
  qed
  have run: "apply_probe_status cid decision error_type l1 l2 l3 uuid now db =
      (case change_incidents cid (channel_org c) decision uuid now db1 of
         Inl e \<Rightarrow> (Inl e, db)
       | Inr db2 \<Rightarrow> (Inr (), db2\<lparr>pdb_audits := pdb_audits db2 @ [(''probe.status.changed'', cid)]\<rparr>))"
    using assms(2-6) m by (simp add: apply_probe_status_def db1_def Let_def)
  show ?thesis
  proof (cases "change_incidents cid (channel_org c) decision uuid now db1")
    case (Inl e)
    with change show ?thesis by (simp only: sum.case)
  next
    case (Inr db2)
    have aud: "open_of k (db2\<lparr>pdb_audits := a\<rparr>) = open_of k db2" for k a by (simp add: open_of_def)
    from out have r: "r = Inr ()" and db': "db' = db2\<lparr>pdb_audits := pdb_audits db2 @ [(''probe.status.changed'', cid)]\<rparr>"
      unfolding run Inr sum.case prod.inject by (rule sym [OF conjunct1], rule sym [OF conjunct2])
    have channels': "pdb_channels db' = pdb_channels db2" by (simp add: db')
    have opens: "open_of k db' = open_of k db2" for k unfolding db' by (rule aud)
    from change channels r show ?thesis
      unfolding Inr sum.case opened opens channels' by (elim conjE) (intro conjI; simp)
  qed
qed

text \<open>A probe that changes the status of a channel leaves the channel with that status and its
  incidents saying so: none open when it is healthy again, and otherwise, unless an operator keeps a
  manual one open, exactly one, of the new status; the incidents of other channels stay as they were.\<close>

theorem status_change_leaves_one_incident:
  assumes "incidents_ok (pdb_incidents db)" and "query_row (\<lambda>c. pc_id c = cid) (pdb_channels db) = Inr c"
    and "pc_status c \<noteq> ''disabled''" and "pc_status c \<noteq> ''deleted''" and "pc_deleted_at c = None"
    and "pc_status c \<noteq> decision"
    and "\<not> sql_exists (\<lambda>i. in_id i = ''inc_'' @ uuid) (pdb_incidents db)"
    and "apply_probe_status cid decision error_type l1 l2 l3 uuid now db = (r, db')"
  shows "r = Inr ()
    \<and> (\<forall>c'\<in>set (pdb_channels db'). pc_id c' = cid \<longrightarrow> pc_status c' = decision)
    \<and> (decision = ''healthy'' \<longrightarrow> open_of cid db' = [])
    \<and> (decision \<noteq> ''healthy'' \<and> \<not> sql_exists (\<lambda>i. in_status i = ''manual'') (open_of cid db)
        \<longrightarrow> (\<exists>i. open_of cid db' = [i] \<and> in_status i = decision))
    \<and> (\<forall>c'. c' \<noteq> cid \<longrightarrow> open_of c' db' = open_of c' db)"
  using status_change_effect [OF assms] .

theorem status_change_leaves_one_incident_witness:
  "\<exists>i. open_of ''c'' (snd (apply_probe_status ''c'' ''functional_down'' ''e'' na_layer na_layer na_layer ''x'' 7 sample_db)) = [i]
     \<and> in_status i = ''functional_down''"
  using status_change_leaves_one_incident [of sample_db "''c''" sample_channel "''functional_down''" "''x''" "''e''"
      na_layer na_layer na_layer 7 "fst (apply_probe_status ''c'' ''functional_down'' ''e'' na_layer na_layer na_layer ''x'' 7 sample_db)"
      "snd (apply_probe_status ''c'' ''functional_down'' ''e'' na_layer na_layer na_layer ''x'' 7 sample_db)", OF sample_ok]
  by (simp add: query_row_def sample_db_def sample_incident_def sample_channel_def sql_exists_def open_of_def is_open_def)

section \<open>Where a title is cut\<close>

lemma three_bytes_invalid:
  assumes "\<And>c. c \<in> set cs \<Longrightarrow> length c = 3 \<and> 224 \<le> (of_char (hd c) :: nat) \<and> (of_char (hd c) :: nat) < 240"
    and "224 \<le> (of_char a :: nat)" and "(of_char a :: nat) < 240"
  shows "\<not> valid_utf8 (concat cs @ [a])"
  using assms
proof (induction cs)
  case (Cons c cs)
  from Cons.prems(1) [of c] obtain x y z where c: "c = [x, y, z]"
    by (auto simp: length_Suc_conv numeral_3_eq_3)
  from Cons.prems(1) [of c] c have "lead_width x = 3" by (simp add: lead_width_def byte_of_def Let_def)
  then have "rune_width (x # y # z # concat cs @ [a]) \<in> {0, 3}" by (simp add: Let_def)
  moreover have "\<not> valid_utf8 (concat cs @ [a])" using Cons by simp
  ultimately have "\<not> valid_utf8 (x # y # z # concat cs @ [a])" by (subst valid_utf8_step) auto
  then show ?case by (simp add: c)
next
  case Nil
  then have "rune_width [a] = 0" by (simp add: lead_width_def byte_of_def Let_def)
  then show ?case by (subst valid_utf8_step) simp_all
qed

lemma rejected_prod: "(\<And>x y. r = (x, y) \<Longrightarrow> rejected s (g x y)) \<Longrightarrow> rejected s (case r of (x, y) \<Rightarrow> g x y)"
  by (cases r) simp

text \<open>A title of 54 or more three-byte characters, the usual length of a Chinese sentence, is
  cut after 160 bytes, in the middle of a character, and the incident is rejected by the database
  whatever the channel: \<open>create_incident\<close> fails and changes nothing.\<close>

theorem long_chinese_title_rejected:
  assumes "\<forall>c\<in>set cs. length c = 3 \<and> 224 \<le> (of_char (hd c) :: nat) \<and> (of_char (hd c) :: nat) < 240"
    and "54 \<le> length cs" and "ii_title inp = concat cs" and "trim_space (concat cs) = concat cs"
  shows "\<not> is_ok (fst (create_incident org inp uuid now db)) \<and> snd (create_incident org inp uuid now db) = db"
proof -
  have len: "length (concat xs) = 3 * length xs" if "set xs \<subseteq> set cs" for xs
    using that assms(1) by (induction xs) auto
  define d where "d = cs ! 53"
  have cs: "cs = take 53 cs @ d # drop 54 cs"
    using id_take_nth_drop [of 53 cs] assms(2) by (simp add: d_def)
  have d: "d \<in> set cs" using assms(2) by (simp add: d_def)
  with assms(1) obtain a e f where "d = [a, e, f]" by (auto simp: length_Suc_conv numeral_3_eq_3 dest!: bspec [of _ _ d])
  moreover have "length (concat (take 53 cs)) = 159"
    using len [of "take 53 cs"] assms(2) set_take_subset [of 53 cs] by simp
  ultimately have cut: "take 160 (concat cs) = concat (take 53 cs) @ [a]"
    by (subst cs) simp
  have "\<not> valid_utf8 (concat (take 53 cs) @ [a])"
    using assms(1) d \<open>d = [a, e, f]\<close> by (intro three_bytes_invalid) (auto dest: in_set_takeD)
  moreover have "ii_title (normalize_incident_input inp) = take 160 (concat cs)"
    using assms(2-4) len [of cs] by (simp add: normalize_incident_input_def Let_def)
  ultimately have bad: "\<not> valid_utf8 (ii_title (normalize_incident_input inp))" by (simp add: cut)
  have "rejected db (create_incident org inp uuid now db)"
    unfolding create_incident_def Let_def
    by (intro rejections rejected_prod) (use bad in blast)+
  then show ?thesis by (simp add: rejected_def)
qed

definition sample_char :: string where
  "sample_char = [CHR 0xE6, CHR 0x88, CHR 0x90]"

definition sample_input :: incident_input where
  "sample_input = \<lparr>ii_channel = ''c'', ii_status = [], ii_title = concat (replicate 54 sample_char), ii_message = []\<rparr>"

theorem long_chinese_title_rejected_witness:
  "snd (create_incident ''o'' sample_input ''x'' 7 sample_db) = sample_db"
proof -
  have "trim_space (concat (replicate 54 sample_char)) = concat (replicate 54 sample_char)" by code_simp
  with long_chinese_title_rejected [of "replicate 54 sample_char" sample_input "''o''" "''x''" 7 sample_db] show ?thesis
    by (simp add: sample_char_def sample_input_def)
qed

end
