(* ===== verification/Probe_Runner.thy ===== *)
theory Probe_Runner
  imports Probe_Safety Incident_Safety
begin

text \<open>
  One probe of one layer from the request to the channel's status, \<open>internal/prober/runner.go\<close>:
  \<open>RunLayerWithIDAndCredential\<close> looks the target up, records the run, decrypts the credential,
  runs the layer and \<open>persistProbeOutcome\<close> stores the steps, completes the run and derives the
  channel's status from the latest summaries of all three layers. The executor's answer
  (\<open>Probe_Status\<close>), the outcome of \<open>probeCredential\<close> and the columns of the channel that only the
  executor reads are arguments.
\<close>

section \<open>Operations\<close>

definition supported_layer :: "string \<Rightarrow> bool" where
  "supported_layer layer = (layer \<in> {''l1'', ''l2'', ''l3''})"

definition layer_needs_credential :: "string \<Rightarrow> bool" where
  "layer_needs_credential layer = (layer = ''l2'' \<or> layer = ''l3'')"

definition credential_failure_steps :: "string \<Rightarrow> step_result list" where
  "credential_failure_steps layer =
     [(blank_step (if layer = ''l2'' then ''models'' else if layer = ''l3'' then ''generate'' else ''probe'') ''auth_error'')
        \<lparr>sr_error := ''auth_error'', sr_meta := [(''reason'', JStr ''credential_invalid'')]\<rparr>]"

definition run_status :: "layer_summary \<Rightarrow> string" where
  "run_status s = (if ls_status s = ''down'' \<or> ls_status s = ''auth_error'' then ''failed'' else ''success'')"

definition current_decision :: "string \<Rightarrow> probe_db \<Rightarrow> status_decision" where
  "current_decision cid db = synthesize_with_l3 (latest_layer_summary cid ''l1'' db)
     (latest_layer_summary cid ''l2'' db) (latest_layer_summary cid ''l3'' db)"

definition apply_current_status :: "string \<Rightarrow> string \<Rightarrow> time \<Rightarrow> probe_db \<Rightarrow> unit res \<times> probe_db" where
  "apply_current_status cid uuid now db =
     (let d = current_decision cid db
      in apply_probe_status cid (sd_status d) (sd_error d) (latest_layer_summary cid ''l1'' db)
           (latest_layer_summary cid ''l2'' db) (latest_layer_summary cid ''l3'' db) uuid now db)"

text \<open>The instants: one per stored step, then the completion and the status change.\<close>

definition persist_probe_outcome ::
  "string \<Rightarrow> string \<Rightarrow> string \<Rightarrow> step_result list \<Rightarrow> time list \<Rightarrow> time \<Rightarrow> string \<Rightarrow> time \<Rightarrow> probe_db
    \<Rightarrow> layer_summary res \<times> probe_db"
where
  "persist_probe_outcome rid cid layer steps ts t1 uuid t2 db =
     (let db1 = upsert_probe_results rid cid layer (zip steps ts) db;
          summary = summarize steps;
          db2 = complete_probe_run rid (run_status summary) (ls_error summary) t1 db1
      in case apply_current_status cid uuid t2 db2 of
           (Inl e, db3) \<Rightarrow> (Inl e, db3)
         | (Inr _, db3) \<Rightarrow> (Inr summary, db3))"

definition err_target :: err where "err_target = ErrNamed ''probe target not found''"

definition err_layer :: err where "err_layer = ErrNamed ''unsupported probe layer''"

definition run_layer ::
  "(probe_channel \<Rightarrow> probe_target) \<Rightarrow> (probe_target \<Rightarrow> string res) \<Rightarrow> (probe_target \<Rightarrow> string \<Rightarrow> step_result list)
    \<Rightarrow> string \<Rightarrow> string \<Rightarrow> string \<Rightarrow> string \<Rightarrow> obj \<Rightarrow> time \<Rightarrow> time list \<Rightarrow> time \<Rightarrow> string \<Rightarrow> time \<Rightarrow> probe_db
    \<Rightarrow> unit res \<times> probe_db"
where
  "run_layer info credential execute rid cid layer source snapshot t0 ts t1 uuid t2 db =
     (if \<not> supported_layer layer then (Inl err_layer, db)
      else case query_row (\<lambda>c. pc_id c = cid \<and> pc_status c \<noteq> ''deleted'' \<and> pc_deleted_at c = None) (pdb_channels db) of
        Inl e \<Rightarrow> (Inl err_target, db)
      | Inr c \<Rightarrow>
          (let t = info c;
               db1 = upsert_probe_run rid cid layer source snapshot t0 db;
               needs = (layer_needs_credential layer \<and> \<not> (layer = ''l2'' \<and> l2_probe_mode t = ''skip''))
           in case (if needs then credential t else Inr []) of
                Inl e \<Rightarrow>
                  (Inl e, snd (persist_probe_outcome rid cid layer (credential_failure_steps layer) ts t1 uuid t2 db1))
              | Inr key \<Rightarrow>
                  (case persist_probe_outcome rid cid layer (execute t key) ts t1 uuid t2 db1 of
                     (Inl e, db2) \<Rightarrow> (Inl e, db2)
                   | (Inr _, db2) \<Rightarrow> (Inr (), db2))))"

section \<open>What a probe leaves\<close>

lemma change_keeps_runs:
  "change_incidents cid org d uuid now db = Inr db' \<Longrightarrow>
   pdb_runs db' = pdb_runs db \<and> pdb_results db' = pdb_results db"
  unfolding change_incidents_def Let_def
  by (auto split: if_split_asm option.split_asm)

lemma apply_keeps_runs:
  "pdb_runs (snd (apply_probe_status cid d e l1 l2 l3 uuid now db)) = pdb_runs db"
  "pdb_results (snd (apply_probe_status cid d e l1 l2 l3 uuid now db)) = pdb_results db"
  unfolding apply_probe_status_def Let_def
  by (auto dest: change_keeps_runs split: sum.split prod.split)

lemma latest_summary_cong:
  "pdb_runs db' = pdb_runs db \<Longrightarrow> pdb_results db' = pdb_results db
   \<Longrightarrow> latest_layer_summary cid layer db' = latest_layer_summary cid layer db"
  by (simp only: latest_layer_summary_def latest_run_def)

lemma channels_by_query:
  "query_row p rows = Inr c \<Longrightarrow> \<exists>rest. filter p rows = c # rest"
  by (cases "filter p rows") (auto simp: query_row_def)

lemma conj_forget: "a \<and> b \<and> c \<Longrightarrow> a \<and> b"
  by blast

text \<open>A decision on a channel that is neither disabled nor deleted always takes.\<close>

lemma apply_status_takes:
  assumes "incidents_ok (pdb_incidents db)" and "query_row (\<lambda>c. pc_id c = cid) (pdb_channels db) = Inr c"
    and "pc_status c \<noteq> ''disabled''" and "pc_status c \<noteq> ''deleted''" and "pc_deleted_at c = None"
    and "\<not> sql_exists (\<lambda>i. in_id i = ''inc_'' @ uuid) (pdb_incidents db)"
  shows "fst (apply_probe_status cid d e l1 l2 l3 uuid now db) = Inr ()
    \<and> (\<forall>c'\<in>set (pdb_channels (snd (apply_probe_status cid d e l1 l2 l3 uuid now db))). pc_id c' = cid \<longrightarrow> pc_status c' = d)"
proof (cases "pc_status c = d")
  case False
  show ?thesis
    by (rule status_change_effect [OF assms(1-5) False assms(6) surjective_pairing, THEN conj_forget])
next
  case True
  obtain rate l3_status l3_latency tokens cost where m: "snapshot_metrics cid d l3 db = (rate, l3_status, l3_latency, tokens, cost)"
    by (metis prod.exhaust)
  have "\<forall>c'\<in>set (sql_update (\<lambda>x. pc_id x = cid)
      (\<lambda>x. x\<lparr>pc_status := d, pc_score := sc, pc_updated := now\<rparr>) rows). pc_id c' = cid \<longrightarrow> pc_status c' = d"
    for sc rows by (induction rows) simp_all
  with True assms(2-5) m show ?thesis by (simp add: apply_probe_status_def Let_def)
qed

lemma cycle_other_layer:
  assumes "layer' \<noteq> layer" and "\<forall>r\<in>set (pdb_runs db). pn_id r \<noteq> rid"
    and "\<forall>r\<in>set (pdb_results db). pr_run r \<noteq> rid" and "distinct (map (sr_step \<circ> fst) ss)"
  shows "latest_layer_summary cid layer' (probe_cycle rid cid layer source meta t0 ss status err t1 db)
    = latest_layer_summary cid layer' db"
proof -
  let ?db = "probe_cycle rid cid layer source meta t0 ss status err t1 db"
  let ?rows = "map (\<lambda>(s, t). result_row rid cid layer s t) ss"
  have "\<not> sql_exists (\<lambda>r. pn_id r = rid) (pdb_runs db)" using assms(2) by (auto simp: sql_exists_iff)
  moreover have "sql_update (\<lambda>r. pn_id r = rid) f (pdb_runs db) = pdb_runs db" for f
    using assms(2) by (intro sql_update_none) auto
  ultimately obtain new where runs: "pdb_runs ?db = pdb_runs db @ [new]" and new: "pn_layer new = layer"
    by (auto simp: probe_cycle_def complete_probe_run_def upsert_probe_results_def upsert_probe_run_def sql_update_def)
  have results: "pdb_results ?db = pdb_results db @ ?rows"
    using upsert_results_fresh [of "pdb_results db" rid ss cid layer] assms(3,4)
    by (simp add: probe_cycle_def complete_probe_run_def upsert_probe_results_def upsert_probe_run_def)
  have none: "filter (\<lambda>r. p r \<and> pr_layer r = layer' \<and> q r) ?rows = []" for p q
    using assms(1) by (auto simp: filter_empty_conv)
  have "\<not> sql_exists (\<lambda>s. pr_run s = k \<and> pr_layer s = layer') ?rows" for k
    using assms(1) by (auto simp: sql_exists_iff)
  then have "sql_exists (\<lambda>s. pr_run s = k \<and> pr_layer s = layer') (pdb_results ?db)
      = sql_exists (\<lambda>s. pr_run s = k \<and> pr_layer s = layer') (pdb_results db)" for k
    unfolding results by (simp add: sql_exists_def)
  then have "latest_run cid layer' ?db = latest_run cid layer' db"
    using assms(1) new by (simp add: latest_run_def runs)
  then show ?thesis by (simp add: latest_layer_summary_def results none split: option.split)
qed

lemma live_found:
  assumes "query_row (\<lambda>c. pc_id c = cid) (pdb_channels db) = Inr c"
    and "pc_status c \<noteq> ''deleted''" "pc_deleted_at c = None"
  shows "query_row (\<lambda>c. pc_id c = cid \<and> pc_status c \<noteq> ''deleted'' \<and> pc_deleted_at c = None) (pdb_channels db) = Inr c"
proof -
  from channels_by_query [OF assms(1)] obtain rest where "filter (\<lambda>c. pc_id c = cid) (pdb_channels db) = c # rest" by blast
  then have "filter (\<lambda>c. pc_status c \<noteq> ''deleted'' \<and> pc_deleted_at c = None) (filter (\<lambda>c. pc_id c = cid) (pdb_channels db))
      = c # filter (\<lambda>c. pc_status c \<noteq> ''deleted'' \<and> pc_deleted_at c = None) rest"
    using assms(2,3) by simp
  then show ?thesis by (simp add: query_row_def conj_commute conj_left_commute)
qed

text \<open>What persisting the outcome of a fresh run does.\<close>

lemma persist_effect:
  assumes ok: "incidents_ok (pdb_incidents db)"
    and chan: "query_row (\<lambda>c. pc_id c = cid) (pdb_channels db) = Inr c"
    and live: "pc_status c \<noteq> ''disabled''" "pc_status c \<noteq> ''deleted''" "pc_deleted_at c = None"
    and steps: "steps \<noteq> []" "distinct (map sr_step steps)" and ts: "length ts = length steps" "sorted ts"
    and old: "\<forall>r\<in>set (pdb_runs db). pn_id r \<noteq> rid \<and> pn_started r < t0" "\<forall>r\<in>set (pdb_results db). pr_run r \<noteq> rid"
    and fresh: "\<not> sql_exists (\<lambda>i. in_id i = ''inc_'' @ uuid) (pdb_incidents db)"
  shows "\<exists>db'. persist_probe_outcome rid cid layer steps ts t1 uuid t2 (upsert_probe_run rid cid layer source snapshot t0 db)
        = (Inr (summarize steps), db')
    \<and> latest_layer_summary cid layer db' = summarize steps
    \<and> (\<forall>l. l \<noteq> layer \<longrightarrow> latest_layer_summary cid l db' = latest_layer_summary cid l db)
    \<and> (\<forall>c'\<in>set (pdb_channels db'). pc_id c' = cid \<longrightarrow> pc_status c' = sd_status (current_decision cid db'))
    \<and> sql_exists (\<lambda>x. pn_id x = rid \<and> pn_status x = run_status (summarize steps)) (pdb_runs db')"
proof -
  define ss where "ss = zip steps ts"
  have ss: "map fst ss = steps" "map snd ss = ts" "ss \<noteq> []" "distinct (map (sr_step \<circ> fst) ss)"
    using steps ts by (auto simp: ss_def simp flip: map_map)
  define db2 where "db2 = probe_cycle rid cid layer source snapshot t0 ss (run_status (summarize steps))
      (ls_error (summarize steps)) t1 db"
  have same: "pdb_incidents db2 = pdb_incidents db" "pdb_channels db2 = pdb_channels db"
    by (simp_all add: db2_def probe_cycle_def complete_probe_run_def upsert_probe_results_def upsert_probe_run_def)
  have stored: "sql_exists (\<lambda>x. pn_id x = rid \<and> pn_status x = run_status (summarize steps)) (pdb_runs db2)"
  proof -
    have "\<not> sql_exists (\<lambda>r. pn_id r = rid) (pdb_runs db)" using old(1) by (auto simp: sql_exists_iff)
    then show ?thesis
      by (simp add: db2_def probe_cycle_def complete_probe_run_def upsert_probe_results_def upsert_probe_run_def
          sql_update_def sql_exists_def)
  qed
  let ?a = "apply_current_status cid uuid t2 db2"
  have takes: "fst ?a = Inr () \<and> (\<forall>c'\<in>set (pdb_channels (snd ?a)). pc_id c' = cid \<longrightarrow> pc_status c' = sd_status (current_decision cid db2))"
    unfolding apply_current_status_def Let_def
    using ok chan live fresh by (intro apply_status_takes [where c = c]) (simp_all only: same not_False_eq_True)
  have keeps: "pdb_runs (snd ?a) = pdb_runs db2" "pdb_results (snd ?a) = pdb_results db2"
    unfolding apply_current_status_def Let_def by (rule apply_keeps_runs)+
  note latest = latest_summary_cong [OF keeps]
  from takes obtain dba where a: "?a = (Inr (), dba)" by (cases ?a) simp
  have "complete_probe_run rid (run_status (summarize steps)) (ls_error (summarize steps)) t1
      (upsert_probe_results rid cid layer (zip steps ts) (upsert_probe_run rid cid layer source snapshot t0 db)) = db2"
    by (simp add: db2_def probe_cycle_def ss_def)
  then have persist: "persist_probe_outcome rid cid layer steps ts t1 uuid t2 (upsert_probe_run rid cid layer source snapshot t0 db)
      = (Inr (summarize steps), dba)"
    by (simp add: persist_probe_outcome_def Let_def a)
  have "latest_layer_summary cid layer db2 = summarize steps"
    using stored_summary [of ss db rid t0 "run_status (summarize steps)" cid layer source snapshot "ls_error (summarize steps)" t1]
      ss old ts(2) by (simp add: db2_def run_status_def)
  moreover have "latest_layer_summary cid l db2 = latest_layer_summary cid l db" if "l \<noteq> layer" for l
    unfolding db2_def using that old ss(4) by (intro cycle_other_layer) auto
  moreover have "current_decision cid dba = current_decision cid db2"
    using latest by (simp add: a current_decision_def)
  ultimately show ?thesis using persist takes latest stored keeps by (simp add: a)
qed


definition sample_run :: "unit res \<times> probe_db" where
  "sample_run = run_layer (\<lambda>_. sample_target) (\<lambda>_. Inr ''k'') (\<lambda>_ _. [sample_step]) ''r'' ''c'' ''l3'' ''scheduled'' []
     5 [6] 7 ''x'' 8 sample_db"


text \<open>A generation probe whose stored credential cannot be decrypted returns that error, and yet
  stores the run and leaves the live channel with the status \<open>auth_error\<close>.\<close>

theorem undecryptable_credential_recorded:
  assumes "incidents_ok (pdb_incidents db)"
    and chan: "query_row (\<lambda>c. pc_id c = cid) (pdb_channels db) = Inr c"
    and live: "pc_status c \<noteq> ''disabled''" "pc_status c \<noteq> ''deleted''" "pc_deleted_at c = None"
    and cred: "credential (info c) = Inl e"
    and old: "\<forall>r\<in>set (pdb_runs db). pn_id r \<noteq> rid \<and> pn_started r < t0" "\<forall>r\<in>set (pdb_results db). pr_run r \<noteq> rid"
    and fresh: "\<not> sql_exists (\<lambda>i. in_id i = ''inc_'' @ uuid) (pdb_incidents db)"
    and out: "run_layer info credential execute rid cid ''l3'' source snapshot t0 [t] t1 uuid t2 db = (r, db')"
  shows "r = Inl e \<and> (\<forall>c'\<in>set (pdb_channels db'). pc_id c' = cid \<longrightarrow> pc_status c' = ''auth_error'')
    \<and> sql_exists (\<lambda>x. pn_id x = rid \<and> pn_status x = ''failed'') (pdb_runs db')"
proof -
  let ?steps = "credential_failure_steps ''l3''"
  have steps: "?steps \<noteq> []" "distinct (map sr_step ?steps)" "length [t] = length ?steps" "sorted [t]"
    by (simp_all add: credential_failure_steps_def)
  have summary: "summarize ?steps = \<lparr>ls_status = ''auth_error'', ls_latency = 0, ls_error = ''auth_error''\<rparr>"
    by (simp add: credential_failure_steps_def blank_step_def summarize_def)
  from persist_effect [OF assms(1) chan live steps old fresh, of "''l3''" t1 t2 source snapshot] obtain dba where
    p: "snd (persist_probe_outcome rid cid ''l3'' ?steps [t] t1 uuid t2 (upsert_probe_run rid cid ''l3'' source snapshot t0 db)) = dba"
    and l3: "latest_layer_summary cid ''l3'' dba = summarize ?steps"
    and st: "\<forall>c'\<in>set (pdb_channels dba). pc_id c' = cid \<longrightarrow> pc_status c' = sd_status (current_decision cid dba)"
    and run: "sql_exists (\<lambda>x. pn_id x = rid \<and> pn_status x = run_status (summarize ?steps)) (pdb_runs dba)" by auto
  have "run_layer info credential execute rid cid ''l3'' source snapshot t0 [t] t1 uuid t2 db = (Inl e, dba)"
    using live_found [OF chan live(2,3)] cred p by (simp add: run_layer_def supported_layer_def layer_needs_credential_def Let_def)
  moreover have "sd_status (current_decision cid dba) = ''auth_error''"
    by (simp add: current_decision_def l3 summary synthesize_with_l3_def l3_decision_def decide_def)
  moreover have "run_status (summarize ?steps) = ''failed''" by (simp add: summary run_status_def)
  ultimately show ?thesis using out st run by simp
qed

theorem undecryptable_credential_recorded_witness:
  "fst (run_layer (\<lambda>_. sample_target) (\<lambda>_. Inl (ErrNamed ''probe credential invalid'')) (\<lambda>_ _. []) ''r'' ''c'' ''l3'' ''scheduled'' []
     5 [6] 7 ''x'' 8 sample_db) = Inl (ErrNamed ''probe credential invalid'')"
  using undecryptable_credential_recorded [OF sample_ok _ _ _ _ _ _ _ _ surjective_pairing,
      of "''c''" sample_channel "\<lambda>_. Inl (ErrNamed ''probe credential invalid'')" "\<lambda>_. sample_target"
        "ErrNamed ''probe credential invalid''" "''r''" 5 "''x''" "\<lambda>_ _. []" "''scheduled''" "[]" 6 7 8]
  by (simp add: query_row_def sample_db_def sample_channel_def sample_incident_def sql_exists_def)

end
