(* ===== verification/Upstream_Adapt.thy ===== *)
theory Upstream_Adapt
  imports Go_Json
begin

text \<open>
  Request and response adaptation of \<open>internal/gateway/upstream.go\<close>: one OpenAI-style body becomes
  the body of the provider at hand (Codex, Anthropic, Gemini, or itself) and an answer becomes an
  OpenAI-style object again. Bodies are JSON values; \<open>dec\<close> is \<open>json.Unmarshal\<close>, \<open>spr\<close> prints
  what is neither a string nor \<open>nil\<close>, \<open>esc\<close> is \<open>url.PathEscape\<close>, \<open>parse\<close> and \<open>render\<close> are
  \<open>url.Parse\<close> and \<open>URL.String\<close>.
\<close>

section \<open>Upstreams\<close>

record upstream =
  up_name :: string
  up_provider :: string
  up_type :: string
  up_endpoint :: string
  up_model :: string
  up_config :: obj

definition adapter_kind :: "upstream \<Rightarrow> string" where
  "adapter_kind u =
     (let kind = to_lower (trim_space (up_type u))
      in if kind \<in> {''anthropic'', ''gemini'', ''google'', ''openai'', ''openai-compatible''} then kind
         else to_lower (trim_space (up_provider u)))"

definition is_gemini :: "upstream \<Rightarrow> bool" where
  "is_gemini u = (str_contains (adapter_kind u) ''google'' \<or> str_contains (adapter_kind u) ''gemini'')"

definition is_codex :: "upstream \<Rightarrow> bool" where
  "is_codex u = (case config_string (up_config u) ''authMethod'' of
      None \<Rightarrow> False | Some m \<Rightarrow> equal_fold m ''codex_oauth'')"

definition upstream_timeout :: "upstream \<Rightarrow> duration" where
  "upstream_timeout u = (case config_int (up_config u) ''timeoutMs'' 1 300000 of
      Some ms \<Rightarrow> ms * 1000000 | None \<Rightarrow> 60 * second)"

definition with_managed_auth_timeout :: "upstream \<Rightarrow> upstream" where
  "with_managed_auth_timeout u = (case config_int (up_config u) ''timeoutMs'' 1 300000 of
      Some _ \<Rightarrow> u
    | None \<Rightarrow> u\<lparr>up_config := obj_set ''timeoutMs'' (JNum 300000) (up_config u)\<rparr>)"

definition model_for :: "obj \<Rightarrow> upstream \<Rightarrow> string" where
  "model_for payload u =
     (let m = as_string (obj_at ''model'' payload)
      in if m \<noteq> [] then m
         else if trim_space (up_model u) \<noteq> [] then trim_space (up_model u) else ''default'')"

definition provider_max_tokens :: "obj \<Rightarrow> int \<Rightarrow> int" where
  "provider_max_tokens cfg fallback = (case config_int cfg ''maxTokens'' 1 200000 of Some v \<Rightarrow> v | None \<Rightarrow> fallback)"

section \<open>URLs\<close>

record url =
  u_scheme :: string
  u_host :: string
  u_hostname :: string
  u_user :: bool
  u_path :: string
  u_query :: string
  u_fragment :: string

definition trim_right_slash :: "string \<Rightarrow> string" where
  "trim_right_slash s = rev (dropWhile (\<lambda>c. c = CHR ''/'') (rev s))"

definition rooted :: "string \<Rightarrow> string" where
  "rooted path = CHR ''/'' # dropWhile (\<lambda>c. c = CHR ''/'') path"

definition split_path_query :: "string \<Rightarrow> string \<times> string" where
  "split_path_query p = (takeWhile (\<lambda>c. c \<noteq> CHR ''?'') p, case dropWhile (\<lambda>c. c \<noteq> CHR ''?'') p of [] \<Rightarrow> [] | _ # q \<Rightarrow> q)"

definition append_raw_query :: "string \<Rightarrow> string \<Rightarrow> string" where
  "append_raw_query target q =
     (if q = [] then target
      else if str_contains target ''?'' then target @ ''&'' @ q else target @ ''?'' @ q)"

definition join_endpoint_path ::
  "(string \<Rightarrow> url option) \<Rightarrow> (url \<Rightarrow> string) \<Rightarrow> string \<Rightarrow> string \<Rightarrow> string \<Rightarrow> string"
where
  "join_endpoint_path parse render provider endpoint0 path0 =
     (let endpoint = trim_right_slash (trim_space endpoint0); path = rooted path0
      in if endpoint = [] then path
         else case parse endpoint of
           None \<Rightarrow> endpoint @ path
         | Some p \<Rightarrow>
             if u_scheme p = [] \<or> u_host p = [] then endpoint @ path
             else
               (let clean = trim_right_slash (u_path p); low = to_lower clean
                in if low = [] then render (p\<lparr>u_path := ''/v1'' @ path\<rparr>)
                   else if has_suffix low ''/v1'' \<or> has_suffix low ''/v1beta''
                   then render (p\<lparr>u_path := clean @ path\<rparr>)
                   else if str_contains (to_lower provider) ''gemini'' \<or> str_contains (to_lower provider) ''google''
                   then render (p\<lparr>u_path := clean @ path\<rparr>)
                   else render (p\<lparr>u_path := clean @ ''/v1'' @ path\<rparr>)))"

definition join_for_upstream ::
  "(string \<Rightarrow> url option) \<Rightarrow> (url \<Rightarrow> string) \<Rightarrow> upstream \<Rightarrow> string \<Rightarrow> string \<Rightarrow> string"
where
  "join_for_upstream parse render u endpoint0 path0 =
     (let (path, q) = split_path_query path0;
          direct = (case config_string (up_config u) ''pathMode'' of None \<Rightarrow> False | Some m \<Rightarrow> equal_fold m ''direct'')
      in if direct then
           (let endpoint = trim_right_slash (trim_space endpoint0); path = rooted path
            in case parse endpoint of
                 None \<Rightarrow> append_raw_query (endpoint @ path) q
               | Some p \<Rightarrow>
                   if u_scheme p = [] \<or> u_host p = [] then append_raw_query (endpoint @ path) q
                   else render (p\<lparr>u_path := trim_right_slash (u_path p) @ path,
                                  u_query := (if q \<noteq> [] then q else u_query p)\<rparr>))
         else append_raw_query (join_endpoint_path parse render (adapter_kind u) endpoint0 path) q)"

section \<open>Configured parameters\<close>

definition set_missing :: "string list \<Rightarrow> string \<Rightarrow> json option \<Rightarrow> obj \<Rightarrow> obj" where
  "set_missing keys key v m =
     (if list_ex (\<lambda>k. map_of m k \<noteq> None) keys then m
      else case v of None \<Rightarrow> m | Some x \<Rightarrow> obj_set key x m)"

definition set_absent_or_nil :: "string list \<Rightarrow> string \<Rightarrow> json option \<Rightarrow> obj \<Rightarrow> obj" where
  "set_absent_or_nil keys key v m =
     (if first_present m keys \<noteq> JNull then m
      else case v of None \<Rightarrow> m | Some x \<Rightarrow> obj_set key x m)"

definition stop_values :: "obj \<Rightarrow> json option" where
  "stop_values cfg = (case config_string_list cfg ''stop'' of
      Some (v # vs) \<Rightarrow> Some (JArr (map JStr (v # vs))) | _ \<Rightarrow> None)"

definition apply_openai_config :: "obj \<Rightarrow> obj \<Rightarrow> obj" where
  "apply_openai_config payload cfg =
     (let p1 = set_missing [''temperature''] ''temperature'' (map_option JNum (config_float cfg ''temperature'' 0 2)) payload;
          p2 = set_absent_or_nil [''max_tokens'', ''maxTokens''] ''max_tokens''
                 (map_option (\<lambda>n. JNum (of_int n)) (config_int cfg ''maxTokens'' 1 200000)) p1;
          p3 = set_absent_or_nil [''top_p'', ''topP''] ''top_p'' (map_option JNum (config_float cfg ''topP'' 0 1)) p2
      in set_missing [''stop''] ''stop'' (stop_values cfg) p3)"

definition apply_anthropic_config :: "obj \<Rightarrow> obj \<Rightarrow> obj" where
  "apply_anthropic_config body cfg =
     (let b1 = set_missing [''temperature''] ''temperature'' (map_option JNum (config_float cfg ''temperature'' 0 2)) body;
          b2 = set_missing [''top_p''] ''top_p'' (map_option JNum (config_float cfg ''topP'' 0 1)) b1;
          b3 = set_missing [''top_k''] ''top_k'' (map_option (\<lambda>n. JNum (of_int n)) (config_int cfg ''topK'' 1 1000)) b2
      in set_missing [''stop_sequences''] ''stop_sequences'' (stop_values cfg) b3)"

fun add_some :: "string \<Rightarrow> json option \<Rightarrow> obj \<Rightarrow> obj" where
  "add_some k None m = m"
| "add_some k (Some v) m = obj_set k v m"

definition apply_gemini_config :: "obj \<Rightarrow> obj \<Rightarrow> obj \<Rightarrow> obj" where
  "apply_gemini_config body payload cfg =
     (let asked = first_present payload [''max_tokens'', ''maxTokens''];
          limit = (if asked \<noteq> JNull
                   then (let n = number_or_default asked 0 in if n > 0 then Some (JNum (of_int n)) else None)
                   else map_option (\<lambda>n. JNum (of_int n)) (config_int cfg ''maxTokens'' 1 200000));
          g = add_some ''stopSequences'' (stop_values cfg)
               (add_some ''maxOutputTokens'' limit
                 (add_some ''topK'' (map_option (\<lambda>n. JNum (of_int n)) (config_int cfg ''topK'' 1 1000))
                   (add_some ''topP'' (map_option JNum (config_float cfg ''topP'' 0 1))
                     (add_some ''temperature'' (map_option JNum (config_float cfg ''temperature'' 0 2)) []))))
      in if g = [] then body else obj_set ''generationConfig'' (JObj g) body)"

section \<open>Messages\<close>

definition items_of :: "json \<Rightarrow> obj list" where
  "items_of v = (case v of JArr xs \<Rightarrow> maps_of xs | _ \<Rightarrow> [])"

definition lower_role :: "obj \<Rightarrow> string" where
  "lower_role m = to_lower (trim_space (as_string (obj_at ''role'' m)))"

text \<open>\<open>fmt.Sprint\<close>.\<close>

definition sprint :: "(json \<Rightarrow> string) \<Rightarrow> json \<Rightarrow> string" where
  "sprint spr v = (case v of JStr s \<Rightarrow> s | JNull \<Rightarrow> ''<nil>'' | _ \<Rightarrow> spr v)"

definition anthropic_message :: "obj \<Rightarrow> json option" where
  "anthropic_message m =
     (let role = as_string (obj_at ''role'' m)
      in if role = ''system'' then None
         else Some (JObj [(''role'', JStr (if role = [] then ''user'' else role)), (''content'', obj_at ''content'' m)]))"

definition messages_for_anthropic :: "(json \<Rightarrow> string) \<Rightarrow> obj \<Rightarrow> json list" where
  "messages_for_anthropic spr payload =
     (let out = List.map_filter anthropic_message (items_of (obj_at ''messages'' payload))
      in if out \<noteq> [] then out
         else [JObj [(''role'', JStr ''user''), (''content'', JStr (sprint spr (obj_at ''input'' payload)))]])"

definition gemini_turn :: "string \<Rightarrow> string \<Rightarrow> json" where
  "gemini_turn role text = JObj [(''role'', JStr role), (''parts'', JArr [JObj [(''text'', JStr text)]])]"

definition gemini_message :: "(json \<Rightarrow> string) \<Rightarrow> obj \<Rightarrow> json option" where
  "gemini_message spr m =
     (let role = lower_role m
      in if role = ''system'' \<or> role = ''developer'' then None
         else
           (let c0 = obj_at ''content'' m;
                c = (if c0 = JNull then first_present m [''text'', ''input_text''] else c0)
            in Some (gemini_turn (if role = ''assistant'' then ''model'' else ''user'') (content_text spr c))))"

definition contents_for_gemini :: "(json \<Rightarrow> string) \<Rightarrow> obj \<Rightarrow> json list" where
  "contents_for_gemini spr payload =
     (let o1 = List.map_filter (gemini_message spr) (items_of (obj_at ''messages'' payload));
          o2 = (if o1 = [] then List.map_filter (gemini_message spr) (items_of (obj_at ''input'' payload)) else o1)
      in if o2 = [] then [gemini_turn ''user'' (content_text spr (obj_at ''input'' payload))] else o2)"

definition non_empty_text :: "string \<Rightarrow> string option" where
  "non_empty_text t = (if t = [] then None else Some t)"

definition instruction_of :: "(json \<Rightarrow> string) \<Rightarrow> obj \<Rightarrow> string option" where
  "instruction_of spr m =
     (if lower_role m \<noteq> ''system'' \<and> lower_role m \<noteq> ''developer'' then None
      else non_empty_text (content_text spr (obj_at ''content'' m)))"

definition blank_line :: string where
  "blank_line = [CHR 0x0A, CHR 0x0A]"

definition system_instruction_for_gemini :: "(json \<Rightarrow> string) \<Rightarrow> obj \<Rightarrow> string" where
  "system_instruction_for_gemini spr payload =
     join blank_line
       (List.map_filter (\<lambda>k. non_empty_text (content_text spr (obj_at k payload))) [''instructions'', ''system'']
        @ List.map_filter (instruction_of spr) (items_of (obj_at ''messages'' payload))
        @ List.map_filter (instruction_of spr) (items_of (obj_at ''input'' payload)))"

section \<open>Codex\<close>

definition copy_keys :: "string list \<Rightarrow> obj \<Rightarrow> obj \<Rightarrow> obj" where
  "copy_keys keys src dst =
     foldl (\<lambda>d k. if obj_at k src = JNull then d else obj_set k (obj_at k src) d) dst keys"

definition function_of :: "obj \<Rightarrow> obj option" where
  "function_of tool = as_map (obj_at ''function'' tool)"

definition codex_tool_call :: "obj \<Rightarrow> json option" where
  "codex_tool_call tool = (case function_of tool of
      None \<Rightarrow> None
    | Some f \<Rightarrow>
        (let call_id = trim_space (as_string (first_present tool [''id'', ''call_id'']));
             name = trim_space (as_string (obj_at ''name'' f))
         in if call_id = [] \<or> name = [] then None
            else Some (JObj [(''type'', JStr ''function_call''), (''call_id'', JStr call_id), (''name'', JStr name),
                   (''arguments'', JStr (as_string (obj_at ''arguments'' f)))])))"

definition codex_assistant_tool_calls :: "json \<Rightarrow> json list" where
  "codex_assistant_tool_calls v = List.map_filter codex_tool_call (items_of v)"

definition codex_message :: "(json \<Rightarrow> string) \<Rightarrow> obj \<Rightarrow> json list" where
  "codex_message spr m =
     (let role0 = lower_role m; content = obj_at ''content'' m in
      if role0 = ''system'' \<or> role0 = ''developer'' then []
      else if role0 = ''tool'' then
        (let call_id = trim_space (as_string (obj_at ''tool_call_id'' m))
         in if call_id = [] then []
            else [JObj [(''type'', JStr ''function_call_output''), (''call_id'', JStr call_id),
                        (''output'', JStr (content_text spr content))]])
      else
        (let role = (if role0 = [] then ''user'' else role0)
         in (if content_text spr content \<noteq> [] then [JObj [(''role'', JStr role), (''content'', content)]] else [])
            @ (if role = ''assistant'' then codex_assistant_tool_calls (obj_at ''tool_calls'' m) else [])))"

definition codex_tool :: "obj \<Rightarrow> json option" where
  "codex_tool tool =
     (if as_string (obj_at ''type'' tool) \<noteq> ''function'' then None
      else case function_of tool of
        None \<Rightarrow> None
      | Some f \<Rightarrow>
          (let name = trim_space (as_string (obj_at ''name'' f))
           in if name = [] then None
              else Some (JObj (foldl (\<lambda>m k. case map_of f k of None \<Rightarrow> m | Some v \<Rightarrow> obj_set k v m)
                     [(''type'', JStr ''function''), (''name'', JStr name)]
                     [''description'', ''parameters'', ''strict'']))))"

definition codex_response_tools :: "json list \<Rightarrow> json list" where
  "codex_response_tools tools = List.map_filter codex_tool (maps_of tools)"

definition codex_tool_choice :: "json \<Rightarrow> json" where
  "codex_tool_choice v = (case v of
      JStr s \<Rightarrow> (let t = to_lower (trim_space s) in if t \<in> {''auto'', ''none'', ''required''} then JStr t else JNull)
    | JObj m \<Rightarrow>
        if \<not> equal_fold (as_string (obj_at ''type'' m)) ''function'' then JNull
        else (case function_of m of
                None \<Rightarrow> JNull
              | Some f \<Rightarrow> (let name = trim_space (as_string (obj_at ''name'' f))
                          in if name = [] then JNull else JObj [(''type'', JStr ''function''), (''name'', JStr name)]))
    | _ \<Rightarrow> JNull)"

definition set_non_nil :: "string \<Rightarrow> json \<Rightarrow> obj \<Rightarrow> obj" where
  "set_non_nil k v m = (if v = JNull then m else obj_set k v m)"

definition codex_chat_body :: "(json \<Rightarrow> string) \<Rightarrow> obj \<Rightarrow> obj \<Rightarrow> obj" where
  "codex_chat_body spr payload body =
     (let messages = items_of (obj_at ''messages'' payload);
          input = concat (map (codex_message spr) messages);
          instructions = List.map_filter (instruction_of spr) messages;
          b1 = obj_set ''input'' (JArr (if input = []
                 then [JObj [(''role'', JStr ''user''), (''content'', obj_at ''input'' payload)]] else input)) body;
          b2 = (if instructions = [] then b1 else obj_set ''instructions'' (JStr (join blank_line instructions)) b1);
          b3 = set_non_nil ''max_output_tokens''
                 (first_present payload [''max_completion_tokens'', ''max_tokens'', ''maxTokens'']) b2;
          effort = trim_space (as_string (obj_at ''reasoning_effort'' payload));
          b4 = (if effort = [] then b3 else obj_set ''reasoning'' (JObj [(''effort'', JStr effort)]) b3);
          b5 = (case obj_at ''tools'' payload of
                  JArr ts \<Rightarrow> (if codex_response_tools ts = [] then b4
                             else obj_set ''tools'' (JArr (codex_response_tools ts)) b4)
                | _ \<Rightarrow> b4);
          b6 = set_non_nil ''tool_choice'' (codex_tool_choice (obj_at ''tool_choice'' payload)) b5
      in (case map_of payload ''parallel_tool_calls'' of
            None \<Rightarrow> b6 | Some v \<Rightarrow> obj_set ''parallel_tool_calls'' v b6))"

definition adapt_codex_request :: "(json \<Rightarrow> string) \<Rightarrow> upstream \<Rightarrow> string \<Rightarrow> obj \<Rightarrow> string \<times> obj" where
  "adapt_codex_request spr u kind payload =
     (let body0 = [(''model'', JStr (model_for payload u)), (''stream'', JBool True), (''store'', JBool False),
                   (''instructions'', JStr ''You are a helpful assistant.'')];
          body1 = (if kind = ''responses''
                   then copy_keys [''input'', ''instructions'', ''tools'', ''tool_choice'', ''reasoning'', ''text'',
                          ''include'', ''previous_response_id'', ''max_output_tokens'', ''parallel_tool_calls''] payload body0
                   else codex_chat_body spr payload body0)
      in (''/responses'',
          (if map_of body1 ''input'' = None
           then obj_set ''input'' (JArr [JObj [(''role'', JStr ''user''), (''content'', JStr [])]]) body1 else body1)))"

section \<open>Requests\<close>

definition decode_payload :: "(string \<Rightarrow> json option) \<Rightarrow> string \<Rightarrow> obj res" where
  "decode_payload dec raw =
     (if raw = [] then Inr []
      else case dec raw of
        Some (JObj m) \<Rightarrow> Inr m
      | Some JNull \<Rightarrow> Inl (ErrPanic ''assignment to entry in nil map'')
      | _ \<Rightarrow> Inl (ErrNamed ''invalid JSON body''))"

text \<open>\<open>null\<close> decodes to a nil map, and the first assignment to it panics.\<close>

definition prepare_payload :: "upstream \<Rightarrow> bool \<Rightarrow> obj \<Rightarrow> obj" where
  "prepare_payload u stream p0 =
     (let p1 = (if as_string (obj_at ''model'' p0) = [] then obj_set ''model'' (JStr (up_model u)) p0 else p0)
      in apply_openai_config (obj_set ''stream'' (JBool stream) p1) (up_config u))"

definition adapt_anthropic_request :: "(json \<Rightarrow> string) \<Rightarrow> upstream \<Rightarrow> bool \<Rightarrow> obj \<Rightarrow> string \<times> obj" where
  "adapt_anthropic_request spr u stream payload =
     (let body = [(''model'', JStr (model_for payload u)),
                  (''max_tokens'', JNum (of_int (number_or_default (first_present payload [''max_tokens'', ''maxTokens''])
                     (provider_max_tokens (up_config u) 1024)))),
                  (''messages'', JArr (messages_for_anthropic spr payload)), (''stream'', JBool stream)]
      in (''/messages'', apply_anthropic_config (set_non_nil ''system'' (obj_at ''system'' payload) body) (up_config u)))"

definition adapt_gemini_request ::
  "(json \<Rightarrow> string) \<Rightarrow> (string \<Rightarrow> string) \<Rightarrow> upstream \<Rightarrow> bool \<Rightarrow> obj \<Rightarrow> string \<times> obj"
where
  "adapt_gemini_request spr esc u stream payload =
     (let instruction = system_instruction_for_gemini spr payload;
          b0 = [(''contents'', JArr (contents_for_gemini spr payload))];
          b1 = (if instruction = [] then b0
                else obj_set ''systemInstruction'' (JObj [(''parts'', JArr [JObj [(''text'', JStr instruction)]])]) b0)
      in (''/models/'' @ esc (model_for payload u)
            @ (if stream then '':streamGenerateContent?alt=sse'' else '':generateContent''),
          apply_gemini_config b1 payload (up_config u)))"

definition adapt_request_body ::
  "(string \<Rightarrow> json option) \<Rightarrow> (json \<Rightarrow> string) \<Rightarrow> (string \<Rightarrow> string) \<Rightarrow> upstream \<Rightarrow> string \<Rightarrow> string \<Rightarrow> bool
    \<Rightarrow> (string \<times> obj) res"
where
  "adapt_request_body dec spr esc u kind raw stream =
     (case decode_payload dec raw of
        Inl e \<Rightarrow> Inl e
      | Inr p0 \<Rightarrow>
          (let payload = prepare_payload u stream p0 in
           Inr (if is_codex u then adapt_codex_request spr u kind payload
                else if str_contains (adapter_kind u) ''anthropic'' then adapt_anthropic_request spr u stream payload
                else if is_gemini u then adapt_gemini_request spr esc u stream payload
                else (if kind = ''responses'' then ''/responses'' else ''/chat/completions'', payload))))"

section \<open>Responses\<close>

definition usage_json :: "usage \<Rightarrow> json" where
  "usage_json us = JObj ([(''prompt_tokens'', JNum (of_int (us_prompt us))),
     (''completion_tokens'', JNum (of_int (us_completion us))), (''total_tokens'', JNum (of_int (us_total us)))]
     @ (if us_estimated us then [(''estimated'', JBool True)] else []))"

definition responses_usage :: "usage \<Rightarrow> json" where
  "responses_usage us = JObj [(''input_tokens'', JNum (of_int (us_prompt us))),
     (''output_tokens'', JNum (of_int (us_completion us))), (''total_tokens'', JNum (of_int (us_total us)))]"

text \<open>The clock is an argument: its formatted stamp and its seconds.\<close>

definition chat_object_with_tools :: "string \<Rightarrow> int \<Rightarrow> string \<Rightarrow> string \<Rightarrow> json list \<Rightarrow> usage \<Rightarrow> obj" where
  "chat_object_with_tools stamp secs model text calls us =
     (let message = (if calls = [] then [(''role'', JStr ''assistant''), (''content'', JStr text)]
            else [(''role'', JStr ''assistant''), (''content'', if text = [] then JNull else JStr text),
                  (''tool_calls'', JArr calls)])
      in [(''id'', JStr (''chatcmpl_'' @ stamp)), (''object'', JStr ''chat.completion''),
          (''created'', JNum (of_int secs)), (''model'', JStr model),
          (''choices'', JArr [JObj [(''index'', JNum 0), (''message'', JObj message),
             (''finish_reason'', JStr (if calls = [] then ''stop'' else ''tool_calls''))]]),
          (''usage'', usage_json us)])"

definition chat_object :: "string \<Rightarrow> int \<Rightarrow> string \<Rightarrow> string \<Rightarrow> usage \<Rightarrow> obj" where
  "chat_object stamp secs model text us = chat_object_with_tools stamp secs model text [] us"

definition response_object :: "string \<Rightarrow> int \<Rightarrow> string \<Rightarrow> string \<Rightarrow> usage \<Rightarrow> obj" where
  "response_object stamp secs model text us =
     [(''id'', JStr (''resp_'' @ stamp)), (''object'', JStr ''response''), (''created_at'', JNum (of_int secs)),
      (''model'', JStr model), (''status'', JStr ''completed''),
      (''output'', JArr [JObj [(''type'', JStr ''message''), (''role'', JStr ''assistant''),
         (''content'', JArr [JObj [(''type'', JStr ''output_text''), (''text'', JStr text)]])]]),
      (''usage'', responses_usage us)]"

definition candidate_of :: "obj \<Rightarrow> obj option" where
  "candidate_of raw = (case obj_at ''candidates'' raw of JArr (c # _) \<Rightarrow> as_map c | _ \<Rightarrow> None)"

definition gemini_response_text :: "obj \<Rightarrow> string" where
  "gemini_response_text raw = (case candidate_of raw of
      None \<Rightarrow> []
    | Some first \<Rightarrow>
        (case as_map (obj_at ''content'' first) of
           None \<Rightarrow> []
         | Some content \<Rightarrow>
             (case obj_at ''parts'' content of
                JArr parts \<Rightarrow> concat (map (\<lambda>p. as_string (obj_at ''text'' p)) (maps_of parts))
              | _ \<Rightarrow> [])))"

definition gemini_finish_reason :: "obj \<Rightarrow> string" where
  "gemini_finish_reason raw =
     (if (case as_map (obj_at ''promptFeedback'' raw) of
            None \<Rightarrow> False | Some f \<Rightarrow> trim_space (as_string (obj_at ''blockReason'' f)) \<noteq> [])
      then ''content_filter''
      else case candidate_of raw of
        None \<Rightarrow> []
      | Some first \<Rightarrow>
          (let r = to_upper (trim_space (as_string (obj_at ''finishReason'' first)))
           in if r = [] \<or> r = ''FINISH_REASON_UNSPECIFIED'' then []
              else if r = ''MAX_TOKENS'' then ''length''
              else if r \<in> {''SAFETY'', ''RECITATION'', ''BLOCKLIST'', ''PROHIBITED_CONTENT'', ''SPII''} then ''content_filter''
              else ''stop''))"

definition object_of :: "json option \<Rightarrow> obj option" where
  "object_of v = (case v of None \<Rightarrow> None | Some JNull \<Rightarrow> Some [] | Some x \<Rightarrow> as_map x)"

definition or_empty :: "obj option \<Rightarrow> obj" where
  "or_empty m = (case m of None \<Rightarrow> [] | Some x \<Rightarrow> x)"

definition map_gemini_response :: "string \<Rightarrow> int \<Rightarrow> upstream \<Rightarrow> string \<Rightarrow> json option \<Rightarrow> obj" where
  "map_gemini_response stamp secs u kind body =
     (let text = gemini_response_text (or_empty (object_of body)); us = parse_usage (object_of body)
      in if kind = ''responses'' then response_object stamp secs (up_model u) text us
         else chat_object stamp secs (up_model u) text us)"

definition anthropic_text :: "obj \<Rightarrow> string" where
  "anthropic_text raw =
     (let t = concat (map (\<lambda>m. as_string (obj_at ''text'' m))
            (filter (\<lambda>m. as_string (obj_at ''type'' m) = ''text'') (items_of (obj_at ''content'' raw))))
      in if t = [] then as_string (obj_at ''completion'' raw) else t)"

definition map_anthropic_response :: "string \<Rightarrow> int \<Rightarrow> upstream \<Rightarrow> string \<Rightarrow> json option \<Rightarrow> obj" where
  "map_anthropic_response stamp secs u kind body =
     (let text = anthropic_text (or_empty (object_of body)); us = parse_usage (object_of body)
      in if kind = ''responses'' then response_object stamp secs (up_model u) text us
         else chat_object stamp secs (up_model u) text us)"

text \<open>The answer as bytes \<open>Inl\<close> when it is passed through, as an object \<open>Inr\<close> when it is mapped.\<close>

definition adapt_response_body ::
  "(string \<Rightarrow> json option) \<Rightarrow> string \<Rightarrow> int \<Rightarrow> upstream \<Rightarrow> string \<Rightarrow> string \<Rightarrow> (string + obj) \<times> usage"
where
  "adapt_response_body dec stamp secs u kind body =
     (let us = parse_usage (object_of (dec body)) in
      if str_contains (adapter_kind u) ''anthropic'' then (Inr (map_anthropic_response stamp secs u kind (dec body)), us)
      else if is_gemini u then (Inr (map_gemini_response stamp secs u kind (dec body)), us)
      else (Inl body, us))"

definition model_item :: "string \<Rightarrow> string \<Rightarrow> json" where
  "model_item i owner = JObj [(''id'', JStr (if i = [] then ''default'' else i)), (''object'', JStr ''model''),
     (''owned_by'', JStr owner)]"

fun listed_ids :: "string list \<Rightarrow> obj list \<Rightarrow> string list" where
  "listed_ids seen [] = []"
| "listed_ids seen (m # ms) =
     (let i0 = as_string (obj_at ''id'' m); i = (if i0 = [] then as_string (obj_at ''name'' m) else i0)
      in if i \<noteq> [] \<and> i \<notin> set seen then i # listed_ids (i # seen) ms else listed_ids seen ms)"

definition with_fallback :: "upstream \<Rightarrow> bool \<Rightarrow> string list \<Rightarrow> string list" where
  "with_fallback u fallback ids =
     (let m = trim_space (up_model u) in if fallback \<and> m \<noteq> [] \<and> m \<notin> set ids then ids @ [m] else ids)"

definition models_answer :: "upstream \<Rightarrow> string list \<Rightarrow> obj" where
  "models_answer u ids = [(''object'', JStr ''list''), (''data'', JArr (map (\<lambda>i. model_item i (up_provider u)) ids))]"

definition map_models_response :: "upstream \<Rightarrow> json option \<Rightarrow> bool \<Rightarrow> obj" where
  "map_models_response u body fallback =
     (let raw = or_empty (object_of body);
          default_answer = models_answer u (if fallback then [up_model u] else [])
      in case obj_at ''data'' raw of
           JArr rows \<Rightarrow> models_answer u (with_fallback u fallback (listed_ids [] (maps_of rows)))
         | _ \<Rightarrow>
             (case obj_at ''models'' raw of
                JArr rows \<Rightarrow>
                  (let ids = with_fallback u fallback (listed_ids [] (maps_of rows))
                   in if ids \<noteq> [] then models_answer u ids else default_answer)
              | _ \<Rightarrow> default_answer))"

section \<open>Errors of an exchange\<close>

definition upstream_status_error :: "int \<Rightarrow> string" where
  "upstream_status_error status =
     (if status = 401 \<or> status = 403 then ''upstream_auth_error''
      else if status = 429 then ''upstream_rate_limited''
      else if status \<ge> 500 then ''upstream_unavailable'' else ''upstream_rejected'')"

end
