(* ===== verification/Upstream_Stream.thy ===== *)
theory Upstream_Stream
  imports Upstream_Adapt
begin

text \<open>
  The two translated streams of \<open>internal/gateway/upstream.go\<close>: \<open>streamCodexChatResponse\<close> turns
  Codex events into chat chunks, \<open>streamGeminiResponse\<close> turns Gemini chunks into chat chunks or
  Responses events; and \<open>completedResponseFromSSE\<close>, which looks for the final event of a body.
  The upstream is the list of lines the scanner yields and whether it ends in an error; the client
  accepts the first \<open>cap\<close> writes and fails the next one. Every \<open>Fprintf\<close> or \<open>WriteString\<close> is one
  frame. Ids and times are arguments.
\<close>

section \<open>Frames\<close>

datatype frame = FEvent string | FData obj | FDone

record upstream_result =
  ur_status :: int
  ur_usage :: usage
  ur_error :: string
  ur_wrote :: bool

text \<open>The error a stream returns beside its result.\<close>

datatype stream_error = SNone | SClient | SUpstream | SScan | SRequest err

type_synonym stream_end = "upstream_result \<times> stream_error"

definition emit :: "nat \<Rightarrow> frame \<Rightarrow> frame list \<Rightarrow> frame list option" where
  "emit cap f out = (if length out < cap then Some (out @ [f]) else None)"

fun emit_all :: "nat \<Rightarrow> frame list \<Rightarrow> frame list \<Rightarrow> bool \<times> frame list" where
  "emit_all cap [] out = (True, out)"
| "emit_all cap (f # fs) out = (case emit cap f out of
      None \<Rightarrow> (False, out) | Some out' \<Rightarrow> emit_all cap fs out')"

definition sse_data :: "string \<Rightarrow> string option" where
  "sse_data line =
     (if has_prefix line ''data:''
      then (let d = trim_space (trim_prefix line ''data:'') in if d = [] \<or> d = ''[DONE]'' then None else Some d)
      else None)"

definition payload_of :: "(string \<Rightarrow> json option) \<Rightarrow> string \<Rightarrow> obj option" where
  "payload_of dec data = object_of (dec data)"

definition event_type :: "string \<Rightarrow> obj \<Rightarrow> string" where
  "event_type event payload =
     (let t = trim_space (as_string (obj_at ''type'' payload)) in if t = [] then event else t)"

section \<open>Codex responses\<close>

definition text_part :: "obj \<Rightarrow> string option" where
  "text_part p = (if as_string (obj_at ''type'' p) \<in> {''output_text'', ''text''}
     then Some (as_string (obj_at ''text'' p)) else None)"

definition response_output_text :: "obj \<Rightarrow> string" where
  "response_output_text r =
     concat (concat (map (\<lambda>m. List.map_filter text_part (items_of (obj_at ''content'' m))) (items_of (obj_at ''output'' r))))"

definition response_tool_call :: "obj \<Rightarrow> obj option" where
  "response_tool_call item =
     (let call_id = trim_space (as_string (first_present item [''call_id'', ''id'']));
          name = trim_space (as_string (obj_at ''name'' item))
      in if as_string (obj_at ''type'' item) \<noteq> ''function_call'' \<or> call_id = [] \<or> name = [] then None
         else Some [(''id'', JStr call_id), (''type'', JStr ''function''),
                (''function'', JObj [(''name'', JStr name), (''arguments'', JStr (as_string (obj_at ''arguments'' item)))])])"

definition response_tool_calls :: "obj \<Rightarrow> obj list" where
  "response_tool_calls r = List.map_filter response_tool_call (items_of (obj_at ''output'' r))"

text \<open>The response object of the first completed event, of \<open>completedResponseFromSSE\<close>.\<close>

fun completed_response :: "(string \<Rightarrow> json option) \<Rightarrow> string \<Rightarrow> string list \<Rightarrow> obj res" where
  "completed_response dec event [] = Inl (ErrNamed ''Codex response did not include a completed event'')"
| "completed_response dec event (line # ls) =
     (if has_prefix line ''event:'' then completed_response dec (trim_space (trim_prefix line ''event:'')) ls
      else case sse_data line of
        None \<Rightarrow> completed_response dec event ls
      | Some d \<Rightarrow>
          (case payload_of dec d of
             None \<Rightarrow> completed_response dec event ls
           | Some p \<Rightarrow>
               (let ty = event_type event p in
                if (ty = ''response.completed'' \<or> ty = ''response.done'') \<and> as_map (obj_at ''response'' p) \<noteq> None
                then Inr (or_empty (as_map (obj_at ''response'' p)))
                else if (ty = ''response.completed'' \<or> ty = ''response.done'') \<and> as_string (obj_at ''object'' p) = ''response''
                then Inr p
                else if ty = ''error'' \<or> ty = ''response.failed'' then Inl (ErrNamed ''upstream unavailable'')
                else completed_response dec event ls)))"

text \<open>\<open>mapCodexEventResponse\<close>: the lines are those of the body; a scan error is \<open>scan_err\<close>.\<close>

definition map_codex_response ::
  "(string \<Rightarrow> json option) \<Rightarrow> (string \<Rightarrow> string list) \<Rightarrow> string \<Rightarrow> int \<Rightarrow> upstream \<Rightarrow> string \<Rightarrow> string \<Rightarrow> (obj \<times> usage) res"
where
  "map_codex_response dec lines stamp secs u kind body =
     (let direct = object_of (dec body);
          r = (case direct of
                 None \<Rightarrow> completed_response dec [] (lines body)
               | Some m \<Rightarrow> if as_string (obj_at ''object'' m) \<noteq> ''response'' then completed_response dec [] (lines body) else Inr m)
      in case r of
           Inl e \<Rightarrow> Inl e
         | Inr m \<Rightarrow>
             (let us = parse_usage (Some m)
              in Inr (if kind = ''responses'' then m
                      else chat_object_with_tools stamp secs (up_model u) (response_output_text m)
                             (map JObj (response_tool_calls m)) us, us)))"

section \<open>The Codex stream\<close>

record codex_state =
  cx_event :: string
  cx_text :: bool
  cx_tools :: bool
  cx_indexes :: "(string \<times> nat) list"
  cx_argued :: "string list"
  cx_next :: nat
  cx_out :: "frame list"

text \<open>A chunk carries its delta and its finish reason; id, time and model are the stream's.\<close>

definition chat_chunk :: "string \<Rightarrow> int \<Rightarrow> string \<Rightarrow> obj \<Rightarrow> json \<Rightarrow> obj" where
  "chat_chunk i secs model delta finish =
     [(''id'', JStr i), (''object'', JStr ''chat.completion.chunk''), (''created'', JNum (of_int secs)),
      (''model'', JStr model),
      (''choices'', JArr [JObj [(''index'', JNum 0), (''delta'', JObj delta), (''finish_reason'', finish)]])]"

definition tool_index :: "string \<Rightarrow> codex_state \<Rightarrow> nat \<times> codex_state" where
  "tool_index k s = (case map_of (cx_indexes s) k of
      Some n \<Rightarrow> (n, s)
    | None \<Rightarrow> (cx_next s, s\<lparr>cx_next := cx_next s + 1, cx_indexes := (k, cx_next s) # cx_indexes s\<rparr>))"

definition tool_delta :: "obj \<Rightarrow> obj" where
  "tool_delta t = [(''tool_calls'', JArr [JObj t])]"

definition arguments_delta :: "nat \<Rightarrow> string \<Rightarrow> obj" where
  "arguments_delta n a = tool_delta [(''index'', JNum (of_nat n)), (''function'', JObj [(''arguments'', JStr a)])]"

text \<open>The delta one event writes, if any, and the state once it is written. Only these four event
  types write deltas.\<close>

definition codex_delta :: "string \<Rightarrow> obj \<Rightarrow> codex_state \<Rightarrow> obj option \<times> codex_state" where
  "codex_delta ty p s =
     (if ty = ''response.output_text.delta'' then
        (let d = as_string (obj_at ''delta'' p)
         in if d = [] then (None, s) else (Some [(''content'', JStr d)], s\<lparr>cx_text := True\<rparr>))
      else if ty = ''response.output_item.added'' then
        (case as_map (obj_at ''item'' p) of
           None \<Rightarrow> (None, s)
         | Some item \<Rightarrow>
             (let call_id = trim_space (as_string (first_present item [''call_id'', ''id'']));
                  item_id = trim_space (as_string (obj_at ''id'' item));
                  name = trim_space (as_string (obj_at ''name'' item))
              in if as_string (obj_at ''type'' item) \<noteq> ''function_call'' \<or> call_id = [] \<or> name = [] then (None, s)
                 else
                   (let (n, s1) = tool_index call_id s;
                        s2 = (if item_id = [] then s1 else s1\<lparr>cx_indexes := (item_id, n) # cx_indexes s1\<rparr>)
                    in (Some (tool_delta [(''index'', JNum (of_nat n)), (''id'', JStr call_id), (''type'', JStr ''function''),
                           (''function'', JObj [(''name'', JStr name), (''arguments'', JStr [])])]),
                        s2\<lparr>cx_tools := True\<rparr>))))
      else if ty = ''response.function_call_arguments.delta'' then
        (let call_id = trim_space (as_string (first_present p [''item_id'', ''call_id'']));
             d = as_string (obj_at ''delta'' p)
         in if call_id = [] \<or> d = [] then (None, s)
            else (let (n, s1) = tool_index call_id s
                  in (Some (arguments_delta n d), s1\<lparr>cx_argued := call_id # cx_argued s1, cx_tools := True\<rparr>)))
      else if ty = ''response.function_call_arguments.done'' then
        (let call_id = trim_space (as_string (first_present p [''item_id'', ''call_id'']));
             a = as_string (obj_at ''arguments'' p)
         in if call_id = [] \<or> a = [] \<or> call_id \<in> set (cx_argued s) then (None, s)
            else (let (n, s1) = tool_index call_id s in (Some (arguments_delta n a), s1\<lparr>cx_tools := True\<rparr>)))
      else (None, s))"

text \<open>The frames of the completed event, where \<open>mk\<close> makes a chunk of a delta and a finish reason:
  text and tools that were never streamed, the finish chunk and the terminator.\<close>

fun indexed_tools :: "nat \<Rightarrow> obj list \<Rightarrow> obj list" where
  "indexed_tools n [] = []"
| "indexed_tools n (t # ts) = tool_delta (obj_set ''index'' (JNum (of_nat n)) t) # indexed_tools (Suc n) ts"

definition codex_late_deltas :: "obj option \<Rightarrow> codex_state \<Rightarrow> obj list" where
  "codex_late_deltas response s = (case response of
      None \<Rightarrow> []
    | Some r \<Rightarrow>
        (if \<not> cx_text s \<and> response_output_text r \<noteq> [] then [[(''content'', JStr (response_output_text r))]] else [])
        @ (if \<not> cx_tools s then indexed_tools 0 (response_tool_calls r) else []))"

definition codex_final :: "(obj \<Rightarrow> json \<Rightarrow> obj) \<Rightarrow> obj option \<Rightarrow> codex_state \<Rightarrow> frame list" where
  "codex_final mk response s =
     (let tools = (cx_tools s \<or> (case response of None \<Rightarrow> False | Some r \<Rightarrow> \<not> cx_tools s \<and> response_tool_calls r \<noteq> []))
      in map (\<lambda>d. FData (mk d JNull)) (codex_late_deltas response s)
         @ [FData (mk [] (JStr (if tools then ''tool_calls'' else ''stop''))), FDone])"

definition codex_completed :: "string \<Rightarrow> bool" where
  "codex_completed ty = (ty = ''response.completed'' \<or> ty = ''response.done'')"

definition interrupted :: "int \<Rightarrow> usage \<Rightarrow> upstream_result" where
  "interrupted status est = \<lparr>ur_status = status, ur_usage = est, ur_error = ''upstream_stream_interrupted'', ur_wrote = True\<rparr>"

definition disconnected :: "int \<Rightarrow> usage \<Rightarrow> upstream_result" where
  "disconnected status est = \<lparr>ur_status = status, ur_usage = est, ur_error = ''client_disconnected'', ur_wrote = True\<rparr>"

fun codex_loop ::
  "(string \<Rightarrow> json option) \<Rightarrow> (obj \<Rightarrow> json \<Rightarrow> obj) \<Rightarrow> int \<Rightarrow> usage \<Rightarrow> nat \<Rightarrow> bool \<Rightarrow> string list \<Rightarrow> codex_state
    \<Rightarrow> stream_end \<times> frame list"
where
  "codex_loop dec mk status est cap scan_err [] s =
     ((interrupted status est, if scan_err then SScan else SUpstream), cx_out s)"
| "codex_loop dec mk status est cap scan_err (line # ls) s =
     (if has_prefix line ''event:''
      then codex_loop dec mk status est cap scan_err ls (s\<lparr>cx_event := trim_space (trim_prefix line ''event:'')\<rparr>)
      else case sse_data line of
        None \<Rightarrow> codex_loop dec mk status est cap scan_err ls s
      | Some d \<Rightarrow>
          (case payload_of dec d of
             None \<Rightarrow> codex_loop dec mk status est cap scan_err ls s
           | Some p \<Rightarrow>
               (let ty = event_type (cx_event s) p in
                if codex_completed ty then
                  (let response = as_map (obj_at ''response'' p);
                       us = (case response of None \<Rightarrow> no_usage | Some r \<Rightarrow> parse_usage (Some r))
                   in case emit_all cap (codex_final mk response s) (cx_out s) of
                        (False, out) \<Rightarrow> ((disconnected status est, SClient), out)
                      | (True, out) \<Rightarrow>
                          ((\<lparr>ur_status = status, ur_usage = usage_or_estimate us est, ur_error = [], ur_wrote = True\<rparr>, SNone), out))
                else if ty = ''error'' \<or> ty = ''response.failed''
                then ((interrupted status est, SUpstream), cx_out s)
                else
                  (case codex_delta ty p s of
                     (None, s') \<Rightarrow> codex_loop dec mk status est cap scan_err ls s'
                   | (Some delta, s') \<Rightarrow>
                       (case emit cap (FData (mk delta JNull)) (cx_out s) of
                          None \<Rightarrow> ((disconnected status est, SClient), cx_out s)
                        | Some out \<Rightarrow> codex_loop dec mk status est cap scan_err ls (s'\<lparr>cx_out := out\<rparr>))))))"

definition stream_codex ::
  "(string \<Rightarrow> json option) \<Rightarrow> string \<Rightarrow> int \<Rightarrow> string \<Rightarrow> int \<Rightarrow> usage \<Rightarrow> nat \<Rightarrow> bool \<Rightarrow> string list \<Rightarrow> stream_end \<times> frame list"
where
  "stream_codex dec stamp secs model status est cap scan_err lines =
     (let mk = chat_chunk (''chatcmpl_'' @ stamp) secs model in
      case emit cap (FData (mk [(''role'', JStr ''assistant'')] JNull)) [] of
        None \<Rightarrow> ((disconnected status no_usage, SClient), [])
      | Some out \<Rightarrow>
          codex_loop dec mk status est cap scan_err lines
            \<lparr>cx_event = [], cx_text = False, cx_tools = False, cx_indexes = [], cx_argued = [], cx_next = 0,
             cx_out = out\<rparr>)"

section \<open>The Gemini stream\<close>

record gemini_state =
  ge_seq :: nat
  ge_usage :: usage
  ge_parts :: "string list"
  ge_finish :: string
  ge_seen :: bool
  ge_out :: "frame list"

text \<open>A Responses event: its name line and its payload with the next sequence number.\<close>

definition numbered :: "string \<Rightarrow> nat \<Rightarrow> obj \<Rightarrow> frame list" where
  "numbered ty n rest =
     [FEvent ty, FData ([(''type'', JStr ty), (''sequence_number'', JNum (of_nat n))] @ rest)]"

definition content_at :: "string \<Rightarrow> obj" where
  "content_at msg = [(''item_id'', JStr msg), (''output_index'', JNum 0), (''content_index'', JNum 0)]"

definition output_text :: "string \<Rightarrow> json" where
  "output_text t = JObj [(''type'', JStr ''output_text''), (''text'', JStr t)]"

definition gemini_opening :: "string \<Rightarrow> int \<Rightarrow> string \<Rightarrow> frame list" where
  "gemini_opening stamp secs model =
     (let msg = ''msg_'' @ stamp in
      numbered ''response.created'' 1
        [(''response'', JObj [(''id'', JStr (''resp_'' @ stamp)), (''object'', JStr ''response''),
           (''created_at'', JNum (of_int secs)), (''model'', JStr model), (''status'', JStr ''in_progress''), (''output'', JArr [])])]
      @ numbered ''response.output_item.added'' 2
        [(''output_index'', JNum 0), (''item'', JObj [(''id'', JStr msg), (''type'', JStr ''message''),
           (''role'', JStr ''assistant''), (''status'', JStr ''in_progress''), (''content'', JArr [])])]
      @ numbered ''response.content_part.added'' 3 (content_at msg @ [(''part'', output_text [])]))"

definition gemini_message_item :: "string \<Rightarrow> string \<Rightarrow> json" where
  "gemini_message_item msg text = JObj [(''id'', JStr msg), (''type'', JStr ''message''), (''role'', JStr ''assistant''),
     (''status'', JStr ''completed''), (''content'', JArr [output_text text])]"

definition gemini_closing :: "string \<Rightarrow> int \<Rightarrow> string \<Rightarrow> nat \<Rightarrow> string \<Rightarrow> usage \<Rightarrow> frame list" where
  "gemini_closing stamp secs model n text us =
     (let msg = ''msg_'' @ stamp; item = gemini_message_item msg text in
      numbered ''response.output_text.done'' (n + 1) (content_at msg @ [(''text'', JStr text)])
      @ numbered ''response.content_part.done'' (n + 2) (content_at msg @ [(''part'', output_text text)])
      @ numbered ''response.output_item.done'' (n + 3) [(''output_index'', JNum 0), (''item'', item)]
      @ numbered ''response.completed'' (n + 4)
          [(''response'', JObj [(''id'', JStr (''resp_'' @ stamp)), (''object'', JStr ''response''),
             (''created_at'', JNum (of_int secs)), (''model'', JStr model), (''status'', JStr ''completed''),
             (''output'', JArr [item]), (''usage'', responses_usage us)])])"

definition gemini_note :: "obj \<Rightarrow> gemini_state \<Rightarrow> gemini_state" where
  "gemini_note p s =
     (let us = parse_usage (Some p); fin = gemini_finish_reason p
      in s\<lparr>ge_seen := True, ge_usage := (if us_total us > 0 then us else ge_usage s),
           ge_finish := (if fin \<noteq> [] then fin else ge_finish s)\<rparr>)"

definition gemini_finish ::
  "string \<Rightarrow> int \<Rightarrow> string \<Rightarrow> bool \<Rightarrow> int \<Rightarrow> usage \<Rightarrow> nat \<Rightarrow> bool \<Rightarrow> gemini_state \<Rightarrow> stream_end \<times> frame list"
where
  "gemini_finish stamp secs model responses status est cap scan_err s =
     (let cut = interrupted status (est\<lparr>us_estimated := True\<rparr>) in
      if scan_err then ((cut, SScan), ge_out s)
      else if \<not> ge_seen s then ((cut, SUpstream), ge_out s)
      else
        (let us = usage_or_estimate (ge_usage s) est;
             frames = (if responses then gemini_closing stamp secs model (ge_seq s) (concat (ge_parts s)) us
                       else [FData (chat_chunk (''chatcmpl_'' @ stamp) secs model [] (JStr (ge_finish s))), FDone])
         in case emit_all cap frames (ge_out s) of
              (False, out) \<Rightarrow> ((disconnected status us, SClient), out)
            | (True, out) \<Rightarrow>
                ((\<lparr>ur_status = status, ur_usage = us, ur_error = [], ur_wrote = True\<rparr>, SNone), out)))"

fun gemini_loop ::
  "(string \<Rightarrow> json option) \<Rightarrow> string \<Rightarrow> int \<Rightarrow> string \<Rightarrow> bool \<Rightarrow> int \<Rightarrow> usage \<Rightarrow> nat \<Rightarrow> bool \<Rightarrow> string list
    \<Rightarrow> gemini_state \<Rightarrow> stream_end \<times> frame list"
where
  "gemini_loop dec stamp secs model responses status est cap scan_err [] s =
     gemini_finish stamp secs model responses status est cap scan_err s"
| "gemini_loop dec stamp secs model responses status est cap scan_err (line # ls) s =
     (case sse_data line of
        None \<Rightarrow> gemini_loop dec stamp secs model responses status est cap scan_err ls s
      | Some d \<Rightarrow>
          (case payload_of dec d of
             None \<Rightarrow> gemini_loop dec stamp secs model responses status est cap scan_err ls s
           | Some p \<Rightarrow>
               if as_map (obj_at ''error'' p) \<noteq> None
               then ((interrupted status (est\<lparr>us_estimated := True\<rparr>), SUpstream), ge_out s)
               else
                 (let s1 = gemini_note p s; text = gemini_response_text p
                  in if text = [] then gemini_loop dec stamp secs model responses status est cap scan_err ls s1
                     else
                       (let n = (if responses then Suc (ge_seq s1) else ge_seq s1);
                            frames = (if responses
                              then numbered ''response.output_text.delta'' n
                                     (content_at (''msg_'' @ stamp) @ [(''delta'', JStr text)])
                              else [FData (chat_chunk (''chatcmpl_'' @ stamp) secs model [(''content'', JStr text)] JNull)])
                        in case emit_all cap frames (ge_out s1) of
                             (False, out) \<Rightarrow> ((disconnected status est, SClient), out)
                           | (True, out) \<Rightarrow>
                               gemini_loop dec stamp secs model responses status est cap scan_err ls
                                 (s1\<lparr>ge_seq := n, ge_parts := ge_parts s1 @ [text], ge_out := out\<rparr>)))))"

definition stream_gemini ::
  "(string \<Rightarrow> json option) \<Rightarrow> string \<Rightarrow> int \<Rightarrow> string \<Rightarrow> string \<Rightarrow> int \<Rightarrow> usage \<Rightarrow> nat \<Rightarrow> bool \<Rightarrow> string list
    \<Rightarrow> stream_end \<times> frame list"
where
  "stream_gemini dec stamp secs model kind status est cap scan_err lines =
     (let responses = (kind = ''responses'');
          opening = (if responses then gemini_opening stamp secs model
                     else [FData (chat_chunk (''chatcmpl_'' @ stamp) secs model [(''role'', JStr ''assistant'')] JNull)])
      in case emit_all cap opening [] of
           (False, out) \<Rightarrow> ((disconnected status no_usage, SClient), out)
         | (True, out) \<Rightarrow>
             gemini_loop dec stamp secs model responses status est cap scan_err lines
               \<lparr>ge_seq = (if responses then 3 else 0), ge_usage = no_usage, ge_parts = [], ge_finish = ''stop'',
                ge_seen = False, ge_out = out\<rparr>)"

end
