(* ===== verification/Upstream_Http.thy ===== *)
theory Upstream_Http
  imports Upstream_Stream
begin

text \<open>
  The HTTP side of \<open>internal/gateway/upstream.go\<close>: headers, the request with an API key or with
  auth material (\<open>AuthMaterial.Validate\<close> of \<open>internal/connections/auth.go\<close>), the response headers
  a client sees, and the two JSON exchanges. The transport is an argument: what a request gives.
\<close>

section \<open>Headers\<close>

type_synonym headers = "(string \<times> string list) list"

definition token_char :: "char \<Rightarrow> bool" where
  "token_char c = (let n = of_char c :: nat in
     (48 \<le> n \<and> n \<le> 57) \<or> (65 \<le> n \<and> n \<le> 90) \<or> (97 \<le> n \<and> n \<le> 122) \<or> c \<in> set ''!#$%&*+-.^_|~'' \<or> n = 39 \<or> n = 96)"

fun canonical_chars :: "bool \<Rightarrow> string \<Rightarrow> string" where
  "canonical_chars up [] = []"
| "canonical_chars up (c # cs) = (if up then upper_char c else lower_char c) # canonical_chars (c = CHR ''-'') cs"

definition canonical_key :: "string \<Rightarrow> string" where
  "canonical_key s = (if list_all token_char s then canonical_chars True s else s)"

definition hdr_del :: "string \<Rightarrow> headers \<Rightarrow> headers" where
  "hdr_del n h = filter (\<lambda>(k, _). k \<noteq> canonical_key n) h"

definition hdr_set :: "string \<Rightarrow> string \<Rightarrow> headers \<Rightarrow> headers" where
  "hdr_set n v h = (canonical_key n, [v]) # hdr_del n h"

definition hdr_add :: "string \<Rightarrow> string \<Rightarrow> headers \<Rightarrow> headers" where
  "hdr_add n v h = (case map_of h (canonical_key n) of
      None \<Rightarrow> (canonical_key n, [v]) # h
    | Some vs \<Rightarrow> (canonical_key n, vs @ [v]) # hdr_del n h)"

definition has_crlf :: "string \<Rightarrow> bool" where
  "has_crlf v = (CHR 0x0D \<in> set v \<or> CHR 0x0A \<in> set v)"

definition copied_header :: "string \<Rightarrow> bool" where
  "copied_header c = (c \<in> {''Content-Type'', ''Content-Language'', ''Content-Encoding'', ''Retry-After'', ''X-Request-Id'',
     ''Request-Id'', ''Openai-Processing-Ms'', ''Openai-Version''} \<or> has_prefix (to_lower c) ''x-ratelimit-'')"

fun copy_headers :: "headers \<Rightarrow> headers \<Rightarrow> headers" where
  "copy_headers [] dst = dst"
| "copy_headers ((k, vs) # src) dst =
     copy_headers src
       (if copied_header (canonical_key k)
        then foldl (\<lambda>d v. hdr_add (canonical_key k) v d) dst (filter (\<lambda>v. \<not> has_crlf v) vs)
        else dst)"

section \<open>Auth material\<close>

record auth_material =
  am_mode :: string
  am_endpoint :: string
  am_headers :: headers

definition trusted_auth_headers :: "string list" where
  "trusted_auth_headers = [''Authorization'', ''X-Api-Key'', ''X-Goog-Api-Key'', ''X-Goog-User-Project'',
     ''Chatgpt-Account-Id'', ''Openai-Beta'', ''Originator'', ''User-Agent'', ''Version'']"

definition dns_char :: "char \<Rightarrow> bool" where
  "dns_char c = (let n = of_char c :: nat in (48 \<le> n \<and> n \<le> 57) \<or> (97 \<le> n \<and> n \<le> 122))"

definition internal_dns_name :: "string \<Rightarrow> bool" where
  "internal_dns_name h = (case h of [] \<Rightarrow> False
     | c # cs \<Rightarrow> dns_char c \<and> length cs \<le> 62 \<and> list_all (\<lambda>x. dns_char x \<or> x = CHR ''-'') cs)"

definition trim_suffix_dot :: "string \<Rightarrow> string" where
  "trim_suffix_dot s = (if s \<noteq> [] \<and> last s = CHR ''.'' then butlast s else s)"

text \<open>\<open>ip h\<close>: \<open>None\<close> when \<open>h\<close> is no IP address, else whether it is loopback or private.\<close>

definition safe_internal_endpoint :: "(string \<Rightarrow> bool option) \<Rightarrow> url \<Rightarrow> bool" where
  "safe_internal_endpoint ip p =
     (if u_scheme p \<noteq> ''http'' \<or> u_hostname p = [] \<or> u_user p \<or> u_query p \<noteq> [] \<or> u_fragment p \<noteq> []
         \<or> (u_path p \<noteq> [] \<and> u_path p \<noteq> ''/'') then False
      else
        (let host = to_lower (trim_suffix_dot (u_hostname p))
         in case ip host of
              Some b \<Rightarrow> b
            | None \<Rightarrow>
                if host = ''localhost'' \<or> has_suffix host ''.localhost'' then True
                else CHR ''.'' \<notin> set host \<and> internal_dns_name host))"

definition material_valid :: "(string \<Rightarrow> url option) \<Rightarrow> (string \<Rightarrow> bool option) \<Rightarrow> auth_material \<Rightarrow> bool" where
  "material_valid parse ip m =
     (am_mode m \<in> {''api_key'', ''oauth_bearer'', ''codex_oauth'', ''deepseek_web_token''}
      \<and> (trim_space (am_endpoint m) = []
         \<or> (case parse (am_endpoint m) of
              None \<Rightarrow> False
            | Some p \<Rightarrow> u_hostname p \<noteq> [] \<and> \<not> u_user p
                \<and> (u_scheme p = ''https'' \<or> (am_mode m = ''deepseek_web_token'' \<and> safe_internal_endpoint ip p))))
      \<and> list_all (\<lambda>(n, vs). canonical_key n \<in> set trusted_auth_headers \<and> length vs = 1 \<and> \<not> has_crlf (hd vs))
           (am_headers m))"

section \<open>Requests\<close>

definition client_profile_headers :: "obj \<Rightarrow> headers \<Rightarrow> headers" where
  "client_profile_headers cfg h = (case config_string cfg ''clientProfile'' of
      None \<Rightarrow> h
    | Some p \<Rightarrow>
        if to_lower p = ''claude-code'' \<or> to_lower p = ''claude_code''
        then hdr_set ''User-Agent''
               (''claude-code/'' @ (case config_string cfg ''clientVersion'' of Some v \<Rightarrow> v | None \<Rightarrow> ''2.1.114'')) h
        else h)"

definition key_headers :: "upstream \<Rightarrow> string \<Rightarrow> headers \<Rightarrow> headers" where
  "key_headers u key h =
     (if str_contains (adapter_kind u) ''anthropic'' then
        hdr_set ''Anthropic-Version'' ''2023-06-01''
          (if (case config_string (up_config u) ''authHeader'' of None \<Rightarrow> False | Some a \<Rightarrow> equal_fold a ''authorization'')
           then hdr_set ''Authorization'' (''Bearer '' @ key) h else hdr_set ''X-API-Key'' key h)
      else if is_gemini u then hdr_set ''X-Goog-Api-Key'' key h
      else hdr_set ''Authorization'' (''Bearer '' @ key) h)"

record request =
  rq_method :: string
  rq_target :: string
  rq_headers :: headers
  rq_body :: "obj option"

text \<open>\<open>target_ok\<close>: whether \<open>http.NewRequestWithContext\<close> accepts the target.\<close>

definition new_request ::
  "(string \<Rightarrow> url option) \<Rightarrow> (url \<Rightarrow> string) \<Rightarrow> (string \<Rightarrow> bool) \<Rightarrow> upstream \<Rightarrow> string \<Rightarrow> string \<Rightarrow> string \<Rightarrow> obj option
    \<Rightarrow> request res"
where
  "new_request parse render target_ok u key method path body =
     (let endpoint = trim_right_slash (trim_space (up_endpoint u)) in
      if endpoint = [] then Inl (ErrNamed ''endpoint is required'')
      else
        (let target = join_for_upstream parse render u endpoint path in
         if \<not> target_ok target then Inl (ErrNamed ''invalid request target'')
         else
           (let h1 = (if body = None then [] else hdr_set ''Content-Type'' ''application/json'' []);
                h2 = hdr_set ''Accept'' ''application/json'' h1
            in Inr \<lparr>rq_method = method, rq_target = target,
                    rq_headers = key_headers u key (client_profile_headers (up_config u) h2), rq_body = body\<rparr>)))"

definition material_upstream :: "auth_material \<Rightarrow> upstream \<Rightarrow> upstream" where
  "material_upstream m u0 =
     (let u = (if trim_space (am_endpoint m) \<noteq> [] then u0\<lparr>up_endpoint := am_endpoint m\<rparr> else u0)
      in if am_mode m = ''codex_oauth''
         then u\<lparr>up_config := obj_set ''pathMode'' (JStr ''direct'') (up_config u)\<rparr>
         else if am_mode m = ''deepseek_web_token'' then u\<lparr>up_config := obj_del ''pathMode'' (up_config u)\<rparr>
         else u)"

definition replaced_headers :: "string list" where
  "replaced_headers = [''Authorization'', ''X-API-Key'', ''X-Goog-Api-Key'', ''X-Goog-User-Project'',
     ''ChatGPT-Account-Id'', ''OpenAI-Beta'', ''Originator'', ''User-Agent'', ''Version'']"

definition with_material :: "auth_material \<Rightarrow> headers \<Rightarrow> headers" where
  "with_material m h0 =
     (let h1 = foldl (\<lambda>h n. hdr_del n h) h0 replaced_headers;
          h2 = foldl (\<lambda>h (n, vs). hdr_set n (hd vs) h) h1 (am_headers m)
      in if am_mode m = ''codex_oauth'' then hdr_set ''Accept'' ''text/event-stream'' h2 else h2)"

definition new_request_with_auth ::
  "(string \<Rightarrow> url option) \<Rightarrow> (url \<Rightarrow> string) \<Rightarrow> (string \<Rightarrow> bool) \<Rightarrow> (string \<Rightarrow> bool option) \<Rightarrow> upstream \<Rightarrow> auth_material
    \<Rightarrow> string \<Rightarrow> string \<Rightarrow> obj option \<Rightarrow> request res"
where
  "new_request_with_auth parse render target_ok ip u m method path body =
     (if \<not> material_valid parse ip m then Inl (ErrNamed ''auth material is invalid'')
      else case new_request parse render target_ok (material_upstream m u) [] method path body of
        Inl e \<Rightarrow> Inl e
      | Inr r \<Rightarrow> Inr (r\<lparr>rq_headers := with_material m (rq_headers r)\<rparr>))"

section \<open>Exchanges\<close>

text \<open>What a request gives: no answer (was it the deadline?), or a status and a body that is read
  completely or not.\<close>

datatype transport = TFailed bool | TAnswer int string bool

definition classify_http_error :: "bool \<Rightarrow> string" where
  "classify_http_error deadline = (if deadline then ''upstream_timeout'' else ''upstream_unreachable'')"

record exchange =
  ex_body :: "(string + obj) option"
  ex_status :: int
  ex_usage :: usage
  ex_error :: string

definition failed_exchange :: "string \<Rightarrow> exchange" where
  "failed_exchange e = \<lparr>ex_body = None, ex_status = 0, ex_usage = no_usage, ex_error = e\<rparr>"

definition err_upstream :: err where "err_upstream = ErrNamed ''upstream unavailable''"

text \<open>The part of \<open>JSON\<close> and \<open>JSONWithAuth\<close> after the request was sent.\<close>

definition read_answer ::
  "transport \<Rightarrow> (int \<Rightarrow> string \<Rightarrow> exchange \<times> err option) \<Rightarrow> exchange \<times> err option"
where
  "read_answer t k = (case t of
      TFailed deadline \<Rightarrow> (failed_exchange (classify_http_error deadline), Some err_upstream)
    | TAnswer status body whole \<Rightarrow>
        if \<not> whole
        then ((failed_exchange ''upstream_read_failed'')\<lparr>ex_body := Some (Inl body), ex_status := status\<rparr>, Some err_upstream)
        else if status < 200 \<or> status \<ge> 300
        then ((failed_exchange (upstream_status_error status))\<lparr>ex_body := Some (Inl body), ex_status := status\<rparr>, Some err_upstream)
        else k status body)"

definition adapted_answer ::
  "(string \<Rightarrow> json option) \<Rightarrow> string \<Rightarrow> int \<Rightarrow> upstream \<Rightarrow> string \<Rightarrow> usage \<Rightarrow> int \<Rightarrow> string \<Rightarrow> exchange \<times> err option"
where
  "adapted_answer dec stamp secs u kind est status body =
     (let (mapped, us) = adapt_response_body dec stamp secs u kind body
      in (\<lparr>ex_body = Some mapped, ex_status = status, ex_usage = usage_or_estimate us est, ex_error = []\<rparr>, None))"

definition codex_answer ::
  "(string \<Rightarrow> json option) \<Rightarrow> (string \<Rightarrow> string list) \<Rightarrow> string \<Rightarrow> int \<Rightarrow> upstream \<Rightarrow> string \<Rightarrow> usage \<Rightarrow> int \<Rightarrow> string
    \<Rightarrow> exchange \<times> err option"
where
  "codex_answer dec lines stamp secs u kind est status body =
     (case map_codex_response dec lines stamp secs u kind body of
        Inl _ \<Rightarrow> ((failed_exchange ''upstream_stream_interrupted'')\<lparr>ex_body := Some (Inl body), ex_status := status\<rparr>, Some err_upstream)
      | Inr (m, us) \<Rightarrow>
          (\<lparr>ex_body = Some (Inr m), ex_status = status, ex_usage = usage_or_estimate us est, ex_error = []\<rparr>, None))"

definition models_answer_of :: "(string \<Rightarrow> json option) \<Rightarrow> upstream \<Rightarrow> bool \<Rightarrow> int \<Rightarrow> string \<Rightarrow> exchange \<times> err option" where
  "models_answer_of dec u fallback status body =
     (\<lparr>ex_body = Some (Inr (map_models_response u (dec body) fallback)), ex_status = status,
       ex_usage = no_usage, ex_error = []\<rparr>, None)"

definition sent :: "request res \<Rightarrow> (request \<Rightarrow> transport) \<Rightarrow> (int \<Rightarrow> string \<Rightarrow> exchange \<times> err option) \<Rightarrow> exchange \<times> err option"
where
  "sent r net k = (case r of
      Inl e \<Rightarrow> (failed_exchange ''upstream_request_invalid'', Some e)
    | Inr q \<Rightarrow> read_answer (net q) k)"

text \<open>The library functions a client relies on.\<close>

record library =
  lb_dec :: "string \<Rightarrow> json option"
  lb_spr :: "json \<Rightarrow> string"
  lb_esc :: "string \<Rightarrow> string"
  lb_lines :: "string \<Rightarrow> string list"
  lb_parse :: "string \<Rightarrow> url option"
  lb_render :: "url \<Rightarrow> string"
  lb_target_ok :: "string \<Rightarrow> bool"
  lb_ip :: "string \<Rightarrow> bool option"
  lb_stamp :: string
  lb_secs :: int

definition key_request :: "library \<Rightarrow> upstream \<Rightarrow> string \<Rightarrow> string \<Rightarrow> string \<Rightarrow> obj option \<Rightarrow> request res" where
  "key_request l u key method path body = new_request (lb_parse l) (lb_render l) (lb_target_ok l) u key method path body"

definition auth_request :: "library \<Rightarrow> upstream \<Rightarrow> auth_material \<Rightarrow> string \<Rightarrow> string \<Rightarrow> obj option \<Rightarrow> request res" where
  "auth_request l u m method path body =
     new_request_with_auth (lb_parse l) (lb_render l) (lb_target_ok l) (lb_ip l) u m method path body"

definition upstream_models ::
  "library \<Rightarrow> (request \<Rightarrow> transport) \<Rightarrow> upstream \<Rightarrow> string \<Rightarrow> bool \<Rightarrow> exchange \<times> err option"
where
  "upstream_models l net u key fallback =
     sent (key_request l u key ''GET'' ''/models'' None) net (models_answer_of (lb_dec l) u fallback)"

definition upstream_models_with_auth ::
  "library \<Rightarrow> (request \<Rightarrow> transport) \<Rightarrow> upstream \<Rightarrow> auth_material \<Rightarrow> bool \<Rightarrow> exchange \<times> err option"
where
  "upstream_models_with_auth l net u m fallback =
     sent (auth_request l u m ''GET'' ''/models'' None) net (models_answer_of (lb_dec l) u fallback)"

text \<open>A nil-map panic of the adaptation is the error of the exchange.\<close>

definition upstream_json ::
  "library \<Rightarrow> (request \<Rightarrow> transport) \<Rightarrow> upstream \<Rightarrow> string \<Rightarrow> string \<Rightarrow> string \<Rightarrow> usage \<Rightarrow> exchange \<times> err option"
where
  "upstream_json l net u key kind raw est =
     (case adapt_request_body (lb_dec l) (lb_spr l) (lb_esc l) u kind raw False of
        Inl e \<Rightarrow> (failed_exchange ''upstream_request_invalid'', Some e)
      | Inr (path, body) \<Rightarrow>
          sent (key_request l u key ''POST'' path (Some body)) net
            (adapted_answer (lb_dec l) (lb_stamp l) (lb_secs l) u kind est))"

definition upstream_json_with_auth ::
  "library \<Rightarrow> (request \<Rightarrow> transport) \<Rightarrow> upstream \<Rightarrow> auth_material \<Rightarrow> string \<Rightarrow> string \<Rightarrow> usage \<Rightarrow> exchange \<times> err option"
where
  "upstream_json_with_auth l net u0 m kind raw est =
     (let u = with_managed_auth_timeout u0 in
      case adapt_request_body (lb_dec l) (lb_spr l) (lb_esc l) u kind raw False of
        Inl e \<Rightarrow> (failed_exchange ''upstream_request_invalid'', Some e)
      | Inr (path, body) \<Rightarrow>
          sent (auth_request l u m ''POST'' path (Some body)) net
            (if am_mode m = ''codex_oauth''
             then codex_answer (lb_dec l) (lb_lines l) (lb_stamp l) (lb_secs l) u kind est
             else adapted_answer (lb_dec l) (lb_stamp l) (lb_secs l) u kind est))"

section \<open>Streaming exchanges\<close>

text \<open>A stream's answer: status, headers, the chunks the body is read in, the lines a scanner finds
  in it, and whether reading ends in an error.\<close>

datatype stream_transport = SFailed bool | SAnswer int headers "string list" "string list" bool

datatype client_output = NoOutput | Frames "frame list" | Raw "string list"

definition unwritten :: "int \<Rightarrow> string \<Rightarrow> upstream_result" where
  "unwritten status e = \<lparr>ur_status = status, ur_usage = no_usage, ur_error = e, ur_wrote = False\<rparr>"

definition estimated :: "usage \<Rightarrow> usage" where
  "estimated est = est\<lparr>us_estimated := True\<rparr>"

fun pass_through :: "int \<Rightarrow> usage \<Rightarrow> nat \<Rightarrow> bool \<Rightarrow> string list \<Rightarrow> string list \<Rightarrow> stream_end \<times> string list" where
  "pass_through status est cap broken [] out =
     ((if broken then (interrupted status (estimated est), SScan)
       else (\<lparr>ur_status = status, ur_usage = estimated est, ur_error = [], ur_wrote = True\<rparr>, SNone)), out)"
| "pass_through status est cap broken (c # cs) out =
     (if length out < cap then pass_through status est cap broken cs (out @ [c])
      else ((disconnected status (estimated est), SClient), out))"

definition stream_headers :: "bool \<Rightarrow> headers \<Rightarrow> headers \<Rightarrow> headers" where
  "stream_headers translated src dst =
     (let h1 = copy_headers src dst;
          missing = (case map_of h1 ''Content-Type'' of Some (v # _) \<Rightarrow> v = [] | _ \<Rightarrow> True);
          h2 = (if translated \<or> missing then hdr_set ''Content-Type'' ''text/event-stream'' h1 else h1)
      in hdr_set ''X-Accel-Buffering'' ''no'' (hdr_set ''Cache-Control'' ''no-cache'' h2))"

definition framed :: "headers \<Rightarrow> stream_end \<times> frame list \<Rightarrow> stream_end \<times> client_output \<times> headers" where
  "framed h r = (fst r, Frames (snd r), h)"

definition stream_answer ::
  "library \<Rightarrow> bool \<Rightarrow> upstream \<Rightarrow> string \<Rightarrow> usage \<Rightarrow> nat \<Rightarrow> headers \<Rightarrow> stream_transport
    \<Rightarrow> stream_end \<times> client_output \<times> headers"
where
  "stream_answer l codex u kind est cap dst t = (case t of
      SFailed deadline \<Rightarrow> ((unwritten 0 (classify_http_error deadline), SUpstream), NoOutput, dst)
    | SAnswer status src chunks lines broken \<Rightarrow>
        if status < 200 \<or> status \<ge> 300
        then ((unwritten status (upstream_status_error status), SUpstream), NoOutput, dst)
        else if codex \<and> kind = ''chat''
        then framed (stream_headers True src dst)
               (stream_codex (lb_dec l) (lb_stamp l) (lb_secs l) (up_model u) status est cap broken lines)
        else if is_gemini u
        then framed (stream_headers True src dst)
               (stream_gemini (lb_dec l) (lb_stamp l) (lb_secs l) (up_model u) kind status est cap broken lines)
        else (case pass_through status est cap broken chunks [] of
                (e, out) \<Rightarrow> (e, Raw out, stream_headers False src dst)))"

definition streamed ::
  "request res \<Rightarrow> (request \<Rightarrow> stream_transport) \<Rightarrow> headers \<Rightarrow> (stream_transport \<Rightarrow> stream_end \<times> client_output \<times> headers)
    \<Rightarrow> stream_end \<times> client_output \<times> headers"
where
  "streamed r net dst k = (case r of
      Inl e \<Rightarrow> ((unwritten 0 ''upstream_request_invalid'', SRequest e), NoOutput, dst)
    | Inr q \<Rightarrow> k (net q))"

definition upstream_stream ::
  "library \<Rightarrow> (request \<Rightarrow> stream_transport) \<Rightarrow> upstream \<Rightarrow> string \<Rightarrow> string \<Rightarrow> string \<Rightarrow> usage \<Rightarrow> nat \<Rightarrow> headers
    \<Rightarrow> stream_end \<times> client_output \<times> headers"
where
  "upstream_stream l net u key kind raw est cap dst =
     (case adapt_request_body (lb_dec l) (lb_spr l) (lb_esc l) u kind raw True of
        Inl e \<Rightarrow> ((unwritten 0 ''upstream_request_invalid'', SRequest e), NoOutput, dst)
      | Inr (path, body) \<Rightarrow>
          streamed (key_request l u key ''POST'' path (Some body)) net dst (stream_answer l False u kind est cap dst))"

definition upstream_stream_with_auth ::
  "library \<Rightarrow> (request \<Rightarrow> stream_transport) \<Rightarrow> upstream \<Rightarrow> auth_material \<Rightarrow> string \<Rightarrow> string \<Rightarrow> usage \<Rightarrow> nat \<Rightarrow> headers
    \<Rightarrow> stream_end \<times> client_output \<times> headers"
where
  "upstream_stream_with_auth l net u0 m kind raw est cap dst =
     (let u = with_managed_auth_timeout u0 in
      case adapt_request_body (lb_dec l) (lb_spr l) (lb_esc l) u kind raw True of
        Inl e \<Rightarrow> ((unwritten 0 ''upstream_request_invalid'', SRequest e), NoOutput, dst)
      | Inr (path, body) \<Rightarrow>
          streamed (auth_request l u m ''POST'' path (Some body)) net dst
            (stream_answer l (am_mode m = ''codex_oauth'') u kind est cap dst))"

end
