(* ===== verification/Upstream_Safety.thy ===== *)
theory Upstream_Safety
  imports Upstream_Http
begin

text \<open>
  What the upstream client promises: the requests it makes (Codex bodies, credentials), the
  streams it writes (chunks, terminator, sequence numbers), the models it lists; and what the
  adaptation loses (Anthropic system messages, white space at the ends of streamed deltas).
\<close>

section \<open>Requests\<close>

definition keys_of :: "obj \<Rightarrow> string set" where
  "keys_of m = fst ` set m"

lemma keys_obj_set [simp]: "keys_of (obj_set k v m) = insert k (keys_of m)"
  by (induction k v m rule: obj_set.induct) (simp_all add: keys_of_def insert_commute)

lemma keys_Cons [simp]: "keys_of ((k, v) # m) = insert k (keys_of m)" "keys_of [] = {}"
  by (simp_all add: keys_of_def)

lemma keys_map_of: "map_of m k \<noteq> None \<longleftrightarrow> k \<in> keys_of m"
  by (simp add: keys_of_def map_of_eq_None_iff)

definition codex_keys :: "string list" where
  "codex_keys = [''model'', ''stream'', ''store'', ''instructions'', ''input'', ''tools'', ''tool_choice'', ''reasoning'',
     ''text'', ''include'', ''previous_response_id'', ''max_output_tokens'', ''parallel_tool_calls'']"

text \<open>What every change of a Codex body keeps.\<close>

definition codex_ok :: "string \<Rightarrow> obj \<Rightarrow> bool" where
  "codex_ok model b = (keys_of b \<subseteq> set codex_keys \<and> obj_at ''model'' b = JStr model
     \<and> obj_at ''stream'' b = JBool True \<and> obj_at ''store'' b = JBool False)"

lemma codex_ok_set:
  "codex_ok m b \<Longrightarrow> k \<in> set codex_keys \<Longrightarrow> k \<notin> {''model'', ''stream'', ''store''} \<Longrightarrow> codex_ok m (obj_set k v b)"
  by (auto simp: codex_ok_def)

lemma codex_ok_non_nil:
  "codex_ok m b \<Longrightarrow> k \<in> set codex_keys \<Longrightarrow> k \<notin> {''model'', ''stream'', ''store''} \<Longrightarrow> codex_ok m (set_non_nil k v b)"
  by (simp add: set_non_nil_def codex_ok_set)

lemma codex_ok_copy:
  "codex_ok m b \<Longrightarrow> set keys \<subseteq> set codex_keys - {''model'', ''stream'', ''store''} \<Longrightarrow> codex_ok m (copy_keys keys src b)"
  unfolding copy_keys_def by (induction keys arbitrary: b) (auto intro: codex_ok_set)

lemma codex_ok_start:
  "codex_ok m [(''model'', JStr m), (''stream'', JBool True), (''store'', JBool False), (''instructions'', JStr i)]"
  by (simp add: codex_ok_def codex_keys_def obj_at_def)

lemma codex_ok_if: "codex_ok m a \<Longrightarrow> codex_ok m b \<Longrightarrow> codex_ok m (if c then a else b)"
  by simp

lemma codex_ok_option:
  "codex_ok m a \<Longrightarrow> (\<And>x. codex_ok m (g x)) \<Longrightarrow> codex_ok m (case r of None \<Rightarrow> a | Some x \<Rightarrow> g x)"
  by (cases r) simp_all

lemma codex_ok_tools:
  "codex_ok m a \<Longrightarrow> (\<And>x. codex_ok m (g x)) \<Longrightarrow> codex_ok m (case v of JArr x \<Rightarrow> g x | _ \<Rightarrow> a)"
  by (cases v) simp_all

lemma codex_ok_chat:
  assumes "codex_ok m b"
  shows "codex_ok m (codex_chat_body spr payload b)"
proof -
  have k: "''input'' \<in> set codex_keys" "''instructions'' \<in> set codex_keys" "''max_output_tokens'' \<in> set codex_keys"
    "''reasoning'' \<in> set codex_keys" "''tools'' \<in> set codex_keys" "''tool_choice'' \<in> set codex_keys"
    "''parallel_tool_calls'' \<in> set codex_keys" by (simp_all add: codex_keys_def)
  show ?thesis
    unfolding codex_chat_body_def Let_def
    by (intro codex_ok_option codex_ok_tools codex_ok_non_nil codex_ok_if codex_ok_set k assms; simp)
qed

lemma model_for_not_empty: "model_for payload u \<noteq> []"
  by (simp add: model_for_def Let_def)

text \<open>Whatever body a caller sends to a Codex account, the request goes to \<open>/responses\<close>, streams
  and is not stored, names a model, carries an input and no key outside Codex's own.\<close>

theorem codex_body_contract:
  assumes "is_codex u" and "adapt_request_body dec spr esc u kind raw stream = Inr (path, body)"
  shows "path = ''/responses'' \<and> obj_at ''stream'' body = JBool True \<and> obj_at ''store'' body = JBool False
    \<and> (\<exists>m. m \<noteq> [] \<and> obj_at ''model'' body = JStr m) \<and> map_of body ''input'' \<noteq> None
    \<and> fst ` set body \<subseteq> set codex_keys"
proof -
  from assms obtain p where b: "adapt_codex_request spr u kind p = (path, body)"
    by (auto simp: adapt_request_body_def Let_def split: sum.splits)
  let ?b0 = "[(''model'', JStr (model_for p u)), (''stream'', JBool True), (''store'', JBool False),
    (''instructions'', JStr ''You are a helpful assistant.'')]"
  let ?keys = "[''input'', ''instructions'', ''tools'', ''tool_choice'', ''reasoning'', ''text'',
    ''include'', ''previous_response_id'', ''max_output_tokens'', ''parallel_tool_calls'']"
  define b1 where "b1 = (if kind = ''responses'' then copy_keys ?keys p ?b0 else codex_chat_body spr p ?b0)"
  have "codex_ok (model_for p u) b1"
    unfolding b1_def using codex_ok_copy [OF codex_ok_start, of ?keys] codex_ok_chat [OF codex_ok_start]
    by (simp add: codex_keys_def)
  moreover have "''input'' \<in> set codex_keys" by (simp add: codex_keys_def)
  moreover have "body = (if map_of b1 ''input'' = None
      then obj_set ''input'' (JArr [JObj [(''role'', JStr ''user''), (''content'', JStr [])]]) b1 else b1)"
    and "path = ''/responses''"
    using b [unfolded adapt_codex_request_def Let_def, folded b1_def] by (simp_all only: prod.inject)
  ultimately have "codex_ok (model_for p u) body" and "map_of body ''input'' \<noteq> None" and "path = ''/responses''"
    by (auto intro: codex_ok_set)
  then show ?thesis using model_for_not_empty [of p u] by (auto simp: codex_ok_def keys_of_def)
qed

definition sample_codex :: upstream where
  "sample_codex = \<lparr>up_name = ''n'', up_provider = ''openai'', up_type = ''openai'', up_endpoint = ''https://h'',
     up_model = ''gpt'', up_config = [(''authMethod'', JStr ''codex_oauth'')]\<rparr>"

definition sample_body :: "(string \<times> obj) res" where
  "sample_body = adapt_request_body (\<lambda>_. Some (JObj [(''store'', JBool True), (''user'', JStr ''u'')])) (\<lambda>_. []) (\<lambda>x. x)
     sample_codex ''chat'' ''x'' False"

theorem codex_body_contract_witness:
  "obj_at ''store'' (snd (projr sample_body)) = JBool False \<and> obj_at ''user'' (snd (projr sample_body)) = JNull"
proof -
  have c: "is_codex sample_codex" by code_simp
  have r: "sample_body = Inr (fst (projr sample_body), snd (projr sample_body))" by code_simp
  from codex_body_contract [OF c r [unfolded sample_body_def]] have "obj_at ''store'' (snd (projr sample_body)) = JBool False"
    and "fst ` set (snd (projr sample_body)) \<subseteq> set codex_keys" by (simp_all add: sample_body_def)
  moreover have "''user'' \<notin> set codex_keys" by (simp add: codex_keys_def)
  ultimately have "map_of (snd (projr sample_body)) ''user'' = None" by (auto simp: map_of_eq_None_iff)
  with \<open>obj_at ''store'' (snd (projr sample_body)) = JBool False\<close> show ?thesis by (simp add: obj_at_def)
qed

definition without_system :: "obj \<Rightarrow> obj" where
  "without_system p = (case obj_at ''messages'' p of
      JArr ms \<Rightarrow> obj_set ''messages''
        (JArr (filter (\<lambda>m. case as_map m of None \<Rightarrow> True | Some x \<Rightarrow> as_string (obj_at ''role'' x) \<noteq> ''system'') ms)) p
    | _ \<Rightarrow> p)"

lemma map_filter_Cons: "List.map_filter f (x # xs) = (case f x of None \<Rightarrow> List.map_filter f xs | Some y \<Rightarrow> y # List.map_filter f xs)"
  by (simp add: List.map_filter_simps)

lemma anthropic_filtered:
  "List.map_filter anthropic_message (List.map_filter as_map (filter (\<lambda>m. case as_map m of None \<Rightarrow> True
      | Some x \<Rightarrow> as_string (obj_at ''role'' x) \<noteq> ''system'') ms))
   = List.map_filter anthropic_message (List.map_filter as_map ms)"
proof (induction ms)
  case (Cons m ms)
  then show ?case
    by (cases "as_map m") (simp_all add: map_filter_Cons anthropic_message_def Let_def)
qed (simp add: List.map_filter_simps)

lemma messages_without_system: "messages_for_anthropic spr (without_system p) = messages_for_anthropic spr p"
  by (cases "obj_at ''messages'' p")
    (simp_all add: messages_for_anthropic_def without_system_def items_of_def maps_of_def anthropic_filtered Let_def)

lemma without_system_other: "k \<noteq> ''messages'' \<Longrightarrow> map_of (without_system p) k = map_of p k"
  by (simp add: without_system_def split: json.split)

lemma without_system_first: "''messages'' \<notin> set ks \<Longrightarrow> first_present (without_system p) ks = first_present p ks"
  by (induction ks) (auto simp: without_system_other split: option.split)

lemma set_missing_other: "k \<noteq> key \<Longrightarrow> map_of (set_missing ks key v m) k = map_of m k"
  by (simp add: set_missing_def split: option.split)

text \<open>System messages of an OpenAI-style conversation never reach an Anthropic provider: the
  request is the same as if they had not been sent, and there is no top-level \<open>system\<close> either
  unless the caller wrote that key.\<close>

theorem anthropic_drops_system_messages:
  "adapt_anthropic_request spr u stream (without_system p) = adapt_anthropic_request spr u stream p
   \<and> obj_at ''system'' (snd (adapt_anthropic_request spr u stream p)) = obj_at ''system'' p"
proof
  have "first_present (without_system p) [''max_tokens'', ''maxTokens''] = first_present p [''max_tokens'', ''maxTokens'']"
    by (rule without_system_first) simp
  moreover have "obj_at k (without_system p) = obj_at k p" if "k \<noteq> ''messages''" for k
    using that by (simp add: obj_at_def without_system_other)
  ultimately show "adapt_anthropic_request spr u stream (without_system p) = adapt_anthropic_request spr u stream p"
    by (simp add: adapt_anthropic_request_def messages_without_system model_for_def Let_def)
  show "obj_at ''system'' (snd (adapt_anthropic_request spr u stream p)) = obj_at ''system'' p"
    by (simp add: adapt_anthropic_request_def apply_anthropic_config_def Let_def obj_at_def [of "''system''"]
        set_missing_other set_non_nil_def)
qed

section \<open>Credentials\<close>

lemma map_of_hdr_del: "map_of (hdr_del n h) k = (if k = canonical_key n then None else map_of h k)"
  by (induction h) (auto simp: hdr_del_def)

lemma map_of_hdr_set: "map_of (hdr_set n v h) k = (if k = canonical_key n then Some [v] else map_of h k)"
  by (simp add: hdr_set_def map_of_hdr_del)

lemma dels_absent: "k \<in> canonical_key ` set ns \<Longrightarrow> map_of (foldl (\<lambda>h n. hdr_del n h) h ns) k = None"
proof (induction ns arbitrary: h)
  case (Cons n ns)
  have keep: "map_of h k = None \<Longrightarrow> map_of (foldl (\<lambda>h n. hdr_del n h) h ns) k = None" for h
    by (induction ns arbitrary: h) (simp_all add: map_of_hdr_del)
  show ?case
  proof (cases "k = canonical_key n")
    case True
    then show ?thesis using keep [of "hdr_del n h"] by (simp add: map_of_hdr_del)
  next
    case False
    with Cons show ?thesis by simp
  qed
qed simp

lemma sets_from:
  "map_of (foldl (\<lambda>h (n, vs). hdr_set n (hd vs) h) h ms) k = Some x \<Longrightarrow>
   map_of h k = Some x \<or> (\<exists>n vs. (n, vs) \<in> set ms \<and> canonical_key n = k \<and> x = [hd vs])"
proof (induction ms arbitrary: h)
  case (Cons p ms)
  obtain n vs where p: "p = (n, vs)" by fastforce
  from Cons.IH [of "hdr_set n (hd vs) h"] Cons.prems p show ?case
    by (auto simp: map_of_hdr_set split: if_splits)
qed simp

lemma replaced_canonical: "canonical_key ` set replaced_headers = set trusted_auth_headers"
  by code_simp

lemma accept_not_trusted: "canonical_key ''Accept'' \<notin> set trusted_auth_headers"
  by code_simp

text \<open>A request made with auth material carries no credential but the material's: every
  credential, account and client header it has was given by the material, as a single value without
  a line break, whatever key, client profile or authorization header the upstream is configured with.\<close>

theorem auth_material_only:
  assumes "new_request_with_auth parse render target_ok ip u m method path body = Inr r"
    and "k \<in> set trusted_auth_headers" and "map_of (rq_headers r) k = Some vs"
  shows "\<exists>n. (n, vs) \<in> set (am_headers m) \<and> canonical_key n = k \<and> length vs = 1 \<and> \<not> has_crlf (hd vs)"
proof -
  from assms(1) obtain r0 where valid: "material_valid parse ip m" and r: "r = r0\<lparr>rq_headers := with_material m (rq_headers r0)\<rparr>"
    by (auto simp: new_request_with_auth_def split: if_splits sum.splits)
  let ?h = "foldl (\<lambda>h n. hdr_del n h) (rq_headers r0) replaced_headers"
  have none: "map_of ?h k = None" using assms(2) replaced_canonical by (intro dels_absent) simp
  have "k \<noteq> canonical_key ''Accept''" using assms(2) accept_not_trusted by metis
  with assms(3) r have "map_of (foldl (\<lambda>h (n, vs). hdr_set n (hd vs) h) ?h (am_headers m)) k = Some vs"
    by (simp add: with_material_def Let_def map_of_hdr_set split: if_splits)
  from sets_from [OF this] none obtain n ws where n: "(n, ws) \<in> set (am_headers m)" "canonical_key n = k" "vs = [hd ws]" by auto
  with valid have "length ws = 1" "\<not> has_crlf (hd ws)" by (auto simp: material_valid_def list_all_iff)
  with n show ?thesis by (cases ws) auto
qed

definition sample_material :: auth_material where
  "sample_material = \<lparr>am_mode = ''oauth_bearer'', am_endpoint = [], am_headers = [(''authorization'', [''Bearer t''])]\<rparr>"

definition sample_request :: "request res" where
  "sample_request = new_request_with_auth (\<lambda>_. None) (\<lambda>_. []) (\<lambda>_. True) (\<lambda>_. None) sample_codex sample_material
     ''POST'' ''/responses'' (Some [])"

lemma canonical_names:
  "canonical_key ''Authorization'' = ''Authorization''" "canonical_key ''authorization'' = ''Authorization''"
  "canonical_key ''Accept'' = ''Accept''" "canonical_key ''Content-Type'' = ''Content-Type''"
  by code_simp+

lemma sample_valid: "material_valid (\<lambda>_. None) (\<lambda>_. None) sample_material"
  by (simp add: material_valid_def sample_material_def canonical_names trusted_auth_headers_def has_crlf_def)

theorem auth_material_only_witness:
  "\<exists>n. (n, [''Bearer t'']) \<in> set (am_headers sample_material) \<and> canonical_key n = ''Authorization''"
proof -
  have "material_upstream sample_material sample_codex = sample_codex"
    by (simp add: material_upstream_def sample_material_def)
  moreover have "trim_right_slash (trim_space (up_endpoint sample_codex)) \<noteq> []" by code_simp
  ultimately obtain r where r: "sample_request = Inr r" and h: "rq_headers r = with_material sample_material
      (key_headers sample_codex [] (client_profile_headers (up_config sample_codex)
        (hdr_set ''Accept'' ''application/json'' (hdr_set ''Content-Type'' ''application/json'' []))))"
    by (simp add: sample_request_def new_request_with_auth_def new_request_def sample_valid Let_def)
  have "map_of (rq_headers r) ''Authorization'' = Some [''Bearer t'']"
    by (simp add: h with_material_def sample_material_def map_of_hdr_set canonical_names Let_def)
  moreover have "''Authorization'' \<in> set trusted_auth_headers" by (simp add: trusted_auth_headers_def)
  ultimately show ?thesis using auth_material_only [OF r [unfolded sample_request_def]] by blast
qed

section \<open>Streams\<close>

lemma emit_all_append: "emit_all cap fs out = (True, out') \<Longrightarrow> out' = out @ fs"
proof (induction fs arbitrary: out)
  case (Cons f fs)
  from Cons.prems have "emit_all cap fs (out @ [f]) = (True, out')" by (simp add: emit_def split: if_splits)
  from Cons.IH [OF this] show ?case by simp
qed simp

lemma emit_all_cut:
  "emit_all cap fs out = (False, out') \<Longrightarrow> \<exists>ps q qs. fs = ps @ q # qs \<and> out' = out @ ps"
proof (induction fs arbitrary: out)
  case (Cons f fs)
  show ?case
  proof (cases "length out < cap")
    case True
    with Cons.prems have "emit_all cap fs (out @ [f]) = (False, out')" by (simp add: emit_def)
    from Cons.IH [OF this] obtain ps q qs where "fs = ps @ q # qs" "out' = (out @ [f]) @ ps" by blast
    then have "f # fs = (f # ps) @ q # qs \<and> out' = out @ (f # ps)" by simp
    then show ?thesis by blast
  next
    case False
    with Cons.prems have "f # fs = [] @ f # fs \<and> out' = out @ []" by (simp add: emit_def)
    then show ?thesis by blast
  qed
qed simp

definition is_tool :: "obj \<Rightarrow> bool" where
  "is_tool d = (map_of d ''tool_calls'' \<noteq> None)"

lemma is_tool_simps [simp]: "is_tool (tool_delta t)" "\<not> is_tool [(''content'', v)]" "is_tool (arguments_delta n a)"
  by (simp_all add: is_tool_def tool_delta_def arguments_delta_def)

lemma tool_index_keeps [simp]:
  "cx_out (snd (tool_index k s)) = cx_out s" "cx_tools (snd (tool_index k s)) = cx_tools s"
  "cx_event (snd (tool_index k s)) = cx_event s"
  by (simp_all add: tool_index_def split: option.split)

lemma codex_delta_keeps:
  assumes "codex_delta ty p s = (d, s')"
  shows "cx_out s' = cx_out s \<and> cx_event s' = cx_event s
    \<and> (cx_tools s' \<longleftrightarrow> cx_tools s \<or> (case d of None \<Rightarrow> False | Some x \<Rightarrow> is_tool x))"
proof -
  have t: "cx_out s1 = cx_out s" "cx_tools s1 = cx_tools s" "cx_event s1 = cx_event s" if "tool_index k s = (n, s1)" for k n s1
    using that tool_index_keeps [of k s] by simp_all
  show ?thesis
    using assms unfolding codex_delta_def Let_def
    by (auto split: if_splits option.splits prod.splits dest: t)
qed

lemma late_tools: "(\<exists>d\<in>set (indexed_tools n ts). is_tool d) \<longleftrightarrow> ts \<noteq> []"
  by (induction ts arbitrary: n) auto

lemma codex_final_shape:
  "\<exists>ds f. codex_final mk response s = map (\<lambda>d. FData (mk d JNull)) ds @ [FData (mk [] (JStr f)), FDone]
     \<and> (f = ''tool_calls'' \<longleftrightarrow> cx_tools s \<or> (\<exists>d\<in>set ds. is_tool d))"
proof -
  define late where "late = (case response of None \<Rightarrow> False | Some r \<Rightarrow> \<not> cx_tools s \<and> response_tool_calls r \<noteq> [])"
  have tools: "(\<exists>d\<in>set (codex_late_deltas response s). is_tool d) \<longleftrightarrow> late"
  proof (cases response)
    case (Some r)
    note all = late_tools [of 0 "response_tool_calls r", folded Bex_def]
    show ?thesis
      by (cases "cx_tools s") (simp_all add: Some codex_late_deltas_def late_def bex_Un all)
  qed (simp add: codex_late_deltas_def late_def)
  have shape: "codex_final mk response s = map (\<lambda>d. FData (mk d JNull)) (codex_late_deltas response s)
      @ [FData (mk [] (JStr (if cx_tools s \<or> late then ''tool_calls'' else ''stop''))), FDone]"
    unfolding codex_final_def Let_def late_def by (rule refl)
  have flag: "(if cx_tools s \<or> late then ''tool_calls'' else ''stop'') = ''tool_calls'' \<longleftrightarrow> cx_tools s \<or> late"
    by (cases "cx_tools s \<or> late") simp_all
  show ?thesis
    by (rule exI [of _ "codex_late_deltas response s"], rule exI [of _ "if cx_tools s \<or> late then ''tool_calls'' else ''stop''"])
      (simp only: shape flag tools simp_thms)
qed

text \<open>How a stream that wrote \<open>pre\<close> before ends.\<close>

definition codex_ends :: "(obj \<Rightarrow> json \<Rightarrow> obj) \<Rightarrow> bool \<Rightarrow> frame list \<Rightarrow> stream_end \<times> frame list \<Rightarrow> bool" where
  "codex_ends mk tools pre r =
     (if snd (fst r) = SNone
      then (\<exists>ds f. snd r = pre @ map (\<lambda>d. FData (mk d JNull)) ds @ [FData (mk [] (JStr f)), FDone]
              \<and> (f = ''tool_calls'' \<longleftrightarrow> tools \<or> (\<exists>d\<in>set ds. is_tool d)))
      else (\<exists>fs. snd r = pre @ fs \<and> FDone \<notin> set fs))"

lemma codex_ends_step:
  assumes "codex_ends mk (tools \<or> is_tool d) (pre @ [FData (mk d JNull)]) r"
  shows "codex_ends mk tools pre r"
proof (cases "snd (fst r) = SNone")
  case True
  with assms obtain ds f where "snd r = pre @ [FData (mk d JNull)] @ map (\<lambda>d. FData (mk d JNull)) ds @ [FData (mk [] (JStr f)), FDone]"
    and "f = ''tool_calls'' \<longleftrightarrow> (tools \<or> is_tool d) \<or> (\<exists>d\<in>set ds. is_tool d)" by (auto simp: codex_ends_def)
  then have "snd r = pre @ map (\<lambda>d. FData (mk d JNull)) (d # ds) @ [FData (mk [] (JStr f)), FDone]
      \<and> (f = ''tool_calls'' \<longleftrightarrow> tools \<or> (\<exists>d\<in>set (d # ds). is_tool d))" by auto
  with True show ?thesis unfolding codex_ends_def by metis
next
  case False
  with assms obtain fs where "snd r = pre @ [FData (mk d JNull)] @ fs" "FDone \<notin> set fs" by (auto simp: codex_ends_def)
  then have "snd r = pre @ (FData (mk d JNull) # fs) \<and> FDone \<notin> set (FData (mk d JNull) # fs)" by simp
  with False show ?thesis unfolding codex_ends_def by metis
qed

lemma codex_loop_ends: "codex_ends mk (cx_tools s) (cx_out s) (codex_loop dec mk status est cap scan_err ls s)"
proof (induction ls arbitrary: s)
  case Nil
  then show ?case by (simp add: codex_ends_def)
next
  case (Cons line ls)
  note IH = Cons.IH
  show ?case
  proof (cases "has_prefix line ''event:''")
    case True
    then show ?thesis using IH [of "s\<lparr>cx_event := trim_space (trim_prefix line ''event:'')\<rparr>"] by simp
  next
    case ev: False
    show ?thesis
    proof (cases "sse_data line")
      case None
      with ev IH [of s] show ?thesis by simp
    next
      case data: (Some d)
      show ?thesis
      proof (cases "payload_of dec d")
        case None
        with ev data IH [of s] show ?thesis by simp
      next
        case p: (Some p)
        let ?ty = "event_type (cx_event s) p"
        consider (final) "codex_completed ?ty" | (failed) "\<not> codex_completed ?ty" "?ty = ''error'' \<or> ?ty = ''response.failed''"
          | (other) "\<not> codex_completed ?ty" "\<not> (?ty = ''error'' \<or> ?ty = ''response.failed'')" by blast
        then show ?thesis
        proof cases
          case final
          obtain ds f where shape: "codex_final mk (as_map (obj_at ''response'' p)) s = map (\<lambda>d. FData (mk d JNull)) ds @ [FData (mk [] (JStr f)), FDone]"
            and tools: "f = ''tool_calls'' \<longleftrightarrow> cx_tools s \<or> (\<exists>d\<in>set ds. is_tool d)" using codex_final_shape by blast
          show ?thesis
          proof (cases "emit_all cap (codex_final mk (as_map (obj_at ''response'' p)) s) (cx_out s)")
            case (Pair ok out)
            show ?thesis
            proof (cases ok)
              case True
              with Pair have "emit_all cap (codex_final mk (as_map (obj_at ''response'' p)) s) (cx_out s) = (True, out)" by simp
              from emit_all_append [OF this] have "out = cx_out s @ codex_final mk (as_map (obj_at ''response'' p)) s" .
              with True Pair ev data p final shape tools show ?thesis by (auto simp: codex_ends_def Let_def)
            next
              case False
              with Pair have "emit_all cap (codex_final mk (as_map (obj_at ''response'' p)) s) (cx_out s) = (False, out)" by simp
              from emit_all_cut [OF this] obtain ps q qs where
                cut: "codex_final mk (as_map (obj_at ''response'' p)) s = ps @ q # qs" "out = cx_out s @ ps" by blast
              have "FDone \<notin> set ps"
              proof
                assume "FDone \<in> set ps"
                moreover have "butlast (codex_final mk (as_map (obj_at ''response'' p)) s) = ps @ butlast (q # qs)"
                  unfolding cut(1) by (simp add: butlast_append)
                ultimately have "FDone \<in> set (butlast (codex_final mk (as_map (obj_at ''response'' p)) s))" by simp
                then show False unfolding shape by (auto simp: butlast_append)
              qed
              with False Pair cut ev data p final show ?thesis by (auto simp: codex_ends_def disconnected_def Let_def)
            qed
          qed
        next
          case failed
          with ev data p show ?thesis by (simp add: codex_ends_def Let_def)
        next
          case other
          obtain delta s' where d: "codex_delta ?ty p s = (delta, s')" by fastforce
          note keeps = codex_delta_keeps [OF d]
          show ?thesis
          proof (cases delta)
            case None
            with d keeps IH [of s'] ev data p other show ?thesis by (simp add: Let_def)
          next
            case (Some x)
            show ?thesis
            proof (cases "length (cx_out s) < cap")
              case True
              have "codex_ends mk (cx_tools s \<or> is_tool x) (cx_out s @ [FData (mk x JNull)])
                  (codex_loop dec mk status est cap scan_err ls (s'\<lparr>cx_out := cx_out s @ [FData (mk x JNull)]\<rparr>))"
                using IH [of "s'\<lparr>cx_out := cx_out s @ [FData (mk x JNull)]\<rparr>"] keeps Some by simp
              with codex_ends_step True Some d ev data p other show ?thesis by (simp add: Let_def emit_def)
            next
              case False
              with Some d ev data p other show ?thesis by (simp add: Let_def emit_def codex_ends_def)
            qed
          qed
        qed
      qed
    qed
  qed
qed

text \<open>A Codex stream that is reported as complete wrote the role chunk first, then deltas, one
  chunk with the finish reason, \<open>tool_calls\<close> exactly when a delta carried tool calls, and the
  terminator last; and the terminator is written only then.\<close>

theorem codex_stream_shape:
  assumes "stream_codex dec stamp secs model status est cap scan_err lines = (r, out)"
  shows "(snd r = SNone \<longrightarrow>
      (\<exists>ds f. out = map (\<lambda>d. FData (chat_chunk (''chatcmpl_'' @ stamp) secs model d JNull)) ([(''role'', JStr ''assistant'')] # ds)
           @ [FData (chat_chunk (''chatcmpl_'' @ stamp) secs model [] (JStr f)), FDone]
         \<and> (f = ''tool_calls'' \<longleftrightarrow> (\<exists>d\<in>set ds. map_of d ''tool_calls'' \<noteq> None))))
    \<and> (FDone \<in> set out \<longrightarrow> snd r = SNone)"
proof (cases "0 < cap")
  case False
  with assms show ?thesis by (auto simp: stream_codex_def emit_def)
next
  case True
  let ?mk = "chat_chunk (''chatcmpl_'' @ stamp) secs model"
  let ?pre = "[FData (?mk [(''role'', JStr ''assistant'')] JNull)]"
  let ?s = "\<lparr>cx_event = [], cx_text = False, cx_tools = False, cx_indexes = [], cx_argued = [], cx_next = 0, cx_out = ?pre\<rparr>"
  have "codex_ends ?mk False ?pre (r, out)"
    using codex_loop_ends [of ?mk ?s dec status est cap scan_err lines] assms True
    by (simp add: stream_codex_def emit_def Let_def)
  then show ?thesis by (auto simp: codex_ends_def is_tool_def split: if_splits)
qed

section \<open>White space in streamed text\<close>

definition text_event :: "string \<Rightarrow> json" where
  "text_event t = JObj [(''type'', JStr ''response.output_text.delta''), (''delta'', JStr t)]"

definition completed_event :: json where
  "completed_event = JObj [(''type'', JStr ''response.completed'')]"

definition plain_data :: "string \<Rightarrow> bool" where
  "plain_data d = (trim_space d = d \<and> d \<noteq> [] \<and> d \<noteq> ''[DONE]'')"

definition sse_line :: "string \<Rightarrow> string" where
  "sse_line d = ''data:'' @ d"

lemma data_line: "plain_data d \<Longrightarrow> sse_data (sse_line d) = Some d \<and> \<not> has_prefix (sse_line d) ''event:''"
proof -
  assume "plain_data d"
  moreover have "trim_prefix (''data:'' @ d) ''data:'' = d" by (rule trim_prefix_append)
  moreover have "has_prefix (''data:'' @ d) ''data:''" by (rule has_prefix_append)
  moreover have "\<not> has_prefix (''data:'' @ d) ''event:''" by (simp add: has_prefix_def)
  ultimately show ?thesis by (simp add: sse_data_def sse_line_def plain_data_def Let_def del: append_Cons append_Nil)
qed

lemma event_types:
  "trim_space ''response.output_text.delta'' = ''response.output_text.delta''"
  "trim_space ''response.completed'' = ''response.completed''"
  by code_simp+

lemma codex_text_loop:
  assumes "list_all2 (\<lambda>d t. plain_data d \<and> dec d = Some (text_event t) \<and> trim_space t \<noteq> []) ds ts"
    and "length (cx_out s) + length ds \<le> cap"
  shows "codex_loop dec mk status est cap scan_err (map sse_line ds @ rest) s
    = codex_loop dec mk status est cap scan_err rest
        (s\<lparr>cx_text := (cx_text s \<or> ds \<noteq> []),
           cx_out := cx_out s @ map (\<lambda>t. FData (mk [(''content'', JStr (trim_space t))] JNull)) ts\<rparr>)"
  using assms
proof (induction ds arbitrary: ts s)
  case (Cons d ds)
  then obtain t ts' where ts: "ts = t # ts'" by (auto simp: list_all2_Cons1)
  with Cons.prems(1) have d: "plain_data d" "dec d = Some (text_event t)" "trim_space t \<noteq> []"
    and rest: "list_all2 (\<lambda>d t. plain_data d \<and> dec d = Some (text_event t) \<and> trim_space t \<noteq> []) ds ts'" by auto
  let ?p = "[(''type'', JStr ''response.output_text.delta''), (''delta'', JStr t)]"
  have p: "payload_of dec d = Some ?p" using d(2) by (simp add: payload_of_def object_of_def text_event_def)
  have ty: "event_type e ?p = ''response.output_text.delta''" for e
    by (simp add: event_type_def obj_at_def event_types del: trim_space_Nil)
  have delta: "codex_delta ''response.output_text.delta'' ?p s = (Some [(''content'', JStr (trim_space t))], s\<lparr>cx_text := True\<rparr>)"
    using d(3) by (simp add: codex_delta_def obj_at_def)
  from Cons.prems(2) have "length (cx_out s) < cap" by simp
  then have "codex_loop dec mk status est cap scan_err (sse_line d # map sse_line ds @ rest) s
      = codex_loop dec mk status est cap scan_err (map sse_line ds @ rest)
          (s\<lparr>cx_text := True, cx_out := cx_out s @ [FData (mk [(''content'', JStr (trim_space t))] JNull)]\<rparr>)"
    using data_line [OF d(1)]
    by (simp only: codex_loop.simps if_False option.case p Let_def ty delta prod.case emit_def if_True)
      (simp add: codex_completed_def)
  also have "\<dots> = codex_loop dec mk status est cap scan_err rest
        (s\<lparr>cx_text := True, cx_out := cx_out s @ map (\<lambda>t. FData (mk [(''content'', JStr (trim_space t))] JNull)) ts\<rparr>)"
    using Cons.IH [OF rest, of "s\<lparr>cx_text := True, cx_out := cx_out s @ [FData (mk [(''content'', JStr (trim_space t))] JNull)]\<rparr>"]
      Cons.prems(2) ts by simp
  finally show ?case by simp
qed simp

text \<open>Streamed text loses its white space: for any sequence of Codex text deltas the client
  receives each delta with the white space at both its ends removed, so words that the model
  separates between two deltas arrive joined.\<close>

theorem codex_stream_trims_text:
  assumes "list_all2 (\<lambda>d t. plain_data d \<and> dec d = Some (text_event t) \<and> trim_space t \<noteq> []) ds ts"
    and "plain_data fin" and "dec fin = Some completed_event" and "length ds + 3 \<le> cap"
  shows "snd (stream_codex dec stamp secs model status est cap scan_err
        (map sse_line ds @ [sse_line fin]))
    = map (\<lambda>d. FData (chat_chunk (''chatcmpl_'' @ stamp) secs model d JNull))
        ([(''role'', JStr ''assistant'')] # map (\<lambda>t. [(''content'', JStr (trim_space t))]) ts)
      @ [FData (chat_chunk (''chatcmpl_'' @ stamp) secs model [] (JStr ''stop'')), FDone]"
proof -
  let ?mk = "chat_chunk (''chatcmpl_'' @ stamp) secs model"
  let ?s = "\<lparr>cx_event = [], cx_text = False, cx_tools = False, cx_indexes = [], cx_argued = [], cx_next = 0,
    cx_out = [FData (?mk [(''role'', JStr ''assistant'')] JNull)]\<rparr>"
  let ?s' = "?s\<lparr>cx_text := (cx_text ?s \<or> ds \<noteq> []),
    cx_out := cx_out ?s @ map (\<lambda>t. FData (?mk [(''content'', JStr (trim_space t))] JNull)) ts\<rparr>"
  let ?p = "[(''type'', JStr ''response.completed'')]"
  have len: "length ts = length ds" using list_all2_lengthD [OF assms(1)] by simp
  have p: "payload_of dec fin = Some ?p" using assms(3) by (simp add: payload_of_def object_of_def completed_event_def)
  have ty: "event_type e ?p = ''response.completed''" for e
    by (simp add: event_type_def obj_at_def event_types del: trim_space_Nil)
  have r: "as_map (obj_at ''response'' ?p) = None" by (simp add: obj_at_def)
  have final: "codex_final ?mk None ?s' = [FData (?mk [] (JStr ''stop'')), FDone]"
    by (simp add: codex_final_def codex_late_deltas_def Let_def)
  have emit: "emit_all cap [FData (?mk [] (JStr ''stop'')), FDone] (cx_out ?s')
      = (True, cx_out ?s' @ [FData (?mk [] (JStr ''stop'')), FDone])"
    using assms(4) len by (simp add: emit_def)
  have "snd (codex_loop dec ?mk status est cap scan_err [sse_line fin] ?s') = cx_out ?s' @ [FData (?mk [] (JStr ''stop'')), FDone]"
    using data_line [OF assms(2)]
    by (simp only: codex_loop.simps if_False option.case p Let_def ty r final emit prod.case codex_completed_def if_True simp_thms
        bool.case snd_conv)
  moreover have "stream_codex dec stamp secs model status est cap scan_err (map sse_line ds @ [sse_line fin])
      = codex_loop dec ?mk status est cap scan_err [sse_line fin] ?s'"
    using codex_text_loop [OF assms(1), of ?s cap ?mk status est scan_err "[sse_line fin]"] assms(4)
    by (simp add: stream_codex_def emit_def Let_def)
  ultimately show ?thesis by simp
qed

definition sample_dec :: "string \<Rightarrow> json option" where
  "sample_dec d = (if d = ''a'' then Some (text_event ''Hello'') else if d = ''b'' then Some (text_event '' world'')
     else if d = ''c'' then Some completed_event else None)"

definition sample_chunk :: "obj \<Rightarrow> frame" where
  "sample_chunk d = FData (chat_chunk (''chatcmpl_'' @ ''s'') 0 ''m'' d JNull)"

theorem codex_stream_trims_text_witness:
  "snd (stream_codex sample_dec ''s'' 0 ''m'' 200 no_usage 9 False [sse_line ''a'', sse_line ''b'', sse_line ''c''])
    = [sample_chunk [(''role'', JStr ''assistant'')], sample_chunk [(''content'', JStr ''Hello'')],
       sample_chunk [(''content'', JStr ''world'')],
       FData (chat_chunk (''chatcmpl_'' @ ''s'') 0 ''m'' [] (JStr ''stop'')), FDone]"
proof -
  have t: "trim_space ''Hello'' = ''Hello''" "trim_space '' world'' = ''world''" by code_simp+
  have d: "plain_data ''a''" "plain_data ''b''" "plain_data ''c''" by code_simp+
  show ?thesis
    using codex_stream_trims_text [of sample_dec "[''a'', ''b'']" "[''Hello'', '' world'']" "''c''" 9 "''s''" 0 "''m''" 200 no_usage False]
    by (simp add: t d sample_dec_def sample_chunk_def)
qed

theorem codex_stream_shape_witness:
  "\<exists>ds f. snd (stream_codex sample_dec ''s'' 0 ''m'' 200 no_usage 9 False [sse_line ''a'', sse_line ''c''])
    = map sample_chunk ([(''role'', JStr ''assistant'')] # ds)
      @ [FData (chat_chunk (''chatcmpl_'' @ ''s'') 0 ''m'' [] (JStr f)), FDone]"
proof -
  have n: "snd (fst (stream_codex sample_dec ''s'' 0 ''m'' 200 no_usage 9 False [sse_line ''a'', sse_line ''c''])) = SNone"
    by code_simp
  have "sample_chunk = (\<lambda>d. FData (chat_chunk (''chatcmpl_'' @ ''s'') 0 ''m'' d JNull))" by (rule ext) (simp add: sample_chunk_def)
  then show ?thesis using codex_stream_shape [OF surjective_pairing] n by metis
qed

section \<open>The Responses events of a Gemini stream\<close>

definition number_of :: "frame \<Rightarrow> json option" where
  "number_of f = (case f of FData p \<Rightarrow> map_of p ''sequence_number'' | _ \<Rightarrow> None)"

definition data_numbers :: "frame list \<Rightarrow> json list" where
  "data_numbers fs = List.map_filter number_of fs"

definition delta_text :: "frame \<Rightarrow> string option" where
  "delta_text f = (case f of
      FData p \<Rightarrow> (if obj_at ''type'' p = JStr ''response.output_text.delta'' then str_of (obj_at ''delta'' p) else None)
    | _ \<Rightarrow> None)"

definition delta_texts :: "frame list \<Rightarrow> string" where
  "delta_texts fs = concat (List.map_filter delta_text fs)"

definition first_numbers :: "nat \<Rightarrow> json list" where
  "first_numbers n = map (\<lambda>i. JNum (of_nat i)) [1..<Suc n]"

lemma map_filter_append: "List.map_filter f (xs @ ys) = List.map_filter f xs @ List.map_filter f ys"
  by (simp add: List.map_filter_def)

lemma map_filter_Nil: "List.map_filter f [] = []"
  by (simp add: List.map_filter_simps)

lemma data_numbers_append [simp]: "data_numbers (xs @ ys) = data_numbers xs @ data_numbers ys"
  by (simp add: data_numbers_def map_filter_append)

lemma delta_texts_append [simp]: "delta_texts (xs @ ys) = delta_texts xs @ delta_texts ys"
  by (simp add: delta_texts_def map_filter_append)

lemma data_numbers_Nil [simp]: "data_numbers [] = []"
  by (simp add: data_numbers_def map_filter_Nil)

lemma first_numbers_Suc: "first_numbers (Suc n) = first_numbers n @ [JNum (of_nat (Suc n))]"
  by (simp add: first_numbers_def)

lemma first_numbers_prefix: "xs @ ys = first_numbers n \<Longrightarrow> xs = first_numbers (length xs)"
proof -
  assume a: "xs @ ys = first_numbers n"
  have "length (first_numbers n) = n" by (simp add: first_numbers_def)
  with a have le: "length xs \<le> n" by (metis length_append le_add1)
  from a have "xs = take (length xs) (first_numbers n)" by (metis append_eq_conv_conj)
  also have "\<dots> = first_numbers (length xs)"
    using le by (simp add: first_numbers_def take_map take_upt del: upt_Suc)
  finally show ?thesis .
qed

lemma numbers_numbered [simp]: "data_numbers (numbered ty n rest) = [JNum (of_nat n)]"
  by (simp add: data_numbers_def numbered_def number_of_def map_filter_Cons map_filter_Nil)

lemma delta_numbered: "ty \<noteq> ''response.output_text.delta'' \<Longrightarrow> delta_texts (numbered ty n rest) = []"
  by (simp add: delta_texts_def numbered_def delta_text_def obj_at_def map_filter_Cons map_filter_Nil)

lemma delta_numbered_text:
  "delta_texts (numbered ''response.output_text.delta'' n (content_at msg @ [(''delta'', JStr t)])) = t"
  by (simp add: delta_texts_def numbered_def delta_text_def obj_at_def content_at_def map_filter_Cons map_filter_Nil)

lemma opening_numbers: "data_numbers (gemini_opening stamp secs model) = first_numbers 3"
  by (simp add: gemini_opening_def Let_def first_numbers_def upt_rec)

lemma opening_texts: "delta_texts (gemini_opening stamp secs model) = []"
  by (simp add: gemini_opening_def Let_def delta_numbered)

lemma closing_numbers: "first_numbers n @ data_numbers (gemini_closing stamp secs model n t us) = first_numbers (n + 4)"
proof -
  have "n + 4 = Suc (Suc (Suc (Suc n)))" by simp
  then show ?thesis by (simp only: first_numbers_Suc gemini_closing_def Let_def data_numbers_append numbers_numbered
      append_assoc append.simps) simp
qed

text \<open>What is true of the frames of a Responses stream that ends as \<open>r\<close>.\<close>

definition gemini_ends :: "string \<Rightarrow> int \<Rightarrow> string \<Rightarrow> stream_end \<times> frame list \<Rightarrow> bool" where
  "gemini_ends stamp secs model r =
     ((\<exists>k. data_numbers (snd r) = first_numbers k)
      \<and> (snd (fst r) = SNone \<longrightarrow>
           (\<exists>pre n us. snd r = pre @ gemini_closing stamp secs model n (delta_texts pre) us
              \<and> data_numbers pre = first_numbers n)))"

lemma gemini_ends_cut:
  assumes "data_numbers (out @ fs) = first_numbers n" and "emit_all cap fs out = (False, out')" and "e \<noteq> SNone"
  shows "gemini_ends stamp secs model ((r, e), out')"
proof -
  from emit_all_cut [OF assms(2)] obtain ps q qs where "fs = ps @ q # qs" and out': "out' = out @ ps" by blast
  then have "data_numbers out' @ data_numbers (q # qs) = first_numbers n"
    using assms(1) by simp
  from first_numbers_prefix [OF this] assms(3) show ?thesis by (auto simp: gemini_ends_def)
qed

lemma gemini_ends_other: "data_numbers out = first_numbers n \<Longrightarrow> e \<noteq> SNone \<Longrightarrow> gemini_ends stamp secs model ((r, e), out)"
  by (auto simp: gemini_ends_def)

lemma gemini_loop_ends:
  assumes "data_numbers (ge_out s) = first_numbers (ge_seq s)" and "delta_texts (ge_out s) = concat (ge_parts s)"
  shows "gemini_ends stamp secs model (gemini_loop dec stamp secs model True status est cap scan_err ls s)"
  using assms
proof (induction ls arbitrary: s)
  case Nil
  let ?us = "usage_or_estimate (ge_usage s) est"
  let ?fs = "gemini_closing stamp secs model (ge_seq s) (concat (ge_parts s)) ?us"
  have nums: "data_numbers (ge_out s @ ?fs) = first_numbers (ge_seq s + 4)"
    using Nil(1) closing_numbers by simp
  show ?case
  proof (cases "scan_err \<or> \<not> ge_seen s")
    case True
    with gemini_ends_other [OF Nil(1)] show ?thesis by (auto simp: gemini_finish_def Let_def)
  next
    case False
    show ?thesis
    proof (cases "emit_all cap ?fs (ge_out s)")
      case (Pair ok out)
      show ?thesis
      proof (cases ok)
        case True
        with Pair have "emit_all cap ?fs (ge_out s) = (True, out)" by simp
        from emit_all_append [OF this] Nil(2) have "out = ge_out s @ gemini_closing stamp secs model (ge_seq s) (delta_texts (ge_out s)) ?us"
          by simp
        then have "\<exists>pre n us. out = pre @ gemini_closing stamp secs model n (delta_texts pre) us
            \<and> data_numbers pre = first_numbers n" using Nil(1) by blast
        moreover have "\<exists>k. data_numbers out = first_numbers k"
          using nums emit_all_append [OF \<open>emit_all cap ?fs (ge_out s) = (True, out)\<close>] by metis
        moreover have "snd (gemini_finish stamp secs model True status est cap scan_err s) = out"
          using True Pair False by (simp add: gemini_finish_def Let_def)
        ultimately show ?thesis by (simp add: gemini_ends_def)
      next
        case no: False
        with Pair have "emit_all cap ?fs (ge_out s) = (False, out)" by simp
        from gemini_ends_cut [OF nums this] False no Pair show ?thesis by (simp add: gemini_finish_def Let_def)
      qed
    qed
  qed
next
  case (Cons line ls)
  show ?case
  proof (cases "sse_data line")
    case None
    with Cons show ?thesis by simp
  next
    case data: (Some d)
    show ?thesis
    proof (cases "payload_of dec d")
      case None
      with data Cons show ?thesis by simp
    next
      case p: (Some p)
      show ?thesis
      proof (cases "as_map (obj_at ''error'' p) = None")
        case False
        with data p gemini_ends_other [OF Cons.prems(1)] show ?thesis by simp
      next
        case ok: True
        have kept: "ge_out (gemini_note p s) = ge_out s" "ge_seq (gemini_note p s) = ge_seq s" "ge_parts (gemini_note p s) = ge_parts s"
          by (simp_all add: gemini_note_def Let_def)
        show ?thesis
        proof (cases "gemini_response_text p = []")
          case True
          with data p ok Cons.IH [of "gemini_note p s"] Cons.prems kept show ?thesis by (simp add: Let_def)
        next
          case said: False
          let ?fs = "numbered ''response.output_text.delta'' (Suc (ge_seq s))
            (content_at (''msg_'' @ stamp) @ [(''delta'', JStr (gemini_response_text p))])"
          have nums: "data_numbers (ge_out s @ ?fs) = first_numbers (Suc (ge_seq s))"
            using Cons.prems(1) by (simp add: first_numbers_Suc)
          show ?thesis
          proof (cases "emit_all cap ?fs (ge_out s)")
            case (Pair okw out)
            show ?thesis
            proof (cases okw)
              case True
              with Pair have "emit_all cap ?fs (ge_out s) = (True, out)" by simp
              from emit_all_append [OF this] have out: "out = ge_out s @ ?fs" .
              have "gemini_ends stamp secs model (gemini_loop dec stamp secs model True status est cap scan_err ls
                  ((gemini_note p s)\<lparr>ge_seq := Suc (ge_seq s), ge_parts := ge_parts s @ [gemini_response_text p], ge_out := out\<rparr>))"
                using nums Cons.prems(2) out by (intro Cons.IH) (simp_all add: delta_numbered_text)
              with data p ok said Pair True kept show ?thesis by (simp add: Let_def)
            next
              case False
              with Pair have "emit_all cap ?fs (ge_out s) = (False, out)" by simp
              from gemini_ends_cut [OF nums this] data p ok said Pair False kept show ?thesis by (simp add: Let_def)
            qed
          qed
        qed
      qed
    qed
  qed
qed

text \<open>However a Gemini stream ends and whenever the client goes away, the Responses events written
  are numbered 1, 2, 3 and so on without a gap; and a stream that is reported as complete ends with the
  four closing events, whose text is the concatenation of the deltas written before.\<close>

theorem gemini_events_numbered:
  assumes "stream_gemini dec stamp secs model ''responses'' status est cap scan_err lines = (r, out)"
  shows "(\<exists>k. data_numbers out = map (\<lambda>i. JNum (of_nat i)) [1..<Suc k])
    \<and> (snd r = SNone \<longrightarrow> (\<exists>pre n us. out = pre @ gemini_closing stamp secs model n (delta_texts pre) us
          \<and> data_numbers pre = map (\<lambda>i. JNum (of_nat i)) [1..<Suc n]))"
proof (cases "emit_all cap (gemini_opening stamp secs model) []")
  case (Pair ok o1)
  have "gemini_ends stamp secs model (r, out)"
  proof (cases ok)
    case True
    with Pair have "emit_all cap (gemini_opening stamp secs model) [] = (True, o1)" by simp
    from emit_all_append [OF this] have "o1 = gemini_opening stamp secs model" by simp
    with assms Pair True gemini_loop_ends [of "\<lparr>ge_seq = 3, ge_usage = no_usage, ge_parts = [], ge_finish = ''stop'',
        ge_seen = False, ge_out = gemini_opening stamp secs model\<rparr>" stamp secs model dec status est cap scan_err lines]
      show ?thesis by (simp add: stream_gemini_def Let_def opening_numbers opening_texts)
  next
    case False
    with Pair have cut: "emit_all cap (gemini_opening stamp secs model) [] = (False, o1)" by simp
    have nums: "data_numbers ([] @ gemini_opening stamp secs model) = first_numbers 3" by (simp add: opening_numbers)
    from gemini_ends_cut [OF nums cut, of SClient] assms False Pair show ?thesis
      by (auto simp: stream_gemini_def Let_def)
  qed
  then show ?thesis by (simp add: gemini_ends_def first_numbers_def)
qed

theorem gemini_events_numbered_witness:
  "\<exists>k. data_numbers (snd (stream_gemini sample_dec ''s'' 0 ''m'' ''responses'' 200 no_usage 5 False [sse_line ''a'']))
    = map (\<lambda>i. JNum (of_nat i)) [1..<Suc k]"
  using gemini_events_numbered [OF surjective_pairing] by blast

end
