(* ===== verification/Anthropic_Bridge.thy ===== *)
theory Anthropic_Bridge
  imports Upstream_Http
begin

text \<open>
  The gateway's Anthropic endpoint, the second half of \<open>api/gateway_handlers.go\<close>: a Messages request
  becomes a chat-completions request, the answer becomes a message, and a message is written as the
  events of a stream. \<open>spr\<close> is \<open>fmt.Sprint\<close> of a value that is no string, \<open>enc\<close> the text of
  \<open>json.Marshal\<close>, \<open>dec\<close> the value of \<open>json.Unmarshal\<close>, and \<open>gen i\<close> the id \<open>toolu_<time>_<i>\<close> made up
  for the block at index \<open>i\<close>.
\<close>

section \<open>Conversions of package api\<close>

definition string_from_any :: "(json \<Rightarrow> string) \<Rightarrow> json \<Rightarrow> string" where
  "string_from_any spr v = (case v of JNull \<Rightarrow> [] | JStr s \<Rightarrow> s | _ \<Rightarrow> spr v)"

definition int_of_any :: "json \<Rightarrow> int" where
  "int_of_any v = (case v of JNum q \<Rightarrow> trunc_rat q | JStr s \<Rightarrow> atoi_value (trim_space s) | _ \<Rightarrow> 0)"

definition bool_from_any :: "json \<Rightarrow> bool" where
  "bool_from_any v = (case v of JBool b \<Rightarrow> b | JStr s \<Rightarrow> equal_fold (trim_space s) ''true'' | _ \<Rightarrow> False)"

definition default_string :: "string \<Rightarrow> string \<Rightarrow> string" where
  "default_string v fallback = (if trim_space v = [] then fallback else v)"

definition json_string :: "(json \<Rightarrow> string) \<Rightarrow> json \<Rightarrow> string" where
  "json_string enc v = (if v = JNull then ''{}'' else enc v)"

definition parse_json_map :: "(string \<Rightarrow> json option) \<Rightarrow> json \<Rightarrow> obj" where
  "parse_json_map dec v = (case v of
      JObj m \<Rightarrow> m
    | JStr s \<Rightarrow>
        (if trim_space s = [] then []
         else case dec s of Some (JObj m) \<Rightarrow> m | _ \<Rightarrow> [(''input'', JStr s)])
    | _ \<Rightarrow> [])"

definition newline :: string where "newline = [CHR 0x0A]"

lemma size_items: "v \<in> set xs \<Longrightarrow> size v < Suc (size_list size xs)"
  by (induction xs) auto

lemma size_fields: "map_of m k = Some v \<Longrightarrow> size v < Suc (size_list (size_prod (\<lambda>_. 0) size) m)"
  by (induction m) (auto split: if_splits)

function anthropic_content_text :: "(json \<Rightarrow> string) \<Rightarrow> json \<Rightarrow> string" where
  "anthropic_content_text spr JNull = []"
| "anthropic_content_text spr (JStr s) = s"
| "anthropic_content_text spr (JBool b) = spr (JBool b)"
| "anthropic_content_text spr (JNum q) = spr (JNum q)"
| "anthropic_content_text spr (JArr items) =
     join newline (filter (\<lambda>t. t \<noteq> []) (map (anthropic_content_text spr) items))"
| "anthropic_content_text spr (JObj m) =
     (let ty = string_from_any spr (obj_at ''type'' m) in
      if ty \<in> {[], ''text'', ''input_text''} then string_from_any spr (obj_at ''text'' m)
      else if ty = ''tool_result'' then
        ''Tool result for '' @ default_string (string_from_any spr (obj_at ''tool_use_id'' m)) ''unknown'' @ '':'' @ newline
        @ (case map_of m ''content'' of None \<Rightarrow> [] | Some v \<Rightarrow> anthropic_content_text spr v)
      else [])"
  by pat_completeness auto

termination
  by (relation "measure (\<lambda>(_, v). size v)") (auto dest: size_items size_fields)

section \<open>Requests\<close>

subsection \<open>Messages\<close>

definition role_text :: "string \<Rightarrow> string list \<Rightarrow> obj" where
  "role_text role texts = [(''role'', JStr role), (''content'', JStr (join newline texts))]"

definition text_of_block :: "(json \<Rightarrow> string) \<Rightarrow> obj \<Rightarrow> string list" where
  "text_of_block spr b = (let t = anthropic_content_text spr (JObj b) in if t = [] then [] else [t])"

definition tool_use_call :: "(json \<Rightarrow> string) \<Rightarrow> (json \<Rightarrow> string) \<Rightarrow> (nat \<Rightarrow> string) \<Rightarrow> nat \<Rightarrow> obj \<Rightarrow> json" where
  "tool_use_call spr enc gen i b =
     (let id = string_from_any spr (obj_at ''id'' b) in
      JObj [(''id'', JStr (if id = [] then gen i else id)), (''type'', JStr ''function''),
            (''function'', JObj [(''name'', JStr (default_string (string_from_any spr (obj_at ''name'' b)) ''tool'')),
               (''arguments'', JStr (json_string enc (obj_at ''input'' b)))])])"

definition is_block :: "(json \<Rightarrow> string) \<Rightarrow> string \<Rightarrow> obj \<Rightarrow> bool" where
  "is_block spr ty b = (string_from_any spr (obj_at ''type'' b) = ty)"

text \<open>The blocks of a content list with their indexes; what is no map is skipped but counted.\<close>

fun blocks_from :: "nat \<Rightarrow> json list \<Rightarrow> (nat \<times> obj) list" where
  "blocks_from i [] = []"
| "blocks_from i (v # vs) = (case as_map v of None \<Rightarrow> blocks_from (Suc i) vs | Some b \<Rightarrow> (i, b) # blocks_from (Suc i) vs)"

definition assistant_message ::
  "(json \<Rightarrow> string) \<Rightarrow> (json \<Rightarrow> string) \<Rightarrow> (nat \<Rightarrow> string) \<Rightarrow> json \<Rightarrow> obj"
where
  "assistant_message spr enc gen content =
     (case as_list content of
        None \<Rightarrow>
          (let t = anthropic_content_text spr content in role_text ''assistant'' (if t = [] then [] else [t]))
      | Some items \<Rightarrow>
          (let blocks = blocks_from 0 items;
               texts = concat (map (\<lambda>(i, b). text_of_block spr b) (filter (\<lambda>(i, b). \<not> is_block spr ''tool_use'' b) blocks));
               calls = map (\<lambda>(i, b). tool_use_call spr enc gen i b) (filter (\<lambda>(i, b). is_block spr ''tool_use'' b) blocks)
           in role_text ''assistant'' texts @ (if calls = [] then [] else [(''tool_calls'', JArr calls)])))"

definition flush_user :: "string list \<Rightarrow> obj list" where
  "flush_user texts = (if texts = [] then [] else [role_text ''user'' texts])"

definition tool_message :: "(json \<Rightarrow> string) \<Rightarrow> (nat \<Rightarrow> string) \<Rightarrow> nat \<Rightarrow> obj \<Rightarrow> obj" where
  "tool_message spr gen i b =
     (let id = string_from_any spr (obj_at ''tool_use_id'' b) in
      [(''role'', JStr ''tool''), (''tool_call_id'', JStr (if id = [] then gen i else id)),
       (''content'', JStr (anthropic_content_text spr (obj_at ''content'' b)))])"

fun user_messages :: "(json \<Rightarrow> string) \<Rightarrow> (nat \<Rightarrow> string) \<Rightarrow> (nat \<times> obj) list \<Rightarrow> string list \<Rightarrow> obj list" where
  "user_messages spr gen [] texts = flush_user texts"
| "user_messages spr gen ((i, b) # bs) texts =
     (if is_block spr ''tool_result'' b
      then flush_user texts @ tool_message spr gen i b # user_messages spr gen bs []
      else user_messages spr gen bs (texts @ text_of_block spr b))"

definition anthropic_message_to_openai ::
  "(json \<Rightarrow> string) \<Rightarrow> (json \<Rightarrow> string) \<Rightarrow> (nat \<Rightarrow> string) \<Rightarrow> obj \<Rightarrow> obj list"
where
  "anthropic_message_to_openai spr enc gen m =
     (let role = string_from_any spr (obj_at ''role'' m); content = obj_at ''content'' m in
      if role = ''assistant'' then [assistant_message spr enc gen content]
      else if role \<noteq> ''user'' then []
      else case as_list content of
          Some items \<Rightarrow> user_messages spr gen (blocks_from 0 items) []
        | None \<Rightarrow>
            (let t = anthropic_content_text spr content in
             if t = [] then [] else [[(''role'', JStr ''user''), (''content'', JStr t)]]))"

subsection \<open>Tools\<close>

definition anthropic_tool :: "(json \<Rightarrow> string) \<Rightarrow> obj \<Rightarrow> json option" where
  "anthropic_tool spr t =
     (if string_from_any spr (obj_at ''name'' t) = [] then None
      else Some (JObj [(''type'', JStr ''function''),
        (''function'', JObj [(''name'', JStr (string_from_any spr (obj_at ''name'' t))),
           (''description'', JStr (string_from_any spr (obj_at ''description'' t))),
           (''parameters'', if obj_at ''input_schema'' t = JNull
              then JObj [(''type'', JStr ''object''), (''properties'', JObj [])] else obj_at ''input_schema'' t)])]))"

definition anthropic_tools_to_openai :: "(json \<Rightarrow> string) \<Rightarrow> json \<Rightarrow> json list" where
  "anthropic_tools_to_openai spr v = (case as_list v of None \<Rightarrow> [] | Some ts \<Rightarrow> List.map_filter (anthropic_tool spr) (maps_of ts))"

definition anthropic_tool_choice :: "(json \<Rightarrow> string) \<Rightarrow> json \<Rightarrow> json" where
  "anthropic_tool_choice spr v = (case as_map v of
      None \<Rightarrow> JStr ''auto''
    | Some c \<Rightarrow>
        (let ty = string_from_any spr (obj_at ''type'' c); name = string_from_any spr (obj_at ''name'' c) in
         if ty = ''tool'' then
           (if name = [] then JStr ''auto''
            else JObj [(''type'', JStr ''function''), (''function'', JObj [(''name'', JStr name)])])
         else if ty = ''any'' then JStr ''required'' else JStr ''auto''))"

subsection \<open>The whole request\<close>

definition openai_messages ::
  "(json \<Rightarrow> string) \<Rightarrow> (json \<Rightarrow> string) \<Rightarrow> (nat \<Rightarrow> string) \<Rightarrow> obj \<Rightarrow> obj list"
where
  "openai_messages spr enc gen input =
     (let system = anthropic_content_text spr (obj_at ''system'' input);
          ms = (if system = [] then [] else [[(''role'', JStr ''system''), (''content'', JStr system)]])
               @ (case as_list (obj_at ''messages'' input) of None \<Rightarrow> []
                  | Some vs \<Rightarrow> concat (map (anthropic_message_to_openai spr enc gen) (maps_of vs)))
      in if ms = [] then [[(''role'', JStr ''user''), (''content'', JStr ''Continue.'')]] else ms)"

definition copy_present :: "string \<Rightarrow> string \<Rightarrow> obj \<Rightarrow> obj \<Rightarrow> obj" where
  "copy_present key name src out = (case map_of src key of None \<Rightarrow> out | Some v \<Rightarrow> obj_set name v out)"

definition anthropic_payload_to_openai ::
  "(json \<Rightarrow> string) \<Rightarrow> (json \<Rightarrow> string) \<Rightarrow> (nat \<Rightarrow> string) \<Rightarrow> obj \<Rightarrow> obj"
where
  "anthropic_payload_to_openai spr enc gen input =
     (let n = int_of_any (obj_at ''max_tokens'' input);
          tools = anthropic_tools_to_openai spr (obj_at ''tools'' input);
          out = [(''model'', JStr (string_from_any spr (obj_at ''model'' input))),
                 (''messages'', JArr (map JObj (openai_messages spr enc gen input))),
                 (''max_tokens'', JNum (of_int (if n \<le> 0 then 2048 else n))), (''stream'', JBool False)];
          out1 = copy_present ''stop_sequences'' ''stop'' input
                   (copy_present ''top_p'' ''top_p'' input (copy_present ''temperature'' ''temperature'' input out))
      in if tools = [] then out1
         else obj_set ''tool_choice'' (anthropic_tool_choice spr (obj_at ''tool_choice'' input))
                (obj_set ''tools'' (JArr tools) out1))"

subsection \<open>The model of a request\<close>

text \<open>\<open>rawPayloadWithModel\<close>: the request with the model filled in, decoded again.\<close>

definition with_model :: "(json \<Rightarrow> string) \<Rightarrow> string \<Rightarrow> obj \<Rightarrow> obj" where
  "with_model spr model m =
     (if trim_space (sprint spr (obj_at ''model'' m)) = [] \<or> obj_at ''model'' m = JNull
      then obj_set ''model'' (JStr model) m else m)"

definition raw_payload_with_model ::
  "(string \<Rightarrow> json option) \<Rightarrow> (json \<Rightarrow> string) \<Rightarrow> string \<Rightarrow> string \<Rightarrow> obj res"
where
  "raw_payload_with_model dec spr raw model = (case dec raw of
      Some (JObj m) \<Rightarrow> Inr (with_model spr model m)
    | Some JNull \<Rightarrow> Inl (ErrPanic ''assignment to entry in nil map'')
    | _ \<Rightarrow> Inl (ErrNamed ''invalid JSON body''))"

section \<open>Answers\<close>

definition tool_call_block ::
  "(json \<Rightarrow> string) \<Rightarrow> (string \<Rightarrow> json option) \<Rightarrow> (nat \<Rightarrow> string) \<Rightarrow> nat \<Rightarrow> obj \<Rightarrow> obj"
where
  "tool_call_block spr dec gen i call =
     (let function = or_empty (as_map (obj_at ''function'' call)); id = string_from_any spr (obj_at ''id'' call) in
      [(''type'', JStr ''tool_use''), (''id'', JStr (if id = [] then gen i else id)),
       (''name'', JStr (default_string (string_from_any spr (obj_at ''name'' function)) ''tool'')),
       (''input'', JObj (parse_json_map dec (obj_at ''arguments'' function)))])"

definition text_block :: "string \<Rightarrow> obj" where
  "text_block t = [(''type'', JStr ''text''), (''text'', JStr t)]"

definition answer_blocks ::
  "(json \<Rightarrow> string) \<Rightarrow> (string \<Rightarrow> json option) \<Rightarrow> (nat \<Rightarrow> string) \<Rightarrow> obj \<Rightarrow> obj list"
where
  "answer_blocks spr dec gen message =
     (let t = anthropic_content_text spr (obj_at ''content'' message);
          bs = (if t = [] then [] else [text_block t])
               @ (case as_list (obj_at ''tool_calls'' message) of None \<Rightarrow> []
                  | Some calls \<Rightarrow> map (\<lambda>(i, c). tool_call_block spr dec gen i c) (blocks_from 0 calls))
      in if bs = [] then [text_block []] else bs)"

definition first_choice_of :: "obj \<Rightarrow> obj" where
  "first_choice_of raw = (case as_list (obj_at ''choices'' raw) of Some (c # _) \<Rightarrow> or_empty (as_map c) | _ \<Rightarrow> [])"

definition is_tool_use :: "obj \<Rightarrow> bool" where
  "is_tool_use b = (obj_at ''type'' b = JStr ''tool_use'')"

definition stop_reason_of :: "(json \<Rightarrow> string) \<Rightarrow> obj \<Rightarrow> obj list \<Rightarrow> string" where
  "stop_reason_of spr choice blocks =
     (if list_ex is_tool_use blocks then ''tool_use''
      else if string_from_any spr (obj_at ''finish_reason'' choice) = ''length'' then ''max_tokens'' else ''end_turn'')"

text \<open>\<open>body\<close> is the decoded answer, \<open>stamp\<close> the time in the message's id.\<close>

definition anthropic_message_from_openai ::
  "(json \<Rightarrow> string) \<Rightarrow> (string \<Rightarrow> json option) \<Rightarrow> (nat \<Rightarrow> string) \<Rightarrow> string \<Rightarrow> json option \<Rightarrow> string \<Rightarrow> obj"
where
  "anthropic_message_from_openai spr dec gen stamp body fallback =
     (let raw = or_empty (object_of body); choice = first_choice_of raw;
          message = or_empty (as_map (obj_at ''message'' choice));
          blocks = answer_blocks spr dec gen message; us = or_empty (as_map (obj_at ''usage'' raw))
      in [(''id'', JStr (''msg_'' @ stamp)), (''type'', JStr ''message''), (''role'', JStr ''assistant''),
          (''model'', JStr (default_string (string_from_any spr (obj_at ''model'' raw)) fallback)),
          (''content'', JArr (map JObj blocks)), (''stop_reason'', JStr (stop_reason_of spr choice blocks)),
          (''stop_sequence'', JNull),
          (''usage'', JObj [
             (''input_tokens'', JNum (of_int (int_of_any (first_present us [''prompt_tokens'', ''input_tokens'', ''PromptTokens''])))),
             (''output_tokens'', JNum (of_int (int_of_any (first_present us [''completion_tokens'', ''output_tokens'', ''CompletionTokens'']))))])])"

section \<open>Streams\<close>

type_synonym event = "string \<times> obj"

definition typed_event :: "string \<Rightarrow> obj \<Rightarrow> event" where
  "typed_event ty rest = (ty, (''type'', JStr ty) # rest)"

definition at_index :: "nat \<Rightarrow> obj" where
  "at_index i = [(''index'', JNum (of_nat i))]"

definition block_events :: "(json \<Rightarrow> string) \<Rightarrow> (json \<Rightarrow> string) \<Rightarrow> nat \<Rightarrow> obj \<Rightarrow> event list" where
  "block_events spr enc i b =
     (if is_tool_use b then
        [typed_event ''content_block_start'' (at_index i @ [(''content_block'', JObj [(''type'', JStr ''tool_use''),
           (''id'', obj_at ''id'' b), (''name'', obj_at ''name'' b), (''input'', JObj [])])]),
         typed_event ''content_block_delta'' (at_index i @ [(''delta'', JObj [(''type'', JStr ''input_json_delta''),
           (''partial_json'', JStr (json_string enc (obj_at ''input'' b)))])])]
      else
        [typed_event ''content_block_start'' (at_index i @ [(''content_block'', JObj (text_block []))]),
         typed_event ''content_block_delta'' (at_index i @ [(''delta'', JObj [(''type'', JStr ''text_delta''),
           (''text'', JStr (string_from_any spr (obj_at ''text'' b)))])])])
     @ [typed_event ''content_block_stop'' (at_index i)]"

fun blocks_events :: "(json \<Rightarrow> string) \<Rightarrow> (json \<Rightarrow> string) \<Rightarrow> nat \<Rightarrow> obj list \<Rightarrow> event list" where
  "blocks_events spr enc i [] = []"
| "blocks_events spr enc i (b # bs) = block_events spr enc i b @ blocks_events spr enc (Suc i) bs"

definition anthropic_message_stream :: "(json \<Rightarrow> string) \<Rightarrow> (json \<Rightarrow> string) \<Rightarrow> obj \<Rightarrow> event list" where
  "anthropic_message_stream spr enc message =
     (let start = obj_set ''stop_sequence'' JNull (obj_set ''stop_reason'' JNull (obj_set ''content'' (JArr []) message));
          us = or_empty (as_map (obj_at ''usage'' message))
      in [typed_event ''message_start'' [(''message'', JObj start)]]
         @ blocks_events spr enc 0 (items_of (obj_at ''content'' message))
         @ [typed_event ''message_delta''
              [(''delta'', JObj [(''stop_reason'', JStr (default_string (string_from_any spr (obj_at ''stop_reason'' message)) ''end_turn'')),
                  (''stop_sequence'', JNull)]),
               (''usage'', JObj [(''output_tokens'', JNum (of_int (int_of_any (obj_at ''output_tokens'' us))))])],
            typed_event ''message_stop'' []])"

end
