(* ===== verification/Anthropic_Safety.thy ===== *)
theory Anthropic_Safety
  imports Anthropic_Bridge
begin

text \<open>
  What the Anthropic endpoint keeps and loses: the stream carries the whole message; an answer has
  well-formed blocks; and of a request to an Anthropic provider only the model, the token limit and the
  messages arrive.
\<close>

section \<open>Lists of maps\<close>

lemma maps_of_objs [simp]: "maps_of (map JObj ms) = ms"
  by (induction ms) (simp_all add: maps_of_def List.map_filter_simps)

lemma items_of_objs [simp]: "items_of (JArr (map JObj ms)) = ms"
  by (simp add: items_of_def)

section \<open>Answers\<close>

lemma tool_call_block_kind:
  "is_tool_use (tool_call_block spr dec gen i c)"
  "as_map (obj_at ''input'' (tool_call_block spr dec gen i c)) \<noteq> None"
  by (simp_all add: is_tool_use_def tool_call_block_def obj_at_def Let_def)

lemma text_block_kind: "\<not> is_tool_use (text_block t)" "obj_at ''type'' (text_block t) = JStr ''text''"
  by (simp_all add: is_tool_use_def text_block_def obj_at_def)

text \<open>What a block of an answer looks like.\<close>

definition answer_block_ok :: "obj \<Rightarrow> bool" where
  "answer_block_ok b = ((\<exists>t. b = text_block t)
     \<or> is_tool_use b \<and> as_map (obj_at ''input'' b) \<noteq> None)"

lemma answer_blocks_ok: "b \<in> set (answer_blocks spr dec gen m) \<Longrightarrow> answer_block_ok b"
  by (auto simp: answer_blocks_def answer_block_ok_def Let_def tool_call_block_kind split: if_splits option.splits)

lemma answer_blocks_Nil: "answer_blocks spr dec gen m \<noteq> []"
  by (simp add: answer_blocks_def Let_def)

lemma message_fields:
  fixes spr dec gen stamp body fallback
  defines "m \<equiv> anthropic_message_from_openai spr dec gen stamp body fallback"
    and "choice \<equiv> first_choice_of (or_empty (object_of body))"
  shows "items_of (obj_at ''content'' m) = answer_blocks spr dec gen (or_empty (as_map (obj_at ''message'' choice)))"
    and "obj_at ''stop_reason'' m = JStr (stop_reason_of spr choice (items_of (obj_at ''content'' m)))"
  by (simp_all add: m_def choice_def anthropic_message_from_openai_def Let_def obj_at_def)

text \<open>C39: Whatever the upstream answered, even nothing that can be decoded, the message handed to an
  Anthropic client has at least one block, every block is a text or a tool call whose input is an object,
  and the stop reason is \<open>tool_use\<close> exactly when there is a tool call.\<close>

theorem anthropic_answer_wellformed:
  "let m = anthropic_message_from_openai spr dec gen stamp body fallback; bs = items_of (obj_at ''content'' m)
   in bs \<noteq> [] \<and> list_all answer_block_ok bs
      \<and> (obj_at ''stop_reason'' m = JStr ''tool_use'' \<longleftrightarrow> list_ex is_tool_use bs)"
  unfolding Let_def message_fields
  by (auto simp: list_all_iff answer_blocks_ok answer_blocks_Nil stop_reason_of_def)

section \<open>Streams\<close>

text \<open>What a client of the stream keeps: the blocks begun so far, whose last one the deltas extend. An
  event for another index than the last block's is an error.\<close>

definition extend_block :: "(string \<Rightarrow> json option) \<Rightarrow> obj \<Rightarrow> obj \<Rightarrow> obj option" where
  "extend_block dec delta b =
     (if obj_at ''type'' delta = JStr ''text_delta'' then
        (case (obj_at ''text'' b, obj_at ''text'' delta) of
           (JStr s, JStr t) \<Rightarrow> Some (obj_set ''text'' (JStr (s @ t)) b) | _ \<Rightarrow> None)
      else case obj_at ''partial_json'' delta of
          JStr s \<Rightarrow> (case dec s of Some v \<Rightarrow> Some (obj_set ''input'' v b) | None \<Rightarrow> None)
        | _ \<Rightarrow> None)"

definition read_event :: "(string \<Rightarrow> json option) \<Rightarrow> event \<Rightarrow> obj list \<Rightarrow> obj list option" where
  "read_event dec e bs =
     (let p = snd e; index = obj_at ''index'' p in
      if fst e = ''content_block_start'' then
        (if index = JNum (of_nat (length bs)) then map_option (\<lambda>b. bs @ [b]) (as_map (obj_at ''content_block'' p)) else None)
      else if fst e = ''content_block_delta'' then
        (if bs \<noteq> [] \<and> index = JNum (of_nat (length bs - 1))
         then (case as_map (obj_at ''delta'' p) of
                 None \<Rightarrow> None | Some d \<Rightarrow> map_option (\<lambda>b. butlast bs @ [b]) (extend_block dec d (last bs)))
         else None)
      else Some bs)"

fun read_events :: "(string \<Rightarrow> json option) \<Rightarrow> event list \<Rightarrow> obj list \<Rightarrow> obj list option" where
  "read_events dec [] bs = Some bs"
| "read_events dec (e # es) bs = (case read_event dec e bs of None \<Rightarrow> None | Some bs' \<Rightarrow> read_events dec es bs')"

lemma read_events_append:
  "read_events dec (es @ fs) bs = (case read_events dec es bs of None \<Rightarrow> None | Some bs' \<Rightarrow> read_events dec fs bs')"
  by (induction es arbitrary: bs) (simp_all split: option.split)

text \<open>A block survives the stream when its input does.\<close>

definition input_survives :: "(json \<Rightarrow> string) \<Rightarrow> (string \<Rightarrow> json option) \<Rightarrow> obj \<Rightarrow> bool" where
  "input_survives enc dec b =
     (is_tool_use b \<longrightarrow> dec (json_string enc (obj_at ''input'' b)) = Some (obj_at ''input'' b))"

definition stream_block :: "obj \<Rightarrow> bool" where
  "stream_block b = ((\<exists>t. b = text_block t) \<or> (\<exists>id name v. b = [(''type'', JStr ''tool_use''), (''id'', id), (''name'', name), (''input'', v)]))"

lemma answer_blocks_stream: "b \<in> set (answer_blocks spr dec gen m) \<Longrightarrow> stream_block b"
  by (auto simp: answer_blocks_def stream_block_def tool_call_block_def Let_def split: if_splits option.splits)

lemma read_block:
  assumes "stream_block b" and "input_survives enc dec b"
  shows "read_events dec (block_events spr enc (length bs) b) bs = Some (bs @ [b])"
  using assms(1) unfolding stream_block_def
proof (elim disjE exE)
  fix t assume b: "b = text_block t"
  show ?thesis
    by (simp add: b block_events_def text_block_kind typed_event_def read_event_def at_index_def obj_at_def text_block_def
        extend_block_def string_from_any_def is_tool_use_def Let_def)
next
  fix id name v assume b: "b = [(''type'', JStr ''tool_use''), (''id'', id), (''name'', name), (''input'', v)]"
  have tool: "is_tool_use b" and input: "obj_at ''input'' b = v" by (simp_all add: b is_tool_use_def obj_at_def)
  with assms(2) have "dec (json_string enc v) = Some v" by (simp add: input_survives_def)
  then show ?thesis
    by (simp add: block_events_def tool input typed_event_def read_event_def at_index_def obj_at_def extend_block_def Let_def)
       (simp add: b read_event_def Let_def)
qed

lemma read_blocks:
  assumes "list_all stream_block new" and "list_all (input_survives enc dec) new"
  shows "read_events dec (blocks_events spr enc (length bs) new) bs = Some (bs @ new)"
  using assms
proof (induction new arbitrary: bs)
  case (Cons b new)
  from Cons.IH [of "bs @ [b]"] Cons.prems read_block [of b enc dec spr bs] show ?case
    by (simp add: read_events_append)
qed simp

lemma stop_reason_kept: "trim_space (stop_reason_of spr choice bs) \<noteq> []"
proof -
  have "trim_space ''tool_use'' \<noteq> []" "trim_space ''max_tokens'' \<noteq> []" "trim_space ''end_turn'' \<noteq> []" by code_simp+
  then show ?thesis by (simp add: stop_reason_of_def)
qed


definition tool_answer :: json where
  "tool_answer = JObj [(''choices'', JArr [JObj [(''message'', JObj [(''content'', JStr ''hi''),
     (''tool_calls'', JArr [JObj [(''id'', JStr ''c1''), (''function'', JObj [(''name'', JStr ''f''), (''arguments'', JStr ''a'')])]])])]])]"

definition tool_dec :: "string \<Rightarrow> json option" where
  "tool_dec s = (if s = ''a'' then Some (JObj [(''x'', JBool True)]) else None)"


section \<open>Requests to an Anthropic provider\<close>

text \<open>What the adaptation reads of a prepared request.\<close>

definition seen_by_anthropic :: "upstream \<Rightarrow> obj \<Rightarrow> string \<times> json \<times> json list \<times> json \<times> json" where
  "seen_by_anthropic u p =
     (model_for p u, first_present p [''max_tokens'', ''maxTokens''],
      List.map_filter anthropic_message (items_of (obj_at ''messages'' p)), obj_at ''input'' p, obj_at ''system'' p)"

lemma adapt_anthropic_seen:
  "seen_by_anthropic u p = seen_by_anthropic u q \<Longrightarrow> adapt_anthropic_request spr u stream p = adapt_anthropic_request spr u stream q"
  by (simp add: seen_by_anthropic_def adapt_anthropic_request_def messages_for_anthropic_def Let_def)

lemma set_missing_keeps: "k \<noteq> key \<Longrightarrow> map_of (set_missing ks key v m) k = map_of m k"
  by (simp add: set_missing_def split: option.split)

lemma set_absent_keeps: "k \<noteq> key \<Longrightarrow> map_of (set_absent_or_nil ks key v m) k = map_of m k"
  by (simp add: set_absent_or_nil_def split: option.split)

lemma set_absent_present: "first_present m ks \<noteq> JNull \<Longrightarrow> set_absent_or_nil ks key v m = m"
  by (simp add: set_absent_or_nil_def)

lemma openai_config_keeps:
  assumes "k \<notin> {''temperature'', ''max_tokens'', ''top_p'', ''stop''}"
  shows "map_of (apply_openai_config p cfg) k = map_of p k"
  using assms by (simp add: apply_openai_config_def set_missing_keeps set_absent_keeps Let_def)

lemma openai_config_max_tokens:
  assumes "map_of p ''max_tokens'' = Some (JNum n)"
  shows "map_of (apply_openai_config p cfg) ''max_tokens'' = Some (JNum n)"
proof -
  have "map_of (set_missing [''temperature''] ''temperature'' v p) ''max_tokens'' = Some (JNum n)" for v
    using assms by (simp add: set_missing_keeps)
  then have "first_present (set_missing [''temperature''] ''temperature'' v p) [''max_tokens'', ''maxTokens''] \<noteq> JNull" for v
    by simp
  with assms show ?thesis
    by (simp add: apply_openai_config_def set_missing_keeps set_absent_keeps set_absent_present Let_def)
qed

lemma copy_present_keeps: "k \<noteq> name \<Longrightarrow> map_of (copy_present key name src out) k = map_of out k"
  by (simp add: copy_present_def split: option.split)

lemma bridged_fields:
  assumes "k \<notin> {''temperature'', ''top_p'', ''stop'', ''tools'', ''tool_choice''}"
  shows "map_of (anthropic_payload_to_openai spr enc gen input) k =
    (if k = ''model'' then Some (JStr (string_from_any spr (obj_at ''model'' input)))
     else if k = ''messages'' then Some (JArr (map JObj (openai_messages spr enc gen input)))
     else if k = ''max_tokens'' then
       Some (JNum (of_int (let n = int_of_any (obj_at ''max_tokens'' input) in if n \<le> 0 then 2048 else n)))
     else if k = ''stream'' then Some (JBool False) else None)"
  using assms by (simp add: anthropic_payload_to_openai_def copy_present_keeps Let_def)

lemma with_model_keeps: "k \<noteq> ''model'' \<Longrightarrow> map_of (with_model spr model m) k = map_of m k"
  by (simp add: with_model_def)

lemma with_model_model:
  "obj_at ''model'' p = obj_at ''model'' q \<Longrightarrow> obj_at ''model'' (with_model spr model p) = obj_at ''model'' (with_model spr model q)"
  by (simp add: with_model_def)

text \<open>The keys an Anthropic provider's body is built from.\<close>

lemma prepared_fields:
  assumes "k \<in> {''messages'', ''input'', ''system'', ''maxTokens''}"
  shows "map_of (prepare_payload u stream p) k = map_of p k"
  using assms by (auto simp: prepare_payload_def openai_config_keeps Let_def)

lemma prepared_model:
  "obj_at ''model'' p = obj_at ''model'' q \<Longrightarrow>
   obj_at ''model'' (prepare_payload u stream p) = obj_at ''model'' (prepare_payload u stream q)"
  by (simp add: prepare_payload_def obj_at_def openai_config_keeps Let_def)

lemma prepared_max_tokens:
  "map_of p ''max_tokens'' = Some (JNum n) \<Longrightarrow> map_of (prepare_payload u stream p) ''max_tokens'' = Some (JNum n)"
  by (simp add: prepare_payload_def openai_config_max_tokens Let_def)

definition bridge_essentials :: "obj \<Rightarrow> obj" where
  "bridge_essentials input = filter (\<lambda>(k, _). k \<in> {''model'', ''max_tokens'', ''messages''}) input"

lemma map_of_filter_keys: "map_of (filter (\<lambda>(k, _). k \<in> A) m) k = (if k \<in> A then map_of m k else None)"
  by (induction m) auto

lemma essentials_at:
  "obj_at k (bridge_essentials input) = (if k \<in> {''model'', ''max_tokens'', ''messages''} then obj_at k input else JNull)"
  unfolding obj_at_def bridge_essentials_def map_of_filter_keys by (simp del: insert_iff)

definition bridged_messages :: "(json \<Rightarrow> string) \<Rightarrow> (json \<Rightarrow> string) \<Rightarrow> (nat \<Rightarrow> string) \<Rightarrow> obj \<Rightarrow> obj list" where
  "bridged_messages spr enc gen input =
     (case as_list (obj_at ''messages'' input) of None \<Rightarrow> []
      | Some vs \<Rightarrow> concat (map (anthropic_message_to_openai spr enc gen) (maps_of vs)))"

lemma system_skipped: "anthropic_message [(''role'', JStr ''system''), c] = None"
proof -
  have "trim_space ''system'' = ''system''" by code_simp
  then show ?thesis by (simp add: anthropic_message_def obj_at_def)
qed

lemma openai_messages_split:
  "openai_messages spr enc gen i =
     (let system = anthropic_content_text spr (obj_at ''system'' i);
          ms = (if system = [] then [] else [[(''role'', JStr ''system''), (''content'', JStr system)]]) @ bridged_messages spr enc gen i
      in if ms = [] then [[(''role'', JStr ''user''), (''content'', JStr ''Continue.'')]] else ms)"
  by (simp only: openai_messages_def bridged_messages_def Let_def)

lemma essential_messages:
  assumes "bridged_messages spr enc gen input \<noteq> []"
  shows "List.map_filter anthropic_message (openai_messages spr enc gen input)
    = List.map_filter anthropic_message (openai_messages spr enc gen (bridge_essentials input))"
proof -
  have "List.map_filter anthropic_message (openai_messages spr enc gen i)
      = List.map_filter anthropic_message (bridged_messages spr enc gen i)"
    if "bridged_messages spr enc gen i \<noteq> []" for i
  proof (cases "anthropic_content_text spr (obj_at ''system'' i) = []")
    case True
    with that show ?thesis by (simp add: openai_messages_split)
  next
    case False
    with that show ?thesis by (simp add: openai_messages_split List.map_filter_simps system_skipped)
  qed
  moreover have same: "bridged_messages spr enc gen (bridge_essentials input) = bridged_messages spr enc gen input"
    by (simp add: bridged_messages_def essentials_at)
  ultimately show ?thesis using assms by simp
qed

lemma seen_by_anthropic_essentials:
  assumes "bridged_messages spr enc gen input \<noteq> []"
  shows "seen_by_anthropic u (prepare_payload u False (with_model spr model (anthropic_payload_to_openai spr enc gen input)))
    = seen_by_anthropic u (prepare_payload u False (with_model spr model (anthropic_payload_to_openai spr enc gen (bridge_essentials input))))"
proof -
  let ?p = "\<lambda>i. with_model spr model (anthropic_payload_to_openai spr enc gen i)"
  have "obj_at ''model'' (?p input) = obj_at ''model'' (?p (bridge_essentials input))"
    by (rule with_model_model) (simp add: obj_at_def [of "''model''" "anthropic_payload_to_openai _ _ _ _"] bridged_fields essentials_at)
  from prepared_model [OF this, of u False] have "model_for (prepare_payload u False (?p input)) u
      = model_for (prepare_payload u False (?p (bridge_essentials input))) u" by (simp add: model_for_def)
  moreover have "first_present (prepare_payload u False (?p i)) [''max_tokens'', ''maxTokens'']
      = JNum (of_int (let n = int_of_any (obj_at ''max_tokens'' i) in if n \<le> 0 then 2048 else n))" for i
  proof -
    have "map_of (?p i) ''max_tokens'' = Some (JNum (of_int (let n = int_of_any (obj_at ''max_tokens'' i) in if n \<le> 0 then 2048 else n)))"
      by (simp add: with_model_keeps bridged_fields)
    from prepared_max_tokens [OF this, of u False] show ?thesis by simp
  qed
  moreover have "obj_at ''messages'' (prepare_payload u False (?p i)) = JArr (map JObj (openai_messages spr enc gen i))"
    "obj_at ''input'' (prepare_payload u False (?p i)) = JNull" "obj_at ''system'' (prepare_payload u False (?p i)) = JNull" for i
    by (simp_all add: obj_at_def prepared_fields with_model_keeps bridged_fields)
  ultimately show ?thesis
    by (simp add: seen_by_anthropic_def essential_messages [OF assms] essentials_at)
qed

text \<open>C40: Of a request to the Anthropic endpoint that is routed to an Anthropic provider, only the model, the
  token limit and the messages count: the provider gets the same request when everything else is taken
  away first. So the system prompt, the tools and their choice, the temperature, \<open>top_p\<close> and the stop
  sequences of the client are lost, though the code converts each of them.\<close>

theorem anthropic_to_anthropic_loses:
  assumes "str_contains (adapter_kind u) ''anthropic''" and "\<not> is_codex u"
    and "bridged_messages spr enc gen input \<noteq> []"
    and "raw1 \<noteq> []" and "dec raw1 = Some (JObj (with_model spr model (anthropic_payload_to_openai spr enc gen input)))"
    and "raw2 \<noteq> []" and "dec raw2 = Some (JObj (with_model spr model (anthropic_payload_to_openai spr enc gen (bridge_essentials input))))"
  shows "adapt_request_body dec spr esc u kind raw1 False = adapt_request_body dec spr esc u kind raw2 False"
  using adapt_anthropic_seen [OF seen_by_anthropic_essentials [OF assms(3), of u model], of spr False] assms
  by (simp add: adapt_request_body_def decode_payload_def Let_def)

definition claude_input :: obj where
  "claude_input = [(''system'', JStr ''be brief''), (''temperature'', JNum 1), (''model'', JStr ''m''),
     (''messages'', JArr [JObj [(''role'', JStr ''user''), (''content'', JStr ''hi'')]]),
     (''tools'', JArr [JObj [(''name'', JStr ''f'')]])]"

definition claude_upstream :: upstream where
  "claude_upstream = \<lparr>up_name = ''u'', up_provider = ''anthropic'', up_type = ''anthropic'', up_endpoint = [], up_model = ''m'', up_config = []\<rparr>"

definition claude_dec :: "string \<Rightarrow> json option" where
  "claude_dec s = (let i = (if s = ''a'' then claude_input else bridge_essentials claude_input)
     in Some (JObj (with_model (\<lambda>_. []) ''m'' (anthropic_payload_to_openai (\<lambda>_. []) (\<lambda>_. []) (\<lambda>_. []) i))))"

theorem anthropic_to_anthropic_loses_witness:
  "adapt_request_body claude_dec (\<lambda>_. []) id claude_upstream ''chat'' ''a'' False
   = adapt_request_body claude_dec (\<lambda>_. []) id claude_upstream ''chat'' ''b'' False"
proof (rule anthropic_to_anthropic_loses)
  show "str_contains (adapter_kind claude_upstream) ''anthropic''" "\<not> is_codex claude_upstream"
    "bridged_messages (\<lambda>_. []) (\<lambda>_. []) (\<lambda>_. []) claude_input \<noteq> []" by code_simp+
qed (simp_all add: claude_dec_def)

end
