(* ===== verification/Gateway_Store.thy ===== *)
theory Gateway_Store
  imports Row_Lifecycle Store_Tables Stable_Sort Go_Json
begin

text \<open>
  Gateways and their keys, \<open>internal/store/gateway.go\<close>: creating, updating, deleting and bulk
  operations, authentication, the monthly quota and route planning, over the tables
  \<open>gateways\<close>, \<open>gateway_upstreams\<close>, \<open>gateway_keys\<close>, \<open>channels\<close>, \<open>orgs\<close> and the audit log. A
  channel row carries the columns of its latest status snapshot, which the code joins. Random
  ids, generated keys and the hash \<open>h\<close> (hex SHA-256) are arguments; float columns are rationals.
  \<open>GatewayStats\<close>, an aggregate for display, is not part of the returned gateway.
\<close>

section \<open>Tables\<close>

datatype gateway_status = GActive | GPaused | GDeleted

datatype key_status = YActive | YRevoked | YExpired

record gateway =
  gw_id :: string
  gw_org :: string
  gw_name :: string
  gw_slug :: string
  gw_base_url :: string
  gw_policy :: string
  gw_status :: gateway_status
  gw_qps_limit :: int
  gw_quota_month :: int
  gw_created_by :: string
  gw_created :: time
  gw_updated :: time

record gateway_link =
  gl_id :: string
  gl_gateway :: string
  gl_channel :: string
  gl_weight :: int
  gl_priority :: int
  gl_enabled :: bool

record channel =
  ch_id :: string
  ch_name :: string
  ch_provider :: string
  ch_owner_type :: string
  ch_owner_id :: "string option"
  ch_org :: "string option"
  ch_type :: string
  ch_model :: string
  ch_endpoint :: string
  ch_status :: string
  ch_score :: int
  ch_gateway_enabled :: bool
  ch_managed_source :: "string option"
  ch_deleted_at :: "time option"
  ch_success_rate :: rat
  ch_latency_p95 :: int
  ch_cost_usd :: rat
  ch_config :: obj
  ch_connection :: "string option"
  ch_connection_model :: "string option"

record gateway_upstream =
  gu_id :: string
  gu_gateway :: string
  gu_channel :: string
  gu_name :: string
  gu_provider :: string
  gu_owner_type :: string
  gu_type :: string
  gu_model :: string
  gu_endpoint :: string
  gu_status :: string
  gu_score :: int
  gu_success_rate :: rat
  gu_latency_p95 :: int
  gu_cost_usd :: rat
  gu_weight :: int
  gu_priority :: int
  gu_enabled :: bool
  gu_config :: obj

record gateway_view = gateway +
  gv_policy_label :: string
  gv_upstreams :: "gateway_upstream list"

record gateway_key =
  gk_id :: string
  gk_org :: string
  gk_gateway :: string
  gk_name :: string
  gk_hash :: string
  gk_prefix :: string
  gk_mask :: string
  gk_quota_month :: int
  gk_qps_limit :: int
  gk_requests_used :: int
  gk_status :: key_status
  gk_created :: time
  gk_last_used :: "time option"
  gk_expires :: "time option"
  gk_revoked_at :: "time option"
  gk_deleted_at :: "time option"
  gk_created_by :: string

record org =
  og_id :: string
  og_active :: bool
  og_deleted :: bool

record gateway_db =
  gdb_gateways :: "gateway list"
  gdb_links :: "gateway_link list"
  gdb_keys :: "gateway_key list"
  gdb_channels :: "channel list"
  gdb_orgs :: "org list"
  gdb_audits :: "(string \<times> string) list"

section \<open>Helpers\<close>

definition default_org_id :: string where "default_org_id = ''org_default''"

definition org_or_default :: "string \<Rightarrow> string" where
  "org_or_default org = (if org = [] then default_org_id else org)"

definition personal_org_id :: "string \<Rightarrow> string" where
  "personal_org_id user0 =
     (let user = trim_space user0 in if user = [] then default_org_id else ''org_'' @ user)"

definition hash_gateway_key :: "(string \<Rightarrow> string) \<Rightarrow> string \<Rightarrow> string" where
  "hash_gateway_key h key = h (trim_space key)"

definition gateway_key_prefix :: "string \<Rightarrow> string" where
  "gateway_key_prefix key = (if length key \<le> 12 then key else take 12 key)"

definition mask_dots :: string where
  "mask_dots =
     [CHR 0xE2, CHR 0x80, CHR 0xA2, CHR 0xE2, CHR 0x80, CHR 0xA2, CHR 0xE2, CHR 0x80,
      CHR 0xA2, CHR 0xE2, CHR 0x80, CHR 0xA2]"

text \<open>Slicing \<open>key[:4]\<close> of a shorter string panics.\<close>

definition mask_gateway_key :: "string \<Rightarrow> string res" where
  "mask_gateway_key key =
     (if length key \<le> 16
      then (if length key < 4 then Inl (ErrPanic ''slice bounds out of range'')
            else Inr (take 4 key @ ''****''))
      else Inr (take 12 key @ mask_dots @ drop (length key - 4) key))"

definition slug_char :: "char \<Rightarrow> bool" where
  "slug_char c = (let n = of_char c :: nat in (97 \<le> n \<and> n \<le> 122) \<or> (48 \<le> n \<and> n \<le> 57))"

text \<open>\<open>regexp.ReplaceAllString\<close> of every maximal run of other characters by one dash.\<close>

fun slug_dashes :: "bool \<Rightarrow> string \<Rightarrow> string" where
  "slug_dashes inrun [] = []"
| "slug_dashes inrun (c # cs) =
     (if slug_char c then c # slug_dashes False cs
      else if inrun then slug_dashes True cs else CHR 0x2D # slug_dashes True cs)"

definition trim_dashes :: "string \<Rightarrow> string" where
  "trim_dashes s = rev (dropWhile (\<lambda>c. c = CHR 0x2D) (rev (dropWhile (\<lambda>c. c = CHR 0x2D) s)))"

definition unique_slug :: "string \<Rightarrow> string \<Rightarrow> string" where
  "unique_slug value0 uuid =
     (let value1 = to_lower (trim_space value0);
          value2 = trim_dashes (slug_dashes False value1);
          value = (if value2 = [] then ''gateway'' else value2)
      in value @ ''-'' @ take 8 uuid)"

text \<open>The switch looks at the trimmed policy and returns the untrimmed one.\<close>

definition normalize_gateway_policy :: "string \<Rightarrow> string" where
  "normalize_gateway_policy policy =
     (if trim_space policy = ''success'' \<or> trim_space policy = ''cost'' then policy else ''latency'')"

definition validate_gateway_status :: "string \<Rightarrow> gateway_status res" where
  "validate_gateway_status status0 =
     (let status = to_lower (trim_space status0)
      in if status = ''active'' then Inr GActive
         else if status = ''paused'' then Inr GPaused
         else if status = ''deleted'' then Inr GDeleted
         else Inl (ErrNamed ''invalid gateway status''))"

definition validate_key_editable_status :: "string \<Rightarrow> key_status res" where
  "validate_key_editable_status status0 =
     (let status = to_lower (trim_space status0)
      in if status = ''active'' then Inr YActive
         else if status = ''expired'' then Inr YExpired
         else Inl (ErrNamed ''invalid gateway key status''))"

definition gateway_policy_label :: "string \<Rightarrow> string" where
  "gateway_policy_label policy =
     (if policy = ''success'' then
        [CHR 0xE6, CHR 0x9C, CHR 0x80, CHR 0xE9, CHR 0xAB, CHR 0x98, CHR 0xE6, CHR 0x88,
         CHR 0x90, CHR 0xE5, CHR 0x8A, CHR 0x9F, CHR 0xE7, CHR 0x8E, CHR 0x87]
      else if policy = ''cost'' then
        [CHR 0xE6, CHR 0x88, CHR 0x90, CHR 0xE6, CHR 0x9C, CHR 0xAC, CHR 0xE4, CHR 0xBC,
         CHR 0x98, CHR 0xE5, CHR 0x85, CHR 0x88]
      else
        [CHR 0xE6, CHR 0x9C, CHR 0x80, CHR 0xE4, CHR 0xBD, CHR 0x8E, CHR 0xE5, CHR 0xBB,
         CHR 0xB6, CHR 0xE8, CHR 0xBF, CHR 0x9F, CHR 0xE4, CHR 0xBC, CHR 0x98, CHR 0xE5,
         CHR 0x85, CHR 0x88])"

definition unique_strings :: "string list \<Rightarrow> string list" where
  "unique_strings values = unique_trimmed [] values"

definition org_live :: "gateway_db \<Rightarrow> string \<Rightarrow> bool" where
  "org_live db org = sql_exists (\<lambda>o'. og_id o' = org \<and> og_active o' \<and> \<not> og_deleted o') (gdb_orgs db)"

definition ensure_active_org :: "gateway_db \<Rightarrow> string \<Rightarrow> unit res" where
  "ensure_active_org db org = (if org_live db org then Inr () else Inl ErrNoRows)"

definition gateway_access_message :: "string \<Rightarrow> bool \<Rightarrow> string" where
  "gateway_access_message private_org allow_platform =
     (if trim_space private_org = []
      then ''platform gateways can only use enabled, healthy or degraded platform channels''
      else if allow_platform
      then ''Super VIP gateways can only use enabled, healthy or degraded platform channels, or tested private channels in this workspace''
      else
        [CHR 0xE6, CHR 0x99, CHR 0xAE, CHR 0xE9, CHR 0x80, CHR 0x9A, CHR 0xE7, CHR 0x94,
         CHR 0xA8, CHR 0xE6, CHR 0x88, CHR 0xB7, CHR 0xE7, CHR 0x9A, CHR 0x84, CHR 0xE4,
         CHR 0xB8, CHR 0x93, CHR 0xE5, CHR 0xB1, CHR 0x9E, CHR 0xE4, CHR 0xB8, CHR 0xAD,
         CHR 0xE8, CHR 0xBD, CHR 0xAC, CHR 0xE7, CHR 0xAB, CHR 0x99, CHR 0xE5, CHR 0x8F,
         CHR 0xAA, CHR 0xE8, CHR 0x83, CHR 0xBD, CHR 0xE4, CHR 0xBD, CHR 0xBF, CHR 0xE7,
         CHR 0x94, CHR 0xA8, CHR 0xE5, CHR 0xBD, CHR 0x93, CHR 0xE5, CHR 0x89, CHR 0x8D,
         CHR 0xE5, CHR 0xB7, CHR 0xA5, CHR 0xE4, CHR 0xBD, CHR 0x9C, CHR 0xE5, CHR 0x8C,
         CHR 0xBA, CHR 0xE5, CHR 0xB7, CHR 0xB2, CHR 0xE9, CHR 0x80, CHR 0x9A, CHR 0xE8,
         CHR 0xBF, CHR 0x87, CHR 0xE6, CHR 0xA3, CHR 0x80, CHR 0xE6, CHR 0xB5, CHR 0x8B,
         CHR 0xE7, CHR 0x9A, CHR 0x84, CHR 0xE7, CHR 0xA7, CHR 0x81, CHR 0xE6, CHR 0x9C,
         CHR 0x89, CHR 0xE9, CHR 0x80, CHR 0x9A, CHR 0xE9, CHR 0x81, CHR 0x93, CHR 0xEF,
         CHR 0xBC, CHR 0x9B, CHR 0xE5, CHR 0xA6, CHR 0x82, CHR 0xE9, CHR 0x9C, CHR 0x80,
         CHR 0xE4, CHR 0xB8, CHR 0x80, CHR 0xE9, CHR 0x94, CHR 0xAE, CHR 0xE4, CHR 0xBD,
         CHR 0xBF, CHR 0xE7, CHR 0x94, CHR 0xA8, CHR 0xE5, CHR 0xB9, CHR 0xB3, CHR 0xE5,
         CHR 0x8F, CHR 0xB0, CHR 0xE7, CHR 0x9B, CHR 0x91, CHR 0xE6, CHR 0x8E, CHR 0xA7,
         CHR 0xE9, CHR 0x80, CHR 0x9A, CHR 0xE9, CHR 0x81, CHR 0x93, CHR 0xEF, CHR 0xBC,
         CHR 0x8C, CHR 0xE8, CHR 0xAF, CHR 0xB7, CHR 0xE5, CHR 0x85, CHR 0x88, CHR 0xE7,
         CHR 0x94, CHR 0xB1, CHR 0xE7, CHR 0xAE, CHR 0xA1, CHR 0xE7, CHR 0x90, CHR 0x86,
         CHR 0xE5, CHR 0x91, CHR 0x98, CHR 0xE5, CHR 0xBC, CHR 0x80, CHR 0xE9, CHR 0x80,
         CHR 0x9A, CHR 0x20, CHR 0x53, CHR 0x75, CHR 0x70, CHR 0x65, CHR 0x72, CHR 0x20,
         CHR 0x56, CHR 0x49, CHR 0x50])"

section \<open>Reading gateways\<close>

definition platform_eligible :: "channel \<Rightarrow> bool" where
  "platform_eligible c = (ch_owner_type c = ''platform'' \<and> ch_gateway_enabled c
     \<and> ch_status c \<in> {''healthy'', ''degraded''} \<and> ch_deleted_at c = None)"

definition coalesce :: "string option \<Rightarrow> string \<Rightarrow> string" where
  "coalesce v d = (case v of None \<Rightarrow> d | Some x \<Rightarrow> x)"

definition private_eligible :: "string \<Rightarrow> channel \<Rightarrow> bool" where
  "private_eligible org c = (ch_owner_type c = ''user'' \<and> coalesce (ch_managed_source c) [] = []
     \<and> ch_gateway_enabled c \<and> coalesce (ch_org c) (''org_'' @ coalesce (ch_owner_id c) []) = org
     \<and> ch_status c \<in> {''healthy'', ''degraded''} \<and> ch_deleted_at c = None)"

definition allowed_channel_ids :: "string list \<Rightarrow> string \<Rightarrow> bool \<Rightarrow> gateway_db \<Rightarrow> string list" where
  "allowed_channel_ids ids private_org allow_platform db =
     (let ok = (if trim_space private_org = [] then platform_eligible
                else if allow_platform then (\<lambda>c. platform_eligible c \<or> private_eligible private_org c)
                else private_eligible private_org)
      in remdups (map ch_id (filter (\<lambda>c. ch_id c \<in> set ids \<and> ok c) (gdb_channels db))))"

definition upstream_of :: "gateway_link \<Rightarrow> channel \<Rightarrow> gateway_upstream" where
  "upstream_of l c = \<lparr>gu_id = gl_id l, gu_gateway = gl_gateway l, gu_channel = gl_channel l,
     gu_name = ch_name c, gu_provider = ch_provider c, gu_owner_type = ch_owner_type c,
     gu_type = ch_type c, gu_model = ch_model c, gu_endpoint = ch_endpoint c, gu_status = ch_status c,
     gu_score = ch_score c, gu_success_rate = ch_success_rate c, gu_latency_p95 = ch_latency_p95 c,
     gu_cost_usd = ch_cost_usd c, gu_weight = gl_weight l, gu_priority = gl_priority l,
     gu_enabled = gl_enabled l, gu_config = ch_config c\<rparr>"

fun bytes_less :: "string \<Rightarrow> string \<Rightarrow> bool" where
  "bytes_less [] [] = False"
| "bytes_less [] (d # ds) = True"
| "bytes_less (c # cs) [] = False"
| "bytes_less (c # cs) (d # ds) =
     (let m = of_char c :: nat; n = of_char d :: nat in m < n \<or> (m = n \<and> bytes_less cs ds))"

definition upstream_order :: "gateway_upstream \<Rightarrow> gateway_upstream \<Rightarrow> bool" where
  "upstream_order a b =
     (gu_priority a < gu_priority b
      \<or> (gu_priority a = gu_priority b \<and> (gu_score a > gu_score b
          \<or> (gu_score a = gu_score b \<and> bytes_less (gu_name a) (gu_name b)))))"

definition gateway_upstreams :: "string \<Rightarrow> gateway_db \<Rightarrow> gateway_upstream list" where
  "gateway_upstreams gid db =
     sort_stable upstream_order
       (concat (map (\<lambda>l. map (upstream_of l) (filter (\<lambda>c. ch_id c = gl_channel l) (gdb_channels db)))
         (filter (\<lambda>l. gl_gateway l = gid) (gdb_links db))))"

definition view_gateway :: "gateway_db \<Rightarrow> gateway \<Rightarrow> gateway_view" where
  "view_gateway db g = gateway.extend g
     (gateway_view.fields (gateway_policy_label (gw_policy g)) (gateway_upstreams (gw_id g) db))"

definition gateway_by_id :: "string \<Rightarrow> string \<Rightarrow> gateway_db \<Rightarrow> gateway_view res" where
  "gateway_by_id gid org0 db =
     (case query_row (\<lambda>g. gw_id g = gid \<and> gw_org g = org_or_default org0 \<and> gw_status g \<noteq> GDeleted)
             (gdb_gateways db) of
        Inl e \<Rightarrow> Inl e
      | Inr g \<Rightarrow> Inr (view_gateway db g))"

definition list_gateways :: "string \<Rightarrow> gateway_db \<Rightarrow> gateway_view list" where
  "list_gateways org0 db =
     map (view_gateway db) (sort_stable (\<lambda>a b. gw_created a > gw_created b)
       (filter (\<lambda>g. gw_org g = org_or_default org0 \<and> gw_status g \<noteq> GDeleted) (gdb_gateways db)))"

section \<open>Gateways\<close>

record gateway_create_input =
  gc_name :: string
  gc_policy :: string
  gc_upstreams :: "string list"
  gc_qps :: int
  gc_quota :: int
  gc_base_url :: string
  gc_actor :: string
  gc_org :: string
  gc_private_org :: string
  gc_private_user :: string
  gc_allow_platform :: bool

definition default_gateway_name :: string where
  "default_gateway_name =
     [CHR 0xE4, CHR 0xB8, CHR 0x93, CHR 0xE5, CHR 0xB1, CHR 0x9E, CHR 0xE4, CHR 0xB8,
      CHR 0xAD, CHR 0xE8, CHR 0xBD, CHR 0xAC, CHR 0xE7, CHR 0xAB, CHR 0x99]"

definition private_org_of :: "string \<Rightarrow> string \<Rightarrow> string" where
  "private_org_of org0 user =
     (let org = trim_space org0
      in if org = [] \<and> trim_space user \<noteq> [] then personal_org_id user else org)"

text \<open>The links inserted for the upstreams, with their position as priority; \<open>lids\<close> are the new ids.\<close>

definition new_links :: "string \<Rightarrow> string list \<Rightarrow> string list \<Rightarrow> gateway_link list" where
  "new_links gid upstreams lids =
     map (\<lambda>(i, c, l). \<lparr>gl_id = ''gwu_'' @ l, gl_gateway = gid, gl_channel = c, gl_weight = 100,
            gl_priority = int i, gl_enabled = True\<rparr>)
       (zip [0..<length upstreams] (zip upstreams lids))"

definition create_gateway ::
  "gateway_create_input \<Rightarrow> string \<Rightarrow> string \<Rightarrow> string list \<Rightarrow> time \<Rightarrow> gateway_db
    \<Rightarrow> gateway_view res \<times> gateway_db"
where
  "create_gateway inp uuid slug_id lids now db =
     (let name0 = trim_space (gc_name inp);
          name = (if name0 = [] then default_gateway_name else name0);
          policy = normalize_gateway_policy (gc_policy inp);
          org0 = trim_space (gc_org inp);
          org = (if org0 = [] then default_org_id else org0);
          upstreams = unique_strings (gc_upstreams inp);
          private_org = private_org_of (gc_private_org inp) (gc_private_user inp);
          valid = allowed_channel_ids upstreams private_org (gc_allow_platform inp) db;
          gid = ''gw_'' @ uuid;
          slug = unique_slug name slug_id;
          row = \<lparr>gw_id = gid, gw_org = org, gw_name = name, gw_slug = slug,
             gw_base_url = gc_base_url inp, gw_policy = policy, gw_status = GActive,
             gw_qps_limit = (if gc_qps inp \<le> 0 then 60 else gc_qps inp),
             gw_quota_month = (if gc_quota inp \<le> 0 then 100000 else gc_quota inp),
             gw_created_by = gc_actor inp, gw_created = now, gw_updated = now\<rparr>
      in if upstreams = [] then (Inl (ErrNamed ''gateway requires at least one upstream''), db)
         else if length valid \<noteq> length upstreams
         then (Inl (ErrNamed (gateway_access_message private_org (gc_allow_platform inp))), db)
         else case ensure_active_org db org of
           Inl e \<Rightarrow> (Inl e, db)
         | Inr _ \<Rightarrow>
             if policy \<notin> {''latency'', ''success'', ''cost''}
             then (Inl (ErrConstraint ''gateways_policy_check''), db)
             else if sql_exists (\<lambda>g. gw_id g = gid) (gdb_gateways db)
             then (Inl (ErrConstraint ''gateways_pkey''), db)
             else if sql_exists (\<lambda>g. gw_slug g = slug) (gdb_gateways db)
             then (Inl (ErrConstraint ''gateways_slug_key''), db)
             else (let db' = db\<lparr>gdb_gateways := gdb_gateways db @ [row],
                        gdb_links := gdb_links db @ new_links gid upstreams lids,
                        gdb_audits := gdb_audits db @ [(''gateway.created'', gid)]\<rparr>
                   in (gateway_by_id gid org db', db')))"

record gateway_update_input =
  gp_name :: string
  gp_policy :: string
  gp_status :: string
  gp_upstreams :: "string list"
  gp_upstreams_set :: bool
  gp_qps :: int
  gp_quota :: int
  gp_private_org :: string
  gp_private_user :: string
  gp_allow_platform :: bool

definition revoke_keys_of :: "(string \<Rightarrow> bool) \<Rightarrow> time \<Rightarrow> gateway_key list \<Rightarrow> gateway_key list" where
  "revoke_keys_of sel now keys = sql_update (\<lambda>k. sel (gk_gateway k) \<and> gk_status k = YActive)
     (\<lambda>k. k\<lparr>gk_status := YRevoked,
            gk_revoked_at := (case gk_revoked_at k of None \<Rightarrow> Some now | Some r \<Rightarrow> Some r)\<rparr>) keys"

definition update_gateway ::
  "string \<Rightarrow> string \<Rightarrow> gateway_update_input \<Rightarrow> string list \<Rightarrow> time \<Rightarrow> gateway_db
    \<Rightarrow> gateway_view res \<times> gateway_db"
where
  "update_gateway gid org0 inp lids now db =
     (let org = org_or_default org0 in
      case gateway_by_id gid org db of
        Inl e \<Rightarrow> (Inl e, db)
      | Inr current \<Rightarrow>
          (let name0 = trim_space (gp_name inp);
               name = (if name0 = [] then gw_name current else name0);
               policy = (if trim_space (gp_policy inp) \<noteq> [] then normalize_gateway_policy (gp_policy inp)
                         else gw_policy current);
               qps = (if gp_qps inp \<le> 0 then gw_qps_limit current else gp_qps inp);
               quota = (if gp_quota inp \<le> 0 then gw_quota_month current else gp_quota inp);
               upstreams = unique_strings (gp_upstreams inp);
               private_org = private_org_of (gp_private_org inp) (gp_private_user inp);
               valid = allowed_channel_ids upstreams private_org (gp_allow_platform inp) db
           in case (if trim_space (gp_status inp) \<noteq> [] then validate_gateway_status (gp_status inp)
                    else Inr (gw_status current)) of
                Inl e \<Rightarrow> (Inl e, db)
              | Inr status \<Rightarrow>
                  if gp_upstreams_set inp \<and> upstreams = []
                  then (Inl (ErrNamed ''gateway requires at least one upstream''), db)
                  else if gp_upstreams_set inp \<and> length valid \<noteq> length upstreams
                  then (Inl (ErrNamed (gateway_access_message private_org (gp_allow_platform inp))), db)
                  else if policy \<notin> {''latency'', ''success'', ''cost''}
                  then (Inl (ErrConstraint ''gateways_policy_check''), db)
                  else
                    (let sel = (\<lambda>g. gw_id g = gid \<and> gw_org g = org \<and> gw_status g \<noteq> GDeleted);
                         gws = sql_update sel
                           (\<lambda>g. g\<lparr>gw_name := name, gw_policy := policy, gw_status := status,
                                  gw_qps_limit := qps, gw_quota_month := quota, gw_updated := now\<rparr>)
                           (gdb_gateways db);
                         links = (if gp_upstreams_set inp
                                  then filter (\<lambda>l. gl_gateway l \<noteq> gid) (gdb_links db)
                                       @ new_links gid upstreams lids
                                  else gdb_links db);
                         keys = (if status = GDeleted then revoke_keys_of (\<lambda>g. g = gid) now (gdb_keys db)
                                 else gdb_keys db);
                         db' = db\<lparr>gdb_gateways := gws, gdb_links := links, gdb_keys := keys,
                                  gdb_audits := gdb_audits db @ [(''gateway.updated'', gid)]\<rparr>
                     in if sql_affected sel (gdb_gateways db) = 0 then (Inl ErrNoRows, db)
                        else (gateway_by_id gid org db', db'))))"

definition delete_gateway :: "string \<Rightarrow> string \<Rightarrow> time \<Rightarrow> gateway_db \<Rightarrow> unit res \<times> gateway_db" where
  "delete_gateway gid org0 now db =
     (let sel = (\<lambda>g. gw_id g = gid \<and> gw_org g = org_or_default org0 \<and> gw_status g \<noteq> GDeleted)
      in if sql_affected sel (gdb_gateways db) = 0 then (Inl ErrNoRows, db)
         else (Inr (), db\<lparr>
           gdb_gateways := sql_update sel (\<lambda>g. g\<lparr>gw_status := GDeleted, gw_updated := now\<rparr>) (gdb_gateways db),
           gdb_keys := revoke_keys_of (\<lambda>g. g = gid) now (gdb_keys db),
           gdb_audits := gdb_audits db @ [(''gateway.deleted'', gid)]\<rparr>))"

definition bulk_update_gateways ::
  "string list \<Rightarrow> string \<Rightarrow> string \<Rightarrow> time \<Rightarrow> gateway_db \<Rightarrow> gateway_view list res \<times> gateway_db"
where
  "bulk_update_gateways ids0 org0 status0 now db =
     (let org = org_or_default org0; ids = unique_strings ids0
      in if ids = [] then (Inl (ErrNamed ''select at least one gateway''), db)
         else case validate_gateway_status status0 of
           Inl e \<Rightarrow> (Inl e, db)
         | Inr status \<Rightarrow>
             (let sel = (\<lambda>g. gw_id g \<in> set ids \<and> gw_org g = org \<and> gw_status g \<noteq> GDeleted);
                  updated = map gw_id (filter sel (gdb_gateways db));
                  db' = db\<lparr>
                    gdb_gateways := sql_update sel (\<lambda>g. g\<lparr>gw_status := status, gw_updated := now\<rparr>)
                      (gdb_gateways db),
                    gdb_keys := (if status = GDeleted
                      then revoke_keys_of (\<lambda>g. g \<in> set updated) now (gdb_keys db) else gdb_keys db),
                    gdb_audits := gdb_audits db @ map (\<lambda>g. (''gateway.bulk_status'', g)) updated\<rparr>
              in if length updated \<noteq> length ids then (Inl ErrNoRows, db)
                 else (Inr (list_gateways org db'), db')))"

definition bulk_delete_gateways ::
  "string list \<Rightarrow> string \<Rightarrow> time \<Rightarrow> gateway_db \<Rightarrow> gateway_view list res \<times> gateway_db"
where
  "bulk_delete_gateways ids org now db = bulk_update_gateways ids org ''deleted'' now db"

section \<open>Keys\<close>

record key_create_input =
  kc_gateway :: string
  kc_name :: string
  kc_plain :: string
  kc_quota :: int
  kc_qps :: int
  kc_expires :: "time option"
  kc_actor :: string
  kc_org :: string

definition default_key_name :: string where
  "default_key_name =
     [CHR 0xE9, CHR 0xBB, CHR 0x98, CHR 0xE8, CHR 0xAE, CHR 0xA4, CHR 0xE8, CHR 0xB0,
      CHR 0x83, CHR 0xE7, CHR 0x94, CHR 0xA8, CHR 0xE5, CHR 0xAF, CHR 0x86, CHR 0xE9,
      CHR 0x92, CHR 0xA5]"

definition new_gateway_plain_key :: "string \<Rightarrow> string" where
  "new_gateway_plain_key random = ''sk-th-'' @ random"

definition create_gateway_key ::
  "(string \<Rightarrow> string) \<Rightarrow> key_create_input \<Rightarrow> string \<Rightarrow> string \<Rightarrow> time \<Rightarrow> gateway_db
    \<Rightarrow> (gateway_key \<times> string) res \<times> gateway_db"
where
  "create_gateway_key h inp random uuid now db =
     (let org0 = trim_space (kc_org inp); org = (if org0 = [] then default_org_id else org0) in
      case gateway_by_id (kc_gateway inp) org db of
        Inl e \<Rightarrow> (Inl e, db)
      | Inr g \<Rightarrow>
          (case ensure_active_org db org of
             Inl e \<Rightarrow> (Inl e, db)
           | Inr _ \<Rightarrow>
               (let name0 = trim_space (kc_name inp);
                    plain0 = trim_space (kc_plain inp);
                    plain = (if plain0 = [] then new_gateway_plain_key random else plain0)
                in case mask_gateway_key plain of
                     Inl e \<Rightarrow> (Inl e, db)
                   | Inr masked \<Rightarrow>
                       (let row = \<lparr>gk_id = ''gwk_'' @ uuid, gk_org = gw_org g, gk_gateway = gw_id g,
                              gk_name = (if name0 = [] then default_key_name else name0),
                              gk_hash = hash_gateway_key h plain, gk_prefix = gateway_key_prefix plain,
                              gk_mask = masked,
                              gk_quota_month = (if kc_quota inp \<le> 0 then gw_quota_month g else kc_quota inp),
                              gk_qps_limit = (if kc_qps inp \<le> 0 then gw_qps_limit g else kc_qps inp),
                              gk_requests_used = 0, gk_status = YActive, gk_created = now,
                              gk_last_used = None, gk_expires = kc_expires inp, gk_revoked_at = None,
                              gk_deleted_at = None, gk_created_by = kc_actor inp\<rparr>
                        in if sql_exists (\<lambda>k. gk_id k = gk_id row) (gdb_keys db)
                           then (Inl (ErrConstraint ''gateway_keys_pkey''), db)
                           else if sql_exists (\<lambda>k. gk_hash k = gk_hash row) (gdb_keys db)
                           then (Inl (ErrConstraint ''gateway_keys_key_hash_key''), db)
                           else (Inr (row, plain),
                                 db\<lparr>gdb_keys := gdb_keys db @ [row],
                                    gdb_audits := gdb_audits db @ [(''gateway.key.created'', gk_id row)]\<rparr>)))))"

text \<open>The join every key statement makes: the key's gateway exists and is not deleted.\<close>

definition key_gateway_live :: "gateway_db \<Rightarrow> gateway_key \<Rightarrow> bool" where
  "key_gateway_live db k = sql_exists (\<lambda>g. gw_id g = gk_gateway k \<and> gw_status g \<noteq> GDeleted) (gdb_gateways db)"

definition list_gateway_keys :: "string \<Rightarrow> gateway_db \<Rightarrow> gateway_key list" where
  "list_gateway_keys org0 db = sort_stable (\<lambda>a b. gk_created a > gk_created b)
     (filter (\<lambda>k. gk_org k = org_or_default org0 \<and> gk_deleted_at k = None \<and> key_gateway_live db k) (gdb_keys db))"

definition update_gateway_key ::
  "string \<Rightarrow> string \<Rightarrow> string \<Rightarrow> int \<Rightarrow> int \<Rightarrow> string \<Rightarrow> gateway_db \<Rightarrow> gateway_key res \<times> gateway_db"
where
  "update_gateway_key kid org0 name0 quota0 qps0 status0 db =
     (let sel = (\<lambda>k. gk_id k = kid \<and> gk_org k = org_or_default org0 \<and> gk_deleted_at k = None
              \<and> key_gateway_live db k) in
      case query_row sel (gdb_keys db) of
        Inl e \<Rightarrow> (Inl e, db)
      | Inr current \<Rightarrow>
          if gk_status current = YRevoked
          then (Inl (ErrNamed ''revoked gateway keys cannot be edited''), db)
          else
            (case (if trim_space status0 \<noteq> [] then validate_key_editable_status status0
                   else Inr (gk_status current)) of
               Inl e \<Rightarrow> (Inl e, db)
             | Inr status \<Rightarrow>
                 (let name1 = trim_space name0;
                      name = (if name1 = [] then gk_name current else name1);
                      quota = (if quota0 \<le> 0 then gk_quota_month current else quota0);
                      qps = (if qps0 \<le> 0 then gk_qps_limit current else qps0);
                      keys = sql_update sel
                        (\<lambda>k. k\<lparr>gk_name := name, gk_quota_month := quota, gk_qps_limit := qps,
                               gk_status := status,
                               gk_revoked_at := (if status = YActive then None else gk_revoked_at k)\<rparr>)
                        (gdb_keys db)
                  in case query_row (\<lambda>k. gk_id k = kid) keys of
                       Inl e \<Rightarrow> (Inl e, db)
                     | Inr k \<Rightarrow>
                         (Inr k, db\<lparr>gdb_keys := keys,
                            gdb_audits := gdb_audits db @ [(''gateway.key.updated'', kid)]\<rparr>))))"

definition revoke_gateway_key :: "string \<Rightarrow> string \<Rightarrow> time \<Rightarrow> gateway_db \<Rightarrow> unit res \<times> gateway_db" where
  "revoke_gateway_key kid org0 now db =
     (let sel = (\<lambda>k. gk_id k = kid \<and> gk_org k = org_or_default org0 \<and> gk_status k \<noteq> YRevoked
              \<and> gk_deleted_at k = None \<and> key_gateway_live db k)
      in if sql_affected sel (gdb_keys db) = 0 then (Inl ErrNoRows, db)
         else (Inr (), db\<lparr>
           gdb_keys := sql_update sel (\<lambda>k. k\<lparr>gk_status := YRevoked, gk_revoked_at := Some now\<rparr>) (gdb_keys db),
           gdb_audits := gdb_audits db @ [(''gateway.key.revoked'', kid)]\<rparr>))"

definition first_revoked :: "time \<Rightarrow> gateway_key \<Rightarrow> gateway_key" where
  "first_revoked now k = k\<lparr>gk_status := YRevoked,
     gk_revoked_at := (case gk_revoked_at k of None \<Rightarrow> Some now | Some r \<Rightarrow> Some r)\<rparr>"

definition delete_gateway_key :: "string \<Rightarrow> string \<Rightarrow> time \<Rightarrow> gateway_db \<Rightarrow> unit res \<times> gateway_db" where
  "delete_gateway_key kid org0 now db =
     (let sel = (\<lambda>k. gk_id k = kid \<and> gk_org k = org_or_default org0 \<and> gk_deleted_at k = None)
      in if sql_affected sel (gdb_keys db) = 0 then (Inl ErrNoRows, db)
         else (Inr (), db\<lparr>
           gdb_keys := sql_update sel (\<lambda>k. (first_revoked now k)\<lparr>gk_deleted_at := Some now\<rparr>) (gdb_keys db),
           gdb_audits := gdb_audits db @ [(''gateway.key.deleted'', kid)]\<rparr>))"

text \<open>\<open>gatewayKeyBulkStatesForOrg\<close>: the selected keys' states, or no rows when one is missing.\<close>

definition key_bulk_states ::
  "string list \<Rightarrow> string \<Rightarrow> bool \<Rightarrow> gateway_db \<Rightarrow> (string \<times> key_status) list res"
where
  "key_bulk_states ids org require_live db =
     (let states = map (\<lambda>k. (gk_id k, gk_status k))
            (filter (\<lambda>k. gk_id k \<in> set ids \<and> gk_org k = org \<and> gk_deleted_at k = None
               \<and> (require_live \<longrightarrow> key_gateway_live db k)) (gdb_keys db))
      in if length (remdups (map fst states)) \<noteq> length ids then Inl ErrNoRows else Inr states)"

definition bulk_update_keys ::
  "string list \<Rightarrow> string \<Rightarrow> string \<Rightarrow> gateway_db \<Rightarrow> gateway_key list res \<times> gateway_db"
where
  "bulk_update_keys ids0 org0 status0 db =
     (let org = org_or_default org0; ids = unique_strings ids0
      in if ids = [] then (Inl (ErrNamed ''select at least one gateway key''), db)
         else case validate_key_editable_status status0 of
           Inl e \<Rightarrow> (Inl e, db)
         | Inr status \<Rightarrow>
             (case key_bulk_states ids org True db of
                Inl e \<Rightarrow> (Inl e, db)
              | Inr states \<Rightarrow>
                  (let sel = (\<lambda>k. gk_id k \<in> set ids \<and> gk_org k = org \<and> gk_deleted_at k = None
                           \<and> key_gateway_live db k);
                       db' = db\<lparr>gdb_keys := sql_update sel
                           (\<lambda>k. k\<lparr>gk_status := status,
                                  gk_revoked_at := (if status = YActive then None else gk_revoked_at k)\<rparr>)
                           (gdb_keys db),
                         gdb_audits := gdb_audits db @ map (\<lambda>k. (''gateway.key.bulk_status'', k)) ids\<rparr>
                   in if list_ex (\<lambda>st. snd st = YRevoked) states
                      then (Inl (ErrNamed ''revoked gateway keys cannot be edited''), db)
                      else if sql_affected sel (gdb_keys db) \<noteq> length ids then (Inl ErrNoRows, db)
                      else (Inr (list_gateway_keys org db'), db'))))"

definition bulk_revoke_keys ::
  "string list \<Rightarrow> string \<Rightarrow> time \<Rightarrow> gateway_db \<Rightarrow> gateway_key list res \<times> gateway_db"
where
  "bulk_revoke_keys ids0 org0 now db =
     (let org = org_or_default org0; ids = unique_strings ids0
      in if ids = [] then (Inl (ErrNamed ''select at least one gateway key''), db)
         else case key_bulk_states ids org True db of
           Inl e \<Rightarrow> (Inl e, db)
         | Inr states \<Rightarrow>
             (let sel = (\<lambda>k. gk_id k \<in> set ids \<and> gk_org k = org \<and> gk_deleted_at k = None
                      \<and> key_gateway_live db k);
                  db' = db\<lparr>gdb_keys := sql_update sel (first_revoked now) (gdb_keys db),
                    gdb_audits := gdb_audits db @ map (\<lambda>k. (''gateway.key.bulk_revoked'', k)) ids\<rparr>
              in if sql_affected sel (gdb_keys db) \<noteq> length ids then (Inl ErrNoRows, db)
                 else (Inr (list_gateway_keys org db'), db')))"

definition bulk_delete_keys ::
  "string list \<Rightarrow> string \<Rightarrow> time \<Rightarrow> gateway_db \<Rightarrow> gateway_key list res \<times> gateway_db"
where
  "bulk_delete_keys ids0 org0 now db =
     (let org = org_or_default org0; ids = unique_strings ids0
      in if ids = [] then (Inl (ErrNamed ''select at least one gateway key''), db)
         else case key_bulk_states ids org False db of
           Inl e \<Rightarrow> (Inl e, db)
         | Inr states \<Rightarrow>
             (let sel = (\<lambda>k. gk_id k \<in> set ids \<and> gk_org k = org \<and> gk_deleted_at k = None);
                  db' = db\<lparr>gdb_keys := sql_update sel
                      (\<lambda>k. (first_revoked now k)\<lparr>gk_deleted_at := Some now\<rparr>) (gdb_keys db),
                    gdb_audits := gdb_audits db @ map (\<lambda>k. (''gateway.key.deleted'', k)) ids\<rparr>
              in if sql_affected sel (gdb_keys db) \<noteq> length ids then (Inl ErrNoRows, db)
                 else (Inr (list_gateway_keys org db'), db')))"

section \<open>Requests\<close>

definition authenticate_gateway_key ::
  "(string \<Rightarrow> string) \<Rightarrow> string \<Rightarrow> time \<Rightarrow> gateway_db \<Rightarrow> (gateway_key \<times> gateway_view) res"
where
  "authenticate_gateway_key h plain now db =
     (case query_row (\<lambda>k. gk_hash k = hash_gateway_key h plain \<and> gk_status k = YActive
             \<and> gk_deleted_at k = None
             \<and> sql_exists (\<lambda>g. gw_id g = gk_gateway k \<and> gw_status g = GActive) (gdb_gateways db)
             \<and> org_live db (gk_org k)
             \<and> (case gk_expires k of None \<Rightarrow> True | Some e \<Rightarrow> e > now)) (gdb_keys db) of
        Inl e \<Rightarrow> Inl e
      | Inr k \<Rightarrow>
          (case gateway_by_id (gk_gateway k) (gk_org k) db of
             Inl e \<Rightarrow> Inl e
           | Inr g \<Rightarrow> Inr (k, g)))"

definition reserve_gateway_key :: "string \<Rightarrow> time \<Rightarrow> gateway_db \<Rightarrow> bool res \<times> gateway_db" where
  "reserve_gateway_key kid now db =
     (let sel = (\<lambda>k. gk_id k = kid \<and> gk_status k = YActive \<and> gk_deleted_at k = None
              \<and> (gk_quota_month k \<le> 0 \<or> gk_requests_used k < gk_quota_month k))
      in (Inr (sql_affected sel (gdb_keys db) = 1),
          db\<lparr>gdb_keys := sql_update sel
            (\<lambda>k. k\<lparr>gk_last_used := Some now, gk_requests_used := gk_requests_used k + 1\<rparr>) (gdb_keys db)\<rparr>))"

section \<open>Route planning\<close>

definition runtime_eligible_status :: "string \<Rightarrow> bool" where
  "runtime_eligible_status status = (trim_space status \<in> {''healthy'', ''degraded''})"

definition route_less :: "string \<Rightarrow> gateway_upstream \<Rightarrow> gateway_upstream \<Rightarrow> bool" where
  "route_less policy a b =
     (if policy = ''success''
      then (if gu_success_rate a = gu_success_rate b then gu_score a > gu_score b
            else gu_success_rate a > gu_success_rate b)
      else if policy = ''cost''
      then (if gu_cost_usd a = gu_cost_usd b then gu_score a > gu_score b
            else gu_cost_usd a < gu_cost_usd b)
      else (if gu_latency_p95 a = gu_latency_p95 b then gu_score a > gu_score b
            else gu_latency_p95 a < gu_latency_p95 b))"

definition plan_gateway_route :: "gateway_view \<Rightarrow> gateway_upstream list" where
  "plan_gateway_route g =
     sort_stable (route_less (gw_policy g))
       (filter (\<lambda>u. gu_enabled u \<and> runtime_eligible_status (gu_status u)) (gv_upstreams g))"

section \<open>Operations as steps\<close>

datatype gateway_op =
    OCreate gateway_create_input string string "string list"
  | OUpdate string string gateway_update_input "string list"
  | ODelete string string
  | OBulk "string list" string string
  | OBulkDelete "string list" string
  | OKey key_create_input string string
  | OKeyUpdate string string string int int string
  | OKeyRevoke string string
  | OKeyDelete string string
  | OKeysUpdate "string list" string string
  | OKeysRevoke "string list" string
  | OKeysDelete "string list" string
  | OReserve string

fun gateway_step :: "(string \<Rightarrow> string) \<Rightarrow> gateway_op \<Rightarrow> gateway_db \<Rightarrow> time \<Rightarrow> gateway_db" where
  "gateway_step h (OCreate inp uuid slug lids) db t = snd (create_gateway inp uuid slug lids t db)"
| "gateway_step h (OUpdate gid org inp lids) db t = snd (update_gateway gid org inp lids t db)"
| "gateway_step h (ODelete gid org) db t = snd (delete_gateway gid org t db)"
| "gateway_step h (OBulk ids org status) db t = snd (bulk_update_gateways ids org status t db)"
| "gateway_step h (OBulkDelete ids org) db t = snd (bulk_delete_gateways ids org t db)"
| "gateway_step h (OKey inp random uuid) db t = snd (create_gateway_key h inp random uuid t db)"
| "gateway_step h (OKeyUpdate kid org name quota qps status) db t =
     snd (update_gateway_key kid org name quota qps status db)"
| "gateway_step h (OKeyRevoke kid org) db t = snd (revoke_gateway_key kid org t db)"
| "gateway_step h (OKeyDelete kid org) db t = snd (delete_gateway_key kid org t db)"
| "gateway_step h (OKeysUpdate ids org status) db t = snd (bulk_update_keys ids org status db)"
| "gateway_step h (OKeysRevoke ids org) db t = snd (bulk_revoke_keys ids org t db)"
| "gateway_step h (OKeysDelete ids org) db t = snd (bulk_delete_keys ids org t db)"
| "gateway_step h (OReserve kid) db t = snd (reserve_gateway_key kid t db)"

section \<open>Invariant\<close>

definition key_home :: "gateway list \<Rightarrow> gateway_key \<Rightarrow> bool" where
  "key_home gws k = (gk_org k \<noteq> []
     \<and> (\<exists>g. row_at gw_id (gk_gateway k) gws = Some g \<and> gw_org g = gk_org k))"

definition gateway_db_wf :: "gateway_db \<Rightarrow> bool" where
  "gateway_db_wf db = (distinct (map gw_id (gdb_gateways db)) \<and> distinct (map gk_id (gdb_keys db))
     \<and> (\<forall>k\<in>set (gdb_keys db). key_home (gdb_gateways db) k))"

definition gateway_can :: "gateway \<Rightarrow> gateway \<Rightarrow> bool" where
  "gateway_can g g' = (gw_id g' = gw_id g \<and> gw_org g' = gw_org g
     \<and> (gw_status g = GDeleted \<longrightarrow> gw_status g' = GDeleted))"

definition key_can :: "gateway_key \<Rightarrow> gateway_key \<Rightarrow> bool" where
  "key_can k k' = (gk_id k' = gk_id k \<and> gk_org k' = gk_org k \<and> gk_gateway k' = gk_gateway k
     \<and> gk_hash k' = gk_hash k \<and> (gk_status k = YRevoked \<longrightarrow> gk_status k' = YRevoked)
     \<and> (gk_deleted_at k \<noteq> None \<longrightarrow> gk_deleted_at k' \<noteq> None)
     \<and> gk_requests_used k \<le> gk_requests_used k')"

lemma gateway_can_refl: "gateway_can g g"
  by (simp add: gateway_can_def)

lemma gateway_can_trans: "gateway_can a b \<Longrightarrow> gateway_can b c \<Longrightarrow> gateway_can a c"
  unfolding gateway_can_def by metis

lemma key_can_refl: "key_can g g"
  by (simp add: key_can_def)

lemma key_can_trans: "key_can a b \<Longrightarrow> key_can b c \<Longrightarrow> key_can a c"
  unfolding key_can_def using order_trans by metis

definition gateway_tables_step :: "gateway_db \<Rightarrow> gateway_db \<Rightarrow> bool" where
  "gateway_tables_step db db' =
     (keeps_rows gw_id gateway_can (gdb_gateways db) (gdb_gateways db')
      \<and> keeps_rows gk_id key_can (gdb_keys db) (gdb_keys db')
      \<and> gateway_db_wf db')"

lemma key_home_keeps:
  "keeps_rows gw_id gateway_can gws gws' \<Longrightarrow> key_home gws k \<Longrightarrow> key_home gws' k"
  unfolding keeps_rows_def key_home_def gateway_can_def by metis

lemma gateway_tables_stepI:
  assumes "gateway_db_wf db" and "keeps_rows gw_id gateway_can (gdb_gateways db) (gdb_gateways db')"
    and "distinct (map gw_id (gdb_gateways db'))"
    and "gdb_keys db' = sql_update p f (gdb_keys db)"
    and "\<And>k. gk_id (f k) = gk_id k \<and> gk_gateway (f k) = gk_gateway k \<and> gk_org (f k) = gk_org k"
    and "\<And>k. k \<in> set (gdb_keys db) \<Longrightarrow> p k \<Longrightarrow> key_can k (f k)"
  shows "gateway_tables_step db db'"
proof -
  have "keeps_rows gk_id key_can (gdb_keys db) (gdb_keys db')"
    unfolding assms(4) by (rule keeps_rows_update_in) (use assms(5,6) key_can_refl in auto)
  moreover have "key_home (gdb_gateways db') k" if "k \<in> set (gdb_keys db')" for k
  proof -
    from that obtain j where "j \<in> set (gdb_keys db)" "gk_gateway k = gk_gateway j" "gk_org k = gk_org j"
      using assms(5) unfolding assms(4) by (auto simp: set_sql_update split: if_splits)
    with assms(1,2) key_home_keeps show ?thesis by (auto simp: gateway_db_wf_def key_home_def)
  qed
  moreover have "distinct (map gk_id (gdb_keys db'))"
    using assms(1,5) unfolding assms(4) by (simp add: distinct_sql_update gateway_db_wf_def)
  ultimately show ?thesis using assms(2,3) by (simp add: gateway_tables_step_def gateway_db_wf_def)
qed

lemma gateway_tables_keys:
  assumes "gateway_db_wf db"
    and "\<And>k. gk_id (f k) = gk_id k \<and> gk_gateway (f k) = gk_gateway k \<and> gk_org (f k) = gk_org k"
    and "\<And>k. k \<in> set (gdb_keys db) \<Longrightarrow> p k \<Longrightarrow> key_can k (f k)"
  shows "gateway_tables_step db (db\<lparr>gdb_keys := sql_update p f (gdb_keys db), gdb_audits := au\<rparr>)"
  by (rule gateway_tables_stepI [OF assms(1) _ _ _ assms(2,3)])
    (use assms(1) gateway_can_refl in \<open>auto simp: keeps_rows_refl gateway_db_wf_def\<close>)

lemma gateway_tables_refl: "gateway_db_wf db \<Longrightarrow> gateway_tables_step db db"
  by (simp add: gateway_tables_step_def keeps_rows_refl gateway_can_refl key_can_refl)

lemma revoke_keys_can:
  "key_can k (k\<lparr>gk_status := YRevoked, gk_revoked_at := r\<rparr>)"
  "key_can k (first_revoked t k)"
  "key_can k ((first_revoked t k)\<lparr>gk_deleted_at := Some t\<rparr>)"
  by (simp_all add: key_can_def first_revoked_def)

lemma gateway_tables_gateways:
  assumes "gateway_db_wf db" and "\<And>g. p g \<Longrightarrow> gateway_can g (f g)"
    and "gdb_gateways db' = sql_update p f (gdb_gateways db)"
    and "gdb_keys db' = gdb_keys db \<or> gdb_keys db' = revoke_keys_of sel t (gdb_keys db)"
  shows "gateway_tables_step db db'"
proof -
  have g: "keeps_rows gw_id gateway_can (gdb_gateways db) (gdb_gateways db')"
      "distinct (map gw_id (gdb_gateways db'))"
    using assms(1,2) gateway_can_refl unfolding assms(3)
    by (auto simp: gateway_db_wf_def gateway_can_def intro!: keeps_rows_update distinct_sql_update)
  from assms(4) show ?thesis
  proof
    assume "gdb_keys db' = gdb_keys db"
    then show ?thesis
      by (intro gateway_tables_stepI [OF assms(1) g, where p = "\<lambda>_. False" and f = "\<lambda>k. k"])
        (simp_all add: sql_update_none)
  next
    assume "gdb_keys db' = revoke_keys_of sel t (gdb_keys db)"
    then show ?thesis
      by (intro gateway_tables_stepI [OF assms(1) g _ _ revoke_keys_can(1)])
        (simp_all add: revoke_keys_of_def)
  qed
qed

text \<open>Walking the branches of an operation.\<close>

lemma step_same: "gateway_db_wf db \<Longrightarrow> ends_in (gateway_tables_step db) (r, db)"
  by (simp add: ends_in_def gateway_tables_refl)

lemma step_gateways:
  assumes "gateway_db_wf db" and "\<And>g. p g \<Longrightarrow> gateway_can g (f g)"
  shows "ends_in (gateway_tables_step db) (r, db\<lparr>gdb_gateways := sql_update p f (gdb_gateways db), gdb_links := l,
      gdb_keys := (if c then revoke_keys_of sel t (gdb_keys db) else gdb_keys db), gdb_audits := au\<rparr>)"
    and "ends_in (gateway_tables_step db) (r, db\<lparr>gdb_gateways := sql_update p f (gdb_gateways db),
      gdb_keys := (if c then revoke_keys_of sel t (gdb_keys db) else gdb_keys db), gdb_audits := au\<rparr>)"
    and "ends_in (gateway_tables_step db) (r, db\<lparr>gdb_gateways := sql_update p f (gdb_gateways db),
      gdb_keys := revoke_keys_of sel t (gdb_keys db), gdb_audits := au\<rparr>)"
  unfolding ends_in_def snd_conv
  by (rule gateway_tables_gateways [OF assms, where sel = sel and t = t]; simp)+

lemma step_keys:
  assumes "gateway_db_wf db"
    and "\<And>k. gk_id (f k) = gk_id k \<and> gk_gateway (f k) = gk_gateway k \<and> gk_org (f k) = gk_org k"
    and "\<And>k. k \<in> set (gdb_keys db) \<Longrightarrow> p k \<Longrightarrow> key_can k (f k)"
  shows "ends_in (gateway_tables_step db) (r, db\<lparr>gdb_keys := sql_update p f (gdb_keys db), gdb_audits := au\<rparr>)"
  using gateway_tables_keys [OF assms] by (simp add: ends_in_def)

lemmas gateway_branches = branches step_same step_gateways

lemma step_new_gateway:
  assumes "gateway_db_wf db" and "\<not> sql_exists (\<lambda>r. gw_id r = gw_id g) (gdb_gateways db)"
  shows "ends_in (gateway_tables_step db) (r, db\<lparr>gdb_gateways := gdb_gateways db @ [g], gdb_links := l, gdb_audits := a\<rparr>)"
proof -
  have "keeps_rows gw_id gateway_can (gdb_gateways db) (gdb_gateways db @ [g])"
    by (simp add: keeps_rows_append gateway_can_refl)
  with assms show ?thesis
    by (auto simp: ends_in_def gateway_tables_step_def gateway_db_wf_def sql_exists_iff keeps_rows_refl key_can_refl
        intro: key_home_keeps)
qed

lemma gateway_step_create:
  "gateway_db_wf db \<Longrightarrow> ends_in (gateway_tables_step db) (create_gateway inp uuid slug lids t db)"
  unfolding create_gateway_def Let_def
  by (intro gateway_branches step_new_gateway; (assumption | simp))

lemma gateway_step_update:
  "gateway_db_wf db \<Longrightarrow> ends_in (gateway_tables_step db) (update_gateway gid org inp lids t db)"
  unfolding update_gateway_def Let_def
  by (intro gateway_branches; (assumption | simp add: gateway_can_def))

lemma gateway_step_delete:
  "gateway_db_wf db \<Longrightarrow> ends_in (gateway_tables_step db) (delete_gateway gid org t db)"
  unfolding delete_gateway_def Let_def
  by (intro gateway_branches; (assumption | simp add: gateway_can_def))

lemma gateway_step_bulk:
  "gateway_db_wf db \<Longrightarrow> ends_in (gateway_tables_step db) (bulk_update_gateways ids org status t db)"
  unfolding bulk_update_gateways_def Let_def
  by (intro gateway_branches; (assumption | simp add: gateway_can_def))

lemma step_new_key:
  assumes "gateway_db_wf db" and "\<not> sql_exists (\<lambda>r. gk_id r = gk_id k) (gdb_keys db)"
    and "key_home (gdb_gateways db) k"
  shows "ends_in (gateway_tables_step db) (r, db\<lparr>gdb_keys := gdb_keys db @ [k], gdb_audits := a\<rparr>)"
  using assms by (auto simp: ends_in_def gateway_tables_step_def gateway_db_wf_def sql_exists_iff keeps_rows_refl
      keeps_rows_append key_can_refl gateway_can_refl)

lemma view_gateway_sel [simp]:
  "gw_id (view_gateway db g) = gw_id g" "gw_org (view_gateway db g) = gw_org g"
  "gw_status (view_gateway db g) = gw_status g" "gateway.truncate (view_gateway db g) = g"
  by (cases g; simp add: view_gateway_def gateway.defs gateway_view.defs)+

lemma gateway_by_id_Inr:
  assumes "gateway_by_id gid org db = Inr g"
  obtains r where "r \<in> set (gdb_gateways db)" "g = view_gateway db r" "gw_id r = gid"
    "gw_org r = org_or_default org" "gw_status r \<noteq> GDeleted"
  using assms by (auto simp: gateway_by_id_def dest!: query_row_Inr split: sum.splits)

lemma gateway_by_id_home:
  assumes "gateway_db_wf db" and "gateway_by_id gid org db = Inr g"
    and "gk_gateway k = gw_id g" and "gk_org k = gw_org g"
  shows "key_home (gdb_gateways db) k"
proof -
  from assms(2) obtain r where "r \<in> set (gdb_gateways db)" "g = view_gateway db r"
    "gw_org r = org_or_default org" by (rule gateway_by_id_Inr)
  with assms show ?thesis
    by (auto simp: key_home_def gateway_db_wf_def row_at_unique org_or_default_def default_org_id_def)
qed

lemma gateway_step_key:
  "gateway_db_wf db \<Longrightarrow> ends_in (gateway_tables_step db) (create_gateway_key h inp random uuid t db)"
  unfolding create_gateway_key_def Let_def
  by (intro gateway_branches step_new_key; (assumption | simp add: gateway_by_id_home))

lemma update_key_row:
  assumes "gateway_db_wf db" and "query_row sel (gdb_keys db) = Inr c"
    and "\<And>k. sel k \<Longrightarrow> gk_id k = kid" and "k \<in> set (gdb_keys db)" and "sel k"
  shows "k = c"
  using query_row_Inr [OF assms(2)] assms distinct_key_unique [of gk_id "gdb_keys db" k c]
  by (metis gateway_db_wf_def)

lemma update_key_editable:
  assumes "gateway_db_wf db" and "query_row sel (gdb_keys db) = Inr c" and "gk_status c \<noteq> YRevoked"
    and "k \<in> set (gdb_keys db)" and "sel k" and "\<And>k. sel k \<Longrightarrow> gk_id k = kid"
  shows "gk_status k \<noteq> YRevoked"
  using update_key_row [OF assms(1,2) assms(6,4,5)] assms(3) by simp

lemma key_can_edit:
  "gk_status k \<noteq> YRevoked \<Longrightarrow>
   key_can k (k\<lparr>gk_name := n, gk_quota_month := q, gk_qps_limit := w, gk_status := s, gk_revoked_at := r\<rparr>)"
  "gk_status k \<noteq> YRevoked \<Longrightarrow> key_can k (k\<lparr>gk_status := s, gk_revoked_at := r\<rparr>)"
  by (simp_all add: key_can_def)

lemma gateway_step_key_update:
  assumes "gateway_db_wf db"
  shows "ends_in (gateway_tables_step db) (update_gateway_key kid org name quota qps status db)"
  unfolding update_gateway_key_def Let_def
  by (intro gateway_branches step_keys assms; (assumption | rule key_can_edit | (simp; fail)))
    (erule (3) update_key_editable [OF assms], blast)

lemma gateway_step_key_revoke:
  "gateway_db_wf db \<Longrightarrow> ends_in (gateway_tables_step db) (revoke_gateway_key kid org t db)"
  unfolding revoke_gateway_key_def Let_def
  by (intro gateway_branches step_keys revoke_keys_can; (assumption | simp))

lemma first_revoked_sel [simp]:
  "gk_id (first_revoked t k) = gk_id k" "gk_gateway (first_revoked t k) = gk_gateway k"
  "gk_org (first_revoked t k) = gk_org k"
  by (simp_all add: first_revoked_def)

lemma gateway_step_key_delete:
  "gateway_db_wf db \<Longrightarrow> ends_in (gateway_tables_step db) (delete_gateway_key kid org t db)"
  unfolding delete_gateway_key_def Let_def
  by (intro gateway_branches step_keys revoke_keys_can; (assumption | simp))

lemma key_bulk_states_editable:
  assumes "key_bulk_states ids org True db = Inr states" and "\<not> list_ex (\<lambda>st. snd st = YRevoked) states"
    and "k \<in> set (gdb_keys db)"
    and "gk_id k \<in> set ids \<and> gk_org k = org \<and> gk_deleted_at k = None \<and> key_gateway_live db k"
  shows "gk_status k \<noteq> YRevoked"
  using assms by (auto simp: key_bulk_states_def Let_def list_ex_iff split: if_splits)

lemma gateway_step_keys_update:
  "gateway_db_wf db \<Longrightarrow> ends_in (gateway_tables_step db) (bulk_update_keys ids org status db)"
  unfolding bulk_update_keys_def Let_def
  by (intro gateway_branches step_keys; (assumption | rule key_can_edit | (simp; fail)))
    (rule key_bulk_states_editable)

lemma gateway_step_keys_revoke:
  "gateway_db_wf db \<Longrightarrow> ends_in (gateway_tables_step db) (bulk_revoke_keys ids org t db)"
  unfolding bulk_revoke_keys_def Let_def
  by (intro gateway_branches step_keys revoke_keys_can; (assumption | simp))

lemma gateway_step_keys_delete:
  "gateway_db_wf db \<Longrightarrow> ends_in (gateway_tables_step db) (bulk_delete_keys ids org t db)"
  unfolding bulk_delete_keys_def Let_def
  by (intro gateway_branches step_keys revoke_keys_can; (assumption | simp))

lemma gateway_step_reserve:
  assumes "gateway_db_wf db"
  shows "ends_in (gateway_tables_step db) (reserve_gateway_key kid t db)"
  using gateway_tables_keys [OF assms, of "\<lambda>k. k\<lparr>gk_last_used := Some t, gk_requests_used := gk_requests_used k + 1\<rparr>"
      _ "gdb_audits db"]
  by (simp add: ends_in_def reserve_gateway_key_def Let_def key_can_def)

lemmas gateway_step_ops = gateway_step_create gateway_step_update gateway_step_delete
  gateway_step_bulk gateway_step_key gateway_step_key_update gateway_step_key_revoke
  gateway_step_key_delete gateway_step_keys_update gateway_step_keys_revoke gateway_step_keys_delete
  gateway_step_reserve

lemma gateway_step_tables:
  "gateway_db_wf db \<Longrightarrow> gateway_tables_step db (gateway_step h x db t)"
  by (cases x) (simp_all add: gateway_step_ops [unfolded ends_in_def] bulk_delete_gateways_def)

end
