(* ===== verification/Provider_Policy.thy ===== *)
theory Provider_Policy
  imports Go_Json
begin

text \<open>
  The policy compiled into the release (\<open>connections/policy.go\<close>): which ways of connecting an
  account are allowed for which provider and until when; and the registry of providers
  (\<open>connections/registry.go\<close>) with the endpoint a provider, region and workspace resolve to.
\<close>

section \<open>Dates\<close>

text \<open>\<open>time.Parse("2006-01-02", s)\<close>: four digits, two digits, two digits, a real day of the proleptic
  Gregorian calendar, as nanoseconds since 1970.\<close>

definition leap_year :: "int \<Rightarrow> bool" where
  "leap_year y = (y mod 4 = 0 \<and> (y mod 100 \<noteq> 0 \<or> y mod 400 = 0))"

definition month_days :: "int \<Rightarrow> int list" where
  "month_days y = [31, if leap_year y then 29 else 28, 31, 30, 31, 30, 31, 31, 30, 31, 30, 31]"

text \<open>Days from 1 January of year 1 to 1 January of year \<open>y\<close>.\<close>

definition days_before_year :: "int \<Rightarrow> int" where
  "days_before_year y = 365 * (y - 1) + (y - 1) div 4 - (y - 1) div 100 + (y - 1) div 400"

definition midnight :: "int \<Rightarrow> nat \<Rightarrow> int \<Rightarrow> time" where
  "midnight y m d =
     (days_before_year y - days_before_year 1970 + sum_list (take (m - 1) (month_days y)) + d - 1) * (24 * hour)"

definition parse_date :: "string \<Rightarrow> time option" where
  "parse_date s =
     (if length s = 10 \<and> s ! 4 = CHR ''-'' \<and> s ! 7 = CHR ''-'' then
        (case (number_of_digits 0 (take 4 s), number_of_digits 0 (take 2 (drop 5 s)), number_of_digits 0 (drop 8 s)) of
           (Some y, Some m, Some d) \<Rightarrow>
             if 1 \<le> m \<and> m \<le> 12 \<and> 1 \<le> d \<and> d \<le> month_days y ! (nat m - 1) then Some (midnight y (nat m) d) else None
         | _ \<Rightarrow> None)
      else None)"

section \<open>The policy\<close>

record provider_policy =
  pp_provider :: string
  pp_production :: "string list"
  pp_lab :: "string list"
  pp_terms_url :: string
  pp_digest :: string
  pp_reviewed :: string
  pp_expires :: string
  pp_identity :: string
  pp_kill :: bool

definition provider_policies :: "provider_policy list" where
  "provider_policies =
    [\<lparr>pp_provider = ''openai'', pp_production = [''official_api'', ''official_client''], pp_lab = [''browser_lab''],
       pp_terms_url = ''https://openai.com/policies/terms-of-use/'',
       pp_digest = ''c1184229e7814acc940adca0b5e9e2df828b303fe4029c139187063fc5bc7f75'',
       pp_reviewed = ''2026-08-19'', pp_expires = ''2026-11-17'', pp_identity = ''provider_account'', pp_kill = False\<rparr>,
     \<lparr>pp_provider = ''gemini'', pp_production = [''official_api'', ''official_oauth''], pp_lab = [''browser_lab''],
       pp_terms_url = ''https://github.com/google-gemini/gemini-cli/blob/main/docs/resources/tos-privacy.md'',
       pp_digest = ''e0a6a6c5972820d34de8a79cff7072ccafdd53eb54ac304dee8963cd719e899c'',
       pp_reviewed = ''2026-08-19'', pp_expires = ''2026-11-17'', pp_identity = ''provider_account'', pp_kill = False\<rparr>,
     \<lparr>pp_provider = ''deepseek'', pp_production = [''official_api''], pp_lab = [''browser_lab'', ''consumer_web''],
       pp_terms_url = ''https://cdn.deepseek.com/policies/en-US/deepseek-terms-of-use.html'',
       pp_digest = ''4fc6b485ad042d51ad42a0bf57ddbe49e7afc4648b3b3a4b2446706390a61a48'',
       pp_reviewed = ''2026-08-19'', pp_expires = ''2026-11-17'', pp_identity = ''provider_account'', pp_kill = False\<rparr>,
     \<lparr>pp_provider = ''grok'', pp_production = [''official_api'', ''official_client''], pp_lab = [],
       pp_terms_url = ''https://x.ai/legal/acceptable-use-policy'',
       pp_digest = ''3c902032e65649b00faf37fea43f61d3904b20b627ebccd03a719528fbad0f7c'',
       pp_reviewed = ''2026-08-19'', pp_expires = ''2026-11-17'', pp_identity = ''device_or_provider_account'', pp_kill = False\<rparr>]"

definition normal_name :: "string \<Rightarrow> string" where
  "normal_name s = to_lower (trim_space s)"

definition policy_for :: "string \<Rightarrow> provider_policy option" where
  "policy_for provider = List.find (\<lambda>p. pp_provider p = normal_name provider) provider_policies"

definition mode_for_auth_method :: "string \<Rightarrow> string" where
  "mode_for_auth_method auth =
     (let m = normal_name auth in
      if m \<in> {''api_key'', ''api_key_guided''} then ''official_api''
      else if m = ''oauth'' then ''official_oauth''
      else if m = ''official_client'' then ''official_client''
      else if m \<in> {''deepseek_web_token'', ''codex_oauth''} then ''consumer_web''
      else if m = ''opencli_browser'' then ''browser_lab''
      else [])"

datatype policy_error = PolicyKilled | PolicyExpired | PolicyDenied | TermsChanged

definition review_over :: "provider_policy \<Rightarrow> time \<Rightarrow> bool" where
  "review_over p now = (case parse_date (pp_expires p) of None \<Rightarrow> True | Some t \<Rightarrow> \<not> now < t + 24 * hour)"

text \<open>\<open>Allows\<close> and \<open>ProviderModeAllowed\<close>; \<open>None\<close> is the nil error.\<close>

definition policy_allows :: "provider_policy \<Rightarrow> string \<Rightarrow> bool \<Rightarrow> time \<Rightarrow> policy_error option" where
  "policy_allows p mode0 lab now =
     (let mode = normal_name mode0 in
      if pp_kill p \<and> mode \<noteq> ''official_api'' then Some PolicyKilled
      else if mode \<in> {''official_client'', ''browser_lab'', ''consumer_web''} \<and> review_over p now then Some PolicyExpired
      else if mode \<in> set (pp_production p @ (if lab then pp_lab p else [])) then None
      else Some PolicyDenied)"

definition provider_mode_allowed :: "string \<Rightarrow> string \<Rightarrow> bool \<Rightarrow> time \<Rightarrow> bool \<Rightarrow> policy_error option" where
  "provider_mode_allowed provider auth lab now killed =
     (case policy_for provider of
        None \<Rightarrow> (if mode_for_auth_method auth = ''official_api'' then None else Some PolicyDenied)
      | Some p \<Rightarrow> policy_allows (p\<lparr>pp_kill := killed\<rparr>) (mode_for_auth_method auth) lab now)"

definition validate_terms_digest :: "string \<Rightarrow> string \<Rightarrow> string \<Rightarrow> policy_error option" where
  "validate_terms_digest provider auth observed =
     (if mode_for_auth_method auth = ''official_api'' \<or> trim_space observed = [] then None
      else case policy_for provider of
          None \<Rightarrow> Some PolicyDenied
        | Some p \<Rightarrow> if equal_fold (trim_space observed) (pp_digest p) then None else Some TermsChanged)"

text \<open>\<open>providerPolicyAllowsWithLab\<close> of the API: the operator's kill switches and observed digests, which
  may be unset.\<close>

record policy_config =
  pc_kill :: "string \<rightharpoonup> bool"
  pc_digests :: "(string \<rightharpoonup> string) option"

definition server_policy :: "policy_config \<Rightarrow> string \<Rightarrow> string \<Rightarrow> bool \<Rightarrow> time \<Rightarrow> policy_error option" where
  "server_policy cfg provider0 auth lab now =
     (let provider = normal_name provider0; killed = (pc_kill cfg provider = Some True);
          terms = (case pc_digests cfg of
              None \<Rightarrow> None
            | Some m \<Rightarrow> validate_terms_digest provider auth (case m provider of None \<Rightarrow> [] | Some d \<Rightarrow> d))
      in case terms of Some e \<Rightarrow> Some e | None \<Rightarrow> provider_mode_allowed provider auth lab now killed)"

section \<open>The registry\<close>

record region =
  rg_code :: string
  rg_name :: string
  rg_endpoint :: string
  rg_workspace :: bool

record manifest =
  mf_code :: string
  mf_name :: string
  mf_product :: string
  mf_protocol :: string
  mf_type :: string
  mf_auth :: string
  mf_label :: string
  mf_default :: string
  mf_regions :: "region list"
  mf_validation :: string
  mf_generation :: string
  mf_models :: "string list"
  mf_docs :: string

text \<open>Names are UTF-8 bytes.\<close>

definition provider_registry :: "manifest list" where
  "provider_registry =
    [\<lparr>mf_code = ''openai'', mf_name = ''ChatGPT / OpenAI'', mf_product = ''OpenAI Platform'',
       mf_protocol = ''openai'', mf_type = ''openai'', mf_auth = ''api_key'', mf_label = ''Project API Key'',
       mf_default = ''global'',
       mf_regions = [\<lparr>rg_code = ''global'', rg_name = ''Global'', rg_endpoint = ''https://api.openai.com/v1'', rg_workspace = False\<rparr>],
       mf_validation = ''models_then_generation'', mf_generation = ''responses'', mf_models = [''gpt-5.5'', ''gpt-5.4-mini''],
       mf_docs = ''https://platform.openai.com/docs/api-reference''\<rparr>,
     \<lparr>mf_code = ''gemini'', mf_name = ''Gemini'', mf_product = ''Google AI Studio'',
       mf_protocol = ''gemini'', mf_type = ''gemini'', mf_auth = ''api_key'', mf_label = ''Authorization API Key'',
       mf_default = ''global'',
       mf_regions = [\<lparr>rg_code = ''global'', rg_name = ''Global'', rg_endpoint = ''https://generativelanguage.googleapis.com/v1beta'', rg_workspace = False\<rparr>],
       mf_validation = ''models_then_generation'', mf_generation = ''chat'', mf_models = [''gemini-3.6-flash'', ''gemini-3.5-flash''],
       mf_docs = ''https://ai.google.dev/gemini-api/docs/api-key''\<rparr>,
     \<lparr>mf_code = ''kimi'', mf_name = ''Kimi'', mf_product = ''Moonshot Open Platform'',
       mf_protocol = ''openai_compatible'', mf_type = ''openai-compatible'', mf_auth = ''api_key'', mf_label = ''API Key'',
       mf_default = ''cn'',
       mf_regions = [\<lparr>rg_code = ''cn'', rg_name = [CHR 0xE4, CHR 0xB8, CHR 0xAD, CHR 0xE5, CHR 0x9B, CHR 0xBD, CHR 0xE5, CHR 0xA4, CHR 0xA7, CHR 0xE9, CHR 0x99, CHR 0x86], rg_endpoint = ''https://api.moonshot.cn/v1'', rg_workspace = False\<rparr>,
         \<lparr>rg_code = ''global'', rg_name = ''International'', rg_endpoint = ''https://api.moonshot.ai/v1'', rg_workspace = False\<rparr>],
       mf_validation = ''models_then_generation'', mf_generation = ''chat'', mf_models = [''kimi-k2.5''],
       mf_docs = ''https://platform.moonshot.cn/docs''\<rparr>,
     \<lparr>mf_code = ''deepseek'', mf_name = ''DeepSeek'', mf_product = ''DeepSeek Open Platform'',
       mf_protocol = ''openai_compatible'', mf_type = ''openai-compatible'', mf_auth = ''api_key'', mf_label = ''API Key'',
       mf_default = ''global'',
       mf_regions = [\<lparr>rg_code = ''global'', rg_name = ''Global'', rg_endpoint = ''https://api.deepseek.com'', rg_workspace = False\<rparr>],
       mf_validation = ''generation'', mf_generation = ''chat'', mf_models = [''deepseek-v4-flash'', ''deepseek-v4-pro''],
       mf_docs = ''https://api-docs.deepseek.com/''\<rparr>,
     \<lparr>mf_code = ''grok'', mf_name = ''Grok / xAI'', mf_product = ''xAI Console'',
       mf_protocol = ''openai_compatible'', mf_type = ''openai-compatible'', mf_auth = ''api_key'', mf_label = ''xAI API Key'',
       mf_default = ''global'',
       mf_regions = [\<lparr>rg_code = ''global'', rg_name = ''Global'', rg_endpoint = ''https://api.x.ai/v1'', rg_workspace = False\<rparr>],
       mf_validation = ''models_then_generation'', mf_generation = ''responses'', mf_models = [''grok-4.6''],
       mf_docs = ''https://docs.x.ai/docs/overview''\<rparr>,
     \<lparr>mf_code = ''doubao'', mf_name = [CHR 0xE8, CHR 0xB1, CHR 0x86, CHR 0xE5, CHR 0x8C, CHR 0x85], mf_product = [CHR 0xE7, CHR 0x81, CHR 0xAB, CHR 0xE5, CHR 0xB1, CHR 0xB1, CHR 0xE6, CHR 0x96, CHR 0xB9, CHR 0xE8, CHR 0x88, CHR 0x9F, CHR 0xE6, CHR 0x8C, CHR 0x89, CHR 0xE9, CHR 0x87, CHR 0x8F, CHR 0xE8, CHR 0xB0, CHR 0x83, CHR 0xE7, CHR 0x94, CHR 0xA8],
       mf_protocol = ''openai_compatible'', mf_type = ''openai-compatible'', mf_auth = ''api_key'', mf_label = ''ARK API Key'',
       mf_default = ''cn-beijing'',
       mf_regions = [\<lparr>rg_code = ''cn-beijing'', rg_name = ([CHR 0xE5, CHR 0x8D, CHR 0x8E, CHR 0xE5, CHR 0x8C, CHR 0x97] @ '' 2'' @ [CHR 0xEF, CHR 0xBC, CHR 0x88, CHR 0xE5, CHR 0x8C, CHR 0x97, CHR 0xE4, CHR 0xBA, CHR 0xAC, CHR 0xEF, CHR 0xBC, CHR 0x89]), rg_endpoint = ''https://ark.cn-beijing.volces.com/api/v3'', rg_workspace = False\<rparr>],
       mf_validation = ''generation'', mf_generation = ''responses'', mf_models = [''doubao-seed-2-0-lite-260215''],
       mf_docs = ''https://www.volcengine.com/docs/82379/1795150''\<rparr>,
     \<lparr>mf_code = ''claude'', mf_name = ''Claude'', mf_product = ''Anthropic Console'',
       mf_protocol = ''anthropic'', mf_type = ''anthropic'', mf_auth = ''api_key'', mf_label = ''API Key'',
       mf_default = ''global'',
       mf_regions = [\<lparr>rg_code = ''global'', rg_name = ''Global'', rg_endpoint = ''https://api.anthropic.com/v1'', rg_workspace = False\<rparr>],
       mf_validation = ''generation'', mf_generation = ''chat'', mf_models = [''claude-opus-4-8'', ''claude-sonnet-5''],
       mf_docs = ''https://docs.anthropic.com/en/api/messages''\<rparr>,
     \<lparr>mf_code = ''qwen'', mf_name = [CHR 0xE5, CHR 0x8D, CHR 0x83, CHR 0xE9, CHR 0x97, CHR 0xAE], mf_product = [CHR 0xE9, CHR 0x98, CHR 0xBF, CHR 0xE9, CHR 0x87, CHR 0x8C, CHR 0xE4, CHR 0xBA, CHR 0x91, CHR 0xE7, CHR 0x99, CHR 0xBE, CHR 0xE7, CHR 0x82, CHR 0xBC, CHR 0xE6, CHR 0x8C, CHR 0x89, CHR 0xE9, CHR 0x87, CHR 0x8F, CHR 0xE4, CHR 0xBB, CHR 0x98, CHR 0xE8, CHR 0xB4, CHR 0xB9],
       mf_protocol = ''openai_compatible'', mf_type = ''openai-compatible'', mf_auth = ''api_key'', mf_label = ''Model Studio API Key'',
       mf_default = ''cn-beijing'',
       mf_regions = [\<lparr>rg_code = ''cn-beijing'', rg_name = ([CHR 0xE5, CHR 0x8D, CHR 0x8E, CHR 0xE5, CHR 0x8C, CHR 0x97] @ '' 2'' @ [CHR 0xEF, CHR 0xBC, CHR 0x88, CHR 0xE5, CHR 0x8C, CHR 0x97, CHR 0xE4, CHR 0xBA, CHR 0xAC, CHR 0xEF, CHR 0xBC, CHR 0x89]), rg_endpoint = ''https://dashscope.aliyuncs.com/compatible-mode/v1'', rg_workspace = True\<rparr>,
         \<lparr>rg_code = ''ap-southeast-1'', rg_name = [CHR 0xE6, CHR 0x96, CHR 0xB0, CHR 0xE5, CHR 0x8A, CHR 0xA0, CHR 0xE5, CHR 0x9D, CHR 0xA1], rg_endpoint = ''https://dashscope-intl.aliyuncs.com/compatible-mode/v1'', rg_workspace = True\<rparr>,
         \<lparr>rg_code = ''us-east-1'', rg_name = [CHR 0xE7, CHR 0xBE, CHR 0x8E, CHR 0xE5, CHR 0x9B, CHR 0xBD, CHR 0xEF, CHR 0xBC, CHR 0x88, CHR 0xE5, CHR 0xBC, CHR 0x97, CHR 0xE5, CHR 0x90, CHR 0x89, CHR 0xE5, CHR 0xB0, CHR 0xBC, CHR 0xE4, CHR 0xBA, CHR 0x9A, CHR 0xEF, CHR 0xBC, CHR 0x89], rg_endpoint = ''https://dashscope-us.aliyuncs.com/compatible-mode/v1'', rg_workspace = False\<rparr>,
         \<lparr>rg_code = ''ap-northeast-1'', rg_name = [CHR 0xE6, CHR 0x97, CHR 0xA5, CHR 0xE6, CHR 0x9C, CHR 0xAC, CHR 0xEF, CHR 0xBC, CHR 0x88, CHR 0xE4, CHR 0xB8, CHR 0x9C, CHR 0xE4, CHR 0xBA, CHR 0xAC, CHR 0xEF, CHR 0xBC, CHR 0x89], rg_endpoint = [], rg_workspace = True\<rparr>,
         \<lparr>rg_code = ''eu-central-1'', rg_name = [CHR 0xE5, CHR 0xBE, CHR 0xB7, CHR 0xE5, CHR 0x9B, CHR 0xBD, CHR 0xEF, CHR 0xBC, CHR 0x88, CHR 0xE6, CHR 0xB3, CHR 0x95, CHR 0xE5, CHR 0x85, CHR 0xB0, CHR 0xE5, CHR 0x85, CHR 0x8B, CHR 0xE7, CHR 0xA6, CHR 0x8F, CHR 0xEF, CHR 0xBC, CHR 0x89], rg_endpoint = [], rg_workspace = True\<rparr>],
       mf_validation = ''generation'', mf_generation = ''chat'', mf_models = [''qwen3.7-plus'', ''qwen3.7-max''],
       mf_docs = ''https://help.aliyun.com/en/model-studio/base-url''\<rparr>]"

definition registry_with_policies :: "(manifest \<times> provider_policy option) list" where
  "registry_with_policies = map (\<lambda>m. (m, policy_for (mf_code m))) provider_registry"

definition alphanumeric :: "char \<Rightarrow> bool" where
  "alphanumeric c = (let n = of_char c :: nat in (48 \<le> n \<and> n \<le> 57) \<or> (65 \<le> n \<and> n \<le> 90) \<or> (97 \<le> n \<and> n \<le> 122))"

text \<open>\<open>^[A-Za-z0-9][A-Za-z0-9-]{1,62}[A-Za-z0-9]$\<close>\<close>

definition workspace_id_ok :: "string \<Rightarrow> bool" where
  "workspace_id_ok w =
     (3 \<le> length w \<and> length w \<le> 64 \<and> alphanumeric (hd w) \<and> alphanumeric (last w)
      \<and> list_all (\<lambda>c. alphanumeric c \<or> c = CHR ''-'') w)"

datatype resolve_error = UnsupportedProvider | UnsupportedRegion | WorkspaceFormat | WorkspaceUnavailable | WorkspaceRequired

record resolved =
  rp_manifest :: manifest
  rp_region :: string
  rp_workspace :: string
  rp_endpoint :: string
  rp_config :: obj

definition workspace_regions :: "string list" where
  "workspace_regions = [''cn-beijing'', ''ap-southeast-1'', ''ap-northeast-1'', ''eu-central-1'']"

definition workspace_endpoint :: "string \<Rightarrow> string \<Rightarrow> string" where
  "workspace_endpoint w r = ''https://'' @ w @ ''.'' @ r @ ''.maas.aliyuncs.com/compatible-mode/v1''"

definition endpoint_for :: "string \<Rightarrow> region \<Rightarrow> string \<Rightarrow> string \<Rightarrow> resolve_error + string" where
  "endpoint_for code g region w =
     (if code = ''qwen'' \<and> w \<noteq> [] then
        (if \<not> workspace_id_ok w then Inl WorkspaceFormat
         else if region \<notin> set workspace_regions then Inl WorkspaceUnavailable
         else Inr (workspace_endpoint w region))
      else if rg_endpoint g = [] then Inl WorkspaceRequired
      else Inr (rg_endpoint g))"

definition provider_config_of :: "string \<Rightarrow> manifest \<Rightarrow> obj" where
  "provider_config_of code m =
     [(''connectionProvider'', JStr code), (''productLine'', JStr (mf_product m))]
     @ (if code \<in> {''deepseek'', ''doubao''} then [(''pathMode'', JStr ''direct'')] else [])"

definition resolve_provider :: "string \<Rightarrow> string \<Rightarrow> string \<Rightarrow> resolve_error + resolved" where
  "resolve_provider code0 region0 workspace0 =
     (let code = normal_name code0 in
      case List.find (\<lambda>m. mf_code m = code) provider_registry of
        None \<Rightarrow> Inl UnsupportedProvider
      | Some m \<Rightarrow>
          (let named = normal_name region0; region = (if named = [] then mf_default m else named) in
           case List.find (\<lambda>g. rg_code g = region) (mf_regions m) of
             None \<Rightarrow> Inl UnsupportedRegion
           | Some g \<Rightarrow>
               (let w = trim_space workspace0 in
                case endpoint_for code g region w of
                  Inl e \<Rightarrow> Inl e
                | Inr endpoint \<Rightarrow> Inr \<lparr>rp_manifest = m, rp_region = region, rp_workspace = w,
                    rp_endpoint = endpoint, rp_config = provider_config_of code m\<rparr>)))"

section \<open>What the policy allows\<close>

lemma review_deadline: "parse_date ''2026-11-17'' = Some (midnight 2026 11 17)"
  by code_simp

lemma day_after_review: "midnight 2026 11 17 + 24 * hour = midnight 2026 11 18"
  by (simp add: midnight_def algebra_simps)

lemma policies_expire: "p \<in> set provider_policies \<Longrightarrow> pp_expires p = ''2026-11-17''"
  by (auto simp: provider_policies_def)

lemma review_over_compiled:
  assumes "pp_expires p = ''2026-11-17''"
  shows "review_over p now \<longleftrightarrow> midnight 2026 11 18 \<le> now"
  using day_after_review by (simp add: review_over_def assms review_deadline linorder_not_less del: parse_date_def)

lemma policy_of:
  "policy_for provider =
     (let p = normal_name provider in
      if p = ''openai'' then Some (provider_policies ! 0)
      else if p = ''gemini'' then Some (provider_policies ! Suc 0)
      else if p = ''deepseek'' then Some (provider_policies ! 2)
      else if p = ''grok'' then Some (provider_policies ! 3) else None)"
  by (simp add: policy_for_def provider_policies_def Let_def eq_commute [of "normal_name provider"])

lemma compiled_policies:
  "pp_expires (provider_policies ! 0) = ''2026-11-17''" "pp_production (provider_policies ! 0) = [''official_api'', ''official_client'']"
  "pp_lab (provider_policies ! 0) = [''browser_lab'']"
  "pp_expires (provider_policies ! Suc 0) = ''2026-11-17''" "pp_production (provider_policies ! Suc 0) = [''official_api'', ''official_oauth'']"
  "pp_lab (provider_policies ! Suc 0) = [''browser_lab'']"
  "pp_expires (provider_policies ! 2) = ''2026-11-17''" "pp_production (provider_policies ! 2) = [''official_api'']"
  "pp_lab (provider_policies ! 2) = [''browser_lab'', ''consumer_web'']"
  "pp_expires (provider_policies ! 3) = ''2026-11-17''" "pp_production (provider_policies ! 3) = [''official_api'', ''official_client'']"
  "pp_lab (provider_policies ! 3) = []"
  by (simp_all add: provider_policies_def)

text \<open>The names of modes are in their normal form.\<close>

lemma normal_modes:
  "normal_name ''official_api'' = ''official_api''" "normal_name ''official_oauth'' = ''official_oauth''"
  "normal_name ''official_client'' = ''official_client''" "normal_name ''consumer_web'' = ''consumer_web''"
  "normal_name ''browser_lab'' = ''browser_lab''" "normal_name [] = []"
  by code_simp+

lemma normal_mode [simp]: "normal_name (mode_for_auth_method auth) = mode_for_auth_method auth"
  by (simp add: mode_for_auth_method_def Let_def normal_modes)

lemma mode_is:
  "mode_for_auth_method a = ''official_api'' \<longleftrightarrow> normal_name a \<in> {''api_key'', ''api_key_guided''}"
  "mode_for_auth_method a = ''official_oauth'' \<longleftrightarrow> normal_name a = ''oauth''"
  "mode_for_auth_method a = ''official_client'' \<longleftrightarrow> normal_name a = ''official_client''"
  "mode_for_auth_method a = ''consumer_web'' \<longleftrightarrow> normal_name a \<in> {''deepseek_web_token'', ''codex_oauth''}"
  "mode_for_auth_method a = ''browser_lab'' \<longleftrightarrow> normal_name a = ''opencli_browser''"
  by (auto simp: mode_for_auth_method_def Let_def)

text \<open>One provider: what \<open>Allows\<close> accepts, for any of the compiled policies.\<close>

lemma policy_allows_compiled:
  assumes "pp_expires p = ''2026-11-17''" and "normal_name mode = mode"
  shows "policy_allows (p\<lparr>pp_kill := killed\<rparr>) mode lab now = None \<longleftrightarrow>
    (killed \<longrightarrow> mode = ''official_api'')
    \<and> (mode \<in> {''official_client'', ''browser_lab'', ''consumer_web''} \<longrightarrow> now < midnight 2026 11 18)
    \<and> (mode \<in> set (pp_production p) \<or> lab \<and> mode \<in> set (pp_lab p))"
  using review_over_compiled [of "p\<lparr>pp_kill := killed\<rparr>" now] assms
  by (auto simp: policy_allows_def Let_def linorder_not_le)

lemma provider_mode_decision_table:
  "provider_mode_allowed provider auth lab now killed = None \<longleftrightarrow>
     (let p = normal_name provider; m = normal_name auth in
      m \<in> {''api_key'', ''api_key_guided''}
      \<or> \<not> killed \<and>
          (p = ''gemini'' \<and> m = ''oauth''
           \<or> now < midnight 2026 11 18 \<and>
               (p \<in> {''openai'', ''grok''} \<and> m = ''official_client''
                \<or> lab \<and> (p \<in> {''openai'', ''gemini'', ''deepseek''} \<and> m = ''opencli_browser''
                        \<or> p = ''deepseek'' \<and> m \<in> {''deepseek_web_token'', ''codex_oauth''}))))"
proof -
  have other: "policy_for provider = None \<longleftrightarrow> normal_name provider \<notin> {''openai'', ''gemini'', ''deepseek'', ''grok''}"
    by (simp add: policy_of Let_def)
  show ?thesis
  proof (cases "normal_name provider \<in> {''openai'', ''gemini'', ''deepseek'', ''grok''}")
    case False
    with other show ?thesis by (auto simp: provider_mode_allowed_def mode_is Let_def)
  next
    case True
    then consider "normal_name provider = ''openai''" | "normal_name provider = ''gemini''"
      | "normal_name provider = ''deepseek''" | "normal_name provider = ''grok''" by blast
    then show ?thesis
      by cases (auto simp: provider_mode_allowed_def policy_of policy_allows_compiled compiled_policies mode_is Let_def)
  qed
qed

text \<open>Which way of connecting is allowed, for every provider, method, mode, time and kill switch:
  API keys always, whatever the provider and the kill switch; Gemini OAuth unless killed; the official
  client of OpenAI and Grok until the review expires at the start of 18 November 2026; and only in the
  lab, until then, the browser connectors of OpenAI, Gemini and DeepSeek and a DeepSeek web session.
  Nothing else: in particular no Codex OAuth session of OpenAI.\<close>

theorem provider_mode_decision:
  "provider_mode_allowed provider auth lab now killed = None \<longleftrightarrow>
     (let p = normal_name provider; m = normal_name auth in
      m \<in> {''api_key'', ''api_key_guided''}
      \<or> \<not> killed \<and>
          (p = ''gemini'' \<and> m = ''oauth''
           \<or> now < midnight 2026 11 18 \<and>
               (p \<in> {''openai'', ''grok''} \<and> m = ''official_client''
                \<or> lab \<and> (p \<in> {''openai'', ''gemini'', ''deepseek''} \<and> m = ''opencli_browser''
                        \<or> p = ''deepseek'' \<and> m \<in> {''deepseek_web_token'', ''codex_oauth''}))))"
  by (rule provider_mode_decision_table)

definition no_operator_settings :: policy_config where
  "no_operator_settings = \<lparr>pc_kill = (\<lambda>_. None), pc_digests = None\<rparr>"

definition observed_digest :: "policy_config \<Rightarrow> string \<Rightarrow> string" where
  "observed_digest cfg provider =
     (case pc_digests cfg of None \<Rightarrow> [] | Some m \<Rightarrow> (case m provider of None \<Rightarrow> [] | Some d \<Rightarrow> trim_space d))"

lemma api_key_always:
  "mode_for_auth_method auth = ''official_api'' \<Longrightarrow> provider_mode_allowed provider auth lab now killed = None"
  by (auto simp: provider_mode_decision_table mode_is Let_def)

lemma killed_denies:
  assumes "mode_for_auth_method auth \<noteq> ''official_api''"
  shows "provider_mode_allowed provider auth lab now True \<noteq> None"
  using assms by (cases "policy_for provider") (simp_all add: provider_mode_allowed_def policy_allows_def)

lemma allowed_known:
  "provider_mode_allowed provider auth lab now killed = None \<Longrightarrow> mode_for_auth_method auth \<noteq> ''official_api''
    \<Longrightarrow> \<exists>p. policy_for provider = Some p"
  by (cases "policy_for provider") (simp_all add: provider_mode_allowed_def)

lemma digest_verdict:
  assumes "mode_for_auth_method auth \<noteq> ''official_api''" and "policy_for provider = Some p"
  shows "validate_terms_digest provider auth d = None \<longleftrightarrow> trim_space d = [] \<or> equal_fold (trim_space d) (pp_digest p)"
  using assms by (simp add: validate_terms_digest_def)

text \<open>An operator can stop a way of connecting and cannot allow one: whatever the kill switches and the
  observed digests of the provider's terms say, API keys stay allowed, and anything else is allowed
  exactly when it is allowed without settings, its provider is not killed, and no other digest of its
  terms than the reviewed one has been observed.\<close>

theorem operator_only_narrows:
  "server_policy cfg provider auth lab now = None \<longleftrightarrow>
     (mode_for_auth_method auth = ''official_api''
      \<or> server_policy no_operator_settings provider auth lab now = None
        \<and> pc_kill cfg (normal_name provider) \<noteq> Some True
        \<and> (let d = observed_digest cfg (normal_name provider)
           in d = [] \<or> policy_for (normal_name provider) \<in>
                Some ` {p. equal_fold d (pp_digest p)}))"
proof (cases "mode_for_auth_method auth = ''official_api''")
  case True
  then show ?thesis
    by (simp add: server_policy_def Let_def api_key_always validate_terms_digest_def split: option.splits)
next
  case False
  let ?p = "normal_name provider"
  have free: "server_policy no_operator_settings provider auth lab now = provider_mode_allowed ?p auth lab now False"
    by (simp add: server_policy_def no_operator_settings_def)
  have verdict: "(case pc_digests cfg of None \<Rightarrow> None | Some m \<Rightarrow>
        validate_terms_digest ?p auth (case m ?p of None \<Rightarrow> [] | Some d \<Rightarrow> d)) = None
      \<longleftrightarrow> observed_digest cfg ?p = [] \<or> equal_fold (observed_digest cfg ?p) (pp_digest q)"
    if "policy_for ?p = Some q" for q
    using digest_verdict [OF False that] by (auto simp: observed_digest_def split: option.splits)
  have "server_policy cfg provider auth lab now = None \<longleftrightarrow>
      (case pc_digests cfg of None \<Rightarrow> None | Some m \<Rightarrow>
        validate_terms_digest ?p auth (case m ?p of None \<Rightarrow> [] | Some d \<Rightarrow> d)) = None
      \<and> provider_mode_allowed ?p auth lab now (pc_kill cfg ?p = Some True) = None"
    unfolding server_policy_def Let_def by (auto split: option.splits)
  also have "\<dots> \<longleftrightarrow> (server_policy no_operator_settings provider auth lab now = None
        \<and> pc_kill cfg ?p \<noteq> Some True
        \<and> (let d = observed_digest cfg ?p in d = [] \<or> policy_for ?p \<in> Some ` {p. equal_fold d (pp_digest p)}))"
  proof (cases "policy_for ?p")
    case None
    then have "provider_mode_allowed ?p auth lab now k \<noteq> None" for k
      using allowed_known [of ?p auth lab now k] False by auto
    then show ?thesis by (simp only: free simp_thms)
  next
    case (Some q)
    show ?thesis
    proof (cases "pc_kill cfg ?p = Some True")
      case True
      with killed_denies [OF False, of ?p lab now] show ?thesis by simp
    next
      case no: False
      have "policy_for ?p \<in> Some ` {p. equal_fold d (pp_digest p)} \<longleftrightarrow> equal_fold d (pp_digest q)" for d
        using Some by auto
      with no show ?thesis by (simp only: free verdict [OF Some] Let_def simp_thms) blast
    qed
  qed
  finally show ?thesis using False by simp
qed

section \<open>Where a provider resolves to\<close>

definition provider_hosts :: "string list" where
  "provider_hosts =
     [''api.openai.com'', ''generativelanguage.googleapis.com'', ''api.moonshot.cn'', ''api.moonshot.ai'', ''api.deepseek.com'',
      ''api.x.ai'', ''ark.cn-beijing.volces.com'', ''api.anthropic.com'', ''dashscope.aliyuncs.com'',
      ''dashscope-intl.aliyuncs.com'', ''dashscope-us.aliyuncs.com'']"

definition endpoint_host :: "string \<Rightarrow> string" where
  "endpoint_host e = takeWhile (\<lambda>c. c \<noteq> CHR ''/'') (drop 8 e)"

definition registry_endpoint_ok :: "string \<Rightarrow> bool" where
  "registry_endpoint_ok e = (e = [] \<or> has_prefix e ''https://'' \<and> endpoint_host e \<in> set provider_hosts)"

lemma registry_endpoints:
  "list_all (\<lambda>m. list_all (\<lambda>g. registry_endpoint_ok (rg_endpoint g)) (mf_regions m)) provider_registry"
  by code_simp

lemma workspace_chars: "workspace_id_ok w \<Longrightarrow> CHR ''/'' \<notin> set w"
  by (auto simp: workspace_id_ok_def list_all_iff alphanumeric_def)

lemma workspace_hosts:
  "r \<in> set workspace_regions \<Longrightarrow> CHR ''/'' \<notin> set r"
  by (auto simp: workspace_regions_def)

lemma take_while_until:
  "x \<notin> set xs \<Longrightarrow> takeWhile (\<lambda>c. c \<noteq> x) (xs @ x # ys) = xs"
  by (induction xs) auto

lemma workspace_endpoint_host:
  assumes "workspace_id_ok w" and "r \<in> set workspace_regions"
  shows "endpoint_host (workspace_endpoint w r) = w @ ''.'' @ r @ ''.maas.aliyuncs.com''"
    and "has_prefix (workspace_endpoint w r) ''https://''"
proof -
  let ?h = "w @ ''.'' @ r @ ''.maas.aliyuncs.com''"
  have e: "workspace_endpoint w r = ''https://'' @ ?h @ CHR ''/'' # ''compatible-mode/v1''"
    by (simp add: workspace_endpoint_def)
  have "CHR ''/'' \<notin> set ?h" using workspace_chars [OF assms(1)] workspace_hosts [OF assms(2)] by simp
  then have "takeWhile (\<lambda>c. c \<noteq> CHR ''/'') (?h @ CHR ''/'' # ''compatible-mode/v1'') = ?h"
    by (rule take_while_until)
  then show "endpoint_host (workspace_endpoint w r) = ?h" unfolding e endpoint_host_def by simp
  show "has_prefix (workspace_endpoint w r) ''https://''" unfolding e by (rule has_prefix_append)
qed

text \<open>A provider resolves only to a known place: the endpoint is an https URL on one of the eleven
  hosts of the registry, whatever the input, or, for Qwen, on a host that is the workspace id, which has
  letters, digits and dashes only, inside one of four regions of the vendor's domain.\<close>

theorem resolved_endpoint_known:
  assumes "resolve_provider code region0 workspace = Inr x"
  shows "has_prefix (rp_endpoint x) ''https://''
    \<and> (endpoint_host (rp_endpoint x) \<in> set provider_hosts
       \<or> normal_name code = ''qwen'' \<and> rp_region x \<in> set workspace_regions
         \<and> list_all (\<lambda>c. alphanumeric c \<or> c = CHR ''-'') (trim_space workspace)
         \<and> endpoint_host (rp_endpoint x) = trim_space workspace @ ''.'' @ rp_region x @ ''.maas.aliyuncs.com'')"
proof -
  let ?code = "normal_name code" and ?w = "trim_space workspace"
  from assms obtain m g where m: "List.find (\<lambda>m. mf_code m = ?code) provider_registry = Some m"
    and g: "List.find (\<lambda>g. rg_code g = rp_region x) (mf_regions m) = Some g"
    and e: "endpoint_for ?code g (rp_region x) ?w = Inr (rp_endpoint x)"
    by (auto simp: resolve_provider_def Let_def split: option.splits sum.splits)
  from m g have "m \<in> set provider_registry" "g \<in> set (mf_regions m)"
    by (auto simp: find_Some_iff)
  with registry_endpoints have "registry_endpoint_ok (rg_endpoint g)" by (auto simp: list_all_iff)
  with e show ?thesis
    using workspace_endpoint_host [of ?w "rp_region x"]
    by (auto simp: endpoint_for_def registry_endpoint_ok_def workspace_id_ok_def split: if_splits)
qed

theorem resolved_endpoint_known_witness:
  "\<exists>x. resolve_provider '' Qwen'' ''eu-central-1'' ''ws-1 '' = Inr x
    \<and> rp_endpoint x = ''https://ws-1.eu-central-1.maas.aliyuncs.com/compatible-mode/v1''
    \<and> has_prefix (rp_endpoint x) ''https://''"
proof -
  have "(case resolve_provider '' Qwen'' ''eu-central-1'' ''ws-1 '' of Inl _ \<Rightarrow> [] | Inr x \<Rightarrow> rp_endpoint x)
      = ''https://ws-1.eu-central-1.maas.aliyuncs.com/compatible-mode/v1''" by code_simp
  then obtain x where x: "resolve_provider '' Qwen'' ''eu-central-1'' ''ws-1 '' = Inr x"
    and "rp_endpoint x = ''https://ws-1.eu-central-1.maas.aliyuncs.com/compatible-mode/v1''"
    by (cases "resolve_provider '' Qwen'' ''eu-central-1'' ''ws-1 ''") simp_all
  with resolved_endpoint_known [OF x] show ?thesis by blast
qed

end
