(* ===== verification/Gateway_Entry.thy ===== *)
theory Gateway_Entry
  imports Gateway_Store Provider_Policy Anthropic_Bridge
begin

text \<open>
  How a request enters the gateway (\<open>api/gateway_handlers.go\<close>, \<open>api/server.go\<close>, \<open>gateway/cache.go\<close>):
  the API key, the rate limit in Redis or in memory, the quota, the slot of an experimental
  gateway, and the upstreams that may serve it. Redis is a parameter: its replies to \<open>INCR\<close>, to the
  slot script and to \<open>EXISTS\<close>, each of which may fail; no Redis at all is \<open>None\<close>. Headers are the
  values \<open>Header.Get\<close> returns, empty when there is none.
\<close>

section \<open>The cache\<close>

record redis =
  rd_incr :: "string \<Rightarrow> int option"
  rd_acquire :: "string \<Rightarrow> int \<Rightarrow> bool option"
  rd_exists :: "string \<Rightarrow> bool option"

datatype 'a cached = Unavailable | Failed | Reply 'a

definition cached_reply :: "'a option \<Rightarrow> 'a cached" where
  "cached_reply r = (case r of None \<Rightarrow> Failed | Some x \<Rightarrow> Reply x)"

text \<open>\<open>stamp\<close> is the second, as \<open>20060102150405\<close>.\<close>

definition allow_qps :: "redis option \<Rightarrow> string \<Rightarrow> string \<Rightarrow> int \<Rightarrow> bool cached" where
  "allow_qps c stamp key limit = (case c of
      None \<Rightarrow> Unavailable
    | Some r \<Rightarrow>
        if limit \<le> 0 then Reply True
        else case rd_incr r (''gateway:qps:'' @ key @ '':'' @ stamp) of
            None \<Rightarrow> Failed
          | Some n \<Rightarrow> Reply (n \<le> limit))"

definition acquire_concurrency :: "redis option \<Rightarrow> string \<Rightarrow> int \<Rightarrow> bool cached" where
  "acquire_concurrency c key limit = (case c of
      None \<Rightarrow> Unavailable
    | Some r \<Rightarrow> if limit \<le> 0 then Reply True else cached_reply (rd_acquire r (''gateway:concurrency:'' @ key) limit))"

definition cached_circuit :: "redis option \<Rightarrow> string \<Rightarrow> bool cached" where
  "cached_circuit c channel = (case c of
      None \<Rightarrow> Unavailable | Some r \<Rightarrow> cached_reply (rd_exists r (''gateway:circuit:'' @ channel)))"

section \<open>The limiter in memory\<close>

record rate_bucket =
  rb_window :: time
  rb_count :: int

type_synonym limiter = "string \<Rightarrow> rate_bucket option"

text \<open>A missing bucket is the zero bucket, whose window began in year 1.\<close>

definition current_bucket :: "limiter \<Rightarrow> string \<Rightarrow> duration \<Rightarrow> time \<Rightarrow> rate_bucket" where
  "current_bucket l key window now = (case l key of
      None \<Rightarrow> \<lparr>rb_window = now, rb_count = 0\<rparr>
    | Some b \<Rightarrow> if now - rb_window b > window then \<lparr>rb_window = now, rb_count = 0\<rparr> else b)"

definition allow_rate :: "limiter \<Rightarrow> string \<Rightarrow> int \<Rightarrow> duration \<Rightarrow> time \<Rightarrow> bool \<times> limiter" where
  "allow_rate l key limit window now =
     (let b = current_bucket l key window now; b' = b\<lparr>rb_count := rb_count b + 1\<rparr>
      in (rb_count b' \<le> limit, l(key := Some b')))"

section \<open>Upstreams that act for a person\<close>

definition upstream_auth_method :: "(json \<Rightarrow> string) \<Rightarrow> gateway_upstream \<Rightarrow> string" where
  "upstream_auth_method spr u = trim_space (string_from_any spr (obj_at ''authMethod'' (gu_config u)))"

definition is_browser_upstream :: "(json \<Rightarrow> string) \<Rightarrow> gateway_upstream \<Rightarrow> bool" where
  "is_browser_upstream spr u = equal_fold (upstream_auth_method spr u) ''opencli_browser''"

definition is_client_upstream :: "(json \<Rightarrow> string) \<Rightarrow> gateway_upstream \<Rightarrow> bool" where
  "is_client_upstream spr u = equal_fold (upstream_auth_method spr u) ''official_client''"

definition gateway_uses_browser :: "(json \<Rightarrow> string) \<Rightarrow> gateway_view \<Rightarrow> bool" where
  "gateway_uses_browser spr g = list_ex (is_browser_upstream spr) (gv_upstreams g)"

definition gateway_uses_client :: "(json \<Rightarrow> string) \<Rightarrow> gateway_view \<Rightarrow> bool" where
  "gateway_uses_client spr g = list_ex (is_client_upstream spr) (gv_upstreams g)"

record experimental_policy =
  xp_qps :: int
  xp_concurrency :: int

definition experimental_limits :: "(json \<Rightarrow> string) \<Rightarrow> gateway_view \<Rightarrow> experimental_policy option" where
  "experimental_limits spr g =
     (let methods = map (\<lambda>u. to_lower (upstream_auth_method spr u)) (gv_upstreams g);
          single = {''deepseek_web_token'', ''opencli_browser'', ''official_client''}
      in if list_ex (\<lambda>m. m \<in> insert ''codex_oauth'' single) methods
         then Some \<lparr>xp_qps = 1, xp_concurrency = (if list_ex (\<lambda>m. m \<in> single) methods then 1 else 2)\<rparr>
         else None)"

definition gateway_rate_policy :: "(json \<Rightarrow> string) \<Rightarrow> gateway_key \<Rightarrow> gateway_view \<Rightarrow> string \<times> int" where
  "gateway_rate_policy spr k g =
     (case experimental_limits spr g of
        Some p \<Rightarrow> (''experimental:'' @ gw_id g, xp_qps p)
      | None \<Rightarrow> (gk_id k, if gk_qps_limit k \<le> 0 then gw_qps_limit g else gk_qps_limit k))"

section \<open>Admission\<close>

text \<open>A refusal is its status and code.\<close>

type_synonym refusal = "int \<times> string"

definition bearer_key :: "string \<Rightarrow> string \<Rightarrow> string" where
  "bearer_key authorization xkey =
     (let header = trim_space authorization;
          plain = (if has_prefix (to_lower header) ''bearer '' then trim_space (drop 7 header) else [])
      in if plain = [] then trim_space xkey else plain)"

definition rate_admits ::
  "(json \<Rightarrow> string) \<Rightarrow> redis option \<Rightarrow> string \<Rightarrow> gateway_key \<Rightarrow> gateway_view \<Rightarrow> limiter \<Rightarrow> time \<Rightarrow> (refusal + unit) \<times> limiter"
where
  "rate_admits spr c stamp k g l now =
     (let (key, qps) = gateway_rate_policy spr k g; limited = Inl (429, ''gateway_rate_limited'') in
      case allow_qps c stamp key qps of
        Reply ok \<Rightarrow> (if ok then Inr () else limited, l)
      | _ \<Rightarrow>
          if gateway_uses_browser spr g \<or> gateway_uses_client spr g
          then (Inl (503, ''local_risk_guard_unavailable''), l)
          else (case allow_rate l key qps second now of (ok, l') \<Rightarrow> (if ok then Inr () else limited, l')))"

record gate =
  gt_db :: gateway_db
  gt_limiter :: limiter

definition authenticate_gateway_request ::
  "(string \<Rightarrow> string) \<Rightarrow> (json \<Rightarrow> string) \<Rightarrow> redis option \<Rightarrow> string \<Rightarrow> string \<Rightarrow> string \<Rightarrow> time \<Rightarrow> gate
    \<Rightarrow> (refusal + gateway_key \<times> gateway_view) \<times> gate"
where
  "authenticate_gateway_request h spr c stamp authorization xkey now s =
     (let plain = bearer_key authorization xkey in
      if plain = [] then (Inl (401, ''gateway_unauthorized''), s)
      else case authenticate_gateway_key h plain now (gt_db s) of
          Inl _ \<Rightarrow> (Inl (401, ''gateway_unauthorized''), s)
        | Inr (k, g) \<Rightarrow>
            (case rate_admits spr c stamp k g (gt_limiter s) now of
               (Inl e, l) \<Rightarrow> (Inl e, s\<lparr>gt_limiter := l\<rparr>)
             | (Inr _, l) \<Rightarrow>
                 (case reserve_gateway_key (gk_id k) now (gt_db s) of
                    (Inl _, db) \<Rightarrow> (Inl (500, ''gateway_quota_unavailable''), s\<lparr>gt_limiter := l, gt_db := db\<rparr>)
                  | (Inr reserved, db) \<Rightarrow>
                      (if reserved then Inr (k, g) else Inl (429, ''gateway_quota_exceeded''),
                       s\<lparr>gt_limiter := l, gt_db := db\<rparr>))))"

definition experimental_slot :: "(json \<Rightarrow> string) \<Rightarrow> redis option \<Rightarrow> gateway_view \<Rightarrow> refusal option" where
  "experimental_slot spr c g = (case experimental_limits spr g of
      None \<Rightarrow> None
    | Some p \<Rightarrow>
        (case acquire_concurrency c (gw_id g) (xp_concurrency p) of
           Reply ok \<Rightarrow> if ok then None else Some (429, ''experimental_concurrency_limited'')
         | _ \<Rightarrow> Some (503, ''experimental_concurrency_unavailable'')))"

section \<open>Circuits\<close>

type_synonym circuits = "string \<Rightarrow> time option"

definition circuit_period :: duration where "circuit_period = 30 * second"

definition open_circuit :: "string \<Rightarrow> time \<Rightarrow> circuits \<Rightarrow> circuits" where
  "open_circuit channel now cs = cs(channel := Some (now + circuit_period))"

definition circuit_open :: "redis option \<Rightarrow> string \<Rightarrow> time \<Rightarrow> circuits \<Rightarrow> bool \<times> circuits" where
  "circuit_open c channel now cs = (case cached_circuit c channel of
      Reply b \<Rightarrow> (b, cs)
    | _ \<Rightarrow>
        (case cs channel of
           None \<Rightarrow> (False, cs)
         | Some until \<Rightarrow> if now > until then (False, cs(channel := None)) else (True, cs)))"

section \<open>Candidates\<close>

definition candidate_method :: "(json \<Rightarrow> string) \<Rightarrow> gateway_upstream \<Rightarrow> string" where
  "candidate_method spr u =
     (let m = to_lower (upstream_auth_method spr u) in if m = [] then ''api_key'' else m)"

definition candidate_allowed :: "(json \<Rightarrow> string) \<Rightarrow> policy_config \<Rightarrow> string \<Rightarrow> time \<Rightarrow> gateway_upstream \<Rightarrow> bool" where
  "candidate_allowed spr cfg model now u =
     (server_policy cfg (gu_provider u) (candidate_method spr u) False now = None
      \<and> (trim_space model = [] \<or> trim_space (gu_model u) = trim_space model))"

fun closed_candidates :: "redis option \<Rightarrow> time \<Rightarrow> gateway_upstream list \<Rightarrow> circuits \<Rightarrow> gateway_upstream list \<times> circuits" where
  "closed_candidates c now [] cs = ([], cs)"
| "closed_candidates c now (u # us) cs =
     (case circuit_open c (gu_channel u) now cs of
        (opened, cs1) \<Rightarrow>
          (case closed_candidates c now us cs1 of
             (out, cs2) \<Rightarrow> (if opened then out else u # out, cs2)))"

text \<open>An empty \<open>model\<close> stands for no model filter. The route plan is also written to Redis, where
  nothing reads it.\<close>

definition available_candidates ::
  "(json \<Rightarrow> string) \<Rightarrow> policy_config \<Rightarrow> redis option \<Rightarrow> gateway_view \<Rightarrow> string \<Rightarrow> time \<Rightarrow> circuits
    \<Rightarrow> gateway_upstream list \<times> circuits"
where
  "available_candidates spr cfg c g model now cs =
     closed_candidates c now (filter (candidate_allowed spr cfg model now) (plan_gateway_route g)) cs"

definition gateway_supports_model :: "gateway_view \<Rightarrow> string \<Rightarrow> bool" where
  "gateway_supports_model g model0 =
     (let model = trim_space model0 in
      model \<noteq> [] \<and> list_ex (\<lambda>u. gu_enabled u \<and> trim_space (gu_model u) = model) (gv_upstreams g))"

definition first_gateway_model :: "gateway_view \<Rightarrow> string" where
  "first_gateway_model g = (case filter (\<lambda>u. gu_model u \<noteq> []) (gv_upstreams g) of
      [] \<Rightarrow> ''gpt-4o-mini'' | u # _ \<Rightarrow> gu_model u)"

definition candidates_use_connector :: "(json \<Rightarrow> string) \<Rightarrow> gateway_upstream list \<Rightarrow> bool" where
  "candidates_use_connector spr us = list_ex (\<lambda>u. is_client_upstream spr u \<or> is_browser_upstream spr u) us"

end
