(* ===== verification/Gateway_Serve.thy ===== *)
theory Gateway_Serve
  imports Gateway_Entry
begin

text \<open>
  How an admitted request is served (\<open>api/gateway_handlers.go\<close>): the payload, the upstreams tried in the
  order of the route until one answers, renewed credentials, circuits of failing upstreams, and the
  event recorded for the bill. The credentials of an upstream are a pair of operations over a state
  \<open>'c\<close> (\<open>Gateway_Auth\<close> provides them); the network is a function of the number of requests sent before
  and the request; a request sees one time. An upstream that acts through a local connector is handed
  over as \<open>Delegated\<close>.
\<close>

section \<open>Cost\<close>

record price =
  pr_channel :: "string option"
  pr_model :: string
  pr_effective :: time
  pr_input :: rat
  pr_output :: rat

definition calculate_model_cost :: "int \<Rightarrow> int \<Rightarrow> rat \<Rightarrow> rat \<Rightarrow> rat" where
  "calculate_model_cost prompt completion i out =
     of_int (max prompt 0) / 1000000 * i + of_int (max completion 0) / 1000000 * out"

definition price_before :: "string \<Rightarrow> price \<Rightarrow> price \<Rightarrow> bool" where
  "price_before channel a b =
     (let x = pr_channel a = Some channel; y = pr_channel b = Some channel
      in x \<and> \<not> y \<or> (x = y \<and> pr_effective a > pr_effective b))"

definition gateway_cost_estimate :: "price list \<Rightarrow> string \<Rightarrow> string \<Rightarrow> int \<Rightarrow> int \<Rightarrow> rat option" where
  "gateway_cost_estimate prices channel0 model0 prompt completion =
     (let channel = trim_space channel0; model = trim_space model0;
          fits = (\<lambda>p. channel \<noteq> [] \<and> pr_channel p = Some channel \<or> pr_channel p = None \<and> pr_model p = model)
      in if prompt \<le> 0 \<and> completion \<le> 0 then Some 0
         else case sort_stable (price_before channel) (filter fits prices) of
             [] \<Rightarrow> None
           | p # _ \<Rightarrow> Some (calculate_model_cost prompt completion (pr_input p) (pr_output p)))"

definition estimate_gateway_cost :: "int \<Rightarrow> rat" where
  "estimate_gateway_cost tokens = (if tokens \<le> 0 then 0 else of_int tokens * (2 / 1000000))"

definition gateway_cost :: "price list \<Rightarrow> string \<Rightarrow> string \<Rightarrow> usage \<Rightarrow> rat" where
  "gateway_cost prices channel model us =
     (case gateway_cost_estimate prices channel model (us_prompt us) (us_completion us) of
        Some c \<Rightarrow> c | None \<Rightarrow> estimate_gateway_cost (us_total us))"

section \<open>Payloads\<close>

record payload =
  pl_model :: string
  pl_messages :: "(string \<times> json) list"
  pl_input :: json
  pl_stream :: bool
  pl_previous :: string

text \<open>\<open>json.Unmarshal\<close> into a struct: the last field under a name equal up to letter case; \<open>null\<close> leaves the
  zero value, another type is an error.\<close>

definition struct_field :: "string \<Rightarrow> obj \<Rightarrow> json" where
  "struct_field name m = obj_at name (rev (map (\<lambda>(k, v). (to_lower k, v)) m))"

definition text_field :: "string \<Rightarrow> obj \<Rightarrow> string option" where
  "text_field name m = (case struct_field name m of JNull \<Rightarrow> Some [] | JStr s \<Rightarrow> Some s | _ \<Rightarrow> None)"

definition flag_field :: "string \<Rightarrow> obj \<Rightarrow> bool option" where
  "flag_field name m = (case struct_field name m of JNull \<Rightarrow> Some False | JBool b \<Rightarrow> Some b | _ \<Rightarrow> None)"

fun message_fields_of :: "json list \<Rightarrow> (string \<times> json) list option" where
  "message_fields_of [] = Some []"
| "message_fields_of (v # vs) =
     (case object_of (Some v) of
        None \<Rightarrow> None
      | Some m \<Rightarrow>
          (case (text_field ''role'' m, message_fields_of vs) of
             (Some r, Some out) \<Rightarrow> Some ((r, struct_field ''content'' m) # out) | _ \<Rightarrow> None))"

definition messages_field :: "obj \<Rightarrow> (string \<times> json) list option" where
  "messages_field m = (case struct_field ''messages'' m of
      JNull \<Rightarrow> Some [] | JArr vs \<Rightarrow> message_fields_of vs | _ \<Rightarrow> None)"

definition payload_of_json :: "json \<Rightarrow> payload option" where
  "payload_of_json v = (case object_of (Some v) of
      None \<Rightarrow> None
    | Some m \<Rightarrow>
        (case (text_field ''model'' m, messages_field m, flag_field ''stream'' m, text_field ''previous_response_id'' m) of
           (Some model, Some ms, Some stream, Some previous) \<Rightarrow>
             Some \<lparr>pl_model = model, pl_messages = ms, pl_input = struct_field ''input'' m, pl_stream = stream,
                   pl_previous = previous\<rparr>
         | _ \<Rightarrow> None))"

definition body_limit :: nat where "body_limit = 4 * 1024 * 1024"

text \<open>A body is \<open>None\<close> when reading it fails.\<close>

definition read_gateway_payload ::
  "(string \<Rightarrow> json option) \<Rightarrow> string option \<Rightarrow> (string \<times> payload) option"
where
  "read_gateway_payload dec body = (case body of
      None \<Rightarrow> None
    | Some b \<Rightarrow>
        (let raw = take body_limit b in
         case dec raw of None \<Rightarrow> None | Some v \<Rightarrow> map_option (\<lambda>p. (raw, p)) (payload_of_json v)))"

definition read_anthropic_payload ::
  "(string \<Rightarrow> json option) \<Rightarrow> (json \<Rightarrow> string) \<Rightarrow> (json \<Rightarrow> string) \<Rightarrow> (nat \<Rightarrow> string) \<Rightarrow> string option
    \<Rightarrow> (string \<times> payload) option"
where
  "read_anthropic_payload dec spr enc gen body = (case body of
      None \<Rightarrow> None
    | Some b \<Rightarrow>
        (case object_of (dec (take body_limit b)) of
           None \<Rightarrow> None
         | Some input \<Rightarrow>
             (let openai = anthropic_payload_to_openai spr enc gen input in
              map_option (\<lambda>p. (enc (JObj openai), p\<lparr>pl_stream := bool_from_any (obj_at ''stream'' input)\<rparr>))
                (payload_of_json (JObj openai)))))"

definition estimate_usage :: "(json \<Rightarrow> string) \<Rightarrow> payload \<Rightarrow> usage" where
  "estimate_usage spr p =
     (let text = pl_model p @ '' '' @ sprint spr (pl_input p)
            @ concat (map (\<lambda>(role, content). '' '' @ role @ '' '' @ sprint spr content) (pl_messages p));
          prompt = int (rune_count text div 4) + 8
      in \<lparr>us_prompt = prompt, us_completion = 18, us_total = prompt + 18, us_estimated = True\<rparr>)"

section \<open>The server\<close>

datatype credential = CKey string | CMaterial auth_material

record gateway_event =
  ge_gateway :: string
  ge_key :: string
  ge_upstream :: string
  ge_path :: string
  ge_model :: string
  ge_status :: int
  ge_request_tokens :: int
  ge_response_tokens :: int
  ge_cost :: rat
  ge_error :: string
  ge_stream :: bool
  ge_estimated :: bool

record 'c server =
  sv_gate :: gate
  sv_circuits :: circuits
  sv_events :: "gateway_event list"
  sv_sent :: nat
  sv_creds :: 'c

record 'c env =
  ev_hash :: "string \<Rightarrow> string"
  ev_lib :: library
  ev_enc :: "json \<Rightarrow> string"
  ev_gen :: "nat \<Rightarrow> string"
  ev_nanos :: string
  ev_redis :: "redis option"
  ev_cfg :: policy_config
  ev_real :: bool
  ev_net :: "nat \<Rightarrow> request \<Rightarrow> transport"
  ev_stream_net :: "nat \<Rightarrow> request \<Rightarrow> stream_transport"
  ev_cap :: nat
  ev_resolve :: "'c \<Rightarrow> string \<Rightarrow> gateway_upstream \<Rightarrow> credential option \<times> 'c"
  ev_renew :: "'c \<Rightarrow> string \<Rightarrow> gateway_upstream \<Rightarrow> credential option \<times> 'c"
  ev_prices :: "price list"
  ev_path :: string
  ev_now :: time

datatype answer =
    Refused int string
  | Answer int "string + obj"
  | Streamed client_output
  | Events "event list"
  | Delegated gateway_upstream
  | Crashed

type_synonym authn = "gateway_key \<times> gateway_view"

text \<open>The latency of an event is left out.\<close>

definition record_success ::
  "'c env \<Rightarrow> authn \<Rightarrow> gateway_upstream \<Rightarrow> string \<Rightarrow> usage \<Rightarrow> int \<Rightarrow> bool \<Rightarrow> 'c server \<Rightarrow> 'c server"
where
  "record_success e kg u model us status stream sv =
     sv\<lparr>sv_events := sv_events sv @ [\<lparr>ge_gateway = gw_id (snd kg), ge_key = gk_id (fst kg), ge_upstream = gu_channel u,
        ge_path = ev_path e, ge_model = model, ge_status = (if status \<le> 0 then 200 else status),
        ge_request_tokens = us_prompt us, ge_response_tokens = us_completion us,
        ge_cost = gateway_cost (ev_prices e) (gu_channel u) (gu_model u) us, ge_error = [], ge_stream = stream,
        ge_estimated = us_estimated us\<rparr>]\<rparr>"

definition record_failure ::
  "'c env \<Rightarrow> authn \<Rightarrow> string \<Rightarrow> string \<Rightarrow> int \<Rightarrow> string \<Rightarrow> bool \<Rightarrow> 'c server \<Rightarrow> 'c server"
where
  "record_failure e kg channel model status error stream sv =
     sv\<lparr>sv_events := sv_events sv @ [\<lparr>ge_gateway = gw_id (snd kg), ge_key = gk_id (fst kg), ge_upstream = channel,
        ge_path = ev_path e, ge_model = model, ge_status = status, ge_request_tokens = 0, ge_response_tokens = 0,
        ge_cost = 0, ge_error = error, ge_stream = stream, ge_estimated = False\<rparr>]\<rparr>"

definition trip :: "'c env \<Rightarrow> gateway_upstream \<Rightarrow> 'c server \<Rightarrow> 'c server" where
  "trip e u sv = sv\<lparr>sv_circuits := open_circuit (gu_channel u) (ev_now e) (sv_circuits sv)\<rparr>"

section \<open>One upstream\<close>

definition client_upstream :: "gateway_upstream \<Rightarrow> upstream" where
  "client_upstream u = \<lparr>up_name = gu_name u, up_provider = gu_provider u, up_type = gu_type u,
     up_endpoint = gu_endpoint u, up_model = gu_model u, up_config = gu_config u\<rparr>"

definition ask_json ::
  "'c env \<Rightarrow> nat \<Rightarrow> credential \<Rightarrow> gateway_upstream \<Rightarrow> string \<Rightarrow> string \<Rightarrow> usage \<Rightarrow> exchange \<times> err option"
where
  "ask_json e n cred u kind raw est = (case cred of
      CKey key \<Rightarrow> upstream_json (ev_lib e) (ev_net e n) (client_upstream u) key kind raw est
    | CMaterial m \<Rightarrow> upstream_json_with_auth (ev_lib e) (ev_net e n) (client_upstream u) m kind raw est)"

definition ask_stream ::
  "'c env \<Rightarrow> nat \<Rightarrow> credential \<Rightarrow> gateway_upstream \<Rightarrow> string \<Rightarrow> string \<Rightarrow> usage \<Rightarrow> stream_end \<times> client_output"
where
  "ask_stream e n cred u kind raw est =
     (case (case cred of
         CKey key \<Rightarrow> upstream_stream (ev_lib e) (ev_stream_net e n) (client_upstream u) key kind raw est (ev_cap e) []
       | CMaterial m \<Rightarrow> upstream_stream_with_auth (ev_lib e) (ev_stream_net e n) (client_upstream u) m kind raw est (ev_cap e) [])
      of (ended, out, _) \<Rightarrow> (ended, out))"

definition managed_rejected :: "credential \<Rightarrow> int \<Rightarrow> bool" where
  "managed_rejected cred status = (case cred of CKey _ \<Rightarrow> False | CMaterial _ \<Rightarrow> status = 401 \<or> status = 403)"

text \<open>Ask, and ask once more with renewed credentials when managed ones were rejected and \<open>again\<close> holds.\<close>

definition ask_renewing ::
  "'c env \<Rightarrow> string \<Rightarrow> gateway_upstream \<Rightarrow> (nat \<Rightarrow> credential \<Rightarrow> 'r) \<Rightarrow> ('r \<Rightarrow> bool) \<Rightarrow> credential \<Rightarrow> 'c server \<Rightarrow> 'r \<times> 'c server"
where
  "ask_renewing e org u ask again cred sv =
     (let r = ask (sv_sent sv) cred; sv1 = sv\<lparr>sv_sent := sv_sent sv + 1\<rparr> in
      if again r then
        (case ev_renew e (sv_creds sv1) org u of
           (Some (CMaterial m), c) \<Rightarrow>
             (ask (sv_sent sv1) (CMaterial m), sv1\<lparr>sv_sent := sv_sent sv1 + 1, sv_creds := c\<rparr>)
         | (_, c) \<Rightarrow> (r, sv1\<lparr>sv_creds := c\<rparr>))
      else (r, sv1))"

datatype verdict = Final answer | Next string

definition json_step ::
  "'c env \<Rightarrow> authn \<Rightarrow> string \<Rightarrow> string \<Rightarrow> usage \<Rightarrow> (exchange \<Rightarrow> answer) \<Rightarrow> string \<Rightarrow> bool \<Rightarrow> gateway_upstream \<Rightarrow> 'c server
    \<Rightarrow> verdict \<times> 'c server"
where
  "json_step e kg kind raw est reply model stream u sv =
     (case ev_resolve e (sv_creds sv) (gk_org (fst kg)) u of
        (None, c) \<Rightarrow> (Next ''upstream_credential_unavailable'', sv\<lparr>sv_creds := c\<rparr>)
      | (Some cred, c) \<Rightarrow>
          (case ask_renewing e (gk_org (fst kg)) u (\<lambda>n cr. ask_json e n cr u kind raw est)
                 (\<lambda>r. snd r \<noteq> None \<and> managed_rejected cred (ex_status (fst r))) cred (sv\<lparr>sv_creds := c\<rparr>) of
             ((ex, Some _), sv1) \<Rightarrow> (Next (ex_error ex), trip e u sv1)
           | ((ex, None), sv1) \<Rightarrow>
               (Final (reply ex), record_success e kg u model (ex_usage ex) (ex_status ex) stream sv1)))"

definition stream_step ::
  "'c env \<Rightarrow> authn \<Rightarrow> string \<Rightarrow> string \<Rightarrow> usage \<Rightarrow> string \<Rightarrow> string \<Rightarrow> gateway_upstream \<Rightarrow> 'c server \<Rightarrow> verdict \<times> 'c server"
where
  "stream_step e kg kind raw est model last_error u sv =
     (case ev_resolve e (sv_creds sv) (gk_org (fst kg)) u of
        (None, c) \<Rightarrow> (Next ''upstream_credential_unavailable'', sv\<lparr>sv_creds := c\<rparr>)
      | (Some cred, c) \<Rightarrow>
          (case ask_renewing e (gk_org (fst kg)) u (\<lambda>n cr. ask_stream e n cr u kind raw est)
                 (\<lambda>((r, end), _). end \<noteq> SNone \<and> managed_rejected cred (ur_status r) \<and> \<not> ur_wrote r) cred (sv\<lparr>sv_creds := c\<rparr>) of
             (((r, end), out), sv1) \<Rightarrow>
               if end = SNone
               then (Final (Streamed out), record_success e kg u model (ur_usage r) (ur_status r) True sv1)
               else if ur_wrote r
               then (Final (Streamed out), record_failure e kg (gu_channel u) model 502
                       (if ur_error r = [] then last_error else ur_error r) True sv1)
               else (Next (ur_error r), trip e u sv1)))"

section \<open>All upstreams\<close>

fun try_upstreams ::
  "(string \<Rightarrow> gateway_upstream \<Rightarrow> 'c server \<Rightarrow> verdict \<times> 'c server) \<Rightarrow> (string \<Rightarrow> 'c server \<Rightarrow> answer \<times> 'c server)
    \<Rightarrow> string \<Rightarrow> gateway_upstream list \<Rightarrow> 'c server \<Rightarrow> answer \<times> 'c server"
where
  "try_upstreams step give_up last_error [] sv = give_up last_error sv"
| "try_upstreams step give_up last_error (u # us) sv =
     (case step last_error u sv of
        (Final a, sv1) \<Rightarrow> (a, sv1)
      | (Next x, sv1) \<Rightarrow> try_upstreams step give_up (if x = [] then last_error else x) us sv1)"

definition all_failed ::
  "'c env \<Rightarrow> authn \<Rightarrow> string \<Rightarrow> bool \<Rightarrow> string \<Rightarrow> string \<Rightarrow> 'c server \<Rightarrow> answer \<times> 'c server"
where
  "all_failed e kg model stream code last_error sv =
     (Refused 502 code, record_failure e kg [] model 502 last_error stream sv)"

definition json_answer :: "exchange \<Rightarrow> answer" where
  "json_answer ex = Answer (ex_status ex) (case ex_body ex of None \<Rightarrow> Inl [] | Some b \<Rightarrow> b)"

definition real_generation ::
  "'c env \<Rightarrow> authn \<Rightarrow> gateway_upstream list \<Rightarrow> string \<Rightarrow> string \<Rightarrow> payload \<Rightarrow> 'c server \<Rightarrow> answer \<times> 'c server"
where
  "real_generation e kg candidates kind raw p sv =
     (case raw_payload_with_model (lb_dec (ev_lib e)) (lb_spr (ev_lib e)) raw (pl_model p) of
        Inl (ErrPanic _) \<Rightarrow> (Crashed, sv)
      | Inl _ \<Rightarrow> (Refused 400 ''invalid_json'', record_failure e kg [] (pl_model p) 400 ''invalid_json'' (pl_stream p) sv)
      | Inr m \<Rightarrow>
          (let body = ev_enc e (JObj m); est = estimate_usage (lb_spr (ev_lib e)) p; spr = lb_spr (ev_lib e) in
           try_upstreams
             (\<lambda>last_error u sv.
                if is_client_upstream spr u \<or> is_browser_upstream spr u then (Final (Delegated u), sv)
                else if pl_stream p then stream_step e kg kind body est (pl_model p) last_error u sv
                else json_step e kg kind body est json_answer (pl_model p) False u sv)
             (all_failed e kg (pl_model p) (pl_stream p) ''upstream_failed'') ''upstream_failed'' candidates sv))"

definition anthropic_answer :: "'c env \<Rightarrow> payload \<Rightarrow> int \<Rightarrow> json option \<Rightarrow> answer" where
  "anthropic_answer e p status body =
     (let m = anthropic_message_from_openai (lb_spr (ev_lib e)) (lb_dec (ev_lib e)) (ev_gen e) (ev_nanos e) body (pl_model p)
      in if pl_stream p then Events (anthropic_message_stream (lb_spr (ev_lib e)) (ev_enc e) m) else Answer status (Inr m))"

definition exchange_body :: "'c env \<Rightarrow> exchange \<Rightarrow> json option" where
  "exchange_body e ex = (case ex_body ex of
      None \<Rightarrow> lb_dec (ev_lib e) [] | Some (Inl b) \<Rightarrow> lb_dec (ev_lib e) b | Some (Inr m) \<Rightarrow> Some (JObj m))"

definition real_anthropic ::
  "'c env \<Rightarrow> authn \<Rightarrow> gateway_upstream list \<Rightarrow> string \<Rightarrow> payload \<Rightarrow> 'c server \<Rightarrow> answer \<times> 'c server"
where
  "real_anthropic e kg candidates raw p sv =
     (case raw_payload_with_model (lb_dec (ev_lib e)) (lb_spr (ev_lib e)) raw (pl_model p) of
        Inl (ErrPanic _) \<Rightarrow> (Crashed, sv)
      | Inl _ \<Rightarrow> (Refused 400 ''invalid_request_error'', record_failure e kg [] (pl_model p) 400 ''invalid_json'' (pl_stream p) sv)
      | Inr m \<Rightarrow>
          (let body = ev_enc e (JObj m); est = estimate_usage (lb_spr (ev_lib e)) p; spr = lb_spr (ev_lib e) in
           try_upstreams
             (\<lambda>last_error u sv.
                if is_client_upstream spr u
                then (Final (Refused 422 ''invalid_request_error''),
                      record_failure e kg (gu_channel u) (pl_model p) 422 ''unsupported_capability'' (pl_stream p) sv)
                else if is_browser_upstream spr u
                then (Final (Refused 422 ''invalid_request_error''),
                      record_failure e kg (gu_channel u) (pl_model p) 422 ''browser_protocol_unsupported'' (pl_stream p) sv)
                else json_step e kg ''chat'' body est (\<lambda>ex. anthropic_answer e p (ex_status ex) (exchange_body e ex))
                       (pl_model p) (pl_stream p) u sv)
             (all_failed e kg (pl_model p) (pl_stream p) ''api_error'') ''upstream_failed'' candidates sv))"

section \<open>Mock upstreams\<close>

definition adapter_name :: "string \<Rightarrow> string" where
  "adapter_name provider =
     (let p = to_lower provider in
      if p = ''anthropic'' then ''Anthropic Messages''
      else if p = ''google'' then ''Gemini generateContent'' else ''OpenAI compatible'')"

definition mock_fails :: "gateway_upstream \<Rightarrow> bool" where
  "mock_fails u = str_contains (gu_endpoint u) ''fail''"

definition mock_gateway_json :: "library \<Rightarrow> string \<Rightarrow> payload \<Rightarrow> gateway_upstream \<Rightarrow> (obj \<times> usage) option" where
  "mock_gateway_json l kind p u =
     (if mock_fails u then None
      else
        (let us = estimate_usage (lb_spr l) p;
             text = ''TokHub gateway response via '' @ adapter_name (gu_provider u) @ '' adapter on '' @ gu_name u @ ''.'';
             body = (if kind = ''responses''
               then obj_set ''usage'' (usage_json us) (response_object (lb_stamp l) (lb_secs l) (pl_model p) text us)
               else chat_object (lb_stamp l) (lb_secs l) (pl_model p) text us)
         in Some (body @ [(''tokhub'', JObj [(''upstream'', JStr (gu_name u)), (''provider'', JStr (gu_provider u))])], us)))"

definition mock_chunk :: "library \<Rightarrow> string \<Rightarrow> payload \<Rightarrow> gateway_upstream \<Rightarrow> nat \<Rightarrow> string \<Rightarrow> frame" where
  "mock_chunk l kind p u i chunk =
     FData (if kind = ''responses''
       then [(''type'', JStr ''response.output_text.delta''), (''delta'', JStr chunk)]
       else [(''id'', JStr ''chatcmpl_stream''), (''object'', JStr ''chat.completion.chunk''), (''created'', JNum (of_int (lb_secs l))),
             (''model'', JStr (default_string (pl_model p) (gu_model u))),
             (''choices'', JArr [JObj [(''index'', JNum (of_nat i)), (''delta'', JObj [(''content'', JStr chunk)])]])])"

definition mock_stream :: "library \<Rightarrow> string \<Rightarrow> payload \<Rightarrow> gateway_upstream \<Rightarrow> (frame list \<times> usage) option" where
  "mock_stream l kind p u =
     (if mock_fails u then None
      else Some (map (\<lambda>(i, c). mock_chunk l kind p u i c)
                   (zip [0..<4] [''TokHub '', ''gateway '', ''stream '', ''ok'']) @ [FDone],
                 estimate_usage (lb_spr l) p))"

definition mock_step ::
  "'c env \<Rightarrow> authn \<Rightarrow> payload \<Rightarrow> (gateway_upstream \<Rightarrow> (answer \<times> usage) option) \<Rightarrow> string \<Rightarrow> gateway_upstream \<Rightarrow> 'c server
    \<Rightarrow> verdict \<times> 'c server"
where
  "mock_step e kg p reply last_error u sv = (case reply u of
      None \<Rightarrow> (Next [], trip e u sv)
    | Some (a, us) \<Rightarrow> (Final a, record_success e kg u (pl_model p) us 200 (pl_stream p) sv))"

definition mock_generation ::
  "'c env \<Rightarrow> authn \<Rightarrow> gateway_upstream list \<Rightarrow> string \<Rightarrow> payload \<Rightarrow> 'c server \<Rightarrow> answer \<times> 'c server"
where
  "mock_generation e kg candidates kind p sv =
     try_upstreams
       (mock_step e kg p (\<lambda>u.
          if pl_stream p then map_option (\<lambda>(fs, us). (Streamed (Frames fs), us)) (mock_stream (ev_lib e) kind p u)
          else map_option (\<lambda>(b, us). (Answer 200 (Inr b), us)) (mock_gateway_json (ev_lib e) kind p u)))
       (all_failed e kg (pl_model p) (pl_stream p) ''upstream_failed'') ''upstream_failed'' candidates sv"

definition mock_anthropic ::
  "'c env \<Rightarrow> authn \<Rightarrow> gateway_upstream list \<Rightarrow> payload \<Rightarrow> 'c server \<Rightarrow> answer \<times> 'c server"
where
  "mock_anthropic e kg candidates p sv =
     try_upstreams
       (mock_step e kg p (\<lambda>u. map_option (\<lambda>(b, us). (anthropic_answer e p 200 (Some (JObj b)), us))
          (mock_gateway_json (ev_lib e) ''chat'' p u)))
       (all_failed e kg (pl_model p) (pl_stream p) ''api_error'') ''upstream_failed'' candidates sv"

section \<open>The endpoints\<close>

text \<open>Authentication, over the whole server.\<close>

definition enter ::
  "'c env \<Rightarrow> string \<Rightarrow> string \<Rightarrow> 'c server \<Rightarrow> (refusal + authn) \<times> 'c server"
where
  "enter e authorization xkey sv =
     (case authenticate_gateway_request (ev_hash e) (lb_spr (ev_lib e)) (ev_redis e) (lb_stamp (ev_lib e))
             authorization xkey (ev_now e) (sv_gate sv) of
        (r, g) \<Rightarrow> (r, sv\<lparr>sv_gate := g\<rparr>))"

definition with_default_model :: "gateway_view \<Rightarrow> payload \<Rightarrow> payload" where
  "with_default_model g p = (if trim_space (pl_model p) = [] then p\<lparr>pl_model := first_gateway_model g\<rparr> else p)"

text \<open>From the payload on: the candidates, or why there are none.\<close>

definition dispatch ::
  "'c env \<Rightarrow> authn \<Rightarrow> string \<Rightarrow> string \<Rightarrow> payload \<Rightarrow> (gateway_upstream list \<Rightarrow> 'c server \<Rightarrow> answer \<times> 'c server) \<Rightarrow> 'c server
    \<Rightarrow> answer \<times> 'c server"
where
  "dispatch e kg unsupported unavailable p serve sv =
     (case available_candidates (lb_spr (ev_lib e)) (ev_cfg e) (ev_redis e) (snd kg) (pl_model p) (ev_now e) (sv_circuits sv) of
        (candidates, cs) \<Rightarrow>
          (let sv1 = sv\<lparr>sv_circuits := cs\<rparr> in
           if candidates \<noteq> [] then serve candidates sv1
           else if gateway_supports_model (snd kg) (pl_model p)
           then (Refused 502 unavailable, record_failure e kg [] (pl_model p) 502 ''no_upstream'' (pl_stream p) sv1)
           else (Refused 400 unsupported, record_failure e kg [] (pl_model p) 400 ''model_not_available'' (pl_stream p) sv1)))"

definition handle_gateway_generation ::
  "'c env \<Rightarrow> string \<Rightarrow> string \<Rightarrow> string \<Rightarrow> string option \<Rightarrow> 'c server \<Rightarrow> answer \<times> 'c server"
where
  "handle_gateway_generation e kind authorization xkey body sv =
     (case enter e authorization xkey sv of
        (Inl (status, code), sv1) \<Rightarrow> (Refused status code, sv1)
      | (Inr kg, sv1) \<Rightarrow>
          (case experimental_slot (lb_spr (ev_lib e)) (ev_redis e) (snd kg) of
             Some (status, code) \<Rightarrow> (Refused status code, sv1)
           | None \<Rightarrow>
               (case read_gateway_payload (lb_dec (ev_lib e)) body of
                  None \<Rightarrow> (Refused 400 ''invalid_json'', sv1)
                | Some (raw, p0) \<Rightarrow>
                    (let p = with_default_model (snd kg) p0 in
                     dispatch e kg ''model_not_available'' ''no_upstream'' p
                       (\<lambda>candidates sv.
                          if ev_real e \<or> candidates_use_connector (lb_spr (ev_lib e)) candidates
                          then real_generation e kg candidates kind raw p sv
                          else mock_generation e kg candidates kind p sv) sv1))))"

definition handle_gateway_anthropic ::
  "'c env \<Rightarrow> string \<Rightarrow> string \<Rightarrow> string option \<Rightarrow> 'c server \<Rightarrow> answer \<times> 'c server"
where
  "handle_gateway_anthropic e authorization xkey body sv =
     (case enter e authorization xkey sv of
        (Inl (status, code), sv1) \<Rightarrow> (Refused status code, sv1)
      | (Inr kg, sv1) \<Rightarrow>
          (case experimental_slot (lb_spr (ev_lib e)) (ev_redis e) (snd kg) of
             Some (status, _) \<Rightarrow> (Refused status ''rate_limit_error'', sv1)
           | None \<Rightarrow>
               (case read_anthropic_payload (lb_dec (ev_lib e)) (lb_spr (ev_lib e)) (ev_enc e) (ev_gen e) body of
                  None \<Rightarrow> (Refused 400 ''invalid_request_error'', sv1)
                | Some (raw, p0) \<Rightarrow>
                    (let p = with_default_model (snd kg) p0 in
                     dispatch e kg ''invalid_request_error'' ''api_error'' p
                       (\<lambda>candidates sv.
                          case List.find (is_client_upstream (lb_spr (ev_lib e))) candidates of
                            Some u \<Rightarrow>
                              (Refused 422 ''invalid_request_error'',
                               record_failure e kg (gu_channel u) (pl_model p) 422 ''unsupported_capability'' (pl_stream p) sv)
                          | None \<Rightarrow>
                              if ev_real e then real_anthropic e kg candidates raw p sv
                              else mock_anthropic e kg candidates p sv) sv1))))"

fun distinct_models :: "string list \<Rightarrow> gateway_upstream list \<Rightarrow> gateway_upstream list" where
  "distinct_models seen [] = []"
| "distinct_models seen (u # us) =
     (if gu_model u \<in> set seen then distinct_models seen us else u # distinct_models (gu_model u # seen) us)"

definition models_path :: string where "models_path = ''/gateway/v1/models''"

text \<open>A listing is recorded with its own path, without an upstream.\<close>

definition record_listing :: "'c env \<Rightarrow> authn \<Rightarrow> 'c server \<Rightarrow> 'c server" where
  "record_listing e kg sv = record_failure (e\<lparr>ev_path := models_path\<rparr>) kg [] [] 200 [] False sv"

definition gateway_models :: "'c env \<Rightarrow> string \<Rightarrow> string \<Rightarrow> 'c server \<Rightarrow> answer \<times> 'c server" where
  "gateway_models e authorization xkey sv =
     (case enter e authorization xkey sv of
        (Inl (status, code), sv1) \<Rightarrow> (Refused status code, sv1)
      | (Inr kg, sv1) \<Rightarrow>
          (case available_candidates (lb_spr (ev_lib e)) (ev_cfg e) (ev_redis e) (snd kg) [] (ev_now e) (sv_circuits sv1) of
             (candidates, cs) \<Rightarrow>
               (let sv2 = sv1\<lparr>sv_circuits := cs\<rparr> in
                if candidates = [] then (Refused 502 ''no_upstream'', record_failure e kg [] [] 502 ''no_upstream'' False sv2)
                else (Answer 200 (Inr [(''object'', JStr ''list''), (''data'', JArr (map
                        (\<lambda>u. JObj [(''id'', JStr (gu_model u)), (''object'', JStr ''model''), (''owned_by'', JStr (gu_provider u))])
                        (distinct_models [] candidates)))]),
                      record_listing e kg sv2))))"

end
