(* ===== verification/Gateway_Safety.thy ===== *)
theory Gateway_Safety
  imports Gateway_Store
begin

text \<open>
  What the gateway store promises over any interleaving of its operations: revoked and deleted
  keys never authenticate again, an authenticated key belongs to a live gateway of the same
  workspace, every granted request is counted against the key's quota, and an operation of one
  workspace leaves the rows of the others alone. Route planning is a stable sort of the usable
  upstreams.
\<close>

interpretation gateway_rows: row_lifecycle gateway_db_wf "gateway_step h" gdb_gateways gw_id gateway_can
  for h
proof unfold_locales
  show "gateway_can a c" if "gateway_can a b" "gateway_can b c" for a b c
    using that by (rule gateway_can_trans)
next
  fix s :: gateway_db and x t assume "gateway_db_wf s"
  note st = gateway_step_tables [OF this, of h x t]
  then show "gateway_db_wf (gateway_step h x s t)" by (simp add: gateway_tables_step_def)
  show "\<exists>r'. row_at gw_id k (gdb_gateways (gateway_step h x s t)) = Some r' \<and> gateway_can r r'"
    if "row_at gw_id k (gdb_gateways s) = Some r" for k r
    using st that by (simp add: gateway_tables_step_def keeps_rows_def)
qed (rule gateway_can_refl)

interpretation key_rows: row_lifecycle gateway_db_wf "gateway_step h" gdb_keys gk_id key_can for h
proof unfold_locales
  show "key_can a c" if "key_can a b" "key_can b c" for a b c
    using that by (rule key_can_trans)
next
  fix s :: gateway_db and x t assume "gateway_db_wf s"
  note st = gateway_step_tables [OF this, of h x t]
  then show "gateway_db_wf (gateway_step h x s t)" by (simp add: gateway_tables_step_def)
  show "\<exists>r'. row_at gk_id k (gdb_keys (gateway_step h x s t)) = Some r' \<and> key_can r r'"
    if "row_at gk_id k (gdb_keys s) = Some r" for k r
    using st that by (simp add: gateway_tables_step_def keeps_rows_def)
qed (rule key_can_refl)

section \<open>Authentication\<close>

definition key_usable :: "gateway_db \<Rightarrow> time \<Rightarrow> gateway_key \<Rightarrow> bool" where
  "key_usable db now k = (gk_status k = YActive \<and> gk_deleted_at k = None
     \<and> sql_exists (\<lambda>g. gw_id g = gk_gateway k \<and> gw_status g = GActive) (gdb_gateways db)
     \<and> org_live db (gk_org k)
     \<and> (case gk_expires k of None \<Rightarrow> True | Some e \<Rightarrow> e > now))"

lemma authenticate_Inr:
  assumes "authenticate_gateway_key h plain now db = Inr (k, g)"
  shows "k \<in> set (gdb_keys db)" "gk_hash k = hash_gateway_key h plain" "key_usable db now k"
    "gateway_by_id (gk_gateway k) (gk_org k) db = Inr g"
  using assms by (auto simp: authenticate_gateway_key_def key_usable_def dest!: query_row_Inr
      split: sum.splits)

lemma authenticate_row:
  assumes "gateway_db_wf db" and "authenticate_gateway_key h plain now db = Inr (k, g)"
  shows "row_at gk_id (gk_id k) (gdb_keys db) = Some k"
  using authenticate_Inr(1) [OF assms(2)] assms(1) by (simp add: gateway_db_wf_def row_at_unique)

lemma wf_run: "gateway_db_wf db \<Longrightarrow> gateway_db_wf (store_run (gateway_step h) db es)"
  by (rule key_rows.inv_run)

definition sample_db :: gateway_db where
  "sample_db = \<lparr>
     gdb_gateways = [\<lparr>gw_id = ''g1'', gw_org = ''o1'', gw_name = ''n'', gw_slug = ''s'',
       gw_base_url = ''u'', gw_policy = ''latency'', gw_status = GActive, gw_qps_limit = 60,
       gw_quota_month = 100, gw_created_by = ''a'', gw_created = 1, gw_updated = 1\<rparr>],
     gdb_links = [],
     gdb_keys = [\<lparr>gk_id = ''k1'', gk_org = ''o1'', gk_gateway = ''g1'', gk_name = ''n'',
       gk_hash = ''sk-1'', gk_prefix = ''sk-1'', gk_mask = ''sk-1****'', gk_quota_month = 2,
       gk_qps_limit = 60, gk_requests_used = 0, gk_status = YActive, gk_created = 1,
       gk_last_used = None, gk_expires = None, gk_revoked_at = None, gk_deleted_at = None,
       gk_created_by = ''a''\<rparr>],
     gdb_channels = [],
     gdb_orgs = [\<lparr>og_id = ''o1'', og_active = True, og_deleted = False\<rparr>],
     gdb_audits = []\<rparr>"


text \<open>A deleted gateway serves nobody: after it is deleted no key of it authenticates, whatever
  operations follow.\<close>

theorem deleted_gateway_rejected:
  assumes "gateway_db_wf db" and "row_at gw_id gid (gdb_gateways db) = Some r"
    and "gw_status r = GDeleted"
  shows "authenticate_gateway_key h plain now (store_run (gateway_step h) db es) = Inr (k, g)
    \<longrightarrow> gk_gateway k \<noteq> gid"
proof (intro impI notI)
  let ?db = "store_run (gateway_step h) db es"
  assume auth: "authenticate_gateway_key h plain now ?db = Inr (k, g)" and "gk_gateway k = gid"
  with authenticate_Inr(3) [OF auth] obtain g' where
    g': "g' \<in> set (gdb_gateways ?db)" "gw_id g' = gid" "gw_status g' = GActive"
    by (auto simp: key_usable_def sql_exists_iff)
  with wf_run [OF assms(1), of h es] have "row_at gw_id gid (gdb_gateways ?db) = Some g'"
    by (auto simp: gateway_db_wf_def row_at_unique)
  with gateway_rows.row_run [OF assms(1,2), of h es] have "gateway_can r g'" by simp
  with assms(3) g'(3) show False by (simp add: gateway_can_def)
qed

text \<open>C7: Authentication is exact: it returns the key row with the hash of the trimmed key, and
  succeeds precisely when a row with that hash is active, not deleted and unexpired, its gateway
  active and its workspace live; the returned gateway is the key's, in the key's workspace.\<close>

theorem authenticate_exact:
  assumes "gateway_db_wf db"
  shows "(is_ok (authenticate_gateway_key h plain now db)
        = (\<exists>k\<in>set (gdb_keys db). gk_hash k = h (trim_space plain) \<and> key_usable db now k))
    \<and> (\<forall>k g. authenticate_gateway_key h plain now db = Inr (k, g) \<longrightarrow>
        gk_hash k = h (trim_space plain) \<and> key_usable db now k
        \<and> gw_id g = gk_gateway k \<and> gw_org g = gk_org k \<and> gw_status g = GActive)"
proof (intro conjI allI impI)
  fix k g assume auth: "authenticate_gateway_key h plain now db = Inr (k, g)"
  note a = authenticate_Inr [OF auth]
  from a(2) show "gk_hash k = h (trim_space plain)" by (simp add: hash_gateway_key_def)
  from a(3) show u: "key_usable db now k" .
  from a(4) obtain r where r: "r \<in> set (gdb_gateways db)" "g = view_gateway db r"
      "gw_id r = gk_gateway k" "gw_org r = org_or_default (gk_org k)"
    by (rule gateway_by_id_Inr)
  from assms a(1) have "key_home (gdb_gateways db) k" by (simp add: gateway_db_wf_def)
  with r show "gw_id g = gk_gateway k" "gw_org g = gk_org k"
    by (simp_all add: key_home_def org_or_default_def)
  from u obtain s where "s \<in> set (gdb_gateways db)" "gw_id s = gw_id r" "gw_status s = GActive"
    by (auto simp: key_usable_def sql_exists_iff r(3))
  with r assms distinct_key_unique [of gw_id "gdb_gateways db" s r] show "gw_status g = GActive"
    by (simp add: gateway_db_wf_def)
next
  show "is_ok (authenticate_gateway_key h plain now db)
      = (\<exists>k\<in>set (gdb_keys db). gk_hash k = h (trim_space plain) \<and> key_usable db now k)"
  proof
    assume "is_ok (authenticate_gateway_key h plain now db)"
    then show "\<exists>k\<in>set (gdb_keys db). gk_hash k = h (trim_space plain) \<and> key_usable db now k"
      using authenticate_Inr [of h plain now db] by (auto simp: is_ok_iff hash_gateway_key_def)
  next
    assume "\<exists>k\<in>set (gdb_keys db). gk_hash k = h (trim_space plain) \<and> key_usable db now k"
    then obtain k where q: "query_row (\<lambda>k. gk_hash k = hash_gateway_key h plain \<and> key_usable db now k)
        (gdb_keys db) = Inr k"
      by (cases "query_row (\<lambda>k. gk_hash k = hash_gateway_key h plain \<and> key_usable db now k) (gdb_keys db)")
        (auto simp: query_row_Inl hash_gateway_key_def)
    from query_row_Inr [OF this] have k: "k \<in> set (gdb_keys db)" "key_usable db now k" by auto
    from assms k(1) obtain r where r: "row_at gw_id (gk_gateway k) (gdb_gateways db) = Some r"
        "gw_org r = gk_org k" "gk_org k \<noteq> []"
      by (auto simp: gateway_db_wf_def key_home_def)
    from k(2) obtain s where "s \<in> set (gdb_gateways db)" "gw_id s = gk_gateway k" "gw_status s = GActive"
      by (auto simp: key_usable_def sql_exists_iff)
    with r(1) assms have "r \<in> set (gdb_gateways db)" "gw_id r = gk_gateway k" "gw_status r = GActive"
      using row_at_unique [of gw_id "gdb_gateways db" s] by (auto simp: gateway_db_wf_def)
    with r have "is_ok (gateway_by_id (gk_gateway k) (gk_org k) db)"
      by (cases "gateway_by_id (gk_gateway k) (gk_org k) db")
        (auto simp: gateway_by_id_def query_row_Inl org_or_default_def split: sum.splits)
    with q show "is_ok (authenticate_gateway_key h plain now db)"
      by (auto simp: authenticate_gateway_key_def key_usable_def is_ok_iff)
  qed
qed

section \<open>Quota\<close>

text \<open>The use counter and the quota of one key are as before.\<close>

definition same_count :: "string \<Rightarrow> gateway_db \<Rightarrow> gateway_db \<Rightarrow> bool" where
  "same_count kid db db' = keeps_rows gk_id
     (\<lambda>k k'. gk_id k = kid \<longrightarrow> gk_requests_used k' = gk_requests_used k \<and> gk_quota_month k' = gk_quota_month k)
     (gdb_keys db) (gdb_keys db')"

lemma same_count_update:
  assumes "gdb_keys db' = sql_update p f (gdb_keys db)"
    and "\<And>k. gk_id (f k) = gk_id k"
    and "\<And>k. p k \<Longrightarrow> gk_id k = kid \<Longrightarrow>
      gk_requests_used (f k) = gk_requests_used k \<and> gk_quota_month (f k) = gk_quota_month k"
  shows "same_count kid db db'"
  unfolding same_count_def assms(1) using assms(2,3)
  by (intro keeps_rows_update_in) auto

lemma same_count_same: "gdb_keys db' = gdb_keys db \<Longrightarrow> same_count kid db db'"
  by (simp add: same_count_def keeps_rows_refl)

lemma same_count_revoke: "gdb_keys db' = revoke_keys_of sel t (gdb_keys db) \<Longrightarrow> same_count kid db db'"
  unfolding revoke_keys_of_def by (erule same_count_update) simp_all

lemma same_count_append: "gdb_keys db' = gdb_keys db @ new \<Longrightarrow> same_count kid db db'"
  by (simp add: same_count_def keeps_rows_append)

definition edits_key :: "string \<Rightarrow> gateway_op \<Rightarrow> bool" where
  "edits_key kid x = (case x of OKeyUpdate k' _ _ _ _ _ \<Rightarrow> k' = kid | _ \<Rightarrow> False)"

lemma same_count_leaves:
  "ends_in (same_count kid db) (r, db)"
  "ends_in (same_count kid db) (r, db\<lparr>gdb_gateways := gw, gdb_links := l, gdb_audits := a\<rparr>)"
  "ends_in (same_count kid db) (r, db\<lparr>gdb_keys := gdb_keys db @ [k], gdb_audits := a\<rparr>)"
  "ends_in (same_count kid db) (r, db\<lparr>gdb_gateways := gw, gdb_links := l,
     gdb_keys := (if c then revoke_keys_of sel t (gdb_keys db) else gdb_keys db), gdb_audits := a\<rparr>)"
  "ends_in (same_count kid db) (r, db\<lparr>gdb_gateways := gw,
     gdb_keys := (if c then revoke_keys_of sel t (gdb_keys db) else gdb_keys db), gdb_audits := a\<rparr>)"
  "ends_in (same_count kid db) (r, db\<lparr>gdb_gateways := gw,
     gdb_keys := revoke_keys_of sel t (gdb_keys db), gdb_audits := a\<rparr>)"
  by (cases c; simp add: ends_in_def same_count_same same_count_append
      same_count_revoke [where sel = sel and t = t])+

lemma same_count_keys:
  assumes "\<And>k. gk_id (f k) = gk_id k"
    and "\<And>k. p k \<Longrightarrow> gk_id k = kid \<Longrightarrow>
      gk_requests_used (f k) = gk_requests_used k \<and> gk_quota_month (f k) = gk_quota_month k"
  shows "ends_in (same_count kid db) (r, db\<lparr>gdb_keys := sql_update p f (gdb_keys db), gdb_audits := a\<rparr>)"
    and "ends_in (same_count kid db) (r, db\<lparr>gdb_keys := sql_update p f (gdb_keys db)\<rparr>)"
  unfolding ends_in_def by (rule same_count_update [OF _ assms]; simp)+

lemmas count_branches = branches same_count_leaves same_count_keys

lemma same_count_ops:
  "ends_in (same_count kid db) (create_gateway inp uuid slug lids t db)"
  "ends_in (same_count kid db) (update_gateway gid org upd lids t db)"
  "ends_in (same_count kid db) (delete_gateway gid org t db)"
  "ends_in (same_count kid db) (bulk_update_gateways ids org status t db)"
  "ends_in (same_count kid db) (create_gateway_key h kinp random uuid t db)"
  "ends_in (same_count kid db) (revoke_gateway_key j org t db)"
  "ends_in (same_count kid db) (delete_gateway_key j org t db)"
  "ends_in (same_count kid db) (bulk_update_keys ids org status db)"
  "ends_in (same_count kid db) (bulk_revoke_keys ids org t db)"
  "ends_in (same_count kid db) (bulk_delete_keys ids org t db)"
  unfolding create_gateway_def update_gateway_def delete_gateway_def bulk_update_gateways_def
    create_gateway_key_def revoke_gateway_key_def delete_gateway_key_def bulk_update_keys_def
    bulk_revoke_keys_def bulk_delete_keys_def Let_def
  by (intro count_branches; simp add: first_revoked_def)+

lemma same_count_edit:
  "j \<noteq> kid \<Longrightarrow> ends_in (same_count kid db) (update_gateway_key j org name quota qps status db)"
  "j \<noteq> kid \<Longrightarrow> ends_in (same_count kid db) (reserve_gateway_key j t db)"
  unfolding update_gateway_key_def reserve_gateway_key_def Let_def
  by (intro count_branches; simp)+

definition reserves :: "string \<Rightarrow> gateway_op \<Rightarrow> gateway_db \<Rightarrow> time \<Rightarrow> bool" where
  "reserves kid x db t = (x = OReserve kid \<and> fst (reserve_gateway_key kid t db) = Inr True)"

lemma count_step:
  assumes "gateway_db_wf db" and "\<not> edits_key kid x" and "row_at gk_id kid (gdb_keys db) = Some k"
  shows "\<exists>k'. row_at gk_id kid (gdb_keys (gateway_step h x db t)) = Some k'
    \<and> gk_quota_month k' = gk_quota_month k
    \<and> gk_requests_used k' = gk_requests_used k + (if reserves kid x db t then 1 else 0)
    \<and> (reserves kid x db t \<longrightarrow> gk_quota_month k \<le> 0 \<or> gk_requests_used k < gk_quota_month k)"
proof (cases "x = OReserve kid")
  case True
  let ?sel = "\<lambda>k. gk_id k = kid \<and> gk_status k = YActive \<and> gk_deleted_at k = None
    \<and> (gk_quota_month k \<le> 0 \<or> gk_requests_used k < gk_quota_month k)"
  have "sql_affected ?sel (gdb_keys db) = (if ?sel k then 1 else 0)"
    using sql_affected_key [of gk_id "gdb_keys db" ?sel kid] assms(1,3)
    by (simp add: gateway_db_wf_def)
  with True assms(3) show ?thesis
    by (simp add: reserves_def reserve_gateway_key_def Let_def row_at_sql_update)
next
  case False
  then have n: "\<not> reserves kid x db t" by (simp add: reserves_def)
  have "same_count kid db (gateway_step h x db t)"
    using False assms(2)
    by (cases x) (simp_all add: same_count_ops [unfolded ends_in_def] same_count_edit [unfolded ends_in_def]
        bulk_delete_gateways_def edits_key_def)
  with n assms(3) row_at_Some [OF assms(3)] show ?thesis
    by (auto simp: same_count_def keeps_rows_def)
qed

text \<open>C8: Every granted request is counted and the quota holds: over any run in which the key's own
  settings are not edited, its counter grows by exactly the number of granted reservations, and a
  key with a positive quota never gets past it.\<close>

theorem key_quota_enforced:
  assumes "gateway_db_wf db" and "row_at gk_id kid (gdb_keys db) = Some k"
    and "\<forall>e\<in>set es. \<not> edits_key kid (fst e)"
  shows "\<exists>k'. row_at gk_id kid (gdb_keys (store_run (gateway_step h) db es)) = Some k'
    \<and> gk_quota_month k' = gk_quota_month k
    \<and> gk_requests_used k' = gk_requests_used k + int (count_steps (gateway_step h) (reserves kid) db es)
    \<and> (0 < gk_quota_month k \<longrightarrow> gk_requests_used k' \<le> max (gk_requests_used k) (gk_quota_month k))"
  using assms
proof (induction es arbitrary: db k)
  case Nil
  then show ?case by simp
next
  case (Cons e es)
  let ?db = "gateway_step h (fst e) db (snd e)"
  from Cons.prems(3) have "\<not> edits_key kid (fst e)" by simp
  from count_step [OF Cons.prems(1) this Cons.prems(2), of h "snd e"] obtain k1 where
    k1: "row_at gk_id kid (gdb_keys ?db) = Some k1" "gk_quota_month k1 = gk_quota_month k"
      "gk_requests_used k1 = gk_requests_used k + (if reserves kid (fst e) db (snd e) then 1 else 0)"
      "reserves kid (fst e) db (snd e) \<longrightarrow> gk_quota_month k \<le> 0 \<or> gk_requests_used k < gk_quota_month k"
    by blast
  from Cons.IH [OF key_rows.inv_step [OF Cons.prems(1)] k1(1)] Cons.prems(3) k1(2-4)
  show ?case by fastforce
qed

section \<open>Workspaces\<close>

definition op_org :: "gateway_op \<Rightarrow> string option" where
  "op_org x = (case x of
      OCreate inp _ _ _ \<Rightarrow> Some (org_or_default (trim_space (gc_org inp)))
    | OUpdate _ org _ _ \<Rightarrow> Some (org_or_default org)
    | ODelete _ org \<Rightarrow> Some (org_or_default org)
    | OBulk _ org _ \<Rightarrow> Some (org_or_default org)
    | OBulkDelete _ org \<Rightarrow> Some (org_or_default org)
    | OKey inp _ _ \<Rightarrow> Some (org_or_default (trim_space (kc_org inp)))
    | OKeyUpdate _ org _ _ _ _ \<Rightarrow> Some (org_or_default org)
    | OKeyRevoke _ org \<Rightarrow> Some (org_or_default org)
    | OKeyDelete _ org \<Rightarrow> Some (org_or_default org)
    | OKeysUpdate _ org _ \<Rightarrow> Some (org_or_default org)
    | OKeysRevoke _ org \<Rightarrow> Some (org_or_default org)
    | OKeysDelete _ org \<Rightarrow> Some (org_or_default org)
    | OReserve _ \<Rightarrow> None)"

text \<open>The gateways, their links and the keys of workspace \<open>w\<close> are the same in both databases.\<close>

definition same_workspace :: "string \<Rightarrow> gateway_db \<Rightarrow> gateway_db \<Rightarrow> bool" where
  "same_workspace w db db' =
     (filter (\<lambda>g. gw_org g = w) (gdb_gateways db') = filter (\<lambda>g. gw_org g = w) (gdb_gateways db)
      \<and> filter (\<lambda>k. gk_org k = w) (gdb_keys db') = filter (\<lambda>k. gk_org k = w) (gdb_keys db)
      \<and> (\<forall>g\<in>set (gdb_gateways db). gw_org g = w \<longrightarrow>
           filter (\<lambda>l. gl_gateway l = gw_id g) (gdb_links db') = filter (\<lambda>l. gl_gateway l = gw_id g) (gdb_links db)))"

lemma filter_sql_update:
  "(\<And>r. r \<in> set rows \<Longrightarrow> p r \<Longrightarrow> \<not> q r \<and> \<not> q (f r)) \<Longrightarrow> filter q (sql_update p f rows) = filter q rows"
  by (induction rows) auto

lemma same_workspace_refl: "ends_in (same_workspace w db) (r, db)"
  by (simp add: ends_in_def same_workspace_def)

lemma same_workspace_keys:
  assumes "\<And>k. p k \<Longrightarrow> gk_org k \<noteq> w" and "\<And>k. gk_org (f k) = gk_org k"
  shows "ends_in (same_workspace w db) (r, db\<lparr>gdb_keys := sql_update p f (gdb_keys db), gdb_audits := a\<rparr>)"
  using assms by (simp add: ends_in_def same_workspace_def filter_sql_update)

lemma key_home_org:
  assumes "gateway_db_wf db" and "g \<in> set (gdb_gateways db)" and "k \<in> set (gdb_keys db)"
    and "gk_gateway k = gw_id g"
  shows "gk_org k = gw_org g"
  using assms by (auto simp: gateway_db_wf_def key_home_def row_at_unique)

lemma same_workspace_revoke:
  assumes "gateway_db_wf db"
    and "\<And>i. sel i \<Longrightarrow> \<exists>g\<in>set (gdb_gateways db). gw_id g = i \<and> gw_org g \<noteq> w"
  shows "filter (\<lambda>k. gk_org k = w) (revoke_keys_of sel t (gdb_keys db)) = filter (\<lambda>k. gk_org k = w) (gdb_keys db)"
  unfolding revoke_keys_of_def
proof (rule filter_sql_update)
  fix k assume "k \<in> set (gdb_keys db)" "sel (gk_gateway k) \<and> gk_status k = YActive"
  with assms(2) key_home_org [OF assms(1)] have "gk_org k \<noteq> w" by metis
  then show "gk_org k \<noteq> w \<and> gk_org (k\<lparr>gk_status := YRevoked, gk_revoked_at :=
      case gk_revoked_at k of None \<Rightarrow> Some t | Some r \<Rightarrow> Some r\<rparr>) \<noteq> w" by simp
qed

lemma same_workspace_gateways:
  assumes "gateway_db_wf db" and "\<And>g. p g \<Longrightarrow> gw_org g \<noteq> w" and "\<And>g. gw_org (f g) = gw_org g"
    and "\<And>i. sel i \<Longrightarrow> \<exists>g\<in>set (gdb_gateways db). gw_id g = i \<and> gw_org g \<noteq> w"
    and "\<And>g. g \<in> set (gdb_gateways db) \<Longrightarrow> gw_org g = w \<Longrightarrow>
      filter (\<lambda>x. gl_gateway x = gw_id g) l = filter (\<lambda>x. gl_gateway x = gw_id g) (gdb_links db)"
  shows "ends_in (same_workspace w db) (r, db\<lparr>gdb_gateways := sql_update p f (gdb_gateways db), gdb_links := l,
      gdb_keys := (if c then revoke_keys_of sel t (gdb_keys db) else gdb_keys db), gdb_audits := a\<rparr>)"
  using assms by (simp add: ends_in_def same_workspace_def filter_sql_update same_workspace_revoke)

lemma same_workspace_gateways':
  assumes "gateway_db_wf db" and "\<And>g. p g \<Longrightarrow> gw_org g \<noteq> w" and "\<And>g. gw_org (f g) = gw_org g"
    and "\<And>i. sel i \<Longrightarrow> \<exists>g\<in>set (gdb_gateways db). gw_id g = i \<and> gw_org g \<noteq> w"
  shows "ends_in (same_workspace w db) (r, db\<lparr>gdb_gateways := sql_update p f (gdb_gateways db),
      gdb_keys := (if c then revoke_keys_of sel t (gdb_keys db) else gdb_keys db), gdb_audits := a\<rparr>)"
    and "ends_in (same_workspace w db) (r, db\<lparr>gdb_gateways := sql_update p f (gdb_gateways db),
      gdb_keys := revoke_keys_of sel t (gdb_keys db), gdb_audits := a\<rparr>)"
  using assms by (simp_all add: ends_in_def same_workspace_def filter_sql_update same_workspace_revoke)

lemmas workspace_branches = branches same_workspace_refl same_workspace_keys

lemma workspace_keys_ops:
  assumes "w \<noteq> org_or_default org"
  shows "ends_in (same_workspace w db) (update_gateway_key kid org name quota qps status db)"
    "ends_in (same_workspace w db) (revoke_gateway_key kid org t db)"
    "ends_in (same_workspace w db) (delete_gateway_key kid org t db)"
    "ends_in (same_workspace w db) (bulk_update_keys ids org status db)"
    "ends_in (same_workspace w db) (bulk_revoke_keys ids org t db)"
    "ends_in (same_workspace w db) (bulk_delete_keys ids org t db)"
  using assms unfolding update_gateway_key_def revoke_gateway_key_def delete_gateway_key_def
    bulk_update_keys_def bulk_revoke_keys_def bulk_delete_keys_def Let_def
  by (intro workspace_branches; (simp; fail | auto))+

lemma filter_new_links:
  "filter (\<lambda>l. gl_gateway l = i) (new_links j us ids) = (if i = j then new_links j us ids else [])"
  by (auto simp: new_links_def filter_empty_conv filter_id_conv)

lemma filter_replaced:
  assumes "i \<noteq> gid"
  shows "filter (\<lambda>l. gl_gateway l = i)
      (if c then filter (\<lambda>l. gl_gateway l \<noteq> gid) ls @ new_links gid us ids else ls)
    = filter (\<lambda>l. gl_gateway l = i) ls"
proof -
  have "(gl_gateway l \<noteq> gid \<and> gl_gateway l = i) = (gl_gateway l = i)" for l :: gateway_link
    using assms by auto
  with assms show ?thesis by (simp add: filter_new_links)
qed

lemma affected_row: "sql_affected p rows \<noteq> 0 \<Longrightarrow> \<exists>r\<in>set rows. p r"
  by (simp add: sql_affected_0)

lemma workspace_delete:
  assumes "gateway_db_wf db" and "w \<noteq> org_or_default org"
  shows "ends_in (same_workspace w db) (delete_gateway gid org t db)"
  unfolding delete_gateway_def Let_def
  by (intro workspace_branches same_workspace_gateways' assms(1))
    (use assms(2) in \<open>auto simp: sql_affected_0\<close>)

lemma workspace_bulk:
  assumes "gateway_db_wf db" and "w \<noteq> org_or_default org"
  shows "ends_in (same_workspace w db) (bulk_update_gateways ids org status t db)"
  unfolding bulk_update_gateways_def Let_def
  by (intro workspace_branches same_workspace_gateways' assms(1))
    (use assms(2) in auto)

lemma workspace_update:
  assumes "gateway_db_wf db" and "w \<noteq> org_or_default org"
  shows "ends_in (same_workspace w db) (update_gateway gid org inp lids t db)"
proof -
  have other: "gw_id g \<noteq> gid" if "sql_affected (\<lambda>g. gw_id g = gid \<and> gw_org g = org_or_default org
      \<and> gw_status g \<noteq> GDeleted) (gdb_gateways db) \<noteq> 0" "g \<in> set (gdb_gateways db)" "gw_org g = w" for g
  proof
    assume "gw_id g = gid"
    with affected_row [OF that(1)] assms that(2,3) show False
      by (metis distinct_key_unique gateway_db_wf_def)
  qed
  have home: "\<exists>g\<in>set (gdb_gateways db). gw_id g = gid \<and> gw_org g \<noteq> w" if "sql_affected
      (\<lambda>g. gw_id g = gid \<and> gw_org g = org_or_default org \<and> gw_status g \<noteq> GDeleted) (gdb_gateways db) \<noteq> 0"
    using affected_row [OF that] assms(2) by metis
  show ?thesis unfolding update_gateway_def Let_def
    apply (intro workspace_branches same_workspace_gateways assms(1))
    subgoal using assms(2) by auto
    subgoal by simp
    subgoal using home by blast
    subgoal by (rule filter_replaced, rule other)
    done
qed

lemma org_or_default_idem [simp]: "org_or_default (org_or_default w) = org_or_default w"
  by (simp add: org_or_default_def default_org_id_def)

lemma workspace_create:
  assumes "w \<noteq> org_or_default (trim_space (gc_org inp))"
  shows "ends_in (same_workspace w db) (create_gateway inp uuid slug lids t db)"
proof -
  have leaf: "ends_in (same_workspace w db) (r, db\<lparr>gdb_gateways := gdb_gateways db @ [g],
      gdb_links := gdb_links db @ new_links i us ls, gdb_audits := a\<rparr>)"
    if "gw_org g \<noteq> w" "\<not> sql_exists (\<lambda>x. gw_id x = i) (gdb_gateways db)" for r g i us ls a
    using that by (auto simp: ends_in_def same_workspace_def sql_exists_iff filter_new_links)
  show ?thesis
    using assms unfolding create_gateway_def Let_def org_or_default_def
    by (intro workspace_branches leaf) simp_all
qed

lemma workspace_key:
  assumes "w \<noteq> org_or_default (trim_space (kc_org inp))"
  shows "ends_in (same_workspace w db) (create_gateway_key h inp random uuid t db)"
proof -
  have leaf: "ends_in (same_workspace w db) (r, db\<lparr>gdb_keys := gdb_keys db @ [k], gdb_audits := a\<rparr>)"
    if "gk_org k \<noteq> w" for r k a
    using that by (simp add: ends_in_def same_workspace_def)
  have "gw_org g \<noteq> w" if "gateway_by_id i (org_or_default (trim_space (kc_org inp))) db = Inr g" for i g
    using that assms by (auto elim!: gateway_by_id_Inr)
  then show ?thesis
    unfolding create_gateway_key_def Let_def org_or_default_def
    by (intro workspace_branches leaf) auto
qed

text \<open>C23: Workspaces are isolated: an operation made for one workspace, whatever ids it names,
  changes no gateway, no link and no key of another.\<close>

theorem workspace_isolation:
  assumes "gateway_db_wf db" and "op_org x = Some a" and "w \<noteq> a"
  shows "same_workspace w db (gateway_step h x db t)"
  using assms by (cases x)
    (simp_all add: op_org_def bulk_delete_gateways_def workspace_create [unfolded ends_in_def]
      workspace_update [unfolded ends_in_def] workspace_delete [unfolded ends_in_def]
      workspace_bulk [unfolded ends_in_def] workspace_key [unfolded ends_in_def]
      workspace_keys_ops [unfolded ends_in_def])

section \<open>Route planning\<close>

text \<open>Every policy compares one metric, then the score: a weak order.\<close>

definition metric_less :: "string \<Rightarrow> gateway_upstream \<Rightarrow> gateway_upstream \<Rightarrow> bool" where
  "metric_less policy a b =
     (let m = (\<lambda>u. if policy = ''success'' then - gu_success_rate u
                   else if policy = ''cost'' then gu_cost_usd u else of_int (gu_latency_p95 u))
      in m a < m b \<or> (m a = m b \<and> - gu_score a < - gu_score b))"

lemma route_less_metric: "route_less policy a b = metric_less policy a b"
  by (auto simp: route_less_def metric_less_def Let_def)

interpretation route_order: weak_order "route_less policy" for policy
proof -
  have "weak_order (metric_less policy)"
    unfolding metric_less_def Let_def by (intro weak_order_lex weak_order_key)
  then show "weak_order (route_less policy)" by (simp add: route_less_metric [abs_def])
qed

text \<open>The planned route holds exactly the enabled upstreams whose status is healthy or degraded,
  in the order of the gateway's policy (success rate, cost or latency, then score) and, among
  equals, in the order in which the gateway lists them; its first upstream is beaten by none.\<close>

theorem plan_route_sorted:
  fixes g defines "usable \<equiv> \<lambda>u. gu_enabled u \<and> runtime_eligible_status (gu_status u)"
    and "lt \<equiv> route_less (gw_policy g)"
  shows "mset (plan_gateway_route g) = mset (filter usable (gv_upstreams g))
    \<and> sorted_wrt (\<lambda>a b. \<not> lt b a) (plan_gateway_route g)
    \<and> (\<forall>u. filter (tied lt u) (plan_gateway_route g) = filter (tied lt u) (filter usable (gv_upstreams g)))"
  unfolding plan_gateway_route_def usable_def lt_def
  by (simp only: mset_sort_stable route_order.sorted_sort route_order.stable_sort) simp

section \<open>Creating and editing gateways\<close>

lemma allowed_channels_all:
  assumes "length (allowed_channel_ids us p a db) = length us" and "distinct us" and "c \<in> set us"
  shows "c \<in> set (allowed_channel_ids us p a db)"
proof -
  let ?v = "allowed_channel_ids us p a db"
  have "set ?v \<subseteq> set us" "distinct ?v" by (auto simp: allowed_channel_ids_def Let_def)
  with assms(1,2) have "set ?v = set us" by (metis List.finite_set card_subset_eq distinct_card)
  with assms(3) show ?thesis by simp
qed

definition channel_allowed :: "string \<Rightarrow> bool \<Rightarrow> gateway_db \<Rightarrow> string \<Rightarrow> bool" where
  "channel_allowed private_org allow_platform db cid = (\<exists>c\<in>set (gdb_channels db). ch_id c = cid
     \<and> (if trim_space private_org = [] then platform_eligible c
        else (allow_platform \<and> platform_eligible c) \<or> private_eligible private_org c))"

lemma allowed_channel_ids_sound: "cid \<in> set (allowed_channel_ids us p a db) \<Longrightarrow> channel_allowed p a db cid"
  by (auto simp: allowed_channel_ids_def channel_allowed_def Let_def split: if_splits)

definition created_ok :: "gateway_create_input \<Rightarrow> string list \<Rightarrow> gateway_db \<Rightarrow> gateway_view res \<times> gateway_db \<Rightarrow> bool" where
  "created_ok inp lids db res = (case res of
      (Inl e, db') \<Rightarrow> db' = db
    | (Inr v, db') \<Rightarrow>
        (let us = unique_strings (gc_upstreams inp); org = org_or_default (trim_space (gc_org inp));
             p = private_org_of (gc_private_org inp) (gc_private_user inp)
         in gw_org v = org \<and> gw_status v = GActive \<and> org_live db org \<and> us \<noteq> []
            \<and> gdb_gateways db' = gdb_gateways db @ [gateway.truncate v]
            \<and> gdb_links db' = gdb_links db @ new_links (gw_id v) us lids
            \<and> gdb_keys db' = gdb_keys db
            \<and> (\<forall>c\<in>set us. channel_allowed p (gc_allow_platform inp) db c)))"

lemma created_ok_if:
  "(c \<Longrightarrow> created_ok inp ls db a) \<Longrightarrow> (\<not> c \<Longrightarrow> created_ok inp ls db b) \<Longrightarrow> created_ok inp ls db (if c then a else b)"
  by simp

lemma created_ok_case:
  "(\<And>e. r = Inl e \<Longrightarrow> created_ok inp ls db (f e)) \<Longrightarrow> (\<And>x. r = Inr x \<Longrightarrow> created_ok inp ls db (k x))
   \<Longrightarrow> created_ok inp ls db (case r of Inl e \<Rightarrow> f e | Inr x \<Rightarrow> k x)"
  by (cases r) simp_all

lemma created_ok_error: "created_ok inp ls db (Inl e, db)"
  by (simp add: created_ok_def)

lemma created_ok_row:
  assumes "unique_strings (gc_upstreams inp) \<noteq> []"
    and "\<not> length (allowed_channel_ids (unique_strings (gc_upstreams inp))
        (private_org_of (gc_private_org inp) (gc_private_user inp)) (gc_allow_platform inp) db)
      \<noteq> length (unique_strings (gc_upstreams inp))"
    and "ensure_active_org db org = Inr u" and "\<not> sql_exists (\<lambda>r. gw_id r = i) (gdb_gateways db)"
    and "org = org_or_default (trim_space (gc_org inp))"
    and "gw_id g = i" and "gw_org g = org" and "gw_status g = GActive"
  shows "created_ok inp ls db
    (gateway_by_id i org (db\<lparr>gdb_gateways := gdb_gateways db @ [g],
        gdb_links := gdb_links db @ new_links i (unique_strings (gc_upstreams inp)) ls, gdb_audits := a\<rparr>),
     db\<lparr>gdb_gateways := gdb_gateways db @ [g],
        gdb_links := gdb_links db @ new_links i (unique_strings (gc_upstreams inp)) ls, gdb_audits := a\<rparr>)"
proof -
  let ?us = "unique_strings (gc_upstreams inp)"
  have "filter (\<lambda>r. gw_id r = i \<and> gw_org r = org \<and> gw_status r \<noteq> GDeleted) (gdb_gateways db) = []"
    using assms(4) by (auto simp: sql_exists_iff filter_empty_conv)
  then have "gateway_by_id i org (db\<lparr>gdb_gateways := gdb_gateways db @ [g], gdb_links := l, gdb_audits := a\<rparr>)
      = Inr (view_gateway (db\<lparr>gdb_gateways := gdb_gateways db @ [g], gdb_links := l, gdb_audits := a\<rparr>) g)" for l
    using assms(5-8) by (simp add: gateway_by_id_def query_row_def)
  moreover have "\<forall>c\<in>set ?us. channel_allowed (private_org_of (gc_private_org inp) (gc_private_user inp))
      (gc_allow_platform inp) db c"
    using assms(2) unique_trimmed_props [of "[]"]
    by (auto simp: unique_strings_def intro!: allowed_channel_ids_sound [OF allowed_channels_all])
  moreover have "org_live db org" using assms(3) by (simp add: ensure_active_org_def split: if_splits)
  ultimately show ?thesis using assms(1,5-8) by (simp add: created_ok_def Let_def)
qed

text \<open>A gateway is created whole or not at all: on success there is one new active gateway with
  a link, in order, for every requested channel, each of which the workspace may use (a private
  channel of it, or a platform channel where allowed); on any error nothing is written.\<close>

theorem create_gateway_atomic: "created_ok inp lids db (create_gateway inp uuid slug_id lids now db)"
  unfolding create_gateway_def Let_def
  by (intro created_ok_if created_ok_case created_ok_error created_ok_row)
    (simp_all add: org_or_default_def)

lemma revoke_keys_of_inactive:
  assumes "k \<in> set (revoke_keys_of sel t keys)" and "sel (gk_gateway k)"
  shows "gk_status k \<noteq> YActive"
proof -
  from assms(1) obtain j where "k = (if sel (gk_gateway j) \<and> gk_status j = YActive then j\<lparr>gk_status := YRevoked,
      gk_revoked_at := case gk_revoked_at j of None \<Rightarrow> Some t | Some r \<Rightarrow> Some r\<rparr> else j)"
    unfolding revoke_keys_of_def set_sql_update by blast
  with assms(2) show ?thesis by (cases "sel (gk_gateway j) \<and> gk_status j = YActive") auto
qed

text \<open>Editing a gateway's status to \<open>deleted\<close> takes effect and then reports failure: the row is
  deleted and its active keys are revoked, but the gateway is read back among those not deleted,
  so the caller gets \<open>no rows\<close>.\<close>

theorem update_gateway_deleted_reported_missing:
  assumes "gateway_db_wf db" and "gateway_by_id gid (org_or_default org) db = Inr cur"
    and "gw_policy cur \<in> {''latency'', ''success'', ''cost''}"
    and "trim_space (gp_policy inp) = []" and "\<not> gp_upstreams_set inp"
    and "validate_gateway_status (gp_status inp) = Inr GDeleted"
  shows "fst (update_gateway gid org inp lids now db) = Inl ErrNoRows
    \<and> (\<exists>g. row_at gw_id gid (gdb_gateways (snd (update_gateway gid org inp lids now db))) = Some g
         \<and> gw_status g = GDeleted)
    \<and> (\<forall>k\<in>set (gdb_keys (snd (update_gateway gid org inp lids now db))). gk_gateway k = gid \<longrightarrow> gk_status k \<noteq> YActive)"
proof -
  let ?sel = "\<lambda>g. gw_id g = gid \<and> gw_org g = org_or_default org \<and> gw_status g \<noteq> GDeleted"
  have st: "trim_space (gp_status inp) \<noteq> []"
    using assms(6) by (auto simp: validate_gateway_status_def Let_def)
  from assms(2) obtain r where r: "r \<in> set (gdb_gateways db)" "?sel r" "gw_policy r = gw_policy cur"
    by (rule gateway_by_id_Inr) (simp add: view_gateway_def gateway.defs gateway_view.defs)
  have some: "sql_affected ?sel (gdb_gateways db) \<noteq> 0" using r(1,2) by (auto simp: sql_affected_0)
  let ?f = "\<lambda>g. g\<lparr>gw_name := if trim_space (gp_name inp) = [] then gw_name cur else trim_space (gp_name inp),
      gw_policy := gw_policy cur, gw_status := GDeleted,
      gw_qps_limit := if gp_qps inp \<le> 0 then gw_qps_limit cur else gp_qps inp,
      gw_quota_month := if gp_quota inp \<le> 0 then gw_quota_month cur else gp_quota inp, gw_updated := now\<rparr>"
  let ?db = "db\<lparr>gdb_gateways := sql_update ?sel ?f (gdb_gateways db), gdb_links := gdb_links db,
      gdb_keys := revoke_keys_of (\<lambda>g. g = gid) now (gdb_keys db),
      gdb_audits := gdb_audits db @ [(''gateway.updated'', gid)]\<rparr>"
  have "update_gateway gid org inp lids now db = (gateway_by_id gid (org_or_default org) ?db, ?db)"
    unfolding update_gateway_def Let_def
    by (simp only: assms(2-6) st some sum.case if_True if_False not_False_eq_True simp_thms)
  moreover have "gateway_by_id gid (org_or_default org) ?db = Inl ErrNoRows"
    using query_row_updated [of ?sel ?f "gdb_gateways db"] by (simp add: gateway_by_id_def)
  moreover have "row_at gw_id gid (gdb_gateways db) = Some r"
    using assms(1) r by (auto simp: gateway_db_wf_def row_at_unique)
  then have "row_at gw_id gid (gdb_gateways ?db) = Some (?f r)"
    using r(2) by (simp add: row_at_sql_update)
  moreover have "\<forall>k\<in>set (gdb_keys ?db). gk_gateway k = gid \<longrightarrow> gk_status k \<noteq> YActive"
    using revoke_keys_of_inactive [of _ "\<lambda>g. g = gid" now "gdb_keys db"] by simp
  ultimately show ?thesis by simp
qed

text \<open>A policy that is valid but for surrounding space is accepted by the check on the trimmed
  value and then stored as it came, so the table's constraint rejects it: no gateway is created.\<close>

theorem padded_policy_rejected:
  assumes "trim_space (gc_policy inp) \<in> {''success'', ''cost''}"
    and "gc_policy inp \<notin> {''latency'', ''success'', ''cost''}"
  shows "rejected db (create_gateway inp uuid slug_id lids now db)"
proof -
  have "normalize_gateway_policy (gc_policy inp) = gc_policy inp"
    using assms(1) by (auto simp: normalize_gateway_policy_def)
  with assms(2) have p: "normalize_gateway_policy (gc_policy inp) \<notin> {''latency'', ''success'', ''cost''}"
    by (simp only: simp_thms)
  show ?thesis
    unfolding create_gateway_def Let_def by (intro rejections) (erule notE [OF _ p])
qed

section \<open>Witnesses\<close>

definition revoked_db :: gateway_db where
  "revoked_db = snd (revoke_gateway_key ''k1'' ''o1'' 5 sample_db)"

definition deleted_db :: gateway_db where
  "deleted_db = snd (delete_gateway ''g1'' ''o1'' 5 sample_db)"

lemma sample_wf: "gateway_db_wf sample_db"
  by (simp add: sample_db_def gateway_db_wf_def key_home_def row_at_def)

lemma revoked_wf: "gateway_db_wf revoked_db"
  using gateway_step_tables [OF sample_wf, of h "OKeyRevoke ''k1'' ''o1''" 5]
  by (simp add: revoked_db_def gateway_tables_step_def)

lemma deleted_wf: "gateway_db_wf deleted_db"
  using gateway_step_tables [OF sample_wf, of h "ODelete ''g1'' ''o1''" 5]
  by (simp add: deleted_db_def gateway_tables_step_def)

lemmas sample_eval = sample_db_def revoked_db_def deleted_db_def revoke_gateway_key_def delete_gateway_def
  revoke_keys_of_def org_or_default_def key_gateway_live_def sql_affected_def row_at_def sql_exists_def


theorem deleted_gateway_rejected_witness:
  "\<not> (\<exists>k g. authenticate_gateway_key (\<lambda>s. s) ''sk-1'' 9 (store_run (gateway_step (\<lambda>s. s)) deleted_db
     [(OBulk [''g1''] ''o1'' ''active'', 6)]) = Inr (k, g) \<and> gk_gateway k = ''g1'')"
proof -
  obtain r where "row_at gw_id ''g1'' (gdb_gateways deleted_db) = Some r" "gw_status r = GDeleted"
    by (simp add: sample_eval)
  then show ?thesis using deleted_gateway_rejected [OF deleted_wf] by blast
qed

theorem authenticate_exact_witness:
  "is_ok (authenticate_gateway_key (\<lambda>s. s) ''sk-1'' 9 sample_db)
    = (\<exists>k\<in>set (gdb_keys sample_db). gk_hash k = trim_space ''sk-1'' \<and> key_usable sample_db 9 k)"
  using authenticate_exact [OF sample_wf, of "\<lambda>s. s" "''sk-1''" 9] by simp

theorem key_quota_enforced_witness:
  "\<exists>k'. row_at gk_id ''k1'' (gdb_keys (store_run (gateway_step (\<lambda>s. s)) sample_db
      [(OReserve ''k1'', 5), (OReserve ''k1'', 6), (OReserve ''k1'', 7)])) = Some k'
    \<and> gk_requests_used k' \<le> 2"
proof -
  obtain k where k: "row_at gk_id ''k1'' (gdb_keys sample_db) = Some k" "gk_quota_month k = 2"
      "gk_requests_used k = 0"
    by (simp add: sample_eval)
  with key_quota_enforced [OF sample_wf k(1), of "[(OReserve ''k1'', 5), (OReserve ''k1'', 6), (OReserve ''k1'', 7)]"]
  show ?thesis by (auto simp: edits_key_def)
qed

theorem workspace_isolation_witness:
  "same_workspace ''o1'' sample_db (gateway_step (\<lambda>s. s) (ODelete ''g1'' ''o2'') sample_db 5)"
  by (rule workspace_isolation [OF sample_wf, where a = "''o2''"]) (simp_all add: op_org_def org_or_default_def)

definition delete_input :: gateway_update_input where
  "delete_input = \<lparr>gp_name = [], gp_policy = [], gp_status = ''deleted'', gp_upstreams = [],
     gp_upstreams_set = False, gp_qps = 0, gp_quota = 0, gp_private_org = [], gp_private_user = [],
     gp_allow_platform = False\<rparr>"

theorem update_gateway_deleted_reported_missing_witness:
  "fst (update_gateway ''g1'' ''o1'' delete_input [] 5 sample_db) = Inl ErrNoRows"
proof -
  have v: "validate_gateway_status (gp_status delete_input) = Inr GDeleted"
    by code_simp
  obtain cur where cur: "gateway_by_id ''g1'' (org_or_default ''o1'') sample_db = Inr cur"
      "gw_policy cur = ''latency''"
    by (simp add: sample_db_def gateway_by_id_def query_row_def org_or_default_def view_gateway_def
        gateway.defs gateway_view.defs)
  have "gw_policy cur \<in> {''latency'', ''success'', ''cost''}" by (simp add: cur(2))
  moreover have "trim_space (gp_policy delete_input) = []" "\<not> gp_upstreams_set delete_input"
    by (simp_all add: delete_input_def)
  ultimately show ?thesis
    using update_gateway_deleted_reported_missing [OF sample_wf cur(1)] v by blast
qed

definition padded_input :: gateway_create_input where
  "padded_input = \<lparr>gc_name = ''n'', gc_policy = '' cost'', gc_upstreams = [''c1''], gc_qps = 0, gc_quota = 0,
     gc_base_url = [], gc_actor = [], gc_org = ''o1'', gc_private_org = [], gc_private_user = [],
     gc_allow_platform = False\<rparr>"

theorem padded_policy_rejected_witness:
  "rejected sample_db (create_gateway padded_input ''u'' ''s'' [''l''] 5 sample_db)"
proof (rule padded_policy_rejected)
  show "trim_space (gc_policy padded_input) \<in> {''success'', ''cost''}" by code_simp
  show "gc_policy padded_input \<notin> {''latency'', ''success'', ''cost''}" by (simp add: padded_input_def)
qed

end
