(* ===== verification/Gateway_Entry_Safety.thy ===== *)
theory Gateway_Entry_Safety
  imports Gateway_Entry Gateway_Safety Rate_Guard
begin

text \<open>
  What the entrance of the gateway guarantees: the limiter in memory, exact admission and its cost,
  refusal without Redis, and which upstreams a request can be handed to.
\<close>

section \<open>The limiter in memory\<close>

text \<open>
  Calls of \<open>allowRate\<close> for any keys, each with the key's limit. The clock is monotonic, as Go's is: a
  call earlier than the last one does not happen. The last grant of each key is kept beside the limiter.
\<close>

record rate_state =
  rs_limiter :: limiter
  rs_clock :: time
  rs_last :: "string \<Rightarrow> time option"

definition rate_step :: "(string \<Rightarrow> int) \<Rightarrow> duration \<Rightarrow> string \<Rightarrow> rate_state \<Rightarrow> time \<Rightarrow> rate_state" where
  "rate_step limits window x s t =
     (if t < rs_clock s then s
      else case allow_rate (rs_limiter s) x (limits x) window t of
          (ok, l) \<Rightarrow> \<lparr>rs_limiter = l, rs_clock = t, rs_last = (if ok then (rs_last s)(x := Some t) else rs_last s)\<rparr>)"

definition rate_granted :: "(string \<Rightarrow> int) \<Rightarrow> duration \<Rightarrow> string \<Rightarrow> string \<Rightarrow> rate_state \<Rightarrow> time \<Rightarrow> bool" where
  "rate_granted limits window key x s t =
     (rs_clock s \<le> t \<and> x = key \<and> fst (allow_rate (rs_limiter s) key (limits key) window t))"

text \<open>The bucket of a key as a window and the number of grants in it; \<open>base\<close> is any time before the first
  window.\<close>

definition rate_window :: "(string \<Rightarrow> int) \<Rightarrow> time \<Rightarrow> string \<Rightarrow> rate_state \<Rightarrow> time \<times> int" where
  "rate_window limits base key s = (case rs_limiter s key of
      None \<Rightarrow> (base, 0) | Some b \<Rightarrow> (rb_window b, min (rb_count b) (limits key)))"

definition rate_ok :: "(string \<Rightarrow> int) \<Rightarrow> duration \<Rightarrow> time \<Rightarrow> string \<Rightarrow> rate_state \<Rightarrow> bool" where
  "rate_ok limits window base key s =
     (0 \<le> window \<and> 0 < limits key \<and> rs_last s key \<in> insert None (Some ` {..rs_clock s})
      \<and> (case rs_limiter s key of
           None \<Rightarrow> base + window < rs_clock s | Some b \<Rightarrow> rb_window b \<le> rs_clock s \<and> 1 \<le> rb_count b))"

lemmas rate_defs = rate_ok_def rate_step_def rate_granted_def rate_window_def allow_rate_def current_bucket_def
  window_restart_def window_count_def Let_def

lemma rate_ok_step: "rate_ok limits window base key s \<Longrightarrow> rate_ok limits window base key (rate_step limits window x s t)"
  by (cases "x = key"; cases "rs_limiter s key") (auto simp: rate_defs split: if_splits)

lemma rate_laws:
  assumes "rate_ok limits window base key s"
  shows "0 \<le> snd (rate_window limits base key s)"
    and "\<not> rate_granted limits window key x s t \<Longrightarrow>
      rate_window limits base key (rate_step limits window x s t) = rate_window limits base key s
      \<or> rate_window limits base key (rate_step limits window x s t)
        = window_restart (window + 1) t (rate_window limits base key s)"
    and "rate_granted limits window key x s t \<Longrightarrow>
      snd (window_restart (window + 1) t (rate_window limits base key s)) < limits key
      \<and> rate_window limits base key (rate_step limits window x s t)
        = window_count (window_restart (window + 1) t (rate_window limits base key s))"
    and "\<not> rate_granted limits window key x s t \<Longrightarrow> rs_last (rate_step limits window x s t) key = rs_last s key"
    and "rate_granted limits window key x s t \<Longrightarrow> rs_last (rate_step limits window x s t) key = Some t"
    and "rate_granted limits window key x s t \<Longrightarrow> rs_last s key = Some u \<Longrightarrow> u \<le> t"
proof -
  show "0 \<le> snd (rate_window limits base key s)"
    using assms by (auto simp: rate_defs split: option.splits)
  show "rate_window limits base key (rate_step limits window x s t) = rate_window limits base key s
      \<or> rate_window limits base key (rate_step limits window x s t)
        = window_restart (window + 1) t (rate_window limits base key s)" if "\<not> rate_granted limits window key x s t"
    using assms that by (cases "x = key"; cases "rs_limiter s key") (auto simp: rate_defs split: if_splits)
  show "snd (window_restart (window + 1) t (rate_window limits base key s)) < limits key
      \<and> rate_window limits base key (rate_step limits window x s t)
        = window_count (window_restart (window + 1) t (rate_window limits base key s))" if "rate_granted limits window key x s t"
    using assms that by (cases "rs_limiter s key") (auto simp: rate_defs split: if_splits)
  show "rs_last (rate_step limits window x s t) key = rs_last s key" if "\<not> rate_granted limits window key x s t"
    using that by (auto simp: rate_defs)
  show "rs_last (rate_step limits window x s t) key = Some t" if "rate_granted limits window key x s t"
    using that by (auto simp: rate_defs)
  show "u \<le> t" if "rate_granted limits window key x s t" "rs_last s key = Some u"
    using assms that by (auto simp: rate_ok_def rate_granted_def)
qed

interpretation memory_limiter: rate_guard "\<lambda>s. rate_ok limits window base key s" "rate_step limits window"
  "rate_granted limits window key" "rate_window limits base key" "\<lambda>s. rs_last s key" "limits key" "max 1 (window + 1)" 0
  for limits window base key
proof unfold_locales
  fix s :: rate_state and x t u
  show "(0::int) < max 1 (window + 1)" by simp
  assume ok: "rate_ok limits window base key s"
  then have w: "max 1 (window + 1) = window + 1" by (simp add: rate_ok_def)
  note laws = rate_laws [OF ok]
  show "rate_ok limits window base key (rate_step limits window x s t)" using ok by (rule rate_ok_step)
  show "0 \<le> snd (rate_window limits base key s)" by (rule laws(1))
  show "rate_window limits base key (rate_step limits window x s t) = rate_window limits base key s
      \<or> rate_window limits base key (rate_step limits window x s t)
        = window_restart (max 1 (window + 1)) t (rate_window limits base key s)"
    if "\<not> rate_granted limits window key x s t" unfolding w using laws(2) [OF that] .
  show "snd (window_restart (max 1 (window + 1)) t (rate_window limits base key s)) < limits key
      \<and> rate_window limits base key (rate_step limits window x s t)
        = window_count (window_restart (max 1 (window + 1)) t (rate_window limits base key s))"
    if "rate_granted limits window key x s t" unfolding w using laws(3) [OF that] .
  show "rs_last (rate_step limits window x s t) key = rs_last s key" if "\<not> rate_granted limits window key x s t"
    using laws(4) [OF that] .
  show "rs_last (rate_step limits window x s t) key = Some t" if "rate_granted limits window key x s t"
    using laws(5) [OF that] .
  show "u + 0 \<le> t" if "rate_granted limits window key x s t" "rs_last s key = Some u"
    using laws(6) [OF that] by simp
qed

definition fresh_limiter :: "time \<Rightarrow> rate_state" where
  "fresh_limiter t = \<lparr>rs_limiter = (\<lambda>_. None), rs_clock = t, rs_last = (\<lambda>_. None)\<rparr>"

text \<open>Without Redis, from the start of the server and whatever other keys are used in between, no interval
  of the length of the window holds more than twice the limit of granted requests of a key: the window
  restarts instead of sliding.\<close>

theorem memory_limiter_bounded:
  assumes "0 < limits key" and "0 \<le> window" and "sorted (map snd calls)"
  shows "length (filter (\<lambda>t. a \<le> t \<and> t \<le> a + window)
      (granted_times (rate_granted limits window key) (rate_step limits window) (fresh_limiter start) calls))
    \<le> 2 * nat (limits key)"
proof -
  have ok: "rate_ok limits window (start - window - 1) key (fresh_limiter start)"
    using assms(1,2) by (simp add: rate_ok_def fresh_limiter_def)
  have "in_interval a (max 1 (window + 1)) = (\<lambda>t. a \<le> t \<and> t \<le> a + window)"
    using assms(2) by (auto simp: in_interval_def fun_eq_iff)
  with memory_limiter.grants_bounded [OF ok, of calls a] assms(3) show ?thesis
    by (simp add: grants_within_def clock_ordered_def)
qed

theorem memory_limiter_bounded_witness:
  "granted_times (rate_granted (\<lambda>_. 1) second ''k'') (rate_step (\<lambda>_. 1) second) (fresh_limiter 0)
      [(''k'', 5), (''k'', 6), (''j'', 7), (''k'', 1000000006)] = [5, 1000000006]
   \<and> length (filter (\<lambda>t. 5 \<le> t \<and> t \<le> 5 + second)
      (granted_times (rate_granted (\<lambda>_. 1) second ''k'') (rate_step (\<lambda>_. 1) second) (fresh_limiter 0)
        [(''k'', 5), (''k'', 6), (''j'', 7), (''k'', 1000000006)])) \<le> 2"
proof
  show "granted_times (rate_granted (\<lambda>_. 1) second ''k'') (rate_step (\<lambda>_. 1) second) (fresh_limiter 0)
      [(''k'', 5), (''k'', 6), (''j'', 7), (''k'', 1000000006)] = [5, 1000000006]"
    by (simp add: rate_granted_def rate_step_def allow_rate_def current_bucket_def fresh_limiter_def second_def Let_def)
  show "length (filter (\<lambda>t. 5 \<le> t \<and> t \<le> 5 + second)
      (granted_times (rate_granted (\<lambda>_. 1) second ''k'') (rate_step (\<lambda>_. 1) second) (fresh_limiter 0)
        [(''k'', 5), (''k'', 6), (''j'', 7), (''k'', 1000000006)])) \<le> 2"
    using memory_limiter_bounded [of "\<lambda>_. 1" "''k''" second "[(''k'', 5), (''k'', 6), (''j'', 7), (''k'', 1000000006)]" 5 0]
    by (simp add: second_def)
qed

section \<open>Admission\<close>

definition charged_key :: "time \<Rightarrow> gateway_key \<Rightarrow> gateway_key" where
  "charged_key now k = k\<lparr>gk_last_used := Some now, gk_requests_used := gk_requests_used k + 1\<rparr>"

definition charge :: "string \<Rightarrow> time \<Rightarrow> gateway_db \<Rightarrow> gateway_db" where
  "charge kid now db = db\<lparr>gdb_keys := sql_update (\<lambda>k. gk_id k = kid) (charged_key now) (gdb_keys db)\<rparr>"

definition quota_left :: "gateway_key \<Rightarrow> bool" where
  "quota_left k = (gk_quota_month k \<le> 0 \<or> gk_requests_used k < gk_quota_month k)"

lemma sql_update_by_key:
  assumes "distinct (map k rows)" and "row_at k c rows = Some r"
  shows "sql_update (\<lambda>x. k x = c \<and> q x) f rows = (if q r then sql_update (\<lambda>x. k x = c) f rows else rows)"
proof (cases "q r")
  case True
  have "q x" if "x \<in> set rows" "k x = c" for x
    using assms that True by (metis option.inject row_at_unique)
  then show ?thesis using True by (auto simp: sql_update_def)
next
  case False
  have "\<not> q x" if "x \<in> set rows" "k x = c" for x
    using assms that False by (metis option.inject row_at_unique)
  then show ?thesis using False by (auto intro: sql_update_none)
qed

lemma reserve_row:
  assumes "gateway_db_wf db" and "row_at gk_id (gk_id k) (gdb_keys db) = Some k"
    and "gk_status k = YActive" and "gk_deleted_at k = None"
  shows "reserve_gateway_key (gk_id k) now db = (Inr (quota_left k), if quota_left k then charge (gk_id k) now db else db)"
proof -
  have d: "distinct (map gk_id (gdb_keys db))" using assms(1) by (simp add: gateway_db_wf_def)
  let ?q = "\<lambda>x. gk_status x = YActive \<and> gk_deleted_at x = None \<and> (gk_quota_month x \<le> 0 \<or> gk_requests_used x < gk_quota_month x)"
  have q: "?q k \<longleftrightarrow> quota_left k" using assms(3,4) by (simp add: quota_left_def)
  have "sql_affected (\<lambda>x. gk_id x = gk_id k \<and> ?q x) (gdb_keys db) = (if ?q k then 1 else 0)"
    using sql_affected_key [OF d, of "\<lambda>x. gk_id x = gk_id k \<and> ?q x" "gk_id k"] assms(2) by simp
  moreover have "sql_update (\<lambda>x. gk_id x = gk_id k \<and> ?q x) (charged_key now) (gdb_keys db)
      = (if ?q k then sql_update (\<lambda>x. gk_id x = gk_id k) (charged_key now) (gdb_keys db) else gdb_keys db)"
    by (rule sql_update_by_key [OF d assms(2)])
  ultimately show ?thesis
    unfolding q by (simp add: reserve_gateway_key_def charge_def charged_key_def [abs_def] Let_def)
qed

text \<open>C12: A request enters the gateway exactly when it carries a key that authenticates, the rate limit admits
  it and the key has quota left; it then costs exactly one request of that key and nothing else in the
  store changes. A request that is turned away, at whatever point, leaves the store as it was.\<close>

theorem admission_charges_once:
  assumes "gateway_db_wf (gt_db s)"
    and "authenticate_gateway_request h spr c stamp authorization xkey now s = (r, s')"
  shows "(r = Inr (k, g) \<longleftrightarrow> bearer_key authorization xkey \<noteq> []
      \<and> authenticate_gateway_key h (bearer_key authorization xkey) now (gt_db s) = Inr (k, g)
      \<and> fst (rate_admits spr c stamp k g (gt_limiter s) now) = Inr () \<and> quota_left k)
    \<and> gt_db s' = (case r of Inl _ \<Rightarrow> gt_db s | Inr (k, _) \<Rightarrow> charge (gk_id k) now (gt_db s))"
proof (cases "bearer_key authorization xkey = []")
  case True
  with assms(2) show ?thesis by (auto simp: authenticate_gateway_request_def)
next
  case keyed: False
  let ?auth = "authenticate_gateway_key h (bearer_key authorization xkey) now (gt_db s)"
  show ?thesis
  proof (cases ?auth)
    case (Inl e)
    with assms(2) keyed show ?thesis by (auto simp: authenticate_gateway_request_def)
  next
    case (Inr kg)
    obtain k1 g1 where kg: "kg = (k1, g1)" by (cases kg)
    have auth: "?auth = Inr (k1, g1)" using Inr kg by simp
    have "reserve_gateway_key (gk_id k1) now (gt_db s)
        = (Inr (quota_left k1), if quota_left k1 then charge (gk_id k1) now (gt_db s) else gt_db s)"
      using reserve_row [OF assms(1) authenticate_row [OF assms(1) auth]] authenticate_Inr(3) [OF auth]
      by (simp add: key_usable_def)
    moreover obtain e l where "rate_admits spr c stamp k1 g1 (gt_limiter s) now = (e, l)" by fastforce
    ultimately show ?thesis using assms(2) keyed auth
      by (cases e; cases "quota_left k1") (auto simp: authenticate_gateway_request_def)
  qed
qed

definition sample_gate :: gate where
  "sample_gate = \<lparr>gt_db = sample_db, gt_limiter = (\<lambda>_. None)\<rparr>"

theorem admission_charges_once_witness:
  "\<exists>k g. fst (authenticate_gateway_request id (\<lambda>_. []) None ''s'' ''Bearer sk-1'' [] 5 sample_gate) = Inr (k, g)
    \<and> gt_db (snd (authenticate_gateway_request id (\<lambda>_. []) None ''s'' ''Bearer sk-1'' [] 5 sample_gate)) = charge ''k1'' 5 sample_db"
proof -
  let ?r = "authenticate_gateway_request id (\<lambda>_. []) None ''s'' ''Bearer sk-1'' [] 5 sample_gate"
  have wf: "gateway_db_wf (gt_db sample_gate)"
    by (simp add: sample_gate_def sample_db_def gateway_db_wf_def key_home_def row_at_def)
  have k: "(case fst ?r of Inr (k, g) \<Rightarrow> gk_id k | _ \<Rightarrow> []) = ''k1''" by code_simp
  then obtain kk g where r: "fst ?r = Inr (kk, g)" and id: "gk_id kk = ''k1''"
    by (cases "fst ?r") auto
  have "gt_db (snd ?r) = (case fst ?r of Inl _ \<Rightarrow> gt_db sample_gate | Inr (k, _) \<Rightarrow> charge (gk_id k) 5 (gt_db sample_gate))"
    using admission_charges_once [OF wf surjective_pairing] by blast
  then have "gt_db (snd ?r) = charge ''k1'' 5 sample_db" unfolding r by (simp add: id sample_gate_def)
  with r show ?thesis by blast
qed

section \<open>Candidates\<close>

definition circuit_blocks :: "redis option \<Rightarrow> string \<Rightarrow> time \<Rightarrow> circuits \<Rightarrow> bool" where
  "circuit_blocks c channel now cs = fst (circuit_open c channel now cs)"

lemma circuit_open_keeps: "circuit_blocks c channel' now (snd (circuit_open c channel now cs)) = circuit_blocks c channel' now cs"
  by (simp add: circuit_blocks_def circuit_open_def split: cached.split option.split)

lemma closed_candidates_set:
  "fst (closed_candidates c now us cs) = filter (\<lambda>u. \<not> circuit_blocks c (gu_channel u) now cs) us"
proof (induction us arbitrary: cs)
  case (Cons u us)
  from Cons.IH [of "snd (circuit_open c (gu_channel u) now cs)"] show ?case
    by (simp add: circuit_open_keeps split: prod.splits) (auto simp: circuit_blocks_def)
qed simp

lemma available_candidates_set:
  "fst (available_candidates spr cfg c g model now cs)
   = filter (\<lambda>u. candidate_allowed spr cfg model now u \<and> \<not> circuit_blocks c (gu_channel u) now cs) (plan_gateway_route g)"
  by (simp add: available_candidates_def closed_candidates_set conj_commute)

lemma normal_methods:
  "normal_name ''api_key'' = ''api_key''" "normal_name ''official_client'' = ''official_client''"
  "normal_name ''opencli_browser'' = ''opencli_browser''" "normal_name ''deepseek_web_token'' = ''deepseek_web_token''"
  "normal_name ''codex_oauth'' = ''codex_oauth''"
  by code_simp+

lemma method_words: "to_lower ''opencli_browser'' = ''opencli_browser''" "to_lower ''official_client'' = ''official_client''"
  by code_simp+

lemma server_allows_mode:
  assumes "server_policy cfg provider auth False now = None"
  shows "normal_name auth \<notin> {''opencli_browser'', ''deepseek_web_token'', ''codex_oauth''}"
    and "normal_name auth = ''official_client'' \<Longrightarrow> now < midnight 2026 11 18"
proof -
  have "provider_mode_allowed (normal_name provider) auth False now (pc_kill cfg (normal_name provider) = Some True) = None"
    using assms by (auto simp: server_policy_def Let_def split: option.splits)
  then show "normal_name auth \<notin> {''opencli_browser'', ''deepseek_web_token'', ''codex_oauth''}"
    and "normal_name auth = ''official_client'' \<Longrightarrow> now < midnight 2026 11 18"
    unfolding provider_mode_decision_table Let_def by auto
qed

lemma no_browser_candidate:
  assumes "candidate_allowed spr cfg model now u"
  shows "candidate_method spr u \<notin> {''opencli_browser'', ''deepseek_web_token'', ''codex_oauth''}"
    and "\<not> is_browser_upstream spr u"
    and "is_client_upstream spr u \<Longrightarrow> now < midnight 2026 11 18"
proof -
  have ok: "server_policy cfg (gu_provider u) (candidate_method spr u) False now = None"
    using assms by (simp add: candidate_allowed_def)
  note mode = server_allows_mode [OF ok]
  show m: "candidate_method spr u \<notin> {''opencli_browser'', ''deepseek_web_token'', ''codex_oauth''}"
    using mode(1) normal_methods by auto
  show "\<not> is_browser_upstream spr u"
    using m by (auto simp: is_browser_upstream_def equal_fold_def method_words candidate_method_def Let_def split: if_splits)
  assume "is_client_upstream spr u"
  then have "candidate_method spr u = ''official_client''"
    by (auto simp: is_client_upstream_def equal_fold_def method_words candidate_method_def Let_def)
  with mode(2) show "now < midnight 2026 11 18" by (simp add: normal_methods)
qed

text \<open>An upstream a request can be handed to belongs to the gateway, is enabled, healthy or degraded, serves
  the requested model, has a closed circuit, and is connected in a way the policy allows in production:
  never a browser session, a DeepSeek web session or a Codex session, whatever the settings, and the
  official client only until its review expires. The candidates are in the order of the route.\<close>

theorem candidates_are_safe:
  assumes "u \<in> set (fst (available_candidates spr cfg c g model now cs))"
  shows "u \<in> set (gv_upstreams g) \<and> gu_enabled u \<and> runtime_eligible_status (gu_status u)
    \<and> (trim_space model = [] \<or> trim_space (gu_model u) = trim_space model)
    \<and> \<not> circuit_blocks c (gu_channel u) now cs
    \<and> server_policy cfg (gu_provider u) (candidate_method spr u) False now = None
    \<and> candidate_method spr u \<notin> {''opencli_browser'', ''deepseek_web_token'', ''codex_oauth''}
    \<and> (is_client_upstream spr u \<longrightarrow> now < midnight 2026 11 18)
    \<and> (\<exists>keep. fst (available_candidates spr cfg c g model now cs) = filter keep (plan_gateway_route g))"
proof -
  have u: "u \<in> set (plan_gateway_route g)" "candidate_allowed spr cfg model now u" "\<not> circuit_blocks c (gu_channel u) now cs"
    using assms by (auto simp: available_candidates_set)
  have "u \<in> set (gv_upstreams g) \<and> gu_enabled u \<and> runtime_eligible_status (gu_status u)"
    using u(1) by (auto simp: plan_gateway_route_def)
  moreover have "\<exists>keep. fst (available_candidates spr cfg c g model now cs) = filter keep (plan_gateway_route g)"
    using available_candidates_set by blast
  ultimately show ?thesis using u no_browser_candidate [OF u(2)] by (auto simp: candidate_allowed_def)
qed

definition sample_route_gateway :: gateway_view where
  "sample_route_gateway = gateway.extend (hd (gdb_gateways sample_db)) (gateway_view.fields []
     [\<lparr>gu_id = ''l1'', gu_gateway = ''g1'', gu_channel = ''c1'', gu_name = ''n'', gu_provider = ''openai'', gu_owner_type = ''platform'',
        gu_type = ''openai'', gu_model = ''m'', gu_endpoint = ''e'', gu_status = ''healthy'', gu_score = 1, gu_success_rate = 1,
        gu_latency_p95 = 1, gu_cost_usd = 1, gu_weight = 1, gu_priority = 1, gu_enabled = True,
        gu_config = [(''authMethod'', JStr ''official_client'')]\<rparr>])"

theorem candidates_are_safe_witness:
  "fst (available_candidates (\<lambda>_. []) no_operator_settings None sample_route_gateway ''m'' 0 (\<lambda>_. None)) \<noteq> []
   \<and> is_client_upstream (\<lambda>_. []) (hd (gv_upstreams sample_route_gateway)) \<and> (0::int) < midnight 2026 11 18"
proof -
  let ?cs = "fst (available_candidates (\<lambda>_. []) no_operator_settings None sample_route_gateway ''m'' 0 (\<lambda>_. None))"
  have one: "?cs = gv_upstreams sample_route_gateway" "?cs \<noteq> []" and client: "is_client_upstream (\<lambda>_. []) (hd (gv_upstreams sample_route_gateway))"
    by code_simp+
  then have "hd (gv_upstreams sample_route_gateway) \<in> set ?cs" by simp
  from candidates_are_safe [OF this] one client show ?thesis by blast
qed

end
