(* ===== verification/Gateway_Serve_Safety.thy ===== *)
theory Gateway_Serve_Safety
  imports Gateway_Serve Gateway_Entry_Safety
begin

text \<open>
  What serving a request guarantees: one event for the bill, upstreams tried in the order of the route
  and at most twice, rest for a failing upstream, and nothing sent for an experimental gateway when Redis
  is away.
\<close>

lemma prod_cases3_left: obtains a b c where "x = ((a, b), c)"
  by (metis surj_pair)

lemma prod_cases4_left: obtains a b c d where "x = (((a, b), c), d)"
  by (metis surj_pair)

section \<open>One upstream\<close>

lemma record_success_fields [simp]:
  "sv_sent (record_success e kg u model us status stream sv) = sv_sent sv"
  "sv_circuits (record_success e kg u model us status stream sv) = sv_circuits sv"
  by (simp_all add: record_success_def)

lemma record_failure_fields [simp]:
  "sv_sent (record_failure e kg channel model status err stream sv) = sv_sent sv"
  "sv_circuits (record_failure e kg channel model status err stream sv) = sv_circuits sv"
  by (simp_all add: record_failure_def)

lemma trip_fields [simp]:
  "sv_sent (trip e u sv) = sv_sent sv" "sv_events (trip e u sv) = sv_events sv"
  "ch \<noteq> gu_channel u \<Longrightarrow> sv_circuits (trip e u sv) ch = sv_circuits sv ch"
  by (simp_all add: trip_def open_circuit_def)

text \<open>\<open>contacted sv sv'\<close>: at most two requests, no event, no circuit.\<close>

definition contacted :: "'c server \<Rightarrow> 'c server \<Rightarrow> bool" where
  "contacted sv sv' = (sv_events sv' = sv_events sv \<and> sv_circuits sv' = sv_circuits sv \<and> sv_sent sv' \<le> sv_sent sv + 2)"

lemma contacted_creds: "contacted sv (sv\<lparr>sv_creds := c\<rparr>)"
  by (simp add: contacted_def)

lemma contacted_asking: "contacted (sv\<lparr>sv_creds := c\<rparr>) (snd (ask_renewing e org u ask again cred (sv\<lparr>sv_creds := c\<rparr>)))"
  by (simp add: contacted_def ask_renewing_def Let_def split: prod.splits option.splits credential.splits)

lemma contacted_from_creds: "contacted (sv\<lparr>sv_creds := c\<rparr>) sv' \<Longrightarrow> contacted sv sv'"
  by (simp add: contacted_def)

section \<open>The bill\<close>

definition billed_to :: "authn \<Rightarrow> gateway_event \<Rightarrow> bool" where
  "billed_to kg ev = (ge_key ev = gk_id (fst kg) \<and> ge_gateway ev = gw_id (snd kg))"

definition free_of_charge :: "gateway_event \<Rightarrow> bool" where
  "free_of_charge ev = (ge_error ev \<noteq> [] \<and> ge_cost ev = 0 \<and> ge_request_tokens ev = 0 \<and> ge_response_tokens ev = 0)"

definition outcome_ok :: "authn \<Rightarrow> answer \<Rightarrow> gateway_event list \<Rightarrow> bool" where
  "outcome_ok kg a evs = (length evs \<le> 1 \<and> list_all (billed_to kg) evs
     \<and> (case a of
          Answer _ _ \<Rightarrow> list_ex (\<lambda>ev. ge_error ev = []) evs
        | Events _ \<Rightarrow> list_ex (\<lambda>ev. ge_error ev = []) evs
        | Streamed _ \<Rightarrow> evs \<noteq> []
        | Refused _ _ \<Rightarrow> list_all free_of_charge evs
        | _ \<Rightarrow> evs = []))"

text \<open>The state of the search before the upstreams \<open>us\<close>, and how it ends.\<close>

definition searching :: "gateway_upstream list \<Rightarrow> 'c server \<Rightarrow> gateway_upstream list \<Rightarrow> string \<Rightarrow> 'c server \<Rightarrow> bool" where
  "searching cands sv0 us last_error sv =
     (last_error \<noteq> [] \<and> sv_events sv = sv_events sv0
      \<and> (\<exists>pre. cands = pre @ us \<and> sv_sent sv \<le> sv_sent sv0 + 2 * length pre
           \<and> (\<forall>ch. ch \<notin> gu_channel ` set pre \<longrightarrow> sv_circuits sv ch = sv_circuits sv0 ch)))"

definition served_by :: "gateway_upstream list \<Rightarrow> 'c server \<Rightarrow> 'c server \<Rightarrow> gateway_event \<Rightarrow> bool" where
  "served_by cands sv0 sv ev =
     (\<exists>pre u post. cands = pre @ u # post \<and> ge_upstream ev = gu_channel u
        \<and> sv_sent sv \<le> sv_sent sv0 + 2 * length pre + 2
        \<and> (\<forall>ch. ch \<notin> gu_channel ` set pre \<longrightarrow> sv_circuits sv ch = sv_circuits sv0 ch))"

definition found :: "authn \<Rightarrow> gateway_upstream list \<Rightarrow> 'c server \<Rightarrow> answer \<Rightarrow> 'c server \<Rightarrow> bool" where
  "found kg cands sv0 a sv =
     (sv_sent sv \<le> sv_sent sv0 + 2 * length cands
      \<and> (\<forall>u. a = Delegated u \<longrightarrow> u \<in> set cands)
      \<and> (\<exists>evs. sv_events sv = sv_events sv0 @ evs \<and> outcome_ok kg a evs
           \<and> (\<forall>ev\<in>set evs. ge_error ev = [] \<longrightarrow> served_by cands sv0 sv ev)))"

lemma try_upstreams_found:
  assumes "searching cands sv0 us last_error sv"
    and step: "\<And>last_error u us sv. searching cands sv0 (u # us) last_error sv \<Longrightarrow>
      (case step last_error u sv of
         (Final a, sv1) \<Rightarrow> found kg cands sv0 a sv1
       | (Next x, sv1) \<Rightarrow> searching cands sv0 us (if x = [] then last_error else x) sv1)"
    and give_up: "\<And>last_error sv. searching cands sv0 [] last_error sv \<Longrightarrow>
      found kg cands sv0 (fst (give_up last_error sv)) (snd (give_up last_error sv))"
  shows "found kg cands sv0 (fst (try_upstreams step give_up last_error us sv)) (snd (try_upstreams step give_up last_error us sv))"
  using assms(1)
proof (induction us arbitrary: last_error sv)
  case Nil
  then show ?case by (simp add: give_up)
next
  case (Cons u us)
  from step [OF Cons.prems] Cons.IH show ?case
    by (cases "step last_error u sv"; cases "fst (step last_error u sv)") auto
qed

lemma searching_start: "last_error \<noteq> [] \<Longrightarrow> searching cands sv cands last_error sv"
  by (simp add: searching_def)

lemma searchingE:
  assumes "searching cands sv0 us last_error sv"
  obtains pre where "cands = pre @ us" "sv_sent sv \<le> sv_sent sv0 + 2 * length pre"
    "\<forall>ch. ch \<notin> gu_channel ` set pre \<longrightarrow> sv_circuits sv ch = sv_circuits sv0 ch"
    "last_error \<noteq> []" "sv_events sv = sv_events sv0"
  using assms by (auto simp: searching_def)

lemma searching_next:
  assumes "searching cands sv0 (u # us) last_error sv" and "contacted sv sv'"
  shows "searching cands sv0 us (if x = [] then last_error else x) (trip e u sv')"
    and "searching cands sv0 us (if x = [] then last_error else x) sv'"
proof -
  from assms(1) obtain pre where pre: "cands = pre @ u # us" "sv_sent sv \<le> sv_sent sv0 + 2 * length pre"
      and cs: "\<forall>ch. ch \<notin> gu_channel ` set pre \<longrightarrow> sv_circuits sv ch = sv_circuits sv0 ch"
    and l: "last_error \<noteq> []" and ev: "sv_events sv = sv_events sv0" by (rule searchingE)
  have cands: "cands = (pre @ [u]) @ us" using pre(1) by simp
  have err: "(if x = [] then last_error else x) \<noteq> []" using l by simp
  have ev': "sv_events sv' = sv_events sv0" and same: "sv_circuits sv' = sv_circuits sv"
    and sent: "sv_sent sv' \<le> sv_sent sv0 + 2 * length (pre @ [u])"
    using assms(2) ev pre(2) by (simp_all add: contacted_def)
  have cs': "\<forall>ch. ch \<notin> gu_channel ` set (pre @ [u]) \<longrightarrow> sv_circuits sv' ch = sv_circuits sv0 ch"
    unfolding same using cs by simp
  then have "\<forall>ch. ch \<notin> gu_channel ` set (pre @ [u]) \<longrightarrow> sv_circuits (trip e u sv') ch = sv_circuits sv0 ch" by simp
  with cands err ev' sent show "searching cands sv0 us (if x = [] then last_error else x) (trip e u sv')"
    unfolding searching_def trip_fields(1,2) by blast
  show "searching cands sv0 us (if x = [] then last_error else x) sv'"
    unfolding searching_def using cands err ev' sent cs' by blast
qed

lemma found_success:
  assumes "searching cands sv0 (u # us) last_error sv" and "contacted sv sv'"
    and ok: "\<And>ev. ge_error ev = [] \<Longrightarrow> billed_to kg ev \<Longrightarrow> outcome_ok kg a [ev]" and "\<And>u. a \<noteq> Delegated u"
  shows "found kg cands sv0 a (record_success e kg u model us' status stream sv')"
proof -
  let ?sv = "record_success e kg u model us' status stream sv'"
  from assms(1) obtain pre where pre: "cands = pre @ u # us" "sv_sent sv \<le> sv_sent sv0 + 2 * length pre"
      and cs: "\<forall>ch. ch \<notin> gu_channel ` set pre \<longrightarrow> sv_circuits sv ch = sv_circuits sv0 ch"
    and ev: "sv_events sv = sv_events sv0" by (rule searchingE)
  obtain ev where new: "sv_events ?sv = sv_events sv' @ [ev]" and e: "ge_error ev = []" "billed_to kg ev" "ge_upstream ev = gu_channel u"
    by (simp add: record_success_def billed_to_def)
  have sent: "sv_sent ?sv \<le> sv_sent sv0 + 2 * length pre + 2" using assms(2) pre(2) by (simp add: contacted_def)
  have "\<forall>ch. ch \<notin> gu_channel ` set pre \<longrightarrow> sv_circuits ?sv ch = sv_circuits sv0 ch"
    using assms(2) cs by (simp add: contacted_def)
  with pre(1) e(3) sent have "served_by cands sv0 ?sv ev" unfolding served_by_def by blast
  moreover have "sv_events ?sv = sv_events sv0 @ [ev]" using new ev assms(2) by (simp add: contacted_def)
  moreover have "sv_sent ?sv \<le> sv_sent sv0 + 2 * length cands" using sent pre(1) by simp
  ultimately show ?thesis unfolding found_def using ok [OF e(1,2)] assms(4) by (metis empty_iff insert_iff list.set)
qed

lemma found_failure:
  assumes "searching cands sv0 us last_error sv" and "contacted sv sv'" and "us \<noteq> [] \<or> sv' = sv" and "err \<noteq> []"
    and ok: "\<And>ev. free_of_charge ev \<Longrightarrow> billed_to kg ev \<Longrightarrow> outcome_ok kg a [ev]" and "\<And>u. a \<noteq> Delegated u"
  shows "found kg cands sv0 a (record_failure e kg channel model status err stream sv')"
proof -
  let ?sv = "record_failure e kg channel model status err stream sv'"
  from assms(1) obtain pre where pre: "cands = pre @ us" "sv_sent sv \<le> sv_sent sv0 + 2 * length pre"
    and ev: "sv_events sv = sv_events sv0" by (rule searchingE)
  obtain ev where new: "sv_events ?sv = sv_events sv' @ [ev]" and e: "free_of_charge ev" "billed_to kg ev"
    using assms(4) by (simp add: record_failure_def billed_to_def free_of_charge_def)
  have "sv_events ?sv = sv_events sv0 @ [ev]" using new ev assms(2) by (simp add: contacted_def)
  moreover have "sv_sent ?sv \<le> sv_sent sv0 + 2 * length cands"
    using assms(2,3) pre by (cases us) (auto simp: contacted_def)
  moreover have "ge_error ev \<noteq> []" using e(1) by (simp add: free_of_charge_def)
  ultimately show ?thesis unfolding found_def using ok [OF e] assms(6) by (metis empty_iff insert_iff list.set)
qed

lemma ok_answers:
  "ge_error ev = [] \<Longrightarrow> billed_to kg ev \<Longrightarrow> outcome_ok kg (Answer s b) [ev]"
  "ge_error ev = [] \<Longrightarrow> billed_to kg ev \<Longrightarrow> outcome_ok kg (Events es) [ev]"
  "billed_to kg ev \<Longrightarrow> outcome_ok kg (Streamed out) [ev]"
  "free_of_charge ev \<Longrightarrow> billed_to kg ev \<Longrightarrow> outcome_ok kg (Refused s c) [ev]"
  by (simp_all add: outcome_ok_def)

lemma found_nothing:
  assumes "searching cands sv0 us last_error sv" and "outcome_ok kg a []" and "\<And>u. a = Delegated u \<Longrightarrow> u \<in> set cands"
  shows "found kg cands sv0 a sv"
proof -
  from assms(1) obtain pre where "cands = pre @ us" "sv_sent sv \<le> sv_sent sv0 + 2 * length pre" "sv_events sv = sv_events sv0"
    by (rule searchingE)
  with assms(2,3) show ?thesis unfolding found_def by auto
qed

text \<open>One step of the search keeps to the rules, for the requests of both kinds.\<close>

definition step_ok :: "authn \<Rightarrow> gateway_upstream list \<Rightarrow> 'c server \<Rightarrow> gateway_upstream list \<Rightarrow> string \<Rightarrow> verdict \<times> 'c server \<Rightarrow> bool" where
  "step_ok kg cands sv0 us last_error r = (case r of
      (Final a, sv1) \<Rightarrow> found kg cands sv0 a sv1
    | (Next x, sv1) \<Rightarrow> searching cands sv0 us (if x = [] then last_error else x) sv1)"

lemma asked:
  assumes "ask_renewing e org u ask again cred (sv\<lparr>sv_creds := c\<rparr>) = (r, sv1)"
  shows "contacted sv sv1"
proof -
  have "contacted (sv\<lparr>sv_creds := c\<rparr>) (snd (ask_renewing e org u ask again cred (sv\<lparr>sv_creds := c\<rparr>)))"
    by (rule contacted_asking)
  then show ?thesis unfolding assms snd_conv by (rule contacted_from_creds)
qed

lemma json_step_ok:
  assumes "searching cands sv0 (u # us) last_error sv"
    and "\<And>ex ev. ge_error ev = [] \<Longrightarrow> billed_to kg ev \<Longrightarrow> outcome_ok kg (reply ex) [ev]" and "\<And>ex u. reply ex \<noteq> Delegated u"
  shows "step_ok kg cands sv0 us last_error (json_step e kg kind raw est reply model stream u sv)"
proof (cases "ev_resolve e (sv_creds sv) (gk_org (fst kg)) u")
  case (Pair cr c)
  show ?thesis
  proof (cases cr)
    case None
    have "json_step e kg kind raw est reply model stream u sv = (Next ''upstream_credential_unavailable'', sv\<lparr>sv_creds := c\<rparr>)"
      unfolding json_step_def Pair None prod.case option.case ..
    then show ?thesis unfolding step_ok_def by (simp only: prod.case verdict.case) (rule searching_next(2) [OF assms(1) contacted_creds])
  next
    case (Some cred)
    let ?asking = "ask_renewing e (gk_org (fst kg)) u (\<lambda>n cr. ask_json e n cr u kind raw est)
                 (\<lambda>r. snd r \<noteq> None \<and> managed_rejected cred (ex_status (fst r))) cred (sv\<lparr>sv_creds := c\<rparr>)"
    obtain ex x sv1 where r: "?asking = ((ex, x), sv1)" by (cases ?asking rule: prod_cases3_left)
    note ok = asked [OF r]
    show ?thesis
    proof (cases x)
      case None
      have "json_step e kg kind raw est reply model stream u sv
          = (Final (reply ex), record_success e kg u model (ex_usage ex) (ex_status ex) stream sv1)"
        unfolding json_step_def Pair Some prod.case option.case r None ..
      with found_success [OF assms(1) ok assms(2) assms(3)] show ?thesis by (simp only: step_ok_def prod.case verdict.case)
    next
      case (Some y)
      have "json_step e kg kind raw est reply model stream u sv = (Next (ex_error ex), trip e u sv1)"
        unfolding json_step_def Pair \<open>cr = Some cred\<close> prod.case option.case r Some ..
      with searching_next(1) [OF assms(1) ok] show ?thesis by (simp only: step_ok_def prod.case verdict.case)
    qed
  qed
qed

lemma stream_step_ok:
  assumes "searching cands sv0 (u # us) last_error sv"
  shows "step_ok kg cands sv0 us last_error (stream_step e kg kind raw est model last_error u sv)"
proof (cases "ev_resolve e (sv_creds sv) (gk_org (fst kg)) u")
  case (Pair cr c)
  show ?thesis
  proof (cases cr)
    case None
    have "stream_step e kg kind raw est model last_error u sv = (Next ''upstream_credential_unavailable'', sv\<lparr>sv_creds := c\<rparr>)"
      unfolding stream_step_def Pair None prod.case option.case ..
    then show ?thesis unfolding step_ok_def by (simp only: prod.case verdict.case) (rule searching_next(2) [OF assms contacted_creds])
  next
    case (Some cred)
    let ?asking = "ask_renewing e (gk_org (fst kg)) u (\<lambda>n cr. ask_stream e n cr u kind raw est)
                 (\<lambda>((r, end), _). end \<noteq> SNone \<and> managed_rejected cred (ur_status r) \<and> \<not> ur_wrote r) cred (sv\<lparr>sv_creds := c\<rparr>)"
    obtain r x out sv1 where r: "?asking = (((r, x), out), sv1)" by (cases ?asking rule: prod_cases4_left)
    note ok = asked [OF r]
    have l: "last_error \<noteq> []" using assms by (simp add: searching_def)
    then have err: "(if ur_error r = [] then last_error else ur_error r) \<noteq> []" by simp
    have "found kg cands sv0 (Streamed out) (record_success e kg u model (ur_usage r) (ur_status r) True sv1)"
      by (rule found_success [OF assms ok]) (simp_all add: ok_answers)
    moreover have "found kg cands sv0 (Streamed out) (record_failure e kg (gu_channel u) model 502
        (if ur_error r = [] then last_error else ur_error r) True sv1)"
      by (rule found_failure [OF assms ok _ err]) (simp_all add: ok_answers)
    moreover have "stream_step e kg kind raw est model last_error u sv
        = (if x = SNone
           then (Final (Streamed out), record_success e kg u model (ur_usage r) (ur_status r) True sv1)
           else if ur_wrote r
           then (Final (Streamed out), record_failure e kg (gu_channel u) model 502
             (if ur_error r = [] then last_error else ur_error r) True sv1)
           else (Next (ur_error r), trip e u sv1))"
      unfolding stream_step_def Pair Some prod.case option.case r ..
    ultimately show ?thesis
      using searching_next(1) [OF assms ok] by (simp only: step_ok_def prod.case verdict.case split: if_split) blast
  qed
qed

lemma mock_step_ok:
  assumes "searching cands sv0 (u # us) last_error sv"
    and "\<And>x ev. reply u = Some x \<Longrightarrow> ge_error ev = [] \<Longrightarrow> billed_to kg ev \<Longrightarrow> outcome_ok kg (fst x) [ev]"
    and "\<And>x w. reply u = Some x \<Longrightarrow> fst x \<noteq> Delegated w"
  shows "step_ok kg cands sv0 us last_error (mock_step e kg p reply last_error u sv)"
proof (cases "reply u")
  case None
  with searching_next(1) [OF assms(1), of sv "[]"] show ?thesis by (simp add: mock_step_def step_ok_def contacted_def)
next
  case (Some x)
  with found_success [OF assms(1), of sv kg "fst x"] assms(2,3) [OF Some] show ?thesis
    by (cases x) (simp add: mock_step_def step_ok_def contacted_def)
qed

lemma all_failed_found:
  "searching cands sv0 [] last_error sv \<Longrightarrow>
   found kg cands sv0 (fst (all_failed e kg model stream code last_error sv)) (snd (all_failed e kg model stream code last_error sv))"
  unfolding all_failed_def fst_conv snd_conv
  by (rule found_failure [where sv = sv]) (auto simp: contacted_def ok_answers searching_def)

lemma search_found:
  assumes "\<And>last_error u us sv. searching cands sv0 (u # us) last_error sv \<Longrightarrow> step_ok kg cands sv0 us last_error (step last_error u sv)"
  shows "found kg cands sv0
     (fst (try_upstreams step (all_failed e kg model stream code) ''upstream_failed'' cands sv0))
     (snd (try_upstreams step (all_failed e kg model stream code) ''upstream_failed'' cands sv0))"
proof (rule try_upstreams_found)
  show "searching cands sv0 cands ''upstream_failed'' sv0" by (rule searching_start) simp
next
  fix last_error u us sv
  assume "searching cands sv0 (u # us) last_error sv"
  from assms [OF this] show "case step last_error u sv of (Final a, sv1) \<Rightarrow> found kg cands sv0 a sv1
      | (Next x, sv1) \<Rightarrow> searching cands sv0 us (if x = [] then last_error else x) sv1"
    by (simp add: step_ok_def)
qed (rule all_failed_found)

lemma searching_member: "searching cands sv0 (u # us) last_error sv \<Longrightarrow> u \<in> set cands"
  by (auto simp: searching_def)

lemma json_answer_ok [simp]: "json_answer ex \<noteq> Delegated u" "outcome_ok kg (json_answer ex) evs = outcome_ok kg (Answer 0 (Inl [])) evs"
  by (simp_all add: json_answer_def outcome_ok_def)

lemma anthropic_answer_ok [simp]: "anthropic_answer e p s b \<noteq> Delegated u"
    "outcome_ok kg (anthropic_answer e p s b) evs = outcome_ok kg (Answer 0 (Inl [])) evs"
  by (simp_all add: anthropic_answer_def outcome_ok_def Let_def)

lemma real_generation_found: "found kg cands sv (fst (real_generation e kg cands kind raw p sv)) (snd (real_generation e kg cands kind raw p sv))"
proof (cases "raw_payload_with_model (lb_dec (ev_lib e)) (lb_spr (ev_lib e)) raw (pl_model p)")
  case (Inr m)
  let ?spr = "lb_spr (ev_lib e)"
  show ?thesis
    unfolding real_generation_def Inr sum.case Let_def
  proof (rule search_found)
    fix last_error u us sv1
    assume s: "searching cands sv (u # us) last_error sv1"
    have "found kg cands sv (Delegated u) sv1"
      by (rule found_nothing [OF s]) (use searching_member [OF s] in \<open>simp_all add: outcome_ok_def\<close>)
    moreover have "step_ok kg cands sv us last_error (json_step e kg kind raw' est json_answer (pl_model p) False u sv1)" for raw' est
      by (rule json_step_ok [OF s]) (simp_all add: ok_answers)
    ultimately show "step_ok kg cands sv us last_error
        (if is_client_upstream ?spr u \<or> is_browser_upstream ?spr u then (Final (Delegated u), sv1)
         else if pl_stream p then stream_step e kg kind (ev_enc e (JObj m)) (estimate_usage ?spr p) (pl_model p) last_error u sv1
         else json_step e kg kind (ev_enc e (JObj m)) (estimate_usage ?spr p) json_answer (pl_model p) False u sv1)"
      using stream_step_ok [OF s] by (simp add: step_ok_def)
  qed
next
  case (Inl err)
  have start: "searching cands sv cands ''x'' sv" by (rule searching_start) simp
  have "found kg cands sv Crashed sv" by (rule found_nothing [OF start]) (simp_all add: outcome_ok_def)
  moreover have "found kg cands sv (Refused 400 ''invalid_json'') (record_failure e kg [] (pl_model p) 400 ''invalid_json'' (pl_stream p) sv)"
    by (rule found_failure [OF start]) (simp_all add: contacted_def ok_answers)
  ultimately show ?thesis using Inl by (cases err) (simp_all add: real_generation_def)
qed


lemma outcome_ok_shapes:
  "billed_to kg ev \<Longrightarrow> ge_error ev = [] \<Longrightarrow> outcome_ok kg (anthropic_answer e p st b) [ev]"
  "billed_to kg ev \<Longrightarrow> ge_error ev = [] \<Longrightarrow> outcome_ok kg (json_answer ex) [ev]"
  by (simp_all add: ok_answers)

lemma real_anthropic_found: "found kg cands sv (fst (real_anthropic e kg cands raw p sv)) (snd (real_anthropic e kg cands raw p sv))"
proof (cases "raw_payload_with_model (lb_dec (ev_lib e)) (lb_spr (ev_lib e)) raw (pl_model p)")
  case (Inr m)
  show ?thesis
    unfolding real_anthropic_def Inr sum.case Let_def
  proof (rule search_found)
    fix last_error u us sv1
    assume s: "searching cands sv (u # us) last_error sv1"
    have refused: "found kg cands sv (Refused 422 ''invalid_request_error'')
        (record_failure e kg (gu_channel u) (pl_model p) 422 code (pl_stream p) sv1)" if "code \<noteq> []" for code
      by (rule found_failure [OF s _ _ that]) (simp_all add: contacted_def ok_answers)
    have asked: "step_ok kg cands sv us last_error (json_step e kg ''chat'' raw' est
        (\<lambda>ex. anthropic_answer e p (ex_status ex) (exchange_body e ex)) (pl_model p) (pl_stream p) u sv1)" for raw' est
      by (rule json_step_ok [OF s]) (simp_all add: ok_answers)
    show "step_ok kg cands sv us last_error
        (if is_client_upstream (lb_spr (ev_lib e)) u
         then (Final (Refused 422 ''invalid_request_error''),
               record_failure e kg (gu_channel u) (pl_model p) 422 ''unsupported_capability'' (pl_stream p) sv1)
         else if is_browser_upstream (lb_spr (ev_lib e)) u
         then (Final (Refused 422 ''invalid_request_error''),
               record_failure e kg (gu_channel u) (pl_model p) 422 ''browser_protocol_unsupported'' (pl_stream p) sv1)
         else json_step e kg ''chat'' (ev_enc e (JObj m)) (estimate_usage (lb_spr (ev_lib e)) p)
                (\<lambda>ex. anthropic_answer e p (ex_status ex) (exchange_body e ex)) (pl_model p) (pl_stream p) u sv1)"
      using asked refused by (simp add: step_ok_def)
  qed
next
  case (Inl err)
  have start: "searching cands sv cands ''x'' sv" by (rule searching_start) simp
  have "found kg cands sv Crashed sv" by (rule found_nothing [OF start]) (simp_all add: outcome_ok_def)
  moreover have "found kg cands sv (Refused 400 ''invalid_request_error'') (record_failure e kg [] (pl_model p) 400 ''invalid_json'' (pl_stream p) sv)"
    by (rule found_failure [OF start]) (simp_all add: contacted_def ok_answers)
  ultimately show ?thesis using Inl by (cases err) (simp_all add: real_anthropic_def)
qed

lemma mock_found:
  assumes "\<And>u x ev. reply u = Some x \<Longrightarrow> ge_error ev = [] \<Longrightarrow> billed_to kg ev \<Longrightarrow> outcome_ok kg (fst x) [ev]"
    and "\<And>u x w. reply u = Some x \<Longrightarrow> fst x \<noteq> Delegated w"
  shows "found kg cands sv
     (fst (try_upstreams (mock_step e kg p reply) (all_failed e kg model stream code) ''upstream_failed'' cands sv))
     (snd (try_upstreams (mock_step e kg p reply) (all_failed e kg model stream code) ''upstream_failed'' cands sv))"
  by (rule search_found) (rule mock_step_ok [OF _ assms])

lemma mock_generation_found: "found kg cands sv (fst (mock_generation e kg cands kind p sv)) (snd (mock_generation e kg cands kind p sv))"
  unfolding mock_generation_def by (rule mock_found) (auto simp: ok_answers split: if_splits)

lemma mock_anthropic_found: "found kg cands sv (fst (mock_anthropic e kg cands p sv)) (snd (mock_anthropic e kg cands p sv))"
  unfolding mock_anthropic_def by (rule mock_found) (auto simp: ok_answers)


section \<open>The endpoints\<close>

text \<open>What a request may do, from the server \<open>sv\<close>: nothing is recorded for an unauthenticated request.\<close>

definition billed :: "'c env \<Rightarrow> string \<Rightarrow> string \<Rightarrow> 'c server \<Rightarrow> answer \<times> 'c server \<Rightarrow> bool" where
  "billed e authorization xkey sv r =
     (\<exists>evs. sv_events (snd r) = sv_events sv @ evs
        \<and> (case fst (enter e authorization xkey sv) of Inl _ \<Rightarrow> evs = [] | Inr kg \<Rightarrow> outcome_ok kg (fst r) evs))"

lemma enter_fields [simp]:
  "sv_events (snd (enter e authorization xkey sv)) = sv_events sv"
  "sv_sent (snd (enter e authorization xkey sv)) = sv_sent sv"
  "sv_circuits (snd (enter e authorization xkey sv)) = sv_circuits sv"
  by (simp_all add: enter_def split: prod.split)

definition outcome_from :: "authn \<Rightarrow> 'c server \<Rightarrow> answer \<times> 'c server \<Rightarrow> bool" where
  "outcome_from kg sv r = (\<exists>evs. sv_events (snd r) = sv_events sv @ evs \<and> outcome_ok kg (fst r) evs)"

lemma found_outcome: "found kg cands sv (fst r) (snd r) \<Longrightarrow> outcome_from kg sv r"
  by (auto simp: found_def outcome_from_def)

lemmas served_outcome =
  real_generation_found [THEN found_outcome] real_anthropic_found [THEN found_outcome]
  mock_generation_found [THEN found_outcome] mock_anthropic_found [THEN found_outcome]

lemma refused_outcome: "outcome_from kg sv (Refused s c, sv)"
  by (simp add: outcome_from_def outcome_ok_def)

lemma failure_outcome: "err \<noteq> [] \<Longrightarrow> outcome_from kg sv (Refused s c, record_failure e kg ch model st err stream sv)"
  by (simp add: outcome_from_def outcome_ok_def record_failure_def billed_to_def free_of_charge_def)

lemma dispatch_outcome:
  assumes "\<And>cands sv. outcome_from kg sv (serve cands sv)"
  shows "outcome_from kg sv (dispatch e kg unsupported unavailable p serve sv)"
proof (cases "available_candidates (lb_spr (ev_lib e)) (ev_cfg e) (ev_redis e) (snd kg) (pl_model p) (ev_now e) (sv_circuits sv)")
  case (Pair candidates cs)
  let ?sv = "sv\<lparr>sv_circuits := cs\<rparr>"
  have keep: "outcome_from kg ?sv r \<Longrightarrow> outcome_from kg sv r" for r by (simp add: outcome_from_def)
  show ?thesis
    unfolding dispatch_def Pair prod.case Let_def
    by (rule keep) (simp add: assms failure_outcome)
qed

lemma billed_enter:
  assumes "\<And>status code sv1. enter e authorization xkey sv = (Inl (status, code), sv1) \<Longrightarrow> r = (Refused status code, sv1)"
    and "\<And>kg sv1. enter e authorization xkey sv = (Inr kg, sv1) \<Longrightarrow> outcome_from kg sv1 r"
  shows "billed e authorization xkey sv r"
proof (cases "enter e authorization xkey sv")
  case (Pair x sv1)
  then have same: "sv_events sv1 = sv_events sv" using enter_fields(1) [of e authorization xkey sv] by simp
  show ?thesis
  proof (cases x)
    case (Inl y)
    then have "r = (Refused (fst y) (snd y), sv1)" using assms(1) Pair by (cases y) simp
    then show ?thesis using Pair Inl same by (simp add: billed_def)
  next
    case (Inr kg)
    then show ?thesis using assms(2) Pair same by (simp add: billed_def outcome_from_def)
  qed
qed

lemma generation_serves:
  "outcome_from kg sv (if b then real_generation e kg cands kind raw p sv else mock_generation e kg cands kind p sv)"
  by (simp add: served_outcome)

lemma anthropic_serves:
  "outcome_from kg sv
     (case List.find (is_client_upstream spr) cands of
        Some u \<Rightarrow> (Refused 422 code, record_failure e kg (gu_channel u) (pl_model p) 422 ''unsupported_capability'' (pl_stream p) sv)
      | None \<Rightarrow> if b then real_anthropic e kg cands raw p sv else mock_anthropic e kg cands p sv)"
  by (simp add: served_outcome failure_outcome split: option.split)

lemma generation_billed: "billed e authorization xkey sv (handle_gateway_generation e kind authorization xkey body sv)"
proof (rule billed_enter)
  fix status code sv1
  assume "enter e authorization xkey sv = (Inl (status, code), sv1)"
  then show "handle_gateway_generation e kind authorization xkey body sv = (Refused status code, sv1)"
    by (simp add: handle_gateway_generation_def)
next
  fix kg sv1
  assume "enter e authorization xkey sv = (Inr kg, sv1)"
  then show "outcome_from kg sv1 (handle_gateway_generation e kind authorization xkey body sv)"
    by (auto simp: handle_gateway_generation_def Let_def refused_outcome intro!: dispatch_outcome generation_serves split: option.split)
qed

lemma anthropic_billed: "billed e authorization xkey sv (handle_gateway_anthropic e authorization xkey body sv)"
proof (rule billed_enter)
  fix status code sv1
  assume "enter e authorization xkey sv = (Inl (status, code), sv1)"
  then show "handle_gateway_anthropic e authorization xkey body sv = (Refused status code, sv1)"
    by (simp add: handle_gateway_anthropic_def)
next
  fix kg sv1
  assume "enter e authorization xkey sv = (Inr kg, sv1)"
  then show "outcome_from kg sv1 (handle_gateway_anthropic e authorization xkey body sv)"
    by (auto simp: handle_gateway_anthropic_def Let_def refused_outcome intro!: dispatch_outcome anthropic_serves split: option.split)
qed

lemma models_billed: "billed e authorization xkey sv (gateway_models e authorization xkey sv)"
proof (rule billed_enter)
  fix status code sv1
  assume "enter e authorization xkey sv = (Inl (status, code), sv1)"
  then show "gateway_models e authorization xkey sv = (Refused status code, sv1)"
    by (simp add: gateway_models_def)
next
  fix kg sv1
  assume enter: "enter e authorization xkey sv = (Inr kg, sv1)"
  obtain cands cs where cs: "available_candidates (lb_spr (ev_lib e)) (ev_cfg e) (ev_redis e) (snd kg) [] (ev_now e) (sv_circuits sv1)
      = (cands, cs)" by (cases rule: prod.exhaust)
  have listing: "outcome_from kg sv1 (Answer st b, record_listing e kg (sv1\<lparr>sv_circuits := cs\<rparr>))" for st b
    by (simp add: outcome_from_def outcome_ok_def record_listing_def record_failure_def billed_to_def)
  have none: "outcome_from kg sv1 (Refused st c, record_failure e kg [] [] 502 ''no_upstream'' False (sv1\<lparr>sv_circuits := cs\<rparr>))" for st c
    using failure_outcome [of "''no_upstream''" kg "sv1\<lparr>sv_circuits := cs\<rparr>"] by (simp add: outcome_from_def)
  show "outcome_from kg sv1 (gateway_models e authorization xkey sv)"
    unfolding gateway_models_def enter prod.case sum.case cs Let_def by (simp add: listing none)
qed


section \<open>The order of the search\<close>

text \<open>\<open>passed_over step us (x, sv) (x', sv')\<close>: each upstream of \<open>us\<close> was asked in turn and gave no answer.\<close>

inductive passed_over ::
  "(string \<Rightarrow> gateway_upstream \<Rightarrow> 'c server \<Rightarrow> verdict \<times> 'c server) \<Rightarrow> gateway_upstream list
    \<Rightarrow> string \<times> 'c server \<Rightarrow> string \<times> 'c server \<Rightarrow> bool"
  for step
where
  nobody: "passed_over step [] s s"
| somebody: "step x u sv = (Next y, sv1) \<Longrightarrow> passed_over step us (if y = [] then x else y, sv1) s \<Longrightarrow> passed_over step (u # us) (x, sv) s"

inductive_cases passed_over_ConsE: "passed_over step (u # us) (x, sv) s"
inductive_simps passed_over_simps: "passed_over step [] s s'" "passed_over step (u # us) (x, sv) s"

definition search_spec ::
  "(string \<Rightarrow> gateway_upstream \<Rightarrow> 'c server \<Rightarrow> verdict \<times> 'c server) \<Rightarrow> (string \<Rightarrow> 'c server \<Rightarrow> answer \<times> 'c server)
    \<Rightarrow> string \<Rightarrow> gateway_upstream list \<Rightarrow> 'c server \<Rightarrow> answer \<times> 'c server \<Rightarrow> bool"
where
  "search_spec step give_up x us sv r =
     ((\<exists>pre u post y sv1. us = pre @ u # post \<and> passed_over step pre (x, sv) (y, sv1) \<and> step y u sv1 = (Final (fst r), snd r))
      \<or> (\<exists>y sv1. passed_over step us (x, sv) (y, sv1) \<and> give_up y sv1 = r))"

lemma search_spec_Cons:
  "search_spec step give_up x (u # us) sv r \<longleftrightarrow>
     (case step x u sv of (Final a, sv1) \<Rightarrow> r = (a, sv1) | (Next y, sv1) \<Rightarrow> search_spec step give_up (if y = [] then x else y) us sv1 r)"
proof (cases "step x u sv")
  case (Pair v sv1)
  show ?thesis
  proof (cases v)
    case (Final a)
    have "\<not> passed_over step (u # pre) (x, sv) s" for pre s
      using Pair Final by (simp add: passed_over_simps)
    then show ?thesis
      using Pair Final
      by (auto simp: search_spec_def Cons_eq_append_conv passed_over_simps) (blast intro: passed_over.nobody)
  next
    case (Next y)
    have over: "passed_over step (u # pre) (x, sv) s \<longleftrightarrow> passed_over step pre (if y = [] then x else y, sv1) s" for pre s
      using Pair Next by (simp add: passed_over_simps)
    have here: "\<not> (passed_over step [] (x, sv) (z, sv2) \<and> step z u sv2 = (Final (fst r), snd r))" for z sv2
      using Pair Next by (simp add: passed_over_simps)
    have "(\<exists>pre w post z sv2. u # us = pre @ w # post \<and> passed_over step pre (x, sv) (z, sv2) \<and> step z w sv2 = (Final (fst r), snd r))
      \<longleftrightarrow> (\<exists>pre w post z sv2. us = pre @ w # post \<and> passed_over step (u # pre) (x, sv) (z, sv2) \<and> step z w sv2 = (Final (fst r), snd r))"
      (is "?l \<longleftrightarrow> ?r")
    proof
      assume ?l
      then obtain pre w post z sv2 where at: "u # us = pre @ w # post" "passed_over step pre (x, sv) (z, sv2)"
        "step z w sv2 = (Final (fst r), snd r)" by blast
      then obtain pre' where "pre = u # pre'" using here by (cases pre) auto
      with at show ?r by (metis append_Cons list.inject)
    next
      assume ?r then show ?l by (metis append_Cons)
    qed
    then show ?thesis unfolding search_spec_def Pair Next prod.case verdict.case over by simp
  qed
qed

lemma search_iff: "try_upstreams step give_up x us sv = r \<longleftrightarrow> search_spec step give_up x us sv r"
proof (induction us arbitrary: x sv)
  case Nil
  show ?case by (simp add: search_spec_def passed_over_simps)
next
  case (Cons u us)
  then show ?case by (auto simp: search_spec_Cons split: prod.split verdict.split)
qed


text \<open>C11: Serving a request of a route sends at most two requests per upstream; only circuits of upstreams
  tried before the serving one open, and the event without error names an upstream of the route.\<close>

theorem requests_bounded:
  "(case real_generation e kg cands kind raw p sv of (a, sv1) \<Rightarrow> found kg cands sv a sv1)
   \<and> (case real_anthropic e kg cands raw p sv of (a, sv1) \<Rightarrow> found kg cands sv a sv1)"
  by (simp add: case_prod_beta real_generation_found real_anthropic_found)

section \<open>Circuits\<close>

lemma open_circuit_blocks:
  "circuit_blocks None ch now (open_circuit ch' t cs) = (if ch = ch' then now \<le> t + circuit_period else circuit_blocks None ch now cs)"
  by (cases "cs ch") (simp_all add: circuit_blocks_def circuit_open_def cached_circuit_def open_circuit_def not_less)

text \<open>Without Redis, an upstream whose circuit opened at \<open>t\<close> is no candidate for thirty seconds, after
  which it is one again if the route and the policy have it; other channels are not affected.\<close>

theorem tripped_upstream_rests:
  "set (fst (available_candidates spr cfg None g model now (open_circuit ch t cs)))
   = {u \<in> set (plan_gateway_route g). candidate_allowed spr cfg model now u
       \<and> (if gu_channel u = ch then t + 30 * second < now else \<not> circuit_blocks None (gu_channel u) now cs)}"
  by (auto simp: available_candidates_set open_circuit_blocks circuit_period_def)

section \<open>Experimental gateways\<close>

text \<open>Without Redis, a request to an experimental gateway that authenticates is refused before its body
  is read: nothing is sent, recorded or tripped.\<close>

theorem experimental_needs_redis:
  assumes "ev_redis e = None" and "fst (enter e authorization xkey sv) = Inr kg"
    and "experimental_limits (lb_spr (ev_lib e)) (snd kg) \<noteq> None"
  shows "handle_gateway_generation e kind authorization xkey body sv
       = (Refused 503 ''experimental_concurrency_unavailable'', snd (enter e authorization xkey sv))
     \<and> handle_gateway_anthropic e authorization xkey body sv = (Refused 503 ''rate_limit_error'', snd (enter e authorization xkey sv))
     \<and> sv_sent (snd (enter e authorization xkey sv)) = sv_sent sv \<and> sv_events (snd (enter e authorization xkey sv)) = sv_events sv
     \<and> sv_circuits (snd (enter e authorization xkey sv)) = sv_circuits sv"
proof -
  obtain p where p: "experimental_limits (lb_spr (ev_lib e)) (snd kg) = Some p" using assms(3) by blast
  have slot: "experimental_slot (lb_spr (ev_lib e)) (ev_redis e) (snd kg) = Some (503, ''experimental_concurrency_unavailable'')"
    unfolding experimental_slot_def assms(1) p by (simp add: acquire_concurrency_def)
  have enter: "enter e authorization xkey sv = (Inr kg, snd (enter e authorization xkey sv))"
    using assms(2) by (simp add: prod_eq_iff)
  have "handle_gateway_generation e kind authorization xkey body sv
      = (Refused 503 ''experimental_concurrency_unavailable'', snd (enter e authorization xkey sv))"
    unfolding handle_gateway_generation_def by (subst enter) (simp add: slot)
  moreover have "handle_gateway_anthropic e authorization xkey body sv = (Refused 503 ''rate_limit_error'', snd (enter e authorization xkey sv))"
    unfolding handle_gateway_anthropic_def by (subst enter) (simp add: slot)
  ultimately show ?thesis by simp
qed

text \<open>An experimental gateway: one channel that is signed in with Codex.\<close>

definition experimental_db :: gateway_db where
  "experimental_db = sample_db\<lparr>
     gdb_links := [\<lparr>gl_id = ''l1'', gl_gateway = ''g1'', gl_channel = ''c1'', gl_weight = 1, gl_priority = 1, gl_enabled = True\<rparr>],
     gdb_channels := [\<lparr>ch_id = ''c1'', ch_name = ''n'', ch_provider = ''openai'', ch_owner_type = ''platform'', ch_owner_id = None,
       ch_org = Some ''o1'', ch_type = ''openai'', ch_model = ''m'', ch_endpoint = ''e'', ch_status = ''healthy'', ch_score = 1,
       ch_gateway_enabled = True, ch_managed_source = None, ch_deleted_at = None, ch_success_rate = 1, ch_latency_p95 = 1,
       ch_cost_usd = 1, ch_config = [(''authMethod'', JStr ''codex_oauth'')],
       ch_connection = None, ch_connection_model = None\<rparr>]\<rparr>"

definition sample_server :: "unit server" where
  "sample_server = \<lparr>sv_gate = \<lparr>gt_db = experimental_db, gt_limiter = (\<lambda>_. None)\<rparr>, sv_circuits = (\<lambda>_. None), sv_events = [],
     sv_sent = 0, sv_creds = ()\<rparr>"

definition sample_env :: "unit env" where
  "sample_env = \<lparr>ev_hash = id,
     ev_lib = \<lparr>lb_dec = (\<lambda>_. None), lb_spr = (\<lambda>_. []), lb_esc = id, lb_lines = (\<lambda>_. []), lb_parse = (\<lambda>_. None), lb_render = (\<lambda>_. []),
       lb_target_ok = (\<lambda>_. False), lb_ip = (\<lambda>_. None), lb_stamp = [], lb_secs = 0\<rparr>,
     ev_enc = (\<lambda>_. []), ev_gen = (\<lambda>_. []), ev_nanos = [], ev_redis = None, ev_cfg = no_operator_settings, ev_real = True,
     ev_net = (\<lambda>_ _. TFailed False), ev_stream_net = (\<lambda>_ _. SFailed False), ev_cap = 0, ev_resolve = (\<lambda>c _ _. (None, c)),
     ev_renew = (\<lambda>c _ _. (None, c)), ev_prices = [], ev_path = [], ev_now = 5\<rparr>"

lemma sample_enters:
  "case fst (enter sample_env ''Bearer sk-1'' [] sample_server) of Inr kg \<Rightarrow> experimental_limits (\<lambda>_. []) (snd kg) \<noteq> None | _ \<Rightarrow> False"
  by code_simp

theorem experimental_needs_redis_witness:
  "fst (handle_gateway_generation sample_env ''chat'' ''Bearer sk-1'' [] (Some ''{}'') sample_server)
     = Refused 503 ''experimental_concurrency_unavailable''"
proof -
  obtain kg where kg: "fst (enter sample_env ''Bearer sk-1'' [] sample_server) = Inr kg" "experimental_limits (\<lambda>_. []) (snd kg) \<noteq> None"
    using sample_enters by (auto split: sum.splits)
  have "ev_redis sample_env = None" "lb_spr (ev_lib sample_env) = (\<lambda>_. [])" by (simp_all add: sample_env_def)
  then show ?thesis using experimental_needs_redis [OF _ kg(1)] kg(2) by simp
qed

end
