(* ===== verification/Connection_Store.thy ===== *)
theory Connection_Store
  imports Gateway_Store
begin

text \<open>
  Connections to AI services, \<open>internal/store/connections.go\<close> and \<open>connection_auth.go\<close>: creating,
  validating, rotating and deleting a connection, the authorization attempts behind it, the
  OAuth secrets with their version, and quick relays. The tables are \<open>ai_connections\<close>,
  \<open>ai_connection_secrets\<close>, \<open>ai_connection_models\<close>, \<open>ai_authorization_attempts\<close>,
  \<open>ai_quick_relay_requests\<close> and those of the gateways. Random ids are arguments, lists of ids as long as the rows they are
  for; foreign keys, the encoding of an error message cut at 240 bytes and the column
  \<open>policy_version\<close> are left out. The advisory locks of the code make each operation one step.
\<close>

section \<open>Tables\<close>

record ai_connection =
  ac_id :: string
  ac_owner :: string
  ac_org :: string
  ac_provider :: string
  ac_product_line :: string
  ac_region :: string
  ac_workspace :: string
  ac_auth_method :: string
  ac_protocol :: string
  ac_adapter :: string
  ac_endpoint :: string
  ac_config :: obj
  ac_display :: string
  ac_status :: string
  ac_auth_status :: string
  ac_sharing :: string
  ac_risk :: string
  ac_adapter_version :: string
  ac_terms :: string
  ac_account_mask :: string
  ac_stage :: string
  ac_latency :: int
  ac_model_count :: int
  ac_error_code :: string
  ac_error_message :: string
  ac_validated :: "time option"
  ac_created :: time
  ac_updated :: time
  ac_deleted :: "time option"

record conn_secret =
  sx_connection :: string
  sx_ciphertext :: string
  sx_nonce :: string
  sx_mask :: string
  sx_fingerprint :: string
  sx_encryption_key :: string
  sx_fingerprint_key :: string
  sx_algorithm :: string
  sx_version :: int
  sx_type :: string
  sx_format :: string
  sx_subject :: string
  sx_expires :: "time option"
  sx_next_refresh :: "time option"
  sx_last_refreshed :: "time option"
  sx_failures :: int
  sx_error_code :: string

record conn_model =
  cm_id :: string
  cm_connection :: string
  cm_provider_model :: string
  cm_display :: string
  cm_enabled :: bool
  cm_verification :: string
  cm_latency :: int
  cm_error_code :: string
  cm_error_message :: string
  cm_validated :: "time option"
  cm_route :: "string option"
  cm_created :: time

record auth_attempt =
  aa_id :: string
  aa_owner :: string
  aa_org :: string
  aa_provider :: string
  aa_method :: string
  aa_status :: string
  aa_mode :: string
  aa_connection :: "string option"
  aa_error_code :: string
  aa_error_message :: string
  aa_started :: time
  aa_completed :: "time option"
  aa_expires :: time

record relay_reveal =
  rv_ciphertext :: string
  rv_nonce :: string
  rv_encryption_key :: string
  rv_fingerprint :: string
  rv_fingerprint_key :: string
  rv_mask :: string

record relay_request =
  rq_id :: string
  rq_owner :: string
  rq_org :: string
  rq_idempotency :: string
  rq_hash :: string
  rq_connection :: string
  rq_gateway :: string
  rq_gateway_key :: string
  rq_reveal :: relay_reveal
  rq_status :: string
  rq_expires :: time

record channel_secret =
  cs_channel :: string
  cs_ciphertext :: string
  cs_nonce :: string
  cs_mask :: string
  cs_fingerprint :: string

record connection_db =
  kdb_gateways :: gateway_db
  kdb_connections :: "ai_connection list"
  kdb_secrets :: "conn_secret list"
  kdb_models :: "conn_model list"
  kdb_attempts :: "auth_attempt list"
  kdb_relays :: "relay_request list"
  kdb_channel_secrets :: "channel_secret list"
  kdb_accounts :: accounts

definition audit_gateways :: "string \<Rightarrow> string \<Rightarrow> gateway_db \<Rightarrow> gateway_db" where
  "audit_gateways action object db = db\<lparr>gdb_audits := gdb_audits db @ [(action, object)]\<rparr>"

definition audit_connection :: "string \<Rightarrow> string \<Rightarrow> connection_db \<Rightarrow> connection_db" where
  "audit_connection action object db = db\<lparr>kdb_gateways := audit_gateways action object (kdb_gateways db)\<rparr>"

text \<open>The first error of checks made in order.\<close>

fun first_error :: "unit res list \<Rightarrow> unit res" where
  "first_error [] = Inr ()"
| "first_error (Inl e # cs) = Inl e"
| "first_error (Inr _ # cs) = first_error cs"

definition require :: "bool \<Rightarrow> err \<Rightarrow> unit res" where
  "require ok e = (if ok then Inr () else Inl e)"

lemma first_error_ok: "first_error cs = Inr u \<longleftrightarrow> (\<forall>c\<in>set cs. is_ok c)"
  by (induction cs rule: first_error.induct) auto

lemma is_ok_require [simp]: "is_ok (require ok e) = ok"
  by (simp add: require_def)

section \<open>Reading connections\<close>

definition connection_live :: "ai_connection \<Rightarrow> bool" where
  "connection_live c = (ac_status c \<noteq> ''deleted'' \<and> ac_deleted c = None)"

definition owned_by :: "string \<Rightarrow> string \<Rightarrow> ai_connection \<Rightarrow> bool" where
  "owned_by owner org c = (ac_owner c = owner \<and> ac_org c = org)"

definition live_connection_of :: "string \<Rightarrow> string \<Rightarrow> string \<Rightarrow> ai_connection \<Rightarrow> bool" where
  "live_connection_of owner org cid c = (ac_id c = cid \<and> owned_by owner org c \<and> connection_live c)"

text \<open>\<open>ai_connections c join ai_connection_secrets s on s.connection_id=c.id\<close>\<close>

definition with_secret :: "connection_db \<Rightarrow> (ai_connection \<times> conn_secret) list" where
  "with_secret db = concat (map (\<lambda>c. map (Pair c) (filter (\<lambda>s. sx_connection s = ac_id c) (kdb_secrets db)))
     (kdb_connections db))"

record connection_view = ai_connection +
  av_mask :: string
  av_models :: "conn_model list"

definition ai_connection_models :: "string \<Rightarrow> connection_db \<Rightarrow> conn_model list" where
  "ai_connection_models cid db =
     sort_stable (\<lambda>a b. cm_created a < cm_created b) (filter (\<lambda>m. cm_connection m = cid) (kdb_models db))"

definition scan_connection :: "connection_db \<Rightarrow> ai_connection \<times> conn_secret \<Rightarrow> connection_view" where
  "scan_connection db cs = ai_connection.extend (fst cs)
     (connection_view.fields (sx_mask (snd cs)) (ai_connection_models (ac_id (fst cs)) db))"

definition connections_for :: "string \<Rightarrow> string \<Rightarrow> connection_db \<Rightarrow> connection_view list" where
  "connections_for owner org db =
     map (scan_connection db) (sort_stable (\<lambda>a b. ac_created (fst a) > ac_created (fst b))
       (filter (\<lambda>(c, _). owned_by owner org c \<and> connection_live c) (with_secret db)))"

definition connection_for :: "string \<Rightarrow> string \<Rightarrow> string \<Rightarrow> connection_db \<Rightarrow> connection_view res" where
  "connection_for owner org cid db =
     (case query_row (\<lambda>(c, _). live_connection_of owner org cid c) (with_secret db) of
        Inl e \<Rightarrow> Inl e
      | Inr cs \<Rightarrow> Inr (scan_connection db cs))"

text \<open>The secret, with the owner and the provider of its connection.\<close>

definition connection_secret_for ::
  "string \<Rightarrow> string \<Rightarrow> string \<Rightarrow> connection_db \<Rightarrow> (ai_connection \<times> conn_secret) res"
where
  "connection_secret_for owner org cid db = query_row (\<lambda>(c, _). live_connection_of owner org cid c) (with_secret db)"

section \<open>Duplicates\<close>

definition same_credential ::
  "string \<Rightarrow> string \<Rightarrow> string \<Rightarrow> string \<Rightarrow> conn_secret \<Rightarrow> string \<Rightarrow> ai_connection \<times> conn_secret \<Rightarrow> bool"
where
  "same_credential owner org provider endpoint credential exclude cs =
     (owned_by owner org (fst cs) \<and> ac_provider (fst cs) = provider \<and> ac_endpoint (fst cs) = endpoint
      \<and> ac_id (fst cs) \<noteq> exclude \<and> connection_live (fst cs)
      \<and> sx_fingerprint_key (snd cs) = sx_fingerprint_key credential
      \<and> sx_fingerprint (snd cs) = sx_fingerprint credential)"

definition credential_exists ::
  "string \<Rightarrow> string \<Rightarrow> string \<Rightarrow> string \<Rightarrow> conn_secret \<Rightarrow> string \<Rightarrow> connection_db \<Rightarrow> bool"
where
  "credential_exists owner org provider endpoint credential exclude db =
     sql_exists (same_credential owner org provider endpoint credential exclude) (with_secret db)"

definition err_duplicate :: err where "err_duplicate = ErrNamed ''AI connection credential is already connected''"

definition reject_duplicate_credential ::
  "string \<Rightarrow> string \<Rightarrow> string \<Rightarrow> string \<Rightarrow> conn_secret \<Rightarrow> string \<Rightarrow> connection_db \<Rightarrow> unit res"
where
  "reject_duplicate_credential owner org provider endpoint credential exclude db =
     require (\<not> credential_exists owner org provider endpoint credential exclude db) err_duplicate"

definition reject_duplicate_browser_provider :: "string \<Rightarrow> string \<Rightarrow> string \<Rightarrow> string \<Rightarrow> connection_db \<Rightarrow> unit res" where
  "reject_duplicate_browser_provider owner org provider exclude db =
     require (\<not> sql_exists (\<lambda>c. owned_by owner org c \<and> ac_provider c = to_lower (trim_space provider)
         \<and> ac_auth_method c = ''opencli_browser'' \<and> ac_id c \<noteq> exclude \<and> connection_live c) (kdb_connections db)) err_duplicate"

definition reject_duplicate_provider_method ::
  "string \<Rightarrow> string \<Rightarrow> string \<Rightarrow> string \<Rightarrow> string \<Rightarrow> connection_db \<Rightarrow> unit res"
where
  "reject_duplicate_provider_method owner org provider method exclude db =
     require (\<not> sql_exists (\<lambda>c. owned_by owner org c \<and> ac_provider c = to_lower (trim_space provider)
         \<and> ac_auth_method c = to_lower (trim_space method) \<and> ac_id c \<noteq> exclude
         \<and> ac_status c \<notin> {''deleted'', ''disabled''} \<and> ac_deleted c = None) (kdb_connections db)) err_duplicate"

section \<open>Validation results\<close>

record model_result =
  mr_model :: string
  mr_ok :: bool
  mr_latency :: int
  mr_error_code :: string
  mr_error_message :: string

record validation =
  vl_ok :: bool
  vl_stage :: string
  vl_latency :: int
  vl_model_count :: int
  vl_error_code :: string
  vl_error_message :: string
  vl_models :: "model_result list"

definition verification_status :: "bool \<Rightarrow> string" where
  "verification_status ok = (if ok then ''verified'' else ''unverified'')"

definition validated_status :: "validation \<Rightarrow> string" where
  "validated_status v = (if vl_ok v then ''active'' else ''attention'')"

definition model_validation :: "validation \<Rightarrow> string \<Rightarrow> model_result" where
  "model_validation v model = (case List.find (\<lambda>r. mr_model r = model) (vl_models v) of
      Some r \<Rightarrow> r
    | None \<Rightarrow> \<lparr>mr_model = model, mr_ok = vl_ok v, mr_latency = vl_latency v, mr_error_code = vl_error_code v,
               mr_error_message = vl_error_message v\<rparr>)"

definition set_model_result :: "bool \<Rightarrow> int \<Rightarrow> string \<Rightarrow> string \<Rightarrow> time \<Rightarrow> conn_model \<Rightarrow> conn_model" where
  "set_model_result ok latency code msg now m =
     m\<lparr>cm_verification := verification_status ok, cm_latency := latency, cm_error_code := code,
       cm_error_message := msg, cm_validated := Some now\<rparr>"

fun apply_model_results :: "string \<Rightarrow> model_result list \<Rightarrow> time \<Rightarrow> conn_model list \<Rightarrow> conn_model list res" where
  "apply_model_results cid [] now ms = Inr ms"
| "apply_model_results cid (r # rs) now ms =
     (let sel = (\<lambda>m. cm_connection m = cid \<and> cm_provider_model m = mr_model r \<and> cm_enabled m) in
      if sql_affected sel ms \<noteq> 1 then Inl (ErrNamed ''validation result references an unavailable model'')
      else apply_model_results cid rs now
             (sql_update sel (set_model_result (mr_ok r) (mr_latency r) (mr_error_code r) (mr_error_message r) now) ms))"

definition apply_model_validation :: "string \<Rightarrow> validation \<Rightarrow> time \<Rightarrow> conn_model list \<Rightarrow> conn_model list res" where
  "apply_model_validation cid v now ms =
     (let sel = (\<lambda>m. cm_connection m = cid \<and> cm_enabled m) in
      if vl_models v = []
      then Inr (sql_update sel (set_model_result (vl_ok v) (vl_latency v) (vl_error_code v) (vl_error_message v) now) ms)
      else apply_model_results cid (vl_models v) now
             (sql_update sel (set_model_result False 0 ''validation_result_missing''
                ''No validation result was returned for this model'' now) ms))"

section \<open>Authorization attempts\<close>

definition attempt_open :: "auth_attempt \<Rightarrow> bool" where
  "attempt_open a = (aa_status a \<in> {''authorization_pending'', ''validating''})"

definition attempt_of :: "string \<Rightarrow> string \<Rightarrow> auth_attempt \<Rightarrow> bool" where
  "attempt_of owner aid a = (aa_id a = aid \<and> aa_owner a = owner)"

definition completed_attempt :: "string \<Rightarrow> time \<Rightarrow> auth_attempt \<Rightarrow> auth_attempt" where
  "completed_attempt cid now a = a\<lparr>aa_status := ''completed'', aa_connection := Some cid, aa_error_code := [],
     aa_error_message := [], aa_completed := Some now\<rparr>"

text \<open>\<open>update ai_authorization_attempts\<close>, with an audit when a row changed.\<close>

definition update_attempt ::
  "(auth_attempt \<Rightarrow> bool) \<Rightarrow> (auth_attempt \<Rightarrow> auth_attempt) \<Rightarrow> (connection_db \<Rightarrow> connection_db) \<Rightarrow> connection_db
    \<Rightarrow> unit res \<times> connection_db"
where
  "update_attempt sel f audit db =
     (if sql_affected sel (kdb_attempts db) \<noteq> 1 then (Inl ErrNoRows, db\<lparr>kdb_attempts := sql_update sel f (kdb_attempts db)\<rparr>)
      else (Inr (), audit (db\<lparr>kdb_attempts := sql_update sel f (kdb_attempts db)\<rparr>)))"

definition failed_attempt :: "string \<Rightarrow> string \<Rightarrow> time \<Rightarrow> auth_attempt \<Rightarrow> auth_attempt" where
  "failed_attempt code0 msg now a =
     (let code1 = trim_space code0; code = (if code1 = [] then ''authorization_failed'' else code1)
      in a\<lparr>aa_status := (if code = ''expired'' then ''expired'' else ''failed''), aa_error_code := code,
           aa_error_message := take 240 msg, aa_completed := Some now\<rparr>)"

definition fail_authorization_attempt ::
  "string \<Rightarrow> string \<Rightarrow> string \<Rightarrow> string \<Rightarrow> time \<Rightarrow> connection_db \<Rightarrow> unit res \<times> connection_db"
where
  "fail_authorization_attempt owner aid code0 msg now db =
     (let sel = (\<lambda>a. attempt_of owner aid a \<and> attempt_open a); f = failed_attempt code0 msg now
      in if sql_affected sel (kdb_attempts db) = 0 then (Inl ErrNoRows, db)
         else (Inr (), audit_connection ''ai_authorization.failed'' aid
                 (db\<lparr>kdb_attempts := sql_update sel f (kdb_attempts db)\<rparr>)))"

text \<open>Reading a pending attempt after its time also fails it.\<close>

definition authorization_attempt_for :: "string \<Rightarrow> string \<Rightarrow> time \<Rightarrow> connection_db \<Rightarrow> auth_attempt res \<times> connection_db" where
  "authorization_attempt_for owner aid now db =
     (case query_row (attempt_of owner aid) (kdb_attempts db) of
        Inl e \<Rightarrow> (Inl e, db)
      | Inr a \<Rightarrow>
          if aa_status a = ''authorization_pending'' \<and> aa_expires a \<le> now
          then (Inr (a\<lparr>aa_status := ''expired'', aa_error_code := ''expired'',
                       aa_error_message := ''Authorization window expired''\<rparr>),
                snd (fail_authorization_attempt (aa_owner a) (aa_id a) ''expired'' ''Authorization window expired'' now db))
          else (Inr a, db))"

record attempt_input =
  ai_id :: string
  ai_owner :: string
  ai_org :: string
  ai_provider :: string
  ai_method :: string
  ai_mode :: string
  ai_expires :: time

definition create_authorization_attempt :: "attempt_input \<Rightarrow> time \<Rightarrow> connection_db \<Rightarrow> auth_attempt res \<times> connection_db" where
  "create_authorization_attempt inp now db =
     (case first_error
        [require (ai_provider inp \<in> {''openai'', ''gemini'', ''deepseek'', ''grok''})
           (ErrConstraint ''ai_authorization_attempts_provider_check''),
         require (ai_method inp \<in> {''api_key_guided'', ''oauth'', ''codex_oauth'', ''deepseek_web_token''})
           (ErrConstraint ''ai_authorization_attempts_auth_method_check''),
         require (ai_mode inp \<in> {''redirect_callback'', ''paste_callback'', ''guided_api_key'', ''paste_token''})
           (ErrConstraint ''ai_authorization_attempts_completion_mode_check''),
         require (\<not> sql_exists (\<lambda>a. aa_id a = ai_id inp) (kdb_attempts db))
           (ErrConstraint ''ai_authorization_attempts_pkey'')] of
        Inl e \<Rightarrow> (Inl e, db)
      | Inr _ \<Rightarrow>
          authorization_attempt_for (ai_owner inp) (ai_id inp) now
            (audit_connection ''ai_authorization.started'' (ai_id inp)
              (db\<lparr>kdb_attempts := kdb_attempts db @ [\<lparr>aa_id = ai_id inp, aa_owner = ai_owner inp, aa_org = ai_org inp,
                  aa_provider = ai_provider inp, aa_method = ai_method inp, aa_status = ''authorization_pending'',
                  aa_mode = ai_mode inp, aa_connection = None, aa_error_code = [], aa_error_message = [], aa_started = now,
                  aa_completed = None, aa_expires = ai_expires inp\<rparr>]\<rparr>)))"

definition set_authorization_validating :: "string \<Rightarrow> string \<Rightarrow> time \<Rightarrow> connection_db \<Rightarrow> unit res \<times> connection_db" where
  "set_authorization_validating owner aid now db =
     update_attempt (\<lambda>a. attempt_of owner aid a \<and> aa_status a = ''authorization_pending'' \<and> aa_expires a > now)
       (\<lambda>a. a\<lparr>aa_status := ''validating''\<rparr>) id db"

definition complete_authorization_attempt ::
  "string \<Rightarrow> string \<Rightarrow> string \<Rightarrow> time \<Rightarrow> connection_db \<Rightarrow> unit res \<times> connection_db"
where
  "complete_authorization_attempt owner aid cid now db =
     update_attempt (\<lambda>a. attempt_of owner aid a \<and> attempt_open a) (completed_attempt cid now)
       (audit_connection ''ai_authorization.completed'' aid) db"

definition cancel_authorization_attempt :: "string \<Rightarrow> string \<Rightarrow> time \<Rightarrow> connection_db \<Rightarrow> unit res \<times> connection_db" where
  "cancel_authorization_attempt owner aid now db =
     update_attempt (\<lambda>a. attempt_of owner aid a \<and> aa_status a = ''authorization_pending'')
       (\<lambda>a. a\<lparr>aa_status := ''cancelled'', aa_completed := Some now\<rparr>)
       (audit_connection ''ai_authorization.cancelled'' aid) db"

text \<open>Completion inside a transaction, which the caller rolls back on an error.\<close>

definition complete_attempt_in :: "string \<Rightarrow> string \<Rightarrow> string \<Rightarrow> time \<Rightarrow> connection_db \<Rightarrow> connection_db res" where
  "complete_attempt_in aid0 owner cid now db =
     (let aid = trim_space aid0;
          sel = (\<lambda>a. attempt_of owner aid a \<and> attempt_open a \<and> aa_expires a > now) in
      if aid = [] then Inr db
      else if sql_affected sel (kdb_attempts db) \<noteq> 1 then Inl ErrNoRows
      else Inr (audit_connection ''ai_authorization.completed'' aid
             (db\<lparr>kdb_attempts := sql_update sel (completed_attempt cid now) (kdb_attempts db)\<rparr>)))"

section \<open>Creating a connection\<close>

record connection_input =
  ci_owner :: string
  ci_org :: string
  ci_provider :: string
  ci_product_line :: string
  ci_region :: string
  ci_workspace :: string
  ci_protocol :: string
  ci_adapter :: string
  ci_endpoint :: string
  ci_config :: obj
  ci_display :: string
  ci_models :: "string list"
  ci_credential :: conn_secret
  ci_validation :: validation
  ci_auth_method :: string
  ci_auth_status :: string
  ci_sharing :: string
  ci_risk :: string
  ci_adapter_version :: string
  ci_terms :: string
  ci_account_mask :: string
  ci_authorization :: string

definition trimmed_or :: "string \<Rightarrow> string \<Rightarrow> string" where
  "trimmed_or v d = (let t = trim_space v in if t = [] then d else t)"

definition new_connection :: "connection_input \<Rightarrow> string \<Rightarrow> time \<Rightarrow> ai_connection" where
  "new_connection inp cid now = \<lparr>ac_id = cid, ac_owner = ci_owner inp, ac_org = ci_org inp, ac_provider = ci_provider inp,
     ac_product_line = ci_product_line inp, ac_region = ci_region inp, ac_workspace = ci_workspace inp,
     ac_auth_method = trimmed_or (ci_auth_method inp) ''api_key'', ac_protocol = ci_protocol inp,
     ac_adapter = ci_adapter inp, ac_endpoint = ci_endpoint inp, ac_config = ci_config inp,
     ac_display = trimmed_or (ci_display inp) (trim_space (ci_product_line inp)),
     ac_status = validated_status (ci_validation inp), ac_auth_status = trimmed_or (ci_auth_status inp) ''active'',
     ac_sharing = trimmed_or (ci_sharing inp) ''personal'', ac_risk = trimmed_or (ci_risk inp) ''standard'',
     ac_adapter_version = trimmed_or (ci_adapter_version inp) ''api-key-v1'', ac_terms = trim_space (ci_terms inp),
     ac_account_mask = trim_space (ci_account_mask inp), ac_stage = vl_stage (ci_validation inp),
     ac_latency = vl_latency (ci_validation inp), ac_model_count = vl_model_count (ci_validation inp),
     ac_error_code = vl_error_code (ci_validation inp), ac_error_message = vl_error_message (ci_validation inp),
     ac_validated = Some now, ac_created = now, ac_updated = now, ac_deleted = None\<rparr>"

definition new_connection_id :: "string \<Rightarrow> string" where "new_connection_id uuid = ''aic_'' @ uuid"

definition new_secret :: "conn_secret \<Rightarrow> string \<Rightarrow> conn_secret" where
  "new_secret s cid = s\<lparr>sx_connection := cid, sx_version := 1, sx_type := trimmed_or (sx_type s) ''api_key'',
     sx_format := trimmed_or (sx_format s) ''opaque''\<rparr>"

definition new_model :: "validation \<Rightarrow> string \<Rightarrow> time \<Rightarrow> string \<times> string \<Rightarrow> conn_model" where
  "new_model v cid now mu = (case mu of (model, uuid) \<Rightarrow>
     (let r = model_validation v model in
      \<lparr>cm_id = ''aicm_'' @ uuid, cm_connection = cid, cm_provider_model = model, cm_display = model, cm_enabled = True,
       cm_verification = verification_status (mr_ok r), cm_latency = mr_latency r, cm_error_code = mr_error_code r,
       cm_error_message = mr_error_message r, cm_validated = Some now, cm_route = None, cm_created = now\<rparr>))"

text \<open>The check constraints of the two tables, as the migrations 0046 to 0052 of \<open>db/migrations\<close> leave them.\<close>

definition connection_checks :: "ai_connection \<Rightarrow> conn_secret \<Rightarrow> unit res list" where
  "connection_checks c s =
     [require (ac_provider c \<in> {''openai'', ''gemini'', ''kimi'', ''deepseek'', ''grok'', ''doubao'', ''claude'', ''qwen''})
        (ErrConstraint ''ai_connections_provider_check''),
      require (ac_auth_method c \<in> {''api_key'', ''api_key_guided'', ''oauth'', ''codex_oauth'', ''deepseek_web_token'',
          ''opencli_browser'', ''official_client''}) (ErrConstraint ''ai_connections_auth_method_check''),
      require (ac_protocol c \<in> {''openai'', ''openai_compatible'', ''gemini'', ''anthropic''})
        (ErrConstraint ''ai_connections_protocol_check''),
      require (ac_adapter c \<in> {''openai'', ''openai-compatible'', ''gemini'', ''anthropic''})
        (ErrConstraint ''ai_connections_adapter_type_check''),
      require (ac_auth_status c \<in> {''active'', ''refreshing'', ''attention'', ''reauth_required'', ''disabled'', ''deleted''})
        (ErrConstraint ''ai_connections_auth_status_check''),
      require (ac_sharing c = ''personal'') (ErrConstraint ''ai_connections_sharing_scope_check''),
      require (ac_risk c \<in> {''standard'', ''elevated'', ''experimental'', ''paused''})
        (ErrConstraint ''ai_connections_risk_level_check''),
      require (sx_type s \<in> {''api_key'', ''oauth_bundle'', ''browser_connector'', ''client_connector''})
        (ErrConstraint ''ai_connection_secrets_secret_type_check''),
      require (sx_format s \<in> {''opaque'', ''oauth_bundle_v1'', ''browser_connector_v1'', ''client_connector_v1''})
        (ErrConstraint ''ai_connection_secrets_payload_format_check''),
      require (0 \<le> sx_failures s) (ErrConstraint ''ai_connection_secrets_refresh_failures_check'')]"

definition connection_count :: "string \<Rightarrow> string \<Rightarrow> connection_db \<Rightarrow> nat" where
  "connection_count owner org db = sql_affected (\<lambda>c. owned_by owner org c \<and> connection_live c) (kdb_connections db)"

text \<open>The guards before the first insert, in the order of the code.\<close>

definition create_guards :: "connection_input \<Rightarrow> ai_connection \<Rightarrow> connection_db \<Rightarrow> unit res list" where
  "create_guards inp c db =
     [require (unique_strings (ci_models inp) \<noteq> []) (ErrNamed ''at least one model is required''),
      ensure_active_org (kdb_gateways db) (ci_org inp),
      require (connection_count (ci_owner inp) (ci_org inp) db < 32) (ErrNamed ''AI connection limit reached''),
      reject_duplicate_credential (ci_owner inp) (ci_org inp) (ci_provider inp) (ci_endpoint inp) (ci_credential inp) [] db,
      if ac_auth_method c = ''opencli_browser''
      then reject_duplicate_browser_provider (ci_owner inp) (ci_org inp) (ci_provider inp) [] db else Inr (),
      if ac_auth_method c = ''official_client''
      then reject_duplicate_provider_method (ci_owner inp) (ci_org inp) (ci_provider inp) (ac_auth_method c) [] db
      else Inr ()]"

definition create_checks :: "connection_input \<Rightarrow> ai_connection \<Rightarrow> conn_secret \<Rightarrow> connection_db \<Rightarrow> unit res" where
  "create_checks inp c s db = first_error (create_guards inp c db @ connection_checks c s
     @ [require (\<not> sql_exists (\<lambda>x. ac_id x = ac_id c) (kdb_connections db)) (ErrConstraint ''ai_connections_pkey'')])"

definition insert_connection :: "ai_connection \<Rightarrow> conn_secret \<Rightarrow> conn_model list \<Rightarrow> connection_db \<Rightarrow> connection_db" where
  "insert_connection c s ms db = db\<lparr>kdb_connections := kdb_connections db @ [c], kdb_secrets := kdb_secrets db @ [s],
     kdb_models := kdb_models db @ ms\<rparr>"

definition create_connection ::
  "connection_input \<Rightarrow> string \<Rightarrow> string list \<Rightarrow> time \<Rightarrow> connection_db \<Rightarrow> connection_view res \<times> connection_db"
where
  "create_connection inp uuid mids now db =
     (let cid = new_connection_id uuid; c = new_connection inp cid now; s = new_secret (ci_credential inp) cid;
          ms = map (new_model (ci_validation inp) cid now) (zip (unique_strings (ci_models inp)) mids) in
      case create_checks inp c s db of
        Inl e \<Rightarrow> (Inl e, db)
      | Inr _ \<Rightarrow>
          (case complete_attempt_in (ci_authorization inp) (ci_owner inp) cid now (insert_connection c s ms db) of
             Inl e \<Rightarrow> (Inl e, db)
           | Inr db1 \<Rightarrow>
               (let db2 = audit_connection ''ai_connection.created'' cid db1
                in (connection_for (ci_owner inp) (ci_org inp) cid db2, db2))))"

section \<open>Validating, rotating, deleting\<close>

definition set_validation :: "validation \<Rightarrow> time \<Rightarrow> ai_connection \<Rightarrow> ai_connection" where
  "set_validation v now c = c\<lparr>ac_status := validated_status v, ac_stage := vl_stage v, ac_latency := vl_latency v,
     ac_model_count := vl_model_count v, ac_error_code := vl_error_code v, ac_error_message := vl_error_message v,
     ac_validated := Some now, ac_updated := now\<rparr>"

definition update_connection_validation ::
  "string \<Rightarrow> string \<Rightarrow> string \<Rightarrow> int \<Rightarrow> validation \<Rightarrow> time \<Rightarrow> connection_db \<Rightarrow> connection_view res \<times> connection_db"
where
  "update_connection_validation owner org cid version v now db =
     (case query_row (\<lambda>(c, s). live_connection_of owner org cid c \<and> sx_version s = version) (with_secret db) of
        Inl e \<Rightarrow> (Inl e, db)
      | Inr _ \<Rightarrow>
          (case apply_model_validation cid v now (kdb_models db) of
             Inl e \<Rightarrow> (Inl e, db)
           | Inr ms \<Rightarrow>
               (let db' = audit_connection ''ai_connection.validated'' cid (db\<lparr>kdb_models := ms,
                      kdb_connections := sql_update (live_connection_of owner org cid) (set_validation v now) (kdb_connections db)\<rparr>)
                in (connection_for owner org cid db', db'))))"

definition supports_secret_rotation :: "string \<Rightarrow> bool" where
  "supports_secret_rotation method = (to_lower (trim_space method) \<in> {''api_key'', ''api_key_guided''})"

definition rotated_secret :: "conn_secret \<Rightarrow> conn_secret \<Rightarrow> conn_secret" where
  "rotated_secret credential s = s\<lparr>sx_ciphertext := sx_ciphertext credential, sx_nonce := sx_nonce credential,
     sx_mask := sx_mask credential, sx_fingerprint := sx_fingerprint credential,
     sx_encryption_key := sx_encryption_key credential, sx_fingerprint_key := sx_fingerprint_key credential,
     sx_algorithm := sx_algorithm credential, sx_version := sx_version s + 1\<rparr>"

definition rotate_connection_secret ::
  "string \<Rightarrow> string \<Rightarrow> string \<Rightarrow> conn_secret \<Rightarrow> validation \<Rightarrow> time \<Rightarrow> connection_db \<Rightarrow> connection_view res \<times> connection_db"
where
  "rotate_connection_secret owner org cid credential v now db =
     (case query_row (live_connection_of owner org cid) (kdb_connections db) of
        Inl e \<Rightarrow> (Inl e, db)
      | Inr c \<Rightarrow>
          if \<not> supports_secret_rotation (ac_auth_method c)
          then (Inl (ErrNamed ''AI connection credential rotation is unsupported''), db)
          else case reject_duplicate_credential owner org (ac_provider c) (ac_endpoint c) credential cid db of
              Inl e \<Rightarrow> (Inl e, db)
            | Inr _ \<Rightarrow>
                (case apply_model_validation cid v now (kdb_models db) of
                   Inl e \<Rightarrow> (Inl e, db)
                 | Inr ms \<Rightarrow>
                     (let db' = audit_connection ''ai_connection.credential_rotated'' cid (db\<lparr>kdb_models := ms,
                            kdb_secrets := sql_update (\<lambda>s. sx_connection s = cid) (rotated_secret credential) (kdb_secrets db),
                            kdb_connections := sql_update (\<lambda>x. ac_id x = cid) (set_validation v now) (kdb_connections db)\<rparr>)
                      in (connection_for owner org cid db', db'))))"

definition expired_reveal :: relay_reveal where
  "expired_reveal = \<lparr>rv_ciphertext = [], rv_nonce = [], rv_encryption_key = [], rv_fingerprint = [], rv_fingerprint_key = [],
     rv_mask = ''expired''\<rparr>"

definition expire_relay :: "relay_request \<Rightarrow> relay_request" where
  "expire_relay q = q\<lparr>rq_status := ''expired'', rq_reveal := expired_reveal\<rparr>"

text \<open>The channels of a connection, and the gateways that use one of them.\<close>

definition connection_channel :: "string \<Rightarrow> gateway_db \<Rightarrow> string \<Rightarrow> bool" where
  "connection_channel cid g ch = sql_exists (\<lambda>c. ch_id c = ch \<and> ch_connection c = Some cid) (gdb_channels g)"

definition uses_connection :: "string \<Rightarrow> gateway_db \<Rightarrow> string \<Rightarrow> bool" where
  "uses_connection cid g gid = sql_exists (\<lambda>l. gl_gateway l = gid \<and> connection_channel cid g (gl_channel l)) (gdb_links g)"

definition first_deleted :: "time \<Rightarrow> time option \<Rightarrow> time option" where
  "first_deleted now d = (case d of None \<Rightarrow> Some now | Some t \<Rightarrow> Some t)"

definition disconnect_gateways :: "string \<Rightarrow> time \<Rightarrow> gateway_db \<Rightarrow> gateway_db" where
  "disconnect_gateways cid now g =
     (let links = sql_update (\<lambda>l. connection_channel cid g (gl_channel l)) (\<lambda>l. l\<lparr>gl_enabled := False\<rparr>) (gdb_links g);
          gws = sql_update (\<lambda>w. uses_connection cid g (gw_id w) \<and> gw_status w = GActive
                  \<and> \<not> sql_exists (\<lambda>l. gl_gateway l = gw_id w \<and> gl_enabled l) links)
                (\<lambda>w. w\<lparr>gw_status := GPaused, gw_updated := now\<rparr>) (gdb_gateways g);
          keys = revoke_keys_of (\<lambda>gid. uses_connection cid g gid
                  \<and> sql_exists (\<lambda>w. gw_id w = gid \<and> gw_status w = GPaused) gws) now (gdb_keys g);
          chs = sql_update (\<lambda>c. ch_connection c = Some cid \<and> ch_status c \<noteq> ''deleted'')
                (\<lambda>c. c\<lparr>ch_status := ''deleted'', ch_gateway_enabled := False,
                       ch_deleted_at := first_deleted now (ch_deleted_at c)\<rparr>) (gdb_channels g)
      in g\<lparr>gdb_links := links, gdb_gateways := gws, gdb_keys := keys, gdb_channels := chs\<rparr>)"

definition scrubbed_secret :: "conn_secret \<Rightarrow> conn_secret" where
  "scrubbed_secret s = s\<lparr>sx_ciphertext := [], sx_nonce := [], sx_mask := ''deleted'',
     sx_fingerprint := ''deleted:'' @ sx_connection s, sx_version := sx_version s + 1\<rparr>"

definition delete_connection :: "string \<Rightarrow> string \<Rightarrow> string \<Rightarrow> time \<Rightarrow> connection_db \<Rightarrow> unit res \<times> connection_db" where
  "delete_connection owner org cid now db =
     (if sql_affected (live_connection_of owner org cid) (kdb_connections db) = 0 then (Inl ErrNoRows, db)
      else (Inr (), audit_connection ''ai_connection.deleted'' cid (db\<lparr>
        kdb_connections := sql_update (live_connection_of owner org cid)
          (\<lambda>c. c\<lparr>ac_status := ''deleted'', ac_deleted := Some now, ac_updated := now\<rparr>) (kdb_connections db),
        kdb_gateways := disconnect_gateways cid now (kdb_gateways db),
        kdb_secrets := sql_update (\<lambda>s. sx_connection s = cid) scrubbed_secret (kdb_secrets db),
        kdb_relays := sql_update (\<lambda>q. rq_connection q = cid \<and> rq_status q = ''completed'') expire_relay (kdb_relays db)\<rparr>)))"

section \<open>OAuth secrets\<close>

definition refresh_due :: "time \<Rightarrow> ai_connection \<times> conn_secret \<Rightarrow> bool" where
  "refresh_due now cs = (ac_deleted (fst cs) = None \<and> ac_status (fst cs) \<in> {''active'', ''attention''}
     \<and> ac_auth_status (fst cs) \<in> {''active'', ''attention''} \<and> sx_type (snd cs) = ''oauth_bundle''
     \<and> (case sx_next_refresh (snd cs) of None \<Rightarrow> False | Some t \<Rightarrow> t \<le> now))"

definition due_time :: "ai_connection \<times> conn_secret \<Rightarrow> time" where
  "due_time cs = (case sx_next_refresh (snd cs) of None \<Rightarrow> 0 | Some t \<Rightarrow> t)"

definition oauth_refresh_candidates :: "int \<Rightarrow> time \<Rightarrow> connection_db \<Rightarrow> (ai_connection \<times> conn_secret) list" where
  "oauth_refresh_candidates limit0 now db =
     (let limit = (if limit0 \<le> 0 \<or> limit0 > 100 then 32 else limit0) in
      take (nat limit) (sort_stable (\<lambda>a b. due_time a < due_time b)
        (filter (refresh_due now) (with_secret db))))"

definition refreshed_secret :: "conn_secret \<Rightarrow> time \<Rightarrow> conn_secret \<Rightarrow> conn_secret" where
  "refreshed_secret new now s = (rotated_secret new s)\<lparr>sx_subject := sx_subject new, sx_expires := sx_expires new,
     sx_next_refresh := sx_next_refresh new, sx_last_refreshed := Some now, sx_failures := 0, sx_error_code := []\<rparr>"

definition update_oauth_secret :: "string \<Rightarrow> int \<Rightarrow> conn_secret \<Rightarrow> time \<Rightarrow> connection_db \<Rightarrow> unit res \<times> connection_db" where
  "update_oauth_secret cid version new now db =
     (let sel = (\<lambda>s. sx_connection s = cid \<and> sx_version s = version \<and> sx_type s = ''oauth_bundle'') in
      if sql_affected sel (kdb_secrets db) \<noteq> 1 then (Inl ErrNoRows, db)
      else (Inr (), db\<lparr>kdb_secrets := sql_update sel (refreshed_secret new now) (kdb_secrets db),
        kdb_connections := sql_update (\<lambda>c. ac_id c = cid \<and> ac_deleted c = None)
          (\<lambda>c. c\<lparr>ac_auth_status := ''active'', ac_error_code := [], ac_error_message := [], ac_updated := now\<rparr>)
          (kdb_connections db)\<rparr>))"

definition replaced_connection :: "connection_input \<Rightarrow> time \<Rightarrow> ai_connection \<Rightarrow> ai_connection" where
  "replaced_connection inp now c = (set_validation (ci_validation inp) now c)\<lparr>ac_endpoint := ci_endpoint inp,
     ac_config := ci_config inp, ac_display := ci_display inp, ac_auth_status := ''active'', ac_sharing := ''personal'',
     ac_risk := ci_risk inp, ac_adapter_version := ci_adapter_version inp, ac_terms := ci_terms inp,
     ac_account_mask := ci_account_mask inp\<rparr>"

definition replace_oauth_authorization ::
  "string \<Rightarrow> connection_input \<Rightarrow> time \<Rightarrow> connection_db \<Rightarrow> connection_view res \<times> connection_db"
where
  "replace_oauth_authorization cid inp now db =
     (case query_row (\<lambda>c. live_connection_of (ci_owner inp) (ci_org inp) cid c \<and> ac_provider c = ci_provider inp
             \<and> ac_auth_method c = ci_auth_method inp) (kdb_connections db) of
        Inl e \<Rightarrow> (Inl e, db)
      | Inr _ \<Rightarrow>
          if ci_risk inp \<notin> {''standard'', ''elevated'', ''experimental'', ''paused''}
          then (Inl (ErrConstraint ''ai_connections_risk_level_check''), db)
          else case apply_model_validation cid (ci_validation inp) now (kdb_models db) of
              Inl e \<Rightarrow> (Inl e, db)
            | Inr ms \<Rightarrow>
                (case complete_attempt_in (ci_authorization inp) (ci_owner inp) cid now
                    (db\<lparr>kdb_models := ms,
                        kdb_connections := sql_update (\<lambda>c. ac_id c = cid) (replaced_connection inp now) (kdb_connections db),
                        kdb_secrets := sql_update (\<lambda>s. sx_connection s = cid)
                          (\<lambda>s. (refreshed_secret (ci_credential inp) now s)\<lparr>sx_type := ''oauth_bundle'', sx_format := ''oauth_bundle_v1''\<rparr>)
                          (kdb_secrets db)\<rparr>) of
                   Inl e \<Rightarrow> (Inl e, db)
                 | Inr db1 \<Rightarrow>
                     (let db2 = audit_connection ''ai_connection.reauthorized'' cid db1
                      in (connection_for (ci_owner inp) (ci_org inp) cid db2, db2))))"

definition reauth_message :: string where
  "reauth_message =
     [CHR 0xE7, CHR 0x99, CHR 0xBB, CHR 0xE5, CHR 0xBD, CHR 0x95, CHR 0xE6, CHR 0x8E, CHR 0x88, CHR 0xE6,
     CHR 0x9D, CHR 0x83, CHR 0xE5, CHR 0xB7, CHR 0xB2, CHR 0xE5, CHR 0xA4, CHR 0xB1, CHR 0xE6, CHR
     0x95, CHR 0x88, CHR 0xEF, CHR 0xBC, CHR 0x8C, CHR 0xE8, CHR 0xAF, CHR 0xB7, CHR 0xE9, CHR 0x87,
     CHR 0x8D, CHR 0xE6, CHR 0x96, CHR 0xB0, CHR 0xE7, CHR 0x99, CHR 0xBB, CHR 0xE5, CHR 0xBD, CHR
     0x95]"

definition retry_message :: string where
  "retry_message =
     [CHR 0xE6, CHR 0x8E, CHR 0x88, CHR 0xE6, CHR 0x9D, CHR 0x83, CHR 0xE7, CHR 0xBB, CHR 0xAD, CHR 0xE6,
     CHR 0x9C, CHR 0x9F, CHR 0xE6, CHR 0x9A, CHR 0x82, CHR 0xE6, CHR 0x97, CHR 0xB6, CHR 0xE5, CHR
     0xA4, CHR 0xB1, CHR 0xE8, CHR 0xB4, CHR 0xA5, CHR 0xEF, CHR 0xBC, CHR 0x8C, CHR 0xE7, CHR 0xB3,
     CHR 0xBB, CHR 0xE7, CHR 0xBB, CHR 0x9F, CHR 0xE5, CHR 0xB0, CHR 0x86, CHR 0xE8, CHR 0x87, CHR
     0xAA, CHR 0xE5, CHR 0x8A, CHR 0xA8, CHR 0xE9, CHR 0x87, CHR 0x8D, CHR 0xE8, CHR 0xAF, CHR 0x95]"

definition mark_oauth_failure ::
  "string \<Rightarrow> int \<Rightarrow> bool \<Rightarrow> string \<Rightarrow> time \<Rightarrow> time \<Rightarrow> connection_db \<Rightarrow> unit res \<times> connection_db"
where
  "mark_oauth_failure cid version reauth code next now db =
     (let sel = (\<lambda>s. sx_connection s = cid \<and> sx_version s = version \<and> sx_type s = ''oauth_bundle'');
          live = (\<lambda>c. ac_id c = cid \<and> ac_deleted c = None) in
      case query_row live (kdb_connections db) of
        Inl e \<Rightarrow> (Inl e, db)
      | Inr _ \<Rightarrow>
          if sql_affected sel (kdb_secrets db) \<noteq> 1 then (Inl ErrNoRows, db)
          else (Inr (), db\<lparr>
            kdb_secrets := sql_update sel (\<lambda>s. s\<lparr>sx_failures := sx_failures s + 1, sx_error_code := code,
              sx_next_refresh := (if reauth then None else Some next)\<rparr>) (kdb_secrets db),
            kdb_connections := sql_update live (\<lambda>c. c\<lparr>ac_auth_status := (if reauth then ''reauth_required'' else ''attention''),
              ac_error_code := code, ac_error_message := (if reauth then reauth_message else retry_message),
              ac_updated := now\<rparr>) (kdb_connections db)\<rparr>))"

section \<open>Quick relays\<close>

record relay_input =
  ri_owner :: string
  ri_org :: string
  ri_connection :: string
  ri_models :: "string list"
  ri_name :: string
  ri_policy :: string
  ri_qps :: int
  ri_quota :: int
  ri_base_url :: string
  ri_idempotency :: string
  ri_hash :: string
  ri_plain :: string
  ri_reveal :: relay_reveal

record relay_ids =
  rd_channels :: "string list"
  rd_links :: "string list"
  rd_gateway :: string
  rd_slug :: string
  rd_key :: string
  rd_request :: string

record relay_result =
  rr_gateway :: gateway_view
  rr_key_id :: string
  rr_key :: "gateway_key option"
  rr_reveal :: relay_reveal
  rr_replay :: bool

definition relay_request_of :: "relay_input \<Rightarrow> relay_request \<Rightarrow> bool" where
  "relay_request_of inp q =
     (rq_owner q = ri_owner inp \<and> rq_org q = ri_org inp \<and> rq_idempotency q = ri_idempotency inp)"

definition err_window :: err where "err_window = ErrNamed ''idempotent reveal window expired''"
definition err_conflict :: err where
  "err_conflict = ErrNamed ''idempotency key was already used for a different request''"

text \<open>The replay of an earlier request. When its window has passed the code marks the row expired and
  returns an error, upon which the caller rolls the transaction back: the row stays as it was.\<close>

definition quick_relay_replay :: "relay_input \<Rightarrow> time \<Rightarrow> connection_db \<Rightarrow> relay_result option res" where
  "quick_relay_replay inp now db =
     (case query_row (relay_request_of inp) (kdb_relays db) of
        Inl _ \<Rightarrow> Inr None
      | Inr q \<Rightarrow>
          if rq_hash q \<noteq> ri_hash inp then Inl err_conflict
          else if rq_status q \<noteq> ''completed'' \<or> rv_ciphertext (rq_reveal q) = [] \<or> now > rq_expires q then Inl err_window
          else if \<not> sql_exists (\<lambda>w. gw_id w = rq_gateway q \<and> gw_org w = ri_org inp \<and> gw_status w \<noteq> GDeleted)
              (gdb_gateways (kdb_gateways db)) then Inl ErrNoRows
          else (case gateway_by_id (rq_gateway q) (ri_org inp) (kdb_gateways db) of
              Inl e \<Rightarrow> Inl e
            | Inr g \<Rightarrow> Inr (Some \<lparr>rr_gateway = g, rr_key_id = rq_gateway_key q,
                rr_key = row_at gk_id (rq_gateway_key q) (gdb_keys (kdb_gateways db)), rr_reveal = rq_reveal q,
                rr_replay = True\<rparr>)))"

definition relay_connection :: "relay_input \<Rightarrow> ai_connection \<Rightarrow> bool" where
  "relay_connection inp c = (ac_id c = ri_connection inp \<and> owned_by (ri_owner inp) (ri_org inp) c
     \<and> ac_status c \<in> {''active'', ''attention''} \<and> ac_auth_status c \<in> {''active'', ''refreshing''} \<and> ac_deleted c = None)"

definition experimental_method :: "string \<Rightarrow> bool" where
  "experimental_method m = (m \<in> {''codex_oauth'', ''deepseek_web_token'', ''opencli_browser''})"

definition relay_exists :: "string \<Rightarrow> gateway_db \<Rightarrow> bool" where
  "relay_exists cid g = sql_exists (\<lambda>w. uses_connection cid g (gw_id w) \<and> gw_status w \<in> {GActive, GPaused}) (gdb_gateways g)"

definition selected_models :: "string \<Rightarrow> string list \<Rightarrow> connection_db \<Rightarrow> conn_model list" where
  "selected_models cid ids db = sort_stable (\<lambda>a b. cm_created a < cm_created b)
     (filter (\<lambda>m. cm_connection m = cid \<and> cm_id m \<in> set ids \<and> cm_enabled m \<and> cm_verification m = ''verified'')
       (kdb_models db))"

text \<open>The channel of a model: the one it is routed to, or a new one.\<close>

definition model_channel :: "conn_model \<times> string \<Rightarrow> string" where
  "model_channel mu = (case cm_route (fst mu) of None \<Rightarrow> ''aich_'' @ snd mu | Some ch \<Rightarrow> ch)"

definition new_channel :: "ai_connection \<Rightarrow> conn_model \<times> string \<Rightarrow> channel" where
  "new_channel c mu = \<lparr>ch_id = model_channel mu,
     ch_name = ac_display c @ '' '' @ [CHR 0xC2, CHR 0xB7] @ '' '' @ cm_provider_model (fst mu),
     ch_provider = ac_provider c, ch_owner_type = ''user'', ch_owner_id = Some (ac_owner c), ch_org = Some (ac_org c),
     ch_type = ac_adapter c, ch_model = cm_provider_model (fst mu), ch_endpoint = ac_endpoint c, ch_status = ''healthy'',
     ch_score = 100, ch_gateway_enabled = True, ch_managed_source = Some ''ai_connection'', ch_deleted_at = None,
     ch_success_rate = 100, ch_latency_p95 = 0, ch_cost_usd = 0, ch_config = ac_config c,
     ch_connection = Some (ac_id c), ch_connection_model = Some (cm_id (fst mu))\<rparr>"

definition unrouted :: "(conn_model \<times> string) list \<Rightarrow> (conn_model \<times> string) list" where
  "unrouted sel = filter (\<lambda>mu. cm_route (fst mu) = None) sel"

definition route_models :: "(conn_model \<times> string) list \<Rightarrow> conn_model list \<Rightarrow> conn_model list" where
  "route_models new ms = map (\<lambda>m. case List.find (\<lambda>mu. cm_id (fst mu) = cm_id m) new of
       None \<Rightarrow> m | Some mu \<Rightarrow> m\<lparr>cm_route := Some (model_channel mu)\<rparr>) ms"

definition relay_suffix :: string where
  "relay_suffix =
     [CHR 0x20, CHR 0xE4, CHR 0xB8, CHR 0xAA, CHR 0xE4, CHR 0xBA, CHR 0xBA, CHR 0xE4, CHR 0xB8, CHR 0xAD,
     CHR 0xE8, CHR 0xBD, CHR 0xAC]"

definition relay_key_name :: string where
  "relay_key_name =
     [CHR 0xE9, CHR 0xBB, CHR 0x98, CHR 0xE8, CHR 0xAE, CHR 0xA4, CHR 0xE8, CHR 0xB0, CHR 0x83, CHR 0xE7,
     CHR 0x94, CHR 0xA8, CHR 0xE5, CHR 0xAF, CHR 0x86, CHR 0xE9, CHR 0x92, CHR 0xA5]"

definition relay_gateway :: "relay_input \<Rightarrow> ai_connection \<Rightarrow> relay_ids \<Rightarrow> time \<Rightarrow> gateway" where
  "relay_gateway inp c ids now =
     (let name = trimmed_or (ri_name inp) (ac_display c @ relay_suffix);
          qps0 = (if experimental_method (ac_auth_method c) then 1 else ri_qps inp) in
      \<lparr>gw_id = ''gw_'' @ rd_gateway ids, gw_org = ri_org inp, gw_name = name, gw_slug = unique_slug name (rd_slug ids),
       gw_base_url = ri_base_url inp, gw_policy = normalize_gateway_policy (ri_policy inp), gw_status = GActive,
       gw_qps_limit = (if qps0 \<le> 0 then 20 else qps0),
       gw_quota_month = (if ri_quota inp \<le> 0 then 100000 else ri_quota inp),
       gw_created_by = ri_owner inp, gw_created = now, gw_updated = now\<rparr>)"

definition relay_key :: "(string \<Rightarrow> string) \<Rightarrow> relay_input \<Rightarrow> gateway \<Rightarrow> string \<Rightarrow> relay_ids \<Rightarrow> time \<Rightarrow> gateway_key" where
  "relay_key h inp g masked ids now =
     \<lparr>gk_id = ''gwk_'' @ rd_key ids, gk_org = ri_org inp, gk_gateway = gw_id g, gk_name = relay_key_name,
      gk_hash = hash_gateway_key h (ri_plain inp), gk_prefix = gateway_key_prefix (ri_plain inp), gk_mask = masked,
      gk_quota_month = gw_quota_month g, gk_qps_limit = gw_qps_limit g, gk_requests_used = 0, gk_status = YActive,
      gk_created = now, gk_last_used = None, gk_expires = None, gk_revoked_at = None, gk_deleted_at = None,
      gk_created_by = ri_owner inp\<rparr>"

definition relay_gateway_checks :: "gateway \<Rightarrow> gateway_db \<Rightarrow> unit res list" where
  "relay_gateway_checks g db =
     [require (gw_policy g \<in> {''latency'', ''success'', ''cost''}) (ErrConstraint ''gateways_policy_check''),
      require (\<not> sql_exists (\<lambda>w. gw_id w = gw_id g) (gdb_gateways db)) (ErrConstraint ''gateways_pkey''),
      require (\<not> sql_exists (\<lambda>w. gw_slug w = gw_slug g) (gdb_gateways db)) (ErrConstraint ''gateways_slug_key'')]"

definition relay_key_checks :: "gateway_key \<Rightarrow> gateway_db \<Rightarrow> unit res list" where
  "relay_key_checks k db =
     [require (\<not> sql_exists (\<lambda>x. gk_id x = gk_id k) (gdb_keys db)) (ErrConstraint ''gateway_keys_pkey''),
      require (\<not> sql_exists (\<lambda>x. gk_hash x = gk_hash k) (gdb_keys db)) (ErrConstraint ''gateway_keys_key_hash_key'')]"

definition relay_lifetime :: duration where "relay_lifetime = 10 * minute"

definition new_relay_request :: "relay_input \<Rightarrow> string \<Rightarrow> string \<Rightarrow> relay_ids \<Rightarrow> time \<Rightarrow> relay_request" where
  "new_relay_request inp gid kid ids now =
     \<lparr>rq_id = ''aiqr_'' @ rd_request ids, rq_owner = ri_owner inp, rq_org = ri_org inp,
      rq_idempotency = ri_idempotency inp, rq_hash = ri_hash inp, rq_connection = ri_connection inp, rq_gateway = gid,
      rq_gateway_key = kid, rq_reveal = ri_reveal inp, rq_status = ''completed'', rq_expires = now + relay_lifetime\<rparr>"

text \<open>The database with the new channels, gateway, links, key and request.\<close>

definition relay_built ::
  "relay_input \<Rightarrow> ai_connection \<Rightarrow> (conn_model \<times> string) list \<Rightarrow> gateway \<Rightarrow> gateway_key \<Rightarrow> relay_ids \<Rightarrow> time
    \<Rightarrow> connection_db \<Rightarrow> connection_db"
where
  "relay_built inp c sel g k ids now db =
     (let gws = kdb_gateways db in
      audit_connection ''ai_connection.quick_relay_created'' (gw_id g) (db\<lparr>
        kdb_gateways := gws\<lparr>gdb_channels := gdb_channels gws @ map (new_channel c) (unrouted sel),
          gdb_gateways := gdb_gateways gws @ [g],
          gdb_links := gdb_links gws @ new_links (gw_id g) (map model_channel sel) (rd_links ids),
          gdb_keys := gdb_keys gws @ [k]\<rparr>,
        kdb_models := route_models (unrouted sel) (kdb_models db),
        kdb_relays := kdb_relays db @ [new_relay_request inp (gw_id g) (gk_id k) ids now]\<rparr>))"

definition build_relay ::
  "(string \<Rightarrow> string) \<Rightarrow> relay_input \<Rightarrow> ai_connection \<Rightarrow> (conn_model \<times> string) list \<Rightarrow> relay_ids \<Rightarrow> time
    \<Rightarrow> connection_db \<Rightarrow> relay_result res \<times> connection_db"
where
  "build_relay h inp c sel ids now db =
     (let g = relay_gateway inp c ids now; gws = kdb_gateways db in
      case first_error (relay_gateway_checks g gws) of
        Inl e \<Rightarrow> (Inl e, db)
      | Inr _ \<Rightarrow>
          (case mask_gateway_key (ri_plain inp) of
             Inl e \<Rightarrow> (Inl e, db)
           | Inr masked \<Rightarrow>
               (let k = relay_key h inp g masked ids now; db' = relay_built inp c sel g k ids now db in
                case first_error (relay_key_checks k gws) of
                  Inl e \<Rightarrow> (Inl e, db)
                | Inr _ \<Rightarrow>
                    (case gateway_by_id (gw_id g) (ri_org inp) (kdb_gateways db') of
                       Inl e \<Rightarrow> (Inl e, db')
                     | Inr view \<Rightarrow> (Inr \<lparr>rr_gateway = view, rr_key_id = gk_id k, rr_key = Some k,
                         rr_reveal = ri_reveal inp, rr_replay = False\<rparr>, db')))))"

definition create_quick_relay ::
  "(string \<Rightarrow> string) \<Rightarrow> relay_input \<Rightarrow> relay_ids \<Rightarrow> time \<Rightarrow> connection_db \<Rightarrow> relay_result res \<times> connection_db"
where
  "create_quick_relay h inp ids now db =
     (let model_ids = unique_strings (ri_models inp) in
      if model_ids = [] then (Inl (ErrNamed ''at least one connection model is required''), db)
      else case quick_relay_replay inp now db of
        Inl e \<Rightarrow> (Inl e, db)
      | Inr (Some r) \<Rightarrow> (Inr r, db)
      | Inr None \<Rightarrow>
          (case query_row (relay_connection inp) (kdb_connections db) of
             Inl e \<Rightarrow> (Inl e, db)
           | Inr c \<Rightarrow>
               if experimental_method (ac_auth_method c) \<and> relay_exists (ac_id c) (kdb_gateways db)
               then (Inl (ErrNamed ''experimental AI connection already has a personal relay''), db)
               else
                 (let sel = selected_models (ac_id c) model_ids db in
                  if length sel \<noteq> length model_ids
                  then (Inl (ErrNamed ''one or more connection models are unavailable''), db)
                  else build_relay h inp c (zip sel (rd_channels ids)) ids now db)))"

definition expire_relay_reveals :: "time \<Rightarrow> connection_db \<Rightarrow> nat \<times> connection_db" where
  "expire_relay_reveals now db =
     (let sel = (\<lambda>q. rq_status q = ''completed'' \<and> rq_expires q \<le> now)
      in (sql_affected sel (kdb_relays db), db\<lparr>kdb_relays := sql_update sel expire_relay (kdb_relays db)\<rparr>))"

section \<open>Runs\<close>

datatype connection_op =
    OCreate connection_input string "string list"
  | OValidate string string string int validation
  | ORotate string string string conn_secret validation
  | ODisconnect string string string
  | OReplace string connection_input
  | ORefreshed string int conn_secret
  | ORefreshFailed string int bool string time
  | OAttemptStart attempt_input
  | OAttemptRead string string
  | OAttemptValidating string string
  | OAttemptComplete string string string
  | OAttemptFail string string string string
  | OAttemptCancel string string
  | ORelay relay_input relay_ids
  | OExpireReveals

fun connection_step :: "(string \<Rightarrow> string) \<Rightarrow> connection_op \<Rightarrow> connection_db \<Rightarrow> time \<Rightarrow> connection_db" where
  "connection_step h (OCreate inp uuid mids) db now = snd (create_connection inp uuid mids now db)"
| "connection_step h (OValidate owner org cid version v) db now = snd (update_connection_validation owner org cid version v now db)"
| "connection_step h (ORotate owner org cid s v) db now = snd (rotate_connection_secret owner org cid s v now db)"
| "connection_step h (ODisconnect owner org cid) db now = snd (delete_connection owner org cid now db)"
| "connection_step h (OReplace cid inp) db now = snd (replace_oauth_authorization cid inp now db)"
| "connection_step h (ORefreshed cid version s) db now = snd (update_oauth_secret cid version s now db)"
| "connection_step h (ORefreshFailed cid version reauth code next) db now = snd (mark_oauth_failure cid version reauth code next now db)"
| "connection_step h (OAttemptStart inp) db now = snd (create_authorization_attempt inp now db)"
| "connection_step h (OAttemptRead owner aid) db now = snd (authorization_attempt_for owner aid now db)"
| "connection_step h (OAttemptValidating owner aid) db now = snd (set_authorization_validating owner aid now db)"
| "connection_step h (OAttemptComplete owner aid cid) db now = snd (complete_authorization_attempt owner aid cid now db)"
| "connection_step h (OAttemptFail owner aid code msg) db now = snd (fail_authorization_attempt owner aid code msg now db)"
| "connection_step h (OAttemptCancel owner aid) db now = snd (cancel_authorization_attempt owner aid now db)"
| "connection_step h (ORelay inp ids) db now = snd (create_quick_relay h inp ids now db)"
| "connection_step h OExpireReveals db now = snd (expire_relay_reveals now db)"

end
