(* ===== verification/Connection_Safety.thy ===== *)
theory Connection_Safety
  imports Connection_Store
begin

text \<open>
  What the connection store guarantees over any run of its operations: deleted connections stay
  deleted and empty, a workspace never has more than 32 live connections of a user, an
  authorization attempt is completed at most once, a version of an OAuth secret is refreshed at
  most once, and a quick relay is made once per idempotency key.
\<close>

section \<open>Well-formed tables\<close>

definition connection_wf :: "connection_db \<Rightarrow> bool" where
  "connection_wf db = (distinct (map ac_id (kdb_connections db)) \<and> distinct (map sx_connection (kdb_secrets db))
     \<and> set (map sx_connection (kdb_secrets db)) \<subseteq> set (map ac_id (kdb_connections db))
     \<and> (\<forall>c\<in>set (kdb_connections db). ac_status c = ''deleted'' \<longleftrightarrow> ac_deleted c \<noteq> None)
     \<and> distinct (map aa_id (kdb_attempts db)))"

lemma audit_connection_fields [simp]:
  "kdb_connections (audit_connection a i db) = kdb_connections db" "kdb_secrets (audit_connection a i db) = kdb_secrets db"
  "kdb_models (audit_connection a i db) = kdb_models db" "kdb_attempts (audit_connection a i db) = kdb_attempts db"
  "kdb_relays (audit_connection a i db) = kdb_relays db"
  by (simp_all add: audit_connection_def)

text \<open>How one operation may change a row of each table, and which new rows there are.\<close>

definition sound_status :: "ai_connection \<Rightarrow> bool" where
  "sound_status c = (ac_status c = ''deleted'' \<longleftrightarrow> ac_deleted c \<noteq> None)"

definition connection_can :: "ai_connection \<Rightarrow> ai_connection \<Rightarrow> bool" where
  "connection_can c c' = (ac_id c' = ac_id c \<and> ac_owner c' = ac_owner c \<and> ac_org c' = ac_org c
     \<and> ac_provider c' = ac_provider c \<and> ac_auth_method c' = ac_auth_method c
     \<and> (c' = c \<or> connection_live c \<and> sound_status c'))"

definition connection_new :: "ai_connection list \<Rightarrow> ai_connection \<Rightarrow> bool" where
  "connection_new cs c = (sound_status c \<and> sql_affected (\<lambda>x. owned_by (ac_owner c) (ac_org c) x \<and> connection_live x) cs < 32)"

definition secret_can :: "conn_secret \<Rightarrow> conn_secret \<Rightarrow> bool" where
  "secret_can s s' = (sx_connection s' = sx_connection s \<and> sx_version s \<le> sx_version s'
     \<and> (sx_version s' = sx_version s \<longrightarrow> sx_ciphertext s' = sx_ciphertext s \<and> sx_fingerprint s' = sx_fingerprint s))"

definition attempt_can :: "auth_attempt \<Rightarrow> auth_attempt \<Rightarrow> bool" where
  "attempt_can a a' = (aa_id a' = aa_id a \<and> aa_owner a' = aa_owner a \<and> (a' = a \<or> attempt_open a))"

abbreviation connections_change :: "connection_db \<Rightarrow> connection_db \<Rightarrow> bool" where
  "connections_change db db' \<equiv> table_change ac_id connection_can connection_new (kdb_connections db) (kdb_connections db')"

abbreviation secrets_change :: "connection_db \<Rightarrow> connection_db \<Rightarrow> bool" where
  "secrets_change db db' \<equiv> table_change sx_connection secret_can
     (\<lambda>_ s. sx_version s = 1 \<and> sx_connection s \<in> ac_id ` set (kdb_connections db')) (kdb_secrets db) (kdb_secrets db')"

abbreviation attempts_change :: "connection_db \<Rightarrow> connection_db \<Rightarrow> bool" where
  "attempts_change db db' \<equiv> table_change aa_id attempt_can (\<lambda>_. attempt_open) (kdb_attempts db) (kdb_attempts db')"

lemma can_refl [simp]: "connection_can c c" "secret_can s s" "attempt_can a a"
  by (simp_all add: connection_can_def secret_can_def attempt_can_def)

lemma can_key:
  "connection_can c c' \<Longrightarrow> ac_id c' = ac_id c" "secret_can s s' \<Longrightarrow> sx_connection s' = sx_connection s"
  "attempt_can a a' \<Longrightarrow> aa_id a' = aa_id a"
  by (simp_all add: connection_can_def secret_can_def attempt_can_def)

lemma can_trans:
  "connection_can c c' \<Longrightarrow> connection_can c' c'' \<Longrightarrow> connection_can c c''"
  "secret_can s s' \<Longrightarrow> secret_can s' s'' \<Longrightarrow> secret_can s s''"
  "attempt_can a a' \<Longrightarrow> attempt_can a' a'' \<Longrightarrow> attempt_can a a''"
  by (auto simp: connection_can_def secret_can_def attempt_can_def)

lemma validated_status_live: "validated_status v \<noteq> ''deleted''"
  by (simp add: validated_status_def)

lemma set_validation_can: "connection_live c \<Longrightarrow> connection_can c (set_validation v now c)"
  by (simp add: connection_can_def set_validation_def sound_status_def connection_live_def validated_status_live)

lemma replaced_connection_can: "connection_live c \<Longrightarrow> connection_can c (replaced_connection inp now c)"
  by (simp add: connection_can_def replaced_connection_def set_validation_def sound_status_def connection_live_def validated_status_live)

lemma live_iff: "connection_wf db \<Longrightarrow> c \<in> set (kdb_connections db) \<Longrightarrow> connection_live c \<longleftrightarrow> ac_deleted c = None"
  by (auto simp: connection_wf_def connection_live_def)

lemma only_row:
  assumes "connection_wf db" and "query_row (\<lambda>c. live_connection_of owner org cid c \<and> q c) (kdb_connections db) = Inr c"
    and "x \<in> set (kdb_connections db)" and "ac_id x = cid"
  shows "connection_live x"
proof -
  from query_row_Inr [OF assms(2)] have c: "c \<in> set (kdb_connections db)" "ac_id c = ac_id x" "connection_live c"
    by (simp_all add: live_connection_of_def assms(4))
  have "distinct (map ac_id (kdb_connections db))" using assms(1) by (simp add: connection_wf_def)
  from distinct_key_unique [OF this c(1) assms(3) c(2)] c(3) show ?thesis by simp
qed

lemma complete_attempt_fields:
  assumes "complete_attempt_in aid owner cid now db = Inr db'"
  shows "kdb_connections db' = kdb_connections db" "kdb_secrets db' = kdb_secrets db" "kdb_relays db' = kdb_relays db"
    "kdb_models db' = kdb_models db"
  using assms by (auto simp: complete_attempt_in_def Let_def split: if_splits)

section \<open>The state an operation leaves\<close>

lemma create_connection_state:
  "snd (create_connection inp uuid mids now db) = db
   \<or> (\<exists>db1 ms c s. c = new_connection inp (new_connection_id uuid) now \<and> s = new_secret (ci_credential inp) (new_connection_id uuid)
        \<and> create_checks inp c s db = Inr ()
        \<and> complete_attempt_in (ci_authorization inp) (ci_owner inp) (new_connection_id uuid) now (insert_connection c s ms db) = Inr db1
        \<and> snd (create_connection inp uuid mids now db) = audit_connection ''ai_connection.created'' (new_connection_id uuid) db1)"
proof -
  let ?cid = "new_connection_id uuid"
  let ?c = "new_connection inp ?cid now" and ?s = "new_secret (ci_credential inp) ?cid"
  let ?ms = "map (new_model (ci_validation inp) ?cid now) (zip (unique_strings (ci_models inp)) mids)"
  show ?thesis
  proof (cases "create_checks inp ?c ?s db")
    case (Inl e)
    then show ?thesis by (simp add: create_connection_def Let_def)
  next
    case (Inr u)
    note ok = Inr
    show ?thesis
    proof (cases "complete_attempt_in (ci_authorization inp) (ci_owner inp) ?cid now (insert_connection ?c ?s ?ms db)")
      case (Inl e)
      with ok show ?thesis by (simp add: create_connection_def Let_def)
    next
      case (Inr db1)
      with ok have "snd (create_connection inp uuid mids now db) = audit_connection ''ai_connection.created'' ?cid db1"
        by (simp add: create_connection_def Let_def)
      moreover have "create_checks inp ?c ?s db = Inr ()" using ok by simp
      ultimately show ?thesis using Inr by (intro disjI2 exI conjI) (rule refl | assumption)+
    qed
  qed
qed

lemma update_connection_validation_state:
  "snd (update_connection_validation owner org cid version v now db) = db
   \<or> (\<exists>ms. snd (update_connection_validation owner org cid version v now db)
        = audit_connection ''ai_connection.validated'' cid (db\<lparr>kdb_models := ms,
            kdb_connections := sql_update (live_connection_of owner org cid) (set_validation v now) (kdb_connections db)\<rparr>))"
  by (auto simp: update_connection_validation_def Let_def split: sum.split)

lemma rotate_connection_secret_state:
  "snd (rotate_connection_secret owner org cid credential v now db) = db
   \<or> (\<exists>ms c. query_row (live_connection_of owner org cid) (kdb_connections db) = Inr c
        \<and> reject_duplicate_credential owner org (ac_provider c) (ac_endpoint c) credential cid db = Inr ()
        \<and> snd (rotate_connection_secret owner org cid credential v now db)
          = audit_connection ''ai_connection.credential_rotated'' cid (db\<lparr>kdb_models := ms,
              kdb_secrets := sql_update (\<lambda>s. sx_connection s = cid) (rotated_secret credential) (kdb_secrets db),
              kdb_connections := sql_update (\<lambda>x. ac_id x = cid) (set_validation v now) (kdb_connections db)\<rparr>))"
  by (auto simp: rotate_connection_secret_def Let_def split: sum.split)

lemma replace_oauth_authorization_state:
  "snd (replace_oauth_authorization cid inp now db) = db
   \<or> (\<exists>ms c db1. query_row (\<lambda>c. live_connection_of (ci_owner inp) (ci_org inp) cid c \<and> ac_provider c = ci_provider inp
             \<and> ac_auth_method c = ci_auth_method inp) (kdb_connections db) = Inr c
        \<and> complete_attempt_in (ci_authorization inp) (ci_owner inp) cid now (db\<lparr>kdb_models := ms,
            kdb_connections := sql_update (\<lambda>c. ac_id c = cid) (replaced_connection inp now) (kdb_connections db),
            kdb_secrets := sql_update (\<lambda>s. sx_connection s = cid)
              (\<lambda>s. (refreshed_secret (ci_credential inp) now s)\<lparr>sx_type := ''oauth_bundle'', sx_format := ''oauth_bundle_v1''\<rparr>)
              (kdb_secrets db)\<rparr>) = Inr db1
        \<and> snd (replace_oauth_authorization cid inp now db) = audit_connection ''ai_connection.reauthorized'' cid db1)"
proof (cases "query_row (\<lambda>c. live_connection_of (ci_owner inp) (ci_org inp) cid c \<and> ac_provider c = ci_provider inp
             \<and> ac_auth_method c = ci_auth_method inp) (kdb_connections db)")
  case (Inr c)
  note q = Inr
  show ?thesis
  proof (cases "apply_model_validation cid (ci_validation inp) now (kdb_models db)")
    case (Inr ms)
    note ms = Inr
    let ?db = "db\<lparr>kdb_models := ms,
            kdb_connections := sql_update (\<lambda>c. ac_id c = cid) (replaced_connection inp now) (kdb_connections db),
            kdb_secrets := sql_update (\<lambda>s. sx_connection s = cid)
              (\<lambda>s. (refreshed_secret (ci_credential inp) now s)\<lparr>sx_type := ''oauth_bundle'', sx_format := ''oauth_bundle_v1''\<rparr>)
              (kdb_secrets db)\<rparr>"
    show ?thesis
    proof (cases "complete_attempt_in (ci_authorization inp) (ci_owner inp) cid now ?db")
      case (Inl e)
      then have "snd (replace_oauth_authorization cid inp now db) = db"
        unfolding replace_oauth_authorization_def q ms Let_def sum.case Inl by simp
      then show ?thesis ..
    next
      case (Inr db1)
      show ?thesis
      proof (cases "ci_risk inp \<in> {''standard'', ''elevated'', ''experimental'', ''paused''}")
        case True
        then have "snd (replace_oauth_authorization cid inp now db) = audit_connection ''ai_connection.reauthorized'' cid db1"
          unfolding replace_oauth_authorization_def q ms Let_def sum.case Inr by (simp only: not_not if_False snd_conv simp_thms if_True)
        with q Inr show ?thesis by blast
      next
        case False
        then have "snd (replace_oauth_authorization cid inp now db) = db"
          unfolding replace_oauth_authorization_def q sum.case by (simp only: if_True not_False_eq_True snd_conv)
        then show ?thesis ..
      qed
    qed
  next
    case (Inl e)
    then show ?thesis by (simp add: replace_oauth_authorization_def q)
  qed
qed (simp add: replace_oauth_authorization_def)

lemma create_quick_relay_state:
  "snd (create_quick_relay h inp ids now db) = db
   \<or> (\<exists>c sel g k. query_row (relay_connection inp) (kdb_connections db) = Inr c
        \<and> quick_relay_replay inp now db = Inr None
        \<and> sel = zip (selected_models (ac_id c) (unique_strings (ri_models inp)) db) (rd_channels ids)
        \<and> \<not> (experimental_method (ac_auth_method c) \<and> relay_exists (ac_id c) (kdb_gateways db))
        \<and> snd (create_quick_relay h inp ids now db) = relay_built inp c sel g k ids now db)"
proof -
  have built: "snd (build_relay h inp c sel ids now db) = db \<or> (\<exists>g k. snd (build_relay h inp c sel ids now db) = relay_built inp c sel g k ids now db)" for c sel
    by (auto simp: build_relay_def Let_def split: sum.split)
  show ?thesis
  proof (cases "quick_relay_replay inp now db = Inr None \<and> unique_strings (ri_models inp) \<noteq> []")
    case False
    then show ?thesis by (auto simp: create_quick_relay_def Let_def split: sum.split option.split)
  next
    case True
    show ?thesis
    proof (cases "query_row (relay_connection inp) (kdb_connections db)")
      case (Inr c)
      let ?sel = "selected_models (ac_id c) (unique_strings (ri_models inp)) db"
      let ?zip = "zip ?sel (rd_channels ids)"
      have "snd (create_quick_relay h inp ids now db) = db
          \<or> \<not> (experimental_method (ac_auth_method c) \<and> relay_exists (ac_id c) (kdb_gateways db))
            \<and> snd (create_quick_relay h inp ids now db) = snd (build_relay h inp c ?zip ids now db)"
        using True Inr by (simp add: create_quick_relay_def Let_def)
      with built [of c ?zip] True Inr show ?thesis by metis
    qed (simp add: True create_quick_relay_def Let_def)
  qed
qed

lemma attempt_ops_keep:
  "kdb_connections (snd (create_authorization_attempt ainp now db)) = kdb_connections db"
  "kdb_connections (snd (authorization_attempt_for owner aid now db)) = kdb_connections db"
  "kdb_connections (snd (set_authorization_validating owner aid now db)) = kdb_connections db"
  "kdb_connections (snd (complete_authorization_attempt owner aid cid now db)) = kdb_connections db"
  "kdb_connections (snd (fail_authorization_attempt owner aid code msg now db)) = kdb_connections db"
  "kdb_connections (snd (cancel_authorization_attempt owner aid now db)) = kdb_connections db"
  by (simp_all add: create_authorization_attempt_def authorization_attempt_for_def set_authorization_validating_def
      complete_authorization_attempt_def fail_authorization_attempt_def cancel_authorization_attempt_def update_attempt_def Let_def
      split: sum.split)

section \<open>What an operation does to each table\<close>

lemma create_checks_ok:
  assumes "create_checks inp c s db = Inr ()" and "ac_owner c = ci_owner inp" and "ac_org c = ci_org inp"
  shows "ac_id c \<notin> ac_id ` set (kdb_connections db)"
    and "sql_affected (\<lambda>x. owned_by (ac_owner c) (ac_org c) x \<and> connection_live x) (kdb_connections db) < 32"
    and "\<not> credential_exists (ci_owner inp) (ci_org inp) (ci_provider inp) (ci_endpoint inp) (ci_credential inp) [] db"
proof -
  have ok: "\<forall>k\<in>set (create_guards inp c db @ connection_checks c s
      @ [require (\<not> sql_exists (\<lambda>x. ac_id x = ac_id c) (kdb_connections db)) (ErrConstraint ''ai_connections_pkey'')]). is_ok k"
    using assms(1) unfolding create_checks_def first_error_ok .
  then have guards: "\<forall>k\<in>set (create_guards inp c db). is_ok k" by simp
  from ok have "is_ok (require (\<not> sql_exists (\<lambda>x. ac_id x = ac_id c) (kdb_connections db)) (ErrConstraint ''ai_connections_pkey''))"
    by simp
  then show "ac_id c \<notin> ac_id ` set (kdb_connections db)" by (auto simp: sql_exists_iff)
  from guards show "sql_affected (\<lambda>x. owned_by (ac_owner c) (ac_org c) x \<and> connection_live x) (kdb_connections db) < 32"
    and "\<not> credential_exists (ci_owner inp) (ci_org inp) (ci_provider inp) (ci_endpoint inp) (ci_credential inp) [] db"
    by (simp_all add: create_guards_def connection_count_def reject_duplicate_credential_def assms(2,3))
qed

lemma new_connection_fields [simp]:
  "ac_id (new_connection inp cid now) = cid" "ac_owner (new_connection inp cid now) = ci_owner inp"
  "ac_org (new_connection inp cid now) = ci_org inp" "sound_status (new_connection inp cid now)"
  "connection_live (new_connection inp cid now)"
  by (simp_all add: new_connection_def sound_status_def connection_live_def validated_status_live)

lemma new_secret_fields [simp]: "sx_connection (new_secret s cid) = cid" "sx_version (new_secret s cid) = 1"
  by (simp_all add: new_secret_def)

lemma insert_connection_fields [simp]:
  "kdb_connections (insert_connection c s ms db) = kdb_connections db @ [c]"
  "kdb_secrets (insert_connection c s ms db) = kdb_secrets db @ [s]"
  "kdb_attempts (insert_connection c s ms db) = kdb_attempts db" "kdb_relays (insert_connection c s ms db) = kdb_relays db"
  by (simp_all add: insert_connection_def)

lemma relay_built_fields [simp]:
  "kdb_connections (relay_built inp c sel g k ids now db) = kdb_connections db"
  "kdb_secrets (relay_built inp c sel g k ids now db) = kdb_secrets db"
  "kdb_attempts (relay_built inp c sel g k ids now db) = kdb_attempts db"
  by (simp_all add: relay_built_def Let_def)

lemma create_changes:
  assumes "connection_wf db"
  shows "connections_change db (snd (create_connection inp uuid mids now db))"
    and "secrets_change db (snd (create_connection inp uuid mids now db))"
proof -
  let ?db = "snd (create_connection inp uuid mids now db)"
  from create_connection_state [of inp uuid mids now db]
  have "connections_change db ?db \<and> secrets_change db ?db"
  proof
    assume "?db = db"
    then show ?thesis by (simp add: table_change.same)
  next
    assume "\<exists>db1 ms c s. c = new_connection inp (new_connection_id uuid) now
        \<and> s = new_secret (ci_credential inp) (new_connection_id uuid) \<and> create_checks inp c s db = Inr ()
        \<and> complete_attempt_in (ci_authorization inp) (ci_owner inp) (new_connection_id uuid) now (insert_connection c s ms db) = Inr db1
        \<and> ?db = audit_connection ''ai_connection.created'' (new_connection_id uuid) db1"
    then obtain db1 ms c s where c: "c = new_connection inp (new_connection_id uuid) now"
      and s: "s = new_secret (ci_credential inp) (new_connection_id uuid)" and ok: "create_checks inp c s db = Inr ()"
      and db1: "complete_attempt_in (ci_authorization inp) (ci_owner inp) (new_connection_id uuid) now (insert_connection c s ms db) = Inr db1"
      and eq: "?db = audit_connection ''ai_connection.created'' (new_connection_id uuid) db1" by blast
    have own: "ac_owner c = ci_owner inp" "ac_org c = ci_org inp" by (simp_all add: c)
    have rows: "kdb_connections ?db = kdb_connections db @ [c]" "kdb_secrets ?db = kdb_secrets db @ [s]"
      by (simp_all add: eq complete_attempt_fields [OF db1])
    have fresh: "sx_connection s \<notin> sx_connection ` set (kdb_secrets db)"
      using create_checks_ok(1) [OF ok own] assms by (auto simp: c s connection_wf_def)
    have "connection_new (kdb_connections db) c"
      using create_checks_ok(2) [OF ok own] by (simp add: connection_new_def c)
    then show ?thesis
      unfolding rows using create_checks_ok(1) [OF ok own] fresh by (simp add: table_change.added s c)
  qed
  then show "connections_change db ?db" "secrets_change db ?db" by simp_all
qed

lemma rotated_secret_can: "secret_can s (rotated_secret new s)"
  by (simp add: secret_can_def rotated_secret_def)

lemma refreshed_secret_can:
  "secret_can s (refreshed_secret new now s)" "secret_can s ((refreshed_secret new now s)\<lparr>sx_type := ty, sx_format := fmt\<rparr>)"
  by (simp_all add: secret_can_def refreshed_secret_def rotated_secret_def)

lemma scrubbed_secret_can: "secret_can s (scrubbed_secret s)"
  by (simp add: secret_can_def scrubbed_secret_def)

lemma validate_changes:
  "connections_change db (snd (update_connection_validation owner org cid version v now db))"
  "secrets_change db (snd (update_connection_validation owner org cid version v now db))"
proof -
  let ?db = "snd (update_connection_validation owner org cid version v now db)"
  have "table_change ac_id connection_can connection_new (kdb_connections db)
      (sql_update (live_connection_of owner org cid) (set_validation v now) (kdb_connections db))"
    by (rule table_change.updated) (simp add: set_validation_can live_connection_of_def)
  then show "connections_change db ?db" "secrets_change db ?db"
    using update_connection_validation_state [of owner org cid version v now db] by (auto simp: table_change.same)
qed

lemma rotate_changes:
  assumes "connection_wf db"
  shows "connections_change db (snd (rotate_connection_secret owner org cid credential v now db))"
    and "secrets_change db (snd (rotate_connection_secret owner org cid credential v now db))"
proof -
  let ?db = "snd (rotate_connection_secret owner org cid credential v now db)"
  have "table_change ac_id connection_can connection_new (kdb_connections db)
      (sql_update (\<lambda>x. ac_id x = cid) (set_validation v now) (kdb_connections db))"
    if q: "query_row (live_connection_of owner org cid) (kdb_connections db) = Inr c" for c
    by (rule table_change.updated, rule set_validation_can) (rule only_row [OF assms, where q = "\<lambda>_. True"], use q in auto)
  moreover have "table_change sx_connection secret_can N (kdb_secrets db)
      (sql_update (\<lambda>s. sx_connection s = cid) (rotated_secret credential) (kdb_secrets db))" for N
    by (rule table_change.updated) (rule rotated_secret_can)
  ultimately show "connections_change db ?db" "secrets_change db ?db"
    using rotate_connection_secret_state [of owner org cid credential v now db] by (auto simp: table_change.same)
qed

lemma delete_changes:
  "connections_change db (snd (delete_connection owner org cid now db))"
  "secrets_change db (snd (delete_connection owner org cid now db))"
proof -
  have "table_change ac_id connection_can connection_new (kdb_connections db)
      (sql_update (live_connection_of owner org cid) (\<lambda>c. c\<lparr>ac_status := ''deleted'', ac_deleted := Some now, ac_updated := now\<rparr>)
        (kdb_connections db))"
    by (rule table_change.updated) (simp add: connection_can_def live_connection_of_def sound_status_def)
  moreover have "table_change sx_connection secret_can N (kdb_secrets db)
      (sql_update (\<lambda>s. sx_connection s = cid) scrubbed_secret (kdb_secrets db))" for N
    by (rule table_change.updated) (rule scrubbed_secret_can)
  ultimately show "connections_change db (snd (delete_connection owner org cid now db))"
    "secrets_change db (snd (delete_connection owner org cid now db))"
    by (simp_all add: delete_connection_def table_change.same)
qed

lemma replace_changes:
  assumes "connection_wf db"
  shows "connections_change db (snd (replace_oauth_authorization cid inp now db))"
    and "secrets_change db (snd (replace_oauth_authorization cid inp now db))"
proof -
  let ?db = "snd (replace_oauth_authorization cid inp now db)"
  let ?f = "\<lambda>s. (refreshed_secret (ci_credential inp) now s)\<lparr>sx_type := ''oauth_bundle'', sx_format := ''oauth_bundle_v1''\<rparr>"
  have "connections_change db ?db \<and> secrets_change db ?db"
    using replace_oauth_authorization_state [of cid inp now db]
  proof
    assume "?db = db"
    then show ?thesis by (simp add: table_change.same)
  next
    assume "\<exists>ms c db1. query_row (\<lambda>c. live_connection_of (ci_owner inp) (ci_org inp) cid c \<and> ac_provider c = ci_provider inp
             \<and> ac_auth_method c = ci_auth_method inp) (kdb_connections db) = Inr c
        \<and> complete_attempt_in (ci_authorization inp) (ci_owner inp) cid now (db\<lparr>kdb_models := ms,
            kdb_connections := sql_update (\<lambda>c. ac_id c = cid) (replaced_connection inp now) (kdb_connections db),
            kdb_secrets := sql_update (\<lambda>s. sx_connection s = cid) ?f (kdb_secrets db)\<rparr>) = Inr db1
        \<and> ?db = audit_connection ''ai_connection.reauthorized'' cid db1"
    then obtain ms c db1 where q: "query_row (\<lambda>c. live_connection_of (ci_owner inp) (ci_org inp) cid c \<and> ac_provider c = ci_provider inp
             \<and> ac_auth_method c = ci_auth_method inp) (kdb_connections db) = Inr c"
      and db1: "complete_attempt_in (ci_authorization inp) (ci_owner inp) cid now (db\<lparr>kdb_models := ms,
            kdb_connections := sql_update (\<lambda>c. ac_id c = cid) (replaced_connection inp now) (kdb_connections db),
            kdb_secrets := sql_update (\<lambda>s. sx_connection s = cid) ?f (kdb_secrets db)\<rparr>) = Inr db1"
      and eq: "?db = audit_connection ''ai_connection.reauthorized'' cid db1" by blast
    have rows: "kdb_connections ?db = sql_update (\<lambda>c. ac_id c = cid) (replaced_connection inp now) (kdb_connections db)"
      "kdb_secrets ?db = sql_update (\<lambda>s. sx_connection s = cid) ?f (kdb_secrets db)"
      unfolding eq using complete_attempt_fields(1,2) [OF db1] by simp_all
    have "connections_change db ?db"
      unfolding rows by (rule table_change.updated, rule replaced_connection_can, rule only_row [OF assms q])
    moreover have "secrets_change db ?db"
      unfolding rows by (rule table_change.updated) (rule refreshed_secret_can)
    ultimately show ?thesis ..
  qed
  then show "connections_change db ?db" "secrets_change db ?db" by simp_all
qed

lemma refreshed_changes:
  assumes "connection_wf db"
  shows "connections_change db (snd (update_oauth_secret cid version new now db))"
    and "secrets_change db (snd (update_oauth_secret cid version new now db))"
proof -
  have "table_change ac_id connection_can connection_new (kdb_connections db)
      (sql_update (\<lambda>c. ac_id c = cid \<and> ac_deleted c = None)
        (\<lambda>c. c\<lparr>ac_auth_status := ''active'', ac_error_code := [], ac_error_message := [], ac_updated := now\<rparr>) (kdb_connections db))"
    by (rule table_change.updated)
       (use live_iff [OF assms] in \<open>auto simp: connection_can_def sound_status_def connection_live_def\<close>)
  moreover have "table_change sx_connection secret_can N (kdb_secrets db)
      (sql_update (\<lambda>s. sx_connection s = cid \<and> sx_version s = version \<and> sx_type s = ''oauth_bundle'') (refreshed_secret new now)
        (kdb_secrets db))" for N
    by (rule table_change.updated) (rule refreshed_secret_can)
  ultimately show "connections_change db (snd (update_oauth_secret cid version new now db))"
    "secrets_change db (snd (update_oauth_secret cid version new now db))"
    by (simp_all add: update_oauth_secret_def Let_def table_change.same)
qed

lemma failure_changes:
  assumes "connection_wf db"
  shows "connections_change db (snd (mark_oauth_failure cid version reauth code next now db))"
    and "secrets_change db (snd (mark_oauth_failure cid version reauth code next now db))"
proof -
  have "table_change ac_id connection_can connection_new (kdb_connections db)
      (sql_update (\<lambda>c. ac_id c = cid \<and> ac_deleted c = None)
        (\<lambda>c. c\<lparr>ac_auth_status := st, ac_error_code := code, ac_error_message := msg, ac_updated := now\<rparr>) (kdb_connections db))" for st msg
    by (rule table_change.updated)
       (use live_iff [OF assms] in \<open>auto simp: connection_can_def sound_status_def connection_live_def\<close>)
  moreover have "table_change sx_connection secret_can N (kdb_secrets db)
      (sql_update (\<lambda>s. sx_connection s = cid \<and> sx_version s = version \<and> sx_type s = ''oauth_bundle'')
        (\<lambda>s. s\<lparr>sx_failures := sx_failures s + 1, sx_error_code := code, sx_next_refresh := nx\<rparr>) (kdb_secrets db))" for nx N
    by (rule table_change.updated) (simp add: secret_can_def)
  ultimately show "connections_change db (snd (mark_oauth_failure cid version reauth code next now db))"
    "secrets_change db (snd (mark_oauth_failure cid version reauth code next now db))"
    by (simp_all add: mark_oauth_failure_def Let_def table_change.same split: sum.split)
qed

lemma attempt_ops_keep_secrets:
  "kdb_secrets (snd (create_authorization_attempt ainp now db)) = kdb_secrets db"
  "kdb_secrets (snd (authorization_attempt_for owner aid now db)) = kdb_secrets db"
  "kdb_secrets (snd (set_authorization_validating owner aid now db)) = kdb_secrets db"
  "kdb_secrets (snd (complete_authorization_attempt owner aid cid now db)) = kdb_secrets db"
  "kdb_secrets (snd (fail_authorization_attempt owner aid code msg now db)) = kdb_secrets db"
  "kdb_secrets (snd (cancel_authorization_attempt owner aid now db)) = kdb_secrets db"
  by (simp_all add: create_authorization_attempt_def authorization_attempt_for_def set_authorization_validating_def
      complete_authorization_attempt_def fail_authorization_attempt_def cancel_authorization_attempt_def update_attempt_def Let_def
      split: sum.split)

lemma relay_keeps:
  "kdb_connections (snd (create_quick_relay h inp ids now db)) = kdb_connections db"
  "kdb_secrets (snd (create_quick_relay h inp ids now db)) = kdb_secrets db"
  "kdb_attempts (snd (create_quick_relay h inp ids now db)) = kdb_attempts db"
  using create_quick_relay_state [of h inp ids now db] by (auto simp del: split_paired_Ex)

lemma step_connections: "connection_wf db \<Longrightarrow> connections_change db (connection_step h x db t)"
  by (cases x) (simp_all add: create_changes validate_changes rotate_changes delete_changes replace_changes refreshed_changes
      failure_changes attempt_ops_keep relay_keeps expire_relay_reveals_def Let_def table_change.same)

lemma step_secrets: "connection_wf db \<Longrightarrow> secrets_change db (connection_step h x db t)"
  by (cases x) (simp_all add: create_changes validate_changes rotate_changes delete_changes replace_changes refreshed_changes
      failure_changes attempt_ops_keep_secrets relay_keeps expire_relay_reveals_def Let_def table_change.same)

section \<open>Attempts\<close>

abbreviation attempts_kept :: "connection_db \<Rightarrow> connection_db \<Rightarrow> bool" where
  "attempts_kept db db' \<equiv> keeps_rows aa_id attempt_can (kdb_attempts db) (kdb_attempts db')
     \<and> (distinct (map aa_id (kdb_attempts db)) \<longrightarrow> distinct (map aa_id (kdb_attempts db')))"

lemma attempts_kept_change: "table_change aa_id attempt_can new (kdb_attempts db) (kdb_attempts db') \<Longrightarrow> attempts_kept db db'"
  by (simp add: table_change_keeps table_change_keys can_key)

lemma attempts_kept_trans: "attempts_kept db db1 \<Longrightarrow> attempts_kept db1 db2 \<Longrightarrow> attempts_kept db db2"
  using keeps_rows_trans [of attempt_can aa_id] can_trans(3) by blast

lemma attempts_same: "kdb_attempts db' = kdb_attempts db \<Longrightarrow> attempts_kept db db'"
  by (simp add: keeps_rows_refl)

lemma attempts_kept_update:
  assumes "kdb_attempts db' = sql_update sel f (kdb_attempts db)"
    and "\<And>a. sel a \<Longrightarrow> aa_id (f a) = aa_id a \<and> aa_owner (f a) = aa_owner a \<and> attempt_open a"
  shows "attempts_kept db db'"
  by (rule attempts_kept_change, unfold assms(1), rule table_change.updated) (simp add: attempt_can_def assms(2))

lemma update_attempt_kept:
  assumes "\<And>a. sel a \<Longrightarrow> aa_id (f a) = aa_id a \<and> aa_owner (f a) = aa_owner a \<and> attempt_open a"
    and "\<And>d. kdb_attempts (audit d) = kdb_attempts d"
  shows "attempts_kept db (snd (update_attempt sel f audit db))"
  by (rule attempts_kept_update [where sel = sel and f = f]) (simp_all add: update_attempt_def assms)

lemma fail_kept: "attempts_kept db (snd (fail_authorization_attempt owner aid code msg now db))"
proof -
  let ?sel = "\<lambda>a. attempt_of owner aid a \<and> attempt_open a"
  have "attempts_kept db d" if "kdb_attempts d = sql_update ?sel (failed_attempt code msg now) (kdb_attempts db)" for d
    using that by (rule attempts_kept_update) (simp add: failed_attempt_def Let_def)
  from this [of "snd (fail_authorization_attempt owner aid code msg now db)"] show ?thesis
    by (cases "sql_affected ?sel (kdb_attempts db) = 0")
       (simp_all add: fail_authorization_attempt_def Let_def keeps_rows_refl)
qed

lemma read_kept: "attempts_kept db (snd (authorization_attempt_for owner aid now db))"
  by (cases "query_row (attempt_of owner aid) (kdb_attempts db)")
     (simp_all add: authorization_attempt_for_def fail_kept keeps_rows_refl)

lemma start_kept: "attempts_kept db (snd (create_authorization_attempt inp now db))"
proof -
  let ?a = "\<lparr>aa_id = ai_id inp, aa_owner = ai_owner inp, aa_org = ai_org inp,
                  aa_provider = ai_provider inp, aa_method = ai_method inp, aa_status = ''authorization_pending'',
                  aa_mode = ai_mode inp, aa_connection = None, aa_error_code = [], aa_error_message = [], aa_started = now,
                  aa_completed = None, aa_expires = ai_expires inp\<rparr>"
  let ?db = "audit_connection ''ai_authorization.started'' (ai_id inp) (db\<lparr>kdb_attempts := kdb_attempts db @ [?a]\<rparr>)"
  show ?thesis
  proof (cases "sql_exists (\<lambda>a. aa_id a = ai_id inp) (kdb_attempts db)")
    case True
    then have "snd (create_authorization_attempt inp now db) = db"
      by (simp add: create_authorization_attempt_def require_def)
    then show ?thesis by (simp add: keeps_rows_refl)
  next
    case False
    have "table_change aa_id attempt_can (\<lambda>_ _. True) (kdb_attempts db) (kdb_attempts db @ [?a])"
      by (rule table_change.added) (use False in \<open>auto simp: sql_exists_iff\<close>)
    then have "attempts_kept db ?db" by (intro attempts_kept_change) simp
    then have "attempts_kept db (snd (authorization_attempt_for owner aid now ?db))" for owner aid
      using read_kept attempts_kept_trans by blast
    then show ?thesis by (simp add: create_authorization_attempt_def keeps_rows_refl split: sum.split)
  qed
qed

lemma complete_in_kept:
  assumes "complete_attempt_in aid owner cid now db = Inr db'" shows "attempts_kept db db'"
proof (cases "trim_space aid = []")
  case True
  with assms show ?thesis by (simp add: complete_attempt_in_def keeps_rows_refl)
next
  case False
  with assms have "kdb_attempts db' = sql_update (\<lambda>a. attempt_of owner (trim_space aid) a \<and> attempt_open a \<and> aa_expires a > now)
      (completed_attempt cid now) (kdb_attempts db)"
    by (auto simp: complete_attempt_in_def Let_def split: if_splits)
  then show ?thesis by (rule attempts_kept_update) (simp add: completed_attempt_def)
qed

lemma create_replace_kept:
  "attempts_kept db (snd (create_connection cinp uuid mids now db))"
  "attempts_kept db (snd (replace_oauth_authorization cid cinp now db))"
proof -
  have step: "attempts_kept db d" if "complete_attempt_in aid owner c now d0 = Inr d1" "kdb_attempts d0 = kdb_attempts db"
      "kdb_attempts d = kdb_attempts d1" for aid owner c d0 d1 d
    using complete_in_kept [OF that(1)] that(2,3) by simp
  show "attempts_kept db (snd (create_connection cinp uuid mids now db))"
    using create_connection_state [of cinp uuid mids now db]
  proof
    assume "snd (create_connection cinp uuid mids now db) = db"
    then show ?thesis by (simp add: keeps_rows_refl)
  qed (elim exE conjE, rule step, assumption, simp, simp)
  show "attempts_kept db (snd (replace_oauth_authorization cid cinp now db))"
    using replace_oauth_authorization_state [of cid cinp now db]
  proof
    assume "snd (replace_oauth_authorization cid cinp now db) = db"
    then show ?thesis by (simp add: keeps_rows_refl)
  qed (elim exE conjE, rule step, assumption, simp, simp)
qed

lemma connection_ops_keep_attempts:
  "kdb_attempts (snd (update_connection_validation owner org cid version v now db)) = kdb_attempts db"
  "kdb_attempts (snd (rotate_connection_secret owner org cid credential v now db)) = kdb_attempts db"
  "kdb_attempts (snd (delete_connection owner org cid now db)) = kdb_attempts db"
  "kdb_attempts (snd (update_oauth_secret cid version credential now db)) = kdb_attempts db"
  "kdb_attempts (snd (mark_oauth_failure cid version reauth code nx now db)) = kdb_attempts db"
  by (simp_all add: update_connection_validation_def rotate_connection_secret_def delete_connection_def update_oauth_secret_def
      mark_oauth_failure_def Let_def split: sum.split)

lemma open_words: "attempt_open a \<longleftrightarrow> aa_status a = ''authorization_pending'' \<or> aa_status a = ''validating''"
  by (simp add: attempt_open_def)

lemma step_attempts: "attempts_kept db (connection_step h x db t)"
proof (cases x)
  case (OAttemptValidating owner aid)
  show ?thesis unfolding OAttemptValidating connection_step.simps set_authorization_validating_def
    by (rule update_attempt_kept) (simp_all add: open_words)
next
  case (OAttemptComplete owner aid cid)
  show ?thesis unfolding OAttemptComplete connection_step.simps complete_authorization_attempt_def
    by (rule update_attempt_kept) (simp_all add: completed_attempt_def)
next
  case (OAttemptCancel owner aid)
  show ?thesis unfolding OAttemptCancel connection_step.simps cancel_authorization_attempt_def
    by (rule update_attempt_kept) (simp_all add: open_words)
qed (simp_all add: create_replace_kept start_kept read_kept fail_kept connection_ops_keep_attempts relay_keeps keeps_rows_refl
      expire_relay_reveals_def Let_def)

lemma connection_wf_step:
  assumes "connection_wf db" shows "connection_wf (connection_step h x db t)"
proof -
  let ?db = "connection_step h x db t"
  note c = step_connections [OF assms, of h x t] and s = step_secrets [OF assms, of h x t]
  have wf: "distinct (map ac_id (kdb_connections db))" "distinct (map sx_connection (kdb_secrets db))"
    "sx_connection ` set (kdb_secrets db) \<subseteq> ac_id ` set (kdb_connections db)" "\<forall>c\<in>set (kdb_connections db). sound_status c"
    "distinct (map aa_id (kdb_attempts db))"
    using assms by (simp_all add: connection_wf_def sound_status_def)
  have "distinct (map ac_id (kdb_connections ?db))" using table_change_keys(1) [OF c] can_key(1) wf(1) by blast
  moreover have "distinct (map sx_connection (kdb_secrets ?db))" using table_change_keys(1) [OF s] can_key(2) wf(2) by blast
  moreover have "\<forall>c\<in>set (kdb_connections ?db). sound_status c"
    by (rule table_change_all [OF c _ _ wf(4)]) (auto simp: connection_can_def connection_new_def)
  moreover have "\<forall>s\<in>set (kdb_secrets ?db). sx_connection s \<in> ac_id ` set (kdb_connections ?db)"
  proof (rule table_change_all [OF s])
    show "\<forall>s\<in>set (kdb_secrets db). sx_connection s \<in> ac_id ` set (kdb_connections ?db)"
      using wf(3) table_change_keys(2) [OF c] can_key(1) by blast
  qed (auto simp: secret_can_def)
  moreover have "distinct (map aa_id (kdb_attempts ?db))" using step_attempts wf(5) by blast
  ultimately show ?thesis by (auto simp: connection_wf_def sound_status_def)
qed

section \<open>Connections over a run\<close>

definition within_limit :: "connection_db \<Rightarrow> bool" where
  "within_limit db = (\<forall>owner org. connection_count owner org db \<le> 32)"

lemma affected_update_le:
  assumes "\<And>r. r \<in> set rows \<Longrightarrow> p r \<Longrightarrow> Q (f r) \<Longrightarrow> Q r"
  shows "sql_affected Q (sql_update p f rows) \<le> sql_affected Q rows"
  using assms
proof (induction rows)
  case (Cons r rows)
  then have "sql_affected Q (sql_update p f rows) \<le> sql_affected Q rows" by simp
  with Cons.prems [of r] show ?case by (auto simp: sql_affected_def)
qed (simp add: sql_affected_def)

lemma within_limit_change:
  assumes "connections_change db db'" and "within_limit db" shows "within_limit db'"
  unfolding within_limit_def
proof (intro allI)
  fix owner org
  let ?Q = "\<lambda>c. owned_by owner org c \<and> connection_live c"
  have old: "sql_affected ?Q (kdb_connections db) \<le> 32"
    using assms(2) by (simp add: within_limit_def connection_count_def)
  show "connection_count owner org db' \<le> 32"
    using assms(1)
  proof cases
    case same
    then show ?thesis using old by (simp add: connection_count_def)
  next
    case (updated p f)
    have "sql_affected ?Q (sql_update p f (kdb_connections db)) \<le> sql_affected ?Q (kdb_connections db)"
    proof (rule affected_update_le)
      fix r assume "r \<in> set (kdb_connections db)" "p r" and Q: "?Q (f r)"
      then have "connection_can r (f r)" by (intro updated(2))
      then show "?Q r" using Q by (auto simp: connection_can_def owned_by_def)
    qed
    then show ?thesis using old updated(1) by (simp add: connection_count_def)
  next
    case (added c)
    have "sql_affected ?Q (kdb_connections db @ [c]) \<le> 32"
    proof (cases "owned_by owner org c")
      case True
      then have "ac_owner c = owner" "ac_org c = org" by (simp_all add: owned_by_def)
      then show ?thesis using added(3) by (auto simp: connection_new_def sql_affected_def)
    next
      case False
      then show ?thesis using old by (simp add: sql_affected_def)
    qed
    then show ?thesis using added(1) by (simp add: connection_count_def)
  qed
qed

definition connection_inv :: "connection_db \<Rightarrow> bool" where
  "connection_inv db = (connection_wf db \<and> within_limit db)"

interpretation connection_rows: row_lifecycle connection_inv "connection_step h" kdb_connections ac_id connection_can for h
proof
  show "connection_inv (connection_step h x s t)" if "connection_inv s" for x s t
    using that connection_wf_step within_limit_change [OF step_connections] by (simp add: connection_inv_def)
  show "\<exists>r'. row_at ac_id k (kdb_connections (connection_step h x s t)) = Some r' \<and> connection_can r r'"
    if "connection_inv s" "row_at ac_id k (kdb_connections s) = Some r" for x s t k r
    using table_change_keeps [OF step_connections [of s h x t] can_refl(1) can_key(1)] that
    by (simp add: connection_inv_def keeps_rows_def)
qed (auto intro: can_trans(1))

text \<open>C13: Over any run of the store a user never has more than 32 live connections in a workspace.\<close>

theorem connection_limit_kept:
  assumes "connection_wf db" and "within_limit db"
  shows "connection_count owner org (store_run (connection_step h) db es) \<le> 32"
  using connection_rows.inv_run [of db h es] assms by (simp add: connection_inv_def within_limit_def)

lemma dead_reads:
  assumes "connection_wf db" and "row_at ac_id cid (kdb_connections db) = Some c" and "\<not> connection_live c"
  shows "connection_for owner org cid db = Inl ErrNoRows" and "connection_secret_for owner org cid db = Inl ErrNoRows"
proof -
  have only: "x = c" if "x \<in> set (kdb_connections db)" "ac_id x = cid" for x
    using row_at_unique [of ac_id "kdb_connections db" x] that assms(1,2) by (simp add: connection_wf_def)
  have "query_row (\<lambda>(c, _). live_connection_of owner org cid c) (with_secret db) = Inl ErrNoRows"
    unfolding query_row_Inl using only assms(3) by (auto simp: with_secret_def live_connection_of_def)
  then show "connection_for owner org cid db = Inl ErrNoRows" "connection_secret_for owner org cid db = Inl ErrNoRows"
    by (simp_all add: connection_for_def connection_secret_for_def)
qed

text \<open>A deleted connection keeps its row as it is over any run, and neither it nor its secret can be read
  again.\<close>

theorem deleted_connection_final:
  assumes "connection_wf db" and "within_limit db" and "row_at ac_id cid (kdb_connections db) = Some c"
    and "\<not> connection_live c"
  shows "row_at ac_id cid (kdb_connections (store_run (connection_step h) db es)) = Some c
    \<and> connection_for owner org cid (store_run (connection_step h) db es) = Inl ErrNoRows
    \<and> connection_secret_for owner org cid (store_run (connection_step h) db es) = Inl ErrNoRows"
proof -
  let ?db = "store_run (connection_step h) db es"
  have inv: "connection_inv db" using assms(1,2) by (simp add: connection_inv_def)
  obtain c' where c': "row_at ac_id cid (kdb_connections ?db) = Some c'" "connection_can c c'"
    using connection_rows.row_run [OF inv assms(3)] by blast
  then have row: "row_at ac_id cid (kdb_connections ?db) = Some c" using assms(4) by (simp add: connection_can_def)
  have "connection_wf ?db" using connection_rows.inv_run [OF inv] by (simp add: connection_inv_def)
  from row dead_reads [OF this row assms(4)] show ?thesis by blast
qed

section \<open>Authorization attempts over a run\<close>

definition attempt_completes :: "(string \<Rightarrow> string) \<Rightarrow> string \<Rightarrow> connection_op \<Rightarrow> connection_db \<Rightarrow> time \<Rightarrow> bool" where
  "attempt_completes h aid x db t =
     (case (row_at aa_id aid (kdb_attempts db), row_at aa_id aid (kdb_attempts (connection_step h x db t))) of
        (Some a, Some a') \<Rightarrow> aa_status a \<noteq> ''completed'' \<and> aa_status a' = ''completed''
      | _ \<Rightarrow> False)"

lemma attempt_step:
  assumes "row_at aa_id k (kdb_attempts s) = Some a" and "row_at aa_id k (kdb_attempts (connection_step h x s t)) = Some a'"
  shows "attempt_can a a'"
proof -
  obtain r where "row_at aa_id k (kdb_attempts (connection_step h x s t)) = Some r" "attempt_can a r"
    using step_attempts [of s h x t, THEN conjunct1] assms(1) unfolding keeps_rows_def by blast
  with assms(2) show ?thesis by simp
qed

interpretation attempt_rows: one_shot "\<lambda>_ :: connection_db. True" "connection_step h" kdb_attempts aa_id attempt_can attempt_open "attempt_completes h" for h
proof
  fix x t k r and s :: connection_db
  assume "row_at aa_id k (kdb_attempts s) = Some r"
  then show "\<exists>r'. row_at aa_id k (kdb_attempts (connection_step h x s t)) = Some r' \<and> attempt_can r r'"
    using step_attempts [of s h x t] by (simp add: keeps_rows_def)
next
  fix x t k and s :: connection_db
  assume fires: "attempt_completes h k x s t"
  then obtain a a' where a: "row_at aa_id k (kdb_attempts s) = Some a" and a': "row_at aa_id k (kdb_attempts (connection_step h x s t)) = Some a'"
    and st: "aa_status a \<noteq> ''completed''" "aa_status a' = ''completed''"
    by (auto simp: attempt_completes_def split: option.splits)
  have "attempt_can a a'" by (rule attempt_step [OF a a'])
  then show "\<exists>r. row_at aa_id k (kdb_attempts s) = Some r \<and> attempt_open r"
    using a st by (auto simp: attempt_can_def)
next
  fix x t k r' and s :: connection_db
  assume "attempt_completes h k x s t" and "row_at aa_id k (kdb_attempts (connection_step h x s t)) = Some r'"
  then show "\<not> attempt_open r'" by (auto simp: attempt_completes_def attempt_open_def split: option.splits)
qed (auto simp: attempt_can_def)

text \<open>An authorization attempt is completed at most once over any run, and one that has completed, failed,
  expired or been cancelled keeps its row.\<close>

theorem attempt_completed_once:
  "count_steps (connection_step h) (attempt_completes h aid) db es \<le> 1
   \<and> (case row_at aa_id aid (kdb_attempts db) of
        Some a \<Rightarrow> attempt_open a \<or> row_at aa_id aid (kdb_attempts (store_run (connection_step h) db es)) = Some a
      | None \<Rightarrow> True)"
proof -
  have "row_at aa_id aid (kdb_attempts (store_run (connection_step h) db es)) = Some a"
    if row: "row_at aa_id aid (kdb_attempts db) = Some a" and closed: "\<not> attempt_open a" for a
  proof -
    have "\<exists>r'. row_at aa_id aid (kdb_attempts (store_run (connection_step h) db es)) = Some r' \<and> attempt_can a r' \<and> \<not> attempt_open r'"
      by (rule attempt_rows.closed_run [OF TrueI row closed])
    then show ?thesis using closed by (auto simp: attempt_can_def)
  qed
  then show ?thesis using attempt_rows.fires_at_most_once [OF TrueI] by (simp split: option.split) blast
qed

section \<open>OAuth secrets over a run\<close>

definition refresh_stored :: "int \<Rightarrow> string \<Rightarrow> connection_op \<Rightarrow> connection_db \<Rightarrow> time \<Rightarrow> bool" where
  "refresh_stored v cid x db t = (case x of
      ORefreshed c w new \<Rightarrow> c = cid \<and> w = v \<and> is_ok (fst (update_oauth_secret c w new t db))
    | _ \<Rightarrow> False)"

lemma refreshed_row:
  assumes "connection_wf db" and "is_ok (fst (update_oauth_secret cid v new t db))"
  obtains s where "row_at sx_connection cid (kdb_secrets db) = Some s" "sx_version s = v" "sx_type s = ''oauth_bundle''"
    and "row_at sx_connection cid (kdb_secrets (snd (update_oauth_secret cid v new t db))) = Some (refreshed_secret new t s)"
proof -
  let ?sel = "\<lambda>s. sx_connection s = cid \<and> sx_version s = v \<and> sx_type s = ''oauth_bundle''"
  have one: "sql_affected ?sel (kdb_secrets db) = 1"
    using assms(2) by (simp add: update_oauth_secret_def Let_def split: if_splits)
  then have "\<not> (\<forall>r\<in>set (kdb_secrets db). \<not> ?sel r)" unfolding sql_affected_0 [symmetric] by linarith
  then obtain s where s: "s \<in> set (kdb_secrets db)" "?sel s" by blast
  have "row_at sx_connection (sx_connection s) (kdb_secrets db) = Some s"
    using assms(1) by (intro row_at_unique s(1)) (simp add: connection_wf_def)
  then have row: "row_at sx_connection cid (kdb_secrets db) = Some s" using s(2) by simp
  have key: "sx_connection (refreshed_secret new t r) = sx_connection r" for r
    using can_key(2) [OF refreshed_secret_can(1)] .
  have "kdb_secrets (snd (update_oauth_secret cid v new t db)) = sql_update ?sel (refreshed_secret new t) (kdb_secrets db)"
    using one by (simp add: update_oauth_secret_def Let_def)
  moreover have "row_at sx_connection cid (sql_update ?sel (refreshed_secret new t) (kdb_secrets db)) = Some (refreshed_secret new t s)"
    using s(2) by (subst row_at_sql_update) (simp_all add: key row)
  ultimately have "row_at sx_connection cid (kdb_secrets (snd (update_oauth_secret cid v new t db))) = Some (refreshed_secret new t s)"
    by (simp only:)
  with row s(2) show thesis by (intro that) simp_all
qed

interpretation secret_rows: one_shot connection_wf "connection_step h" kdb_secrets sx_connection secret_can
  "\<lambda>s. sx_version s \<le> v" "refresh_stored v" for h v
proof
  show "connection_wf (connection_step h x s t)" if "connection_wf s" for x s t using that by (rule connection_wf_step)
  show "\<exists>r'. row_at sx_connection k (kdb_secrets (connection_step h x s t)) = Some r' \<and> secret_can r r'"
    if "connection_wf s" "row_at sx_connection k (kdb_secrets s) = Some r" for x s t k r
    using table_change_keeps [OF step_secrets [OF that(1), of h x t] can_refl(2) can_key(2)] that(2) by (simp add: keeps_rows_def)
  show "secret_can r r''" if "secret_can r r'" "secret_can r' r''" for r r' r'' using that by (rule can_trans(2))
  show "\<exists>r. row_at sx_connection k (kdb_secrets s) = Some r \<and> sx_version r \<le> v"
    if "connection_wf s" "refresh_stored v k x s t" for x s t k
    using that by (auto simp: refresh_stored_def elim!: refreshed_row split: connection_op.splits)
  show "\<not> sx_version r' \<le> v"
    if wf: "connection_wf s" and fires: "refresh_stored v k x s t"
      and row: "row_at sx_connection k (kdb_secrets (connection_step h x s t)) = Some r'" for x s t k r'
  proof -
    obtain new where x: "x = ORefreshed k v new" and ok: "is_ok (fst (update_oauth_secret k v new t s))"
      using fires by (auto simp: refresh_stored_def split: connection_op.splits)
    obtain s0 where "sx_version s0 = v"
      and "row_at sx_connection k (kdb_secrets (snd (update_oauth_secret k v new t s))) = Some (refreshed_secret new t s0)"
      by (rule refreshed_row [OF wf ok])
    moreover from this have "r' = refreshed_secret new t s0" using row x by simp
    moreover have "sx_version (refreshed_secret new t s0) = sx_version s0 + 1" by (simp add: refreshed_secret_def rotated_secret_def)
    ultimately show ?thesis by simp
  qed
qed (auto simp: secret_can_def)

text \<open>However many refreshers have read a version of an OAuth secret, over any run at most one of them
  stores its result; the version of a secret never decreases, and its ciphertext only changes with it.\<close>

theorem version_refreshed_once:
  assumes "connection_wf db"
  shows "count_steps (connection_step h) (refresh_stored v cid) db es \<le> 1
    \<and> (case row_at sx_connection cid (kdb_secrets db) of
         None \<Rightarrow> True
       | Some s \<Rightarrow> \<exists>s'. row_at sx_connection cid (kdb_secrets (store_run (connection_step h) db es)) = Some s' \<and> secret_can s s')"
  using secret_rows.fires_at_most_once [OF assms] secret_rows.row_run [OF assms] by (simp split: option.split)

lemma stale_version_rejected:
  assumes "connection_wf db" and "row_at sx_connection cid (kdb_secrets db) = Some s" and "sx_version s \<noteq> v"
  shows "update_oauth_secret cid v new t db = (Inl ErrNoRows, db)"
    and "snd (mark_oauth_failure cid v reauth code nx t db) = db"
proof -
  have "r = s" if "r \<in> set (kdb_secrets db)" "sx_connection r = cid" for r
    using row_at_unique [of sx_connection "kdb_secrets db" r] that assms(1,2) by (simp add: connection_wf_def)
  then have "sql_affected (\<lambda>s. sx_connection s = cid \<and> sx_version s = v \<and> sx_type s = ''oauth_bundle'') (kdb_secrets db) = 0"
    unfolding sql_affected_0 using assms(3) by blast
  then show "update_oauth_secret cid v new t db = (Inl ErrNoRows, db)" "snd (mark_oauth_failure cid v reauth code nx t db) = db"
    by (simp_all add: update_oauth_secret_def mark_oauth_failure_def Let_def split: sum.split)
qed

end
