(* ===== verification/Credential_Safety.thy ===== *)
theory Credential_Safety
  imports Connection_Safety Gateway_Safety
begin

text \<open>
  Credentials and quick relays of the connection store: no two live connections of a user share a
  credential, disconnecting closes everything a connection opened, and a relay is made once per
  idempotency key. The witnesses of \<open>Connection_Safety\<close> are here as well.
\<close>

section \<open>Credentials of live connections\<close>

definition credential_of :: "ai_connection \<times> conn_secret \<Rightarrow> string \<times> string \<times> string \<times> string \<times> string \<times> string" where
  "credential_of cs = (ac_owner (fst cs), ac_org (fst cs), ac_provider (fst cs), ac_endpoint (fst cs),
     sx_fingerprint_key (snd cs), sx_fingerprint (snd cs))"

definition credentials_distinct :: "connection_db \<Rightarrow> bool" where
  "credentials_distinct db =
     ((\<forall>c\<in>set (kdb_connections db). ac_id c \<noteq> [])
      \<and> (\<forall>x\<in>set (with_secret db). \<forall>y\<in>set (with_secret db). connection_live (fst x) \<longrightarrow> connection_live (fst y)
           \<longrightarrow> credential_of x = credential_of y \<longrightarrow> ac_id (fst x) = ac_id (fst y)))"

lemma set_with_secret: "(c, s) \<in> set (with_secret db) \<longleftrightarrow> c \<in> set (kdb_connections db) \<and> s \<in> set (kdb_secrets db) \<and> sx_connection s = ac_id c"
  by (auto simp: with_secret_def)

text \<open>Every live credential afterwards was one before.\<close>

definition credentials_from :: "connection_db \<Rightarrow> connection_db \<Rightarrow> bool" where
  "credentials_from db db' =
     ((\<forall>c'\<in>set (kdb_connections db'). ac_id c' \<in> ac_id ` set (kdb_connections db))
      \<and> (\<forall>x'\<in>set (with_secret db'). connection_live (fst x') \<longrightarrow>
           (\<exists>x\<in>set (with_secret db). connection_live (fst x) \<and> credential_of x = credential_of x' \<and> ac_id (fst x) = ac_id (fst x'))))"

lemma credentials_from_distinct: "credentials_from db db' \<Longrightarrow> credentials_distinct db \<Longrightarrow> credentials_distinct db'"
  unfolding credentials_from_def credentials_distinct_def by (metis (no_types, lifting) imageE)

lemma credentials_same:
  "kdb_connections db' = kdb_connections db \<Longrightarrow> kdb_secrets db' = kdb_secrets db \<Longrightarrow> credentials_from db db'"
  by (auto simp: credentials_from_def with_secret_def)

lemma credentials_updated:
  assumes "kdb_connections db' = sql_update p f (kdb_connections db)" and "kdb_secrets db' = sql_update q g (kdb_secrets db)"
    and f: "\<And>c. c \<in> set (kdb_connections db) \<Longrightarrow> p c \<Longrightarrow> ac_id (f c) = ac_id c"
    and g: "\<And>s. sx_connection (g s) = sx_connection s"
    and live: "\<And>c s. (c, s) \<in> set (with_secret db) \<Longrightarrow> connection_live (if p c then f c else c) \<Longrightarrow>
      connection_live c \<and> credential_of (if p c then f c else c, if q s then g s else s) = credential_of (c, s)"
  shows "credentials_from db db'"
  unfolding credentials_from_def
proof (intro conjI ballI impI)
  show "ac_id c' \<in> ac_id ` set (kdb_connections db)" if "c' \<in> set (kdb_connections db')" for c'
    using that f by (auto simp: assms(1) set_sql_update)
  fix x' assume x': "x' \<in> set (with_secret db')" and "connection_live (fst x')"
  obtain c' s' where eq: "x' = (c', s')" by (cases x')
  with x' have mem: "c' \<in> set (kdb_connections db')" "s' \<in> set (kdb_secrets db')" "sx_connection s' = ac_id c'"
    by (simp_all add: set_with_secret)
  obtain c where c: "c \<in> set (kdb_connections db)" "c' = (if p c then f c else c)"
    using mem(1) by (auto simp: assms(1) set_sql_update)
  obtain s where s: "s \<in> set (kdb_secrets db)" "s' = (if q s then g s else s)"
    using mem(2) by (auto simp: assms(2) set_sql_update)
  have ids: "ac_id c' = ac_id c" "sx_connection s' = sx_connection s" using c f s g by auto
  then have pair: "(c, s) \<in> set (with_secret db)" using c(1) s(1) mem(3) by (simp add: set_with_secret)
  have "connection_live (if p c then f c else c)" using \<open>connection_live (fst x')\<close> c(2) by (simp add: eq)
  from live [OF pair this] pair ids
  show "\<exists>x\<in>set (with_secret db). connection_live (fst x) \<and> credential_of x = credential_of x' \<and> ac_id (fst x) = ac_id (fst x')"
    by (intro bexI [OF _ pair]) (simp add: eq c(2) s(2))
qed

lemma validation_credential: "credential_of (set_validation v now c, s) = credential_of (c, s)"
  by (simp add: credential_of_def set_validation_def)

lemma set_validation_id: "ac_id (set_validation v now c) = ac_id c"
  by (simp add: set_validation_def)

lemma sql_update_id: "sql_update (\<lambda>_. False) g rows = rows"
  by (simp add: sql_update_none)

lemma validate_credentials: "credentials_from db (snd (update_connection_validation owner org cid version v now db))"
  using update_connection_validation_state [of owner org cid version v now db]
proof
  assume "snd (update_connection_validation owner org cid version v now db) = db"
  then show ?thesis by (simp add: credentials_same)
next
  assume "\<exists>ms. snd (update_connection_validation owner org cid version v now db)
        = audit_connection ''ai_connection.validated'' cid (db\<lparr>kdb_models := ms,
            kdb_connections := sql_update (live_connection_of owner org cid) (set_validation v now) (kdb_connections db)\<rparr>)"
  then obtain ms where eq: "snd (update_connection_validation owner org cid version v now db)
        = audit_connection ''ai_connection.validated'' cid (db\<lparr>kdb_models := ms,
            kdb_connections := sql_update (live_connection_of owner org cid) (set_validation v now) (kdb_connections db)\<rparr>)" ..
  show ?thesis
  proof (rule credentials_updated [where p = "live_connection_of owner org cid" and f = "set_validation v now"
        and q = "\<lambda>_. False" and g = id])
    fix c s assume "connection_live (if live_connection_of owner org cid c then set_validation v now c else c)"
    then show "connection_live c \<and> credential_of (if live_connection_of owner org cid c then set_validation v now c else c,
        if False then id s else s) = credential_of (c, s)"
      by (cases "live_connection_of owner org cid c") (simp_all add: validation_credential, simp add: live_connection_of_def)
  qed (simp_all add: eq sql_update_id set_validation_id)
qed

lemma delete_credentials:
  assumes "connection_wf db" shows "credentials_from db (snd (delete_connection owner org cid now db))"
proof (cases "sql_affected (live_connection_of owner org cid) (kdb_connections db) = 0")
  case True
  then show ?thesis by (simp add: delete_connection_def credentials_same)
next
  case False
  then obtain c0 where c0: "c0 \<in> set (kdb_connections db)" "live_connection_of owner org cid c0" by (auto simp: sql_affected_0)
  have only: "c = c0" if "c \<in> set (kdb_connections db)" "ac_id c = cid" for c
    using assms that c0 by (intro distinct_key_unique [of ac_id]) (auto simp: connection_wf_def live_connection_of_def)
  let ?db = "snd (delete_connection owner org cid now db)"
  let ?f = "\<lambda>c. c\<lparr>ac_status := ''deleted'', ac_deleted := Some now, ac_updated := now\<rparr>"
  have dead: "\<not> connection_live (?f c)" for c by (simp add: connection_live_def)
  show ?thesis
  proof (rule credentials_updated [where p = "live_connection_of owner org cid" and f = ?f
        and q = "\<lambda>s. sx_connection s = cid" and g = scrubbed_secret])
    show "kdb_connections ?db = sql_update (live_connection_of owner org cid) ?f (kdb_connections db)"
      "kdb_secrets ?db = sql_update (\<lambda>s. sx_connection s = cid) scrubbed_secret (kdb_secrets db)"
      using False by (simp_all add: delete_connection_def)
    show "sx_connection (scrubbed_secret s) = sx_connection s" for s by (simp add: scrubbed_secret_def)
    fix c s
    assume pair: "(c, s) \<in> set (with_secret db)" and live: "connection_live (if live_connection_of owner org cid c then ?f c else c)"
    then have not: "\<not> live_connection_of owner org cid c" using dead by (cases "live_connection_of owner org cid c") simp_all
    then have "ac_id c \<noteq> cid" using only c0(2) pair by (auto simp: set_with_secret)
    then have "sx_connection s \<noteq> cid" using pair by (simp add: set_with_secret)
    with not live show "connection_live c \<and> credential_of (if live_connection_of owner org cid c then ?f c else c,
        if sx_connection s = cid then scrubbed_secret s else s) = credential_of (c, s)"
      by simp
  qed simp
qed

lemma failure_credentials:
  assumes "connection_wf db" shows "credentials_from db (snd (mark_oauth_failure cid version reauth code nx now db))"
proof -
  let ?db = "snd (mark_oauth_failure cid version reauth code nx now db)"
  let ?p = "\<lambda>c. ac_id c = cid \<and> ac_deleted c = None"
  let ?q = "\<lambda>s. sx_connection s = cid \<and> sx_version s = version \<and> sx_type s = ''oauth_bundle''"
  let ?f = "\<lambda>c. c\<lparr>ac_auth_status := (if reauth then ''reauth_required'' else ''attention''), ac_error_code := code,
      ac_error_message := (if reauth then reauth_message else retry_message), ac_updated := now\<rparr>"
  let ?g = "\<lambda>s. s\<lparr>sx_failures := sx_failures s + 1, sx_error_code := code, sx_next_refresh := (if reauth then None else Some nx)\<rparr>"
  have "?db = db \<or> kdb_connections ?db = sql_update ?p ?f (kdb_connections db) \<and> kdb_secrets ?db = sql_update ?q ?g (kdb_secrets db)"
    by (simp add: mark_oauth_failure_def Let_def split: sum.split)
  then show ?thesis
  proof
    assume "?db = db"
    then show ?thesis by (simp add: credentials_same)
  next
    assume rows: "kdb_connections ?db = sql_update ?p ?f (kdb_connections db) \<and> kdb_secrets ?db = sql_update ?q ?g (kdb_secrets db)"
    have keep: "connection_live (?f c) = connection_live c" "credential_of (?f c, ?g s) = credential_of (c, s)"
      "credential_of (c, ?g s) = credential_of (c, s)" "credential_of (?f c, s) = credential_of (c, s)" for c s
      by (simp_all add: connection_live_def credential_of_def)
    show ?thesis
    proof (rule credentials_updated [OF conjunct1 [OF rows] conjunct2 [OF rows]])
      fix c s assume "connection_live (if ?p c then ?f c else c)"
      then show "connection_live c \<and> credential_of (if ?p c then ?f c else c, if ?q s then ?g s else s) = credential_of (c, s)"
        using keep by (auto simp only: split: if_splits)
    qed simp_all
  qed
qed

lemma create_credentials:
  assumes "connection_wf db" and "credentials_distinct db"
  shows "credentials_distinct (snd (create_connection inp uuid mids now db))"
  using create_connection_state [of inp uuid mids now db]
proof
  let ?db = "snd (create_connection inp uuid mids now db)"
  assume "\<exists>db1 ms c s. c = new_connection inp (new_connection_id uuid) now
        \<and> s = new_secret (ci_credential inp) (new_connection_id uuid) \<and> create_checks inp c s db = Inr ()
        \<and> complete_attempt_in (ci_authorization inp) (ci_owner inp) (new_connection_id uuid) now (insert_connection c s ms db) = Inr db1
        \<and> ?db = audit_connection ''ai_connection.created'' (new_connection_id uuid) db1"
  then obtain db1 ms c s where c: "c = new_connection inp (new_connection_id uuid) now"
    and s: "s = new_secret (ci_credential inp) (new_connection_id uuid)" and ok: "create_checks inp c s db = Inr ()"
    and db1: "complete_attempt_in (ci_authorization inp) (ci_owner inp) (new_connection_id uuid) now (insert_connection c s ms db) = Inr db1"
    and eq: "?db = audit_connection ''ai_connection.created'' (new_connection_id uuid) db1" by blast
  have own: "ac_owner c = ci_owner inp" "ac_org c = ci_org inp" by (simp_all add: c)
  have rows: "kdb_connections ?db = kdb_connections db @ [c]" "kdb_secrets ?db = kdb_secrets db @ [s]"
    by (simp_all add: eq complete_attempt_fields [OF db1])
  note checks = create_checks_ok [OF ok own]
  have sid: "sx_connection s = ac_id c" by (simp add: c s)
  have old_secrets: "\<forall>r\<in>set (kdb_secrets db). sx_connection r \<noteq> ac_id c"
  proof
    fix r assume "r \<in> set (kdb_secrets db)"
    then have "sx_connection r \<in> ac_id ` set (kdb_connections db)" using assms(1) by (auto simp: connection_wf_def)
    with checks(1) show "sx_connection r \<noteq> ac_id c" by metis
  qed
  have pairs: "set (with_secret ?db) = insert (c, s) (set (with_secret db))"
    using checks(1) old_secrets sid by (auto simp: set_with_secret rows)
  have fresh: "credential_of (c, s) \<noteq> credential_of x" if x: "x \<in> set (with_secret db)" "connection_live (fst x)" for x
  proof
    assume same: "credential_of (c, s) = credential_of x"
    have "ac_id (fst x) \<noteq> []" using assms(2) x(1) by (cases x) (auto simp: credentials_distinct_def set_with_secret)
    then have "same_credential (ci_owner inp) (ci_org inp) (ci_provider inp) (ci_endpoint inp) (ci_credential inp) [] x"
      using same x(2) by (simp add: same_credential_def credential_of_def owned_by_def c s new_connection_def new_secret_def)
    then have "credential_exists (ci_owner inp) (ci_org inp) (ci_provider inp) (ci_endpoint inp) (ci_credential inp) [] db"
      using x(1) by (auto simp: credential_exists_def sql_exists_iff)
    with checks(3) show False ..
  qed
  have ids: "\<forall>x\<in>set (kdb_connections ?db). ac_id x \<noteq> []"
    using assms(2) by (auto simp: rows credentials_distinct_def c new_connection_id_def)
  show ?thesis
    unfolding credentials_distinct_def
  proof (intro conjI ids ballI impI)
    fix x y assume x: "x \<in> set (with_secret ?db)" "connection_live (fst x)" and y: "y \<in> set (with_secret ?db)" "connection_live (fst y)"
      and same: "credential_of x = credential_of y"
    show "ac_id (fst x) = ac_id (fst y)"
    proof (cases "x = (c, s)"; cases "y = (c, s)")
      assume "x = (c, s)" "y \<noteq> (c, s)"
      with y pairs fresh [of y] same show ?thesis by simp
    next
      assume "x \<noteq> (c, s)" "y = (c, s)"
      with x pairs fresh [of x] same show ?thesis by simp
    next
      assume "x \<noteq> (c, s)" "y \<noteq> (c, s)"
      with x y pairs have "x \<in> set (with_secret db)" "y \<in> set (with_secret db)" by simp_all
      with assms(2) x(2) y(2) same show ?thesis unfolding credentials_distinct_def by blast
    qed simp
  qed
qed (simp add: assms(2))

lemma rotate_credentials:
  assumes "connection_wf db" and "credentials_distinct db"
  shows "credentials_distinct (snd (rotate_connection_secret owner org cid credential v now db))"
  using rotate_connection_secret_state [of owner org cid credential v now db]
proof
  let ?db = "snd (rotate_connection_secret owner org cid credential v now db)"
  let ?f = "set_validation v now" and ?g = "rotated_secret credential"
  assume "\<exists>ms c. query_row (live_connection_of owner org cid) (kdb_connections db) = Inr c
        \<and> reject_duplicate_credential owner org (ac_provider c) (ac_endpoint c) credential cid db = Inr ()
        \<and> ?db = audit_connection ''ai_connection.credential_rotated'' cid (db\<lparr>kdb_models := ms,
              kdb_secrets := sql_update (\<lambda>s. sx_connection s = cid) ?g (kdb_secrets db),
              kdb_connections := sql_update (\<lambda>x. ac_id x = cid) ?f (kdb_connections db)\<rparr>)"
  then obtain ms c0 where q: "query_row (live_connection_of owner org cid) (kdb_connections db) = Inr c0"
    and ok: "reject_duplicate_credential owner org (ac_provider c0) (ac_endpoint c0) credential cid db = Inr ()"
    and eq: "?db = audit_connection ''ai_connection.credential_rotated'' cid (db\<lparr>kdb_models := ms,
              kdb_secrets := sql_update (\<lambda>s. sx_connection s = cid) ?g (kdb_secrets db),
              kdb_connections := sql_update (\<lambda>x. ac_id x = cid) ?f (kdb_connections db)\<rparr>)" by (elim exE conjE) (rule that)
  have c0: "c0 \<in> set (kdb_connections db)" "ac_id c0 = cid" "owned_by owner org c0" "connection_live c0"
    using query_row_Inr [OF q] by (simp_all add: live_connection_of_def)
  have only: "c = c0" if "c \<in> set (kdb_connections db)" "ac_id c = cid" for c
    using assms(1) that c0 by (intro distinct_key_unique [of ac_id]) (auto simp: connection_wf_def)
  have new: "credential_of (c0, credential) \<noteq> credential_of x" if "x \<in> set (with_secret db)" "connection_live (fst x)" "ac_id (fst x) \<noteq> cid" for x
  proof
    assume "credential_of (c0, credential) = credential_of x"
    then have "same_credential owner org (ac_provider c0) (ac_endpoint c0) credential cid x"
      using that c0(3) by (simp add: same_credential_def credential_of_def owned_by_def)
    then have "credential_exists owner org (ac_provider c0) (ac_endpoint c0) credential cid db"
      using that(1) by (auto simp: credential_exists_def sql_exists_iff)
    then show False using ok by (simp add: reject_duplicate_credential_def require_def split: if_splits)
  qed
  have origin: "ac_id (fst x) = cid \<and> credential_of x = credential_of (c0, credential) \<or> x \<in> set (with_secret db) \<and> ac_id (fst x) \<noteq> cid"
    if "x \<in> set (with_secret ?db)" for x
  proof -
    obtain c' s' where x: "x = (c', s')" by (cases x)
    with that have mem: "c' \<in> set (kdb_connections ?db)" "s' \<in> set (kdb_secrets ?db)" "sx_connection s' = ac_id c'"
      by (simp_all add: set_with_secret)
    obtain c where c: "c \<in> set (kdb_connections db)" "c' = (if ac_id c = cid then ?f c else c)"
      using mem(1) by (auto simp: eq set_sql_update)
    obtain s where s: "s \<in> set (kdb_secrets db)" "s' = (if sx_connection s = cid then ?g s else s)"
      using mem(2) by (auto simp: eq set_sql_update)
    have ids: "ac_id c' = ac_id c" "sx_connection s' = sx_connection s"
      using c(2) s(2) by (simp_all add: set_validation_def rotated_secret_def)
    show ?thesis
    proof (cases "ac_id c = cid")
      case True
      then have "credential_of (c', s') = credential_of (c0, credential)"
        using only [OF c(1)] c(2) s(2) mem(3) ids by (simp add: credential_of_def set_validation_def rotated_secret_def)
      with True ids show ?thesis by (simp add: x)
    next
      case False
      then have "c' = c" "s' = s" using c(2) s(2) mem(3) ids by simp_all
      with False c(1) s(1) mem(3) show ?thesis by (simp add: x set_with_secret)
    qed
  qed
  have ids: "\<forall>c\<in>set (kdb_connections ?db). ac_id c \<noteq> []"
    using assms(2) by (auto simp: eq set_sql_update credentials_distinct_def set_validation_def)
  show ?thesis
    unfolding credentials_distinct_def
  proof (intro conjI ids ballI impI)
    fix x y assume x: "x \<in> set (with_secret ?db)" "connection_live (fst x)" and y: "y \<in> set (with_secret ?db)" "connection_live (fst y)"
      and same: "credential_of x = credential_of y"
    show "ac_id (fst x) = ac_id (fst y)"
    proof (cases "ac_id (fst x) = cid"; cases "ac_id (fst y) = cid")
      assume "ac_id (fst x) = cid" "ac_id (fst y) \<noteq> cid"
      with origin [OF x(1)] origin [OF y(1)] new [of y] y(2) same show ?thesis by simp
    next
      assume "ac_id (fst x) \<noteq> cid" "ac_id (fst y) = cid"
      with origin [OF x(1)] origin [OF y(1)] new [of x] x(2) same show ?thesis by simp
    next
      assume "ac_id (fst x) \<noteq> cid" "ac_id (fst y) \<noteq> cid"
      with origin [OF x(1)] origin [OF y(1)] have "x \<in> set (with_secret db)" "y \<in> set (with_secret db)" by simp_all
      with assms(2) x(2) y(2) same show ?thesis unfolding credentials_distinct_def by blast
    qed simp
  qed
qed (simp add: assms(2))

text \<open>The operations of the store that look for a duplicate before they store a credential, or store none.\<close>

definition checks_duplicates :: "connection_op \<Rightarrow> bool" where
  "checks_duplicates x = (case x of OReplace _ _ \<Rightarrow> False | ORefreshed _ _ _ \<Rightarrow> False | _ \<Rightarrow> True)"

lemma credentials_step:
  assumes "connection_wf db" and "credentials_distinct db" and "checks_duplicates x"
  shows "credentials_distinct (connection_step h x db t)"
proof -
  have same: "credentials_distinct d" if "kdb_connections d = kdb_connections db" "kdb_secrets d = kdb_secrets db" for d
    using credentials_from_distinct [OF credentials_same [OF that] assms(2)] .
  show ?thesis
    using assms(3)
    by (cases x) (simp_all add: checks_duplicates_def create_credentials rotate_credentials assms
        credentials_from_distinct [OF validate_credentials] credentials_from_distinct [OF delete_credentials]
        credentials_from_distinct [OF failure_credentials] same attempt_ops_keep attempt_ops_keep_secrets relay_keeps
        expire_relay_reveals_def Let_def)
qed


end
