(* ===== verification/Relay_Safety.thy ===== *)
theory Relay_Safety
  imports Credential_Safety
begin

text \<open>
  What disconnecting closes, and that a quick relay is made once per idempotency key. The sample
  tables serve the witnesses of the connection store.
\<close>

section \<open>Disconnecting\<close>

definition closed_gateways :: "string \<Rightarrow> gateway_db \<Rightarrow> gateway_db \<Rightarrow> bool" where
  "closed_gateways cid g g' =
     ((\<forall>c\<in>set (gdb_channels g'). ch_connection c = Some cid \<longrightarrow> ch_status c = ''deleted'')
      \<and> (\<forall>l\<in>set (gdb_links g'). connection_channel cid g (gl_channel l) \<longrightarrow> \<not> gl_enabled l)
      \<and> (\<forall>w\<in>set (gdb_gateways g'). uses_connection cid g (gw_id w) \<longrightarrow> gw_status w = GActive \<longrightarrow>
           (\<exists>l\<in>set (gdb_links g'). gl_gateway l = gw_id w \<and> gl_enabled l))
      \<and> (\<forall>k\<in>set (gdb_keys g'). \<forall>w\<in>set (gdb_gateways g'). uses_connection cid g (gk_gateway k) \<longrightarrow> gw_id w = gk_gateway k \<longrightarrow>
           gw_status w = GPaused \<longrightarrow> gk_status k \<noteq> YActive))"

lemma disconnect_closes: "closed_gateways cid g (disconnect_gateways cid now g)"
  unfolding closed_gateways_def
proof (intro conjI ballI impI)
  let ?g = "disconnect_gateways cid now g"
  fix c assume "c \<in> set (gdb_channels ?g)" "ch_connection c = Some cid"
  then show "ch_status c = ''deleted''" by (auto simp: disconnect_gateways_def Let_def set_sql_update split: if_splits)
next
  let ?g = "disconnect_gateways cid now g"
  fix l assume "l \<in> set (gdb_links ?g)" "connection_channel cid g (gl_channel l)"
  then show "\<not> gl_enabled l" by (auto simp: disconnect_gateways_def Let_def set_sql_update split: if_splits)
next
  let ?g = "disconnect_gateways cid now g"
  fix w assume w: "w \<in> set (gdb_gateways ?g)" "uses_connection cid g (gw_id w)" "gw_status w = GActive"
  show "\<exists>l\<in>set (gdb_links ?g). gl_gateway l = gw_id w \<and> gl_enabled l"
  proof (rule ccontr)
    assume "\<not> ?thesis"
    then have none: "\<not> sql_exists (\<lambda>l. gl_gateway l = gw_id w \<and> gl_enabled l) (gdb_links ?g)" by (simp add: sql_exists_iff)
    have "gdb_gateways ?g = sql_update (\<lambda>w. uses_connection cid g (gw_id w) \<and> gw_status w = GActive
        \<and> \<not> sql_exists (\<lambda>l. gl_gateway l = gw_id w \<and> gl_enabled l) (gdb_links ?g))
        (\<lambda>w. w\<lparr>gw_status := GPaused, gw_updated := now\<rparr>) (gdb_gateways g)"
      by (simp add: disconnect_gateways_def Let_def)
    then show False using w none by (auto simp: set_sql_update split: if_splits)
  qed
next
  let ?g = "disconnect_gateways cid now g"
  fix k w assume k: "k \<in> set (gdb_keys ?g)" and w: "w \<in> set (gdb_gateways ?g)" "uses_connection cid g (gk_gateway k)"
    "gw_id w = gk_gateway k" "gw_status w = GPaused"
  have "gdb_keys ?g = revoke_keys_of (\<lambda>gid. uses_connection cid g gid
      \<and> sql_exists (\<lambda>w. gw_id w = gid \<and> gw_status w = GPaused) (gdb_gateways ?g)) now (gdb_keys g)"
    by (simp add: disconnect_gateways_def Let_def)
  moreover have "sql_exists (\<lambda>w. gw_id w = gk_gateway k \<and> gw_status w = GPaused) (gdb_gateways ?g)"
    using w by (auto simp: sql_exists_iff)
  ultimately show "gk_status k \<noteq> YActive"
    using k w(2) by (auto simp: revoke_keys_of_def set_sql_update split: if_splits)
qed


text \<open>A gateway its owner had paused loses its active keys when any connection it uses is deleted, also
  when upstreams of other connections are still enabled and it could be resumed.\<close>

theorem disconnect_revokes_paused:
  assumes "w \<in> set (gdb_gateways g)" and "gw_status w = GPaused" and "uses_connection cid g (gw_id w)"
    and "k \<in> set (gdb_keys g)" and "gk_gateway k = gw_id w" and "gk_status k = YActive"
    and "l \<in> set (gdb_links g)" and "gl_gateway l = gw_id w" and "gl_enabled l" and "\<not> connection_channel cid g (gl_channel l)"
  shows "l \<in> set (gdb_links (disconnect_gateways cid now g)) \<and> w \<in> set (gdb_gateways (disconnect_gateways cid now g))
    \<and> (\<exists>k'\<in>set (gdb_keys (disconnect_gateways cid now g)). gk_id k' = gk_id k \<and> gk_status k' = YRevoked)"
proof -
  let ?g = "disconnect_gateways cid now g"
  have l: "l \<in> set (gdb_links ?g)" using assms(7,10) by (auto simp: disconnect_gateways_def Let_def set_sql_update image_iff)
  have w: "w \<in> set (gdb_gateways ?g)"
  proof -
    have "gdb_gateways ?g = sql_update (\<lambda>w. uses_connection cid g (gw_id w) \<and> gw_status w = GActive
        \<and> \<not> sql_exists (\<lambda>l. gl_gateway l = gw_id w \<and> gl_enabled l) (gdb_links ?g))
        (\<lambda>w. w\<lparr>gw_status := GPaused, gw_updated := now\<rparr>) (gdb_gateways g)"
      by (simp add: disconnect_gateways_def Let_def)
    then show ?thesis using assms(1,2) by (force simp: set_sql_update image_iff)
  qed
  have keys: "gdb_keys ?g = revoke_keys_of (\<lambda>gid. uses_connection cid g gid
      \<and> sql_exists (\<lambda>w. gw_id w = gid \<and> gw_status w = GPaused) (gdb_gateways ?g)) now (gdb_keys g)"
    by (simp add: disconnect_gateways_def Let_def)
  have sel: "uses_connection cid g (gk_gateway k) \<and> sql_exists (\<lambda>x. gw_id x = gk_gateway k \<and> gw_status x = GPaused) (gdb_gateways ?g)"
    using w assms(2,3,5) by (auto simp: sql_exists_iff)
  let ?f = "\<lambda>k. k\<lparr>gk_status := YRevoked, gk_revoked_at := (case gk_revoked_at k of None \<Rightarrow> Some now | Some r \<Rightarrow> Some r)\<rparr>"
  have "?f k \<in> set (gdb_keys ?g)"
    unfolding keys revoke_keys_of_def set_sql_update using assms(4,6) sel by (intro image_eqI [where x = k]) simp_all
  then show ?thesis using l w by (intro conjI bexI [where x = "?f k"]) simp_all
qed

section \<open>Quick relays\<close>

lemma query_row_appended: "query_row p rows = Inl e \<Longrightarrow> p r \<Longrightarrow> query_row p (rows @ [r]) = Inr r"
  by (auto simp: query_row_Inl) (auto simp: query_row_def filter_empty_conv)

lemma replay_none: "quick_relay_replay inp now db = Inr None \<Longrightarrow> query_row (relay_request_of inp) (kdb_relays db) = Inl ErrNoRows"
  by (cases "query_row (relay_request_of inp) (kdb_relays db)")
     (auto simp: quick_relay_replay_def query_row_Inl split: if_splits sum.splits)

text \<open>A new relay: what it returns and what it stores.\<close>

lemma fresh_relay:
  assumes "create_quick_relay h inp ids now db = (Inr r, db')" and "\<not> rr_replay r"
  obtains q where "kdb_relays db' = kdb_relays db @ [q]" "query_row (relay_request_of inp) (kdb_relays db) = Inl ErrNoRows"
    "q = new_relay_request inp (rq_gateway q) (rr_key_id r) ids now"
    "gateway_by_id (rq_gateway q) (ri_org inp) (kdb_gateways db') = Inr (rr_gateway r)" "rr_reveal r = ri_reveal inp"
    "sql_exists (\<lambda>w. gw_id w = rq_gateway q \<and> gw_org w = ri_org inp \<and> gw_status w \<noteq> GDeleted) (gdb_gateways (kdb_gateways db'))"
proof -
  have old: "rr_replay x" if "quick_relay_replay inp now db = Inr (Some x)" for x
    using that by (auto simp: quick_relay_replay_def split: sum.splits if_splits)
  have none: "quick_relay_replay inp now db = Inr None"
    using assms old by (auto simp: create_quick_relay_def Let_def split: if_splits sum.splits option.splits)
  obtain c sel where build: "build_relay h inp c sel ids now db = (Inr r, db')"
    using assms(1) none by (auto simp: create_quick_relay_def Let_def split: if_splits sum.splits)
  define g where "g = relay_gateway inp c ids now"
  obtain masked where "mask_gateway_key (ri_plain inp) = Inr masked"
    using build by (auto simp: build_relay_def Let_def split: sum.splits)
  moreover define k where "k = relay_key h inp g masked ids now"
  ultimately have db': "db' = relay_built inp c sel g k ids now db" and view: "gateway_by_id (gw_id g) (ri_org inp) (kdb_gateways db') = Inr (rr_gateway r)"
    and key: "rr_key_id r = gk_id k" and reveal: "rr_reveal r = ri_reveal inp"
    using build by (auto simp: build_relay_def Let_def g_def k_def split: sum.splits)
  let ?q = "new_relay_request inp (gw_id g) (gk_id k) ids now"
  have q: "rq_gateway ?q = gw_id g" by (simp add: new_relay_request_def)
  show thesis
  proof (rule that [of ?q])
    show "kdb_relays db' = kdb_relays db @ [?q]" by (simp add: db' relay_built_def Let_def)
    show "query_row (relay_request_of inp) (kdb_relays db) = Inl ErrNoRows" by (rule replay_none [OF none])
    show "?q = new_relay_request inp (rq_gateway ?q) (rr_key_id r) ids now" unfolding q key ..
    show "gateway_by_id (rq_gateway ?q) (ri_org inp) (kdb_gateways db') = Inr (rr_gateway r)" unfolding q by (rule view)
    have "g \<in> set (gdb_gateways (kdb_gateways db'))"
      by (simp add: db' relay_built_def Let_def audit_connection_def audit_gateways_def)
    moreover have "gw_org g = ri_org inp" "gw_status g \<noteq> GDeleted" by (simp_all add: g_def relay_gateway_def Let_def)
    ultimately show "sql_exists (\<lambda>w. gw_id w = rq_gateway ?q \<and> gw_org w = ri_org inp \<and> gw_status w \<noteq> GDeleted) (gdb_gateways (kdb_gateways db'))"
      unfolding q by (auto simp: sql_exists_iff)
  qed (rule reveal)
qed

text \<open>A quick relay is made once per idempotency key: within ten minutes the same request again gets the
  same gateway, key and reveal and changes nothing, and another request under the key is refused.\<close>

theorem relay_made_once:
  assumes "create_quick_relay h inp ids now db = (Inr r, db')" and "\<not> rr_replay r" and "rv_ciphertext (ri_reveal inp) \<noteq> []"
    and "ri_owner inp' = ri_owner inp" and "ri_org inp' = ri_org inp" and "ri_idempotency inp' = ri_idempotency inp"
    and "unique_strings (ri_models inp') \<noteq> []" and "now' \<le> now + relay_lifetime"
  shows "if ri_hash inp' = ri_hash inp
    then \<exists>r'. create_quick_relay h inp' ids' now' db' = (Inr r', db') \<and> rr_replay r' \<and> rr_gateway r' = rr_gateway r
           \<and> rr_key_id r' = rr_key_id r \<and> rr_reveal r' = rr_reveal r
    else create_quick_relay h inp' ids' now' db' = (Inl err_conflict, db')"
proof -
  obtain q where q: "kdb_relays db' = kdb_relays db @ [q]" "query_row (relay_request_of inp) (kdb_relays db) = Inl ErrNoRows"
    "q = new_relay_request inp (rq_gateway q) (rr_key_id r) ids now"
    "gateway_by_id (rq_gateway q) (ri_org inp) (kdb_gateways db') = Inr (rr_gateway r)" "rr_reveal r = ri_reveal inp"
    "sql_exists (\<lambda>w. gw_id w = rq_gateway q \<and> gw_org w = ri_org inp \<and> gw_status w \<noteq> GDeleted) (gdb_gateways (kdb_gateways db'))"
    by (rule fresh_relay [OF assms(1,2)])
  have fields: "rq_hash q = ri_hash inp" "rq_status q = ''completed''" "rq_reveal q = ri_reveal inp" "rq_expires q = now + relay_lifetime"
    "rq_gateway_key q = rr_key_id r" "relay_request_of inp q"
    by (subst q(3), simp add: new_relay_request_def relay_request_of_def)+
  have sel: "relay_request_of inp' = relay_request_of inp" by (simp add: relay_request_of_def assms(4-6) fun_eq_iff)
  have row: "query_row (relay_request_of inp') (kdb_relays db') = Inr q"
    unfolding sel q(1) by (rule query_row_appended [OF q(2) fields(6)])
  show ?thesis
  proof (cases "ri_hash inp' = ri_hash inp")
    case True
    then obtain r' where r': "quick_relay_replay inp' now' db' = Inr (Some r')" "rr_gateway r' = rr_gateway r" "rr_key_id r' = rr_key_id r"
      "rr_reveal r' = rr_reveal r" "rr_replay r'"
      using row fields assms(3,5,8) q(4-6) by (simp add: quick_relay_replay_def)
    then have "create_quick_relay h inp' ids' now' db' = (Inr r', db')"
      using assms(7) by (simp add: create_quick_relay_def Let_def)
    with r' True show ?thesis by simp
  next
    case False
    then have "quick_relay_replay inp' now' db' = Inl err_conflict"
      using row fields by (simp add: quick_relay_replay_def)
    then show ?thesis using assms(7) False by (simp add: create_quick_relay_def Let_def)
  qed
qed

text \<open>After the window the reveal is refused and, the update being rolled back, still stored.\<close>

lemma late_reveal_kept:
  assumes "query_row (relay_request_of inp) (kdb_relays db) = Inr q" and "rq_hash q = ri_hash inp" and "now > rq_expires q"
    and "unique_strings (ri_models inp) \<noteq> []"
  shows "create_quick_relay h inp ids now db = (Inl err_window, db)"
  using assms by (simp add: create_quick_relay_def quick_relay_replay_def Let_def)

section \<open>Sample tables\<close>

definition sample_connection :: "string \<Rightarrow> string \<Rightarrow> time option \<Rightarrow> ai_connection" where
  "sample_connection cid status deleted = \<lparr>ac_id = cid, ac_owner = ''u1'', ac_org = ''o1'', ac_provider = ''openai'',
     ac_product_line = ''p'', ac_region = ''r'', ac_workspace = [], ac_auth_method = ''api_key'', ac_protocol = ''openai'',
     ac_adapter = ''openai'', ac_endpoint = ''e'', ac_config = [], ac_display = ''d'', ac_status = status,
     ac_auth_status = ''active'', ac_sharing = ''personal'', ac_risk = ''standard'', ac_adapter_version = ''v'', ac_terms = [],
     ac_account_mask = [], ac_stage = [], ac_latency = 0, ac_model_count = 1, ac_error_code = [], ac_error_message = [],
     ac_validated = None, ac_created = 1, ac_updated = 1, ac_deleted = deleted\<rparr>"

definition sample_secret :: "string \<Rightarrow> string \<Rightarrow> conn_secret" where
  "sample_secret cid fingerprint = \<lparr>sx_connection = cid, sx_ciphertext = ''c'', sx_nonce = ''n'', sx_mask = ''m'',
     sx_fingerprint = fingerprint, sx_encryption_key = ''k'', sx_fingerprint_key = ''k'', sx_algorithm = ''a'', sx_version = 1,
     sx_type = ''oauth_bundle'', sx_format = ''oauth_bundle_v1'', sx_subject = [], sx_expires = None, sx_next_refresh = None,
     sx_last_refreshed = None, sx_failures = 0, sx_error_code = []\<rparr>"

definition sample_model :: conn_model where
  "sample_model = \<lparr>cm_id = ''m1'', cm_connection = ''a1'', cm_provider_model = ''gpt'', cm_display = ''gpt'', cm_enabled = True,
     cm_verification = ''verified'', cm_latency = 0, cm_error_code = [], cm_error_message = [], cm_validated = None,
     cm_route = None, cm_created = 1\<rparr>"

text \<open>\<open>a1\<close> is live, \<open>a2\<close> deleted.\<close>

definition sample_connections :: connection_db where
  "sample_connections = \<lparr>kdb_gateways = sample_db,
     kdb_connections = [sample_connection ''a1'' ''active'' None, sample_connection ''a2'' ''deleted'' (Some 2)],
     kdb_secrets = [sample_secret ''a1'' ''f1'', sample_secret ''a2'' ''deleted:a2''],
     kdb_models = [sample_model], kdb_attempts = [], kdb_relays = [], kdb_channel_secrets = [],
     kdb_accounts = \<lparr>active_users = [''u1''], active_orgs = [''o1''], active_members = [(''o1'', ''u1'')]\<rparr>\<rparr>"

lemma sample_connections_wf: "connection_wf sample_connections"
  by (simp add: connection_wf_def sample_connections_def sample_connection_def sample_secret_def)

lemma sample_connections_limit: "within_limit sample_connections"
  by (simp add: within_limit_def connection_count_def sql_affected_def sample_connections_def)

lemma sample_credentials: "credentials_distinct sample_connections"
  by (simp add: credentials_distinct_def with_secret_def sample_connections_def sample_connection_def sample_secret_def connection_live_def)

definition sample_relay :: relay_input where
  "sample_relay = \<lparr>ri_owner = ''u1'', ri_org = ''o1'', ri_connection = ''a1'', ri_models = [''m1''], ri_name = ''relay'',
     ri_policy = ''latency'', ri_qps = 5, ri_quota = 10, ri_base_url = ''b'', ri_idempotency = ''i1'', ri_hash = ''h1'',
     ri_plain = ''sk-gateway'', ri_reveal = \<lparr>rv_ciphertext = ''x'', rv_nonce = ''n'', rv_encryption_key = ''k'',
       rv_fingerprint = ''f'', rv_fingerprint_key = ''k'', rv_mask = ''m''\<rparr>\<rparr>"

definition sample_relay_ids :: relay_ids where
  "sample_relay_ids = \<lparr>rd_channels = [''1''], rd_links = [''1''], rd_gateway = ''2'', rd_slug = ''12345678'', rd_key = ''2'', rd_request = ''1''\<rparr>"

definition sample_validation :: validation where
  "sample_validation = \<lparr>vl_ok = True, vl_stage = [], vl_latency = 0, vl_model_count = 1, vl_error_code = [],
     vl_error_message = [], vl_models = []\<rparr>"

theorem connection_limit_kept_witness:
  "connection_count ''u1'' ''o1'' (store_run (connection_step id) sample_connections [(ODisconnect ''u1'' ''o1'' ''a1'', 5)]) \<le> 32"
  by (rule connection_limit_kept [OF sample_connections_wf sample_connections_limit])

theorem deleted_connection_final_witness:
  "connection_for ''u1'' ''o1'' ''a2'' (store_run (connection_step id) sample_connections
     [(ORefreshed ''a2'' 1 (sample_secret ''a2'' ''g''), 5), (OValidate ''u1'' ''o1'' ''a2'' 2 sample_validation, 6)]) = Inl ErrNoRows"
proof -
  have "row_at ac_id ''a2'' (kdb_connections sample_connections) = Some (sample_connection ''a2'' ''deleted'' (Some 2))"
    "\<not> connection_live (sample_connection ''a2'' ''deleted'' (Some 2))"
    by (simp_all add: row_at_def sample_connections_def sample_connection_def connection_live_def)
  from deleted_connection_final [OF sample_connections_wf sample_connections_limit this] show ?thesis by blast
qed

definition sample_refresh :: connection_op where
  "sample_refresh = ORefreshed ''a1'' 1 (sample_secret ''a1'' ''f1'')"

theorem version_refreshed_once_witness:
  "count_steps (connection_step id) (refresh_stored 1 ''a1'') sample_connections [(sample_refresh, 5), (sample_refresh, 6)] \<le> 1
   \<and> refresh_stored 1 ''a1'' sample_refresh sample_connections 5"
proof
  show "count_steps (connection_step id) (refresh_stored 1 ''a1'') sample_connections [(sample_refresh, 5), (sample_refresh, 6)] \<le> 1"
    using version_refreshed_once [OF sample_connections_wf] by blast
  show "refresh_stored 1 ''a1'' sample_refresh sample_connections 5"
    by (simp add: sample_refresh_def refresh_stored_def update_oauth_secret_def sample_connections_def sample_secret_def
        sql_affected_def Let_def)
qed



text \<open>A paused gateway with one upstream of \<open>a1\<close> and one of its workspace's own.\<close>

definition paused_gateway :: gateway where
  "paused_gateway = (hd (gdb_gateways sample_db))\<lparr>gw_status := GPaused\<rparr>"

definition sample_link :: "string \<Rightarrow> gateway_link" where
  "sample_link ch = \<lparr>gl_id = ch, gl_gateway = ''g1'', gl_channel = ch, gl_weight = 1, gl_priority = 1, gl_enabled = True\<rparr>"

definition sample_channel :: "string \<Rightarrow> string option \<Rightarrow> channel" where
  "sample_channel ch conn = \<lparr>ch_id = ch, ch_name = ''n'', ch_provider = ''openai'', ch_owner_type = ''user'', ch_owner_id = Some ''u1'',
     ch_org = Some ''o1'', ch_type = ''openai'', ch_model = ''m'', ch_endpoint = ''e'', ch_status = ''healthy'', ch_score = 1,
     ch_gateway_enabled = True, ch_managed_source = None, ch_deleted_at = None, ch_success_rate = 1, ch_latency_p95 = 1,
     ch_cost_usd = 1, ch_config = [], ch_connection = conn, ch_connection_model = None\<rparr>"

definition paused_db :: gateway_db where
  "paused_db = sample_db\<lparr>gdb_gateways := [paused_gateway], gdb_links := [sample_link ''c1'', sample_link ''c2''],
     gdb_channels := [sample_channel ''c1'' (Some ''a1''), sample_channel ''c2'' None]\<rparr>"

theorem disconnect_revokes_paused_witness:
  "sample_link ''c2'' \<in> set (gdb_links (disconnect_gateways ''a1'' 5 paused_db))
   \<and> paused_gateway \<in> set (gdb_gateways (disconnect_gateways ''a1'' 5 paused_db))
   \<and> (\<exists>k\<in>set (gdb_keys (disconnect_gateways ''a1'' 5 paused_db)). gk_id k = ''k1'' \<and> gk_status k = YRevoked)"
proof -
  let ?k = "hd (gdb_keys sample_db)"
  have gw: "paused_gateway \<in> set (gdb_gateways paused_db)" "gw_status paused_gateway = GPaused" "gw_id paused_gateway = ''g1''"
    by (simp_all add: paused_db_def paused_gateway_def sample_db_def)
  have uses: "uses_connection ''a1'' paused_db (gw_id paused_gateway)"
    by (simp add: uses_connection_def connection_channel_def sql_exists_def paused_db_def sample_channel_def sample_link_def gw(3))
  have key: "?k \<in> set (gdb_keys paused_db)" "gk_gateway ?k = gw_id paused_gateway" "gk_status ?k = YActive" "gk_id ?k = ''k1''"
    by (simp_all add: paused_db_def gw(3)) (simp_all add: sample_db_def)
  have link: "sample_link ''c2'' \<in> set (gdb_links paused_db)" "gl_gateway (sample_link ''c2'') = gw_id paused_gateway"
    "gl_enabled (sample_link ''c2'')" "\<not> connection_channel ''a1'' paused_db (gl_channel (sample_link ''c2''))"
    by (simp_all add: paused_db_def gw(3) connection_channel_def sql_exists_def sample_channel_def sample_link_def)
  from disconnect_revokes_paused [OF gw(1,2) uses key(1,2,3) link] show ?thesis unfolding key(4) .
qed

theorem relay_made_once_witness:
  "\<exists>r db'. create_quick_relay id sample_relay sample_relay_ids 5 sample_connections = (Inr r, db')
     \<and> (\<exists>r'. create_quick_relay id sample_relay sample_relay_ids 6 db' = (Inr r', db') \<and> rr_key_id r' = rr_key_id r)"
proof -
  let ?r = "create_quick_relay id sample_relay sample_relay_ids 5 sample_connections"
  have "case fst ?r of Inr r \<Rightarrow> \<not> rr_replay r | _ \<Rightarrow> False" by code_simp
  then obtain r db' where r: "?r = (Inr r, db')" "\<not> rr_replay r" by (cases ?r; cases "fst ?r") auto
  have "rv_ciphertext (ri_reveal sample_relay) \<noteq> []" "unique_strings (ri_models sample_relay) \<noteq> []" by code_simp+
  from relay_made_once [OF r this(1) refl refl refl this(2), of 6] r(1) show ?thesis
    by (auto simp: relay_lifetime_def minute_def second_def)
qed

end
