(* ===== verification/Auth_Session.thy ===== *)
theory Auth_Session
  imports Row_Lifecycle
begin

text \<open>
  What a login to a provider keeps between its requests: authorization transactions, step-up grants
  and refresh locks, with the two implementations of \<open>AuthorizationStore\<close>: the one in memory of
  \<open>internal/connections/auth.go\<close> and the one over Redis of \<open>authorization_store.go\<close>.

  Redis is a map from keys to values that hold until their time; its three key spaces have prefixes
  of their own, so they are three maps. SHA-256 of a trimmed id is a parameter \<open>digest\<close>. The JSON of a
  transaction keeps every field but \<open>AuthorizationURL\<close>; values Redis holds that are not such JSON, an
  unreachable Redis and a failing random source are not modelled. A lock token is an argument.
\<close>

section \<open>Records\<close>

record auth_transaction =
  at_id :: string
  at_user :: string
  at_org :: string
  at_session :: string
  at_provider :: string
  at_method :: string
  at_state :: string
  at_verifier :: string
  at_nonce :: string
  at_redirect :: string
  at_display :: string
  at_project :: string
  at_models :: "string list"
  at_terms :: string
  at_existing :: string
  at_created :: time
  at_expires :: time
  at_url :: string

record step_up_grant =
  sg_token :: string
  sg_user :: string
  sg_session :: string
  sg_expires :: time

record refresh_lock =
  rl_token :: string
  rl_expires :: time

definition err_not_found :: err where "err_not_found = ErrNamed ''authorization transaction was not found''"
definition err_expired :: err where "err_expired = ErrNamed ''authorization transaction expired''"
definition err_binding :: err where "err_binding = ErrNamed ''authorization transaction binding mismatch''"

definition transaction_complete :: "auth_transaction \<Rightarrow> bool" where
  "transaction_complete x = (at_id x \<noteq> [] \<and> at_user x \<noteq> [] \<and> at_session x \<noteq> [] \<and> at_expires x \<noteq> 0)"

definition grant_complete :: "step_up_grant \<Rightarrow> bool" where
  "grant_complete g = (sg_token g \<noteq> [] \<and> sg_user g \<noteq> [] \<and> sg_session g \<noteq> [] \<and> sg_expires g \<noteq> 0)"

section \<open>The store in memory\<close>

record memory_store =
  ms_transactions :: "string \<rightharpoonup> auth_transaction"
  ms_grants :: "string \<rightharpoonup> step_up_grant"
  ms_locks :: "string \<rightharpoonup> refresh_lock"

definition new_memory_store :: memory_store where
  "new_memory_store = \<lparr>ms_transactions = Map.empty, ms_grants = Map.empty, ms_locks = Map.empty\<rparr>"

definition memory_put :: "auth_transaction \<Rightarrow> memory_store \<Rightarrow> unit res \<times> memory_store" where
  "memory_put x s =
     (if \<not> transaction_complete x then (Inl (ErrNamed ''authorization transaction is incomplete''), s)
      else (Inr (), s\<lparr>ms_transactions := (ms_transactions s)(at_id x \<mapsto> x)\<rparr>))"

definition memory_get :: "string \<Rightarrow> time \<Rightarrow> memory_store \<Rightarrow> auth_transaction res \<times> memory_store" where
  "memory_get i now s =
     (case ms_transactions s i of
        None \<Rightarrow> (Inl err_not_found, s)
      | Some x \<Rightarrow>
          if \<not> at_expires x > now then (Inl err_expired, s\<lparr>ms_transactions := (ms_transactions s)(i := None)\<rparr>)
          else (Inr x, s))"

definition memory_consume :: "string \<Rightarrow> string \<Rightarrow> string \<Rightarrow> time \<Rightarrow> memory_store \<Rightarrow> auth_transaction res \<times> memory_store" where
  "memory_consume i user session now s =
     (case ms_transactions s i of
        None \<Rightarrow> (Inl err_not_found, s)
      | Some x \<Rightarrow>
          if \<not> at_expires x > now then (Inl err_expired, s\<lparr>ms_transactions := (ms_transactions s)(i := None)\<rparr>)
          else if at_user x \<noteq> user \<or> at_session x \<noteq> session then (Inl err_binding, s)
          else (Inr x, s\<lparr>ms_transactions := (ms_transactions s)(i := None)\<rparr>))"

definition memory_delete :: "string \<Rightarrow> string \<Rightarrow> string \<Rightarrow> memory_store \<Rightarrow> unit res \<times> memory_store" where
  "memory_delete i user session s =
     (case ms_transactions s i of
        None \<Rightarrow> (Inl err_not_found, s)
      | Some x \<Rightarrow>
          if at_user x \<noteq> user \<or> at_session x \<noteq> session then (Inl err_binding, s)
          else (Inr (), s\<lparr>ms_transactions := (ms_transactions s)(i := None)\<rparr>))"

definition memory_put_step_up :: "step_up_grant \<Rightarrow> memory_store \<Rightarrow> unit res \<times> memory_store" where
  "memory_put_step_up g s =
     (if \<not> grant_complete g then (Inl (ErrNamed ''step-up grant is incomplete''), s)
      else (Inr (), s\<lparr>ms_grants := (ms_grants s)(sg_token g \<mapsto> g)\<rparr>))"

definition memory_consume_step_up :: "string \<Rightarrow> string \<Rightarrow> string \<Rightarrow> time \<Rightarrow> memory_store \<Rightarrow> unit res \<times> memory_store" where
  "memory_consume_step_up token user session now s =
     (case ms_grants s token of
        None \<Rightarrow> (Inl err_not_found, s)
      | Some g \<Rightarrow>
          if \<not> sg_expires g > now then (Inl err_expired, s\<lparr>ms_grants := (ms_grants s)(token := None)\<rparr>)
          else if sg_user g \<noteq> user \<or> sg_session g \<noteq> session then (Inl err_binding, s)
          else (Inr (), s\<lparr>ms_grants := (ms_grants s)(token := None)\<rparr>))"

definition memory_acquire :: "string \<Rightarrow> duration \<Rightarrow> string \<Rightarrow> time \<Rightarrow> memory_store \<Rightarrow> string option \<times> memory_store" where
  "memory_acquire cid ttl token now s =
     (case ms_locks s cid of
        Some l \<Rightarrow> if rl_expires l > now then (None, s)
                   else (Some token, s\<lparr>ms_locks := (ms_locks s)(cid \<mapsto> \<lparr>rl_token = token, rl_expires = now + ttl\<rparr>)\<rparr>)
      | None \<Rightarrow> (Some token, s\<lparr>ms_locks := (ms_locks s)(cid \<mapsto> \<lparr>rl_token = token, rl_expires = now + ttl\<rparr>)\<rparr>))"

definition memory_release :: "string \<Rightarrow> string \<Rightarrow> memory_store \<Rightarrow> memory_store" where
  "memory_release cid token s =
     (case ms_locks s cid of
        Some l \<Rightarrow> if rl_token l = token then s\<lparr>ms_locks := (ms_locks s)(cid := None)\<rparr> else s
      | None \<Rightarrow> s)"

section \<open>The store over Redis\<close>

type_synonym 'v redis_map = "string \<rightharpoonup> 'v \<times> time"

definition redis_get :: "string \<Rightarrow> time \<Rightarrow> 'v redis_map \<Rightarrow> 'v option" where
  "redis_get k now m = (case m k of Some (v, until) \<Rightarrow> if now < until then Some v else None | None \<Rightarrow> None)"

definition redis_set :: "string \<Rightarrow> 'v \<Rightarrow> duration \<Rightarrow> time \<Rightarrow> 'v redis_map \<Rightarrow> 'v redis_map" where
  "redis_set k v ttl now m = m(k \<mapsto> (v, now + ttl))"

definition redis_del :: "string \<Rightarrow> 'v redis_map \<Rightarrow> 'v redis_map" where
  "redis_del k m = m(k := None)"

definition redis_set_nx :: "string \<Rightarrow> 'v \<Rightarrow> duration \<Rightarrow> time \<Rightarrow> 'v redis_map \<Rightarrow> bool \<times> 'v redis_map" where
  "redis_set_nx k v ttl now m =
     (case redis_get k now m of Some _ \<Rightarrow> (False, m) | None \<Rightarrow> (True, redis_set k v ttl now m))"

record redis_store =
  rs_transactions :: "auth_transaction redis_map"
  rs_grants :: "step_up_grant redis_map"
  rs_locks :: "string redis_map"

definition empty_redis :: redis_store where
  "empty_redis = \<lparr>rs_transactions = Map.empty, rs_grants = Map.empty, rs_locks = Map.empty\<rparr>"

text \<open>\<open>opaqueRedisSuffix\<close>, and \<open>refreshRedisKey\<close> without its prefix.\<close>

definition opaque_suffix :: "(string \<Rightarrow> string) \<Rightarrow> string \<Rightarrow> string" where
  "opaque_suffix digest v = digest (trim_space v)"

definition persisted :: "auth_transaction \<Rightarrow> auth_transaction" where
  "persisted x = x\<lparr>at_url := []\<rparr>"

definition redis_put :: "(string \<Rightarrow> string) \<Rightarrow> auth_transaction \<Rightarrow> time \<Rightarrow> redis_store \<Rightarrow> unit res \<times> redis_store" where
  "redis_put digest x now s =
     (if \<not> transaction_complete x then (Inl (ErrNamed ''authorization transaction is incomplete''), s)
      else let ttl = at_expires x - now in
           if ttl \<le> 0 then (Inl err_expired, s)
           else (Inr (), s\<lparr>rs_transactions := redis_set (opaque_suffix digest (at_id x)) (persisted x) ttl now (rs_transactions s)\<rparr>))"

definition still_valid :: "time \<Rightarrow> auth_transaction \<Rightarrow> auth_transaction res" where
  "still_valid now x = (if \<not> at_expires x > now then Inl err_expired else Inr x)"

definition redis_lookup :: "(string \<Rightarrow> string) \<Rightarrow> string \<Rightarrow> time \<Rightarrow> redis_store \<Rightarrow> auth_transaction res" where
  "redis_lookup digest i now s =
     (case redis_get (opaque_suffix digest i) now (rs_transactions s) of
        None \<Rightarrow> Inl err_not_found
      | Some x \<Rightarrow> still_valid now x)"

text \<open>The Lua script \<open>consumeBoundAuthorizationScript\<close> over values with a user and a session.\<close>

definition consume_bound ::
  "('v \<Rightarrow> string) \<Rightarrow> ('v \<Rightarrow> string) \<Rightarrow> string \<Rightarrow> string \<Rightarrow> string \<Rightarrow> time \<Rightarrow> 'v redis_map \<Rightarrow> 'v res \<times> 'v redis_map"
where
  "consume_bound user_of session_of k user session now m =
     (case redis_get k now m of
        None \<Rightarrow> (Inl err_not_found, m)
      | Some v \<Rightarrow> if user_of v \<noteq> user \<or> session_of v \<noteq> session then (Inl err_binding, m) else (Inr v, redis_del k m))"

definition redis_consume ::
  "(string \<Rightarrow> string) \<Rightarrow> string \<Rightarrow> string \<Rightarrow> string \<Rightarrow> time \<Rightarrow> redis_store \<Rightarrow> auth_transaction res \<times> redis_store"
where
  "redis_consume digest i user session now s =
     (case consume_bound at_user at_session (opaque_suffix digest i) user session now (rs_transactions s) of
        (r, m) \<Rightarrow>
          (case r of
             Inl e \<Rightarrow> (Inl e, s\<lparr>rs_transactions := m\<rparr>)
           | Inr x \<Rightarrow>
               (case still_valid now x of
                  Inl e \<Rightarrow> (Inl e, s\<lparr>rs_transactions := m\<rparr>)
                | Inr y \<Rightarrow> if at_user y \<noteq> user \<or> at_session y \<noteq> session then (Inl err_binding, s\<lparr>rs_transactions := m\<rparr>)
                          else (Inr y, s\<lparr>rs_transactions := m\<rparr>))))"

definition redis_delete ::
  "(string \<Rightarrow> string) \<Rightarrow> string \<Rightarrow> string \<Rightarrow> string \<Rightarrow> time \<Rightarrow> redis_store \<Rightarrow> unit res \<times> redis_store"
where
  "redis_delete digest i user session now s =
     (case redis_consume digest i user session now s of
        (Inl e, s') \<Rightarrow> (Inl e, s')
      | (Inr _, s') \<Rightarrow> (Inr (), s'))"

definition redis_put_step_up :: "(string \<Rightarrow> string) \<Rightarrow> step_up_grant \<Rightarrow> time \<Rightarrow> redis_store \<Rightarrow> unit res \<times> redis_store" where
  "redis_put_step_up digest g now s =
     (if \<not> grant_complete g then (Inl (ErrNamed ''step-up grant is incomplete''), s)
      else let ttl = sg_expires g - now in
           if ttl \<le> 0 then (Inl err_expired, s)
           else (Inr (), s\<lparr>rs_grants := redis_set (opaque_suffix digest (sg_token g)) g ttl now (rs_grants s)\<rparr>))"

definition redis_consume_step_up ::
  "(string \<Rightarrow> string) \<Rightarrow> string \<Rightarrow> string \<Rightarrow> string \<Rightarrow> time \<Rightarrow> redis_store \<Rightarrow> unit res \<times> redis_store"
where
  "redis_consume_step_up digest token user session now s =
     (case consume_bound sg_user sg_session (opaque_suffix digest token) user session now (rs_grants s) of
        (Inl e, m) \<Rightarrow> (Inl e, s\<lparr>rs_grants := m\<rparr>)
      | (Inr g, m) \<Rightarrow> if \<not> sg_expires g > now then (Inl err_expired, s\<lparr>rs_grants := m\<rparr>)
                     else (Inr (), s\<lparr>rs_grants := m\<rparr>))"

definition redis_acquire :: "string \<Rightarrow> duration \<Rightarrow> string \<Rightarrow> time \<Rightarrow> redis_store \<Rightarrow> string option \<times> redis_store" where
  "redis_acquire cid ttl token now s =
     (case redis_set_nx (trim_space cid) token ttl now (rs_locks s) of
        (ok, m) \<Rightarrow> (if ok then Some token else None, s\<lparr>rs_locks := m\<rparr>))"

definition redis_release :: "string \<Rightarrow> string \<Rightarrow> time \<Rightarrow> redis_store \<Rightarrow> redis_store" where
  "redis_release cid token now s =
     (if redis_get (trim_space cid) now (rs_locks s) = Some token
      then s\<lparr>rs_locks := redis_del (trim_space cid) (rs_locks s)\<rparr> else s)"

section \<open>Runs\<close>

datatype session_op =
    SPut auth_transaction
  | SGet string
  | SConsume string string string
  | SDelete string string string
  | SPutStepUp step_up_grant
  | SConsumeStepUp string string string
  | SAcquire string duration string
  | SRelease string string

fun memory_step :: "session_op \<Rightarrow> memory_store \<Rightarrow> time \<Rightarrow> memory_store" where
  "memory_step (SPut x) s now = snd (memory_put x s)"
| "memory_step (SGet i) s now = snd (memory_get i now s)"
| "memory_step (SConsume i u e) s now = snd (memory_consume i u e now s)"
| "memory_step (SDelete i u e) s now = snd (memory_delete i u e s)"
| "memory_step (SPutStepUp g) s now = snd (memory_put_step_up g s)"
| "memory_step (SConsumeStepUp k u e) s now = snd (memory_consume_step_up k u e now s)"
| "memory_step (SAcquire c ttl k) s now = snd (memory_acquire c ttl k now s)"
| "memory_step (SRelease c k) s now = memory_release c k s"

fun redis_step :: "(string \<Rightarrow> string) \<Rightarrow> session_op \<Rightarrow> redis_store \<Rightarrow> time \<Rightarrow> redis_store" where
  "redis_step d (SPut x) s now = snd (redis_put d x now s)"
| "redis_step d (SGet i) s now = s"
| "redis_step d (SConsume i u e) s now = snd (redis_consume d i u e now s)"
| "redis_step d (SDelete i u e) s now = snd (redis_delete d i u e now s)"
| "redis_step d (SPutStepUp g) s now = snd (redis_put_step_up d g now s)"
| "redis_step d (SConsumeStepUp k u e) s now = snd (redis_consume_step_up d k u e now s)"
| "redis_step d (SAcquire c ttl k) s now = snd (redis_acquire c ttl k now s)"
| "redis_step d (SRelease c k) s now = redis_release c k now s"

end
