(* ===== verification/Auth_Safety.thy ===== *)
theory Auth_Safety
  imports Auth_Session
begin

text \<open>
  Contracts of the authorization stores and what follows from them: \<open>one_time\<close> for what is stored once
  and consumed once, \<open>lease_lock\<close> for a lock that is held until it is released with its token or its
  time is over. Both stores are models of both, the first twice: for transactions and for grants.
\<close>

section \<open>Contracts\<close>

locale one_time =
  fixes step :: "'o \<Rightarrow> 's \<Rightarrow> time \<Rightarrow> 's"
    and stored :: "string \<Rightarrow> 's \<Rightarrow> bool"
    and issues :: "string \<Rightarrow> 'o \<Rightarrow> bool"
    and consumes :: "string \<Rightarrow> 'o \<Rightarrow> 's \<Rightarrow> time \<Rightarrow> bool"
  assumes consumes_takes: "consumes k x s t \<Longrightarrow> stored k s \<and> \<not> stored k (step x s t)"
    and stored_from: "stored k (step x s t) \<Longrightarrow> stored k s \<or> issues k x"
begin

lemma consumed_le_issued:
  "count_steps step (consumes k) s es + (if stored k (store_run step s es) then 1 else 0)
   \<le> length (filter (\<lambda>e. issues k (fst e)) es) + (if stored k s then 1 else 0)"
proof (induction es arbitrary: s)
  case (Cons e es)
  from Cons.IH [of "step (fst e) s (snd e)"] consumes_takes [of k "fst e" s "snd e"] stored_from [of k "fst e" s "snd e"]
  show ?case by (auto split: if_splits)
qed simp

end

locale lease_lock =
  fixes step :: "'o \<Rightarrow> 's \<Rightarrow> time \<Rightarrow> 's"
    and lease :: "string \<Rightarrow> 's \<Rightarrow> (string \<times> time) option"
    and acquires :: "string \<Rightarrow> string \<Rightarrow> duration \<Rightarrow> 'o \<Rightarrow> 's \<Rightarrow> time \<Rightarrow> bool"
    and releases :: "string \<Rightarrow> string \<Rightarrow> 'o \<Rightarrow> bool"
  assumes acquires_free: "acquires c k ttl x s t \<Longrightarrow>
      (\<forall>k' until. lease c s = Some (k', until) \<longrightarrow> until \<le> t) \<and> lease c (step x s t) = Some (k, t + ttl)"
    and lease_kept: "lease c s = Some (k, until) \<Longrightarrow> t < until \<Longrightarrow> \<not> releases c k x \<Longrightarrow> lease c (step x s t) = Some (k, until)"
begin

lemma held_excludes:
  assumes "lease c s = Some (k, until)" and "\<And>x t. (x, t) \<in> set es \<Longrightarrow> t < until \<and> \<not> releases c k x"
  shows "lease c (store_run step s es) = Some (k, until)
    \<and> count_steps step (\<lambda>x s t. \<exists>k' ttl. acquires c k' ttl x s t) s es = 0"
  using assms
proof (induction es arbitrary: s)
  case (Cons e es)
  obtain x t where e: "e = (x, t)" by (cases e)
  have t: "t < until" "\<not> releases c k x" using Cons.prems(2) e by auto
  have kept: "lease c (step x s t) = Some (k, until)" by (rule lease_kept [OF Cons.prems(1) t])
  have "\<not> acquires c k' ttl x s t" for k' ttl using acquires_free [of c k' ttl x s t] Cons.prems(1) t(1) by auto
  moreover have "t < until \<and> \<not> releases c k x" if "(x, t) \<in> set es" for x t by (rule Cons.prems(2)) (use that in simp)
  ultimately show ?case using Cons.IH [OF kept] e by simp
qed simp

end

section \<open>The stores as models\<close>

fun issues_transaction :: "(string \<Rightarrow> string) \<Rightarrow> string \<Rightarrow> session_op \<Rightarrow> bool" where
  "issues_transaction slot k (SPut x) = (slot (at_id x) = k)"
| "issues_transaction slot k _ = False"

fun issues_grant :: "(string \<Rightarrow> string) \<Rightarrow> string \<Rightarrow> session_op \<Rightarrow> bool" where
  "issues_grant slot k (SPutStepUp g) = (slot (sg_token g) = k)"
| "issues_grant slot k _ = False"

fun memory_consumes :: "string \<Rightarrow> session_op \<Rightarrow> memory_store \<Rightarrow> time \<Rightarrow> bool" where
  "memory_consumes k (SConsume i u e) s t = (i = k \<and> is_ok (fst (memory_consume i u e t s)))"
| "memory_consumes k _ s t = False"

fun memory_steps_up :: "string \<Rightarrow> session_op \<Rightarrow> memory_store \<Rightarrow> time \<Rightarrow> bool" where
  "memory_steps_up k (SConsumeStepUp i u e) s t = (i = k \<and> is_ok (fst (memory_consume_step_up i u e t s)))"
| "memory_steps_up k _ s t = False"

fun redis_consumes :: "(string \<Rightarrow> string) \<Rightarrow> string \<Rightarrow> session_op \<Rightarrow> redis_store \<Rightarrow> time \<Rightarrow> bool" where
  "redis_consumes d k (SConsume i u e) s t = (opaque_suffix d i = k \<and> is_ok (fst (redis_consume d i u e t s)))"
| "redis_consumes d k _ s t = False"

fun redis_steps_up :: "(string \<Rightarrow> string) \<Rightarrow> string \<Rightarrow> session_op \<Rightarrow> redis_store \<Rightarrow> time \<Rightarrow> bool" where
  "redis_steps_up d k (SConsumeStepUp i u e) s t = (opaque_suffix d i = k \<and> is_ok (fst (redis_consume_step_up d i u e t s)))"
| "redis_steps_up d k _ s t = False"

lemmas memory_ops = memory_put_def memory_get_def memory_consume_def memory_delete_def memory_put_step_up_def
  memory_consume_step_up_def memory_acquire_def memory_release_def

lemmas redis_ops = redis_put_def redis_consume_def redis_delete_def redis_put_step_up_def redis_consume_step_up_def
  redis_acquire_def redis_release_def consume_bound_def redis_set_nx_def redis_set_def redis_del_def still_valid_def

interpretation memory_transactions: one_time memory_step "\<lambda>k s. ms_transactions s k \<noteq> None" "issues_transaction id" memory_consumes
proof
  fix k x and s :: memory_store and t
  show "memory_consumes k x s t \<Longrightarrow> ms_transactions s k \<noteq> None \<and> \<not> ms_transactions (memory_step x s t) k \<noteq> None"
    by (cases x) (auto simp: memory_consume_def split: option.splits if_splits)
  show "ms_transactions (memory_step x s t) k \<noteq> None \<Longrightarrow> ms_transactions s k \<noteq> None \<or> issues_transaction id k x"
    by (cases x) (auto simp: memory_ops split: option.splits if_splits)
qed

interpretation memory_grants: one_time memory_step "\<lambda>k s. ms_grants s k \<noteq> None" "issues_grant id" memory_steps_up
proof
  fix k x and s :: memory_store and t
  show "memory_steps_up k x s t \<Longrightarrow> ms_grants s k \<noteq> None \<and> \<not> ms_grants (memory_step x s t) k \<noteq> None"
    by (cases x) (auto simp: memory_consume_step_up_def split: option.splits if_splits)
  show "ms_grants (memory_step x s t) k \<noteq> None \<Longrightarrow> ms_grants s k \<noteq> None \<or> issues_grant id k x"
    by (cases x) (auto simp: memory_ops split: option.splits if_splits)
qed

lemma redis_get_Some: "redis_get k t m = Some v \<Longrightarrow> m k \<noteq> None"
  by (cases "m k") (auto simp: redis_get_def)

interpretation redis_transactions: one_time "redis_step d" "\<lambda>k s. rs_transactions s k \<noteq> None"
    "issues_transaction (opaque_suffix d)" "redis_consumes d" for d
proof
  fix k x and s :: redis_store and t
  show "redis_consumes d k x s t \<Longrightarrow> rs_transactions s k \<noteq> None \<and> \<not> rs_transactions (redis_step d x s t) k \<noteq> None"
    by (cases x) (auto simp: redis_ops dest: redis_get_Some split: option.splits if_splits)
  show "rs_transactions (redis_step d x s t) k \<noteq> None \<Longrightarrow> rs_transactions s k \<noteq> None \<or> issues_transaction (opaque_suffix d) k x"
    by (cases x) (auto simp: redis_ops Let_def split: option.splits if_splits)
qed

interpretation redis_grants: one_time "redis_step d" "\<lambda>k s. rs_grants s k \<noteq> None"
    "issues_grant (opaque_suffix d)" "redis_steps_up d" for d
proof
  fix k x and s :: redis_store and t
  show "redis_steps_up d k x s t \<Longrightarrow> rs_grants s k \<noteq> None \<and> \<not> rs_grants (redis_step d x s t) k \<noteq> None"
    by (cases x) (auto simp: redis_ops dest: redis_get_Some split: option.splits if_splits)
  show "rs_grants (redis_step d x s t) k \<noteq> None \<Longrightarrow> rs_grants s k \<noteq> None \<or> issues_grant (opaque_suffix d) k x"
    by (cases x) (auto simp: redis_ops Let_def split: option.splits if_splits)
qed

fun memory_acquires :: "string \<Rightarrow> string \<Rightarrow> duration \<Rightarrow> session_op \<Rightarrow> memory_store \<Rightarrow> time \<Rightarrow> bool" where
  "memory_acquires c k ttl (SAcquire c' ttl' k') s t = (c' = c \<and> ttl' = ttl \<and> fst (memory_acquire c' ttl' k' t s) = Some k)"
| "memory_acquires c k ttl _ s t = False"

fun redis_acquires :: "string \<Rightarrow> string \<Rightarrow> duration \<Rightarrow> session_op \<Rightarrow> redis_store \<Rightarrow> time \<Rightarrow> bool" where
  "redis_acquires c k ttl (SAcquire c' ttl' k') s t = (trim_space c' = c \<and> ttl' = ttl \<and> fst (redis_acquire c' ttl' k' t s) = Some k)"
| "redis_acquires c k ttl _ s t = False"

fun releases_lock :: "(string \<Rightarrow> string) \<Rightarrow> string \<Rightarrow> string \<Rightarrow> session_op \<Rightarrow> bool" where
  "releases_lock slot c k (SRelease c' k') = (slot c' = c \<and> k' = k)"
| "releases_lock slot c k _ = False"

interpretation memory_lock: lease_lock memory_step "\<lambda>c s. map_option (\<lambda>l. (rl_token l, rl_expires l)) (ms_locks s c)"
    memory_acquires "releases_lock id"
proof
  fix c k ttl x and s :: memory_store and t until
  show "memory_acquires c k ttl x s t \<Longrightarrow>
      (\<forall>k' until. map_option (\<lambda>l. (rl_token l, rl_expires l)) (ms_locks s c) = Some (k', until) \<longrightarrow> until \<le> t)
      \<and> map_option (\<lambda>l. (rl_token l, rl_expires l)) (ms_locks (memory_step x s t) c) = Some (k, t + ttl)"
    by (cases x) (auto simp: memory_acquire_def split: option.splits if_splits)
  show "map_option (\<lambda>l. (rl_token l, rl_expires l)) (ms_locks s c) = Some (k, until) \<Longrightarrow> t < until \<Longrightarrow> \<not> releases_lock id c k x
      \<Longrightarrow> map_option (\<lambda>l. (rl_token l, rl_expires l)) (ms_locks (memory_step x s t) c) = Some (k, until)"
    by (cases x) (auto simp: memory_ops split: option.splits if_splits)
qed

interpretation redis_lock: lease_lock "redis_step d" "\<lambda>c s. rs_locks s c" redis_acquires "releases_lock trim_space" for d
proof
  fix c k ttl x and s :: redis_store and t until
  show "redis_acquires c k ttl x s t \<Longrightarrow>
      (\<forall>k' until. rs_locks s c = Some (k', until) \<longrightarrow> until \<le> t) \<and> rs_locks (redis_step d x s t) c = Some (k, t + ttl)"
    by (cases x) (auto simp: redis_ops redis_get_def split: option.splits if_splits)
  show "rs_locks s c = Some (k, until) \<Longrightarrow> t < until \<Longrightarrow> \<not> releases_lock trim_space c k x
      \<Longrightarrow> rs_locks (redis_step d x s t) c = Some (k, until)"
    by (cases x) (auto simp: redis_ops redis_get_def Let_def split: option.splits if_splits)
qed

section \<open>Consumed once\<close>

definition issued :: "(string \<Rightarrow> session_op \<Rightarrow> bool) \<Rightarrow> string \<Rightarrow> (session_op \<times> time) list \<Rightarrow> nat" where
  "issued by k es = length (filter (\<lambda>e. by k (fst e)) es)"

text \<open>C20: A login transaction and a step-up grant are consumed at most as often as they were stored, in
  memory and in Redis, over any run of the store's operations from the empty store.\<close>

theorem login_consumed_once:
  "count_steps memory_step (memory_consumes i) new_memory_store es
     \<le> issued (issues_transaction id) i es
   \<and> count_steps memory_step (memory_steps_up i) new_memory_store es
     \<le> issued (issues_grant id) i es
   \<and> count_steps (redis_step d) (redis_consumes d k) empty_redis es
     \<le> issued (issues_transaction (opaque_suffix d)) k es
   \<and> count_steps (redis_step d) (redis_steps_up d k) empty_redis es
     \<le> issued (issues_grant (opaque_suffix d)) k es"
  using memory_transactions.consumed_le_issued [of i "new_memory_store" es]
    memory_grants.consumed_le_issued [of i "new_memory_store" es]
    redis_transactions.consumed_le_issued [of d k "empty_redis" es]
    redis_grants.consumed_le_issued [of d k "empty_redis" es]
  by (simp add: issued_def new_memory_store_def empty_redis_def)

text \<open>What is handed out is what was stored, to the user and session it is bound to, before its time.\<close>

lemma memory_consume_bound:
  "memory_consume i u e t s = (Inr x, s') \<longleftrightarrow> ms_transactions s i = Some x \<and> at_expires x > t \<and> at_user x = u \<and> at_session x = e
     \<and> s' = s\<lparr>ms_transactions := (ms_transactions s)(i := None)\<rparr>"
  by (auto simp: memory_consume_def split: option.splits)

lemma redis_consume_bound:
  "redis_consume d i u e t s = (Inr x, s') \<longleftrightarrow> redis_get (opaque_suffix d i) t (rs_transactions s) = Some x \<and> at_expires x > t
     \<and> at_user x = u \<and> at_session x = e \<and> s' = s\<lparr>rs_transactions := redis_del (opaque_suffix d i) (rs_transactions s)\<rparr>"
  by (auto simp: redis_consume_def consume_bound_def still_valid_def split: option.splits)

section \<open>The refresh lock\<close>

text \<open>C21: Once a refresh lock is granted, nobody else is granted it until it is released with its token or its
  time is over, in memory and in Redis, over any run in between.\<close>

theorem refresh_lock_exclusive:
  assumes "list_all (\<lambda>e. snd e < t + ttl) es"
  shows "(fst (memory_acquire c ttl k t s) = Some k \<and> \<not> list_ex (\<lambda>e. releases_lock id c k (fst e)) es
      \<longrightarrow> count_steps memory_step (\<lambda>x s t. \<exists>k' ttl. memory_acquires c k' ttl x s t) (snd (memory_acquire c ttl k t s)) es = 0)
    \<and> (fst (redis_acquire c ttl k t r) = Some k \<and> \<not> list_ex (\<lambda>e. releases_lock trim_space (trim_space c) k (fst e)) es
      \<longrightarrow> count_steps (redis_step d) (\<lambda>x s t. \<exists>k' ttl. redis_acquires (trim_space c) k' ttl x s t) (snd (redis_acquire c ttl k t r)) es = 0)"
proof (intro conjI impI; elim conjE)
  assume a: "fst (memory_acquire c ttl k t s) = Some k" "\<not> list_ex (\<lambda>e. releases_lock id c k (fst e)) es"
  have "map_option (\<lambda>l. (rl_token l, rl_expires l)) (ms_locks (memory_step (SAcquire c ttl k) s t) c) = Some (k, t + ttl)"
    using memory_lock.acquires_free [of c k ttl "SAcquire c ttl k" s t] a(1) by simp
  then show "count_steps memory_step (\<lambda>x s t. \<exists>k' ttl. memory_acquires c k' ttl x s t) (snd (memory_acquire c ttl k t s)) es = 0"
    using memory_lock.held_excludes [of "memory_step (SAcquire c ttl k) s t" c k "t + ttl" es] assms a(2) by (fastforce simp: list_ex_iff list_all_iff)
next
  assume a: "fst (redis_acquire c ttl k t r) = Some k" "\<not> list_ex (\<lambda>e. releases_lock trim_space (trim_space c) k (fst e)) es"
  have "rs_locks (redis_step d (SAcquire c ttl k) r t) (trim_space c) = Some (k, t + ttl)"
    using redis_lock.acquires_free [of "trim_space c" k ttl "SAcquire c ttl k" r t] a(1) by simp
  then show "count_steps (redis_step d) (\<lambda>x s t. \<exists>k' ttl. redis_acquires (trim_space c) k' ttl x s t) (snd (redis_acquire c ttl k t r)) es = 0"
    using redis_lock.held_excludes [of "redis_step d (SAcquire c ttl k) r t" "trim_space c" k "t + ttl" es d] assms a(2)
    by (fastforce simp: list_ex_iff list_all_iff)
qed

section \<open>Redis refines memory\<close>

definition fresh :: "time \<Rightarrow> ('v \<times> time) option \<Rightarrow> ('v \<times> time) option" where
  "fresh now p = (case p of Some (v, until) \<Rightarrow> if now < until then Some (v, until) else None | None \<Rightarrow> None)"

lemma fresh_simps [simp]: "fresh now None = None" "fresh now (Some (v, until)) = (if now < until then Some (v, until) else None)"
  by (simp_all add: fresh_def)

lemma fresh_later: "now \<le> t \<Longrightarrow> fresh t (fresh now p) = fresh t p"
  by (cases p) (auto simp: fresh_def)

lemma fresh_equal_later: "fresh now a = fresh now b \<Longrightarrow> now \<le> t \<Longrightarrow> fresh t a = fresh t b"
  using fresh_later [of now t a] fresh_later [of now t b] by simp

lemma redis_get_fresh: "redis_get k now m = map_option fst (fresh now (m k))"
  by (cases "m k") (auto simp: redis_get_def)

text \<open>What either store has for an id, with the time it holds until.\<close>

definition held_transaction :: "memory_store \<Rightarrow> string \<Rightarrow> (auth_transaction \<times> time) option" where
  "held_transaction m i = map_option (\<lambda>x. (persisted x, at_expires x)) (ms_transactions m i)"

definition held_grant :: "memory_store \<Rightarrow> string \<Rightarrow> (step_up_grant \<times> time) option" where
  "held_grant m i = map_option (\<lambda>g. (g, sg_expires g)) (ms_grants m i)"

definition held_lock :: "memory_store \<Rightarrow> string \<Rightarrow> (string \<times> time) option" where
  "held_lock m i = map_option (\<lambda>l. (rl_token l, rl_expires l)) (ms_locks m i)"

definition refines :: "(string \<Rightarrow> string) \<Rightarrow> string set \<Rightarrow> time \<Rightarrow> memory_store \<Rightarrow> redis_store \<Rightarrow> bool" where
  "refines d ids now m r = (\<forall>i\<in>ids. fresh now (held_transaction m i) = fresh now (rs_transactions r (d i))
     \<and> fresh now (held_grant m i) = fresh now (rs_grants r (d i)) \<and> fresh now (held_lock m i) = fresh now (rs_locks r i))"

datatype handed = HTransaction auth_transaction | HGrant | HLock string | HNothing

definition handed_transaction :: "auth_transaction res \<Rightarrow> handed" where
  "handed_transaction r = (case r of Inr x \<Rightarrow> HTransaction (persisted x) | Inl _ \<Rightarrow> HNothing)"

definition handed_grant :: "unit res \<Rightarrow> handed" where
  "handed_grant r = (if is_ok r then HGrant else HNothing)"

definition handed_lock :: "string option \<Rightarrow> handed" where
  "handed_lock r = (case r of Some k \<Rightarrow> HLock k | None \<Rightarrow> HNothing)"

fun memory_hands :: "session_op \<Rightarrow> memory_store \<Rightarrow> time \<Rightarrow> handed" where
  "memory_hands (SGet i) s t = handed_transaction (fst (memory_get i t s))"
| "memory_hands (SConsume i u e) s t = handed_transaction (fst (memory_consume i u e t s))"
| "memory_hands (SConsumeStepUp k u e) s t = handed_grant (fst (memory_consume_step_up k u e t s))"
| "memory_hands (SAcquire c ttl k) s t = handed_lock (fst (memory_acquire c ttl k t s))"
| "memory_hands _ s t = HNothing"

fun redis_hands :: "(string \<Rightarrow> string) \<Rightarrow> session_op \<Rightarrow> redis_store \<Rightarrow> time \<Rightarrow> handed" where
  "redis_hands d (SGet i) s t = handed_transaction (redis_lookup d i t s)"
| "redis_hands d (SConsume i u e) s t = handed_transaction (fst (redis_consume d i u e t s))"
| "redis_hands d (SConsumeStepUp k u e) s t = handed_grant (fst (redis_consume_step_up d k u e t s))"
| "redis_hands d (SAcquire c ttl k) s t = handed_lock (fst (redis_acquire c ttl k t s))"
| "redis_hands d _ s t = HNothing"

fun op_id :: "session_op \<Rightarrow> string" where
  "op_id (SPut x) = at_id x"
| "op_id (SGet i) = i"
| "op_id (SConsume i _ _) = i"
| "op_id (SDelete i _ _) = i"
| "op_id (SPutStepUp g) = sg_token g"
| "op_id (SConsumeStepUp k _ _) = k"
| "op_id (SAcquire c _ _) = c"
| "op_id (SRelease c _) = c"

text \<open>Both stores change at the id of the operation only.\<close>

lemma memory_elsewhere:
  "j \<noteq> op_id x \<Longrightarrow> held_transaction (memory_step x m t) j = held_transaction m j
    \<and> held_grant (memory_step x m t) j = held_grant m j \<and> held_lock (memory_step x m t) j = held_lock m j"
  by (cases x) (auto simp: memory_ops held_transaction_def held_grant_def held_lock_def split: option.splits)

lemma redis_elsewhere:
  assumes "trim_space (op_id x) = op_id x" and "j \<noteq> op_id x" and "d j \<noteq> d (op_id x)"
  shows "rs_transactions (redis_step d x r t) (d j) = rs_transactions r (d j) \<and> rs_grants (redis_step d x r t) (d j) = rs_grants r (d j)
    \<and> rs_locks (redis_step d x r t) j = rs_locks r j"
  using assms by (cases x) (auto simp: redis_ops opaque_suffix_def Let_def split: option.splits)

lemma persisted_fields [simp]:
  "at_id (persisted x) = at_id x" "at_user (persisted x) = at_user x" "at_session (persisted x) = at_session x"
  "at_expires (persisted x) = at_expires x" "persisted (persisted x) = persisted x"
  by (simp_all add: persisted_def)

definition agrees :: "time \<Rightarrow> memory_store \<Rightarrow> redis_store \<Rightarrow> (string \<Rightarrow> string) \<Rightarrow> string \<Rightarrow> bool" where
  "agrees t m r d i = (fresh t (held_transaction m i) = fresh t (rs_transactions r (d i))
     \<and> fresh t (held_grant m i) = fresh t (rs_grants r (d i)) \<and> fresh t (held_lock m i) = fresh t (rs_locks r i))"

lemma fresh_None_iff: "fresh t p = None \<longleftrightarrow> (\<forall>v until. p = Some (v, until) \<longrightarrow> until \<le> t)"
  by (cases p) (auto simp: fresh_def split: if_splits)

lemma fresh_Some_iff: "fresh t p = Some (v, until) \<longleftrightarrow> p = Some (v, until) \<and> t < until"
  by (cases p) (auto simp: fresh_def split: if_splits)

lemma fresh_sides: "Some (v, until) = fresh t p \<longleftrightarrow> p = Some (v, until) \<and> t < until"
  "None = fresh t p \<longleftrightarrow> (\<forall>v until. p = Some (v, until) \<longrightarrow> until \<le> t)"
  using fresh_Some_iff [of t p v until] fresh_None_iff [of t p] by (simp_all add: eq_commute)

text \<open>What a store answers, by what it has fresh for the id.\<close>

lemma transaction_answers:
  "memory_hands (SGet i) m t = (case fresh t (held_transaction m i) of Some (x, _) \<Rightarrow> HTransaction x | None \<Rightarrow> HNothing)"
  "memory_hands (SConsume i u e) m t = (case fresh t (held_transaction m i) of
     Some (x, _) \<Rightarrow> if at_user x = u \<and> at_session x = e then HTransaction x else HNothing | None \<Rightarrow> HNothing)"
  "memory_hands (SConsumeStepUp i u e) m t = (case fresh t (held_grant m i) of
     Some (g, _) \<Rightarrow> if sg_user g = u \<and> sg_session g = e then HGrant else HNothing | None \<Rightarrow> HNothing)"
  "memory_hands (SAcquire i ttl k) m t = (case fresh t (held_lock m i) of Some _ \<Rightarrow> HNothing | None \<Rightarrow> HLock k)"
  by (auto simp: memory_ops held_transaction_def held_grant_def held_lock_def handed_transaction_def handed_grant_def handed_lock_def
      split: option.splits)

lemma redis_answers:
  assumes "trim_space i = i"
  shows "redis_hands d (SConsumeStepUp i u e) r t = (case fresh t (rs_grants r (d i)) of
     Some (g, until) \<Rightarrow> if sg_user g = u \<and> sg_session g = e \<and> t < sg_expires g then HGrant else HNothing | None \<Rightarrow> HNothing)"
  "redis_hands d (SAcquire i ttl k) r t = (case fresh t (rs_locks r i) of Some _ \<Rightarrow> HNothing | None \<Rightarrow> HLock k)"
  "redis_hands d (SGet i) r t = (case fresh t (rs_transactions r (d i)) of
     Some (x, _) \<Rightarrow> if t < at_expires x then HTransaction (persisted x) else HNothing | None \<Rightarrow> HNothing)"
  "redis_hands d (SConsume i u e) r t = (case fresh t (rs_transactions r (d i)) of
     Some (x, _) \<Rightarrow> if at_user x = u \<and> at_session x = e \<and> t < at_expires x then HTransaction (persisted x) else HNothing | None \<Rightarrow> HNothing)"
  using assms by (auto simp: redis_ops redis_lookup_def redis_get_fresh opaque_suffix_def handed_transaction_def handed_grant_def
      handed_lock_def split: option.splits)

lemma held_expiry:
  "fresh t (held_transaction m i) = Some (x, until) \<Longrightarrow> t < at_expires x \<and> persisted x = x"
  "fresh t (held_grant m i) = Some (g, until) \<Longrightarrow> t < sg_expires g"
  by (auto simp: fresh_Some_iff held_transaction_def held_grant_def)

lemma hands_agree:
  assumes "agrees t m r d (op_id x)" and "trim_space (op_id x) = op_id x"
  shows "redis_hands d x r t = memory_hands x m t"
proof -
  let ?i = "op_id x"
  have "fresh t (rs_transactions r (d ?i)) = fresh t (held_transaction m ?i)"
    "fresh t (rs_grants r (d ?i)) = fresh t (held_grant m ?i)" "fresh t (rs_locks r ?i) = fresh t (held_lock m ?i)"
    using assms(1) by (simp_all add: agrees_def)
  then show ?thesis using assms(2) held_expiry [of t m ?i]
    by (cases x) (auto simp: transaction_answers redis_answers simp del: memory_hands.simps(1-4) redis_hands.simps(1-4) split: option.splits)
qed

text \<open>What is stored is not over yet.\<close>

fun stores_fresh :: "session_op \<Rightarrow> time \<Rightarrow> bool" where
  "stores_fresh (SPut x) t = (t < at_expires x)"
| "stores_fresh (SPutStepUp g) t = (t < sg_expires g)"
| "stores_fresh (SAcquire c ttl k) t = (0 < ttl)"
| "stores_fresh _ t = True"

lemma step_agrees:
  assumes "agrees t m r d (op_id x)" and "trim_space (op_id x) = op_id x" and "stores_fresh x t"
  shows "agrees t (memory_step x m t) (redis_step d x r t) d (op_id x)"
proof -
  note defs = agrees_def held_transaction_def held_grant_def held_lock_def opaque_suffix_def redis_get_fresh
  show ?thesis
  proof (cases x)
    case (SPut y)
    then show ?thesis using assms by (auto simp: defs memory_ops redis_ops Let_def)
  next
    case (SGet i)
    then show ?thesis using assms by (auto simp: defs memory_ops split: option.splits)
  next
    case (SConsume i u e)
    then show ?thesis using assms
      by (auto simp: defs memory_ops redis_ops fresh_None_iff fresh_Some_iff fresh_sides split: option.splits if_splits)
  next
    case (SDelete i u e)
    then show ?thesis using assms
      by (auto simp: defs memory_ops redis_ops fresh_None_iff fresh_Some_iff fresh_sides split: option.splits if_splits)
  next
    case (SPutStepUp g)
    then show ?thesis using assms by (auto simp: defs memory_ops redis_ops Let_def)
  next
    case (SConsumeStepUp i u e)
    then show ?thesis using assms
      by (auto simp: defs memory_ops redis_ops fresh_None_iff fresh_Some_iff fresh_sides split: option.splits if_splits)
  next
    case (SAcquire c ttl k)
    then show ?thesis using assms
      by (auto simp: defs memory_ops redis_ops fresh_None_iff fresh_Some_iff fresh_sides split: option.splits if_splits)
  next
    case (SRelease c k)
    then show ?thesis using assms
      by (auto simp: defs memory_ops redis_ops fresh_None_iff fresh_Some_iff fresh_sides split: option.splits if_splits)
  qed
qed

lemma agrees_later: "agrees t m r d i \<Longrightarrow> t \<le> t' \<Longrightarrow> agrees t' m r d i"
  unfolding agrees_def by (intro conjI; elim conjE; rule fresh_equal_later; assumption)

text \<open>Over runs whose clock does not go back.\<close>

fun hands_run :: "('o \<Rightarrow> 's \<Rightarrow> time \<Rightarrow> 's) \<Rightarrow> ('o \<Rightarrow> 's \<Rightarrow> time \<Rightarrow> handed) \<Rightarrow> 's \<Rightarrow> ('o \<times> time) list \<Rightarrow> handed list" where
  "hands_run step hands s [] = []"
| "hands_run step hands s (e # es) = hands (fst e) s (snd e) # hands_run step hands (step (fst e) s (snd e)) es"

definition refining_run :: "(string \<Rightarrow> string) \<Rightarrow> (session_op \<times> time) list \<Rightarrow> bool" where
  "refining_run d es = (sorted (map snd es) \<and> inj_on d (set (map (op_id \<circ> fst) es))
     \<and> list_all (\<lambda>e. stores_fresh (fst e) (snd e) \<and> trim_space (op_id (fst e)) = op_id (fst e)) es)"

lemma hands_run_agree:
  assumes "\<forall>i\<in>ids. agrees t m r d i" and "inj_on d ids" and "\<forall>e\<in>set es. op_id (fst e) \<in> ids \<and> t \<le> snd e
      \<and> stores_fresh (fst e) (snd e) \<and> trim_space (op_id (fst e)) = op_id (fst e)" and "sorted (map snd es)"
  shows "hands_run (redis_step d) (redis_hands d) r es = hands_run memory_step memory_hands m es"
  using assms
proof (induction es arbitrary: t m r)
  case (Cons e es)
  obtain x t' where e: "e = (x, t')" by (cases e)
  have x: "op_id x \<in> ids" "t \<le> t'" "stores_fresh x t'" "trim_space (op_id x) = op_id x" using Cons.prems(3) e by auto
  have now: "agrees t' m r d i" if "i \<in> ids" for i
    using Cons.prems(1) that by (intro agrees_later [OF _ x(2)]) simp
  have "agrees t' (memory_step x m t') (redis_step d x r t') d i" if i: "i \<in> ids" for i
  proof (cases "i = op_id x")
    case True
    then show ?thesis using step_agrees [OF now [OF x(1)] x(4,3)] by simp
  next
    case False
    then have "d i \<noteq> d (op_id x)" using Cons.prems(2) i x(1) by (auto dest: inj_onD)
    with False show ?thesis using now [OF i] memory_elsewhere [OF False, of m t'] redis_elsewhere [OF x(4) False, of d r t']
      by (simp add: agrees_def)
  qed
  moreover have "\<forall>e\<in>set es. op_id (fst e) \<in> ids \<and> t' \<le> snd e \<and> stores_fresh (fst e) (snd e)
      \<and> trim_space (op_id (fst e)) = op_id (fst e)" using Cons.prems(3,4) e by auto
  moreover have "sorted (map snd es)" using Cons.prems(4) by simp
  ultimately have "hands_run (redis_step d) (redis_hands d) (redis_step d x r t') es = hands_run memory_step memory_hands (memory_step x m t') es"
    using Cons.IH [of t' "memory_step x m t'" "redis_step d x r t'"] Cons.prems(2) by blast
  with hands_agree [OF now [OF x(1)] x(4)] show ?case by (simp add: e)
qed simp

text \<open>C19: Over any run of operations that store nothing that is already over, the store over Redis hands out
  exactly the transactions, grants and locks that the store in memory hands out, but for the
  authorization URL, as long as SHA-256 tells the ids of the run apart.\<close>

theorem redis_refines_memory:
  assumes "refining_run d es"
  shows "hands_run (redis_step d) (redis_hands d) empty_redis es
    = hands_run memory_step memory_hands new_memory_store es"
proof (cases es)
  case (Cons e es')
  have "sorted (map snd es)" "inj_on d (set (map (op_id \<circ> fst) es))" using assms by (simp_all add: refining_run_def)
  moreover have "\<forall>x\<in>set es. op_id (fst x) \<in> set (map (op_id \<circ> fst) es) \<and> snd e \<le> snd x
      \<and> stores_fresh (fst x) (snd x) \<and> trim_space (op_id (fst x)) = op_id (fst x)"
    using assms Cons by (auto simp: refining_run_def list_all_iff)
  ultimately show ?thesis
    by (intro hands_run_agree [where ids = "set (map (op_id \<circ> fst) es)" and t = "snd e"])
       (auto simp: agrees_def held_transaction_def held_grant_def held_lock_def new_memory_store_def empty_redis_def)
qed simp

section \<open>A login\<close>

definition sample_login :: auth_transaction where
  "sample_login = \<lparr>at_id = ''a'', at_user = ''u'', at_org = ''o'', at_session = ''s'', at_provider = ''p'', at_method = ''m'',
     at_state = [], at_verifier = [], at_nonce = [], at_redirect = [], at_display = [], at_project = [], at_models = [],
     at_terms = [], at_existing = [], at_created = 1, at_expires = 100, at_url = ''x''\<rparr>"

definition sample_logins :: "(session_op \<times> time) list" where
  "sample_logins = [(SPut sample_login, 5), (SConsume ''a'' ''v'' ''s'', 6), (SConsume ''a'' ''u'' ''s'', 7), (SConsume ''a'' ''u'' ''s'', 8)]"

theorem redis_refines_memory_witness:
  "hands_run (redis_step id) (redis_hands id) empty_redis sample_logins
     = hands_run memory_step memory_hands new_memory_store sample_logins
   \<and> hands_run memory_step memory_hands new_memory_store sample_logins
     = [HNothing, HNothing, HTransaction (persisted sample_login), HNothing]"
proof
  have "trim_space ''a'' = ''a''" by code_simp
  then have "refining_run id sample_logins" by (simp add: refining_run_def sample_logins_def sample_login_def)
  then show "hands_run (redis_step id) (redis_hands id) empty_redis sample_logins
     = hands_run memory_step memory_hands new_memory_store sample_logins"
    by (rule redis_refines_memory)
  show "hands_run memory_step memory_hands new_memory_store sample_logins
     = [HNothing, HNothing, HTransaction (persisted sample_login), HNothing]"
    by (simp add: new_memory_store_def sample_logins_def sample_login_def memory_put_def memory_consume_def transaction_complete_def
        handed_transaction_def)
qed

definition sample_locks :: "(session_op \<times> time) list" where
  "sample_locks = [(SAcquire ''c'' 30 ''l'', 6), (SRelease ''c'' ''l'', 7), (SAcquire ''c'' 30 ''m'', 34)]"

theorem refresh_lock_exclusive_witness:
  "fst (memory_acquire ''c'' 30 ''k'' 5 new_memory_store) = Some ''k''
   \<and> count_steps memory_step (\<lambda>x s t. \<exists>k' ttl. memory_acquires ''c'' k' ttl x s t)
       (snd (memory_acquire ''c'' 30 ''k'' 5 new_memory_store)) sample_locks = 0"
proof
  show first: "fst (memory_acquire ''c'' 30 ''k'' 5 new_memory_store) = Some ''k''"
    by (simp add: memory_acquire_def new_memory_store_def)
  have run: "list_all (\<lambda>e. snd e < 5 + 30) sample_locks" by (simp add: sample_locks_def)
  have "\<not> list_ex (\<lambda>e. releases_lock id ''c'' ''k'' (fst e)) sample_locks" by (simp add: sample_locks_def)
  with refresh_lock_exclusive [OF run, where c = "''c''" and k = "''k''"] first
  show "count_steps memory_step (\<lambda>x s t. \<exists>k' ttl. memory_acquires ''c'' k' ttl x s t)
       (snd (memory_acquire ''c'' 30 ''k'' 5 new_memory_store)) sample_locks = 0" by blast
qed

end
