(* ===== verification/Credential_Keys.thy ===== *)
theory Credential_Keys
  imports Go_Json
begin

text \<open>
  How credentials are kept: the keyring of \<open>internal/crypto/keyring.go\<close>, the box of \<open>secretbox.go\<close>, and the
  bundles of OAuth tokens of \<open>internal/connections/auth.go\<close> with their JSON. SHA-256, HMAC, AES-GCM, base64
  and hexadecimal are parameters; \<open>crypto_ok\<close> is what is documented of them. A nonce is an argument, a
  random source that fails is not modelled. A Go map of configured keys is the list of its entries
  in the order the loop visits them.
\<close>

section \<open>Cryptography\<close>

record crypto =
  cx_sha :: "string \<Rightarrow> string"
  cx_hmac :: "string \<Rightarrow> string \<Rightarrow> string"
  cx_seal :: "string \<Rightarrow> string \<Rightarrow> string \<Rightarrow> string \<Rightarrow> string"
  cx_open :: "string \<Rightarrow> string \<Rightarrow> string \<Rightarrow> string \<Rightarrow> string option"
  cx_b64 :: "string \<Rightarrow> string"
  cx_unb64 :: "string \<Rightarrow> string option"
  cx_hex :: "string \<Rightarrow> string"

text \<open>Opening takes the key, nonce and additional data of the sealing and no other data.\<close>

definition crypto_ok :: "crypto \<Rightarrow> bool" where
  "crypto_ok x = ((\<forall>v. cx_unb64 x (cx_b64 x v) = Some v)
     \<and> (\<forall>k n p a a'. cx_open x k n (cx_seal x k n p a) a' = (if a' = a then Some p else None)))"

text \<open>\<open>MaskSecret\<close> slices bytes.\<close>

definition last_bytes :: "string \<Rightarrow> nat \<Rightarrow> string" where
  "last_bytes v n = (if length v \<le> n then v else drop (length v - n) v)"

definition mask_secret :: "string \<Rightarrow> string" where
  "mask_secret s = (let t = trim_space s in
     if length t \<le> 10 then ''****'' @ last_bytes t 4 else take (min 6 (length t)) t @ ''****'' @ last_bytes t 4)"

section \<open>The keyring\<close>

record keyring_config =
  kc_active_encryption :: string
  kc_encryption :: "(string \<times> string) list"
  kc_active_fingerprint :: string
  kc_fingerprint :: "(string \<times> string) list"

record keyring =
  kr_active_encryption :: string
  kr_encryption :: "string \<rightharpoonup> string"
  kr_active_fingerprint :: string
  kr_fingerprint :: "string \<rightharpoonup> string"

record envelope =
  en_ciphertext :: string
  en_nonce :: string
  en_encryption_key :: string
  en_fingerprint :: string
  en_fingerprint_key :: string
  en_mask :: string
  en_algorithm :: string

definition err_key_short :: "string \<Rightarrow> err" where
  "err_key_short kind = ErrNamed (''credential '' @ kind @ '' key must be at least 32 bytes'')"

fun derive_keys :: "(string \<Rightarrow> string) \<Rightarrow> string \<Rightarrow> string set \<Rightarrow> (string \<times> string) list \<Rightarrow> (string \<rightharpoonup> string) \<Rightarrow> (string \<rightharpoonup> string) res" where
  "derive_keys sha kind used [] m = Inr m"
| "derive_keys sha kind used ((kid, secret) # ks) m =
     (if trim_space kid = [] \<or> length (trim_space secret) < 32 then Inl (err_key_short kind)
      else if sha secret \<in> used then Inl (ErrNamed ''credential encryption and fingerprint keys must use different secret material'')
      else derive_keys sha kind used ks (m(trim_space kid \<mapsto> sha secret)))"

definition new_keyring :: "crypto \<Rightarrow> keyring_config \<Rightarrow> keyring res" where
  "new_keyring x cfg =
     (let active = trim_space (kc_active_encryption cfg); fingerprint = trim_space (kc_active_fingerprint cfg) in
      if active = [] \<or> fingerprint = [] then Inl (ErrNamed ''active credential key ids are required'')
      else case derive_keys (cx_sha x) ''encryption'' {} (kc_encryption cfg) Map.empty of
        Inl e \<Rightarrow> Inl e
      | Inr enc \<Rightarrow>
          if enc active = None then Inl (ErrNamed ''active credential encryption key is unavailable'')
          else case derive_keys (cx_sha x) ''fingerprint'' ((\<lambda>e. cx_sha x (snd e)) ` set (kc_encryption cfg)) (kc_fingerprint cfg) Map.empty of
            Inl e \<Rightarrow> Inl e
          | Inr fp \<Rightarrow>
              if fp fingerprint = None \<or> fp fingerprint = Some [] then Inl (ErrNamed ''active credential fingerprint key is unavailable'')
              else Inr \<lparr>kr_active_encryption = active, kr_encryption = enc, kr_active_fingerprint = fingerprint, kr_fingerprint = fp\<rparr>)"

definition credential_context :: "string \<Rightarrow> string \<Rightarrow> string" where
  "credential_context owner provider = trim_space owner @ [CHR 0x00] @ to_lower (trim_space provider)"

text \<open>A keyring always has its active keys: \<open>new_keyring_keys\<close> in the theory of its properties.\<close>

definition encrypt_with_fingerprint ::
  "crypto \<Rightarrow> keyring \<Rightarrow> string \<Rightarrow> string \<Rightarrow> string \<Rightarrow> string \<Rightarrow> string \<Rightarrow> envelope res"
where
  "encrypt_with_fingerprint x kr owner provider plain0 source0 nonce =
     (let plain = trim_space plain0; source = trim_space source0; context = credential_context owner provider in
      if plain = [] then Inl (ErrNamed ''credential is required'')
      else if source = [] then Inl (ErrNamed ''credential fingerprint source is required'')
      else case (kr_encryption kr (kr_active_encryption kr), kr_fingerprint kr (kr_active_fingerprint kr)) of
        (Some key, Some fp) \<Rightarrow>
          Inr \<lparr>en_ciphertext = cx_b64 x (cx_seal x key nonce plain context), en_nonce = cx_b64 x nonce,
            en_encryption_key = kr_active_encryption kr,
            en_fingerprint = take 24 (cx_hex x (cx_hmac x fp (context @ [CHR 0x00] @ source))),
            en_fingerprint_key = kr_active_fingerprint kr, en_mask = mask_secret plain, en_algorithm = ''aes-256-gcm''\<rparr>
      | _ \<Rightarrow> Inl (ErrPanic ''nil AEAD''))"

definition encrypt_credential :: "crypto \<Rightarrow> keyring \<Rightarrow> string \<Rightarrow> string \<Rightarrow> string \<Rightarrow> string \<Rightarrow> envelope res" where
  "encrypt_credential x kr owner provider plain nonce = encrypt_with_fingerprint x kr owner provider plain plain nonce"

definition err_undecodable :: err where "err_undecodable = ErrNamed ''illegal base64 data''"
definition err_unopened :: err where "err_unopened = ErrNamed ''cipher: message authentication failed''"

definition decrypt_credential :: "crypto \<Rightarrow> keyring \<Rightarrow> string \<Rightarrow> string \<Rightarrow> envelope \<Rightarrow> string res" where
  "decrypt_credential x kr owner provider env =
     (case kr_encryption kr (trim_space (en_encryption_key env)) of
        None \<Rightarrow> Inl (ErrNamed ''credential encryption key is unavailable'')
      | Some key \<Rightarrow>
          (case (cx_unb64 x (en_ciphertext env), cx_unb64 x (en_nonce env)) of
             (Some c, Some n) \<Rightarrow>
               (case cx_open x key n c (credential_context owner provider) of
                  None \<Rightarrow> Inl err_unopened
                | Some plain \<Rightarrow> Inr plain)
           | _ \<Rightarrow> Inl err_undecodable))"

section \<open>The box\<close>

definition new_secret_box :: "crypto \<Rightarrow> string \<Rightarrow> string res" where
  "new_secret_box x master =
     (if length (trim_space master) < 32 then Inl (ErrNamed ''master key must be at least 32 bytes'') else Inr (cx_sha x master))"

record sealed_secret =
  ss_ciphertext :: string
  ss_nonce :: string
  ss_fingerprint :: string
  ss_mask :: string

definition box_encrypt :: "crypto \<Rightarrow> string \<Rightarrow> string \<Rightarrow> string \<Rightarrow> sealed_secret res" where
  "box_encrypt x key plain0 nonce =
     (let plain = trim_space plain0 in
      if plain = [] then Inl (ErrNamed ''secret is required'')
      else Inr \<lparr>ss_ciphertext = cx_b64 x (cx_seal x key nonce plain []), ss_nonce = cx_b64 x nonce,
             ss_fingerprint = take 16 (cx_hex x (cx_sha x plain)), ss_mask = mask_secret plain\<rparr>)"

definition box_decrypt :: "crypto \<Rightarrow> string \<Rightarrow> string \<Rightarrow> string \<Rightarrow> string res" where
  "box_decrypt x key ciphertext nonce =
     (case (cx_unb64 x ciphertext, cx_unb64 x nonce) of
        (Some c, Some n) \<Rightarrow> (case cx_open x key n c [] of None \<Rightarrow> Inl err_unopened | Some plain \<Rightarrow> Inr plain)
      | _ \<Rightarrow> Inl err_undecodable)"

section \<open>Credential bundles\<close>

record token_bundle =
  cb_schema :: string
  cb_access :: string
  cb_refresh :: string
  cb_id_token :: string
  cb_token_type :: string
  cb_scopes :: "string list"
  cb_expires :: time
  cb_subject :: string
  cb_account :: string
  cb_project :: string

definition zero_bundle :: token_bundle where
  "zero_bundle = \<lparr>cb_schema = [], cb_access = [], cb_refresh = [], cb_id_token = [], cb_token_type = [], cb_scopes = [],
     cb_expires = 0, cb_subject = [], cb_account = [], cb_project = []\<rparr>"

definition bundle_schema :: string where "bundle_schema = ''oauth_bundle_v1''"

text \<open>The JSON text of a value and the one value of a text, and instants as texts: \<open>encoding/json\<close>.\<close>

record json_text =
  jt_print :: "json \<Rightarrow> string"
  jt_parse :: "string \<Rightarrow> json option"
  jt_time :: "time \<Rightarrow> string"
  jt_time_of :: "string \<Rightarrow> time option"

definition unless_empty :: "string \<Rightarrow> string \<Rightarrow> obj" where
  "unless_empty k v = (if v = [] then [] else [(k, JStr v)])"

definition bundle_json :: "json_text \<Rightarrow> token_bundle \<Rightarrow> obj" where
  "bundle_json j b = [(''schema'', JStr (cb_schema b)), (''accessToken'', JStr (cb_access b))]
     @ unless_empty ''refreshToken'' (cb_refresh b) @ unless_empty ''idToken'' (cb_id_token b)
     @ [(''tokenType'', JStr (cb_token_type b))]
     @ (if cb_scopes b = [] then [] else [(''scopes'', JArr (map JStr (cb_scopes b)))])
     @ [(''expiresAt'', JStr (jt_time j (cb_expires b))), (''providerSubject'', JStr (cb_subject b))]
     @ unless_empty ''accountId'' (cb_account b) @ unless_empty ''projectId'' (cb_project b)"

definition err_incomplete :: err where "err_incomplete = ErrNamed ''credential token_bundle is incomplete''"
definition err_schema :: err where "err_schema = ErrNamed ''unsupported credential token_bundle schema''"
definition err_bundle :: err where "err_bundle = ErrNamed ''invalid credential token_bundle''"

definition marshal_bundle :: "json_text \<Rightarrow> token_bundle \<Rightarrow> string res" where
  "marshal_bundle j b0 =
     (let b = (if trim_space (cb_schema b0) = [] then b0\<lparr>cb_schema := bundle_schema\<rparr> else b0) in
      if cb_schema b \<noteq> bundle_schema then Inl err_schema
      else if trim_space (cb_access b) = [] \<or> trim_space (cb_subject b) = [] then Inl err_incomplete
      else Inr (jt_print j (JObj (bundle_json j b))))"

text \<open>Decoding into the struct: fields match whatever their letter case, \<open>null\<close> leaves a field as it is, and
  unknown fields are errors.\<close>

definition read_string :: "(string \<Rightarrow> token_bundle) \<Rightarrow> token_bundle \<Rightarrow> json \<Rightarrow> token_bundle res" where
  "read_string set_to b v = (case v of JStr s \<Rightarrow> Inr (set_to s) | JNull \<Rightarrow> Inr b | _ \<Rightarrow> Inl err_bundle)"

fun scope_list :: "json list \<Rightarrow> string list option" where
  "scope_list [] = Some []"
| "scope_list (JStr s # vs) = map_option (Cons s) (scope_list vs)"
| "scope_list (JNull # vs) = map_option (Cons []) (scope_list vs)"
| "scope_list (_ # vs) = None"

definition read_scopes :: "token_bundle \<Rightarrow> json \<Rightarrow> token_bundle res" where
  "read_scopes b v = (case v of
      JArr vs \<Rightarrow> (case scope_list vs of None \<Rightarrow> Inl err_bundle | Some ss \<Rightarrow> Inr (b\<lparr>cb_scopes := ss\<rparr>))
    | JNull \<Rightarrow> Inr (b\<lparr>cb_scopes := []\<rparr>)
    | _ \<Rightarrow> Inl err_bundle)"

definition read_expiry :: "json_text \<Rightarrow> token_bundle \<Rightarrow> json \<Rightarrow> token_bundle res" where
  "read_expiry j b v = (case v of
      JStr s \<Rightarrow> (case jt_time_of j s of None \<Rightarrow> Inl err_bundle | Some t \<Rightarrow> Inr (b\<lparr>cb_expires := t\<rparr>))
    | JNull \<Rightarrow> Inr b
    | _ \<Rightarrow> Inl err_bundle)"

definition read_field :: "json_text \<Rightarrow> string \<Rightarrow> json \<Rightarrow> token_bundle \<Rightarrow> token_bundle res" where
  "read_field j k v b =
     (if equal_fold k ''schema'' then read_string (\<lambda>s. b\<lparr>cb_schema := s\<rparr>) b v
      else if equal_fold k ''accessToken'' then read_string (\<lambda>s. b\<lparr>cb_access := s\<rparr>) b v
      else if equal_fold k ''refreshToken'' then read_string (\<lambda>s. b\<lparr>cb_refresh := s\<rparr>) b v
      else if equal_fold k ''idToken'' then read_string (\<lambda>s. b\<lparr>cb_id_token := s\<rparr>) b v
      else if equal_fold k ''tokenType'' then read_string (\<lambda>s. b\<lparr>cb_token_type := s\<rparr>) b v
      else if equal_fold k ''scopes'' then read_scopes b v
      else if equal_fold k ''expiresAt'' then read_expiry j b v
      else if equal_fold k ''providerSubject'' then read_string (\<lambda>s. b\<lparr>cb_subject := s\<rparr>) b v
      else if equal_fold k ''accountId'' then read_string (\<lambda>s. b\<lparr>cb_account := s\<rparr>) b v
      else if equal_fold k ''projectId'' then read_string (\<lambda>s. b\<lparr>cb_project := s\<rparr>) b v
      else Inl err_bundle)"

fun read_fields :: "json_text \<Rightarrow> obj \<Rightarrow> token_bundle \<Rightarrow> token_bundle res" where
  "read_fields j [] b = Inr b"
| "read_fields j ((k, v) # m) b = (case read_field j k v b of Inl e \<Rightarrow> Inl e | Inr b' \<Rightarrow> read_fields j m b')"

definition decode_bundle :: "json_text \<Rightarrow> json \<Rightarrow> token_bundle res" where
  "decode_bundle j v = (case v of JObj m \<Rightarrow> read_fields j m zero_bundle | JNull \<Rightarrow> Inr zero_bundle | _ \<Rightarrow> Inl err_bundle)"

definition parse_bundle :: "json_text \<Rightarrow> string \<Rightarrow> token_bundle res" where
  "parse_bundle j raw =
     (case jt_parse j raw of
        None \<Rightarrow> Inl err_bundle
      | Some v \<Rightarrow>
          (case decode_bundle j v of
             Inl e \<Rightarrow> Inl e
           | Inr b \<Rightarrow>
               if cb_schema b \<noteq> bundle_schema then Inl err_schema
               else if trim_space (cb_access b) = [] \<or> trim_space (cb_subject b) = [] then Inl err_incomplete
               else Inr b))"

definition same_credential_identity :: "token_bundle \<Rightarrow> token_bundle \<Rightarrow> bool" where
  "same_credential_identity current new =
     (let subject = trim_space (cb_subject current); account = trim_space (cb_account current);
          subject' = trim_space (cb_subject new); account' = trim_space (cb_account new) in
      if subject = [] \<or> subject' = [] \<or> subject \<noteq> subject' then False
      else if account \<noteq> [] \<or> account' \<noteq> [] then account \<noteq> [] \<and> account = account'
      else True)"

end
