(* ===== verification/Gateway_Auth.thy ===== *)
theory Gateway_Auth
  imports Connection_Store Credential_Keys Gateway_Serve
begin

text \<open>
  Credentials at run time: the credential of a channel (\<open>GatewayChannelCredential\<close> of
  \<open>store/gateway.go\<close>), what the gateway sends upstream and how it renews an OAuth bundle
  (\<open>api/gateway_handlers.go\<close>), and the background refreshes of
  \<open>events/credential_refresh_runtime.go\<close>. The adapters of the providers are a parameter, as is the store of
  the refresh locks (\<open>Auth_Session\<close>); an error that wraps another is that other. An operation that waits
  for a lock is given the databases its polls read; one that stores a new bundle is given the
  database of that moment, which may be later than the one its credential was read from.
\<close>

section \<open>The credential of a channel\<close>

record channel_credential =
  cd_channel :: string
  cd_connection :: string
  cd_owner :: string
  cd_provider :: string
  cd_envelope :: envelope
  cd_method :: string
  cd_auth_status :: string
  cd_type :: string
  cd_format :: string
  cd_subject :: string
  cd_expires :: "time option"
  cd_version :: int

definition own_credential :: "connection_db \<Rightarrow> channel \<Rightarrow> channel_secret option" where
  "own_credential db c = List.find (\<lambda>s. cs_channel s = ch_id c) (kdb_channel_secrets db)"

definition joined_connection :: "connection_db \<Rightarrow> channel \<Rightarrow> ai_connection option" where
  "joined_connection db c = List.find (\<lambda>a. ch_connection c = Some (ac_id a)) (kdb_connections db)"

definition joined_secret :: "connection_db \<Rightarrow> channel \<Rightarrow> conn_secret option" where
  "joined_secret db c = (case joined_connection db c of None \<Rightarrow> None
     | Some a \<Rightarrow> List.find (\<lambda>s. sx_connection s = ac_id a) (kdb_secrets db))"

definition joined_model :: "connection_db \<Rightarrow> channel \<Rightarrow> conn_model option" where
  "joined_model db c = (case joined_connection db c of None \<Rightarrow> None
     | Some a \<Rightarrow> List.find (\<lambda>m. ch_connection_model c = Some (cm_id m) \<and> cm_connection m = ac_id a) (kdb_models db))"

text \<open>The branch of a channel without a credential of its own.\<close>

definition connection_serves :: "string \<Rightarrow> connection_db \<Rightarrow> channel \<Rightarrow> bool" where
  "connection_serves org db c =
     (case (joined_connection db c, joined_model db c) of
        (Some a, Some m) \<Rightarrow> ch_owner_id c = Some (ac_owner a) \<and> ac_org a = org \<and> ac_status a \<in> {''active'', ''attention''}
          \<and> ac_auth_status a \<in> {''active'', ''refreshing'', ''attention''} \<and> ac_deleted a = None
          \<and> cm_enabled m \<and> cm_verification m = ''verified'' \<and> ac_owner a \<in> set (active_users (kdb_accounts db))
          \<and> (ac_org a, ac_owner a) \<in> set (active_members (kdb_accounts db))
      | _ \<Rightarrow> False)"

text \<open>\<open>gatewayRuntimePlatformCredentialPredicate\<close>; \<open>vips\<close> are the active users with the plan \<open>super_vip\<close>.\<close>

definition platform_granted :: "string list \<Rightarrow> string \<Rightarrow> channel \<Rightarrow> bool" where
  "platform_granted vips org c = (ch_owner_type c = ''platform'' \<and> ch_gateway_enabled c
     \<and> (org = default_org_id \<or> list_ex (\<lambda>u. org = ''org_'' @ u) vips))"

definition owner_org :: "channel \<Rightarrow> string" where
  "owner_org c = (case ch_org c of Some o' \<Rightarrow> o'
     | None \<Rightarrow> ''org_'' @ (case ch_owner_id c of Some u \<Rightarrow> u | None \<Rightarrow> []))"

definition private_granted :: "string \<Rightarrow> channel \<Rightarrow> bool" where
  "private_granted org c = (ch_owner_type c = ''user'' \<and> ch_gateway_enabled c \<and> owner_org c = org)"

definition credential_row :: "string list \<Rightarrow> string \<Rightarrow> string \<Rightarrow> connection_db \<Rightarrow> channel \<Rightarrow> bool" where
  "credential_row vips org ch db c = (ch_id c = ch \<and> ch_status c \<notin> {''disabled'', ''deleted''} \<and> ch_deleted_at c = None
     \<and> (own_credential db c \<noteq> None \<or> connection_serves org db c)
     \<and> (platform_granted vips org c \<or> private_granted org c))"

definition coalesce :: "'a option \<Rightarrow> ('a \<Rightarrow> 'b) \<Rightarrow> 'b \<Rightarrow> 'b" where
  "coalesce x f d = (case x of Some v \<Rightarrow> f v | None \<Rightarrow> d)"

definition scan_credential :: "connection_db \<Rightarrow> channel \<Rightarrow> channel_credential" where
  "scan_credential db c =
     (let own = own_credential db c; a = joined_connection db c; s = joined_secret db c in
      \<lparr>cd_channel = ch_id c, cd_connection = coalesce a ac_id [], cd_owner = coalesce a ac_owner [],
       cd_provider = coalesce a ac_provider [],
       cd_envelope = \<lparr>en_ciphertext = coalesce own cs_ciphertext (coalesce s sx_ciphertext []),
         en_nonce = coalesce own cs_nonce (coalesce s sx_nonce []),
         en_encryption_key = coalesce s sx_encryption_key [],
         en_fingerprint = coalesce own cs_fingerprint (coalesce s sx_fingerprint []),
         en_fingerprint_key = coalesce s sx_fingerprint_key [],
         en_mask = coalesce own cs_mask (coalesce s sx_mask []),
         en_algorithm = coalesce s sx_algorithm ''aes-256-gcm''\<rparr>,
       cd_method = coalesce a ac_auth_method ''api_key'', cd_auth_status = coalesce a ac_auth_status ''active'',
       cd_type = coalesce s sx_type ''api_key'', cd_format = coalesce s sx_format ''opaque'',
       cd_subject = coalesce s sx_subject [], cd_expires = coalesce s sx_expires None, cd_version = coalesce s sx_version 1\<rparr>)"

definition gateway_channel_credential :: "string list \<Rightarrow> string \<Rightarrow> string \<Rightarrow> connection_db \<Rightarrow> channel_credential res" where
  "gateway_channel_credential vips org ch db =
     (case query_row (credential_row vips org ch db) (gdb_channels (kdb_gateways db)) of
        Inl e \<Rightarrow> Inl e
      | Inr c \<Rightarrow> Inr (scan_credential db c))"

section \<open>What is sent upstream\<close>

record adapter =
  ad_refresh :: "token_bundle \<Rightarrow> token_bundle res"
  ad_material :: "token_bundle \<Rightarrow> auth_material res"

definition err_adapter :: err where "err_adapter = ErrNamed ''authorization adapter is disabled''"
definition err_reauth :: err where "err_reauth = ErrNamed ''credential requires reauthorization''"
definition err_busy :: err where "err_busy = ErrNamed ''OAuth refresh is still in progress''"

record 'l auth_env =
  ae_crypto :: crypto
  ae_keyring :: "keyring option"
  ae_box :: "string option"
  ae_json :: json_text
  ae_adapter :: "string \<Rightarrow> string \<Rightarrow> adapter option"
  ae_acquire :: "(string \<Rightarrow> duration \<Rightarrow> time \<Rightarrow> 'l \<Rightarrow> string option res \<times> 'l) option"
  ae_release :: "string \<Rightarrow> string \<Rightarrow> time \<Rightarrow> 'l \<Rightarrow> 'l"
  ae_skew :: duration
  ae_nonce :: string
  ae_vips :: "string list"
  ae_polls :: "connection_db list"
  ae_now :: time

definition resolve_material :: "adapter \<Rightarrow> token_bundle \<Rightarrow> credential res" where
  "resolve_material ad b = (case ad_material ad b of Inl e \<Rightarrow> Inl e | Inr m \<Rightarrow> Inr (CMaterial m))"

definition adapted_material :: "'l auth_env \<Rightarrow> channel_credential \<Rightarrow> token_bundle \<Rightarrow> credential res" where
  "adapted_material ae cred b =
     (case ae_adapter ae (cd_provider cred) (cd_method cred) of
        None \<Rightarrow> Inl err_adapter
      | Some ad \<Rightarrow> resolve_material ad b)"

definition stored_bundle :: "'l auth_env \<Rightarrow> keyring \<Rightarrow> channel_credential \<Rightarrow> token_bundle res" where
  "stored_bundle ae kr cred =
     (case decrypt_credential (ae_crypto ae) kr (cd_owner cred) (cd_provider cred) (cd_envelope cred) of
        Inl e \<Rightarrow> Inl e
      | Inr plain \<Rightarrow> parse_bundle (ae_json ae) plain)"

definition resolve_oauth_record :: "'l auth_env \<Rightarrow> keyring \<Rightarrow> channel_credential \<Rightarrow> credential res" where
  "resolve_oauth_record ae kr cred =
     (case stored_bundle ae kr cred of
        Inl e \<Rightarrow> Inl e
      | Inr b \<Rightarrow> adapted_material ae cred b)"

fun await_refresh :: "'l auth_env \<Rightarrow> keyring \<Rightarrow> string \<Rightarrow> channel_credential \<Rightarrow> connection_db list \<Rightarrow> credential res" where
  "await_refresh ae kr org cred [] = Inl err_busy"
| "await_refresh ae kr org cred (db # dbs) =
     (case gateway_channel_credential (ae_vips ae) org (cd_channel cred) db of
        Inl _ \<Rightarrow> await_refresh ae kr org cred dbs
      | Inr current \<Rightarrow>
          if cd_version current = cd_version cred then await_refresh ae kr org cred dbs
          else resolve_oauth_record ae kr current)"

definition fingerprint_source :: "string \<Rightarrow> token_bundle \<Rightarrow> string" where
  "fingerprint_source method b = method @ [CHR 0x00] @ cb_subject b @ [CHR 0x00] @ cb_account b"

definition refreshed_row :: "envelope \<Rightarrow> string \<Rightarrow> token_bundle \<Rightarrow> time \<Rightarrow> conn_secret" where
  "refreshed_row en masked b next =
     \<lparr>sx_connection = [], sx_ciphertext = en_ciphertext en, sx_nonce = en_nonce en, sx_mask = masked,
      sx_fingerprint = en_fingerprint en, sx_encryption_key = en_encryption_key en,
      sx_fingerprint_key = en_fingerprint_key en, sx_algorithm = en_algorithm en, sx_version = 0, sx_type = [], sx_format = [],
      sx_subject = en_fingerprint en, sx_expires = Some (cb_expires b), sx_next_refresh = Some next,
      sx_last_refreshed = None, sx_failures = 0, sx_error_code = []\<rparr>"

definition at_least_a_minute :: "time \<Rightarrow> time \<Rightarrow> time" where
  "at_least_a_minute t now = (if t < now + minute then now + minute else t)"

text \<open>Marshalling and encrypting a refreshed bundle.\<close>

definition sealed_bundle :: "'l auth_env \<Rightarrow> keyring \<Rightarrow> string \<Rightarrow> string \<Rightarrow> string \<Rightarrow> token_bundle \<Rightarrow> envelope res" where
  "sealed_bundle ae kr owner provider method b =
     (case marshal_bundle (ae_json ae) b of
        Inl e \<Rightarrow> Inl e
      | Inr raw \<Rightarrow> encrypt_with_fingerprint (ae_crypto ae) kr owner provider raw (fingerprint_source method b) (ae_nonce ae))"

text \<open>\<open>refreshGatewayOAuthBundle\<close> while it holds the lock.\<close>

definition refresh_held ::
  "'l auth_env \<Rightarrow> keyring \<Rightarrow> string \<Rightarrow> channel_credential \<Rightarrow> token_bundle \<Rightarrow> connection_db \<Rightarrow> credential res \<times> connection_db"
where
  "refresh_held ae kr org cred b db =
     (case ae_adapter ae (cd_provider cred) (cd_method cred) of
        None \<Rightarrow> (Inl err_adapter, db)
      | Some ad \<Rightarrow>
          (case ad_refresh ad b of
             Inl e \<Rightarrow>
               (Inl e, snd (mark_oauth_failure (cd_connection cred) (cd_version cred) (e = err_reauth)
                  (if e = err_reauth then ''invalid_grant'' else ''refresh_temporary'') (ae_now ae + minute) (ae_now ae) db))
           | Inr new \<Rightarrow>
               (case sealed_bundle ae kr (cd_owner cred) (cd_provider cred) (cd_method cred) new of
                  Inl e \<Rightarrow> (Inl e, db)
                | Inr en \<Rightarrow>
                    (case update_oauth_secret (cd_connection cred) (cd_version cred)
                        (refreshed_row en (en_mask (cd_envelope cred)) new (at_least_a_minute (cb_expires new - ae_skew ae) (ae_now ae)))
                        (ae_now ae) db of
                       (Inr _, db') \<Rightarrow> (resolve_material ad new, db')
                     | (Inl e, db') \<Rightarrow>
                         if e \<noteq> ErrNoRows then (Inl e, db')
                         else (case gateway_channel_credential (ae_vips ae) org (cd_channel cred) db' of
                             Inl e' \<Rightarrow> (Inl e', db')
                           | Inr current \<Rightarrow> (resolve_oauth_record ae kr current, db'))))))"

definition refresh_gateway_bundle ::
  "'l auth_env \<Rightarrow> keyring \<Rightarrow> string \<Rightarrow> channel_credential \<Rightarrow> token_bundle \<Rightarrow> connection_db \<times> 'l \<Rightarrow> credential res \<times> (connection_db \<times> 'l)"
where
  "refresh_gateway_bundle ae kr org cred b dl =
     (case ae_acquire ae of
        None \<Rightarrow> (Inl (ErrNamed ''OAuth refresh coordination is unavailable''), dl)
      | Some acquire \<Rightarrow>
          (case acquire (cd_connection cred) (30 * second) (ae_now ae) (snd dl) of
             (Inl e, l) \<Rightarrow> (Inl e, (fst dl, l))
           | (Inr None, l) \<Rightarrow> (await_refresh ae kr org cred (ae_polls ae), (fst dl, l))
           | (Inr (Some token), l) \<Rightarrow>
               (case refresh_held ae kr org cred b (fst dl) of
                  (r, db') \<Rightarrow> (r, (db', ae_release ae (cd_connection cred) token (ae_now ae) l)))))"

definition gateway_upstream_authorization ::
  "'l auth_env \<Rightarrow> string \<Rightarrow> string \<Rightarrow> connection_db \<Rightarrow> connection_db \<times> 'l \<Rightarrow> credential res \<times> (connection_db \<times> 'l)"
where
  "gateway_upstream_authorization ae org ch read dl =
     (case gateway_channel_credential (ae_vips ae) org ch read of
        Inl e \<Rightarrow> (Inl e, dl)
      | Inr cred \<Rightarrow>
          if cd_connection cred \<noteq> [] then
            (case ae_keyring ae of
               None \<Rightarrow> (Inl (ErrNamed ''credential keyring is unavailable''), dl)
             | Some kr \<Rightarrow>
                 (case decrypt_credential (ae_crypto ae) kr (cd_owner cred) (cd_provider cred) (cd_envelope cred) of
                    Inl e \<Rightarrow> (Inl e, dl)
                  | Inr plain \<Rightarrow>
                      if cd_type cred = ''browser_connector''
                      then (Inl (ErrNamed ''browser connector credential requires local task routing''), dl)
                      else if cd_type cred = ''client_connector''
                      then (Inl (ErrNamed ''official client connector requires local task routing''), dl)
                      else if cd_type cred \<noteq> ''oauth_bundle'' then (Inr (CKey plain), dl)
                      else if cd_auth_status cred \<in> {''reauth_required'', ''disabled'', ''deleted''}
                      then (Inl (ErrNamed ''connection authorization is inactive''), dl)
                      else (case parse_bundle (ae_json ae) plain of
                          Inl e \<Rightarrow> (Inl e, dl)
                        | Inr b \<Rightarrow>
                            if cb_expires b \<noteq> 0 \<and> \<not> cb_expires b > ae_now ae + ae_skew ae
                            then refresh_gateway_bundle ae kr org cred b dl
                            else (adapted_material ae cred b, dl))))
          else (case ae_box ae of
              None \<Rightarrow> (Inl (ErrNamed ''encryption is unavailable''), dl)
            | Some key \<Rightarrow>
                (case box_decrypt (ae_crypto ae) key (en_ciphertext (cd_envelope cred)) (en_nonce (cd_envelope cred)) of
                   Inl e \<Rightarrow> (Inl e, dl)
                 | Inr plain \<Rightarrow> (Inr (CKey plain), dl))))"

definition refresh_upstream_authorization ::
  "'l auth_env \<Rightarrow> bool \<Rightarrow> string \<Rightarrow> string \<Rightarrow> connection_db \<Rightarrow> connection_db \<times> 'l \<Rightarrow> credential res \<times> (connection_db \<times> 'l)"
where
  "refresh_upstream_authorization ae force org ch read dl =
     (case gateway_channel_credential (ae_vips ae) org ch read of
        Inl e \<Rightarrow> (Inl e, dl)
      | Inr cred \<Rightarrow>
          if cd_connection cred = [] \<or> cd_type cred \<noteq> ''oauth_bundle'' then (Inl (ErrNamed ''upstream does not use OAuth''), dl)
          else (case ae_keyring ae of
              None \<Rightarrow> (Inl (ErrNamed ''credential keyring is unavailable''), dl)
            | Some kr \<Rightarrow>
                (case stored_bundle ae kr cred of
                   Inl e \<Rightarrow> (Inl e, dl)
                 | Inr b \<Rightarrow>
                     if \<not> force \<and> cb_expires b > ae_now ae + ae_skew ae then (adapted_material ae cred b, dl)
                     else refresh_gateway_bundle ae kr org cred b dl)))"

text \<open>The two as the gateway uses them while nothing else writes: the credentials of \<open>Gateway_Serve\<close>.\<close>

definition as_credential :: "credential res \<times> 's \<Rightarrow> credential option \<times> 's" where
  "as_credential r = (case fst r of Inl _ \<Rightarrow> None | Inr c \<Rightarrow> Some c, snd r)"

definition gateway_resolve :: "'l auth_env \<Rightarrow> connection_db \<times> 'l \<Rightarrow> string \<Rightarrow> gateway_upstream \<Rightarrow> credential option \<times> (connection_db \<times> 'l)" where
  "gateway_resolve ae dl org u = as_credential (gateway_upstream_authorization ae org (gu_channel u) (fst dl) dl)"

definition gateway_renew :: "'l auth_env \<Rightarrow> connection_db \<times> 'l \<Rightarrow> string \<Rightarrow> gateway_upstream \<Rightarrow> credential option \<times> (connection_db \<times> 'l)" where
  "gateway_renew ae dl org u = as_credential (refresh_upstream_authorization ae True org (gu_channel u) (fst dl) dl)"

section \<open>Refreshing in the background\<close>

record refresh_config =
  rc_workers :: int
  rc_concurrency :: int
  rc_qps :: int
  rc_timeout :: duration
  rc_skew :: duration
  rc_interval :: duration

definition refresh_defaults :: "refresh_config \<Rightarrow> refresh_config" where
  "refresh_defaults c =
     \<lparr>rc_workers = (if rc_workers c \<le> 0 \<or> rc_workers c > 64 then 8 else rc_workers c),
      rc_concurrency = (if rc_concurrency c \<le> 0 \<or> rc_concurrency c > 32 then 4 else rc_concurrency c),
      rc_qps = (if rc_qps c \<le> 0 \<or> rc_qps c > 100 then 2 else rc_qps c),
      rc_timeout = (if rc_timeout c < 5 * second \<or> rc_timeout c > 2 * minute then 20 * second else rc_timeout c),
      rc_skew = (if rc_skew c \<le> 0 then 5 * minute else rc_skew c),
      rc_interval = (if rc_interval c \<le> 0 then minute else rc_interval c)\<rparr>"

definition refresh_backoff :: "int \<Rightarrow> duration" where
  "refresh_backoff failures =
     (if failures = 1 then minute else if failures = 2 then 5 * minute else if failures = 3 then 15 * minute else hour)"

definition classify_refresh_error :: "err \<Rightarrow> string \<times> bool" where
  "classify_refresh_error e =
     (if e = err_reauth then (''invalid_grant'', True)
      else if e = err_adapter then (''adapter_disabled'', False)
      else (''refresh_temporary'', False))"

definition refresh_jitter :: "crypto \<Rightarrow> string \<Rightarrow> int \<Rightarrow> duration" where
  "refresh_jitter x cid version =
     (case cx_sha x (cid @ [CHR 0x00] @ itoa version) of [] \<Rightarrow> 0 | b # _ \<Rightarrow> (of_char b mod 61) * second)"

text \<open>\<open>recordFailure\<close>, in a context that is alive or only past its deadline.\<close>

definition record_refresh_failure :: "ai_connection \<times> conn_secret \<Rightarrow> err \<Rightarrow> time \<Rightarrow> connection_db \<Rightarrow> err \<times> connection_db" where
  "record_refresh_failure cand e now db =
     (case classify_refresh_error e of
        (code, reauth) \<Rightarrow>
          (case mark_oauth_failure (ac_id (fst cand)) (sx_version (snd cand)) reauth code
              (now + refresh_backoff (sx_failures (snd cand) + 1)) now db of
             (Inr _, db') \<Rightarrow> (e, db')
           | (Inl e', db') \<Rightarrow> (if e' = ErrNoRows then e else e', db')))"

definition secret_envelope :: "conn_secret \<Rightarrow> envelope" where
  "secret_envelope s = \<lparr>en_ciphertext = sx_ciphertext s, en_nonce = sx_nonce s, en_encryption_key = sx_encryption_key s,
     en_fingerprint = sx_fingerprint s, en_fingerprint_key = sx_fingerprint_key s, en_mask = sx_mask s,
     en_algorithm = sx_algorithm s\<rparr>"

text \<open>The refreshed bundle of a candidate and its envelope, or the error to record.\<close>

definition refreshed_bundle :: "'l auth_env \<Rightarrow> keyring \<Rightarrow> ai_connection \<times> conn_secret \<Rightarrow> (token_bundle \<times> envelope) res" where
  "refreshed_bundle ae kr cand =
     (let c = fst cand; s = snd cand in
      case decrypt_credential (ae_crypto ae) kr (ac_owner c) (ac_provider c) (secret_envelope s) of
        Inl e \<Rightarrow> Inl e
      | Inr plain \<Rightarrow>
          (case parse_bundle (ae_json ae) plain of
             Inl e \<Rightarrow> Inl e
           | Inr b \<Rightarrow>
               (case ae_adapter ae (ac_provider c) (ac_auth_method c) of
                  None \<Rightarrow> Inl err_adapter
                | Some ad \<Rightarrow>
                    (case ad_refresh ad b of
                       Inl e \<Rightarrow> Inl e
                     | Inr new \<Rightarrow>
                         (case sealed_bundle ae kr (ac_owner c) (ac_provider c) (ac_auth_method c) new of
                            Inl e \<Rightarrow> Inl e
                          | Inr en \<Rightarrow> Inr (new, en))))))"

definition refresh_candidate ::
  "'l auth_env \<Rightarrow> keyring \<Rightarrow> ai_connection \<times> conn_secret \<Rightarrow> connection_db \<Rightarrow> unit res \<times> connection_db"
where
  "refresh_candidate ae kr cand db =
     (case refreshed_bundle ae kr cand of
        Inl e \<Rightarrow> (case record_refresh_failure cand e (ae_now ae) db of (e', db') \<Rightarrow> (Inl e', db'))
      | Inr (new, en) \<Rightarrow>
          (let next = at_least_a_minute (cb_expires new - ae_skew ae
                 - refresh_jitter (ae_crypto ae) (ac_id (fst cand)) (sx_version (snd cand))) (ae_now ae) in
           case update_oauth_secret (ac_id (fst cand)) (sx_version (snd cand))
               (refreshed_row en (sx_mask (snd cand)) new next) (ae_now ae) db of
             (Inl e, db') \<Rightarrow> (if e = ErrNoRows then Inr () else Inl e, db')
           | (Inr _, db') \<Rightarrow> (Inr (), db')))"

text \<open>\<open>refreshOne\<close>: under the lock of the connection, or not at all.\<close>

definition refresh_one ::
  "'l auth_env \<Rightarrow> duration \<Rightarrow> keyring \<Rightarrow> ai_connection \<times> conn_secret \<Rightarrow> connection_db \<times> 'l \<Rightarrow> unit res \<times> (connection_db \<times> 'l)"
where
  "refresh_one ae timeout kr cand dl =
     (case ae_acquire ae of
        None \<Rightarrow> (Inl (ErrNamed ''redis: client is closed''), dl)
      | Some acquire \<Rightarrow>
          (case acquire (ac_id (fst cand)) (timeout + 5 * second) (ae_now ae) (snd dl) of
             (Inl e, l) \<Rightarrow> (Inl e, (fst dl, l))
           | (Inr None, l) \<Rightarrow> (Inr (), (fst dl, l))
           | (Inr (Some token), l) \<Rightarrow>
               (case refresh_candidate ae kr cand (fst dl) of
                  (r, db') \<Rightarrow> (r, (db', ae_release ae (ac_id (fst cand)) token (ae_now ae) l)))))"

section \<open>The gate of a provider\<close>

record provider_gate =
  pg_next :: time
  pg_interval :: duration
  pg_concurrency :: int

definition new_provider_gate :: "int \<Rightarrow> int \<Rightarrow> provider_gate" where
  "new_provider_gate concurrency qps = \<lparr>pg_next = 0, pg_interval = second div (if qps \<le> 0 then 1 else qps),
     pg_concurrency = (if concurrency \<le> 0 then 1 else concurrency)\<rparr>"

definition reserve_rate_slot :: "time \<Rightarrow> provider_gate \<Rightarrow> time \<times> provider_gate" where
  "reserve_rate_slot now g =
     (let slot = (if pg_next g < now then now else pg_next g) in (slot, g\<lparr>pg_next := slot + pg_interval g\<rparr>))"

definition rate_wait :: "time \<Rightarrow> provider_gate \<Rightarrow> duration \<times> provider_gate" where
  "rate_wait now g = (case reserve_rate_slot now g of (slot, g') \<Rightarrow> (max 0 (slot - now), g'))"

definition provider_gate_for ::
  "refresh_config \<Rightarrow> string \<Rightarrow> (string \<rightharpoonup> provider_gate) \<Rightarrow> provider_gate \<times> (string \<rightharpoonup> provider_gate)"
where
  "provider_gate_for c provider gates =
     (let p = to_lower (trim_space provider) in
      case gates p of
        Some g \<Rightarrow> (g, gates)
      | None \<Rightarrow> (let g = new_provider_gate (rc_concurrency c) (rc_qps c) in (g, gates(p \<mapsto> g))))"

end
