(* ===== verification/Runtime_Safety.thy ===== *)
theory Runtime_Safety
  imports Gateway_Auth Relay_Safety
begin

text \<open>
  Properties of the credentials at run time: what is encrypted reads back for its owner only, which
  credential a gateway may use and when it stops, and what concurrent and failing refreshes do.
\<close>

section \<open>Keys\<close>

lemma derive_keys_new:
  "derive_keys sha kind used ks m = Inr m' \<Longrightarrow> m' i = Some v
    \<Longrightarrow> m i = Some v \<or> (trim_space i = i \<and> v \<notin> used \<and> v \<in> (\<lambda>e. sha (snd e)) ` set ks)"
proof (induction ks arbitrary: m)
  case (Cons k ks)
  obtain kid secret where k: "k = (kid, secret)" by (cases k)
  have step: "derive_keys sha kind used ks (m(trim_space kid \<mapsto> sha secret)) = Inr m'" and used: "sha secret \<notin> used"
    using Cons.prems(1) k by (simp_all split: if_splits)
  from Cons.IH [OF step Cons.prems(2)] used show ?case by (auto simp: k split: if_splits)
qed simp

lemma new_keyring_keys:
  assumes "new_keyring x cfg = Inr kr"
  shows "kr_encryption kr (kr_active_encryption kr) \<noteq> None" and "kr_fingerprint kr (kr_active_fingerprint kr) \<noteq> None"
    and "trim_space (kr_active_encryption kr) = kr_active_encryption kr"
    and "kr_encryption kr i = Some k \<Longrightarrow> kr_fingerprint kr i' = Some k' \<Longrightarrow> k \<noteq> k'"
proof -
  obtain enc fp where kr: "derive_keys (cx_sha x) ''encryption'' {} (kc_encryption cfg) Map.empty = Inr enc"
    "derive_keys (cx_sha x) ''fingerprint'' ((\<lambda>e. cx_sha x (snd e)) ` set (kc_encryption cfg)) (kc_fingerprint cfg) Map.empty = Inr fp"
    "kr = \<lparr>kr_active_encryption = trim_space (kc_active_encryption cfg), kr_encryption = enc,
       kr_active_fingerprint = trim_space (kc_active_fingerprint cfg), kr_fingerprint = fp\<rparr>"
    "enc (trim_space (kc_active_encryption cfg)) \<noteq> None" "fp (trim_space (kc_active_fingerprint cfg)) \<noteq> None"
    using assms by (auto simp: new_keyring_def Let_def split: if_splits sum.splits)
  show "kr_encryption kr (kr_active_encryption kr) \<noteq> None" "kr_fingerprint kr (kr_active_fingerprint kr) \<noteq> None"
    "trim_space (kr_active_encryption kr) = kr_active_encryption kr"
    using kr(4,5) by (simp_all add: kr(3))
  show "k \<noteq> k'" if "kr_encryption kr i = Some k" "kr_fingerprint kr i' = Some k'"
  proof -
    have "k \<in> (\<lambda>e. cx_sha x (snd e)) ` set (kc_encryption cfg)" using derive_keys_new [OF kr(1), of i k] that by (simp add: kr(3))
    moreover have "k' \<notin> (\<lambda>e. cx_sha x (snd e)) ` set (kc_encryption cfg)" using derive_keys_new [OF kr(2), of i' k'] that by (simp add: kr(3))
    ultimately show ?thesis by blast
  qed
qed

definition with_schema :: "token_bundle \<Rightarrow> token_bundle" where
  "with_schema b = (if trim_space (cb_schema b) = [] then b\<lparr>cb_schema := bundle_schema\<rparr> else b)"

text \<open>What is documented of \<open>json.Marshal\<close>: its text has no white space around it and reads back.\<close>

definition json_ok :: "json_text \<Rightarrow> token_bundle \<Rightarrow> bool" where
  "json_ok j b = (let v = JObj (bundle_json j (with_schema b)) in
     jt_parse j (jt_print j v) = Some v \<and> trim_space (jt_print j v) = jt_print j v
     \<and> jt_time_of j (jt_time j (cb_expires b)) = Some (cb_expires b))"

lemma scope_list_strings: "scope_list (map JStr ss) = Some ss"
  by (induction ss) auto

lemma read_unless_empty:
  assumes "\<And>s. read_field j k (JStr s) c = Inr (f s)" and "v = [] \<Longrightarrow> f v = c"
  shows "read_fields j (unless_empty k v @ m) c = read_fields j m (f v)"
  using assms by (simp add: unless_empty_def)

lemma lowered_names:
  "to_lower ''schema'' = ''schema''" "to_lower ''accessToken'' = ''accesstoken''" "to_lower ''refreshToken'' = ''refreshtoken''"
  "to_lower ''idToken'' = ''idtoken''" "to_lower ''tokenType'' = ''tokentype''" "to_lower ''scopes'' = ''scopes''"
  "to_lower ''expiresAt'' = ''expiresat''" "to_lower ''providerSubject'' = ''providersubject''"
  "to_lower ''accountId'' = ''accountid''" "to_lower ''projectId'' = ''projectid''"
  by code_simp+

lemma read_own_fields:
  "read_field j ''schema'' (JStr s) b = Inr (b\<lparr>cb_schema := s\<rparr>)"
  "read_field j ''accessToken'' (JStr s) b = Inr (b\<lparr>cb_access := s\<rparr>)"
  "read_field j ''refreshToken'' (JStr s) b = Inr (b\<lparr>cb_refresh := s\<rparr>)"
  "read_field j ''idToken'' (JStr s) b = Inr (b\<lparr>cb_id_token := s\<rparr>)"
  "read_field j ''tokenType'' (JStr s) b = Inr (b\<lparr>cb_token_type := s\<rparr>)"
  "read_field j ''scopes'' (JArr (map JStr ss)) b = Inr (b\<lparr>cb_scopes := ss\<rparr>)"
  "jt_time_of j (jt_time j t) = Some t \<Longrightarrow> read_field j ''expiresAt'' (JStr (jt_time j t)) b = Inr (b\<lparr>cb_expires := t\<rparr>)"
  "read_field j ''providerSubject'' (JStr s) b = Inr (b\<lparr>cb_subject := s\<rparr>)"
  "read_field j ''accountId'' (JStr s) b = Inr (b\<lparr>cb_account := s\<rparr>)"
  "read_field j ''projectId'' (JStr s) b = Inr (b\<lparr>cb_project := s\<rparr>)"
  by (simp_all add: read_field_def read_string_def read_scopes_def read_expiry_def equal_fold_def lowered_names scope_list_strings)

lemma decode_bundle_json:
  assumes "jt_time_of j (jt_time j (cb_expires b)) = Some (cb_expires b)"
  shows "decode_bundle j (JObj (bundle_json j b)) = Inr b"
  using assms by (cases b) (simp add: decode_bundle_def bundle_json_def zero_bundle_def read_own_fields unless_empty_def)

text \<open>C18: A bundle that was sealed for an owner and a provider is read back unchanged by every keyring that
  still has the key, for that owner and provider and for nobody else.\<close>

theorem sealed_bundle_reads_back:
  assumes "crypto_ok (ae_crypto ae)" and "json_ok (ae_json ae) b" and "new_keyring (ae_crypto ae) cfg = Inr kr"
    and "sealed_bundle ae kr owner provider method b = Inr en"
    and "kr_encryption kr' (kr_active_encryption kr) = kr_encryption kr (kr_active_encryption kr)"
  shows "if credential_context owner' provider' = credential_context owner provider
    then \<exists>raw. decrypt_credential (ae_crypto ae) kr' owner' provider' en = Inr raw \<and> parse_bundle (ae_json ae) raw = Inr (with_schema b)
    else decrypt_credential (ae_crypto ae) kr' owner' provider' en = Inl err_unopened"
proof -
  let ?x = "ae_crypto ae" and ?j = "ae_json ae" and ?b = "with_schema b"
  obtain raw where raw: "marshal_bundle ?j b = Inr raw" and en: "encrypt_with_fingerprint ?x kr owner provider raw (fingerprint_source method b) (ae_nonce ae) = Inr en"
    using assms(4) by (auto simp: sealed_bundle_def split: sum.splits)
  have b: "raw = jt_print ?j (JObj (bundle_json ?j ?b))" "cb_schema ?b = bundle_schema" "trim_space (cb_access ?b) \<noteq> []" "trim_space (cb_subject ?b) \<noteq> []"
    using raw by (auto simp: marshal_bundle_def with_schema_def Let_def split: if_splits)
  have "trim_space raw = raw" using assms(2) b(1) by (simp add: json_ok_def Let_def)
  then obtain key where key: "kr_encryption kr (kr_active_encryption kr) = Some key"
    "en_ciphertext en = cx_b64 ?x (cx_seal ?x key (ae_nonce ae) raw (credential_context owner provider))"
    "en_nonce en = cx_b64 ?x (ae_nonce ae)" "en_encryption_key en = kr_active_encryption kr"
    using en by (auto simp: encrypt_with_fingerprint_def Let_def split: if_splits option.splits)
  have opened: "decrypt_credential ?x kr' owner' provider' en =
      (if credential_context owner' provider' = credential_context owner provider then Inr raw else Inl err_unopened)"
    using assms(1,5) key new_keyring_keys(3) [OF assms(3)] by (simp add: decrypt_credential_def crypto_ok_def)
  have "decode_bundle ?j (JObj (bundle_json ?j ?b)) = Inr ?b" using assms(2) by (intro decode_bundle_json) (simp add: json_ok_def Let_def with_schema_def)
  moreover have "jt_parse ?j raw = Some (JObj (bundle_json ?j ?b))" using assms(2) b(1) by (simp add: json_ok_def Let_def)
  ultimately have "parse_bundle ?j raw = Inr ?b" using b(2-4) by (simp add: parse_bundle_def)
  with opened show ?thesis by simp
qed

section \<open>Which credential is sent\<close>

lemma find_SomeD: "List.find p xs = Some x \<Longrightarrow> x \<in> set xs \<and> p x"
  by (induction xs) (auto split: if_splits)

lemma channel_credential_row:
  assumes "gateway_channel_credential vips org ch db = Inr cred"
  obtains c where "c \<in> set (gdb_channels (kdb_gateways db))" "credential_row vips org ch db c" "cred = scan_credential db c"
  using assms by (auto simp: gateway_channel_credential_def split: sum.splits dest!: query_row_Inr)

lemma scan_credential_fields:
  "cd_channel (scan_credential db c) = ch_id c"
  "joined_connection db c = Some a \<Longrightarrow> cd_connection (scan_credential db c) = ac_id a"
  "joined_secret db c = Some s \<Longrightarrow> cd_type (scan_credential db c) = sx_type s"
  "joined_secret db c = Some s \<Longrightarrow> cd_version (scan_credential db c) = sx_version s"
  by (simp_all add: scan_credential_def coalesce_def Let_def)

text \<open>Who may be served by the connection of a channel.\<close>

definition entitled :: "string \<Rightarrow> connection_db \<Rightarrow> channel \<Rightarrow> ai_connection \<Rightarrow> bool" where
  "entitled org db c a = (a \<in> set (kdb_connections db) \<and> ch_connection c = Some (ac_id a) \<and> connection_live a
     \<and> owned_by (ac_owner a) org a \<and> ch_owner_id c = Some (ac_owner a) \<and> ac_auth_status a \<noteq> ''reauth_required''
     \<and> ac_owner a \<in> set (active_users (kdb_accounts db)) \<and> (org, ac_owner a) \<in> set (active_members (kdb_accounts db)))"

lemma connection_serves_entitled:
  assumes "connection_serves org db c"
  obtains a where "joined_connection db c = Some a" "entitled org db c a"
proof -
  obtain a m where a: "joined_connection db c = Some a" and joined: "joined_model db c = Some m"
    using assms by (auto simp: connection_serves_def split: option.splits)
  have "a \<in> set (kdb_connections db)" "ch_connection c = Some (ac_id a)"
    using find_SomeD [OF a [unfolded joined_connection_def]] by simp_all
  moreover have serves: "ch_owner_id c = Some (ac_owner a) \<and> ac_org a = org \<and> ac_status a \<in> {''active'', ''attention''}
      \<and> ac_auth_status a \<in> {''active'', ''refreshing'', ''attention''} \<and> ac_deleted a = None
      \<and> cm_enabled m \<and> cm_verification m = ''verified'' \<and> ac_owner a \<in> set (active_users (kdb_accounts db))
      \<and> (ac_org a, ac_owner a) \<in> set (active_members (kdb_accounts db))"
    using assms unfolding connection_serves_def a joined prod.case option.case .
  then have "ac_status a \<noteq> ''deleted''" "ac_auth_status a \<noteq> ''reauth_required''" by auto
  ultimately have "entitled org db c a" using serves unfolding entitled_def connection_live_def owned_by_def by blast
  with a that show thesis by blast
qed

lemma resolved_from:
  assumes "gateway_upstream_authorization ae org ch read dl = (Inr r, dl')"
  obtains cred where "gateway_channel_credential (ae_vips ae) org ch read = Inr cred"
    "cd_connection cred \<noteq> [] \<longrightarrow> cd_type cred \<notin> {''browser_connector'', ''client_connector''}"
  using assms by (auto simp: gateway_upstream_authorization_def Let_def split: sum.splits option.splits if_splits)


text \<open>Once a connection is deleted its row stays as it is.\<close>

lemma deleted_row:
  assumes "connection_inv db" and "delete_connection owner org cid now db = (Inr (), db')"
  obtains c where "connection_inv db'" "row_at ac_id cid (kdb_connections db') = Some c" "\<not> connection_live c"
proof -
  have some: "sql_affected (live_connection_of owner org cid) (kdb_connections db) \<noteq> 0" using assms(2) by (auto simp: delete_connection_def split: if_splits)
  then obtain c0 where c0: "c0 \<in> set (kdb_connections db)" "live_connection_of owner org cid c0" by (auto simp: sql_affected_0)
  have wf: "distinct (map ac_id (kdb_connections db))" using assms(1) by (simp add: connection_inv_def connection_wf_def)
  have row: "row_at ac_id cid (kdb_connections db) = Some c0" using row_at_unique [OF wf c0(1)] c0(2) by (simp add: live_connection_of_def)
  let ?f = "\<lambda>c. c\<lparr>ac_status := ''deleted'', ac_deleted := Some now, ac_updated := now\<rparr>"
  have "kdb_connections db' = sql_update (live_connection_of owner org cid) ?f (kdb_connections db)"
    using assms(2) some by (auto simp: delete_connection_def split: if_splits)
  then have "row_at ac_id cid (kdb_connections db') = Some (?f c0)" using row c0(2) by (simp add: row_at_sql_update)
  moreover have "connection_inv db'"
    using connection_rows.inv_step [OF assms(1), of id "ODisconnect owner org cid" now] assms(2) by simp
  ultimately show thesis using that [of "?f c0"] by (simp add: connection_live_def)
qed

lemma dead_run:
  assumes "connection_inv db" and "row_at ac_id cid (kdb_connections db) = Some c" and "\<not> connection_live c"
  shows "row_at ac_id cid (kdb_connections (store_run (connection_step h) db es)) = Some c"
  using connection_rows.row_run [OF assms(1,2), of h es] assms(3) by (auto simp: connection_can_def)

text \<open>C17: Once a connection is deleted, no gateway gets a credential for its channels again, after any run of the
  store's operations.\<close>

theorem disconnected_not_served:
  assumes "connection_wf db" and "within_limit db" and "delete_connection owner org cid now db = (Inr (), db')"
    and "after = store_run (connection_step h) db' es"
    and "list_all (\<lambda>c. ch_id c = ch \<longrightarrow> ch_connection c = Some cid \<and> own_credential after c = None) (gdb_channels (kdb_gateways after))"
  shows "gateway_upstream_authorization ae org' ch after dl = (Inl ErrNoRows, dl)
    \<and> refresh_upstream_authorization ae force org' ch after dl = (Inl ErrNoRows, dl)"
proof -
  have inv: "connection_inv db" using assms(1,2) by (simp add: connection_inv_def)
  obtain c where dead: "connection_inv db'" "row_at ac_id cid (kdb_connections db') = Some c" "\<not> connection_live c"
    by (rule deleted_row [OF inv assms(3)])
  have row: "row_at ac_id cid (kdb_connections after) = Some c" unfolding assms(4) by (rule dead_run [OF dead])
  have "\<not> credential_row vips org' ch after x" if "x \<in> set (gdb_channels (kdb_gateways after))" for x vips
  proof
    assume x: "credential_row vips org' ch after x"
    then have "ch_connection x = Some cid" "own_credential after x = None"
      using assms(5) that by (auto simp: list_all_iff credential_row_def)
    moreover from this x have "connection_serves org' after x" by (simp add: credential_row_def)
    then obtain a where "joined_connection after x = Some a" "entitled org' after x a" by (rule connection_serves_entitled)
    moreover have "joined_connection after x = row_at ac_id cid (kdb_connections after)"
      using calculation(1) by (simp add: joined_connection_def row_at_def eq_commute)
    ultimately show False using row dead(3) by (simp add: entitled_def)
  qed
  then have "gateway_channel_credential vips org' ch after = Inl ErrNoRows" for vips
    by (simp add: gateway_channel_credential_def query_row_Inl [THEN iffD2])
  then show ?thesis by (simp add: gateway_upstream_authorization_def refresh_upstream_authorization_def)
qed

section \<open>Concurrent refreshes\<close>

lemma update_oauth_secret_current:
  assumes "connection_wf db" and "row_at sx_connection cid (kdb_secrets db) = Some s" and "sx_version s = v" and "sx_type s = ''oauth_bundle''"
  obtains db' where "update_oauth_secret cid v new t db = (Inr (), db')"
    "row_at sx_connection cid (kdb_secrets db') = Some (refreshed_secret new t s)"
proof -
  let ?sel = "\<lambda>s. sx_connection s = cid \<and> sx_version s = v \<and> sx_type s = ''oauth_bundle''"
  have wf: "distinct (map sx_connection (kdb_secrets db))" using assms(1) by (simp add: connection_wf_def)
  have id: "sx_connection s = cid" using row_at_Some [OF assms(2)] by simp
  have one: "sql_affected ?sel (kdb_secrets db) = 1"
    using sql_affected_key [OF wf, of ?sel cid] assms(2-4) id by simp
  have same: "sx_connection (refreshed_secret new t r) = sx_connection r" for r by (simp add: refreshed_secret_def rotated_secret_def)
  have "row_at sx_connection cid (sql_update ?sel (refreshed_secret new t) (kdb_secrets db)) = Some (refreshed_secret new t s)"
    using assms(2-4) id by (subst row_at_sql_update) (simp_all add: same)
  with one that show thesis by (simp add: update_oauth_secret_def Let_def)
qed

lemma refreshed_secret_fields:
  "sx_version (refreshed_secret new t s) = sx_version s + 1" "sx_failures (refreshed_secret new t s) = 0"
  "sx_ciphertext (refreshed_secret new t s) = sx_ciphertext new" "sx_next_refresh (refreshed_secret new t s) = sx_next_refresh new"
  "sx_type (refreshed_secret new t s) = sx_type s"
  by (simp_all add: refreshed_secret_def rotated_secret_def)

text \<open>A request that renews a credential stores the renewed bundle only over the version it read, as the next
  version, due again in a minute at the earliest; when the version has moved on meanwhile nothing is
  stored, and what the request uses is the credential that is stored then.\<close>

theorem refresh_keeps_winner:
  assumes "connection_wf db" and "row_at sx_connection (cd_connection cred) (kdb_secrets db) = Some s"
  shows "if sx_version s \<noteq> cd_version cred then
      snd (refresh_held ae kr org cred b db) = db
      \<and> (\<forall>r. fst (refresh_held ae kr org cred b db) = Inr r \<longrightarrow>
           (\<exists>current. gateway_channel_credential (ae_vips ae) org (cd_channel cred) db = Inr current \<and> resolve_oauth_record ae kr current = Inr r))
    else \<forall>ad new en. sx_type s = ''oauth_bundle'' \<and> ae_adapter ae (cd_provider cred) (cd_method cred) = Some ad \<and> ad_refresh ad b = Inr new
        \<and> sealed_bundle ae kr (cd_owner cred) (cd_provider cred) (cd_method cred) new = Inr en \<longrightarrow>
      fst (refresh_held ae kr org cred b db) = resolve_material ad new
      \<and> (\<exists>s' t. row_at sx_connection (cd_connection cred) (kdb_secrets (snd (refresh_held ae kr org cred b db))) = Some s'
           \<and> sx_version s' = sx_version s + 1 \<and> sx_ciphertext s' = en_ciphertext en \<and> sx_failures s' = 0
           \<and> sx_next_refresh s' = Some t \<and> ae_now ae + minute \<le> t)"
proof (cases "sx_version s = cd_version cred")
  case False
  note stale = stale_version_rejected [OF assms False]
  show ?thesis using False by (auto simp: refresh_held_def stale split: option.splits sum.splits)
next
  case True
  show ?thesis
  proof (simp only: True simp_thms if_False, intro allI impI, elim conjE)
    fix ad new en
    assume a: "sx_type s = ''oauth_bundle''" "ae_adapter ae (cd_provider cred) (cd_method cred) = Some ad" "ad_refresh ad b = Inr new"
      "sealed_bundle ae kr (cd_owner cred) (cd_provider cred) (cd_method cred) new = Inr en"
    let ?next = "at_least_a_minute (cb_expires new - ae_skew ae) (ae_now ae)"
    let ?row = "refreshed_row en (en_mask (cd_envelope cred)) new ?next"
    obtain db' where db': "update_oauth_secret (cd_connection cred) (cd_version cred) ?row (ae_now ae) db = (Inr (), db')"
      "row_at sx_connection (cd_connection cred) (kdb_secrets db') = Some (refreshed_secret ?row (ae_now ae) s)"
      by (rule update_oauth_secret_current [OF assms True a(1)])
    have "refresh_held ae kr org cred b db = (resolve_material ad new, db')" using a(2-4) db'(1) by (simp add: refresh_held_def)
    moreover have "ae_now ae + minute \<le> ?next" by (simp add: at_least_a_minute_def)
    ultimately show "fst (refresh_held ae kr org cred b db) = resolve_material ad new
      \<and> (\<exists>s' t. row_at sx_connection (cd_connection cred) (kdb_secrets (snd (refresh_held ae kr org cred b db))) = Some s'
           \<and> sx_version s' = cd_version cred + 1 \<and> sx_ciphertext s' = en_ciphertext en \<and> sx_failures s' = 0
           \<and> sx_next_refresh s' = Some t \<and> ae_now ae + minute \<le> t)"
      using db'(2) True by (simp add: refreshed_secret_fields) (simp add: refreshed_row_def)
  qed
qed

section \<open>Failing refreshes\<close>

lemma backoff_bounds: "minute \<le> refresh_backoff n \<and> refresh_backoff n \<le> hour"
  by (simp add: refresh_backoff_def time_simps)

text \<open>A failed background refresh keeps the stored credential and counts the failure; one that needs a new
  login is never due again until then, any other is due again after the back-off and not before.\<close>

theorem refresh_failure_schedule:
  assumes "connection_wf db" and "(c, s) \<in> set (with_secret db)" and "ac_deleted c = None" and "sx_type s = ''oauth_bundle''"
  shows "\<exists>c' s'. (c', s') \<in> set (with_secret (snd (record_refresh_failure (c, s) e now db)))
    \<and> fst (record_refresh_failure (c, s) e now db) = e
    \<and> ac_id c' = ac_id c \<and> sx_ciphertext s' = sx_ciphertext s \<and> sx_version s' = sx_version s \<and> sx_failures s' = sx_failures s + 1
    \<and> (\<forall>t. refresh_due t (c', s') \<longleftrightarrow> e \<noteq> err_reauth \<and> now + refresh_backoff (sx_failures s + 1) \<le> t \<and> ac_status c \<in> {''active'', ''attention''})"
proof -
  obtain code reauth where code: "classify_refresh_error e = (code, reauth)" by (cases "classify_refresh_error e")
  then have reauth: "reauth \<longleftrightarrow> e = err_reauth" by (auto simp: classify_refresh_error_def split: if_splits)
  let ?next = "now + refresh_backoff (sx_failures s + 1)"
  let ?sel = "\<lambda>x. sx_connection x = ac_id c \<and> sx_version x = sx_version s \<and> sx_type x = ''oauth_bundle''"
  let ?live = "\<lambda>x. ac_id x = ac_id c \<and> ac_deleted x = None"
  let ?f = "\<lambda>s. s\<lparr>sx_failures := sx_failures s + 1, sx_error_code := code, sx_next_refresh := (if reauth then None else Some ?next)\<rparr>"
  let ?g = "\<lambda>c. c\<lparr>ac_auth_status := (if reauth then ''reauth_required'' else ''attention''),
              ac_error_code := code, ac_error_message := (if reauth then reauth_message else retry_message), ac_updated := now\<rparr>"
  have c: "c \<in> set (kdb_connections db)" "s \<in> set (kdb_secrets db)" "sx_connection s = ac_id c" using assms(2) by (simp_all add: set_with_secret)
  have wf: "distinct (map ac_id (kdb_connections db))" "distinct (map sx_connection (kdb_secrets db))" using assms(1) by (simp_all add: connection_wf_def)
  have "row_at ac_id (ac_id c) (kdb_connections db) = Some c" by (rule row_at_unique [OF wf(1) c(1)])
  then have "query_row ?live (kdb_connections db) = Inr c" using query_row_key [OF wf(1), of "ac_id c" "\<lambda>x. ac_deleted x = None"] assms(3) by simp
  moreover have "row_at sx_connection (ac_id c) (kdb_secrets db) = Some s" using row_at_unique [OF wf(2) c(2)] c(3) by simp
  then have "sql_affected ?sel (kdb_secrets db) = 1" using sql_affected_key [OF wf(2), of ?sel "ac_id c"] assms(4) c(3) by simp
  ultimately have step: "mark_oauth_failure (ac_id c) (sx_version s) reauth code ?next now db
      = (Inr (), db\<lparr>kdb_secrets := sql_update ?sel ?f (kdb_secrets db), kdb_connections := sql_update ?live ?g (kdb_connections db)\<rparr>)"
    by (simp add: mark_oauth_failure_def Let_def)
  have "?f s \<in> set (sql_update ?sel ?f (kdb_secrets db))" "?g c \<in> set (sql_update ?live ?g (kdb_connections db))"
    unfolding set_sql_update using c assms(3,4) by (auto intro!: image_eqI [where x = s] image_eqI [where x = c])
  then have "(?g c, ?f s) \<in> set (with_secret (snd (record_refresh_failure (c, s) e now db)))"
    using c(3) by (simp add: record_refresh_failure_def code step set_with_secret)
  moreover have "refresh_due t (?g c, ?f s) \<longleftrightarrow> e \<noteq> err_reauth \<and> ?next \<le> t \<and> ac_status c \<in> {''active'', ''attention''}" for t
    using assms(3,4) by (auto simp: refresh_due_def reauth)
  moreover have "fst (record_refresh_failure (c, s) e now db) = e" by (simp add: record_refresh_failure_def code step)
  ultimately show ?thesis by (intro exI [where x = "?g c"] exI [where x = "?f s"] conjI) simp_all
qed

section \<open>The gate\<close>

fun rate_slots :: "time list \<Rightarrow> provider_gate \<Rightarrow> time list" where
  "rate_slots [] g = []"
| "rate_slots (t # ts) g = (case reserve_rate_slot t g of (slot, g') \<Rightarrow> slot # rate_slots ts g')"

lemma rate_slots_spaced:
  assumes "0 \<le> pg_interval g"
  shows "list_all2 (\<le>) ts (rate_slots ts g) \<and> (\<forall>x\<in>set (rate_slots ts g). pg_next g \<le> x)
    \<and> sorted_wrt (\<lambda>a b. a + pg_interval g \<le> b) (rate_slots ts g)"
  using assms
proof (induction ts arbitrary: g)
  case (Cons t ts)
  let ?slot = "if pg_next g < t then t else pg_next g"
  let ?g = "g\<lparr>pg_next := ?slot + pg_interval g\<rparr>"
  have step: "reserve_rate_slot t g = (?slot, ?g)" by (simp add: reserve_rate_slot_def Let_def)
  have i: "pg_interval ?g = pg_interval g" "pg_next ?g = ?slot + pg_interval g" by simp_all
  have ih: "list_all2 (\<le>) ts (rate_slots ts ?g)" "\<forall>x\<in>set (rate_slots ts ?g). ?slot + pg_interval g \<le> x"
    "sorted_wrt (\<lambda>a b. a + pg_interval g \<le> b) (rate_slots ts ?g)"
    using Cons.IH [of ?g] Cons.prems unfolding i by blast+
  have slot: "t \<le> ?slot" "pg_next g \<le> ?slot" by simp_all
  have "pg_next g \<le> x" if "x \<in> set (rate_slots ts ?g)" for x using ih(2) that slot(2) Cons.prems by fastforce
  with ih slot show ?case unfolding rate_slots.simps step prod.case by simp
qed simp

lemma spaced_last:
  assumes "sorted_wrt (\<lambda>a b. a + d \<le> b) (x # xs)" and "0 \<le> (d :: int)"
  shows "x + d * int (length xs) \<le> last (x # xs)"
  using assms
proof (induction xs arbitrary: x)
  case (Cons y ys)
  then have "y + d * int (length ys) \<le> last (y # ys)" "x + d \<le> y" by auto
  then show ?case by (simp add: algebra_simps)
qed simp

lemma spaced_window:
  assumes "sorted_wrt (\<lambda>a b. a + d \<le> b) xs" and "0 \<le> (d :: int)" and "\<forall>x\<in>set xs. t \<le> x \<and> x < t + w" and "0 < w"
  shows "d * (int (length xs) - 1) < w"
proof (cases xs)
  case Nil
  then show ?thesis using assms(2,4) by simp
next
  case (Cons x ys)
  then have "x + d * int (length ys) \<le> last xs" "t \<le> x" "last xs < t + w" using spaced_last [of d x ys] assms by auto
  then show ?thesis using Cons by simp
qed


section \<open>A sample environment\<close>

text \<open>A transparent cipher: the additional data with its length in unary, then the text.\<close>

definition open_seal :: "string \<Rightarrow> string \<Rightarrow> string \<Rightarrow> string \<Rightarrow> string" where
  "open_seal k n p a = replicate (length a) CHR ''1'' @ CHR ''0'' # a @ p"

definition open_open :: "string \<Rightarrow> string \<Rightarrow> string \<Rightarrow> string \<Rightarrow> string option" where
  "open_open k n c a = (let l = length (takeWhile (\<lambda>x. x = CHR ''1'') c); rest = drop (Suc l) c
     in if l \<le> length rest \<and> take l rest = a then Some (drop l rest) else None)"

definition sample_crypto :: crypto where
  "sample_crypto = \<lparr>cx_sha = (\<lambda>v. v), cx_hmac = (@), cx_seal = open_seal, cx_open = open_open, cx_b64 = (\<lambda>v. v), cx_unb64 = Some,
     cx_hex = (\<lambda>v. v)\<rparr>"

lemma sample_crypto_ok: "crypto_ok sample_crypto"
proof -
  have "takeWhile (\<lambda>x. x = CHR ''1'') (replicate n CHR ''1'' @ CHR ''0'' # xs) = replicate n CHR ''1''" for n xs
    by (induction n) auto
  then show ?thesis by (auto simp: crypto_ok_def sample_crypto_def open_seal_def open_open_def Let_def)
qed

definition sample_key :: string where "sample_key = replicate 32 CHR ''k''"

definition sample_print_key :: string where "sample_print_key = replicate 32 CHR ''f''"

definition sample_keys :: keyring_config where
  "sample_keys = \<lparr>kc_active_encryption = ''k'', kc_encryption = [(''k'', sample_key)], kc_active_fingerprint = ''f'',
     kc_fingerprint = [(''f'', sample_print_key)]\<rparr>"

definition sample_keyring :: keyring where
  "sample_keyring = \<lparr>kr_active_encryption = ''k'', kr_encryption = [''k'' \<mapsto> sample_key], kr_active_fingerprint = ''f'',
     kr_fingerprint = [''f'' \<mapsto> sample_print_key]\<rparr>"

lemma sample_keyring: "new_keyring sample_crypto sample_keys = Inr sample_keyring"
proof -
  have "trim_space ''k'' = ''k''" "trim_space ''f'' = ''f''" "length (trim_space sample_key) = 32"
    "length (trim_space sample_print_key) = 32" "sample_print_key \<noteq> sample_key" "sample_print_key \<noteq> []" by code_simp+
  then show ?thesis by (simp add: new_keyring_def sample_keys_def sample_keyring_def sample_crypto_def Let_def)
qed

definition sample_bundle :: token_bundle where
  "sample_bundle = zero_bundle\<lparr>cb_access := ''at'', cb_refresh := ''rt'', cb_scopes := [''s''], cb_expires := 900000000000, cb_subject := ''sub''\<rparr>"

text \<open>Texts for the one bundle.\<close>

definition sample_times :: json_text where
  "sample_times = \<lparr>jt_print = (\<lambda>_. ''{}''), jt_parse = (\<lambda>_. None), jt_time = (\<lambda>_. ''t''), jt_time_of = (\<lambda>_. Some 900000000000)\<rparr>"

definition sample_json :: json_text where
  "sample_json = sample_times\<lparr>jt_parse := (\<lambda>_. Some (JObj (bundle_json sample_times (with_schema sample_bundle))))\<rparr>"

lemma sample_json_ok: "json_ok sample_json sample_bundle"
proof -
  have "bundle_json sample_json b = bundle_json sample_times b" for b by (simp add: bundle_json_def sample_json_def)
  moreover have "trim_space ''{}'' = ''{}''" by code_simp
  ultimately show ?thesis
    by (simp add: json_ok_def Let_def) (simp add: sample_json_def sample_times_def sample_bundle_def)
qed

definition sample_adapter :: adapter where
  "sample_adapter = \<lparr>ad_refresh = (\<lambda>_. Inr sample_bundle),
     ad_material = (\<lambda>b. Inr \<lparr>am_mode = ''oauth_bearer'', am_endpoint = [], am_headers = [(''Authorization'', [cb_access b])]\<rparr>)\<rparr>"

definition sample_auth :: "unit auth_env" where
  "sample_auth = \<lparr>ae_crypto = sample_crypto, ae_keyring = Some sample_keyring, ae_box = None, ae_json = sample_json,
     ae_adapter = (\<lambda>_ _. Some sample_adapter), ae_acquire = None, ae_release = (\<lambda>_ _ _ l. l), ae_skew = minute, ae_nonce = ''n'',
     ae_vips = [], ae_polls = [], ae_now = 5\<rparr>"

text \<open>The connection \<open>a1\<close> with an API key and a channel routed to it.\<close>

definition routed_connections :: connection_db where
  "routed_connections = sample_connections\<lparr>
     kdb_gateways := sample_db\<lparr>gdb_channels := [(sample_channel ''c1'' (Some ''a1''))\<lparr>ch_connection_model := Some ''m1''\<rparr>]\<rparr>,
     kdb_secrets := [(sample_secret ''a1'' ''f1'')\<lparr>sx_type := ''api_key'',
       sx_ciphertext := open_seal [] ''n'' ''sk-upstream'' (credential_context ''u1'' ''openai'')\<rparr>]\<rparr>"


theorem sealed_bundle_reads_back_witness:
  "\<exists>en. sealed_bundle sample_auth sample_keyring ''u1'' ''gemini'' ''oauth'' sample_bundle = Inr en
     \<and> (\<exists>raw. decrypt_credential sample_crypto sample_keyring ''u1'' ''gemini'' en = Inr raw \<and> parse_bundle sample_json raw = Inr (with_schema sample_bundle))
     \<and> decrypt_credential sample_crypto sample_keyring ''u2'' ''gemini'' en = Inl err_unopened"
proof -
  have "is_ok (sealed_bundle sample_auth sample_keyring ''u1'' ''gemini'' ''oauth'' sample_bundle)" by code_simp
  then obtain en where en: "sealed_bundle sample_auth sample_keyring ''u1'' ''gemini'' ''oauth'' sample_bundle = Inr en" by (auto simp: is_ok_iff)
  have env: "ae_crypto sample_auth = sample_crypto" "ae_json sample_auth = sample_json" by (simp_all add: sample_auth_def)
  note reads = sealed_bundle_reads_back [of sample_auth, unfolded env, OF sample_crypto_ok sample_json_ok sample_keyring en refl]
  have "credential_context ''u2'' ''gemini'' \<noteq> credential_context ''u1'' ''gemini''" by code_simp
  with reads [of "''u1''" "''gemini''"] reads [of "''u2''" "''gemini''"] en show ?thesis by auto
qed

lemma routed_wf: "connection_wf routed_connections"
  by (simp add: connection_wf_def routed_connections_def sample_connections_def sample_connection_def sample_secret_def)

lemma routed_limit: "within_limit routed_connections"
  by (simp add: within_limit_def connection_count_def sql_affected_def routed_connections_def sample_connections_def)

definition routed_after :: connection_db where
  "routed_after = store_run (connection_step id) (snd (delete_connection ''u1'' ''o1'' ''a1'' 5 routed_connections)) [(sample_refresh, 6)]"

theorem disconnected_not_served_witness:
  "gateway_upstream_authorization sample_auth ''o1'' ''c1'' routed_after (routed_after, ()) = (Inl ErrNoRows, (routed_after, ()))"
proof -
  have "fst (delete_connection ''u1'' ''o1'' ''a1'' 5 routed_connections) = Inr ()" by code_simp
  then obtain db' where db': "delete_connection ''u1'' ''o1'' ''a1'' 5 routed_connections = (Inr (), db')" by (metis prod.collapse)
  have after: "routed_after = store_run (connection_step id) db' [(sample_refresh, 6)]" by (simp add: routed_after_def db')
  have "list_all (\<lambda>c. ch_id c = ''c1'' \<longrightarrow> ch_connection c = Some ''a1'' \<and> own_credential routed_after c = None)
      (gdb_channels (kdb_gateways routed_after))" by code_simp
  from disconnected_not_served [OF routed_wf routed_limit db' after this] show ?thesis by blast
qed

definition sample_channel_credential :: "int \<Rightarrow> channel_credential" where
  "sample_channel_credential v = \<lparr>cd_channel = ''c1'', cd_connection = ''a1'', cd_owner = ''u1'', cd_provider = ''openai'',
     cd_envelope = secret_envelope (sample_secret ''a1'' ''f1''), cd_method = ''codex_oauth'', cd_auth_status = ''active'',
     cd_type = ''oauth_bundle'', cd_format = ''oauth_bundle_v1'', cd_subject = [], cd_expires = None, cd_version = v\<rparr>"

lemma sample_secret_row: "row_at sx_connection ''a1'' (kdb_secrets sample_connections) = Some (sample_secret ''a1'' ''f1'')"
  by (simp add: row_at_def sample_connections_def sample_secret_def)

text \<open>A renewal of the stored version, and one of a version that is gone.\<close>

theorem refresh_keeps_winner_witness:
  "(\<exists>s'. row_at sx_connection ''a1'' (kdb_secrets (snd (refresh_held sample_auth sample_keyring ''o1'' (sample_channel_credential 1) sample_bundle sample_connections))) = Some s'
      \<and> sx_version s' = 2)
   \<and> snd (refresh_held sample_auth sample_keyring ''o1'' (sample_channel_credential 0) sample_bundle sample_connections) = sample_connections"
proof
  have row: "row_at sx_connection (cd_connection (sample_channel_credential v)) (kdb_secrets sample_connections) = Some (sample_secret ''a1'' ''f1'')" for v
    using sample_secret_row by (simp add: sample_channel_credential_def)
  have s: "sx_version (sample_secret ''a1'' ''f1'') = 1" "sx_type (sample_secret ''a1'' ''f1'') = ''oauth_bundle''" by (simp_all add: sample_secret_def)
  note winner = refresh_keeps_winner [OF sample_connections_wf row, unfolded s]
  have cred: "cd_version (sample_channel_credential v) = v" "cd_connection (sample_channel_credential v) = ''a1''" for v
    by (simp_all add: sample_channel_credential_def)
  have ad: "ae_adapter sample_auth p m = Some sample_adapter" "ad_refresh sample_adapter b = Inr sample_bundle" for p m b
    by (simp_all add: sample_auth_def sample_adapter_def)
  have "is_ok (sealed_bundle sample_auth sample_keyring (cd_owner (sample_channel_credential 1)) (cd_provider (sample_channel_credential 1))
      (cd_method (sample_channel_credential 1)) sample_bundle)" by code_simp
  then show "\<exists>s'. row_at sx_connection ''a1'' (kdb_secrets (snd (refresh_held sample_auth sample_keyring ''o1'' (sample_channel_credential 1) sample_bundle sample_connections))) = Some s'
      \<and> sx_version s' = 2"
    using winner [of 1 sample_auth sample_keyring "''o1''" sample_bundle] by (auto simp: cred ad is_ok_iff)
  show "snd (refresh_held sample_auth sample_keyring ''o1'' (sample_channel_credential 0) sample_bundle sample_connections) = sample_connections"
    using winner [of 0 sample_auth sample_keyring "''o1''" sample_bundle] by (simp add: cred)
qed

theorem refresh_failure_schedule_witness:
  "\<exists>c' s'. (c', s') \<in> set (with_secret (snd (record_refresh_failure (sample_connection ''a1'' ''active'' None, sample_secret ''a1'' ''f1'') err_adapter 5 sample_connections)))
    \<and> sx_failures s' = 1 \<and> refresh_due (5 + minute) (c', s') \<and> \<not> refresh_due (4 + minute) (c', s')"
proof -
  have row: "(sample_connection ''a1'' ''active'' None, sample_secret ''a1'' ''f1'') \<in> set (with_secret sample_connections)"
    by (simp add: with_secret_def sample_connections_def sample_connection_def sample_secret_def)
  have c: "ac_deleted (sample_connection ''a1'' ''active'' None) = None" "ac_status (sample_connection ''a1'' ''active'' None) = ''active''"
    by (simp_all add: sample_connection_def)
  have s: "sx_type (sample_secret ''a1'' ''f1'') = ''oauth_bundle''" "sx_failures (sample_secret ''a1'' ''f1'') = 0" by (simp_all add: sample_secret_def)
  have e: "err_adapter \<noteq> err_reauth" "refresh_backoff 1 = minute" by (simp_all add: err_adapter_def err_reauth_def refresh_backoff_def)
  obtain c' s' where r: "(c', s') \<in> set (with_secret (snd (record_refresh_failure (sample_connection ''a1'' ''active'' None, sample_secret ''a1'' ''f1'') err_adapter 5 sample_connections)))"
    "sx_failures s' = sx_failures (sample_secret ''a1'' ''f1'') + 1"
    "\<forall>t. refresh_due t (c', s') \<longleftrightarrow> err_adapter \<noteq> err_reauth \<and> 5 + refresh_backoff (sx_failures (sample_secret ''a1'' ''f1'') + 1) \<le> t
      \<and> ac_status (sample_connection ''a1'' ''active'' None) \<in> {''active'', ''attention''}"
    using refresh_failure_schedule [OF sample_connections_wf row c(1) s(1), of err_adapter 5] by blast
  then show ?thesis using e by (intro exI [where x = c'] exI [where x = s']) (simp add: s(2) c(2))
qed

end
