(* ===== verification/Browser_Contract.thy ===== *)
theory Browser_Contract
  imports Go_Json Go_Utf8
begin

text \<open>
  What passes between the gateway and a personal browser: \<open>internal/browserconnector/contract.go\<close>
  (the prompt made of a request, the command a task becomes, the reading and cleaning of its
  result) and the executor of \<open>internal/opencliconnector/connector.go\<close>.

  \<open>q\<close> is \<open>strconv.Quote\<close>, \<open>dec\<close> is \<open>json.Unmarshal\<close> (its error as text), \<open>sha\<close> the hex SHA-256 and \<open>mac\<close>
  the hex HMAC-SHA-256 of a key and a message. An error that wraps \<open>ErrUnsupportedRequest\<close> is its
  text. The command runner is an argument: the output of the command and whether it failed.
\<close>

section \<open>Results\<close>

record connector_result =
  br_ok :: bool
  br_content :: string
  br_mask :: string
  br_fingerprint :: string
  br_code :: string
  br_message :: string

definition max_prompt_bytes :: nat where
  "max_prompt_bytes = 65536"

definition unsupported :: "string \<Rightarrow> err" where
  "unsupported detail = ErrNamed (''browser request is unsupported: '' @ detail)"

definition safe_opencli_message :: "string \<Rightarrow> string" where
  "safe_opencli_message code =
     (if code = ''login_required'' then
        runes [0x8BF7, 0x5148, 0x5728] @ '' Chrome '' @ runes [0x4E2D, 0x767B, 0x5F55, 0x5BF9, 0x5E94, 0x8D26, 0x53F7]
      else if code = ''security_challenge'' then
        runes [0x6D4F, 0x89C8, 0x5668, 0x51FA, 0x73B0, 0x9A8C, 0x8BC1, 0x7801, 0x6216, 0x5B89, 0x5168, 0x9A8C, 0x8BC1,
          0xFF0C, 0x8BF7, 0x5728] @ '' Chrome '' @ runes [0x4E2D, 0x5904, 0x7406, 0x540E, 0x91CD, 0x8BD5]
      else if code = ''identity_mismatch'' then
        runes [0x5F53, 0x524D, 0x7F51, 0x9875, 0x767B, 0x5F55, 0x8D26, 0x53F7, 0x4E0E, 0x8FDE, 0x63A5, 0x521B, 0x5EFA,
          0x65F6, 0x4E0D, 0x4E00, 0x81F4, 0xFF0C, 0x8BF7, 0x5207, 0x6362, 0x56DE, 0x539F, 0x8D26, 0x53F7, 0x6216, 0x91CD,
          0x65B0, 0x5EFA, 0x7ACB, 0x8FDE, 0x63A5]
      else if code = ''rate_limited'' then
        runes [0x670D, 0x52A1, 0x5546, 0x63D0, 0x793A, 0x8BF7, 0x6C42, 0x8FC7, 0x4E8E, 0x9891, 0x7E41, 0xFF0C]
        @ ''TokHub '' @ runes [0x5DF2, 0x6682, 0x505C, 0x8BE5, 0x8D26, 0x53F7, 0x7684, 0x7F51, 0x9875, 0x4E2D, 0x8F6C]
      else if code = ''access_denied'' then
        runes [0x670D, 0x52A1, 0x5546, 0x62D2, 0x7EDD, 0x4E86, 0x5F53, 0x524D, 0x7F51, 0x9875, 0x8BF7, 0x6C42, 0xFF0C]
        @ ''TokHub '' @ runes [0x5DF2, 0x9501, 0x5B9A, 0x8BE5, 0x8D26, 0x53F7, 0x7684, 0x7F51, 0x9875, 0x4E2D, 0x8F6C]
      else if code = ''adapter_incompatible'' then
        runes [0x7F51, 0x9875, 0x7ED3, 0x6784, 0x5DF2, 0x53D8, 0x5316, 0xFF0C, 0x5F53, 0x524D] @ '' OpenCLI ''
        @ runes [0x9002, 0x914D, 0x5668, 0x9700, 0x8981, 0x66F4, 0x65B0]
      else if code = ''upstream_unavailable'' then
        runes [0x7F51, 0x9875, 0x6216, 0x7F51, 0x7EDC, 0x6682, 0x65F6, 0x4E0D, 0x53EF, 0x7528, 0xFF0C] @ ''TokHub ''
        @ runes [0x5DF2, 0x8FDB, 0x5165, 0x51B7, 0x5374, 0x4FDD, 0x62A4]
      else ''OpenCLI '' @ runes [0x7F51, 0x9875, 0x4EFB, 0x52A1, 0x6267, 0x884C, 0x5931, 0x8D25, 0xFF0C, 0x8BF7, 0x68C0, 0x67E5]
        @ '' Chrome '' @ runes [0x4E0E, 0x6269, 0x5C55, 0x8FDE, 0x63A5])"

definition refused_result :: "string \<Rightarrow> string \<Rightarrow> connector_result" where
  "refused_result code message =
     \<lparr>br_ok = False, br_content = [], br_mask = [], br_fingerprint = [], br_code = code, br_message = message\<rparr>"

definition failure_result :: "string \<Rightarrow> connector_result" where
  "failure_result code = refused_result code (safe_opencli_message code)"

section \<open>Account fingerprints\<close>

definition hex_digit :: "char \<Rightarrow> bool" where
  "hex_digit c = (let n = byte_of c in (48 \<le> n \<and> n \<le> 57) \<or> (97 \<le> n \<and> n \<le> 102))"

definition valid_account_fingerprint :: "string \<Rightarrow> bool" where
  "valid_account_fingerprint v = (length v = 64 \<and> list_all hex_digit v)"

definition is_valid_account_fingerprint :: "string \<Rightarrow> bool" where
  "is_valid_account_fingerprint v = valid_account_fingerprint (to_lower (trim_space v))"

definition account_fingerprint_matches :: "string \<Rightarrow> string \<Rightarrow> bool" where
  "account_fingerprint_matches expected0 actual0 =
     (let expected = to_lower (trim_space expected0); actual = to_lower (trim_space actual0)
      in if \<not> valid_account_fingerprint expected \<or> \<not> valid_account_fingerprint actual then False
         else expected = actual)"

definition account_fingerprint :: "(string \<Rightarrow> string) \<Rightarrow> string \<Rightarrow> string \<Rightarrow> string" where
  "account_fingerprint sha site identity =
     sha (''tokhub-opencli-account-v1'' @ [CHR 0x00] @ to_lower (trim_space site) @ [CHR 0x00] @ trim_space identity)"

definition bind_account_fingerprint :: "(string \<Rightarrow> string \<Rightarrow> string) \<Rightarrow> string \<Rightarrow> string \<Rightarrow> string" where
  "bind_account_fingerprint mac device_token0 fingerprint0 =
     (let device_token = trim_space device_token0; fingerprint = to_lower (trim_space fingerprint0)
      in if length device_token < 32 \<or> \<not> valid_account_fingerprint fingerprint then []
         else mac device_token (''tokhub-opencli-account-binding-v1'' @ [CHR 0x00] @ fingerprint))"

section \<open>Cleaning a result\<close>

definition accepted_codes :: "string list" where
  "accepted_codes = [''login_required'', ''security_challenge'', ''identity_mismatch'', ''rate_limited'', ''access_denied'',
     ''adapter_incompatible'', ''upstream_unavailable'', ''opencli_failed'', ''opencli_command_failed'', ''task_rejected'']"

definition sanitize_result :: "connector_result \<Rightarrow> connector_result res" where
  "sanitize_result r =
     (if br_ok r then
        (let content = trim_space (br_content r); mask0 = trim_space (br_mask r);
             fingerprint = to_lower (trim_space (br_fingerprint r))
         in if content = [] \<and> mask0 = [] then Inl (unsupported ''result is empty'')
            else if length content > max_prompt_bytes \<or> \<not> valid_utf8 content
            then Inl (unsupported ''result content is too large'')
            else if length mask0 > 256 \<or> \<not> valid_utf8 mask0 then Inl (unsupported ''account mask is too large'')
            else if mask0 \<noteq> [] \<and> \<not> valid_account_fingerprint fingerprint
            then Inl (unsupported ''account fingerprint is invalid'')
            else Inr \<lparr>br_ok = True, br_content = content, br_mask = mask0,
              br_fingerprint = (if mask0 = [] then [] else fingerprint), br_code = [], br_message = []\<rparr>)
      else
        (let code0 = to_lower (trim_space (br_code r));
             code = (if code0 \<in> set accepted_codes then code0 else ''opencli_failed'')
         in Inr (failure_result code)))"

section \<open>Commands\<close>

record browser_order =
  bo_provider :: string
  bo_action :: string
  bo_prompt :: string

definition provider_command :: "string \<Rightarrow> string res" where
  "provider_command provider =
     (let p = to_lower (trim_space provider) in
      if p = ''openai'' \<or> p = ''chatgpt'' then Inr ''chatgpt''
      else if p = ''gemini'' then Inr ''gemini''
      else if p = ''deepseek'' then Inr ''deepseek''
      else Inl (ErrNamed ''browser provider is unsupported''))"

definition build_opencli_command :: "browser_order \<Rightarrow> string list res" where
  "build_opencli_command t =
     (case provider_command (bo_provider t) of
        Inl e \<Rightarrow> Inl e
      | Inr command \<Rightarrow>
          (let action = to_lower (trim_space (bo_action t)); prompt = trim_space (bo_prompt t) in
           if action = ''status'' then Inr [command, ''whoami'', ''-f'', ''json'']
           else if action = ''ask'' then
             (if prompt = [] \<or> length prompt > max_prompt_bytes \<or> \<not> valid_utf8 prompt
              then Inl (unsupported ''prompt is empty or too large'')
              else Inr [command, ''ask'', prompt, ''-f'', ''json'', ''--timeout'', ''90'', ''--new'', ''true''])
           else Inl (ErrNamed ''browser action is unsupported'')))"

section \<open>The prompt of a request\<close>

fun has_non_empty_collection :: "json \<Rightarrow> bool" where
  "has_non_empty_collection (JArr xs) = (xs \<noteq> [])"
| "has_non_empty_collection (JObj m) = (m \<noteq> [])"
| "has_non_empty_collection _ = False"

fun string_value :: "json \<Rightarrow> string" where
  "string_value (JStr s) = s"
| "string_value _ = []"

fun content_items :: "(string \<Rightarrow> string) \<Rightarrow> json list \<Rightarrow> string list res" where
  "content_items q [] = Inr []"
| "content_items q (JObj m # items) =
     (let item_type = to_lower (trim_space (string_value (obj_at ''type'' m)));
          text = trim_space (string_value (obj_at ''text'' m))
      in if item_type \<noteq> ''text'' \<and> item_type \<noteq> ''input_text'' \<and> item_type \<noteq> ''output_text''
         then Inl (unsupported (''content type '' @ q item_type))
         else if text = [] then Inl (unsupported ''content text is empty'')
         else case content_items q items of Inl e \<Rightarrow> Inl e | Inr ts \<Rightarrow> Inr (text # ts))"
| "content_items q (_ # items) = Inl (unsupported ''content item is invalid'')"

definition text_content :: "(string \<Rightarrow> string) \<Rightarrow> json \<Rightarrow> string res" where
  "text_content q raw = (case raw of
      JStr s \<Rightarrow> (let v = trim_space s in if v = [] then Inl (unsupported ''message text is empty'') else Inr v)
    | JArr (item # items) \<Rightarrow>
        (case content_items q (item # items) of Inl e \<Rightarrow> Inl e | Inr ts \<Rightarrow> Inr (join [CHR 0x0A] ts))
    | _ \<Rightarrow> Inl (unsupported ''message text is required''))"

definition role_label :: "string \<Rightarrow> string" where
  "role_label role =
     (if role = ''system'' then ''System'' else if role = ''developer'' then ''Developer''
      else if role = ''user'' then ''User'' else if role = ''assistant'' then ''Assistant'' else [])"

fun message_parts :: "(string \<Rightarrow> string) \<Rightarrow> json list \<Rightarrow> string list res" where
  "message_parts q [] = Inr []"
| "message_parts q (JObj m # items) =
     (let role = to_lower (trim_space (string_value (obj_at ''role'' m))); label = role_label role
      in if label = [] then Inl (unsupported (''message role '' @ q role))
         else case text_content q (obj_at ''content'' m) of
           Inl e \<Rightarrow> Inl e
         | Inr content \<Rightarrow>
             (case message_parts q items of Inl e \<Rightarrow> Inl e | Inr ps \<Rightarrow> Inr ((label @ '': '' @ content) # ps)))"
| "message_parts q (_ # items) = Inl (unsupported ''message is invalid'')"

definition prompt_from_messages :: "(string \<Rightarrow> string) \<Rightarrow> json \<Rightarrow> string res" where
  "prompt_from_messages q raw = (case raw of
      JArr (item # items) \<Rightarrow>
        (case message_parts q (item # items) of Inl e \<Rightarrow> Inl e | Inr ps \<Rightarrow> Inr (join [CHR 0x0A, CHR 0x0A] ps))
    | _ \<Rightarrow> Inl (unsupported ''messages are required''))"

definition prompt_from_responses_input :: "(string \<Rightarrow> string) \<Rightarrow> json \<Rightarrow> string res" where
  "prompt_from_responses_input q input = (case input of JStr s \<Rightarrow> Inr s | _ \<Rightarrow> prompt_from_messages q input)"

definition text_only :: "json \<Rightarrow> bool" where
  "text_only v = (case v of JArr ms \<Rightarrow> list_all (\<lambda>m. equal_fold (trim_space (string_value m)) ''text'') ms | _ \<Rightarrow> True)"

definition asks_more_than_text :: "bool \<Rightarrow> obj \<Rightarrow> string option" where
  "asks_more_than_text allow_stream p =
     (if obj_at ''stream'' p = JBool True \<and> \<not> allow_stream then
        Some ''streaming is unavailable for personal browser connections''
      else if has_non_empty_collection (obj_at ''tools'' p) \<or> has_non_empty_collection (obj_at ''functions'' p) then
        Some ''tools are unavailable for personal browser connections''
      else if has_non_empty_collection (obj_at ''images'' p) \<or> has_non_empty_collection (obj_at ''audio'' p)
              \<or> has_non_empty_collection (obj_at ''web_search_options'' p) then
        Some ''image, audio, and web capabilities are unavailable for this connection''
      else if \<not> text_only (obj_at ''modalities'' p) then
        Some ''non-text modalities are unavailable for this connection''
      else None)"

definition prompt_of_kind :: "(string \<Rightarrow> string) \<Rightarrow> string \<Rightarrow> obj \<Rightarrow> string res" where
  "prompt_of_kind q kind p =
     (let k = to_lower (trim_space kind) in
      if k = ''chat'' \<or> k = ''chat.completions'' \<or> k = ''chat_completion'' then prompt_from_messages q (obj_at ''messages'' p)
      else if k = ''responses'' \<or> k = ''response'' then prompt_from_responses_input q (obj_at ''input'' p)
      else Inl (unsupported (''request kind '' @ q kind)))"

definition prompt_from_request :: "(string \<Rightarrow> string) \<Rightarrow> bool \<Rightarrow> string \<Rightarrow> obj \<Rightarrow> string res" where
  "prompt_from_request q allow_stream kind p =
     (case asks_more_than_text allow_stream p of
        Some detail \<Rightarrow> Inl (unsupported detail)
      | None \<Rightarrow>
          (case prompt_of_kind q kind p of
             Inl e \<Rightarrow> Inl e
           | Inr raw \<Rightarrow>
               (let prompt = trim_space raw in
                if prompt = [] \<or> length prompt > max_prompt_bytes
                then Inl (unsupported ''text input is empty or too large'') else Inr prompt)))"

definition prompt_from_openai_request :: "(string \<Rightarrow> string) \<Rightarrow> string \<Rightarrow> obj \<Rightarrow> string res" where
  "prompt_from_openai_request q kind p = prompt_from_request q False kind p"

definition prompt_from_official_request :: "(string \<Rightarrow> string) \<Rightarrow> string \<Rightarrow> obj \<Rightarrow> string res" where
  "prompt_from_official_request q kind p = prompt_from_request q True kind p"

section \<open>Reading what OpenCLI printed\<close>

fun first_string :: "obj \<Rightarrow> string list \<Rightarrow> string" where
  "first_string m [] = []"
| "first_string m (k # ks) =
     (let v = trim_space (string_value (obj_at k m)) in if v \<noteq> [] then v else first_string m ks)"

definition classify_opencli_error :: "string \<Rightarrow> string" where
  "classify_opencli_error message =
     (let text = to_lower message; any = list_ex (str_contains text) in
      if any [''captcha'', ''challenge'', ''verify you are human'', runes [0x9A8C, 0x8BC1, 0x7801],
              runes [0x4EBA, 0x673A, 0x9A8C, 0x8BC1]] then ''security_challenge''
      else if any [''429'', ''too many request'', ''rate limit'', runes [0x9891, 0x7387, 0x9650, 0x5236],
              runes [0x8BF7, 0x6C42, 0x8FC7, 0x4E8E, 0x9891, 0x7E41]] then ''rate_limited''
      else if any [''403'', ''forbidden'', ''access denied'', runes [0x8BBF, 0x95EE, 0x88AB, 0x62D2, 0x7EDD]]
      then ''access_denied''
      else if any [''selector'', ''element not found'', ''cannot find element'', runes [0x9875, 0x9762, 0x7ED3, 0x6784],
              runes [0x9002, 0x914D, 0x5668]] then ''adapter_incompatible''
      else if any [''browser_connect''] \<or> any [''extension''] \<and> any [''not connected'']
              \<or> any [''profile''] \<and> any [''not connected''] \<or> any [''daemon''] \<and> any [''not running'']
              \<or> any [''service unavailable''] then ''upstream_unavailable''
      else if any [''timeout'', ''timed out'', ''network'', ''connection reset'', runes [0x8D85, 0x65F6],
              runes [0x7F51, 0x7EDC]] then ''upstream_unavailable''
      else if any [''auth_required'', ''not logged'', ''cookie missing'', ''anonymous'', ''login'', ''log in'', ''sign in'',
              ''unauthorized'', runes [0x767B, 0x5F55]] then ''login_required''
      else ''opencli_failed'')"

definition opencli_result_object :: "json \<Rightarrow> obj res" where
  "opencli_result_object v = (case v of
      JObj m \<Rightarrow> Inr m
    | JArr [item] \<Rightarrow>
        (case item of JObj m \<Rightarrow> Inr m | _ \<Rightarrow> Inl (ErrNamed ''OpenCLI response result is invalid''))
    | _ \<Rightarrow> Inl (ErrNamed ''OpenCLI response must contain exactly one result''))"

text \<open>
  \<open>maskAccount\<close>: \<open>value[:1]\<close> is the first byte, not the first rune. \<open>index_byte\<close> is
  \<open>strings.IndexByte\<close>, -1 where there is none.
\<close>

fun index_from :: "int \<Rightarrow> char \<Rightarrow> string \<Rightarrow> int" where
  "index_from i c [] = - 1"
| "index_from i c (x # xs) = (if x = c then i else index_from (i + 1) c xs)"

definition index_byte :: "string \<Rightarrow> char \<Rightarrow> int" where
  "index_byte s c = index_from 0 c s"

definition last_rune :: "string \<Rightarrow> string" where
  "last_rune s = drop (length (take_runes (rune_count s - 1) s)) s"

definition mask_account :: "string \<Rightarrow> string" where
  "mask_account value0 =
     (let v = trim_space value0; i = index_byte v CHR ''@'' in
      if v = [] then runes [0x5DF2, 0x8BC6, 0x522B, 0x767B, 0x5F55, 0x8D26, 0x53F7]
      else if i > 1 then take 1 v @ ''***'' @ drop (nat i) v
      else if rune_count v \<le> 3 then ''***''
      else take_runes 2 v @ ''***'' @ last_rune v)"

text \<open>
  \<open>truncateText\<close>. Its loop runs until the string is valid: \<open>None\<close> would be a loop that never ends or
  a slice of the empty string.
\<close>

partial_function (option) shrink_to_valid :: "string \<Rightarrow> string option" where
  "shrink_to_valid v = (if valid_utf8 v then Some v else if v = [] then None else shrink_to_valid (butlast v))"

definition truncate_text :: "string \<Rightarrow> nat \<Rightarrow> string option" where
  "truncate_text v0 max_bytes =
     (let v = trim_space v0 in if length v \<le> max_bytes then Some v else shrink_to_valid (take max_bytes v))"

text \<open>The last of the three spellings that is a boolean counts.\<close>

definition logged_in :: "obj \<Rightarrow> bool" where
  "logged_in data =
     foldl (\<lambda>found k. case obj_at k data of JBool b \<Rightarrow> b | _ \<Rightarrow> found) False
       [''loggedIn'', ''logged_in'', ''authenticated'']"

definition status_result :: "(string \<Rightarrow> string) \<Rightarrow> obj \<Rightarrow> connector_result" where
  "status_result sha data =
     (let identity = first_string data [''user_id'', ''userId'', ''id'', ''email'', ''account'', ''username'', ''name'', ''displayName''];
          account = first_string data [''email'', ''account'', ''username'', ''name'', ''displayName'', ''user_id'', ''userId'', ''id'']
      in if \<not> logged_in data then failure_result ''login_required''
         else if identity = [] then failure_result ''opencli_failed''
         else \<lparr>br_ok = True, br_content = [], br_mask = mask_account account,
            br_fingerprint = account_fingerprint sha (first_string data [''site'']) identity, br_code = [], br_message = []\<rparr>)"

definition ask_result :: "obj \<Rightarrow> connector_result res" where
  "ask_result data =
     (let content = first_string data [''content'', ''answer'', ''text'', ''result'', ''response''] in
      if content = [] then Inl (ErrNamed ''OpenCLI response does not contain model text'')
      else if str_contains (to_upper content) ''[NO RESPONSE]'' then Inr (failure_result ''opencli_failed'')
      else case truncate_text content max_prompt_bytes of
        None \<Rightarrow> Inl (ErrPanic ''truncateText'')
      | Some text \<Rightarrow> Inr \<lparr>br_ok = True, br_content = text, br_mask = [], br_fingerprint = [], br_code = [], br_message = []\<rparr>)"

definition normalize_opencli_result ::
  "(string \<Rightarrow> string + json) \<Rightarrow> (string \<Rightarrow> string) \<Rightarrow> string \<Rightarrow> string \<Rightarrow> connector_result res"
where
  "normalize_opencli_result dec sha action0 raw =
     (case dec raw of
        Inl e \<Rightarrow> Inl (ErrNamed (''OpenCLI returned invalid JSON: '' @ e))
      | Inr decoded \<Rightarrow>
          (case opencli_result_object decoded of
             Inl e \<Rightarrow> Inl e
           | Inr payload \<Rightarrow>
               (let message0 = first_string payload [''error'', ''message''];
                    message = (if message0 = [] then runes [0x6D4F, 0x89C8, 0x5668, 0x4EFB, 0x52A1, 0x6267, 0x884C, 0x5931, 0x8D25]
                               else message0);
                    data = (case obj_at ''data'' payload of JObj m \<Rightarrow> m | _ \<Rightarrow> payload);
                    action = to_lower (trim_space action0)
                in if obj_at ''success'' payload = JBool False then Inr (failure_result (classify_opencli_error message))
                   else if action = ''ask'' then ask_result data
                   else if action = ''status'' then Inr (status_result sha data)
                   else Inl (ErrNamed ''browser action is unsupported''))))"

definition normalize_command_failure :: "string \<Rightarrow> connector_result" where
  "normalize_command_failure raw =
     (let code = classify_opencli_error raw
      in failure_result (if code = ''opencli_failed'' then ''opencli_command_failed'' else code))"

section \<open>The executor\<close>

fun err_text :: "err \<Rightarrow> string" where
  "err_text (ErrNamed s) = s"
| "err_text (ErrConstraint s) = s"
| "err_text (ErrPanic s) = s"
| "err_text ErrNoRows = ''no rows in result set''"

text \<open>\<open>Executor.Execute\<close>: \<open>run args\<close> is what the command printed and whether it ended with an error.\<close>

definition execute_browser_task ::
  "(string \<Rightarrow> string + json) \<Rightarrow> (string \<Rightarrow> string) \<Rightarrow> (string list \<Rightarrow> string \<times> bool) \<Rightarrow> browser_order \<Rightarrow> connector_result"
where
  "execute_browser_task dec sha run t =
     (case build_opencli_command t of
        Inl e \<Rightarrow> refused_result ''task_rejected'' (err_text e)
      | Inr args \<Rightarrow>
          (let (raw, run_err) = run args in
           case normalize_opencli_result dec sha (bo_action t) raw of
             Inl e \<Rightarrow>
               if run_err then normalize_command_failure raw else refused_result ''opencli_command_failed'' (err_text e)
           | Inr result \<Rightarrow>
               if run_err \<and> br_ok result
               then refused_result ''opencli_command_failed''
                 ''OpenCLI command failed; confirm Chrome and the OpenCLI extension are connected''
               else result))"

definition is_digit :: "char \<Rightarrow> bool" where
  "is_digit c = (let n = byte_of c in 48 \<le> n \<and> n \<le> 57)"

text \<open>\<open>versionPattern\<close>, \<open>\d+\.\d+\.\d+\<close>, at the start of a string: the three numbers. \<open>FindString\<close> takes the leftmost.\<close>

definition version_here :: "string \<Rightarrow> (string \<times> string \<times> string) option" where
  "version_here s =
     (let a = takeWhile is_digit s; s1 = dropWhile is_digit s;
          b = takeWhile is_digit (tl s1); s2 = dropWhile is_digit (tl s1);
          c = takeWhile is_digit (tl s2)
      in if a \<noteq> [] \<and> has_prefix s1 ''.'' \<and> b \<noteq> [] \<and> has_prefix s2 ''.'' \<and> c \<noteq> [] then Some (a, b, c) else None)"

fun find_version :: "string \<Rightarrow> (string \<times> string \<times> string) option" where
  "find_version [] = None"
| "find_version (c # cs) = (case version_here (c # cs) of Some v \<Rightarrow> Some v | None \<Rightarrow> find_version cs)"

definition compare_versions :: "string \<times> string \<times> string \<Rightarrow> string \<times> string \<times> string \<Rightarrow> int" where
  "compare_versions l r =
     (case (l, r) of ((a, b, c), (a', b', c')) \<Rightarrow>
        if atoi_value a < atoi_value a' then - 1 else if atoi_value a > atoi_value a' then 1
        else if atoi_value b < atoi_value b' then - 1 else if atoi_value b > atoi_value b' then 1
        else if atoi_value c < atoi_value c' then - 1 else if atoi_value c > atoi_value c' then 1
        else 0)"

text \<open>\<open>Executor.Version\<close> of what \<open>--version\<close> printed, \<open>None\<close> when the command failed.\<close>

definition executor_version :: "string option \<Rightarrow> (string \<times> string \<times> string) res" where
  "executor_version output = (case output of
      None \<Rightarrow> Inl (ErrNamed ''OpenCLI is unavailable'')
    | Some raw \<Rightarrow>
        (case find_version raw of
           None \<Rightarrow> Inl (ErrNamed ''OpenCLI version could not be detected'')
         | Some v \<Rightarrow>
             if compare_versions v (''1'', ''8'', ''6'') < 0 then Inl (ErrNamed ''OpenCLI 1.8.6 or newer is required'')
             else Inr v))"

definition executor_doctor :: "string \<Rightarrow> bool \<Rightarrow> unit res" where
  "executor_doctor raw failed =
     (let text = to_lower raw; has = str_contains text in
      if failed \<or> has ''[fail]'' \<or> has ''[missing] extension'' \<or> has ''extension: not connected''
         \<or> has ''browser profile'' \<and> has ''not connected'' \<or> \<not> has ''extension: connected''
         \<or> \<not> has ''connectivity: passed''
      then Inl (ErrNamed ''OpenCLI browser check failed; run opencli doctor and confirm Chrome Bridge is connected'')
      else Inr ())"

end
