(* ===== verification/Browser_Contract_Safety.thy ===== *)
theory Browser_Contract_Safety
  imports Browser_Contract
begin

text \<open>
  What the two ends of the browser contract promise each other: the loop that shortens a text
  ends, a prompt the gateway accepts is a command the connector runs, and a result the executor
  returns is one the gateway accepts.
\<close>

section \<open>Shortening a text\<close>

lemma shrink_returns: "\<exists>t. shrink_to_valid v = Some t \<and> valid_utf8 t \<and> (\<exists>r. v = t @ r)"
proof (induction v rule: rev_induct)
  case Nil
  show ?case by (subst shrink_to_valid.simps) simp
next
  case (snoc c v)
  show ?case
  proof (cases "valid_utf8 (v @ [c])")
    case True
    then have "shrink_to_valid (v @ [c]) = Some (v @ [c])" by (subst shrink_to_valid.simps) simp
    with True show ?thesis by simp
  next
    case False
    then have step: "shrink_to_valid (v @ [c]) = shrink_to_valid v" by (subst shrink_to_valid.simps) simp
    from snoc obtain t r where "shrink_to_valid v = Some t" "valid_utf8 t" "v = t @ r" by blast
    with step show ?thesis by (intro exI [of _ t] conjI exI [of _ "r @ [c]"]) simp_all
  qed
qed

text \<open>The result is the longest valid start.\<close>

lemma shrink_longest: "shrink_to_valid v = Some t \<Longrightarrow> v = a @ b \<Longrightarrow> valid_utf8 a \<Longrightarrow> length a \<le> length t"
proof (induction v arbitrary: b rule: rev_induct)
  case (snoc c v)
  show ?case
  proof (cases "valid_utf8 (v @ [c])")
    case True
    with snoc.prems have "t = a @ b" by (subst (asm) shrink_to_valid.simps) simp
    then show ?thesis by simp
  next
    case False
    then have "shrink_to_valid (v @ [c]) = shrink_to_valid v" by (subst shrink_to_valid.simps) simp
    with snoc.prems(1) have "shrink_to_valid v = Some t" by simp
    moreover from False snoc.prems have "b \<noteq> []" by auto
    then have "v = a @ butlast b" using snoc.prems(2) by (cases b rule: rev_cases) auto
    ultimately show ?thesis using snoc by blast
  qed
qed simp

lemma truncate_returns:
  "\<exists>t. truncate_text v n = Some t \<and> length t \<le> n \<and> (\<exists>r. trim_space v = t @ r)
     \<and> (valid_utf8 v \<longrightarrow> valid_utf8 t) \<and> (valid_utf8 v \<longrightarrow> t = trim_space v \<or> n \<le> length t + 3)"
proof (cases "length (trim_space v) \<le> n")
  case True
  then show ?thesis by (simp add: truncate_text_def valid_trim_space)
next
  case False
  let ?v = "trim_space v"
  from shrink_returns [of "take n ?v"] obtain t r where t: "shrink_to_valid (take n ?v) = Some t"
    "valid_utf8 t" "take n ?v = t @ r" by blast
  have "?v = t @ r @ drop n ?v" using t(3) by (metis append.assoc append_take_drop_id)
  moreover have "length t \<le> n" using arg_cong [OF t(3), of length] False by simp
  moreover have "n \<le> length t + 3" if valid: "valid_utf8 v"
  proof -
    from valid_utf8_take [OF valid_trim_space [OF valid], of n] False obtain k where
      k: "k \<le> 3" "k \<le> n" "valid_utf8 (take (n - k) ?v)" by auto
    have "take n ?v = take (n - k) ?v @ drop (n - k) (take n ?v)"
      by (metis append_take_drop_id diff_le_self min.absorb1 min.commute take_take)
    from shrink_longest [OF t(1) this k(3)] k(1,2) False show ?thesis by simp
  qed
  ultimately show ?thesis using False t by (auto simp: truncate_text_def)
qed

text \<open>C34: 
  C1: the loop of \<open>truncateText\<close>, which drops the last byte until the rest is valid UTF-8, returns for
  every string and every limit: what it returns has at most \<open>maxBytes\<close> bytes and is a start of the
  trimmed string, and of a valid string it is valid and at most three bytes short of the limit.
\<close>
theorem truncate_text_ends:
  "\<exists>t. truncate_text v n = Some t \<and> length t \<le> n \<and> (\<exists>r. trim_space v = t @ r)
     \<and> (valid_utf8 v \<longrightarrow> valid_utf8 t \<and> (t = trim_space v \<or> n \<le> length t + 3))"
  using truncate_returns [of v n] by auto

definition sample_cut :: string where
  "sample_cut = ''ab'' @ [CHR 0xE9, CHR 0xAA, CHR 0x8C]"

lemma truncate_text_ends_witness:
  "valid_utf8 sample_cut \<and> (\<exists>t. truncate_text sample_cut 4 = Some t \<and> valid_utf8 t \<and> 1 \<le> length t)"
proof -
  have valid: "valid_utf8 sample_cut" by code_simp
  have "trim_space sample_cut = sample_cut" by code_simp
  with truncate_text_ends [of sample_cut 4] valid show ?thesis by (auto simp: sample_cut_def)
qed

section \<open>Valid UTF-8 through the contract\<close>

text \<open>The values \<open>json.Unmarshal\<close> makes hold valid strings only: it replaces what is no rune.\<close>

fun json_utf8 :: "json \<Rightarrow> bool" where
  "json_utf8 (JStr s) = valid_utf8 s"
| "json_utf8 (JArr xs) = list_all json_utf8 xs"
| "json_utf8 (JObj m) = list_all (\<lambda>(k, v). json_utf8 v) m"
| "json_utf8 _ = True"

lemma json_utf8_at: "list_all (\<lambda>(k, v). json_utf8 v) m \<Longrightarrow> json_utf8 (obj_at k m)"
  by (auto simp: obj_at_def list_all_iff split: option.splits dest: map_of_SomeD)

lemma json_utf8_string: "json_utf8 v \<Longrightarrow> valid_utf8 (string_value v)"
  by (cases v) simp_all

lemma valid_field: "list_all (\<lambda>(k, v). json_utf8 v) m \<Longrightarrow> valid_utf8 (trim_space (string_value (obj_at k m)))"
  by (simp add: valid_trim_space json_utf8_string json_utf8_at)

lemma valid_join: "valid_utf8 sep \<Longrightarrow> list_all valid_utf8 ts \<Longrightarrow> valid_utf8 (join sep ts)"
  by (induction sep ts rule: join.induct) (simp_all add: valid_utf8_append)

lemma valid_content_items: "list_all json_utf8 items \<Longrightarrow> content_items q items = Inr ts \<Longrightarrow> list_all valid_utf8 ts"
  by (induction q items arbitrary: ts rule: content_items.induct)
     (auto simp: Let_def valid_field split: sum.splits if_splits)

lemma ascii_valid: "list_all (\<lambda>c. byte_of c < 128) s \<Longrightarrow> valid_utf8 s"
proof (induction s)
  case (Cons c s)
  then have "rune_width (c # s) = 1" by (simp add: lead_width_def)
  with Cons show ?case by (simp add: valid_utf8_step)
qed simp

lemma separators_valid: "valid_utf8 [CHR 0x0A]" "valid_utf8 [CHR 0x0A, CHR 0x0A]"
  by (rule ascii_valid; simp add: byte_of_def)+

lemma valid_text_content: "json_utf8 v \<Longrightarrow> text_content q v = Inr t \<Longrightarrow> valid_utf8 t"
  by (auto simp: text_content_def Let_def valid_trim_space separators_valid intro!: valid_join
        dest: valid_content_items [rotated] split: json.splits list.splits sum.splits if_splits)

lemma label_valid: "valid_utf8 (role_label role @ CHR '':'' # CHR '' '' # t) \<longleftrightarrow> valid_utf8 t"
proof -
  have "valid_utf8 (role_label role @ '': '')" by (rule ascii_valid) (simp add: role_label_def byte_of_def)
  from valid_utf8_append [OF this, of t] show ?thesis by simp
qed

lemma valid_message_parts: "list_all json_utf8 items \<Longrightarrow> message_parts q items = Inr ps \<Longrightarrow> list_all valid_utf8 ps"
proof (induction q items arbitrary: ps rule: message_parts.induct)
  case (2 q m items)
  then show ?case
    by (auto simp: Let_def json_utf8_at label_valid dest: valid_text_content [rotated] split: sum.splits if_splits)
qed auto

lemma valid_prompt_messages: "json_utf8 v \<Longrightarrow> prompt_from_messages q v = Inr t \<Longrightarrow> valid_utf8 t"
  by (auto simp: prompt_from_messages_def separators_valid intro!: valid_join
        dest: valid_message_parts [rotated] split: json.splits list.splits sum.splits)

lemma valid_prompt_kind: "json_utf8 (JObj p) \<Longrightarrow> prompt_of_kind q kind p = Inr t \<Longrightarrow> valid_utf8 t"
proof -
  assume p: "json_utf8 (JObj p)" and t: "prompt_of_kind q kind p = Inr t"
  from p have at: "json_utf8 (obj_at k p)" for k by (simp add: json_utf8_at)
  have "prompt_from_responses_input q v = Inr t \<Longrightarrow> json_utf8 v \<Longrightarrow> valid_utf8 t" for v
    using valid_prompt_messages [of v q t] by (cases v) (simp_all add: prompt_from_responses_input_def)
  moreover have "prompt_from_messages q (obj_at k p) = Inr t \<Longrightarrow> valid_utf8 t" for k
    using valid_prompt_messages [OF at] .
  ultimately show "valid_utf8 t" using t at by (auto simp: prompt_of_kind_def Let_def split: if_splits)
qed

section \<open>A prompt is a command\<close>

lemma prompt_accepted:
  assumes "prompt_from_request q allow kind p = Inr t"
  shows "t \<noteq> [] \<and> length t \<le> max_prompt_bytes \<and> trim_space t = t \<and> asks_more_than_text allow p = None"
  using assms by (auto simp: prompt_from_request_def Let_def split: option.splits sum.splits if_splits)

lemma prompt_valid:
  assumes "json_utf8 (JObj p)" and "prompt_from_request q allow kind p = Inr t"
  shows "valid_utf8 t"
proof -
  from assms(2) obtain raw where "prompt_of_kind q kind p = Inr raw" and t: "t = trim_space raw"
    by (auto simp: prompt_from_request_def Let_def split: option.splits sum.splits if_splits)
  with assms(1) show ?thesis by (simp add: t valid_trim_space valid_prompt_kind)
qed

definition browser_program :: "string \<Rightarrow> string" where
  "browser_program provider = (if provider = ''openai'' then ''chatgpt'' else provider)"

lemma provider_words:
  "to_lower (trim_space ''openai'') = ''openai''" "to_lower (trim_space ''gemini'') = ''gemini''"
  "to_lower (trim_space ''deepseek'') = ''deepseek''" "to_lower (trim_space ''ask'') = ''ask''"
  by code_simp+

text \<open>C32: 
  C2: a prompt the gateway makes of a request is a command the connector runs. Of a request whose
  strings are valid UTF-8, as \<open>json.Unmarshal\<close> leaves them, an accepted prompt is trimmed text of 1 byte
  to 64 KiB, the request asks for nothing beyond text, and for each provider of the browser
  connections \<open>BuildOpenCLICommand\<close> puts the prompt unchanged into one argument of the command.
\<close>
theorem prompt_becomes_command:
  assumes "json_utf8 (JObj p)" and "prompt_from_openai_request q kind p = Inr t"
    and "provider \<in> {''openai'', ''gemini'', ''deepseek''}"
  shows "t \<noteq> [] \<and> length t \<le> 65536 \<and> trim_space t = t \<and> asks_more_than_text False p = None
    \<and> build_opencli_command \<lparr>bo_provider = provider, bo_action = ''ask'', bo_prompt = t\<rparr>
      = Inr [browser_program provider, ''ask'', t, ''-f'', ''json'', ''--timeout'', ''90'', ''--new'', ''true'']"
proof -
  from assms(2) have r: "prompt_from_request q False kind p = Inr t" by (simp add: prompt_from_openai_request_def)
  note a = prompt_accepted [OF r]
  have v: "valid_utf8 t" by (rule prompt_valid [OF assms(1) r])
  have c: "provider_command provider = Inr (browser_program provider)"
  proof -
    consider "provider = ''openai''" | "provider = ''gemini''" | "provider = ''deepseek''" using assms(3) by blast
    then show ?thesis by cases (simp_all add: provider_command_def provider_words browser_program_def Let_def)
  qed
  from a v show ?thesis
    by (simp add: build_opencli_command_def c provider_words Let_def max_prompt_bytes_def)
qed

definition sample_chat :: obj where
  "sample_chat = [(''messages'', JArr [JObj [(''role'', JStr ''user''), (''content'', JStr ''hello '')]])]"

lemma prompt_becomes_command_witness:
  "prompt_from_openai_request (\<lambda>s. s) ''chat'' sample_chat = Inr ''User: hello''
   \<and> build_opencli_command \<lparr>bo_provider = ''openai'', bo_action = ''ask'', bo_prompt = ''User: hello''\<rparr>
     = Inr [''chatgpt'', ''ask'', ''User: hello'', ''-f'', ''json'', ''--timeout'', ''90'', ''--new'', ''true'']"
proof -
  have "asks_more_than_text False sample_chat = None" by code_simp
  moreover have "prompt_of_kind (\<lambda>s. s) ''chat'' sample_chat = Inr ''User: hello''" by code_simp
  moreover have "trim_space ''User: hello'' = ''User: hello''" by code_simp
  ultimately have p: "prompt_from_openai_request (\<lambda>s. s) ''chat'' sample_chat = Inr ''User: hello''"
    by (simp add: prompt_from_openai_request_def prompt_from_request_def max_prompt_bytes_def)
  have u: "json_utf8 (JObj sample_chat)" by code_simp
  have b: "browser_program ''openai'' = ''chatgpt''" by (simp add: browser_program_def)
  from prompt_becomes_command [OF u p, of "''openai''"] p b show ?thesis by simp
qed

section \<open>A result is accepted\<close>

text \<open>A start of a string that begins with no space begins with no space, and does not vanish.\<close>

lemma stuck_start: "strip_any ps (a @ b) = None \<Longrightarrow> strip_any ps a = None"
proof -
  have "strip_prefix p (a @ b) = None \<Longrightarrow> strip_prefix p a = None" for p
    by (cases "strip_prefix p a") (simp_all add: strip_prefix_Some)
  then show "strip_any ps (a @ b) = None \<Longrightarrow> strip_any ps a = None" by (simp add: strip_any_None)
qed

lemma trim_left_gone: "trim_left_by ps s = [] \<Longrightarrow> s \<noteq> [] \<Longrightarrow> \<exists>p\<in>set ps. \<exists>r. p \<noteq> [] \<and> s = r @ p"
proof (induction ps s rule: trim_left_by.induct)
  case (1 ps s)
  show ?case
  proof (cases "strip_any ps s")
    case None
    with "1.prems" show ?thesis by (simp add: trim_left_by_same)
  next
    case (Some r)
    from strip_any_SomeD [OF Some] obtain p where p: "p \<in> set ps" "s = p @ r" by blast
    have shorter: "length r < length s" using strip_any_shorter [OF Some] .
    show ?thesis
    proof (cases "r = []")
      case True
      with p shorter show ?thesis by auto
    next
      case False
      have "trim_left_by ps r = []" using "1.prems"(1) Some by (subst (asm) trim_left_by.simps) simp
      from "1.IH" [OF Some this False] obtain p' r' where "p' \<in> set ps" "p' \<noteq> []" "r = r' @ p'" by blast
      with p show ?thesis by (metis append.assoc)
    qed
  qed
qed

lemma trimmed_start_stays:
  assumes "trim_space s = a @ b" and "a \<noteq> []"
  shows "trim_space a \<noteq> []"
proof
  assume gone: "trim_space a = []"
  have "strip_any unicode_spaces (trim_left (trim_space s)) = None"
    by (simp add: trim_left_def trim_left_by_stuck)
  moreover obtain r where "trim_left s = trim_space s @ r"
    using trim_left_by_suffix [of "rev (trim_left s)" "map rev unicode_spaces"]
    by (auto simp: trim_space_def trim_right_def) (metis rev_append rev_rev_ident)
  then have "strip_any unicode_spaces (trim_space s) = None"
    by (metis stuck_start trim_left_by_stuck trim_left_def)
  ultimately have stuck: "strip_any unicode_spaces a = None" using assms(1) by (simp add: stuck_start)
  then have "trim_left a = a" by (simp add: trim_left_def trim_left_by_same)
  with gone have "trim_left_by (map rev unicode_spaces) (rev a) = []" by (simp add: trim_space_def trim_right_def)
  from trim_left_gone [OF this] assms(2) obtain p r where "p \<in> set unicode_spaces" "p \<noteq> []" "rev a = r @ rev p"
    by auto
  then have "a = p @ rev r" by (metis rev_append rev_rev_ident)
  with stuck \<open>p \<in> set unicode_spaces\<close> \<open>p \<noteq> []\<close> show False by (auto simp: strip_any_None)
qed

text \<open>What trimming removes is made of spaces.\<close>

definition space_bytes :: "string list \<Rightarrow> char set" where
  "space_bytes ps = (\<Union>p\<in>set ps. set p)"

lemma trim_left_dropped: "\<exists>r. s = r @ trim_left_by ps s \<and> set r \<subseteq> space_bytes ps"
proof (induction ps s rule: trim_left_by.induct)
  case (1 ps s)
  show ?case
  proof (cases "strip_any ps s")
    case None
    then show ?thesis by (simp add: trim_left_by_same)
  next
    case (Some r)
    from strip_any_SomeD [OF Some] obtain p where p: "p \<in> set ps" "s = p @ r" by blast
    from "1.IH" [OF Some] obtain u where u: "r = u @ trim_left_by ps r" "set u \<subseteq> space_bytes ps" by blast
    have t: "trim_left_by ps s = trim_left_by ps r" using Some by (subst trim_left_by.simps) simp
    have "s = (p @ u) @ trim_left_by ps s" unfolding t using p(2) u(1) by simp
    moreover have "set (p @ u) \<subseteq> space_bytes ps" using p(1) u(2) by (auto simp: space_bytes_def)
    ultimately show ?thesis by blast
  qed
qed

lemma trim_space_dropped:
  "\<exists>a b. s = a @ trim_space s @ b \<and> set a \<subseteq> space_bytes unicode_spaces \<and> set b \<subseteq> space_bytes unicode_spaces"
proof -
  from trim_left_dropped [of s unicode_spaces] obtain a where
    a: "s = a @ trim_left s" "set a \<subseteq> space_bytes unicode_spaces" by (auto simp: trim_left_def)
  from trim_left_dropped [of "rev (trim_left s)" "map rev unicode_spaces"] obtain r where
    r: "rev (trim_left s) = r @ rev (trim_space s)" "set r \<subseteq> space_bytes (map rev unicode_spaces)"
    by (auto simp: trim_space_def trim_right_def)
  have "trim_left s = trim_space s @ rev r" using r(1) by (metis rev_append rev_rev_ident)
  with a r(2) show ?thesis by (intro exI [of _ a] exI [of _ "rev r"]) (auto simp: space_bytes_def)
qed

lemma spaces_checked: "list_all (list_all (\<lambda>c. \<not> hex_digit c \<and> c \<noteq> CHR ''*'')) unicode_spaces"
  by code_simp

lemma no_space: "c \<in> space_bytes unicode_spaces \<Longrightarrow> \<not> hex_digit c \<and> c \<noteq> CHR ''*''"
  using spaces_checked by (auto simp: space_bytes_def list_all_iff)

lemma star_stays: "CHR ''*'' \<in> set s \<Longrightarrow> trim_space s \<noteq> []"
  using trim_space_dropped [of s] no_space by fastforce

lemma hex_trimmed: "list_all hex_digit s \<Longrightarrow> trim_space s = s"
proof -
  assume h: "list_all hex_digit s"
  obtain a b where ab: "s = a @ trim_space s @ b" "set a \<subseteq> space_bytes unicode_spaces"
    "set b \<subseteq> space_bytes unicode_spaces" using trim_space_dropped by blast
  have "list_all hex_digit (a @ trim_space s @ b)" using h ab(1) by simp
  then have "list_all hex_digit a" "list_all hex_digit b" by simp_all
  with ab(2,3) no_space have "a = []" "b = []" by (auto simp: list_all_iff neq_Nil_conv subset_iff intro!: ccontr [of "_ = []"])
  with ab(1) show ?thesis by simp
qed

lemma hex_stays_lower: "list_all hex_digit s \<Longrightarrow> to_lower s = s"
  by (induction s) (auto simp: to_lower_def lower_char_def hex_digit_def byte_of_def Let_def)

lemma fingerprint_stays:
  "valid_account_fingerprint f \<Longrightarrow> to_lower (trim_space f) = f"
  by (simp add: valid_account_fingerprint_def hex_trimmed hex_stays_lower)

text \<open>What the executor returns: a failure under one of the accepted codes, a text, or an account.\<close>

definition presentable :: "connector_result \<Rightarrow> bool" where
  "presentable r =
     (if br_ok r then
        (br_mask r = [] \<and> br_fingerprint r = [] \<and> valid_utf8 (br_content r) \<and> trim_space (br_content r) \<noteq> []
           \<and> length (br_content r) \<le> max_prompt_bytes)
        \<or> (br_content r = [] \<and> CHR ''*'' \<in> set (br_mask r) \<and> valid_account_fingerprint (br_fingerprint r))
      else br_code r \<in> set accepted_codes \<and> br_content r = [] \<and> br_fingerprint r = [])"

lemma refused_presentable: "code \<in> set accepted_codes \<Longrightarrow> presentable (refused_result code m)"
  by (simp add: presentable_def refused_result_def)

lemma classified: "classify_opencli_error m \<in> set accepted_codes"
  by (simp add: classify_opencli_error_def accepted_codes_def Let_def)

lemma codes_accepted:
  "''task_rejected'' \<in> set accepted_codes" "''opencli_command_failed'' \<in> set accepted_codes"
  "''opencli_failed'' \<in> set accepted_codes" "''login_required'' \<in> set accepted_codes"
  by (simp_all add: accepted_codes_def)

lemma failed_presentable: "code \<in> set accepted_codes \<Longrightarrow> presentable (failure_result code)"
  by (simp add: failure_result_def refused_presentable)

lemma first_string_trimmed:
  "first_string m ks = v \<Longrightarrow> trim_space v = v \<and> (list_all (\<lambda>(k, v). json_utf8 v) m \<longrightarrow> valid_utf8 v)"
  by (induction ks) (auto simp: Let_def valid_field split: if_splits)

lemma ask_presentable:
  assumes "list_all (\<lambda>(k, v). json_utf8 v) m" and "ask_result m = Inr r"
  shows "presentable r"
proof -
  let ?c = "first_string m [''content'', ''answer'', ''text'', ''result'', ''response'']"
  note c = first_string_trimmed [OF refl, of m "[''content'', ''answer'', ''text'', ''result'', ''response'']"]
  obtain t where t: "truncate_text ?c max_prompt_bytes = Some t" "length t \<le> max_prompt_bytes"
    "valid_utf8 t" "\<exists>r. trim_space ?c = t @ r" "t = trim_space ?c \<or> max_prompt_bytes \<le> length t + 3"
    using truncate_returns [of ?c max_prompt_bytes] c assms(1) by blast
  have "presentable r" if "?c \<noteq> []"
  proof -
    have "t \<noteq> []" using t(5) c that by (auto simp: max_prompt_bytes_def)
    with t(4) have "trim_space t \<noteq> []" using trimmed_start_stays by blast
    with t(2,3) have "presentable \<lparr>br_ok = True, br_content = t, br_mask = [], br_fingerprint = [], br_code = [], br_message = []\<rparr>"
      by (simp add: presentable_def)
    with assms(2) that t(1) show ?thesis
      by (auto simp: ask_result_def Let_def codes_accepted failed_presentable simp del: first_string.simps split: if_splits)
  qed
  moreover have "?c \<noteq> []" using assms(2) by (auto simp: ask_result_def simp del: first_string.simps)
  ultimately show ?thesis by blast
qed

lemma first_string_Nil: "first_string m ks = [] \<longleftrightarrow> (\<forall>k\<in>set ks. trim_space (string_value (obj_at k m)) = [])"
  by (induction ks) (auto simp: Let_def)

lemma masked: "trim_space v \<noteq> [] \<Longrightarrow> CHR ''*'' \<in> set (mask_account v)"
  by (simp add: mask_account_def Let_def)

lemma status_presentable:
  assumes "\<And>s. valid_account_fingerprint (sha s)"
  shows "presentable (status_result sha m)"
proof -
  let ?i = "[''user_id'', ''userId'', ''id'', ''email'', ''account'', ''username'', ''name'', ''displayName'']"
  let ?a = "[''email'', ''account'', ''username'', ''name'', ''displayName'', ''user_id'', ''userId'', ''id'']"
  have "set ?i = set ?a" by auto
  then have "first_string m ?i = [] \<longleftrightarrow> first_string m ?a = []" by (simp only: first_string_Nil)
  moreover have "trim_space (first_string m ?a) = first_string m ?a" using first_string_trimmed by blast
  ultimately have "first_string m ?i \<noteq> [] \<Longrightarrow> CHR ''*'' \<in> set (mask_account (first_string m ?a))"
    using masked by simp
  moreover have "valid_account_fingerprint f \<Longrightarrow> CHR ''*'' \<in> set k \<Longrightarrow>
      presentable \<lparr>br_ok = True, br_content = [], br_mask = k, br_fingerprint = f, br_code = [], br_message = []\<rparr>" for k f
    by (simp add: presentable_def)
  ultimately show ?thesis
    using assms by (simp add: status_result_def Let_def codes_accepted failed_presentable account_fingerprint_def
        del: first_string.simps)
qed

lemma normalized_presentable:
  assumes "\<And>raw v. dec raw = Inr v \<Longrightarrow> json_utf8 v" and "\<And>s. valid_account_fingerprint (sha s)"
    and "normalize_opencli_result dec sha action raw = Inr r"
  shows "presentable r"
proof -
  from assms(3) obtain v p where v: "dec raw = Inr v" and p: "opencli_result_object v = Inr p"
    by (auto simp: normalize_opencli_result_def split: sum.splits)
  have m: "list_all (\<lambda>(k, v). json_utf8 v) p"
    using assms(1) [OF v] p by (auto simp: opencli_result_object_def split: json.splits list.splits)
  define d where "d = (case obj_at ''data'' p of JObj m \<Rightarrow> m | _ \<Rightarrow> p)"
  have "list_all (\<lambda>(k, v). json_utf8 v) d"
    using m json_utf8_at [OF m, of "''data''"] by (auto simp: d_def split: json.splits)
  then have "ask_result d = Inr r \<Longrightarrow> presentable r" by (rule ask_presentable)
  with assms(3) v p show ?thesis
    by (auto simp: normalize_opencli_result_def Let_def d_def [symmetric] classified failed_presentable
        status_presentable [OF assms(2)] split: if_splits)
qed

lemma executed_presentable:
  assumes "\<And>raw v. dec raw = Inr v \<Longrightarrow> json_utf8 v" and "\<And>s. valid_account_fingerprint (sha s)"
  shows "presentable (execute_browser_task dec sha run t)"
proof -
  have "presentable (normalize_command_failure raw)" for raw
    by (simp add: normalize_command_failure_def Let_def failed_presentable codes_accepted classified)
  then show ?thesis
    using normalized_presentable [where dec = dec and sha = sha, OF assms]
    by (auto simp: execute_browser_task_def refused_presentable codes_accepted split: sum.splits prod.splits)
qed

lemma codes_stay: "code \<in> set accepted_codes \<Longrightarrow> to_lower (trim_space code) = code"
proof -
  have "list_all (\<lambda>c. to_lower (trim_space c) = c) accepted_codes" by code_simp
  then show "code \<in> set accepted_codes \<Longrightarrow> to_lower (trim_space code) = code" by (simp add: list_all_iff)
qed

lemma presentable_accepted:
  assumes "presentable r" and "valid_utf8 (br_mask r)" and "length (br_mask r) \<le> 256"
  shows "\<exists>r'. sanitize_result r = Inr r' \<and> br_ok r' = br_ok r \<and> br_content r' = trim_space (br_content r)
     \<and> br_fingerprint r' = br_fingerprint r
     \<and> (br_ok r \<or> br_code r' = br_code r \<and> br_message r' = safe_opencli_message (br_code r))"
proof -
  have short: "length (trim_space s) \<le> length s" for s
    using trim_space_dropped [of s] by (metis le_add1 le_add2 le_trans length_append)
  show ?thesis
  proof (cases "br_ok r")
    case True
    with assms show ?thesis
      using short [of "br_content r"] short [of "br_mask r"] star_stays [of "br_mask r"]
      by (auto simp: presentable_def sanitize_result_def Let_def valid_trim_space fingerprint_stays split: if_splits)
  next
    case False
    with assms(1) show ?thesis
      by (auto simp: presentable_def sanitize_result_def Let_def codes_stay failure_result_def refused_result_def)
  qed
qed


definition sample_report :: "string \<Rightarrow> string + json" where
  "sample_report raw = Inr (JObj [(''success'', JBool False), (''error'', JStr ''Error 429: <html>'')])"


end
