(* ===== verification/Account_Store.thy ===== *)
theory Account_Store
  imports Connection_Store
begin

text \<open>
  Accounts: users, sessions and mail tokens (\<open>internal/store/store.go\<close>, \<open>internal/store/accounts.go\<close>) and the
  service over them (\<open>internal/auth/service.go\<close>). \<open>account_db\<close> also holds the workspaces and their members,
  which \<open>Workspace_Store\<close> and \<open>Account_Admin\<close> change, and the tables of gateways and connections. Those
  read the accounts through \<open>kdb_accounts\<close> and \<open>gdb_orgs\<close>, which \<open>synced\<close> derives from the tables here.

  bcrypt is a pair of functions, \<open>sha\<close> the hex SHA-256 of a token; random ids and tokens are
  arguments. A public user is the user without the password hash. Audit rows are (action, object);
  one that could not be written is not modelled.
\<close>

section \<open>Tables\<close>

record user =
  us_id :: string
  us_email :: string
  us_username :: string
  us_password :: string
  us_name :: string
  us_avatar :: string
  us_status :: string
  us_role :: string
  us_plan :: string
  us_verified :: "time option"
  us_origin :: string
  us_suspended :: "time option"
  us_deleted :: "time option"
  us_created :: time
  us_updated :: time

record login_session =
  se_id :: string
  se_user :: string
  se_hash :: string
  se_ip :: string
  se_agent :: string
  se_expires :: time
  se_revoked :: "time option"

record email_token =
  et_id :: string
  et_user :: string
  et_type :: string
  et_hash :: string
  et_expires :: time
  et_used :: "time option"

record workspace =
  wo_id :: string
  wo_name :: string
  wo_slug :: string
  wo_plan :: string
  wo_status :: string
  wo_timezone :: string
  wo_origin :: string
  wo_policy :: string
  wo_notify :: "string option"
  wo_suspended :: "time option"
  wo_deleted :: "time option"
  wo_created :: time
  wo_updated :: time

record member =
  mb_org :: string
  mb_user :: string
  mb_role :: string
  mb_group :: string
  mb_status :: string

text \<open>The rows of \<open>notification_channels\<close> and \<open>alert_rules\<close> as far as workspaces concern them.\<close>

record org_notifier =
  on_id :: string
  on_org :: string
  on_scope :: string
  on_enabled :: bool

record account_db =
  adb_users :: "user list"
  adb_sessions :: "login_session list"
  adb_tokens :: "email_token list"
  adb_orgs :: "workspace list"
  adb_members :: "member list"
  adb_notifiers :: "org_notifier list"
  adb_rules :: "org_notifier list"
  adb_store :: connection_db

definition accounts_of :: "account_db \<Rightarrow> accounts" where
  "accounts_of db =
     \<lparr>active_users = map us_id (filter (\<lambda>u. us_status u = ''active'' \<and> us_deleted u = None) (adb_users db)),
      active_orgs = map wo_id (filter (\<lambda>w. wo_status w = ''active'' \<and> wo_deleted w = None) (adb_orgs db)),
      active_members = map (\<lambda>m. (mb_org m, mb_user m)) (filter (\<lambda>m. mb_status m = ''active'') (adb_members db))\<rparr>"

definition orgs_of :: "account_db \<Rightarrow> org list" where
  "orgs_of db = map (\<lambda>w. \<lparr>og_id = wo_id w, og_active = (wo_status w = ''active''), og_deleted = (wo_deleted w \<noteq> None)\<rparr>)
     (adb_orgs db)"

definition synced :: "account_db \<Rightarrow> account_db" where
  "synced db = db\<lparr>adb_store := (adb_store db)\<lparr>kdb_accounts := accounts_of db,
     kdb_gateways := (kdb_gateways (adb_store db))\<lparr>gdb_orgs := orgs_of db\<rparr>\<rparr>\<rparr>"

definition audit_account :: "string \<Rightarrow> string \<Rightarrow> account_db \<Rightarrow> account_db" where
  "audit_account action object db = db\<lparr>adb_store := audit_connection action object (adb_store db)\<rparr>"

section \<open>Users\<close>

definition normalize_user_plan :: "string \<Rightarrow> string" where
  "normalize_user_plan plan =
     (let p = to_lower (trim_space plan) in
      if p = ''super_vip'' \<or> p = ''super-vip'' \<or> p = ''supervip'' \<or> p = ''vip'' then ''super_vip'' else ''free'')"

definition normalize_username :: "string \<Rightarrow> string" where
  "normalize_username v =
     filter (\<lambda>c. let n = of_char c :: nat in (97 \<le> n \<and> n \<le> 122) \<or> (48 \<le> n \<and> n \<le> 57) \<or> c = CHR ''_'' \<or> c = CHR ''-'' \<or> c = CHR ''.'')
       (to_lower (trim_space v))"

definition user_avatar :: "string \<Rightarrow> string" where
  "user_avatar name0 = (let name = trim_space name0 in if name = [] then ''U'' else to_upper (take_runes 1 name))"

definition public_user :: "user \<Rightarrow> user" where
  "public_user u = u\<lparr>us_password := [], us_plan := normalize_user_plan (us_plan u)\<rparr>"

definition user_active :: "user \<Rightarrow> bool" where
  "user_active u = (us_status u = ''active'')"

definition user_by_email :: "string \<Rightarrow> account_db \<Rightarrow> user res" where
  "user_by_email email db = query_row (\<lambda>u. us_email u = email \<and> user_active u) (adb_users db)"

definition user_by_id :: "string \<Rightarrow> account_db \<Rightarrow> user res" where
  "user_by_id uid db = query_row (\<lambda>u. us_id u = trim_space uid \<and> user_active u) (adb_users db)"

definition user_by_login :: "string \<Rightarrow> account_db \<Rightarrow> user res" where
  "user_by_login identifier0 db =
     (let identifier = to_lower (trim_space identifier0) in
      if CHR ''@'' \<in> set identifier then user_by_email identifier db
      else (let username = normalize_username identifier in
            if username = [] then Inl ErrNoRows
            else query_row (\<lambda>u. to_lower (us_username u) = username \<and> user_active u) (adb_users db)))"

definition before_at :: "string \<Rightarrow> string" where
  "before_at email = takeWhile (\<lambda>c. c \<noteq> CHR ''@'') email"

text \<open>The unique columns of a new user, in the order Postgres checks its indexes.\<close>

definition user_conflict :: "string \<Rightarrow> string \<Rightarrow> string \<Rightarrow> user list \<Rightarrow> err option" where
  "user_conflict uid email username users =
     (if sql_exists (\<lambda>u. us_id u = uid) users then Some (ErrConstraint ''users_pkey'')
      else if sql_exists (\<lambda>u. us_email u = email) users then Some (ErrConstraint ''users_email_key'')
      else if username \<noteq> [] \<and> sql_exists (\<lambda>u. us_username u \<noteq> [] \<and> to_lower (us_username u) = to_lower username) users
      then Some (ErrConstraint ''idx_users_username_lower'') else None)"

definition new_user :: "string \<Rightarrow> string \<Rightarrow> string \<Rightarrow> string \<Rightarrow> string \<Rightarrow> bool \<Rightarrow> time \<Rightarrow> user" where
  "new_user uid email username password name verified now =
     \<lparr>us_id = uid, us_email = email, us_username = username, us_password = password, us_name = name,
      us_avatar = user_avatar name, us_status = ''active'', us_role = ''user'', us_plan = ''free'',
      us_verified = (if verified then Some now else None), us_origin = ''runtime'', us_suspended = None, us_deleted = None,
      us_created = now, us_updated = now\<rparr>"

definition create_user ::
  "string \<Rightarrow> string \<Rightarrow> string \<Rightarrow> bool \<Rightarrow> string \<Rightarrow> time \<Rightarrow> account_db \<Rightarrow> user res \<times> account_db"
where
  "create_user email0 password name0 verified uuid now db =
     (let email = to_lower (trim_space email0); name1 = trim_space name0;
          name = (if name1 = [] then before_at email else name1); uid = ''usr_'' @ uuid;
          u = new_user uid email [] password name verified now
      in case user_conflict uid email [] (adb_users db) of
           Some e \<Rightarrow> (Inl e, db)
         | None \<Rightarrow> (Inr u, synced (db\<lparr>adb_users := adb_users db @ [u]\<rparr>)))"

definition update_user_profile :: "string \<Rightarrow> string \<Rightarrow> time \<Rightarrow> account_db \<Rightarrow> user res \<times> account_db" where
  "update_user_profile uid name0 now db =
     (let name = trim_space name0; sel = (\<lambda>u. us_id u = uid \<and> user_active u);
          db' = db\<lparr>adb_users := sql_update sel
            (\<lambda>u. u\<lparr>us_name := name, us_avatar := user_avatar name, us_updated := now\<rparr>) (adb_users db)\<rparr>
      in if name = [] then (Inl ErrNoRows, db) else (query_row sel (adb_users db'), db'))"

section \<open>Sessions\<close>

definition session_valid :: "string \<Rightarrow> time \<Rightarrow> login_session \<Rightarrow> bool" where
  "session_valid hash now s = (se_hash s = hash \<and> se_revoked s = None \<and> se_expires s > now)"

text \<open>\<open>UserBySession\<close>: the rows of the join that satisfy the condition.\<close>

definition session_users :: "string \<Rightarrow> time \<Rightarrow> account_db \<Rightarrow> user list" where
  "session_users hash now db =
     concat (map (\<lambda>s. filter (\<lambda>u. us_id u = se_user s \<and> user_active u) (adb_users db))
       (filter (session_valid hash now) (adb_sessions db)))"

definition user_by_session :: "string \<Rightarrow> time \<Rightarrow> account_db \<Rightarrow> user res" where
  "user_by_session hash now db = query_row (\<lambda>_. True) (session_users hash now db)"

definition create_session ::
  "string \<Rightarrow> string \<Rightarrow> string \<Rightarrow> string \<Rightarrow> time \<Rightarrow> string \<Rightarrow> account_db \<Rightarrow> unit res \<times> account_db"
where
  "create_session uid hash ip agent expires uuid db =
     (if \<not> sql_exists (\<lambda>u. us_id u = uid) (adb_users db) then (Inl (ErrConstraint ''auth_sessions_user_id_fkey''), db)
      else if sql_exists (\<lambda>s. se_id s = ''ses_'' @ uuid) (adb_sessions db) then (Inl (ErrConstraint ''auth_sessions_pkey''), db)
      else if sql_exists (\<lambda>s. se_hash s = hash) (adb_sessions db)
      then (Inl (ErrConstraint ''auth_sessions_session_hash_key''), db)
      else (Inr (), db\<lparr>adb_sessions := adb_sessions db @ [\<lparr>se_id = ''ses_'' @ uuid, se_user = uid, se_hash = hash, se_ip = ip,
             se_agent = agent, se_expires = expires, se_revoked = None\<rparr>]\<rparr>))"

definition revoke_sessions :: "(login_session \<Rightarrow> bool) \<Rightarrow> time \<Rightarrow> account_db \<Rightarrow> account_db" where
  "revoke_sessions sel now db =
     db\<lparr>adb_sessions := sql_update (\<lambda>s. sel s \<and> se_revoked s = None) (\<lambda>s. s\<lparr>se_revoked := Some now\<rparr>) (adb_sessions db)\<rparr>"

definition revoke_session :: "string \<Rightarrow> time \<Rightarrow> account_db \<Rightarrow> account_db" where
  "revoke_session hash now db = revoke_sessions (\<lambda>s. se_hash s = hash) now db"

definition revoke_user_sessions :: "string \<Rightarrow> string \<Rightarrow> time \<Rightarrow> account_db \<Rightarrow> account_db" where
  "revoke_user_sessions uid keep now db = revoke_sessions (\<lambda>s. se_user s = uid \<and> se_hash s \<noteq> keep) now db"

section \<open>Mail tokens\<close>

definition create_email_token ::
  "string \<Rightarrow> string \<Rightarrow> string \<Rightarrow> duration \<Rightarrow> string \<Rightarrow> time \<Rightarrow> account_db \<Rightarrow> unit res \<times> account_db"
where
  "create_email_token uid typ hash ttl uuid now db =
     (if \<not> sql_exists (\<lambda>u. us_id u = uid) (adb_users db) then (Inl (ErrConstraint ''email_tokens_user_id_fkey''), db)
      else if sql_exists (\<lambda>t. et_id t = ''emt_'' @ uuid) (adb_tokens db) then (Inl (ErrConstraint ''email_tokens_pkey''), db)
      else if sql_exists (\<lambda>t. et_hash t = hash) (adb_tokens db) then (Inl (ErrConstraint ''email_tokens_token_hash_key''), db)
      else (Inr (), db\<lparr>adb_tokens := adb_tokens db @ [\<lparr>et_id = ''emt_'' @ uuid, et_user = uid, et_type = typ, et_hash = hash,
             et_expires = now + ttl, et_used = None\<rparr>]\<rparr>))"

definition token_valid :: "string \<Rightarrow> string \<Rightarrow> time \<Rightarrow> email_token \<Rightarrow> bool" where
  "token_valid typ hash now t = (et_hash t = hash \<and> et_type t = typ \<and> et_used t = None \<and> et_expires t > now)"

definition use_token :: "string \<Rightarrow> string \<Rightarrow> time \<Rightarrow> account_db \<Rightarrow> string res \<times> account_db" where
  "use_token typ hash now db =
     (case query_row (token_valid typ hash now) (adb_tokens db) of
        Inl e \<Rightarrow> (Inl e, db)
      | Inr t \<Rightarrow> (Inr (et_user t),
          db\<lparr>adb_tokens := sql_update (token_valid typ hash now) (\<lambda>t. t\<lparr>et_used := Some now\<rparr>) (adb_tokens db)\<rparr>))"

definition verify_email :: "string \<Rightarrow> time \<Rightarrow> account_db \<Rightarrow> string res \<times> account_db" where
  "verify_email hash now db =
     (case use_token ''verify_email'' hash now db of
        (Inl e, _) \<Rightarrow> (Inl e, db)
      | (Inr uid, db1) \<Rightarrow> (Inr uid, db1\<lparr>adb_users := sql_update (\<lambda>u. us_id u = uid)
           (\<lambda>u. u\<lparr>us_verified := Some now, us_updated := now\<rparr>) (adb_users db1)\<rparr>))"

definition reset_password :: "string \<Rightarrow> string \<Rightarrow> time \<Rightarrow> account_db \<Rightarrow> string res \<times> account_db" where
  "reset_password hash password now db =
     (case use_token ''reset_password'' hash now db of
        (Inl e, _) \<Rightarrow> (Inl e, db)
      | (Inr uid, db1) \<Rightarrow> (Inr uid, revoke_sessions (\<lambda>s. se_user s = uid) now
           (db1\<lparr>adb_users := sql_update (\<lambda>u. us_id u = uid)
              (\<lambda>u. u\<lparr>us_password := password, us_updated := now\<rparr>) (adb_users db1)\<rparr>)))"

section \<open>The service\<close>

record auth_crypt =
  xc_hash :: "string \<Rightarrow> string \<Rightarrow> string res"
  xc_check :: "string \<Rightarrow> string \<Rightarrow> bool"
  xc_sha :: "string \<Rightarrow> string"

text \<open>The random values a request of the service draws.\<close>

record auth_draw =
  dr_salt :: string
  dr_user :: string
  dr_token_id :: string
  dr_token :: string
  dr_session_id :: string
  dr_session :: string

definition err_email_not_verified :: err where "err_email_not_verified = ErrNamed ''email not verified''"
definition err_invalid_password :: err where "err_invalid_password = ErrNamed ''invalid password''"
definition err_mismatch :: err where "err_mismatch = ErrNamed ''crypto/bcrypt: hashedPassword is not the hash of the given password''"

definition auth_register ::
  "auth_crypt \<Rightarrow> auth_draw \<Rightarrow> string \<Rightarrow> string \<Rightarrow> string \<Rightarrow> bool \<Rightarrow> time \<Rightarrow> account_db \<Rightarrow> (user \<times> string) res \<times> account_db"
where
  "auth_register x d email password name verify now db =
     (case xc_hash x (dr_salt d) password of
        Inl e \<Rightarrow> (Inl e, db)
      | Inr hash \<Rightarrow>
          (case create_user email hash name (\<not> verify) (dr_user d) now db of
             (Inl e, _) \<Rightarrow> (Inl e, db)
           | (Inr u, db1) \<Rightarrow>
               (if verify then
                  (case create_email_token (us_id u) ''verify_email'' (xc_sha x (''tok_'' @ dr_token d)) (24 * hour) (dr_token_id d) now db1 of
                     (Inl e, db2) \<Rightarrow> (Inl e, db2)
                   | (Inr _, db2) \<Rightarrow>
                       (Inr (public_user u, ''tok_'' @ dr_token d), audit_account ''auth.register'' (us_id u) db2))
                else (Inr (public_user u, []), audit_account ''auth.register'' (us_id u) db1))))"

definition requires_email_verification :: "user \<Rightarrow> bool \<Rightarrow> bool" where
  "requires_email_verification u required = (required \<and> us_role u = ''user'' \<and> us_verified u = None)"

definition session_ttl :: duration where "session_ttl = 30 * 24 * hour"

definition auth_login ::
  "auth_crypt \<Rightarrow> auth_draw \<Rightarrow> string \<Rightarrow> string \<Rightarrow> string \<Rightarrow> bool \<Rightarrow> string \<Rightarrow> string \<Rightarrow> time \<Rightarrow> account_db
    \<Rightarrow> (string \<times> user) res \<times> account_db"
where
  "auth_login x d identifier0 email password required ip agent now db =
     (let identifier = (if trim_space identifier0 = [] then email else trim_space identifier0) in
      case user_by_login (to_lower (trim_space identifier)) db of
        Inl e \<Rightarrow> (Inl e, db)
      | Inr u \<Rightarrow>
          if \<not> xc_check x (us_password u) password then (Inl err_mismatch, db)
          else if requires_email_verification u required then (Inl err_email_not_verified, db)
          else (case create_session (us_id u) (xc_sha x (''sess_'' @ dr_session d)) ip agent (now + session_ttl) (dr_session_id d) db of
             (Inl e, _) \<Rightarrow> (Inl e, db)
           | (Inr _, db1) \<Rightarrow> (Inr (''sess_'' @ dr_session d, public_user u), audit_account ''auth.login'' (us_id u) db1)))"

definition verify_password :: "auth_crypt \<Rightarrow> string \<Rightarrow> string \<Rightarrow> account_db \<Rightarrow> unit res" where
  "verify_password x uid password db =
     (case user_by_id uid db of
        Inl e \<Rightarrow> Inl e
      | Inr u \<Rightarrow> if xc_check x (us_password u) password then Inr () else Inl err_invalid_password)"

definition create_password_reset ::
  "auth_crypt \<Rightarrow> auth_draw \<Rightarrow> string \<Rightarrow> time \<Rightarrow> account_db \<Rightarrow> string res \<times> account_db"
where
  "create_password_reset x d email now db =
     (case user_by_email (to_lower (trim_space email)) db of
        Inl _ \<Rightarrow> (Inr [], db)
      | Inr u \<Rightarrow>
          (case create_email_token (us_id u) ''reset_password'' (xc_sha x (''tok_'' @ dr_token d)) hour (dr_token_id d) now db of
             (Inl e, _) \<Rightarrow> (Inl e, db)
           | (Inr _, db1) \<Rightarrow> (Inr (''tok_'' @ dr_token d), audit_account ''auth.password_reset_requested'' (us_id u) db1)))"

definition auth_verify_email :: "auth_crypt \<Rightarrow> string \<Rightarrow> time \<Rightarrow> account_db \<Rightarrow> unit res \<times> account_db" where
  "auth_verify_email x token now db =
     (case verify_email (xc_sha x token) now db of
        (Inl e, db1) \<Rightarrow> (Inl e, db1)
      | (Inr uid, db1) \<Rightarrow> (Inr (), audit_account ''auth.email_verified'' uid db1))"

definition auth_reset_password :: "auth_crypt \<Rightarrow> auth_draw \<Rightarrow> string \<Rightarrow> string \<Rightarrow> time \<Rightarrow> account_db \<Rightarrow> unit res \<times> account_db" where
  "auth_reset_password x d token password now db =
     (case xc_hash x (dr_salt d) password of
        Inl e \<Rightarrow> (Inl e, db)
      | Inr hash \<Rightarrow>
          (case reset_password (xc_sha x token) hash now db of
             (Inl e, db1) \<Rightarrow> (Inl e, db1)
           | (Inr uid, db1) \<Rightarrow> (Inr (), audit_account ''auth.password_reset'' uid db1)))"

definition auth_logout :: "auth_crypt \<Rightarrow> string \<Rightarrow> time \<Rightarrow> account_db \<Rightarrow> account_db" where
  "auth_logout x token now db = revoke_session (xc_sha x token) now db"

definition revoke_other_sessions :: "auth_crypt \<Rightarrow> string \<Rightarrow> string \<Rightarrow> time \<Rightarrow> account_db \<Rightarrow> account_db" where
  "revoke_other_sessions x uid current now db = revoke_user_sessions uid (xc_sha x current) now db"

definition user_for_session :: "auth_crypt \<Rightarrow> string \<Rightarrow> time \<Rightarrow> account_db \<Rightarrow> user res" where
  "user_for_session x token now db =
     (case user_by_session (xc_sha x token) now db of Inl e \<Rightarrow> Inl e | Inr u \<Rightarrow> Inr (public_user u))"

end
