(* ===== verification/Workspace_Store.thy ===== *)
theory Workspace_Store
  imports Account_Store Go_Utf8
begin

text \<open>
  Workspaces and their members: \<open>internal/store/workspace.go\<close> and the personal workspace of
  \<open>internal/store/gateway.go\<close>. The counters of \<open>WorkspaceSettings\<close> and the requests of a member are for
  display and left out.
\<close>

section \<open>The personal workspace\<close>

definition workspace_suffix :: string where
  "workspace_suffix = '' '' @ runes [0x7684, 0x5DE5, 0x4F5C, 0x533A]"

definition default_personal_name :: "user \<Rightarrow> string" where
  "default_personal_name u =
     (let name1 = trim_space (us_name u); name2 = (if name1 = [] then before_at (us_email u) else name1);
          name = (if name2 = [] then runes [0x4E2A, 0x4EBA, 0x5DE5, 0x4F5C, 0x533A] else name2)
      in name @ workspace_suffix)"

definition new_workspace :: "string \<Rightarrow> string \<Rightarrow> string \<Rightarrow> time \<Rightarrow> workspace" where
  "new_workspace oid name slug now =
     \<lparr>wo_id = oid, wo_name = name, wo_slug = slug, wo_plan = ''starter'', wo_status = ''active'', wo_timezone = ''Asia/Shanghai'',
      wo_origin = ''runtime'', wo_policy = ''latency'', wo_notify = None, wo_suspended = None, wo_deleted = None,
      wo_created = now, wo_updated = now\<rparr>"

definition workspace_live :: "workspace \<Rightarrow> bool" where
  "workspace_live w = (wo_status w = ''active'' \<and> wo_deleted w = None)"

definition member_of :: "string \<Rightarrow> string \<Rightarrow> member \<Rightarrow> bool" where
  "member_of oid uid m = (mb_org m = oid \<and> mb_user m = uid)"

text \<open>\<open>insert into org_members ... on conflict(org_id,user_id) do update\<close>\<close>

definition upsert_member :: "member \<Rightarrow> (member \<Rightarrow> member) \<Rightarrow> member list \<Rightarrow> member list" where
  "upsert_member new change ms =
     (if sql_exists (member_of (mb_org new) (mb_user new)) ms
      then sql_update (member_of (mb_org new) (mb_user new)) change ms
      else ms @ [new])"

definition ensure_personal_workspace :: "user \<Rightarrow> string \<Rightarrow> time \<Rightarrow> account_db \<Rightarrow> string res \<times> account_db" where
  "ensure_personal_workspace u uuid now db =
     (let oid = personal_org_id (us_id u); slug = unique_slug oid uuid;
          row = \<lparr>mb_org = oid, mb_user = us_id u, mb_role = ''owner'',
                 mb_group = runes [0x4E2A, 0x4EBA, 0x5DE5, 0x4F5C, 0x533A], mb_status = ''active''\<rparr>;
          known = sql_exists (\<lambda>w. wo_id w = oid) (adb_orgs db);
          db1 = (if known then db else db\<lparr>adb_orgs := adb_orgs db @ [new_workspace oid (default_personal_name u) slug now]\<rparr>);
          live = sql_exists (\<lambda>w. wo_id w = oid \<and> workspace_live w) (adb_orgs db1)
      in if \<not> known \<and> sql_exists (\<lambda>w. wo_slug w = slug) (adb_orgs db)
         then (Inl (ErrConstraint ''orgs_slug_key''), db)
         else if \<not> sql_exists (\<lambda>v. us_id v = us_id u) (adb_users db1)
         then (Inl (ErrConstraint ''org_members_user_id_fkey''), synced db1)
         else (Inr oid, synced (db1\<lparr>adb_members := upsert_member row
            (\<lambda>m. if live then m\<lparr>mb_role := mb_role row, mb_group := mb_group row, mb_status := ''active''\<rparr> else m)
            (adb_members db1)\<rparr>)))"

definition ensure_personal_workspace_for :: "string \<Rightarrow> string \<Rightarrow> time \<Rightarrow> account_db \<Rightarrow> string res \<times> account_db" where
  "ensure_personal_workspace_for uid uuid now db =
     (case query_row (\<lambda>u. us_id u = uid \<and> user_active u \<and> us_deleted u = None) (adb_users db) of
        Inl e \<Rightarrow> (Inl e, db)
      | Inr u \<Rightarrow> ensure_personal_workspace (public_user u) uuid now db)"

section \<open>Settings\<close>

definition gateway_policy_words :: "string list" where
  "gateway_policy_words = [''latency'', ''success'', ''cost'']"

definition workspace_settings_for :: "string \<Rightarrow> account_db \<Rightarrow> workspace res" where
  "workspace_settings_for oid db = query_row (\<lambda>w. wo_id w = oid) (adb_orgs db)"

record workspace_input =
  wi_name :: string
  wi_timezone :: string
  wi_policy :: string
  wi_notify :: string

definition set_workspace ::
  "string \<Rightarrow> string \<Rightarrow> (workspace \<Rightarrow> workspace) \<Rightarrow> account_db \<Rightarrow> workspace res \<times> account_db"
where
  "set_workspace oid action change db =
     (let sel = (\<lambda>w. wo_id w = oid \<and> wo_status w = ''active'');
          db' = audit_account action oid (synced (db\<lparr>adb_orgs := sql_update sel change (adb_orgs db)\<rparr>))
      in if sql_affected sel (adb_orgs db) = 0 then (Inl ErrNoRows, db) else (workspace_settings_for oid db', db'))"

definition update_workspace_settings :: "string \<Rightarrow> workspace_input \<Rightarrow> time \<Rightarrow> account_db \<Rightarrow> workspace res \<times> account_db" where
  "update_workspace_settings oid inp now db =
     (let name = trim_space (wi_name inp); timezone0 = trim_space (wi_timezone inp);
          timezone = (if timezone0 = [] then ''Asia/Shanghai'' else timezone0);
          policy = normalize_gateway_policy (wi_policy inp); notify = trim_space (wi_notify inp)
      in if name = [] then (Inl (ErrNamed ''workspace name is required''), db)
         else if notify \<noteq> [] \<and> \<not> sql_exists (\<lambda>n. on_id n = notify \<and> on_scope n = ''console'' \<and> on_org n = oid \<and> on_enabled n)
                (adb_notifiers db) then (Inl ErrNoRows, db)
         else if policy \<notin> set gateway_policy_words \<and> sql_exists (\<lambda>w. wo_id w = oid \<and> wo_status w = ''active'') (adb_orgs db)
         then (Inl (ErrConstraint ''orgs_default_gateway_policy_check''), db)
         else set_workspace oid ''workspace.settings.updated''
           (\<lambda>w. w\<lparr>wo_name := name, wo_timezone := timezone, wo_policy := policy,
                  wo_notify := (if notify = [] then None else Some notify), wo_updated := now\<rparr>) db)"

definition reset_workspace_settings :: "string \<Rightarrow> user \<Rightarrow> time \<Rightarrow> account_db \<Rightarrow> workspace res \<times> account_db" where
  "reset_workspace_settings oid actor now db =
     set_workspace oid ''workspace.settings.reset''
       (\<lambda>w. w\<lparr>wo_name := default_personal_name actor, wo_timezone := ''Asia/Shanghai'', wo_policy := ''latency'',
              wo_notify := None, wo_updated := now\<rparr>) db"

definition role_rank :: "string \<Rightarrow> int" where
  "role_rank role = (if role = ''owner'' then 0 else if role = ''admin'' then 1 else if role = ''operator'' then 2 else 3)"

text \<open>\<open>UserWorkspaces\<close>: the personal workspace first, then by role, then the oldest.\<close>

definition workspace_before :: "string \<Rightarrow> workspace \<times> member \<Rightarrow> workspace \<times> member \<Rightarrow> bool" where
  "workspace_before personal a b =
     (let p = (\<lambda>x. if wo_id (fst x) = personal then 0 else 1 :: int); r = (\<lambda>x. role_rank (mb_role (snd x))) in
      p a < p b \<or> (p a = p b \<and> (r a < r b \<or> (r a = r b \<and> wo_created (fst a) < wo_created (fst b)))))"

definition user_workspaces :: "user \<Rightarrow> string \<Rightarrow> time \<Rightarrow> account_db \<Rightarrow> (workspace \<times> member) list res \<times> account_db" where
  "user_workspaces u uuid now db =
     (case ensure_personal_workspace u uuid now db of
        (Inl e, db1) \<Rightarrow> (Inl e, db1)
      | (Inr personal, db1) \<Rightarrow>
          (Inr (sort_stable (workspace_before personal)
             (concat (map (\<lambda>m. map (\<lambda>w. (w, m)) (filter (\<lambda>w. wo_id w = mb_org m \<and> workspace_live w) (adb_orgs db1)))
                (filter (\<lambda>m. mb_user m = us_id u \<and> mb_status m = ''active'') (adb_members db1))))), db1))"

section \<open>Roles\<close>

definition writable_role :: "string \<Rightarrow> string option" where
  "writable_role role =
     (let r = trim_space role in if r = ''admin'' \<or> r = ''operator'' \<or> r = ''viewer'' then Some r else None)"

definition normalize_writable_role :: "string \<Rightarrow> string" where
  "normalize_writable_role role = (case writable_role role of Some r \<Rightarrow> r | None \<Rightarrow> ''viewer'')"

definition validate_writable_role :: "string \<Rightarrow> string res" where
  "validate_writable_role role =
     (case writable_role role of Some r \<Rightarrow> Inr r | None \<Rightarrow> Inl (ErrNamed ''invalid workspace role''))"

definition can_manage_workspace :: "string \<Rightarrow> bool" where
  "can_manage_workspace role = (let r = trim_space role in r = ''owner'' \<or> r = ''admin'')"

definition can_operate_workspace :: "string \<Rightarrow> bool" where
  "can_operate_workspace role = (let r = trim_space role in r = ''owner'' \<or> r = ''admin'' \<or> r = ''operator'')"

section \<open>Members\<close>

definition err_owner_protected :: err where
  "err_owner_protected = ErrNamed ''workspace owner cannot be changed through member management''"

definition err_self_role :: err where "err_self_role = ErrNamed ''cannot change your own workspace role''"

definition err_member_unverified :: err where
  "err_member_unverified = ErrNamed ''workspace member email must be verified''"

definition workspace_role :: "string \<Rightarrow> string \<Rightarrow> account_db \<Rightarrow> string res" where
  "workspace_role oid uid db =
     (case query_row (\<lambda>m. member_of oid uid m \<and> mb_status m = ''active'') (adb_members db) of
        Inl e \<Rightarrow> Inl e | Inr m \<Rightarrow> Inr (mb_role m))"

text \<open>\<open>gatewayMembers\<close> of members only: platform owners and administrators first, then the newest user; at most 100.\<close>

definition member_before :: "user \<times> member \<Rightarrow> user \<times> member \<Rightarrow> bool" where
  "member_before a b =
     (let k = (\<lambda>x. if us_role (fst x) = ''owner'' \<or> us_role (fst x) = ''admin'' then 0 else 1 :: int) in
      k a < k b \<or> (k a = k b \<and> us_created (fst a) > us_created (fst b)))"

definition gateway_members :: "string \<Rightarrow> account_db \<Rightarrow> (user \<times> member) list" where
  "gateway_members org0 db =
     (let oid = org_or_default org0 in
      take 100 (sort_stable member_before
        (concat (map (\<lambda>u. map (Pair u) (filter (\<lambda>m. member_of oid (us_id u) m \<and> mb_status m = ''active'') (adb_members db)))
           (adb_users db)))))"

definition workspace_member :: "string \<Rightarrow> string \<Rightarrow> account_db \<Rightarrow> (user \<times> member) res" where
  "workspace_member oid uid db = query_row (\<lambda>x. us_id (fst x) = uid) (gateway_members oid db)"

definition default_member_group :: string where
  "default_member_group = runes [0x5DE5, 0x4F5C, 0x533A, 0x6210, 0x5458]"

definition group_or_default :: "string \<Rightarrow> string" where
  "group_or_default g = (if trim_space g = [] then default_member_group else trim_space g)"

definition upsert_workspace_member ::
  "string \<Rightarrow> string \<Rightarrow> string \<Rightarrow> string \<Rightarrow> string \<Rightarrow> account_db \<Rightarrow> (user \<times> member) res \<times> account_db"
where
  "upsert_workspace_member oid actor email0 role0 group0 db =
     (let email = to_lower (trim_space email0); role = normalize_writable_role role0; grp = group_or_default group0 in
      if CHR ''@'' \<notin> set email then (Inl (ErrNamed ''valid email is required''), db)
      else case query_row (\<lambda>u. us_email u = email \<and> user_active u) (adb_users db) of
        Inl e \<Rightarrow> (Inl e, db)
      | Inr u \<Rightarrow>
          if us_verified u = None then (Inl err_member_unverified, db)
          else if us_id u = actor then (Inl err_self_role, db)
          else if workspace_role oid (us_id u) db = Inr ''owner'' then (Inl err_owner_protected, db)
          else if \<not> sql_exists (\<lambda>w. wo_id w = oid) (adb_orgs db) then (Inl (ErrConstraint ''org_members_org_id_fkey''), db)
          else
            (let row = \<lparr>mb_org = oid, mb_user = us_id u, mb_role = role, mb_group = grp, mb_status = ''active''\<rparr>;
                 db' = audit_account ''workspace.member.invited'' (us_id u) (synced (db\<lparr>adb_members := upsert_member row
                   (\<lambda>m. m\<lparr>mb_role := role, mb_group := grp, mb_status := ''active''\<rparr>) (adb_members db)\<rparr>))
             in (workspace_member oid (us_id u) db', db')))"

text \<open>The checks of an operation on one member, before its update.\<close>

definition member_guard :: "string \<Rightarrow> string \<Rightarrow> string \<Rightarrow> account_db \<Rightarrow> unit res" where
  "member_guard oid actor uid db =
     (if uid = actor then Inl err_self_role
      else case workspace_role oid uid db of
        Inl e \<Rightarrow> Inl e
      | Inr role \<Rightarrow> if role = ''owner'' then Inl err_owner_protected else Inr ())"

definition active_member :: "string \<Rightarrow> string \<Rightarrow> member \<Rightarrow> bool" where
  "active_member oid uid m = (member_of oid uid m \<and> mb_status m = ''active'')"

definition update_workspace_member ::
  "string \<Rightarrow> string \<Rightarrow> string \<Rightarrow> string \<Rightarrow> string \<Rightarrow> account_db \<Rightarrow> (user \<times> member) res \<times> account_db"
where
  "update_workspace_member oid actor uid role grp db =
     (case member_guard oid actor uid db of
        Inl e \<Rightarrow> (Inl e, db)
      | Inr _ \<Rightarrow>
          (let db' = audit_account ''workspace.member.updated'' uid (synced (db\<lparr>adb_members := sql_update (active_member oid uid)
                 (\<lambda>m. m\<lparr>mb_role := normalize_writable_role role, mb_group := group_or_default grp, mb_status := ''active''\<rparr>)
                 (adb_members db)\<rparr>))
           in (workspace_member oid uid db', db')))"

definition remove_workspace_member :: "string \<Rightarrow> string \<Rightarrow> string \<Rightarrow> account_db \<Rightarrow> unit res \<times> account_db" where
  "remove_workspace_member oid actor uid db =
     (case member_guard oid actor uid db of
        Inl e \<Rightarrow> (Inl e, db)
      | Inr _ \<Rightarrow> (Inr (), audit_account ''workspace.member.removed'' uid (synced (db\<lparr>adb_members :=
            sql_update (active_member oid uid) (\<lambda>m. m\<lparr>mb_status := ''removed''\<rparr>) (adb_members db)\<rparr>))))"

section \<open>Several members at once\<close>

fun first_guard :: "string \<Rightarrow> (string \<Rightarrow> string) \<Rightarrow> string list \<Rightarrow> err option" where
  "first_guard actor role [] = None"
| "first_guard actor role (uid # uids) =
     (if uid = actor then Some err_self_role else if role uid = ''owner'' then Some err_owner_protected
      else first_guard actor role uids)"

definition member_states :: "string \<Rightarrow> string list \<Rightarrow> account_db \<Rightarrow> member list" where
  "member_states oid uids db =
     filter (\<lambda>m. mb_org m = oid \<and> mb_user m \<in> set uids \<and> mb_status m = ''active'') (adb_members db)"

definition state_role :: "member list \<Rightarrow> string \<Rightarrow> string" where
  "state_role states uid = (case map_of (map (\<lambda>m. (mb_user m, mb_role m)) (rev states)) uid of Some r \<Rightarrow> r | None \<Rightarrow> [])"

definition bulk_members ::
  "string \<Rightarrow> string \<Rightarrow> string list \<Rightarrow> string \<Rightarrow> (member \<Rightarrow> member) \<Rightarrow> account_db \<Rightarrow> (user \<times> member) list res \<times> account_db"
where
  "bulk_members oid actor uids action change db =
     (let states = member_states oid uids db; sel = (\<lambda>m. mb_org m = oid \<and> mb_user m \<in> set uids \<and> mb_status m = ''active'') in
      if length (remdups (map mb_user states)) \<noteq> length uids then (Inl ErrNoRows, db)
      else case first_guard actor (state_role states) uids of
        Some e \<Rightarrow> (Inl e, db)
      | None \<Rightarrow>
          if sql_affected sel (adb_members db) \<noteq> length uids then (Inl ErrNoRows, db)
          else (let db' = fold (audit_account action) uids (synced (db\<lparr>adb_members := sql_update sel change (adb_members db)\<rparr>))
                in (Inr (gateway_members oid db'), db')))"

definition err_no_members :: err where "err_no_members = ErrNamed ''select at least one workspace member''"

definition bulk_update_members_role ::
  "string \<Rightarrow> string \<Rightarrow> string list \<Rightarrow> string \<Rightarrow> account_db \<Rightarrow> (user \<times> member) list res \<times> account_db"
where
  "bulk_update_members_role org0 actor ids role0 db =
     (let oid = org_or_default org0; uids = unique_trimmed [] ids in
      if uids = [] then (Inl err_no_members, db)
      else case validate_writable_role role0 of
        Inl e \<Rightarrow> (Inl e, db)
      | Inr role \<Rightarrow> bulk_members oid actor uids ''workspace.member.bulk_role_updated''
          (\<lambda>m. m\<lparr>mb_role := role, mb_status := ''active''\<rparr>) db)"

definition bulk_remove_members ::
  "string \<Rightarrow> string \<Rightarrow> string list \<Rightarrow> account_db \<Rightarrow> (user \<times> member) list res \<times> account_db"
where
  "bulk_remove_members org0 actor ids db =
     (let oid = org_or_default org0; uids = unique_trimmed [] ids in
      if uids = [] then (Inl err_no_members, db)
      else bulk_members oid actor uids ''workspace.member.bulk_removed'' (\<lambda>m. m\<lparr>mb_status := ''removed''\<rparr>) db)"

end
