(* ===== verification/Account_Admin.thy ===== *)
theory Account_Admin
  imports Workspace_Store
begin

text \<open>
  The administration of users and workspaces, \<open>internal/store/admin_governance.go\<close>: creating, updating,
  suspending and deleting them, one at a time and in bulk, with what each does to the gateways,
  keys, channels, connections and sessions behind them. The listings and their statistics are
  display and left out: an operation that ends with one returns \<open>()\<close>. Passwords arrive as hashes.
\<close>

section \<open>Words\<close>

definition err_admin_status :: err where "err_admin_status = ErrNamed ''invalid admin status''"
definition err_admin_role :: err where "err_admin_role = ErrNamed ''invalid admin role''"
definition err_admin_plan :: err where "err_admin_plan = ErrNamed ''invalid admin plan''"
definition err_user_plan :: err where "err_user_plan = ErrNamed ''invalid user plan''"
definition err_protected_owner :: err where "err_protected_owner = ErrNamed ''at least one active owner must remain''"
definition err_protected_org :: err where "err_protected_org = ErrNamed ''default platform org cannot be suspended''"
definition err_empty_selection :: err where "err_empty_selection = ErrNamed ''select at least one item''"
definition err_identifier_exists :: err where "err_identifier_exists = ErrNamed ''email or username already exists''"

definition validate_admin_status :: "string \<Rightarrow> string res" where
  "validate_admin_status status0 =
     (let status = to_lower (trim_space status0) in
      if status = ''active'' \<or> status = ''suspended'' \<or> status = ''disabled'' then Inr status else Inl err_admin_status)"

definition validate_admin_role :: "string \<Rightarrow> string res" where
  "validate_admin_role role0 =
     (let role = to_lower (trim_space role0) in
      if role = ''owner'' \<or> role = ''admin'' \<or> role = ''user'' then Inr role else Inl err_admin_role)"

definition validate_admin_plan :: "string \<Rightarrow> string res" where
  "validate_admin_plan plan0 =
     (let plan = to_lower (trim_space plan0) in
      if plan = ''starter'' \<or> plan = ''team'' \<or> plan = ''business'' \<or> plan = ''enterprise'' then Inr plan else Inl err_admin_plan)"

definition validate_user_plan :: "string \<Rightarrow> string res" where
  "validate_user_plan plan0 =
     (let plan = to_lower (trim_space plan0) in
      if plan = [] \<or> plan = ''free'' then Inr ''free''
      else if plan = ''super_vip'' \<or> plan = ''super-vip'' \<or> plan = ''supervip'' \<or> plan = ''vip'' then Inr ''super_vip''
      else Inl err_user_plan)"

definition normalize_admin_origin :: "string \<Rightarrow> string" where
  "normalize_admin_origin origin =
     (let t = trim_space origin in
      if t = ''system'' \<or> t = ''runtime'' \<or> t = ''demo'' \<or> t = ''test'' then t else ''runtime'')"

text \<open>
  The dashes of a slug, as \<open>normalizeSlug\<close> builds it: white space, a dash or an underscore becomes one, but
  none at the start and none after another. \<open>dash_rest\<close> is the text after such a character.
\<close>

definition dash_rest :: "string \<Rightarrow> string option" where
  "dash_rest s =
     (case strip_any unicode_spaces s of
        Some r \<Rightarrow> Some r
      | None \<Rightarrow> (case s of [] \<Rightarrow> None | c # cs \<Rightarrow> if c = CHR ''-'' \<or> c = CHR ''_'' then Some cs else None))"

lemma dash_rest_shorter: "dash_rest s = Some r \<Longrightarrow> length r < length s"
  by (auto simp: dash_rest_def dest: strip_any_shorter split: option.splits list.splits if_splits)

function slug_from :: "bool \<Rightarrow> bool \<Rightarrow> string \<Rightarrow> string" where
  "slug_from started dash [] = []"
| "slug_from started dash (c # cs) =
     (if slug_char c then c # slug_from True False cs
      else case dash_rest (c # cs) of
             Some r \<Rightarrow> if started \<and> \<not> dash then CHR ''-'' # slug_from True True r else slug_from started dash r
           | None \<Rightarrow> slug_from started dash cs)"
  by pat_completeness auto

termination
  by (relation "measure (\<lambda>(_, _, s). length s)") (auto dest: dash_rest_shorter)

definition normalize_slug :: "string \<Rightarrow> string" where
  "normalize_slug v = trim_dashes (slug_from False False (to_lower (trim_space v)))"

definition unique_org_slug :: "string \<Rightarrow> string \<Rightarrow> string" where
  "unique_org_slug name oid =
     (let base0 = normalize_slug name; base = (if base0 = [] then ''org'' else base0)
      in base @ ''-'' @ take 8 (trim_prefix oid ''org_''))"

definition unique_workspace_slug :: "string \<Rightarrow> string" where
  "unique_workspace_slug uid = ''workspace-'' @ take 8 (trim_prefix uid ''usr_'')"

section \<open>Inputs\<close>

record admin_user_input =
  ui_email :: string
  ui_username :: string
  ui_password :: string
  ui_name :: string
  ui_role :: string
  ui_plan :: string
  ui_status :: string
  ui_verified :: bool
  ui_verified_set :: bool
  ui_origin :: string

definition or_default :: "string \<Rightarrow> string \<Rightarrow> string" where
  "or_default d v = (if trim_space v = [] then d else v)"

definition normalize_user_input :: "admin_user_input \<Rightarrow> bool \<Rightarrow> admin_user_input res" where
  "normalize_user_input inp require_password =
     (let email = to_lower (trim_space (ui_email inp)); name0 = trim_space (ui_name inp) in
      if email = [] \<or> CHR ''@'' \<notin> set email \<or> list_ex (\<lambda>c. c = CHR '' '' \<or> c = CHR 0x09 \<or> c = CHR 0x0D \<or> c = CHR 0x0A) email
      then Inl (ErrNamed ''invalid email'')
      else case validate_admin_role (or_default ''user'' (ui_role inp)) of
        Inl e \<Rightarrow> Inl e
      | Inr role \<Rightarrow>
          (case validate_user_plan (or_default ''free'' (ui_plan inp)) of
             Inl e \<Rightarrow> Inl e
           | Inr plan \<Rightarrow>
               (case validate_admin_status (or_default ''active'' (ui_status inp)) of
                  Inl e \<Rightarrow> Inl e
                | Inr status \<Rightarrow>
                    if require_password \<and> trim_space (ui_password inp) = [] then Inl (ErrNamed ''password is required'')
                    else Inr (inp\<lparr>ui_email := email, ui_username := normalize_username (ui_username inp),
                      ui_name := (if name0 = [] then before_at email else name0),
                      ui_origin := normalize_admin_origin (ui_origin inp), ui_role := role, ui_plan := plan, ui_status := status\<rparr>))))"

record admin_org_input =
  oi_name :: string
  oi_slug :: string
  oi_plan :: string
  oi_status :: string
  oi_timezone :: string
  oi_origin :: string

definition normalize_org_input :: "admin_org_input \<Rightarrow> bool \<Rightarrow> admin_org_input res" where
  "normalize_org_input inp require_name =
     (let name = trim_space (oi_name inp); plan0 = trim_space (oi_plan inp); timezone = trim_space (oi_timezone inp) in
      if require_name \<and> name = [] then Inl (ErrNamed ''name is required'')
      else case validate_admin_plan (if plan0 = [] then ''starter'' else plan0) of
        Inl e \<Rightarrow> Inl e
      | Inr plan \<Rightarrow>
          (case validate_admin_status (or_default ''active'' (oi_status inp)) of
             Inl e \<Rightarrow> Inl e
           | Inr status \<Rightarrow> Inr \<lparr>oi_name = name, oi_slug = normalize_slug (oi_slug inp), oi_plan = plan, oi_status = status,
               oi_timezone = (if timezone = [] then ''Asia/Shanghai'' else timezone),
               oi_origin = normalize_admin_origin (oi_origin inp)\<rparr>))"

section \<open>Owners\<close>

text \<open>\<open>select count(*) from users where role='owner' and status='active' and id<>all($1)\<close> is not 0.\<close>

definition owner_outside :: "string list \<Rightarrow> account_db \<Rightarrow> bool" where
  "owner_outside ids db = sql_exists (\<lambda>u. us_role u = ''owner'' \<and> us_status u = ''active'' \<and> us_id u \<notin> set ids) (adb_users db)"

definition user_live :: "user \<Rightarrow> bool" where
  "user_live u = (us_status u \<noteq> ''deleted'' \<and> us_deleted u = None)"

definition user_bulk_states :: "string list \<Rightarrow> account_db \<Rightarrow> user list res" where
  "user_bulk_states ids db =
     (let states = filter (\<lambda>u. us_id u \<in> set ids \<and> user_live u) (adb_users db)
      in if length (remdups (map us_id states)) \<noteq> length ids then Inl ErrNoRows else Inr states)"

definition selected_owner :: "user list \<Rightarrow> bool" where
  "selected_owner states = list_ex (\<lambda>u. us_role u = ''owner'' \<and> us_status u = ''active'') states"

definition set_user_status :: "string \<Rightarrow> time \<Rightarrow> user \<Rightarrow> user" where
  "set_user_status status now u =
     u\<lparr>us_status := status, us_suspended := (if status = ''active'' then None else first_deleted now (us_suspended u)),
       us_deleted := (if status = ''deleted'' then first_deleted now (us_deleted u) else None), us_updated := now\<rparr>"

section \<open>What stands behind a user\<close>

definition personal_orgs :: "string list \<Rightarrow> string list" where
  "personal_orgs uids = map (\<lambda>u. personal_org_id (trim_space u)) (filter (\<lambda>u. trim_space u \<noteq> []) uids)"

definition over_gateways :: "(gateway_db \<Rightarrow> gateway_db) \<Rightarrow> account_db \<Rightarrow> account_db" where
  "over_gateways f db = db\<lparr>adb_store := (adb_store db)\<lparr>kdb_gateways := f (kdb_gateways (adb_store db))\<rparr>\<rparr>"

definition revoke_keys_in :: "string list \<Rightarrow> time \<Rightarrow> gateway_key list \<Rightarrow> gateway_key list" where
  "revoke_keys_in oids now keys =
     sql_update (\<lambda>k. gk_org k \<in> set oids \<and> gk_status k = YActive \<and> gk_deleted_at k = None)
       (\<lambda>k. k\<lparr>gk_status := YRevoked, gk_revoked_at := first_deleted now (gk_revoked_at k)\<rparr>) keys"

definition revocable :: "string list \<Rightarrow> gateway_key list \<Rightarrow> string list" where
  "revocable oids keys = map gk_id (filter (\<lambda>k. gk_org k \<in> set oids \<and> gk_status k = YActive \<and> gk_deleted_at k = None) keys)"

definition pause_gateways_in :: "string list \<Rightarrow> time \<Rightarrow> gateway list \<Rightarrow> gateway list" where
  "pause_gateways_in oids now gws =
     sql_update (\<lambda>g. gw_org g \<in> set oids \<and> gw_status g = GActive) (\<lambda>g. g\<lparr>gw_status := GPaused, gw_updated := now\<rparr>) gws"

definition delete_gateways_in :: "string list \<Rightarrow> time \<Rightarrow> gateway list \<Rightarrow> gateway list" where
  "delete_gateways_in oids now gws =
     sql_update (\<lambda>g. gw_org g \<in> set oids \<and> gw_status g \<noteq> GDeleted) (\<lambda>g. g\<lparr>gw_status := GDeleted, gw_updated := now\<rparr>) gws"

definition audit_each :: "string \<Rightarrow> string list \<Rightarrow> account_db \<Rightarrow> account_db" where
  "audit_each action objects db = fold (audit_account action) objects db"

definition deactivate_orgs :: "string \<Rightarrow> string list \<Rightarrow> time \<Rightarrow> account_db \<Rightarrow> account_db" where
  "deactivate_orgs action oids now db =
     (let g = kdb_gateways (adb_store db) in
      audit_each action (revocable oids (gdb_keys g))
        (over_gateways (\<lambda>g. g\<lparr>gdb_gateways := pause_gateways_in oids now (gdb_gateways g),
                              gdb_keys := revoke_keys_in oids now (gdb_keys g)\<rparr>) db))"

definition deactivate_inactive_users :: "string list \<Rightarrow> time \<Rightarrow> account_db \<Rightarrow> account_db" where
  "deactivate_inactive_users uids now db =
     (if uids = [] then db else deactivate_orgs ''admin.user.gateway_key_revoked'' (personal_orgs uids) now db)"

text \<open>A user who is no super VIP loses the platform's channels; gateways left without any are paused.\<close>

definition platform_link :: "gateway_db \<Rightarrow> string \<Rightarrow> gateway_link \<Rightarrow> bool" where
  "platform_link g oid l =
     (sql_exists (\<lambda>w. gw_id w = gl_gateway l \<and> gw_org w = oid) (gdb_gateways g)
      \<and> sql_exists (\<lambda>c. ch_id c = gl_channel l \<and> ch_owner_type c = ''platform'') (gdb_channels g))"

definition left_empty :: "string \<Rightarrow> gateway_link list \<Rightarrow> gateway \<Rightarrow> bool" where
  "left_empty oid links w =
     (gw_org w = oid \<and> gw_status w = GActive \<and> \<not> sql_exists (\<lambda>l. gl_gateway l = gw_id w) links)"

definition revoke_platform_upstreams :: "string \<Rightarrow> time \<Rightarrow> account_db \<Rightarrow> account_db" where
  "revoke_platform_upstreams uid0 now db =
     (let uid = trim_space uid0; oid = personal_org_id uid; g = kdb_gateways (adb_store db);
          links = filter (\<lambda>l. \<not> platform_link g oid l) (gdb_links g);
          paused = filter (left_empty oid links) (gdb_gateways g);
          db1 = over_gateways (\<lambda>g. g\<lparr>gdb_links := links,
            gdb_gateways := sql_update (left_empty oid links) (\<lambda>w. w\<lparr>gw_status := GPaused, gw_updated := now\<rparr>) (gdb_gateways g)\<rparr>) db
      in if uid = [] then db
         else if links = gdb_links g \<and> paused = [] then db1
         else audit_account ''admin.user.platform_gateway_access.revoked'' uid db1)"

text \<open>\<open>deactivateDeletedUsersRuntimeResources\<close>: the connections, then gateways, channels and memberships.\<close>

definition delete_connections_of :: "string list \<Rightarrow> time \<Rightarrow> connection_db \<Rightarrow> connection_db" where
  "delete_connections_of uids now db =
     (let sel = (\<lambda>c. ac_owner c \<in> set uids \<and> connection_live c); ids = map ac_id (filter sel (kdb_connections db)) in
      fold (audit_connection ''admin.user.ai_connection_deleted'') ids (db\<lparr>
        kdb_connections := sql_update sel
          (\<lambda>c. c\<lparr>ac_status := ''deleted'', ac_deleted := first_deleted now (ac_deleted c), ac_updated := now\<rparr>) (kdb_connections db),
        kdb_secrets := sql_update (\<lambda>s. sx_connection s \<in> set ids) scrubbed_secret (kdb_secrets db),
        kdb_relays := sql_update (\<lambda>q. rq_connection q \<in> set ids \<and> rq_status q = ''completed'') expire_relay (kdb_relays db)\<rparr>))"

definition owned_channel :: "string list \<Rightarrow> channel \<Rightarrow> bool" where
  "owned_channel uids c = (ch_owner_type c = ''user'' \<and> (case ch_owner_id c of None \<Rightarrow> False | Some u \<Rightarrow> u \<in> set uids)
     \<and> ch_status c \<noteq> ''deleted'' \<and> ch_deleted_at c = None)"

definition uses_channel :: "string list \<Rightarrow> gateway_db \<Rightarrow> string \<Rightarrow> bool" where
  "uses_channel chs g gid = sql_exists (\<lambda>l. gl_gateway l = gid \<and> gl_channel l \<in> set chs) (gdb_links g)"

definition drop_channels :: "string list \<Rightarrow> time \<Rightarrow> gateway_db \<Rightarrow> gateway_db" where
  "drop_channels chs now g =
     (let links = sql_update (\<lambda>l. gl_channel l \<in> set chs) (\<lambda>l. l\<lparr>gl_enabled := False\<rparr>) (gdb_links g);
          gws = sql_update (\<lambda>w. gw_status w = GActive \<and> uses_channel chs g (gw_id w)
                  \<and> \<not> sql_exists (\<lambda>l. gl_gateway l = gw_id w \<and> gl_enabled l) links)
                (\<lambda>w. w\<lparr>gw_status := GPaused, gw_updated := now\<rparr>) (gdb_gateways g);
          keys = revoke_keys_of (\<lambda>gid. uses_channel chs g gid \<and> sql_exists (\<lambda>w. gw_id w = gid \<and> gw_status w = GPaused) gws)
                   now (gdb_keys g)
      in g\<lparr>gdb_links := links, gdb_gateways := gws, gdb_keys := keys\<rparr>)"

definition scrubbed_channel_secret :: "channel_secret \<Rightarrow> channel_secret" where
  "scrubbed_channel_secret s = s\<lparr>cs_ciphertext := [], cs_nonce := [], cs_mask := ''deleted'',
     cs_fingerprint := ''deleted:'' @ cs_channel s\<rparr>"

definition deactivate_deleted_users :: "string list \<Rightarrow> time \<Rightarrow> account_db \<Rightarrow> account_db" where
  "deactivate_deleted_users uids now db =
     (let st = delete_connections_of uids now (adb_store db); g = kdb_gateways st; oids = personal_orgs uids;
          chs = map ch_id (filter (owned_channel uids) (gdb_channels g));
          g1 = g\<lparr>gdb_gateways := delete_gateways_in oids now (gdb_gateways g), gdb_keys := revoke_keys_in oids now (gdb_keys g),
                 gdb_channels := sql_update (owned_channel uids)
                   (\<lambda>c. c\<lparr>ch_status := ''deleted'', ch_gateway_enabled := False, ch_deleted_at := first_deleted now (ch_deleted_at c)\<rparr>)
                   (gdb_channels g)\<rparr>;
          members = sql_update (\<lambda>m. mb_user m \<in> set uids \<and> mb_status m \<noteq> ''removed'') (\<lambda>m. m\<lparr>mb_status := ''removed''\<rparr>) (adb_members db);
          st1 = st\<lparr>kdb_gateways := g1\<rparr>;
          st2 = (if chs = [] then st1
                 else st1\<lparr>kdb_gateways := drop_channels chs now g1,
                   kdb_channel_secrets := sql_update (\<lambda>s. cs_channel s \<in> set chs) scrubbed_channel_secret (kdb_channel_secrets st1)\<rparr>)
      in if uids = [] then db
         else audit_each ''admin.user.private_channel_deleted'' chs (db\<lparr>adb_members := members, adb_store := st2\<rparr>))"

section \<open>Users\<close>

definition create_admin_user :: "admin_user_input \<Rightarrow> string \<Rightarrow> time \<Rightarrow> account_db \<Rightarrow> string res \<times> account_db" where
  "create_admin_user inp0 uuid now db =
     (case normalize_user_input inp0 True of
        Inl e \<Rightarrow> (Inl e, db)
      | Inr inp \<Rightarrow>
          (let uid = ''usr_'' @ uuid; oid = ''org_'' @ uid;
               u = (new_user uid (ui_email inp) (ui_username inp) (ui_password inp) (ui_name inp) (ui_verified inp) now)
                     \<lparr>us_status := ui_status inp, us_role := ui_role inp, us_plan := ui_plan inp, us_origin := ui_origin inp\<rparr>;
               slug = unique_workspace_slug uid;
               orgs = (if sql_exists (\<lambda>w. wo_id w = oid \<or> wo_slug w = slug) (adb_orgs db) then adb_orgs db
                       else adb_orgs db @ [new_workspace oid (ui_name inp @ workspace_suffix) slug now]);
               row = \<lparr>mb_org = oid, mb_user = uid, mb_role = ''owner'',
                      mb_group = runes [0x9ED8, 0x8BA4, 0x5DE5, 0x4F5C, 0x533A], mb_status = ''active''\<rparr>;
               members = (if sql_exists (\<lambda>w. wo_id w = oid) orgs
                  then upsert_member row (\<lambda>m. m\<lparr>mb_role := ''owner'', mb_status := ''active''\<rparr>) (adb_members db) else adb_members db)
           in case user_conflict uid (ui_email inp) (ui_username inp) (adb_users db) of
                Some e \<Rightarrow> (Inl err_identifier_exists, db)
              | None \<Rightarrow> (Inr uid, audit_account ''admin.user.created'' uid
                  (synced (db\<lparr>adb_users := adb_users db @ [u], adb_orgs := orgs, adb_members := members\<rparr>)))))"

definition fill_user_input :: "user \<Rightarrow> admin_user_input \<Rightarrow> admin_user_input" where
  "fill_user_input cur inp = inp\<lparr>ui_email := or_default (us_email cur) (ui_email inp),
     ui_username := or_default (us_username cur) (ui_username inp), ui_name := or_default (us_name cur) (ui_name inp),
     ui_role := or_default (us_role cur) (ui_role inp), ui_plan := or_default (us_plan cur) (ui_plan inp),
     ui_status := or_default (us_status cur) (ui_status inp), ui_origin := or_default (us_origin cur) (ui_origin inp),
     ui_verified := (if ui_verified_set inp then ui_verified inp else us_verified cur \<noteq> None)\<rparr>"

definition updated_user :: "admin_user_input \<Rightarrow> time \<Rightarrow> user \<Rightarrow> user" where
  "updated_user inp now u = (set_user_status (ui_status inp) now u)\<lparr>us_email := ui_email inp, us_username := ui_username inp,
     us_name := ui_name inp, us_avatar := user_avatar (ui_name inp), us_role := ui_role inp, us_plan := ui_plan inp,
     us_verified := (if ui_verified inp then first_deleted now (us_verified u) else None), us_origin := ui_origin inp,
     us_password := (if trim_space (ui_password inp) = [] then us_password u else ui_password inp)\<rparr>"

definition close_users :: "string list \<Rightarrow> time \<Rightarrow> account_db \<Rightarrow> account_db" where
  "close_users uids now db =
     deactivate_inactive_users uids now (revoke_sessions (\<lambda>s. se_user s \<in> set uids) now db)"

definition update_admin_user :: "string \<Rightarrow> string \<Rightarrow> admin_user_input \<Rightarrow> time \<Rightarrow> account_db \<Rightarrow> unit res \<times> account_db" where
  "update_admin_user uid actor inp0 now db =
     (case query_row (\<lambda>u. us_id u = uid) (adb_users db) of
        Inl e \<Rightarrow> (Inl e, db)
      | Inr cur \<Rightarrow>
          if us_status cur = ''deleted'' then (Inl err_admin_status, db)
          else case normalize_user_input (fill_user_input cur inp0) False of
            Inl e \<Rightarrow> (Inl e, db)
          | Inr inp \<Rightarrow>
              if uid = actor \<and> ui_status inp \<noteq> ''active'' then (Inl err_self_role, db)
              else if us_role cur = ''owner'' \<and> (ui_role inp \<noteq> ''owner'' \<or> ui_status inp \<noteq> ''active'') \<and> \<not> owner_outside [uid] db
              then (Inl err_protected_owner, db)
              else if sql_affected (\<lambda>u. us_id u = uid \<and> user_live u) (adb_users db) = 0 then (Inl ErrNoRows, db)
              else if user_conflict [] (ui_email inp) (ui_username inp) (filter (\<lambda>u. us_id u \<noteq> uid) (adb_users db)) \<noteq> None
              then (Inl err_identifier_exists, db)
              else
                (let db1 = synced (db\<lparr>adb_users := sql_update (\<lambda>u. us_id u = uid \<and> user_live u) (updated_user inp now) (adb_users db)\<rparr>);
                     db2 = (if ui_status inp = ''active'' then db1 else close_users [uid] now db1);
                     db3 = (if ui_plan inp = ''super_vip'' then db2 else revoke_platform_upstreams uid now db2)
                 in (Inr (), audit_account ''admin.user.updated'' uid db3)))"

definition update_admin_user_status :: "string \<Rightarrow> string \<Rightarrow> string \<Rightarrow> time \<Rightarrow> account_db \<Rightarrow> unit res \<times> account_db" where
  "update_admin_user_status uid actor status0 now db =
     (case validate_admin_status status0 of
        Inl e \<Rightarrow> (Inl e, db)
      | Inr status \<Rightarrow>
          (case query_row (\<lambda>u. us_id u = uid) (adb_users db) of
             Inl e \<Rightarrow> (Inl e, db)
           | Inr cur \<Rightarrow>
               if us_status cur = ''deleted'' then (Inl err_admin_status, db)
               else if uid = actor \<and> status \<noteq> ''active'' then (Inl err_self_role, db)
               else if us_role cur = ''owner'' \<and> status \<noteq> ''active'' \<and> \<not> owner_outside [uid] db then (Inl err_protected_owner, db)
               else if sql_affected (\<lambda>u. us_id u = uid \<and> user_live u) (adb_users db) = 0 then (Inl ErrNoRows, db)
               else
                 (let db1 = synced (db\<lparr>adb_users := sql_update (\<lambda>u. us_id u = uid \<and> user_live u) (set_user_status status now) (adb_users db)\<rparr>);
                      db2 = (if status = ''active'' then db1 else close_users [uid] now db1)
                  in (Inr (), audit_account ''admin.user.status.updated'' uid db2))))"

text \<open>\<open>UpdateAdminUserRole\<close> has no transaction: other requests can run between its checks and its update.\<close>

definition check_user_role :: "string \<Rightarrow> string \<Rightarrow> account_db \<Rightarrow> string res" where
  "check_user_role uid role0 db =
     (case validate_admin_role role0 of
        Inl e \<Rightarrow> Inl e
      | Inr role \<Rightarrow>
          (case query_row (\<lambda>u. us_id u = uid) (adb_users db) of
             Inl e \<Rightarrow> Inl e
           | Inr cur \<Rightarrow>
               if us_status cur = ''deleted'' then Inl err_admin_status
               else if us_role cur = ''owner'' \<and> role \<noteq> ''owner'' \<and> \<not> owner_outside [uid] db then Inl err_protected_owner
               else Inr role))"

definition write_user_role :: "string \<Rightarrow> string \<Rightarrow> time \<Rightarrow> account_db \<Rightarrow> unit res \<times> account_db" where
  "write_user_role uid role now db =
     (if sql_affected (\<lambda>u. us_id u = uid \<and> user_live u) (adb_users db) = 0 then (Inl ErrNoRows, db)
      else (Inr (), audit_account ''admin.user.role.updated'' uid (synced (db\<lparr>adb_users :=
        sql_update (\<lambda>u. us_id u = uid \<and> user_live u) (\<lambda>u. u\<lparr>us_role := role, us_updated := now\<rparr>) (adb_users db)\<rparr>))))"

definition update_admin_user_role :: "string \<Rightarrow> string \<Rightarrow> time \<Rightarrow> account_db \<Rightarrow> unit res \<times> account_db" where
  "update_admin_user_role uid role0 now db =
     (case check_user_role uid role0 db of Inl e \<Rightarrow> (Inl e, db) | Inr role \<Rightarrow> write_user_role uid role now db)"

definition deleted_user :: "time \<Rightarrow> user \<Rightarrow> user" where
  "deleted_user now u = u\<lparr>us_status := ''deleted'', us_deleted := Some now, us_suspended := Some now, us_updated := now\<rparr>"

definition erase_users :: "string list \<Rightarrow> time \<Rightarrow> account_db \<Rightarrow> account_db" where
  "erase_users uids now db =
     (let db1 = db\<lparr>adb_users := sql_update (\<lambda>u. us_id u \<in> set uids \<and> user_live u) (deleted_user now) (adb_users db)\<rparr>
      in synced (deactivate_deleted_users uids now (revoke_sessions (\<lambda>s. se_user s \<in> set uids) now db1)))"

definition delete_admin_user :: "string \<Rightarrow> string \<Rightarrow> time \<Rightarrow> account_db \<Rightarrow> unit res \<times> account_db" where
  "delete_admin_user uid actor now db =
     (if uid = actor then (Inl err_self_role, db)
      else case query_row (\<lambda>u. us_id u = uid \<and> user_live u) (adb_users db) of
        Inl e \<Rightarrow> (Inl e, db)
      | Inr cur \<Rightarrow>
          if us_role cur = ''owner'' \<and> \<not> owner_outside [uid] db then (Inl err_protected_owner, db)
          else (Inr (), audit_account ''admin.user.deleted'' uid (erase_users [uid] now db)))"

text \<open>The bulk operations check their selection, update every selected row or none, and audit each.\<close>

definition bulk_users ::
  "string list \<Rightarrow> string \<Rightarrow> (user list \<Rightarrow> err option) \<Rightarrow> (string list \<Rightarrow> account_db \<Rightarrow> account_db) \<Rightarrow> account_db \<Rightarrow> unit res \<times> account_db"
where
  "bulk_users ids action guard change db =
     (case user_bulk_states ids db of
        Inl e \<Rightarrow> (Inl e, db)
      | Inr states \<Rightarrow>
          (case guard states of
             Some e \<Rightarrow> (Inl e, db)
           | None \<Rightarrow>
               if sql_affected (\<lambda>u. us_id u \<in> set ids \<and> user_live u) (adb_users db) \<noteq> length ids then (Inl ErrNoRows, db)
               else (Inr (), audit_each action ids (change ids db))))"

definition bulk_update_users :: "string list \<Rightarrow> string \<Rightarrow> string \<Rightarrow> time \<Rightarrow> account_db \<Rightarrow> unit res \<times> account_db" where
  "bulk_update_users ids0 actor status0 now db =
     (let ids = unique_trimmed [] ids0 in
      if ids = [] then (Inl err_empty_selection, db)
      else case validate_admin_status status0 of
        Inl e \<Rightarrow> (Inl e, db)
      | Inr status \<Rightarrow>
          bulk_users ids ''admin.user.bulk_status''
            (\<lambda>states. if status = ''active'' then None
               else if list_ex (\<lambda>u. us_id u = actor) states then Some err_self_role
               else if selected_owner states \<and> \<not> owner_outside ids db then Some err_protected_owner else None)
            (\<lambda>ids db.
               let db1 = synced (db\<lparr>adb_users := sql_update (\<lambda>u. us_id u \<in> set ids \<and> user_live u) (set_user_status status now) (adb_users db)\<rparr>)
               in if status = ''active'' then db1 else close_users ids now db1) db)"

definition bulk_update_user_roles :: "string list \<Rightarrow> string \<Rightarrow> time \<Rightarrow> account_db \<Rightarrow> unit res \<times> account_db" where
  "bulk_update_user_roles ids0 role0 now db =
     (let ids = unique_trimmed [] ids0 in
      if ids = [] then (Inl err_empty_selection, db)
      else case validate_admin_role role0 of
        Inl e \<Rightarrow> (Inl e, db)
      | Inr role \<Rightarrow>
          bulk_users ids ''admin.user.bulk_role''
            (\<lambda>states. if role \<noteq> ''owner'' \<and> selected_owner states \<and> \<not> owner_outside ids db then Some err_protected_owner else None)
            (\<lambda>ids db. synced (db\<lparr>adb_users := sql_update (\<lambda>u. us_id u \<in> set ids \<and> user_live u)
               (\<lambda>u. u\<lparr>us_role := role, us_updated := now\<rparr>) (adb_users db)\<rparr>)) db)"

definition bulk_delete_users :: "string list \<Rightarrow> string \<Rightarrow> time \<Rightarrow> account_db \<Rightarrow> unit res \<times> account_db" where
  "bulk_delete_users ids0 actor now db =
     (let ids = unique_trimmed [] ids0 in
      if ids = [] then (Inl err_empty_selection, db)
      else bulk_users ids ''admin.user.bulk_deleted''
        (\<lambda>states. if list_ex (\<lambda>u. us_id u = actor) states then Some err_self_role
           else if selected_owner states \<and> \<not> owner_outside ids db then Some err_protected_owner else None)
        (\<lambda>ids db. erase_users ids now db) db)"

section \<open>Workspaces\<close>

definition org_live_row :: "workspace \<Rightarrow> bool" where
  "org_live_row w = (wo_status w \<noteq> ''deleted'' \<and> wo_deleted w = None)"

definition set_org_status :: "string \<Rightarrow> time \<Rightarrow> workspace \<Rightarrow> workspace" where
  "set_org_status status now w =
     w\<lparr>wo_status := status, wo_suspended := (if status = ''active'' then None else first_deleted now (wo_suspended w)),
       wo_deleted := (if status = ''deleted'' then first_deleted now (wo_deleted w) else None), wo_updated := now\<rparr>"

definition deactivate_inactive_orgs :: "string list \<Rightarrow> time \<Rightarrow> account_db \<Rightarrow> account_db" where
  "deactivate_inactive_orgs oids0 now db =
     (let oids = unique_trimmed [] oids0 in
      if oids = [] then db else deactivate_orgs ''admin.org.gateway_key_revoked'' oids now db)"

definition disable_notifiers :: "string list \<Rightarrow> org_notifier list \<Rightarrow> org_notifier list" where
  "disable_notifiers oids ns = sql_update (\<lambda>n. on_org n \<in> set oids \<and> on_enabled n) (\<lambda>n. n\<lparr>on_enabled := False\<rparr>) ns"

definition deactivate_deleted_orgs :: "string list \<Rightarrow> time \<Rightarrow> account_db \<Rightarrow> account_db" where
  "deactivate_deleted_orgs oids0 now db =
     (let oids = unique_trimmed [] oids0; g = kdb_gateways (adb_store db);
          links = sql_update (\<lambda>l. sql_exists (\<lambda>w. gw_id w = gl_gateway l \<and> gw_org w \<in> set oids) (gdb_gateways g) \<and> gl_enabled l)
                    (\<lambda>l. l\<lparr>gl_enabled := False\<rparr>) (gdb_links g);
          db1 = audit_each ''admin.org.gateway_key_revoked'' (revocable oids (gdb_keys g))
            (over_gateways (\<lambda>g. g\<lparr>gdb_links := links, gdb_gateways := delete_gateways_in oids now (gdb_gateways g),
               gdb_keys := revoke_keys_in oids now (gdb_keys g)\<rparr>) db)
      in if oids = [] then db
         else synced (db1\<lparr>
           adb_members := sql_update (\<lambda>m. mb_org m \<in> set oids \<and> mb_status m \<noteq> ''removed'') (\<lambda>m. m\<lparr>mb_status := ''removed''\<rparr>) (adb_members db1),
           adb_rules := disable_notifiers oids (adb_rules db1), adb_notifiers := disable_notifiers oids (adb_notifiers db1),
           adb_orgs := sql_update (\<lambda>w. wo_id w \<in> set oids) (\<lambda>w. w\<lparr>wo_notify := None\<rparr>) (adb_orgs db1)\<rparr>))"

definition create_admin_org :: "admin_org_input \<Rightarrow> string \<Rightarrow> time \<Rightarrow> account_db \<Rightarrow> string res \<times> account_db" where
  "create_admin_org inp0 uuid now db =
     (case normalize_org_input inp0 True of
        Inl e \<Rightarrow> (Inl e, db)
      | Inr inp \<Rightarrow>
          (let oid = ''org_'' @ uuid; slug = (if oi_slug inp = [] then unique_org_slug (oi_name inp) oid else oi_slug inp);
               w = (new_workspace oid (oi_name inp) slug now)\<lparr>wo_plan := oi_plan inp, wo_status := oi_status inp,
                     wo_timezone := oi_timezone inp, wo_origin := oi_origin inp\<rparr>
           in if sql_exists (\<lambda>w. wo_id w = oid) (adb_orgs db) then (Inl (ErrConstraint ''orgs_pkey''), db)
              else if sql_exists (\<lambda>w. wo_slug w = slug) (adb_orgs db) then (Inl (ErrConstraint ''orgs_slug_key''), db)
              else (Inr oid, audit_account ''admin.org.created'' oid (synced (db\<lparr>adb_orgs := adb_orgs db @ [w]\<rparr>)))))"

definition fill_org_input :: "workspace \<Rightarrow> admin_org_input \<Rightarrow> admin_org_input" where
  "fill_org_input cur inp = \<lparr>oi_name = or_default (wo_name cur) (oi_name inp), oi_slug = or_default (wo_slug cur) (oi_slug inp),
     oi_plan = or_default (wo_plan cur) (oi_plan inp), oi_status = or_default (wo_status cur) (oi_status inp),
     oi_timezone = or_default (wo_timezone cur) (oi_timezone inp), oi_origin = or_default (wo_origin cur) (oi_origin inp)\<rparr>"

definition update_orgs :: "string list \<Rightarrow> (workspace \<Rightarrow> workspace) \<Rightarrow> account_db \<Rightarrow> account_db" where
  "update_orgs oids change db =
     synced (db\<lparr>adb_orgs := sql_update (\<lambda>w. wo_id w \<in> set oids \<and> org_live_row w) change (adb_orgs db)\<rparr>)"

definition update_admin_org :: "string \<Rightarrow> admin_org_input \<Rightarrow> time \<Rightarrow> account_db \<Rightarrow> unit res \<times> account_db" where
  "update_admin_org oid inp0 now db =
     (case query_row (\<lambda>w. wo_id w = oid) (adb_orgs db) of
        Inl e \<Rightarrow> (Inl e, db)
      | Inr cur \<Rightarrow>
          if wo_status cur = ''deleted'' then (Inl err_admin_status, db)
          else if oid = default_org_id \<and> trim_space (oi_status inp0) \<noteq> [] \<and> trim_space (oi_status inp0) \<noteq> ''active''
          then (Inl err_protected_org, db)
          else case normalize_org_input (fill_org_input cur inp0) False of
            Inl e \<Rightarrow> (Inl e, db)
          | Inr inp \<Rightarrow>
              if sql_affected (\<lambda>w. wo_id w = oid \<and> org_live_row w) (adb_orgs db) = 0 then (Inl ErrNoRows, db)
              else if sql_exists (\<lambda>w. wo_id w \<noteq> oid \<and> wo_slug w = oi_slug inp) (adb_orgs db)
              then (Inl (ErrConstraint ''orgs_slug_key''), db)
              else
                (let db1 = update_orgs [oid] (\<lambda>w. (set_org_status (oi_status inp) now w)\<lparr>wo_name := oi_name inp, wo_slug := oi_slug inp,
                       wo_plan := oi_plan inp, wo_timezone := oi_timezone inp, wo_origin := oi_origin inp\<rparr>) db;
                     db2 = (if oi_status inp = ''active'' then db1 else deactivate_inactive_orgs [oid] now db1)
                 in (Inr (), audit_account ''admin.org.updated'' oid db2)))"

definition update_admin_org_status :: "string \<Rightarrow> string \<Rightarrow> time \<Rightarrow> account_db \<Rightarrow> unit res \<times> account_db" where
  "update_admin_org_status oid status0 now db =
     (case validate_admin_status status0 of
        Inl e \<Rightarrow> (Inl e, db)
      | Inr status \<Rightarrow>
          (case query_row (\<lambda>w. wo_id w = oid) (adb_orgs db) of
             Inl e \<Rightarrow> (Inl e, db)
           | Inr cur \<Rightarrow>
               if wo_status cur = ''deleted'' then (Inl err_admin_status, db)
               else if oid = default_org_id \<and> status \<noteq> ''active'' then (Inl err_protected_org, db)
               else if sql_affected (\<lambda>w. wo_id w = oid \<and> org_live_row w) (adb_orgs db) = 0 then (Inl ErrNoRows, db)
               else
                 (let db1 = update_orgs [oid] (set_org_status status now) db;
                      db2 = (if status = ''active'' then db1 else deactivate_inactive_orgs [oid] now db1)
                  in (Inr (), audit_account ''admin.org.status.updated'' oid db2))))"

definition update_admin_org_plan :: "string \<Rightarrow> string \<Rightarrow> time \<Rightarrow> account_db \<Rightarrow> unit res \<times> account_db" where
  "update_admin_org_plan oid plan0 now db =
     (case validate_admin_plan plan0 of
        Inl e \<Rightarrow> (Inl e, db)
      | Inr plan \<Rightarrow>
          (case query_row (\<lambda>w. wo_id w = oid) (adb_orgs db) of
             Inl e \<Rightarrow> (Inl e, db)
           | Inr cur \<Rightarrow>
               if wo_status cur = ''deleted'' then (Inl err_admin_status, db)
               else if sql_affected (\<lambda>w. wo_id w = oid \<and> org_live_row w) (adb_orgs db) = 0 then (Inl ErrNoRows, db)
               else (Inr (), audit_account ''admin.org.plan.updated'' oid
                 (update_orgs [oid] (\<lambda>w. w\<lparr>wo_plan := plan, wo_updated := now\<rparr>) db))))"

definition deleted_org :: "time \<Rightarrow> workspace \<Rightarrow> workspace" where
  "deleted_org now w = w\<lparr>wo_status := ''deleted'', wo_deleted := Some now, wo_suspended := Some now, wo_updated := now\<rparr>"

definition delete_admin_org :: "string \<Rightarrow> time \<Rightarrow> account_db \<Rightarrow> unit res \<times> account_db" where
  "delete_admin_org oid now db =
     (if oid = default_org_id then (Inl err_protected_org, db)
      else if sql_affected (\<lambda>w. wo_id w = oid \<and> org_live_row w) (adb_orgs db) = 0 then (Inl ErrNoRows, db)
      else (Inr (), audit_account ''admin.org.deleted'' oid
        (deactivate_deleted_orgs [oid] now (update_orgs [oid] (deleted_org now) db))))"

definition org_bulk_states :: "string list \<Rightarrow> account_db \<Rightarrow> bool" where
  "org_bulk_states ids db =
     (length (remdups (map wo_id (filter (\<lambda>w. wo_id w \<in> set ids \<and> org_live_row w) (adb_orgs db)))) = length ids)"

definition bulk_orgs ::
  "string list \<Rightarrow> string \<Rightarrow> bool \<Rightarrow> (account_db \<Rightarrow> account_db) \<Rightarrow> account_db \<Rightarrow> unit res \<times> account_db"
where
  "bulk_orgs ids action guarded change db =
     (if \<not> org_bulk_states ids db then (Inl ErrNoRows, db)
      else if guarded then (Inl err_protected_org, db)
      else if sql_affected (\<lambda>w. wo_id w \<in> set ids \<and> org_live_row w) (adb_orgs db) \<noteq> length ids then (Inl ErrNoRows, db)
      else (Inr (), audit_each action ids (change db)))"

definition bulk_update_orgs :: "string list \<Rightarrow> string \<Rightarrow> time \<Rightarrow> account_db \<Rightarrow> unit res \<times> account_db" where
  "bulk_update_orgs ids0 status0 now db =
     (let ids = unique_trimmed [] ids0 in
      if ids = [] then (Inl err_empty_selection, db)
      else case validate_admin_status status0 of
        Inl e \<Rightarrow> (Inl e, db)
      | Inr status \<Rightarrow>
          bulk_orgs ids ''admin.org.bulk_status'' (default_org_id \<in> set ids \<and> status \<noteq> ''active'')
            (\<lambda>db. let db1 = update_orgs ids (set_org_status status now) db
                  in if status = ''active'' then db1 else deactivate_inactive_orgs ids now db1) db)"

text \<open>\<open>BulkUpdateAdminOrgPlans\<close>, as written.\<close>

definition bulk_update_org_plans :: "string list \<Rightarrow> string \<Rightarrow> time \<Rightarrow> account_db \<Rightarrow> unit res \<times> account_db" where
  "bulk_update_org_plans ids0 plan0 now db =
     (let ids = unique_trimmed [] ids0 in
      if ids = [] then (Inl err_empty_selection, db)
      else case validate_admin_plan plan0 of
        Inl e \<Rightarrow> (Inl e, db)
      | Inr plan \<Rightarrow>
          bulk_orgs ids ''admin.org.bulk_plan'' False
            (\<lambda>db. deactivate_deleted_orgs ids now (update_orgs ids (\<lambda>w. w\<lparr>wo_plan := plan, wo_updated := now\<rparr>) db)) db)"

definition bulk_delete_orgs :: "string list \<Rightarrow> time \<Rightarrow> account_db \<Rightarrow> unit res \<times> account_db" where
  "bulk_delete_orgs ids0 now db =
     (let ids = unique_trimmed [] ids0 in
      if ids = [] then (Inl err_empty_selection, db)
      else if default_org_id \<in> set ids then (Inl err_protected_org, db)
      else bulk_orgs ids ''admin.org.bulk_deleted'' False (\<lambda>db. update_orgs ids (deleted_org now) db) db)"

end
