(* ===== verification/Account_Steps.thy ===== *)
theory Account_Steps
  imports Account_Admin Row_Lifecycle
begin

text \<open>
  The operations on accounts, workspaces and members as one step function, and what a step may do
  to the tables of users, sessions, mail tokens and members: one update that keeps the keys, the
  deletions, the revocations and the uses, or one new row. The lemmas instantiate the contracts
  of \<open>Row_Lifecycle\<close> for users, sessions and tokens.
\<close>

section \<open>Operations\<close>

datatype account_op =
    ARegister auth_crypt auth_draw string string string bool
  | ALogin auth_crypt auth_draw string string string bool string string
  | AVerifyEmail auth_crypt string
  | AResetRequest auth_crypt auth_draw string
  | AResetPassword auth_crypt auth_draw string string
  | ALogout auth_crypt string
  | ARevokeOthers auth_crypt string string
  | AProfile string string
  | AWorkspaces user string
  | AEnsureFor string string
  | ASettings string workspace_input
  | ASettingsReset string user
  | AInvite string string string string string
  | AMember string string string string string
  | ARemove string string string
  | ABulkRole string string "string list" string
  | ABulkRemove string string "string list"
  | ACreateUser admin_user_input string
  | AUpdateUser string string admin_user_input
  | AUserStatus string string string
  | AUserRole string string
  | ADeleteUser string string
  | AUsersStatus "string list" string string
  | AUsersRole "string list" string
  | ADeleteUsers "string list" string
  | ACreateOrg admin_org_input string
  | AUpdateOrg string admin_org_input
  | AOrgStatus string string
  | AOrgPlan string string
  | ADeleteOrg string
  | AOrgsStatus "string list" string
  | AOrgsPlan "string list" string
  | ADeleteOrgs "string list"

fun account_step :: "account_op \<Rightarrow> account_db \<Rightarrow> time \<Rightarrow> account_db" where
  "account_step (ARegister x d email password name verify) db t = snd (auth_register x d email password name verify t db)"
| "account_step (ALogin x d ident email password required ip agent) db t = snd (auth_login x d ident email password required ip agent t db)"
| "account_step (AVerifyEmail x token) db t = snd (auth_verify_email x token t db)"
| "account_step (AResetRequest x d email) db t = snd (create_password_reset x d email t db)"
| "account_step (AResetPassword x d token password) db t = snd (auth_reset_password x d token password t db)"
| "account_step (ALogout x token) db t = auth_logout x token t db"
| "account_step (ARevokeOthers x uid current) db t = revoke_other_sessions x uid current t db"
| "account_step (AProfile uid name) db t = snd (update_user_profile uid name t db)"
| "account_step (AWorkspaces u uuid) db t = snd (user_workspaces u uuid t db)"
| "account_step (AEnsureFor uid uuid) db t = snd (ensure_personal_workspace_for uid uuid t db)"
| "account_step (ASettings oid inp) db t = snd (update_workspace_settings oid inp t db)"
| "account_step (ASettingsReset oid u) db t = snd (reset_workspace_settings oid u t db)"
| "account_step (AInvite oid actor email role grp) db t = snd (upsert_workspace_member oid actor email role grp db)"
| "account_step (AMember oid actor uid role grp) db t = snd (update_workspace_member oid actor uid role grp db)"
| "account_step (ARemove oid actor uid) db t = snd (remove_workspace_member oid actor uid db)"
| "account_step (ABulkRole oid actor ids role) db t = snd (bulk_update_members_role oid actor ids role db)"
| "account_step (ABulkRemove oid actor ids) db t = snd (bulk_remove_members oid actor ids db)"
| "account_step (ACreateUser inp uuid) db t = snd (create_admin_user inp uuid t db)"
| "account_step (AUpdateUser uid actor inp) db t = snd (update_admin_user uid actor inp t db)"
| "account_step (AUserStatus uid actor status) db t = snd (update_admin_user_status uid actor status t db)"
| "account_step (AUserRole uid role) db t = snd (update_admin_user_role uid role t db)"
| "account_step (ADeleteUser uid actor) db t = snd (delete_admin_user uid actor t db)"
| "account_step (AUsersStatus ids actor status) db t = snd (bulk_update_users ids actor status t db)"
| "account_step (AUsersRole ids role) db t = snd (bulk_update_user_roles ids role t db)"
| "account_step (ADeleteUsers ids actor) db t = snd (bulk_delete_users ids actor t db)"
| "account_step (ACreateOrg inp uuid) db t = snd (create_admin_org inp uuid t db)"
| "account_step (AUpdateOrg oid inp) db t = snd (update_admin_org oid inp t db)"
| "account_step (AOrgStatus oid status) db t = snd (update_admin_org_status oid status t db)"
| "account_step (AOrgPlan oid plan) db t = snd (update_admin_org_plan oid plan t db)"
| "account_step (ADeleteOrg oid) db t = snd (delete_admin_org oid t db)"
| "account_step (AOrgsStatus ids status) db t = snd (bulk_update_orgs ids status t db)"
| "account_step (AOrgsPlan ids plan) db t = snd (bulk_update_org_plans ids plan t db)"
| "account_step (ADeleteOrgs ids) db t = snd (bulk_delete_orgs ids t db)"

section \<open>What the helpers leave alone\<close>

named_theorems account_simps

lemma synced_tables [account_simps]:
  "adb_users (synced db) = adb_users db" "adb_sessions (synced db) = adb_sessions db"
  "adb_tokens (synced db) = adb_tokens db" "adb_members (synced db) = adb_members db" "adb_orgs (synced db) = adb_orgs db"
  by (simp_all add: synced_def)

lemma audit_account_tables [account_simps]:
  "adb_users (audit_account a x db) = adb_users db" "adb_sessions (audit_account a x db) = adb_sessions db"
  "adb_tokens (audit_account a x db) = adb_tokens db" "adb_members (audit_account a x db) = adb_members db"
  "adb_orgs (audit_account a x db) = adb_orgs db"
  by (simp_all add: audit_account_def)

lemma audit_fold_tables [account_simps]:
  "adb_users (fold (audit_account a) xs db) = adb_users db" "adb_sessions (fold (audit_account a) xs db) = adb_sessions db"
  "adb_tokens (fold (audit_account a) xs db) = adb_tokens db" "adb_members (fold (audit_account a) xs db) = adb_members db"
  "adb_orgs (fold (audit_account a) xs db) = adb_orgs db"
  by (induction xs arbitrary: db) (simp_all add: account_simps)

lemma audit_each_tables [account_simps]:
  "adb_users (audit_each a xs db) = adb_users db" "adb_sessions (audit_each a xs db) = adb_sessions db"
  "adb_tokens (audit_each a xs db) = adb_tokens db" "adb_members (audit_each a xs db) = adb_members db"
  "adb_orgs (audit_each a xs db) = adb_orgs db"
  by (simp_all add: audit_each_def account_simps)

lemma over_gateways_tables [account_simps]:
  "adb_users (over_gateways f db) = adb_users db" "adb_sessions (over_gateways f db) = adb_sessions db"
  "adb_tokens (over_gateways f db) = adb_tokens db" "adb_members (over_gateways f db) = adb_members db"
  "adb_orgs (over_gateways f db) = adb_orgs db"
  by (simp_all add: over_gateways_def)

lemma revoke_sessions_tables [account_simps]:
  "adb_users (revoke_sessions sel t db) = adb_users db" "adb_tokens (revoke_sessions sel t db) = adb_tokens db"
  "adb_members (revoke_sessions sel t db) = adb_members db" "adb_orgs (revoke_sessions sel t db) = adb_orgs db"
  "adb_sessions (revoke_sessions sel t db)
     = sql_update (\<lambda>s. sel s \<and> se_revoked s = None) (\<lambda>s. s\<lparr>se_revoked := Some t\<rparr>) (adb_sessions db)"
  by (simp_all add: revoke_sessions_def)

lemma deactivate_tables [account_simps]:
  "adb_users (deactivate_orgs a xs t db) = adb_users db" "adb_sessions (deactivate_orgs a xs t db) = adb_sessions db"
  "adb_tokens (deactivate_orgs a xs t db) = adb_tokens db" "adb_members (deactivate_orgs a xs t db) = adb_members db"
  "adb_orgs (deactivate_orgs a xs t db) = adb_orgs db"
  by (simp_all add: deactivate_orgs_def account_simps Let_def)

lemma deactivate_inactive_tables [account_simps]:
  "adb_users (deactivate_inactive_users xs t db) = adb_users db"
  "adb_sessions (deactivate_inactive_users xs t db) = adb_sessions db"
  "adb_tokens (deactivate_inactive_users xs t db) = adb_tokens db"
  "adb_members (deactivate_inactive_users xs t db) = adb_members db"
  "adb_orgs (deactivate_inactive_users xs t db) = adb_orgs db"
  "adb_users (deactivate_inactive_orgs xs t db) = adb_users db"
  "adb_sessions (deactivate_inactive_orgs xs t db) = adb_sessions db"
  "adb_tokens (deactivate_inactive_orgs xs t db) = adb_tokens db"
  "adb_members (deactivate_inactive_orgs xs t db) = adb_members db"
  "adb_orgs (deactivate_inactive_orgs xs t db) = adb_orgs db"
  by (simp_all add: deactivate_inactive_users_def deactivate_inactive_orgs_def account_simps Let_def)

lemma close_users_tables [account_simps]:
  "adb_users (close_users xs t db) = adb_users db" "adb_tokens (close_users xs t db) = adb_tokens db"
  "adb_members (close_users xs t db) = adb_members db" "adb_orgs (close_users xs t db) = adb_orgs db"
  "adb_sessions (close_users xs t db)
     = sql_update (\<lambda>s. se_user s \<in> set xs \<and> se_revoked s = None) (\<lambda>s. s\<lparr>se_revoked := Some t\<rparr>) (adb_sessions db)"
  by (simp_all add: close_users_def account_simps)

lemma revoke_platform_tables [account_simps]:
  "adb_users (revoke_platform_upstreams u t db) = adb_users db"
  "adb_sessions (revoke_platform_upstreams u t db) = adb_sessions db"
  "adb_tokens (revoke_platform_upstreams u t db) = adb_tokens db"
  "adb_members (revoke_platform_upstreams u t db) = adb_members db"
  "adb_orgs (revoke_platform_upstreams u t db) = adb_orgs db"
  by (simp_all add: revoke_platform_upstreams_def account_simps Let_def)

lemma deactivate_deleted_users_tables [account_simps]:
  "adb_users (deactivate_deleted_users xs t db) = adb_users db"
  "adb_sessions (deactivate_deleted_users xs t db) = adb_sessions db"
  "adb_tokens (deactivate_deleted_users xs t db) = adb_tokens db"
  "adb_orgs (deactivate_deleted_users xs t db) = adb_orgs db"
  by (simp_all add: deactivate_deleted_users_def account_simps Let_def)

lemma deactivate_deleted_users_members [account_simps]:
  "adb_members (deactivate_deleted_users xs t db)
     = sql_update (\<lambda>m. mb_user m \<in> set xs \<and> mb_status m \<noteq> ''removed'') (\<lambda>m. m\<lparr>mb_status := ''removed''\<rparr>) (adb_members db)"
  by (cases "xs = []") (simp_all add: deactivate_deleted_users_def account_simps Let_def sql_update_none)

lemma erase_users_tables [account_simps]:
  "adb_users (erase_users xs t db) = sql_update (\<lambda>u. us_id u \<in> set xs \<and> user_live u) (deleted_user t) (adb_users db)"
  "adb_sessions (erase_users xs t db)
     = sql_update (\<lambda>s. se_user s \<in> set xs \<and> se_revoked s = None) (\<lambda>s. s\<lparr>se_revoked := Some t\<rparr>) (adb_sessions db)"
  "adb_tokens (erase_users xs t db) = adb_tokens db"
  "adb_members (erase_users xs t db)
     = sql_update (\<lambda>m. mb_user m \<in> set xs \<and> mb_status m \<noteq> ''removed'') (\<lambda>m. m\<lparr>mb_status := ''removed''\<rparr>) (adb_members db)"
  by (simp_all add: erase_users_def account_simps Let_def)

lemma update_orgs_tables [account_simps]:
  "adb_users (update_orgs xs f db) = adb_users db" "adb_sessions (update_orgs xs f db) = adb_sessions db"
  "adb_tokens (update_orgs xs f db) = adb_tokens db" "adb_members (update_orgs xs f db) = adb_members db"
  by (simp_all add: update_orgs_def account_simps)

lemma deactivate_deleted_orgs_tables [account_simps]:
  "adb_users (deactivate_deleted_orgs xs t db) = adb_users db"
  "adb_sessions (deactivate_deleted_orgs xs t db) = adb_sessions db"
  "adb_tokens (deactivate_deleted_orgs xs t db) = adb_tokens db"
  by (simp_all add: deactivate_deleted_orgs_def account_simps Let_def)

lemma deactivate_deleted_orgs_members [account_simps]:
  "adb_members (deactivate_deleted_orgs xs t db)
     = sql_update (\<lambda>m. mb_org m \<in> set (unique_trimmed [] xs) \<and> mb_status m \<noteq> ''removed'') (\<lambda>m. m\<lparr>mb_status := ''removed''\<rparr>) (adb_members db)"
  by (cases "unique_trimmed [] xs = []") (simp_all add: deactivate_deleted_orgs_def account_simps Let_def sql_update_none)

end
