(* ===== verification/Account_Rows.thy ===== *)
theory Account_Rows
  imports Account_Steps
begin

text \<open>
  What one operation on accounts does to the tables of users, sessions, mail tokens and members:
  one update that keeps keys, deletions, revocations and uses, or one new row with a new key. The
  contracts of \<open>Row_Lifecycle\<close> carry that over runs.
\<close>

section \<open>Allowed changes\<close>

definition user_can :: "user \<Rightarrow> user \<Rightarrow> bool" where
  "user_can u u' = (us_id u' = us_id u \<and> (us_status u = ''deleted'' \<longrightarrow> us_status u' = ''deleted''))"

definition session_can :: "login_session \<Rightarrow> login_session \<Rightarrow> bool" where
  "session_can s s' = (se_hash s' = se_hash s \<and> se_user s' = se_user s \<and> se_expires s' = se_expires s
     \<and> (se_revoked s \<noteq> None \<longrightarrow> se_revoked s' = se_revoked s))"

definition token_can :: "email_token \<Rightarrow> email_token \<Rightarrow> bool" where
  "token_can t t' = (et_hash t' = et_hash t \<and> et_user t' = et_user t \<and> et_type t' = et_type t \<and> et_expires t' = et_expires t
     \<and> (et_used t \<noteq> None \<longrightarrow> et_used t' = et_used t))"

definition member_key :: "member \<Rightarrow> string \<times> string" where
  "member_key m = (mb_org m, mb_user m)"

definition member_can :: "member \<Rightarrow> member \<Rightarrow> bool" where
  "member_can m m' = (member_key m' = member_key m)"

abbreviation any_new :: "'r list \<Rightarrow> 'r \<Rightarrow> bool" where
  "any_new \<equiv> \<lambda>_ _. True"

abbreviation users_change where "users_change \<equiv> table_change us_id user_can any_new"
abbreviation sessions_change where "sessions_change \<equiv> table_change se_hash session_can any_new"
abbreviation tokens_change where "tokens_change \<equiv> table_change et_hash token_can any_new"
abbreviation members_change where "members_change \<equiv> table_change member_key member_can any_new"

definition account_change :: "account_db \<Rightarrow> account_db \<Rightarrow> bool" where
  "account_change db db' = (users_change (adb_users db) (adb_users db') \<and> sessions_change (adb_sessions db) (adb_sessions db')
     \<and> tokens_change (adb_tokens db) (adb_tokens db') \<and> members_change (adb_members db) (adb_members db'))"

lemma account_changeI:
  assumes "users_change (adb_users db) (adb_users db')" and "sessions_change (adb_sessions db) (adb_sessions db')"
    and "tokens_change (adb_tokens db) (adb_tokens db')" and "members_change (adb_members db) (adb_members db')"
  shows "account_change db db'"
  using assms by (simp add: account_change_def)

lemma account_change_refl: "account_change db db"
  by (simp add: account_change_def table_change.same)

lemma account_change_same:
  assumes "adb_users db' = adb_users db" and "adb_sessions db' = adb_sessions db"
    and "adb_tokens db' = adb_tokens db" and "adb_members db' = adb_members db"
  shows "account_change db db'"
  using assms by (simp add: account_change_def table_change.same)

lemmas can_defs = user_can_def session_can_def token_can_def member_can_def member_key_def

text \<open>The updates the operations make.\<close>

lemma users_update:
  assumes "\<And>u. sel u \<Longrightarrow> us_id (f u) = us_id u" and "\<And>u. sel u \<Longrightarrow> us_status u = ''deleted'' \<Longrightarrow> us_status (f u) = ''deleted''"
  shows "users_change us (sql_update sel f us)"
  by (rule table_change.updated) (simp add: user_can_def assms)

lemma revoked_update:
  "sessions_change ss (sql_update (\<lambda>s. sel s \<and> se_revoked s = None) (\<lambda>s. s\<lparr>se_revoked := Some t\<rparr>) ss)"
  by (rule table_change.updated) (simp add: session_can_def)

lemma members_update:
  assumes "\<And>m. sel m \<Longrightarrow> mb_org (f m) = mb_org m \<and> mb_user (f m) = mb_user m"
  shows "members_change ms (sql_update sel f ms)"
  by (rule table_change.updated) (simp add: member_can_def member_key_def assms)

lemma members_upsert:
  assumes "\<And>m. mb_org (f m) = mb_org m \<and> mb_user (f m) = mb_user m"
  shows "members_change ms (upsert_member new f ms)"
proof (cases "sql_exists (member_of (mb_org new) (mb_user new)) ms")
  case False
  then have "member_key new \<notin> member_key ` set ms" by (auto simp: sql_simps member_of_def member_key_def)
  with False show ?thesis by (simp add: upsert_member_def table_change.added)
qed (simp add: upsert_member_def members_update assms)

lemma set_user_status_keeps [simp]:
  "us_id (set_user_status s t u) = us_id u" "us_role (set_user_status s t u) = us_role u"
  "us_status (set_user_status s t u) = s"
  by (simp_all add: set_user_status_def)

lemma updated_user_keeps [simp]:
  "us_id (updated_user inp t u) = us_id u" "us_role (updated_user inp t u) = ui_role inp"
  "us_status (updated_user inp t u) = ui_status inp"
  by (simp_all add: updated_user_def)

lemma deleted_user_keeps [simp]:
  "us_id (deleted_user t u) = us_id u" "us_status (deleted_user t u) = ''deleted''"
  by (simp_all add: deleted_user_def)

lemma user_live_not_deleted: "user_live u \<Longrightarrow> us_status u \<noteq> ''deleted''"
  by (simp add: user_live_def)

section \<open>Accounts and the service\<close>

lemma ends_in_split:
  assumes "\<And>e s. r = (Inl e, s) \<Longrightarrow> ends_in P (f e s)" and "\<And>x s. r = (Inr x, s) \<Longrightarrow> ends_in P (g x s)"
  shows "ends_in P (case r of (Inl e, s) \<Rightarrow> f e s | (Inr x, s) \<Rightarrow> g x s)"
  using assms by (auto split: prod.split sum.split)

lemmas account_branches = ends_in_if ends_in_case ends_in_split ends_in_pair account_change_refl

lemma user_conflict_fresh:
  assumes "user_conflict uid email username users = None"
  shows "uid \<notin> us_id ` set users" and "email \<notin> us_email ` set users"
  using assms by (auto simp: user_conflict_def sql_simps split: if_splits)

lemma create_user_tables:
  assumes "create_user email password name verified uuid t db = (Inr u, db')"
  shows "users_change (adb_users db) (adb_users db')" and "adb_sessions db' = adb_sessions db" and "adb_tokens db' = adb_tokens db"
    and "adb_members db' = adb_members db" and "u \<in> set (adb_users db')" and "us_status u = ''active''"
proof -
  let ?u = "new_user (''usr_'' @ uuid) (to_lower (trim_space email)) [] password
    (if trim_space name = [] then before_at (to_lower (trim_space email)) else trim_space name) verified t"
  have c: "user_conflict (''usr_'' @ uuid) (to_lower (trim_space email)) [] (adb_users db) = None"
    and eq: "u = ?u" "db' = synced (db\<lparr>adb_users := adb_users db @ [?u]\<rparr>)"
    using assms by (auto simp: create_user_def Let_def split: option.splits)
  from user_conflict_fresh(1) [OF c] show "users_change (adb_users db) (adb_users db')"
    by (simp add: eq account_simps new_user_def table_change.added)
qed (use assms in \<open>auto simp: create_user_def Let_def account_simps new_user_def split: option.splits\<close>)

lemma create_email_token_tables:
  assumes "create_email_token uid typ hash ttl uuid t db = (r, db')"
  shows "tokens_change (adb_tokens db) (adb_tokens db')" and "adb_sessions db' = adb_sessions db" and "adb_users db' = adb_users db"
    and "adb_members db' = adb_members db"
proof -
  show "tokens_change (adb_tokens db) (adb_tokens db')"
  proof (cases "db' = db")
    case False
    with assms have "\<not> sql_exists (\<lambda>t. et_hash t = hash) (adb_tokens db)"
      and db': "db' = db\<lparr>adb_tokens := adb_tokens db @ [\<lparr>et_id = ''emt_'' @ uuid, et_user = uid, et_type = typ, et_hash = hash,
             et_expires = t + ttl, et_used = None\<rparr>]\<rparr>"
      by (auto simp: create_email_token_def split: if_splits)
    then have "hash \<notin> et_hash ` set (adb_tokens db)" by (auto simp: sql_simps)
    then show ?thesis by (simp add: db' table_change.added)
  qed (simp add: table_change.same)
qed (use assms in \<open>auto simp: create_email_token_def split: if_splits\<close>)

lemma create_session_tables:
  assumes "create_session uid hash ip agent expires uuid db = (r, db')"
  shows "sessions_change (adb_sessions db) (adb_sessions db')" and "adb_users db' = adb_users db" and "adb_tokens db' = adb_tokens db"
    and "adb_members db' = adb_members db"
proof -
  show "sessions_change (adb_sessions db) (adb_sessions db')"
  proof (cases "db' = db")
    case False
    with assms have "\<not> sql_exists (\<lambda>s. se_hash s = hash) (adb_sessions db)"
      and db': "db' = db\<lparr>adb_sessions := adb_sessions db @ [\<lparr>se_id = ''ses_'' @ uuid, se_user = uid, se_hash = hash, se_ip = ip,
             se_agent = agent, se_expires = expires, se_revoked = None\<rparr>]\<rparr>"
      by (auto simp: create_session_def split: if_splits)
    then have "hash \<notin> se_hash ` set (adb_sessions db)" by (auto simp: sql_simps)
    then show ?thesis by (simp add: db' table_change.added)
  qed (simp add: table_change.same)
qed (use assms in \<open>auto simp: create_session_def split: if_splits\<close>)

lemma use_token_tables:
  assumes "use_token typ hash t db = (Inr uid, db')"
  shows "tokens_change (adb_tokens db) (adb_tokens db')" and "adb_users db' = adb_users db" and "adb_sessions db' = adb_sessions db"
    and "adb_members db' = adb_members db"
proof -
  have "tokens_change ts (sql_update (token_valid typ hash t) (\<lambda>k. k\<lparr>et_used := Some t\<rparr>) ts)" for ts
    by (rule table_change.updated) (auto simp: token_can_def token_valid_def)
  with assms show "tokens_change (adb_tokens db) (adb_tokens db')"
    by (auto simp: use_token_def split: sum.splits)
qed (use assms in \<open>auto simp: use_token_def split: sum.splits\<close>)

lemma create_user_all:
  "create_user email password name verified uuid t db = (Inr u, db') \<Longrightarrow>
   users_change (adb_users db) (adb_users db') \<and> adb_sessions db' = adb_sessions db \<and> adb_tokens db' = adb_tokens db
   \<and> adb_members db' = adb_members db"
  by (intro conjI create_user_tables)

lemma create_email_token_all:
  "create_email_token uid typ hash ttl uuid t db = (r, db') \<Longrightarrow>
   tokens_change (adb_tokens db) (adb_tokens db') \<and> adb_sessions db' = adb_sessions db \<and> adb_users db' = adb_users db
   \<and> adb_members db' = adb_members db"
  by (intro conjI create_email_token_tables)

lemma create_session_all:
  "create_session uid hash ip agent expires uuid db = (r, db') \<Longrightarrow>
   sessions_change (adb_sessions db) (adb_sessions db') \<and> adb_users db' = adb_users db \<and> adb_tokens db' = adb_tokens db
   \<and> adb_members db' = adb_members db"
  by (intro conjI create_session_tables)

lemma register_change: "ends_in (account_change db) (auth_register x d email password name verify t db)"
  unfolding auth_register_def
  by (intro account_branches)
    (auto intro!: account_changeI dest!: create_user_all create_email_token_all simp: account_simps table_change.same)

lemma login_change: "ends_in (account_change db) (auth_login x d ident email password required ip agent t db)"
  unfolding auth_login_def Let_def
  by (intro account_branches) (auto intro!: account_changeI dest!: create_session_all simp: account_simps table_change.same)

lemma reset_request_change: "ends_in (account_change db) (create_password_reset x d email t db)"
  unfolding create_password_reset_def
  by (intro account_branches) (auto intro!: account_changeI dest!: create_email_token_all simp: account_simps table_change.same)

lemma verify_email_cases:
  assumes "verify_email hash t db = (r, db')"
  shows "account_change db db' \<and> (r = Inl e \<longrightarrow> db' = db)"
proof (cases "use_token ''verify_email'' hash t db")
  case (Pair r1 db1)
  show ?thesis
  proof (cases r1)
    case (Inr uid)
    then have "users_change (adb_users db1) (adb_users db')"
      using assms Pair by (auto simp: verify_email_def intro!: users_update)
    then show ?thesis using assms Pair Inr use_token_tables [of "''verify_email''" hash t db uid db1]
      by (auto simp: verify_email_def account_change_def table_change.same)
  qed (use assms Pair in \<open>auto simp: verify_email_def account_change_refl\<close>)
qed

lemma reset_password_cases:
  assumes "reset_password hash password t db = (r, db')"
  shows "account_change db db' \<and> (r = Inl e \<longrightarrow> db' = db)"
proof (cases "use_token ''reset_password'' hash t db")
  case (Pair r1 db1)
  show ?thesis
  proof (cases r1)
    case (Inr uid)
    have "users_change us (sql_update (\<lambda>u. us_id u = uid) (\<lambda>u. u\<lparr>us_password := password, us_updated := t\<rparr>) us)" for us
      by (rule users_update) simp_all
    then show ?thesis using assms Pair Inr use_token_tables [of "''reset_password''" hash t db uid db1]
      by (auto simp: reset_password_def account_change_def account_simps intro!: revoked_update table_change.same)
  qed (use assms Pair in \<open>auto simp: reset_password_def account_change_refl\<close>)
qed

lemma account_change_audit: "account_change db db' \<Longrightarrow> account_change db (audit_account a x db')"
  by (simp add: account_change_def account_simps)

lemma auth_verify_change: "ends_in (account_change db) (auth_verify_email x token t db)"
  unfolding auth_verify_email_def
  by (intro account_branches) (auto dest!: verify_email_cases intro!: account_change_audit)

lemma auth_reset_change: "ends_in (account_change db) (auth_reset_password x d token password t db)"
  unfolding auth_reset_password_def
  by (intro account_branches) (auto dest!: reset_password_cases intro!: account_change_audit)

lemma revoke_change: "account_change db (revoke_sessions sel t db)"
  by (simp add: account_change_def account_simps revoked_update table_change.same)

lemma profile_change: "ends_in (account_change db) (update_user_profile uid name t db)"
  unfolding update_user_profile_def Let_def
  by (intro account_branches) (auto intro!: account_changeI users_update table_change.same)

section \<open>Workspaces and members\<close>

lemma members_only:
  assumes "members_change (adb_members db) ms" and "adb_users db' = adb_users db" and "adb_sessions db' = adb_sessions db"
    and "adb_tokens db' = adb_tokens db" and "adb_members db' = ms"
  shows "account_change db db'"
  using assms by (simp add: account_change_def table_change.same)

lemma personal_change: "ends_in (account_change db) (ensure_personal_workspace u uuid t db)"
  unfolding ensure_personal_workspace_def Let_def
  by (intro account_branches) (auto intro!: account_changeI members_upsert table_change.same simp: account_simps)

lemma personal_for_change: "ends_in (account_change db) (ensure_personal_workspace_for uid uuid t db)"
  unfolding ensure_personal_workspace_for_def by (intro account_branches personal_change)

lemma workspaces_change: "ends_in (account_change db) (user_workspaces u uuid t db)"
  using personal_change [of db u uuid t] by (auto simp: user_workspaces_def ends_in_def split: prod.split sum.split)

lemma set_workspace_change: "ends_in (account_change db) (set_workspace oid a f db)"
  unfolding set_workspace_def Let_def by (intro account_branches) (auto intro!: account_change_same simp: account_simps)

lemma settings_change: "ends_in (account_change db) (update_workspace_settings oid inp t db)"
  unfolding update_workspace_settings_def Let_def by (intro account_branches set_workspace_change)

lemma settings_reset_change: "ends_in (account_change db) (reset_workspace_settings oid u t db)"
  unfolding reset_workspace_settings_def by (rule set_workspace_change)

lemma invite_change: "ends_in (account_change db) (upsert_workspace_member oid actor email role grp db)"
  unfolding upsert_workspace_member_def Let_def
  by (intro account_branches) (rule members_only [OF members_upsert]; simp add: account_simps)

lemma member_change: "ends_in (account_change db) (update_workspace_member oid actor uid role grp db)"
  unfolding update_workspace_member_def Let_def
  by (intro account_branches) (rule members_only [OF members_update]; simp add: account_simps)

lemma remove_change: "ends_in (account_change db) (remove_workspace_member oid actor uid db)"
  unfolding remove_workspace_member_def
  by (intro account_branches) (rule members_only [OF members_update]; simp add: account_simps)

lemma ends_in_option:
  assumes "\<And>e. r = Some e \<Longrightarrow> ends_in P (f e)" and "r = None \<Longrightarrow> ends_in P g"
  shows "ends_in P (case r of Some e \<Rightarrow> f e | None \<Rightarrow> g)" and "ends_in P (case r of None \<Rightarrow> g | Some e \<Rightarrow> f e)"
  using assms by (cases r; simp)+

lemma bulk_members_change:
  assumes "\<And>m. mb_org (f m) = mb_org m \<and> mb_user (f m) = mb_user m"
  shows "ends_in (account_change db) (bulk_members oid actor uids a f db)"
  unfolding bulk_members_def Let_def
  by (intro account_branches ends_in_option) (rule members_only [OF members_update]; simp add: account_simps assms)

lemma bulk_role_change: "ends_in (account_change db) (bulk_update_members_role oid actor ids role db)"
  unfolding bulk_update_members_role_def Let_def by (intro account_branches bulk_members_change) simp

lemma bulk_remove_change: "ends_in (account_change db) (bulk_remove_members oid actor ids db)"
  unfolding bulk_remove_members_def Let_def by (intro account_branches bulk_members_change) simp

section \<open>Administration\<close>

lemma user_update_change:
  assumes "users_change (adb_users db) (adb_users db')"
    and "\<exists>sel. adb_sessions db' = sql_update (\<lambda>s. sel s \<and> se_revoked s = None) (\<lambda>s. s\<lparr>se_revoked := Some t\<rparr>) (adb_sessions db)"
    and "adb_tokens db' = adb_tokens db" and "members_change (adb_members db) (adb_members db')"
  shows "account_change db db'"
  using assms revoked_update by (auto simp: account_change_def table_change.same)

lemma live_update:
  assumes "\<And>u. us_id (f u) = us_id u"
  shows "users_change us (sql_update (\<lambda>u. P u \<and> user_live u) f us)"
  by (rule users_update) (auto simp: assms user_live_def)

lemma no_sessions_revoked:
  "ss = sql_update (\<lambda>s. False \<and> se_revoked s = None) (\<lambda>s. s\<lparr>se_revoked := Some t\<rparr>) ss"
  by (simp add: sql_update_none)

lemma create_admin_user_change: "ends_in (account_change db) (create_admin_user inp uuid t db)"
proof -
  have "users_change (adb_users db) (adb_users db @ [u])" if "user_conflict (us_id u) e n (adb_users db) = None" for u e n
    using user_conflict_fresh(1) [OF that] by (simp add: table_change.added)
  then show ?thesis
    unfolding create_admin_user_def Let_def
    by (intro account_branches ends_in_option) (auto intro!: account_changeI members_upsert table_change.same simp: account_simps new_user_def)
qed

lemma erase_change: "account_change db (erase_users ids t db)"
  by (rule user_update_change [of _ _ t]) (auto simp: account_simps intro!: live_update members_update)

lemma admin_status_parts:
  "account_change db (synced (db\<lparr>adb_users := sql_update (\<lambda>u. P u \<and> user_live u) f (adb_users db)\<rparr>))"
  "account_change db (close_users ids t (synced (db\<lparr>adb_users := sql_update (\<lambda>u. P u \<and> user_live u) f (adb_users db)\<rparr>)))"
  if "\<And>u. us_id (f u) = us_id u"
  by (auto intro!: account_changeI live_update that revoked_update table_change.same simp: account_simps)

lemma account_change_upstreams: "account_change db db' \<Longrightarrow> account_change db (revoke_platform_upstreams u t db')"
  by (simp add: account_change_def account_simps)

lemma update_admin_user_change: "ends_in (account_change db) (update_admin_user uid actor inp t db)"
  unfolding update_admin_user_def Let_def
  by (intro account_branches account_change_audit) (simp_all add: account_change_upstreams admin_status_parts)

lemma user_status_change: "ends_in (account_change db) (update_admin_user_status uid actor status t db)"
  unfolding update_admin_user_status_def Let_def
  by (intro account_branches account_change_audit) (simp_all add: admin_status_parts)

lemma user_role_change: "ends_in (account_change db) (update_admin_user_role uid role t db)"
  unfolding update_admin_user_role_def write_user_role_def
  by (intro account_branches account_change_audit) (simp_all add: admin_status_parts)

lemma delete_user_change: "ends_in (account_change db) (delete_admin_user uid actor t db)"
  unfolding delete_admin_user_def by (intro account_branches account_change_audit erase_change)

lemma account_change_audits: "account_change db db' \<Longrightarrow> account_change db (audit_each a xs db')"
  by (simp add: account_change_def account_simps)

lemma bulk_users_change:
  assumes "\<And>ids. account_change db (f ids db)"
  shows "ends_in (account_change db) (bulk_users ids a g f db)"
  unfolding bulk_users_def by (intro account_branches ends_in_option account_change_audits assms)

lemma users_status_change: "ends_in (account_change db) (bulk_update_users ids actor status t db)"
  unfolding bulk_update_users_def Let_def
  by (intro account_branches bulk_users_change) (simp_all add: admin_status_parts)

lemma users_role_change: "ends_in (account_change db) (bulk_update_user_roles ids role t db)"
  unfolding bulk_update_user_roles_def Let_def
  by (intro account_branches bulk_users_change) (simp_all add: admin_status_parts)

lemma delete_users_change: "ends_in (account_change db) (bulk_delete_users ids actor t db)"
  unfolding bulk_delete_users_def Let_def by (intro account_branches bulk_users_change erase_change)

lemma orgs_gone_change: "account_change db (deactivate_deleted_orgs ids t (update_orgs xs f db))"
  by (rule members_only [OF members_update]) (simp_all add: account_simps)

lemma orgs_change: "account_change db (update_orgs xs f db)" "account_change db (deactivate_inactive_orgs ids t (update_orgs xs f db))"
  by (simp_all add: account_change_same account_simps)

lemmas org_parts = account_change_audit account_change_audits orgs_gone_change

lemma org_step_change:
  "ends_in (account_change db) (create_admin_org oinp uuid t db)"
  "ends_in (account_change db) (update_admin_org oid oinp t db)"
  "ends_in (account_change db) (update_admin_org_status oid status t db)"
  "ends_in (account_change db) (update_admin_org_plan oid plan t db)"
  "ends_in (account_change db) (delete_admin_org oid t db)"
  unfolding create_admin_org_def update_admin_org_def update_admin_org_status_def update_admin_org_plan_def delete_admin_org_def Let_def
  by (intro account_branches org_parts; simp add: orgs_change account_change_same account_simps)+

lemma bulk_orgs_change:
  assumes "account_change db (f db)"
  shows "ends_in (account_change db) (bulk_orgs ids a g f db)"
  unfolding bulk_orgs_def by (intro account_branches account_change_audits assms)

lemma org_bulk_change:
  "ends_in (account_change db) (bulk_update_orgs ids status t db)"
  "ends_in (account_change db) (bulk_update_org_plans ids plan t db)"
  "ends_in (account_change db) (bulk_delete_orgs ids t db)"
  unfolding bulk_update_orgs_def bulk_update_org_plans_def bulk_delete_orgs_def Let_def
  by (intro account_branches bulk_orgs_change orgs_gone_change; simp add: orgs_change)+

lemmas account_changes =
  register_change login_change auth_verify_change reset_request_change auth_reset_change profile_change workspaces_change
  personal_for_change settings_change settings_reset_change invite_change member_change remove_change bulk_role_change
  bulk_remove_change create_admin_user_change update_admin_user_change user_status_change user_role_change delete_user_change
  users_status_change users_role_change delete_users_change org_step_change org_bulk_change

lemma account_step_change: "account_change db (account_step op db t)"
  by (cases op) (simp_all add: account_changes [unfolded ends_in_def] auth_logout_def revoke_session_def revoke_other_sessions_def
    revoke_user_sessions_def revoke_change)

section \<open>The contracts\<close>

definition account_wf :: "account_db \<Rightarrow> bool" where
  "account_wf db = (distinct (map us_id (adb_users db)) \<and> distinct (map se_hash (adb_sessions db))
     \<and> distinct (map et_hash (adb_tokens db)) \<and> distinct (map member_key (adb_members db)))"

lemma account_wf_change:
  assumes "account_wf db" and "account_change db db'"
  shows "account_wf db'"
proof -
  note c = assms(2) [unfolded account_change_def]
  have "distinct (map us_id (adb_users db'))"
    using c assms(1) by (auto simp: account_wf_def user_can_def intro: table_change_keys(1))
  moreover have "distinct (map se_hash (adb_sessions db'))"
    using c assms(1) by (auto simp: account_wf_def session_can_def intro: table_change_keys(1))
  moreover have "distinct (map et_hash (adb_tokens db'))"
    using c assms(1) by (auto simp: account_wf_def token_can_def intro: table_change_keys(1))
  moreover have "distinct (map member_key (adb_members db'))"
    using c assms(1) by (auto simp: account_wf_def member_can_def intro: table_change_keys(1))
  ultimately show ?thesis by (simp add: account_wf_def)
qed

lemma account_step_wf: "account_wf db \<Longrightarrow> account_wf (account_step op db t)"
  by (rule account_wf_change [OF _ account_step_change])

lemma account_step_keeps:
  "keeps_rows us_id user_can (adb_users db) (adb_users (account_step op db t))"
  "keeps_rows se_hash session_can (adb_sessions db) (adb_sessions (account_step op db t))"
  "keeps_rows et_hash token_can (adb_tokens db) (adb_tokens (account_step op db t))"
  using account_step_change [of db op t]
  by (auto simp: account_change_def can_defs intro!: table_change_keeps)

interpretation user_rows: row_lifecycle account_wf account_step adb_users us_id user_can
  using account_step_keeps(1) by unfold_locales (auto simp: user_can_def account_step_wf keeps_rows_def)

interpretation session_rows: row_lifecycle account_wf account_step adb_sessions se_hash session_can
  using account_step_keeps(2) by unfold_locales (auto simp: session_can_def account_step_wf keeps_rows_def)

end
