(* ===== verification/Account_Owner.thy ===== *)
theory Account_Owner
  imports Account_Rows
begin

text \<open>
  The guards of the administration on platform owners: whatever operation runs, an active owner
  remains. Most operations leave roles and status of users alone; the ones that change them check
  \<open>owner_outside\<close> of what they select.
\<close>

definition active_owner :: "user \<Rightarrow> bool" where
  "active_owner u = (us_role u = ''owner'' \<and> us_status u = ''active'')"

definition has_owner :: "account_db \<Rightarrow> bool" where
  "has_owner db = sql_exists active_owner (adb_users db)"

definition owner_kept :: "account_db \<Rightarrow> account_db \<Rightarrow> bool" where
  "owner_kept db db' = (has_owner db \<longrightarrow> has_owner db')"

lemma owner_kept_same: "adb_users db' = adb_users db \<Longrightarrow> owner_kept db db'"
  by (simp add: owner_kept_def has_owner_def)

lemma owner_kept_append: "adb_users db' = adb_users db @ us \<Longrightarrow> owner_kept db db'"
  by (auto simp: owner_kept_def has_owner_def sql_simps)

lemma owner_kept_update:
  assumes "adb_users db' = sql_update sel f (adb_users db)"
    and "has_owner db \<Longrightarrow> \<exists>u\<in>set (adb_users db). active_owner u \<and> (sel u \<longrightarrow> active_owner (f u))"
  shows "owner_kept db db'"
proof -
  have "has_owner db'" if o: "has_owner db"
  proof -
    from assms(2) [OF o] obtain u where "u \<in> set (adb_users db)" "active_owner u" "sel u \<longrightarrow> active_owner (f u)" by blast
    then have "(if sel u then f u else u) \<in> set (adb_users db')" "active_owner (if sel u then f u else u)"
      by (auto simp: assms(1) sql_simps)
    then show ?thesis unfolding has_owner_def sql_simps by blast
  qed
  then show ?thesis by (simp add: owner_kept_def)
qed

lemma owner_kept_harmless:
  assumes "adb_users db' = sql_update sel f (adb_users db)" and "\<And>u. active_owner u \<Longrightarrow> active_owner (f u)"
  shows "owner_kept db db'"
proof (rule owner_kept_update [OF assms(1)])
  assume "has_owner db"
  then show "\<exists>u\<in>set (adb_users db). active_owner u \<and> (sel u \<longrightarrow> active_owner (f u))"
    using assms(2) unfolding has_owner_def sql_simps by blast
qed

section \<open>Operations that leave owners alone\<close>

lemma same_users:
  "ends_in (owner_kept db) (ensure_personal_workspace u uuid t db)"
  "ends_in (owner_kept db) (set_workspace oid a g db)"
  "ends_in (owner_kept db) (upsert_workspace_member oid actor email role grp db)"
  "ends_in (owner_kept db) (update_workspace_member oid actor uid role grp db)"
  "ends_in (owner_kept db) (remove_workspace_member oid actor uid db)"
  "ends_in (owner_kept db) (bulk_members oid actor uids a h db)"
  unfolding ensure_personal_workspace_def set_workspace_def upsert_workspace_member_def update_workspace_member_def
    remove_workspace_member_def bulk_members_def Let_def
  by (intro account_branches ends_in_option; simp add: owner_kept_same account_simps)+

lemma same_users_wrapped:
  "ends_in (owner_kept db) (ensure_personal_workspace_for uid uuid t db)"
  "ends_in (owner_kept db) (update_workspace_settings oid inp t db)"
  "ends_in (owner_kept db) (reset_workspace_settings oid u t db)"
  "ends_in (owner_kept db) (bulk_update_members_role oid actor ids role db)"
  "ends_in (owner_kept db) (bulk_remove_members oid actor ids db)"
  unfolding ensure_personal_workspace_for_def update_workspace_settings_def reset_workspace_settings_def
    bulk_update_members_role_def bulk_remove_members_def Let_def
  by (intro account_branches same_users; simp add: owner_kept_same)+

lemma same_users_workspaces: "ends_in (owner_kept db) (user_workspaces u uuid t db)"
  using same_users(1) [of db u uuid t] by (auto simp: user_workspaces_def ends_in_def split: prod.split sum.split)

lemma same_users_bulk_orgs: "adb_users (f db) = adb_users db \<Longrightarrow> ends_in (owner_kept db) (bulk_orgs ids a g f db)"
  unfolding bulk_orgs_def by (intro account_branches) (simp_all add: owner_kept_same account_simps)

lemma same_users_orgs:
  "ends_in (owner_kept db) (create_admin_org oinp uuid t db)"
  "ends_in (owner_kept db) (update_admin_org oid oinp t db)"
  "ends_in (owner_kept db) (update_admin_org_status oid status t db)"
  "ends_in (owner_kept db) (update_admin_org_plan oid plan t db)"
  "ends_in (owner_kept db) (delete_admin_org oid t db)"
  "ends_in (owner_kept db) (bulk_update_orgs ids status t db)"
  "ends_in (owner_kept db) (bulk_update_org_plans ids plan t db)"
  "ends_in (owner_kept db) (bulk_delete_orgs ids t db)"
  unfolding create_admin_org_def update_admin_org_def update_admin_org_status_def update_admin_org_plan_def delete_admin_org_def
    bulk_update_orgs_def bulk_update_org_plans_def bulk_delete_orgs_def Let_def
  by (intro account_branches same_users_bulk_orgs; simp add: owner_kept_same account_simps)+

lemma create_user_owner: "create_user email password name v uuid t db = (Inr u, db') \<Longrightarrow> \<exists>us. adb_users db' = adb_users db @ us"
  by (auto simp: create_user_def Let_def account_simps split: option.splits)

lemma auth_owner_create:
  "ends_in (owner_kept db) (auth_register x d email password name verify t db)"
  "ends_in (owner_kept db) (create_admin_user inp uuid t db)"
proof -
  show "ends_in (owner_kept db) (auth_register x d email password name verify t db)"
    unfolding auth_register_def
    by (intro account_branches)
      (auto dest!: create_user_owner create_email_token_all intro: owner_kept_append owner_kept_same simp: account_simps)
  show "ends_in (owner_kept db) (create_admin_user inp uuid t db)"
    unfolding create_admin_user_def Let_def
    by (intro account_branches ends_in_option) (simp_all add: owner_kept_append owner_kept_same account_simps)
qed

lemma auth_owner_same:
  "ends_in (owner_kept db) (auth_login x d ident email password required ip agent t db)"
  "ends_in (owner_kept db) (create_password_reset x d email t db)"
  unfolding auth_login_def create_password_reset_def Let_def
  by (intro account_branches; auto dest!: create_session_all create_email_token_all intro: owner_kept_same simp: account_simps)+

lemma verify_email_owner:
  assumes "verify_email hash t db = (r, db')"
  shows "owner_kept db db'"
proof (cases "use_token ''verify_email'' hash t db")
  case (Pair r1 db1)
  show ?thesis
  proof (cases r1)
    case (Inr uid)
    with Pair assms use_token_tables(2) [of _ hash t db uid db1]
    have "adb_users db' = sql_update (\<lambda>u. us_id u = uid) (\<lambda>u. u\<lparr>us_verified := Some t, us_updated := t\<rparr>) (adb_users db)"
      by (auto simp: verify_email_def)
    then show ?thesis by (rule owner_kept_harmless) (simp add: active_owner_def)
  qed (use Pair assms in \<open>simp add: verify_email_def owner_kept_def\<close>)
qed

lemma reset_password_owner:
  assumes "reset_password hash password t db = (r, db')"
  shows "owner_kept db db'"
proof (cases "use_token ''reset_password'' hash t db")
  case (Pair r1 db1)
  show ?thesis
  proof (cases r1)
    case (Inr uid)
    with Pair assms use_token_tables(2) [of _ hash t db uid db1]
    have "adb_users db' = sql_update (\<lambda>u. us_id u = uid) (\<lambda>u. u\<lparr>us_password := password, us_updated := t\<rparr>) (adb_users db)"
      by (auto simp: reset_password_def account_simps)
    then show ?thesis by (rule owner_kept_harmless) (simp add: active_owner_def)
  qed (use Pair assms in \<open>simp add: reset_password_def owner_kept_def\<close>)
qed

lemma owner_kept_audit [simp]: "owner_kept db (audit_account a x db') = owner_kept db db'"
  by (simp add: owner_kept_def has_owner_def account_simps)

lemma owner_kept_audits [simp]: "owner_kept db (audit_each a xs db') = owner_kept db db'"
  by (simp add: owner_kept_def has_owner_def account_simps)

lemma auth_owner_harmless:
  "ends_in (owner_kept db) (auth_verify_email x token t db)"
  "ends_in (owner_kept db) (auth_reset_password x d token password t db)"
  "ends_in (owner_kept db) (update_user_profile uid name t db)"
proof -
  show "ends_in (owner_kept db) (auth_verify_email x token t db)"
    unfolding auth_verify_email_def by (intro account_branches) (auto dest: verify_email_owner)
  show "ends_in (owner_kept db) (auth_reset_password x d token password t db)"
    unfolding auth_reset_password_def by (intro account_branches) (auto dest: reset_password_owner intro: owner_kept_same)
  show "ends_in (owner_kept db) (update_user_profile uid name t db)"
    unfolding update_user_profile_def Let_def
    by (intro account_branches; (simp add: owner_kept_same; fail)?) 
      (rule owner_kept_harmless [where f = "\<lambda>u. u\<lparr>us_name := trim_space name, us_avatar := user_avatar (trim_space name), us_updated := t\<rparr>"];
        simp add: active_owner_def)
qed

section \<open>Operations that change owners\<close>

text \<open>One user: an owner is only demoted or closed when another active one is left.\<close>

lemma single_owner:
  assumes "distinct (map us_id (adb_users db))" and "query_row (\<lambda>u. us_id u = uid \<and> P u) (adb_users db) = Inr cur"
    and "adb_users db' = sql_update (\<lambda>u. us_id u = uid \<and> user_live u) f (adb_users db)"
    and "\<not> (us_role cur = ''owner'' \<and> lost \<and> \<not> owner_outside [uid] db)" and "\<And>u. \<not> lost \<Longrightarrow> active_owner u \<Longrightarrow> active_owner (f u)"
  shows "owner_kept db db'"
proof (rule owner_kept_update [OF assms(3)])
  assume "has_owner db"
  then obtain v where v: "v \<in> set (adb_users db)" "active_owner v" by (auto simp: has_owner_def sql_simps)
  from query_row_Inr [OF assms(2)] have cur: "cur \<in> set (adb_users db)" "us_id cur = uid" by auto
  show "\<exists>u\<in>set (adb_users db). active_owner u \<and> (us_id u = uid \<and> user_live u \<longrightarrow> active_owner (f u))"
  proof (cases "us_id v = uid \<and> lost")
    case True
    then have "v = cur" using distinct_key_unique [OF assms(1) v(1) cur(1)] cur(2) by simp
    with v(2) True assms(4) have "owner_outside [uid] db" by (simp add: active_owner_def)
    then show ?thesis by (auto simp: owner_outside_def active_owner_def sql_simps)
  qed (use v assms(5) in blast)
qed

lemma single_owner_id:
  assumes "distinct (map us_id (adb_users db))" and "query_row (\<lambda>u. us_id u = uid) (adb_users db) = Inr cur"
    and "adb_users db' = sql_update (\<lambda>u. us_id u = uid \<and> user_live u) f (adb_users db)"
    and "\<not> (us_role cur = ''owner'' \<and> lost \<and> \<not> owner_outside [uid] db)" and "\<And>u. \<not> lost \<Longrightarrow> active_owner u \<Longrightarrow> active_owner (f u)"
  shows "owner_kept db db'"
  using single_owner [of db uid "\<lambda>_. True" cur db' f lost] assms by simp

lemma user_owner_kept:
  assumes "distinct (map us_id (adb_users db))"
  shows "ends_in (owner_kept db) (update_admin_user uid actor inp t db)"
    and "ends_in (owner_kept db) (update_admin_user_status uid actor status t db)"
    and "ends_in (owner_kept db) (update_admin_user_role uid role t db)"
    and "ends_in (owner_kept db) (delete_admin_user uid actor t db)"
proof -
  show "ends_in (owner_kept db) (update_admin_user uid actor inp t db)"
    unfolding update_admin_user_def Let_def
  proof (intro account_branches; (simp add: owner_kept_same; fail)?; simp only: owner_kept_audit, goal_cases)
    case (1 cur inp')
    from 1(1) show ?case
      by (rule single_owner_id [where f = "updated_user inp' t" and lost = "ui_role inp' \<noteq> ''owner'' \<or> ui_status inp' \<noteq> ''active''", OF assms])
        (use 1 in \<open>auto simp: account_simps active_owner_def\<close>)
  qed
  show "ends_in (owner_kept db) (update_admin_user_status uid actor status t db)"
    unfolding update_admin_user_status_def Let_def
  proof (intro account_branches; (simp add: owner_kept_same; fail)?; simp only: owner_kept_audit, goal_cases)
    case (1 st cur)
    from 1(2) show ?case
      by (rule single_owner_id [where f = "set_user_status st t" and lost = "st \<noteq> ''active''", OF assms]) (use 1 in \<open>auto simp: account_simps active_owner_def\<close>)
  qed
  show "ends_in (owner_kept db) (update_admin_user_role uid role t db)"
    unfolding update_admin_user_role_def write_user_role_def
  proof (intro account_branches; (simp add: owner_kept_same; fail)?; simp only: owner_kept_audit, goal_cases)
    case (1 ro)
    from 1(1) obtain cur where cur: "query_row (\<lambda>u. us_id u = uid) (adb_users db) = Inr cur"
      "\<not> (us_role cur = ''owner'' \<and> ro \<noteq> ''owner'' \<and> \<not> owner_outside [uid] db)"
      by (auto simp: check_user_role_def split: sum.splits if_splits)
    show ?case
      by (rule single_owner_id [where f = "\<lambda>u. u\<lparr>us_role := ro, us_updated := t\<rparr>" and lost = "ro \<noteq> ''owner''", OF assms cur(1) _ cur(2)])
        (auto simp: account_simps active_owner_def)
  qed
  show "ends_in (owner_kept db) (delete_admin_user uid actor t db)"
    unfolding delete_admin_user_def
  proof (intro account_branches; (simp add: owner_kept_same; fail)?; simp only: owner_kept_audit, goal_cases)
    case (1 cur)
    from 1(2) show ?case
      by (rule single_owner [where f = "deleted_user t" and lost = True, OF assms]) (use 1 in \<open>auto simp: account_simps\<close>)
  qed
qed

text \<open>Several users: when an active owner is selected and would be lost, another is left outside.\<close>

lemma bulk_owner:
  assumes "user_bulk_states ids db = Inr states" and "adb_users db' = sql_update (\<lambda>u. us_id u \<in> set ids \<and> user_live u) f (adb_users db)"
    and "\<not> (lost \<and> selected_owner states \<and> \<not> owner_outside ids db)" and "\<And>u. \<not> lost \<Longrightarrow> active_owner u \<Longrightarrow> active_owner (f u)"
  shows "owner_kept db db'"
proof (rule owner_kept_update [OF assms(2)])
  assume "has_owner db"
  then obtain v where v: "v \<in> set (adb_users db)" "active_owner v" by (auto simp: has_owner_def sql_simps)
  show "\<exists>u\<in>set (adb_users db). active_owner u \<and> (us_id u \<in> set ids \<and> user_live u \<longrightarrow> active_owner (f u))"
  proof (cases "us_id v \<in> set ids \<and> user_live v \<and> lost")
    case True
    with v assms(1) have "selected_owner states"
      by (auto simp: user_bulk_states_def Let_def selected_owner_def list_ex_iff active_owner_def split: if_splits)
    with True assms(3) have "owner_outside ids db" by blast
    then show ?thesis by (auto simp: owner_outside_def active_owner_def sql_simps)
  qed (use v assms(4) in blast)
qed

lemma bulk_users_owner:
  assumes "adb_users (change ids db) = sql_update (\<lambda>u. us_id u \<in> set ids \<and> user_live u) f (adb_users db)"
    and "\<And>states. guard states = None \<Longrightarrow> \<not> (lost \<and> selected_owner states \<and> \<not> owner_outside ids db)"
    and "\<And>u. \<not> lost \<Longrightarrow> active_owner u \<Longrightarrow> active_owner (f u)"
  shows "ends_in (owner_kept db) (bulk_users ids a guard change db)"
  unfolding bulk_users_def
proof (intro account_branches ends_in_option; (simp add: owner_kept_same; fail)?; simp only: owner_kept_audits, goal_cases)
  case (1 states)
  from 1(1) assms(1) assms(2) [OF 1(2)] assms(3) show ?case by (rule bulk_owner)
qed

lemma users_owner_kept:
  "ends_in (owner_kept db) (bulk_update_users ids actor status t db)"
  "ends_in (owner_kept db) (bulk_update_user_roles ids role t db)"
  "ends_in (owner_kept db) (bulk_delete_users ids actor t db)"
proof -
  show "ends_in (owner_kept db) (bulk_update_users ids actor status t db)"
    unfolding bulk_update_users_def Let_def
  proof (intro account_branches; (simp add: owner_kept_same; fail)?, goal_cases)
    case (1 st)
    show ?case
      by (rule bulk_users_owner [where lost = "st \<noteq> ''active''" and f = "set_user_status st t"])
        (auto simp: account_simps active_owner_def split: if_splits)
  qed
  show "ends_in (owner_kept db) (bulk_update_user_roles ids role t db)"
    unfolding bulk_update_user_roles_def Let_def
  proof (intro account_branches; (simp add: owner_kept_same; fail)?, goal_cases)
    case (1 ro)
    show ?case
      by (rule bulk_users_owner [where lost = "ro \<noteq> ''owner''" and f = "\<lambda>u. u\<lparr>us_role := ro, us_updated := t\<rparr>"])
        (auto simp: account_simps active_owner_def split: if_splits)
  qed
  show "ends_in (owner_kept db) (bulk_delete_users ids actor t db)"
    unfolding bulk_delete_users_def Let_def
  proof (intro account_branches; (simp add: owner_kept_same; fail)?, goal_cases)
    case 1
    show ?case
      by (rule bulk_users_owner [where lost = True and f = "deleted_user t"]) (auto simp: account_simps split: if_splits)
  qed
qed

lemmas owner_steps = same_users(3-5) same_users_wrapped same_users_workspaces same_users_orgs auth_owner_create auth_owner_same
  auth_owner_harmless user_owner_kept users_owner_kept

lemma owner_step:
  assumes "account_wf db"
  shows "owner_kept db (account_step op db t)"
  using assms unfolding account_wf_def
  by (cases op) (simp_all add: owner_steps [unfolded ends_in_def] auth_logout_def revoke_session_def revoke_other_sessions_def
    revoke_user_sessions_def owner_kept_same account_simps)

lemma owner_run:
  assumes "account_wf db" and "has_owner db"
  shows "has_owner (store_run account_step db es)"
  using assms
proof (induction es arbitrary: db)
  case (Cons e es)
  from owner_step [OF Cons.prems(1)] Cons.prems(2) have "has_owner (account_step (fst e) db (snd e))"
    by (simp add: owner_kept_def)
  with Cons.IH account_step_wf [OF Cons.prems(1)] show ?case by simp
qed simp

end
