(* ===== verification/Account_Safety.thy ===== *)
theory Account_Safety
  imports Account_Owner Relay_Safety
begin

text \<open>
  Properties of accounts, workspaces and their administration: an owner remains, tokens are spent
  once, revoked sessions and deleted users never come back, member management cannot touch owners
  or its caller, and what deleting users and changing plans does to gateways and keys.
\<close>

section \<open>Tokens\<close>

fun token_spent :: "string \<Rightarrow> account_op \<Rightarrow> account_db \<Rightarrow> time \<Rightarrow> bool" where
  "token_spent k (AVerifyEmail x token) db t = (xc_sha x token = k \<and> is_ok (fst (auth_verify_email x token t db)))"
| "token_spent k (AResetPassword x d token password) db t =
     (xc_sha x token = k \<and> is_ok (fst (auth_reset_password x d token password t db)))"
| "token_spent k _ db t = False"

lemma use_token_spends:
  assumes "use_token typ hash t db = (Inr uid, db')" and "account_wf db"
  obtains r where "row_at et_hash hash (adb_tokens db) = Some r" and "token_valid typ hash t r" and "et_user r = uid"
    and "row_at et_hash hash (adb_tokens db') = Some (r\<lparr>et_used := Some t\<rparr>)"
proof -
  from assms(1) obtain r where r: "query_row (token_valid typ hash t) (adb_tokens db) = Inr r" "uid = et_user r"
    and db': "db' = db\<lparr>adb_tokens := sql_update (token_valid typ hash t) (\<lambda>k. k\<lparr>et_used := Some t\<rparr>) (adb_tokens db)\<rparr>"
    by (auto simp: use_token_def split: sum.splits)
  from query_row_Inr [OF r(1)] have v: "r \<in> set (adb_tokens db)" "token_valid typ hash t r" "et_hash r = hash"
    by (auto simp: token_valid_def)
  with assms(2) have "row_at et_hash hash (adb_tokens db) = Some r"
    using row_at_unique [of et_hash "adb_tokens db" r] by (simp add: account_wf_def)
  with v that r(2) show thesis by (simp add: db' row_at_sql_update)
qed

lemma verify_email_uses:
  assumes "verify_email hash t db = (Inr uid, db')"
  obtains db1 where "use_token ''verify_email'' hash t db = (Inr uid, db1)" and "adb_tokens db' = adb_tokens db1"
  using assms by (auto simp: verify_email_def split: prod.splits sum.splits)

lemma reset_password_uses:
  assumes "reset_password hash password t db = (Inr uid, db')"
  obtains db1 where "use_token ''reset_password'' hash t db = (Inr uid, db1)" and "adb_tokens db' = adb_tokens db1"
    and "db' = revoke_sessions (\<lambda>s. se_user s = uid) t
      (db1\<lparr>adb_users := sql_update (\<lambda>u. us_id u = uid) (\<lambda>u. u\<lparr>us_password := password, us_updated := t\<rparr>) (adb_users db1)\<rparr>)"
  using assms by (auto simp: reset_password_def account_simps split: prod.splits sum.splits)

lemma token_spent_uses:
  assumes "token_spent k op db t"
  obtains ty uid db1 where "use_token ty k t db = (Inr uid, db1)" and "adb_tokens (account_step op db t) = adb_tokens db1"
  using assms
proof (cases op)
  case (AVerifyEmail x token)
  with assms obtain uid db1 where "verify_email k t db = (Inr uid, db1)" and "adb_tokens (account_step op db t) = adb_tokens db1"
    by (auto simp: auth_verify_email_def account_simps split: prod.splits sum.splits)
  then show thesis by (metis verify_email_uses that)
next
  case (AResetPassword x d token password)
  with assms obtain hash uid db1 where "reset_password k hash t db = (Inr uid, db1)"
    and "adb_tokens (account_step op db t) = adb_tokens db1"
    by (auto simp: auth_reset_password_def account_simps split: prod.splits sum.splits)
  then show thesis by (metis reset_password_uses that)
qed simp_all

interpretation mail_tokens: one_shot account_wf account_step adb_tokens et_hash token_can "\<lambda>k. et_used k = None" token_spent
proof unfold_locales
  fix k op db t assume wf: "account_wf db" and "token_spent k op db t"
  then obtain ty uid db1 where u: "use_token ty k t db = (Inr uid, db1)"
    and s: "adb_tokens (account_step op db t) = adb_tokens db1"
    by (blast elim: token_spent_uses)
  from use_token_spends [OF u wf] obtain r where r: "row_at et_hash k (adb_tokens db) = Some r" "token_valid ty k t r"
    and r': "row_at et_hash k (adb_tokens db1) = Some (r\<lparr>et_used := Some t\<rparr>)" by blast
  then show "\<exists>r. row_at et_hash k (adb_tokens db) = Some r \<and> et_used r = None" by (auto simp: token_valid_def)
  show "et_used q \<noteq> None" if "row_at et_hash k (adb_tokens (account_step op db t)) = Some q" for q
    using that r' by (auto simp: s)
next
  fix db k r op t assume "account_wf db" "row_at et_hash k (adb_tokens db) = Some r"
  then show "\<exists>r'. row_at et_hash k (adb_tokens (account_step op db t)) = Some r' \<and> token_can r r'"
    using account_step_keeps(3) [of db op t] by (auto simp: keeps_rows_def)
qed (auto simp: token_can_def account_step_wf)

section \<open>Sessions and deleted users\<close>

lemma auth_reset_ok:
  assumes "auth_reset_password x d token password t db = (Inr (), db')"
  obtains hash uid db1 where "xc_hash x (dr_salt d) password = Inr hash"
    and "reset_password (xc_sha x token) hash t db = (Inr uid, db1)" and "db' = audit_account ''auth.password_reset'' uid db1"
proof (cases "xc_hash x (dr_salt d) password")
  case (Inr hash)
  obtain r db1 where p: "reset_password (xc_sha x token) hash t db = (r, db1)" by fastforce
  show thesis
  proof (cases r)
    case (Inr uid)
    then show thesis using assms p \<open>xc_hash x (dr_salt d) password = Inr hash\<close>
      by (intro that [of hash uid db1]) (simp_all add: auth_reset_password_def)
  qed (use assms p Inr in \<open>simp add: auth_reset_password_def\<close>)
qed (use assms in \<open>simp add: auth_reset_password_def\<close>)

lemma revoked_session_useless:
  assumes "account_wf db" and "s \<in> set (adb_sessions db)" and "se_revoked s \<noteq> None"
  shows "user_by_session (se_hash s) now (store_run account_step db es) = Inl ErrNoRows"
proof -
  let ?db = "store_run account_step db es"
  have "row_at se_hash (se_hash s) (adb_sessions db) = Some s"
    using assms(1,2) by (intro row_at_unique) (simp add: account_wf_def)
  from session_rows.row_run [OF assms(1) this, of es] obtain s' where
    s': "row_at se_hash (se_hash s) (adb_sessions ?db) = Some s'" "se_revoked s' \<noteq> None"
    using assms(3) by (auto simp: session_can_def)
  have d: "distinct (map se_hash (adb_sessions ?db))"
    using session_rows.inv_run [OF assms(1), of es] by (simp add: account_wf_def)
  have "\<not> session_valid (se_hash s) now x" if "x \<in> set (adb_sessions ?db)" for x
  proof
    assume v: "session_valid (se_hash s) now x"
    then have "row_at se_hash (se_hash s) (adb_sessions ?db) = Some x"
      using row_at_unique [OF d that] by (simp add: session_valid_def)
    with s' v show False by (simp add: session_valid_def)
  qed
  then have "session_users (se_hash s) now ?db = []" by (simp add: session_users_def filter_empty_conv)
  then show ?thesis by (simp add: user_by_session_def query_row_def)
qed

lemma revoke_sessions_marks:
  assumes "s \<in> set (adb_sessions db)" and "sel s"
  obtains s' where "s' \<in> set (adb_sessions (revoke_sessions sel t db))" and "se_hash s' = se_hash s" and "se_revoked s' \<noteq> None"
proof -
  let ?s = "if sel s \<and> se_revoked s = None then s\<lparr>se_revoked := Some t\<rparr> else s"
  have "?s \<in> set (adb_sessions (revoke_sessions sel t db))" using assms(1) by (auto simp: account_simps sql_simps)
  then show thesis using assms(2) by (intro that [of ?s]) auto
qed

lemma revoked_sessions_useless:
  assumes "account_wf db" and "s \<in> set (adb_sessions db)" and "sel s"
    and "adb_sessions db' = adb_sessions (revoke_sessions sel t db)" and "account_wf db'"
  shows "user_by_session (se_hash s) now (store_run account_step db' es) = Inl ErrNoRows"
proof -
  from revoke_sessions_marks [where sel = sel and t = t, OF assms(2,3)] obtain s' where
    "s' \<in> set (adb_sessions db')" "se_hash s' = se_hash s" "se_revoked s' \<noteq> None" by (metis assms(4))
  with revoked_session_useless [OF assms(5), of s' now es] show ?thesis by simp
qed

lemma deleted_user_stays:
  assumes "account_wf db" and "u \<in> set (adb_users db)" and "us_status u = ''deleted''"
    and "v \<in> set (adb_users (store_run account_step db es))" and "us_id v = us_id u"
  shows "us_status v = ''deleted''"
proof -
  have "row_at us_id (us_id u) (adb_users db) = Some u"
    using assms(1,2) by (intro row_at_unique) (simp add: account_wf_def)
  from user_rows.row_run [OF assms(1) this, of es] assms(3) obtain u' where
    u': "row_at us_id (us_id u) (adb_users (store_run account_step db es)) = Some u'" "us_status u' = ''deleted''"
    by (auto simp: user_can_def)
  have "distinct (map us_id (adb_users (store_run account_step db es)))"
    using user_rows.inv_run [OF assms(1), of es] by (simp add: account_wf_def)
  from row_at_unique [OF this assms(4)] u' assms(5) show ?thesis by simp
qed

lemma user_by_session_active:
  assumes "user_by_session hash now db = Inr u"
  shows "u \<in> set (adb_users db) \<and> us_status u = ''active''"
  using query_row_Inr [OF assms [unfolded user_by_session_def]] by (auto simp: session_users_def user_active_def)

lemma user_by_login_active:
  assumes "user_by_login ident db = Inr u"
  shows "u \<in> set (adb_users db) \<and> us_status u = ''active''"
  using assms by (auto simp: user_by_login_def Let_def user_by_email_def user_active_def dest: query_row_Inr split: if_splits)

lemma login_active:
  assumes "fst (auth_login x d ident email password required ip agent now db) = Inr (token, u)"
  obtains v where "v \<in> set (adb_users db)" and "us_status v = ''active''" and "us_id u = us_id v"
  using assms by (auto simp: auth_login_def Let_def public_user_def dest!: user_by_login_active split: sum.splits if_splits prod.splits)

lemma delete_admin_user_ok:
  assumes "delete_admin_user uid actor t db = (Inr (), db')"
  obtains cur where "cur \<in> set (adb_users db)" and "us_id cur = uid" and "user_live cur"
    and "db' = audit_account ''admin.user.deleted'' uid (erase_users [uid] t db)"
  using assms by (auto simp: delete_admin_user_def dest!: query_row_Inr split: sum.splits if_splits)

lemma deleted_user_row:
  assumes "delete_admin_user uid actor t db = (Inr (), db')"
  obtains u where "u \<in> set (adb_users db')" and "us_id u = uid" and "us_status u = ''deleted''"
proof -
  from delete_admin_user_ok [OF assms] obtain cur where cur: "cur \<in> set (adb_users db)" "us_id cur = uid" "user_live cur"
    and db': "db' = audit_account ''admin.user.deleted'' uid (erase_users [uid] t db)" by blast
  have "deleted_user t cur \<in> set (adb_users db')" using cur by (force simp: db' account_simps sql_simps)
  with cur(2) show thesis by (intro that [of "deleted_user t cur"]) simp_all
qed

lemma active_users_iff:
  "uid \<in> set (active_users (accounts_of db)) \<longleftrightarrow> (\<exists>u\<in>set (adb_users db). us_id u = uid \<and> us_status u = ''active'' \<and> us_deleted u = None)"
  by (auto simp: accounts_of_def)

section \<open>Members\<close>

definition owner_row :: "member \<Rightarrow> bool" where
  "owner_row m = (mb_role m = ''owner'' \<and> mb_status m = ''active'')"

text \<open>The workspace and the caller of an operation on its members.\<close>

fun manages_members :: "account_op \<Rightarrow> (string \<times> string) option" where
  "manages_members (AInvite oid actor email role grp) = Some (oid, actor)"
| "manages_members (AMember oid actor uid role grp) = Some (oid, actor)"
| "manages_members (ARemove oid actor uid) = Some (oid, actor)"
| "manages_members (ABulkRole oid actor ids role) = Some (org_or_default oid, actor)"
| "manages_members (ABulkRemove oid actor ids) = Some (org_or_default oid, actor)"
| "manages_members _ = None"

definition protected_row :: "string \<Rightarrow> string \<Rightarrow> member \<Rightarrow> bool" where
  "protected_row oid actor m = (mb_org m \<noteq> oid \<or> mb_user m = actor \<or> owner_row m)"

definition protects :: "string \<Rightarrow> string \<Rightarrow> account_db \<Rightarrow> account_db \<Rightarrow> bool" where
  "protects oid actor db db' =
     (\<forall>m. protected_row oid actor m \<longrightarrow> (m \<in> set (adb_members db') \<longleftrightarrow> m \<in> set (adb_members db)))"

lemma protects_same: "adb_members db' = adb_members db \<Longrightarrow> protects oid actor db db'"
  by (simp add: protects_def)

lemma protects_update:
  assumes "adb_members db' = sql_update sel f (adb_members db)"
    and "\<And>m. m \<in> set (adb_members db) \<Longrightarrow> sel m \<Longrightarrow> \<not> protected_row oid actor m \<and> \<not> protected_row oid actor (f m)"
  shows "protects oid actor db db'"
  unfolding protects_def
proof (intro allI impI iffI)
  fix m assume p: "protected_row oid actor m"
  show "m \<in> set (adb_members db)" if "m \<in> set (adb_members db')"
    using that p assms(2) unfolding assms(1) set_sql_update by (auto split: if_splits)
  show "m \<in> set (adb_members db')" if "m \<in> set (adb_members db)"
    using that p assms(2) [of m] unfolding assms(1) set_sql_update by force
qed

lemma protects_append:
  assumes "adb_members db' = adb_members db @ [m]" and "\<not> protected_row oid actor m"
  shows "protects oid actor db db'"
  using assms by (auto simp: protects_def)

lemma normalize_role_not_owner: "normalize_writable_role role \<noteq> ''owner''"
  by (auto simp: normalize_writable_role_def writable_role_def Let_def)

lemma validate_role_not_owner: "validate_writable_role role = Inr r \<Longrightarrow> r \<noteq> ''owner''"
  by (auto simp: validate_writable_role_def writable_role_def Let_def split: if_splits)

lemma member_unique:
  assumes "account_wf db" and "m \<in> set (adb_members db)" and "m' \<in> set (adb_members db)" and "mb_org m = mb_org m'" and "mb_user m = mb_user m'"
  shows "m = m'"
  using assms by (intro distinct_key_unique [of member_key "adb_members db"]) (simp_all add: account_wf_def member_key_def)

lemma role_of_member:
  assumes "account_wf db" and "m \<in> set (adb_members db)" and "member_of oid uid m" and "mb_status m = ''active''"
  shows "workspace_role oid uid db = Inr (mb_role m)"
proof -
  obtain m' where q: "query_row (\<lambda>m. member_of oid uid m \<and> mb_status m = ''active'') (adb_members db) = Inr m'"
    using assms(2-4) by (cases "query_row (\<lambda>m. member_of oid uid m \<and> mb_status m = ''active'') (adb_members db)") (auto simp: query_row_Inl)
  with query_row_Inr [OF q] assms member_unique [of db m m'] show ?thesis
    by (simp add: workspace_role_def member_of_def)
qed

lemma invite_protects:
  assumes "account_wf db"
  shows "ends_in (protects oid actor db) (upsert_workspace_member oid actor email role grp db)"
  unfolding upsert_workspace_member_def Let_def
proof (intro account_branches; (simp add: protects_same; fail)?, goal_cases)
  case (1 u)
  have unowned: "\<not> owner_row m" if "m \<in> set (adb_members db)" "member_of oid (us_id u) m" for m
    using role_of_member [OF assms that] 1(5) by (auto simp: owner_row_def)
  show ?case
  proof (cases "sql_exists (member_of oid (us_id u)) (adb_members db)")
    case True
    then show ?thesis
      by (intro protects_update [where sel = "member_of oid (us_id u)"])
        (use 1(4) unowned normalize_role_not_owner in
          \<open>auto simp: account_simps upsert_member_def protected_row_def owner_row_def member_of_def\<close>)
  next
    case False
    then show ?thesis
      by (intro protects_append)
        (use 1(4) normalize_role_not_owner in \<open>auto simp: account_simps upsert_member_def protected_row_def owner_row_def\<close>)
  qed
qed

lemma guarded_member:
  assumes "account_wf db" and "member_guard oid actor uid db = Inr ()" and "m \<in> set (adb_members db)" and "active_member oid uid m"
  shows "\<not> protected_row oid actor m"
  using assms(2) role_of_member [OF assms(1,3)] assms(4)
  by (auto simp: member_guard_def active_member_def member_of_def protected_row_def owner_row_def split: if_splits)

lemma member_protects:
  assumes "account_wf db"
  shows "ends_in (protects oid actor db) (update_workspace_member oid actor uid role grp db)"
    and "ends_in (protects oid actor db) (remove_workspace_member oid actor uid db)"
proof -
  have other: "\<not> protected_row oid actor m \<Longrightarrow> \<not> protected_row oid actor (m\<lparr>mb_role := normalize_writable_role role, mb_group := x, mb_status := y\<rparr>)"
    "\<not> protected_row oid actor m \<Longrightarrow> \<not> protected_row oid actor (m\<lparr>mb_status := ''removed''\<rparr>)" for m x y
    using normalize_role_not_owner by (auto simp: protected_row_def owner_row_def)
  show "ends_in (protects oid actor db) (update_workspace_member oid actor uid role grp db)"
    unfolding update_workspace_member_def Let_def
  proof (intro account_branches; (simp add: protects_same; fail)?, goal_cases)
    case 1
    then show ?case
      by (intro protects_update [where sel = "active_member oid uid"]) (use guarded_member [OF assms] other in \<open>auto simp: account_simps\<close>)
  qed
  show "ends_in (protects oid actor db) (remove_workspace_member oid actor uid db)"
    unfolding remove_workspace_member_def
  proof (intro account_branches; (simp add: protects_same; fail)?, goal_cases)
    case 1
    then show ?case
      by (intro protects_update [where sel = "active_member oid uid"]) (use guarded_member [OF assms] other in \<open>auto simp: account_simps\<close>)
  qed
qed

lemma first_guard_None:
  "first_guard actor role uids = None \<longleftrightarrow> (\<forall>uid\<in>set uids. uid \<noteq> actor \<and> role uid \<noteq> ''owner'')"
  by (induction uids) auto

lemma state_role_of:
  assumes "account_wf db" and "m \<in> set (member_states oid uids db)"
  shows "state_role (member_states oid uids db) (mb_user m) = mb_role m"
proof -
  have "inj_on mb_user (set (member_states oid uids db))"
    using member_unique [OF assms(1)] by (auto simp: inj_on_def member_states_def)
  moreover have "distinct (member_states oid uids db)"
    using assms(1) by (simp add: member_states_def account_wf_def distinct_map)
  ultimately have "distinct (map mb_user (rev (member_states oid uids db)))" by (simp add: distinct_map)
  then have "map_of (map (\<lambda>m. (mb_user m, mb_role m)) (rev (member_states oid uids db))) (mb_user m) = Some (mb_role m)"
    using assms(2) by (intro map_of_is_SomeI) (auto simp: comp_def)
  then show ?thesis by (simp add: state_role_def)
qed

lemma bulk_members_protects:
  assumes "account_wf db" and "\<And>m. \<not> protected_row oid actor m \<Longrightarrow> \<not> protected_row oid actor (f m)"
  shows "ends_in (protects oid actor db) (bulk_members oid actor uids a f db)"
  unfolding bulk_members_def Let_def
proof (intro account_branches ends_in_option; (simp add: protects_same; fail)?, goal_cases)
  case 1
  let ?sel = "\<lambda>m. mb_org m = oid \<and> mb_user m \<in> set uids \<and> mb_status m = ''active''"
  have "\<not> protected_row oid actor m" if m: "m \<in> set (adb_members db)" "?sel m" for m
  proof -
    from m have "m \<in> set (member_states oid uids db)" by (simp add: member_states_def)
    with 1(2) state_role_of [OF assms(1)] m(2) show ?thesis
      by (auto simp: first_guard_None protected_row_def owner_row_def)
  qed
  then show ?case
    by (intro protects_update [where sel = ?sel and f = f]) (auto simp: account_simps assms(2))
qed

lemma bulk_protects:
  assumes "account_wf db"
  shows "ends_in (protects (org_or_default oid) actor db) (bulk_update_members_role oid actor ids role db)"
    and "ends_in (protects (org_or_default oid) actor db) (bulk_remove_members oid actor ids db)"
  unfolding bulk_update_members_role_def bulk_remove_members_def Let_def
  by (intro account_branches bulk_members_protects [OF assms];
      auto simp: protects_same protected_row_def owner_row_def dest: validate_role_not_owner)+

lemma manages_members_protects:
  assumes "account_wf db" and "manages_members op = Some (oid, actor)"
  shows "protects oid actor db (account_step op db t)"
  using assms(2) invite_protects [OF assms(1)] member_protects [OF assms(1)] bulk_protects [OF assms(1)]
  by (cases op) (auto simp: ends_in_def)

section \<open>What is left of a workspace and of a user\<close>

definition closed_workspace :: "string \<Rightarrow> account_db \<Rightarrow> bool" where
  "closed_workspace oid db =
     (let g = kdb_gateways (adb_store db) in
      (\<forall>w\<in>set (gdb_gateways g). gw_org w = oid \<longrightarrow> gw_status w = GDeleted)
      \<and> (\<forall>k\<in>set (gdb_keys g). gk_org k = oid \<and> gk_deleted_at k = None \<longrightarrow> gk_status k \<noteq> YActive))"

lemma store_gateways [simp]:
  "gdb_gateways (kdb_gateways (adb_store (audit_account a x db))) = gdb_gateways (kdb_gateways (adb_store db))"
  "gdb_keys (kdb_gateways (adb_store (audit_account a x db))) = gdb_keys (kdb_gateways (adb_store db))"
  "gdb_channels (kdb_gateways (adb_store (audit_account a x db))) = gdb_channels (kdb_gateways (adb_store db))"
  "gdb_gateways (kdb_gateways (adb_store (synced db))) = gdb_gateways (kdb_gateways (adb_store db))"
  "gdb_keys (kdb_gateways (adb_store (synced db))) = gdb_keys (kdb_gateways (adb_store db))"
  "gdb_channels (kdb_gateways (adb_store (synced db))) = gdb_channels (kdb_gateways (adb_store db))"
  by (simp_all add: audit_account_def audit_connection_def audit_gateways_def synced_def)

lemma store_connections [simp]:
  "kdb_connections (adb_store (audit_account a x db)) = kdb_connections (adb_store db)"
  "kdb_secrets (adb_store (audit_account a x db)) = kdb_secrets (adb_store db)"
  "kdb_accounts (adb_store (audit_account a x db)) = kdb_accounts (adb_store db)"
  "kdb_connections (adb_store (synced db)) = kdb_connections (adb_store db)"
  "kdb_secrets (adb_store (synced db)) = kdb_secrets (adb_store db)"
  "kdb_accounts (adb_store (synced db)) = accounts_of db"
  by (simp_all add: audit_account_def audit_connection_def synced_def)

lemma store_audits [simp]:
  "gdb_gateways (kdb_gateways (adb_store (audit_each a xs db))) = gdb_gateways (kdb_gateways (adb_store db))"
  "gdb_keys (kdb_gateways (adb_store (audit_each a xs db))) = gdb_keys (kdb_gateways (adb_store db))"
  "gdb_channels (kdb_gateways (adb_store (audit_each a xs db))) = gdb_channels (kdb_gateways (adb_store db))"
  "kdb_connections (adb_store (audit_each a xs db)) = kdb_connections (adb_store db)"
  "kdb_secrets (adb_store (audit_each a xs db)) = kdb_secrets (adb_store db)"
  by (induction xs arbitrary: db) (simp_all add: audit_each_def)

lemma closed_workspace_audit [simp]:
  "closed_workspace oid (audit_account a x db) = closed_workspace oid db"
  "closed_workspace oid (audit_each a xs db) = closed_workspace oid db"
  "closed_workspace oid (synced db) = closed_workspace oid db"
  by (simp_all add: closed_workspace_def Let_def)

lemma unique_trimmed_set: "set (unique_trimmed seen vs) = {trim_space v |v. v \<in> set vs \<and> trim_space v \<noteq> []} - set seen"
  by (induction vs arbitrary: seen) (auto simp: Let_def)

lemma unique_trimmed_again: "set (unique_trimmed [] (unique_trimmed [] vs)) = set (unique_trimmed [] vs)"
proof -
  have "v \<in> set (unique_trimmed [] (unique_trimmed [] vs))" if "v \<in> set (unique_trimmed [] vs)" for v
  proof -
    from that obtain w where w: "w \<in> set vs" "v = trim_space w" "v \<noteq> []" by (auto simp: unique_trimmed_set)
    have "trim_space v = v" by (simp add: w(2))
    with that w(3) show ?thesis unfolding unique_trimmed_set [of "[]" "unique_trimmed [] vs"] by force
  qed
  then show ?thesis by (auto simp: unique_trimmed_set)
qed

lemma delete_gateways_in_closed: "w \<in> set (delete_gateways_in oids t gws) \<Longrightarrow> gw_org w \<in> set oids \<Longrightarrow> gw_status w = GDeleted"
  by (auto simp: delete_gateways_in_def sql_simps split: if_splits)

lemma revoke_keys_in_closed:
  "k \<in> set (revoke_keys_in oids t keys) \<Longrightarrow> gk_org k \<in> set oids \<Longrightarrow> gk_deleted_at k = None \<Longrightarrow> gk_status k \<noteq> YActive"
  by (auto simp: revoke_keys_in_def sql_simps split: if_splits)

lemma deactivate_deleted_orgs_closes:
  assumes "oid \<in> set (unique_trimmed [] oids)"
  shows "closed_workspace oid (deactivate_deleted_orgs oids t db)"
proof -
  have gone: "gdb_gateways (kdb_gateways (adb_store (deactivate_deleted_orgs oids t db)))
      = delete_gateways_in (unique_trimmed [] oids) t (gdb_gateways (kdb_gateways (adb_store db)))"
    "gdb_keys (kdb_gateways (adb_store (deactivate_deleted_orgs oids t db)))
      = revoke_keys_in (unique_trimmed [] oids) t (gdb_keys (kdb_gateways (adb_store db)))"
    using assms by (auto simp: deactivate_deleted_orgs_def Let_def over_gateways_def)
  show ?thesis unfolding closed_workspace_def Let_def gone
    using assms delete_gateways_in_closed revoke_keys_in_closed by blast
qed

text \<open>Deleting users: their connections, secrets, channels and the workspaces named after them.\<close>

definition closed_account :: "string \<Rightarrow> account_db \<Rightarrow> bool" where
  "closed_account uid db =
     (closed_workspace (personal_org_id uid) db
      \<and> (\<forall>c\<in>set (kdb_connections (adb_store db)). ac_owner c = uid \<longrightarrow> \<not> connection_live c)
      \<and> (\<forall>c\<in>set (gdb_channels (kdb_gateways (adb_store db))). \<not> owned_channel [uid] c)
      \<and> (\<forall>m\<in>set (adb_members db). mb_user m = uid \<longrightarrow> mb_status m = ''removed'')
      \<and> uid \<notin> set (active_users (kdb_accounts (adb_store db))))"

lemma audit_fold_store [simp]:
  "kdb_connections (fold (audit_connection a) xs st) = kdb_connections st"
  "kdb_secrets (fold (audit_connection a) xs st) = kdb_secrets st"
  "gdb_gateways (kdb_gateways (fold (audit_connection a) xs st)) = gdb_gateways (kdb_gateways st)"
  "gdb_keys (kdb_gateways (fold (audit_connection a) xs st)) = gdb_keys (kdb_gateways st)"
  "gdb_channels (kdb_gateways (fold (audit_connection a) xs st)) = gdb_channels (kdb_gateways st)"
  by (induction xs arbitrary: st) (simp_all add: audit_connection_def audit_gateways_def)

lemma delete_connections_of_simps [simp]:
  "kdb_connections (delete_connections_of uids t st) = sql_update (\<lambda>c. ac_owner c \<in> set uids \<and> connection_live c)
     (\<lambda>c. c\<lparr>ac_status := ''deleted'', ac_deleted := first_deleted t (ac_deleted c), ac_updated := t\<rparr>) (kdb_connections st)"
  "gdb_gateways (kdb_gateways (delete_connections_of uids t st)) = gdb_gateways (kdb_gateways st)"
  "gdb_keys (kdb_gateways (delete_connections_of uids t st)) = gdb_keys (kdb_gateways st)"
  "gdb_channels (kdb_gateways (delete_connections_of uids t st)) = gdb_channels (kdb_gateways st)"
  "kdb_secrets (delete_connections_of uids t st) = sql_update
     (\<lambda>s. sx_connection s \<in> set (map ac_id (filter (\<lambda>c. ac_owner c \<in> set uids \<and> connection_live c) (kdb_connections st))))
     scrubbed_secret (kdb_secrets st)"
  by (simp_all add: delete_connections_of_def Let_def)

lemma drop_channels_simps [simp]:
  "gdb_channels (drop_channels chs t g) = gdb_channels g"
  "w \<in> set (gdb_gateways (drop_channels chs t g)) \<Longrightarrow>
     \<exists>v\<in>set (gdb_gateways g). gw_org w = gw_org v \<and> (gw_status v = GDeleted \<longrightarrow> gw_status w = GDeleted)"
  "k \<in> set (gdb_keys (drop_channels chs t g)) \<Longrightarrow>
     \<exists>v\<in>set (gdb_keys g). gk_org k = gk_org v \<and> gk_deleted_at k = gk_deleted_at v \<and> (gk_status v \<noteq> YActive \<longrightarrow> gk_status k \<noteq> YActive)"
  by (force simp: drop_channels_def Let_def sql_simps revoke_keys_of_def)+

lemma gone_gateways:
  "w \<in> set (gdb_gateways (kdb_gateways (adb_store (deactivate_deleted_users uids t db)))) \<Longrightarrow> uids \<noteq> [] \<Longrightarrow>
     gw_org w \<in> set (personal_orgs uids) \<Longrightarrow> gw_status w = GDeleted"
  "k \<in> set (gdb_keys (kdb_gateways (adb_store (deactivate_deleted_users uids t db)))) \<Longrightarrow> uids \<noteq> [] \<Longrightarrow>
     gk_org k \<in> set (personal_orgs uids) \<Longrightarrow> gk_deleted_at k = None \<Longrightarrow> gk_status k \<noteq> YActive"
proof -
  let ?g = "kdb_gateways (adb_store db)" and ?o = "personal_orgs uids"
  assume u: "uids \<noteq> []"
  show "gw_status w = GDeleted" if "w \<in> set (gdb_gateways (kdb_gateways (adb_store (deactivate_deleted_users uids t db))))"
    "gw_org w \<in> set ?o"
  proof -
    from that(1) u have "w \<in> set (delete_gateways_in ?o t (gdb_gateways ?g))
      \<or> (\<exists>v\<in>set (delete_gateways_in ?o t (gdb_gateways ?g)). gw_org w = gw_org v \<and> (gw_status v = GDeleted \<longrightarrow> gw_status w = GDeleted))"
      by (auto simp: deactivate_deleted_users_def Let_def split: if_splits dest!: drop_channels_simps(2))
    with that(2) delete_gateways_in_closed show ?thesis by metis
  qed
  show "gk_status k \<noteq> YActive" if "k \<in> set (gdb_keys (kdb_gateways (adb_store (deactivate_deleted_users uids t db))))"
    "gk_org k \<in> set ?o" "gk_deleted_at k = None"
  proof -
    from that(1) u have "k \<in> set (revoke_keys_in ?o t (gdb_keys ?g))
      \<or> (\<exists>v\<in>set (revoke_keys_in ?o t (gdb_keys ?g)). gk_org k = gk_org v \<and> gk_deleted_at k = gk_deleted_at v
          \<and> (gk_status v \<noteq> YActive \<longrightarrow> gk_status k \<noteq> YActive))"
      by (auto simp: deactivate_deleted_users_def Let_def split: if_splits dest!: drop_channels_simps(3))
    with that(2,3) revoke_keys_in_closed show ?thesis by metis
  qed
qed

lemma gone_rest:
  assumes "uids \<noteq> []"
  shows "kdb_connections (adb_store (deactivate_deleted_users uids t db)) = kdb_connections (delete_connections_of uids t (adb_store db))"
    and "kdb_secrets (adb_store (deactivate_deleted_users uids t db)) = kdb_secrets (delete_connections_of uids t (adb_store db))"
    and "gdb_channels (kdb_gateways (adb_store (deactivate_deleted_users uids t db))) = sql_update (owned_channel uids)
      (\<lambda>c. c\<lparr>ch_status := ''deleted'', ch_gateway_enabled := False, ch_deleted_at := first_deleted t (ch_deleted_at c)\<rparr>)
      (gdb_channels (kdb_gateways (adb_store db)))"
  using assms by (auto simp: deactivate_deleted_users_def Let_def)

lemma updated_row: "r \<in> set (sql_update p f rows) \<Longrightarrow> \<exists>r0\<in>set rows. (p r0 \<and> r = f r0) \<or> (\<not> p r0 \<and> r = r0)"
  by (auto simp: sql_simps)

lemma erase_store:
  "kdb_connections (adb_store (erase_users [uid] t db)) = sql_update (\<lambda>c. ac_owner c \<in> set [uid] \<and> connection_live c)
     (\<lambda>c. c\<lparr>ac_status := ''deleted'', ac_deleted := first_deleted t (ac_deleted c), ac_updated := t\<rparr>) (kdb_connections (adb_store db))"
  "gdb_channels (kdb_gateways (adb_store (erase_users [uid] t db))) = sql_update (owned_channel [uid])
     (\<lambda>c. c\<lparr>ch_status := ''deleted'', ch_gateway_enabled := False, ch_deleted_at := first_deleted t (ch_deleted_at c)\<rparr>)
     (gdb_channels (kdb_gateways (adb_store db)))"
  "kdb_secrets (adb_store (erase_users [uid] t db)) = sql_update
     (\<lambda>s. sx_connection s \<in> set (map ac_id (filter (\<lambda>c. ac_owner c \<in> set [uid] \<and> connection_live c) (kdb_connections (adb_store db)))))
     scrubbed_secret (kdb_secrets (adb_store db))"
  by (simp_all add: erase_users_def Let_def gone_rest revoke_sessions_def)

lemma erase_accounts: "kdb_accounts (adb_store (erase_users [uid] t db)) = accounts_of (erase_users [uid] t db)"
  by (simp add: erase_users_def Let_def accounts_of_def account_simps)

lemma erase_closes:
  assumes "trim_space uid \<noteq> []"
  shows "closed_account uid (erase_users [uid] t db)"
proof -
  have orgs: "personal_orgs [uid] = [personal_org_id uid]"
    using assms by (simp add: personal_orgs_def personal_org_id_def Let_def)
  have "closed_workspace (personal_org_id uid) (erase_users [uid] t db)"
    using gone_gateways [of _ "[uid]" t] by (auto simp: closed_workspace_def Let_def erase_users_def orgs)
  moreover have "\<not> connection_live c" if "c \<in> set (kdb_connections (adb_store (erase_users [uid] t db)))" "ac_owner c = uid" for c
    using updated_row [OF that(1) [unfolded erase_store(1)]] that(2) by (elim bexE disjE) (simp_all add: connection_live_def)
  moreover have "\<not> owned_channel [uid] c" if "c \<in> set (gdb_channels (kdb_gateways (adb_store (erase_users [uid] t db))))" for c
    using updated_row [OF that(1) [unfolded erase_store(2)]] by (elim bexE disjE) (simp_all add: owned_channel_def)
  moreover have "mb_status m = ''removed''" if "m \<in> set (adb_members (erase_users [uid] t db))" "mb_user m = uid" for m
    using updated_row [OF that(1) [unfolded erase_users_tables(4)]] that(2) by (elim bexE disjE) simp_all
  moreover have "uid \<notin> set (active_users (kdb_accounts (adb_store (erase_users [uid] t db))))"
  proof -
    have "us_status u \<noteq> ''active'' \<or> us_deleted u \<noteq> None" if "u \<in> set (adb_users (erase_users [uid] t db))" "us_id u = uid" for u
      using updated_row [OF that(1) [unfolded erase_users_tables(1)]] that(2)
      by (elim bexE disjE) (auto simp: deleted_user_def user_live_def)
    then show ?thesis unfolding erase_accounts active_users_iff by blast
  qed
  ultimately show ?thesis unfolding closed_account_def by blast
qed

lemma closed_account_audit [simp]: "closed_account uid (audit_account a x db) = closed_account uid db"
  by (simp add: closed_account_def account_simps)

lemma erase_scrubs:
  assumes "c \<in> set (kdb_connections (adb_store db))" and "ac_owner c = uid" and "connection_live c"
    and "s \<in> set (kdb_secrets (adb_store (erase_users [uid] t db)))" and "sx_connection s = ac_id c"
  shows "sx_ciphertext s = [] \<and> sx_nonce s = []"
  using updated_row [OF assms(4) [unfolded erase_store(3)]]
proof (elim bexE disjE conjE)
  fix s0 assume "s = scrubbed_secret s0"
  then show ?thesis by (simp add: scrubbed_secret_def)
next
  fix s0 assume "s = s0" and n: "sx_connection s0 \<notin> set (map ac_id (filter (\<lambda>c. ac_owner c \<in> set [uid] \<and> connection_live c) (kdb_connections (adb_store db))))"
  have "ac_id c \<in> set (map ac_id (filter (\<lambda>c. ac_owner c \<in> set [uid] \<and> connection_live c) (kdb_connections (adb_store db))))"
    using assms(1-3) by auto
  with n \<open>s = s0\<close> assms(5) show ?thesis by simp
qed

section \<open>Sample tables\<close>

definition sample_user :: "string \<Rightarrow> string \<Rightarrow> user" where
  "sample_user uid role = \<lparr>us_id = uid, us_email = uid @ ''@x'', us_username = [], us_password = ''h-old'', us_name = ''n'', us_avatar = ''N'',
     us_status = ''active'', us_role = role, us_plan = ''free'', us_verified = Some 1, us_origin = ''runtime'', us_suspended = None,
     us_deleted = None, us_created = 1, us_updated = 1\<rparr>"

definition sample_member :: "string \<Rightarrow> string \<Rightarrow> member" where
  "sample_member uid role = \<lparr>mb_org = ''o1'', mb_user = uid, mb_role = role, mb_group = [], mb_status = ''active''\<rparr>"

text \<open>\<open>u1\<close> owns the platform and the workspace \<open>o1\<close>, \<open>u2\<close> is an administrator there, \<open>u3\<close> a viewer.\<close>

definition sample_accounts :: account_db where
  "sample_accounts = \<lparr>adb_users = [sample_user ''u1'' ''owner'', sample_user ''u2'' ''user'', sample_user ''u3'' ''user''],
     adb_sessions = [\<lparr>se_id = ''s1'', se_user = ''u2'', se_hash = ''t-s1'', se_ip = [], se_agent = [], se_expires = 1000, se_revoked = None\<rparr>],
     adb_tokens = [\<lparr>et_id = ''k1'', et_user = ''u2'', et_type = ''reset_password'', et_hash = ''t-k1'', et_expires = 1000, et_used = None\<rparr>],
     adb_orgs = [\<lparr>wo_id = ''o1'', wo_name = ''n'', wo_slug = ''s'', wo_plan = ''starter'', wo_status = ''active'', wo_timezone = [],
       wo_origin = [], wo_policy = ''latency'', wo_notify = None, wo_suspended = None, wo_deleted = None, wo_created = 1, wo_updated = 1\<rparr>],
     adb_members = [sample_member ''u1'' ''owner'', sample_member ''u2'' ''admin'', sample_member ''u3'' ''viewer''],
     adb_notifiers = [], adb_rules = [], adb_store = sample_connections\<rparr>"

definition sample_crypt :: auth_crypt where
  "sample_crypt = \<lparr>xc_hash = (\<lambda>salt p. Inr (''h-'' @ p)), xc_check = (\<lambda>h p. h = ''h-'' @ p), xc_sha = (\<lambda>v. ''t-'' @ v)\<rparr>"

definition sample_draw :: auth_draw where
  "sample_draw = \<lparr>dr_salt = [], dr_user = ''9'', dr_token_id = ''9'', dr_token = ''9'', dr_session_id = ''9'', dr_session = ''9''\<rparr>"

lemma sample_accounts_wf: "account_wf sample_accounts"
  by (simp add: account_wf_def sample_accounts_def sample_user_def sample_member_def member_key_def)

lemma sample_accounts_owner: "has_owner sample_accounts"
  by (simp add: has_owner_def sample_accounts_def sample_user_def active_owner_def sql_exists_def)

section \<open>Properties\<close>

text \<open>C24: Whatever operations run, in whatever order, the platform keeps an active owner: demoting,
  suspending or deleting users, one by one or in bulk, stops before the last one.\<close>

theorem platform_keeps_owner:
  assumes "account_wf db" and "has_owner db"
  shows "has_owner (store_run account_step db es)"
  using assms by (rule owner_run)

theorem platform_keeps_owner_witness:
  "has_owner (store_run account_step sample_accounts [(AUserRole ''u1'' ''user'', 5), (ADeleteUser ''u1'' ''u2'', 6), (AUsersStatus [''u1''] ''u2'' ''suspended'', 7)])
   \<and> fst (update_admin_user_role ''u1'' ''user'' 5 sample_accounts) = Inl err_protected_owner"
  using platform_keeps_owner [OF sample_accounts_wf sample_accounts_owner] by code_simp

text \<open>C31: A mail token verifies an address or resets a password at most once, over any run of operations.\<close>

theorem mail_token_spent_once:
  assumes "account_wf db"
  shows "count_steps account_step (token_spent k) db es \<le> 1"
  using assms by (rule mail_tokens.fires_at_most_once)

definition sample_reset :: account_op where
  "sample_reset = AResetPassword sample_crypt sample_draw ''k1'' ''new''"

theorem mail_token_spent_once_witness:
  "count_steps account_step (token_spent ''t-k1'') sample_accounts [(sample_reset, 5), (sample_reset, 6)] \<le> 1
   \<and> token_spent ''t-k1'' sample_reset sample_accounts 5"
proof
  show "count_steps account_step (token_spent ''t-k1'') sample_accounts [(sample_reset, 5), (sample_reset, 6)] \<le> 1"
    by (rule mail_token_spent_once [OF sample_accounts_wf])
  show "token_spent ''t-k1'' sample_reset sample_accounts 5" by code_simp
qed

text \<open>C30: A password reset stores the hash of the new password for the user of the token and ends every session
  that user had: none of them identifies anybody again, whatever operations follow.\<close>

theorem reset_ends_sessions:
  assumes "account_wf db" and "auth_reset_password x d token password t db = (Inr (), db')"
  shows "\<exists>uid hash k. xc_hash x (dr_salt d) password = Inr hash
     \<and> k \<in> set (adb_tokens db) \<and> token_valid ''reset_password'' (xc_sha x token) t k \<and> et_user k = uid
     \<and> (\<forall>u\<in>set (adb_users db'). us_id u = uid \<longrightarrow> us_password u = hash)
     \<and> (\<forall>s\<in>set (adb_sessions db). se_user s = uid \<longrightarrow>
         (\<forall>es now. user_by_session (se_hash s) now (store_run account_step db' es) = Inl ErrNoRows))"
proof -
  from assms(2) obtain hash uid db1 where h: "xc_hash x (dr_salt d) password = Inr hash"
    and r: "reset_password (xc_sha x token) hash t db = (Inr uid, db1)" and db': "db' = audit_account ''auth.password_reset'' uid db1"
    by (rule auth_reset_ok)
  from reset_password_uses [OF r] obtain db0 where u: "use_token ''reset_password'' (xc_sha x token) t db = (Inr uid, db0)"
    and db1: "db1 = revoke_sessions (\<lambda>s. se_user s = uid) t
      (db0\<lparr>adb_users := sql_update (\<lambda>u. us_id u = uid) (\<lambda>u. u\<lparr>us_password := hash, us_updated := t\<rparr>) (adb_users db0)\<rparr>)" by blast
  from use_token_spends [OF u assms(1)] obtain k where k0: "row_at et_hash (xc_sha x token) (adb_tokens db) = Some k"
    and k: "token_valid ''reset_password'' (xc_sha x token) t k" "et_user k = uid" by blast
  from row_at_Some [OF k0] have k1: "k \<in> set (adb_tokens db)" by simp
  have wf: "account_wf db'"
    using auth_reset_change [of db x d token password t] by (intro account_wf_change [OF assms(1)]) (simp add: ends_in_def assms(2))
  have ss: "adb_sessions db' = adb_sessions (revoke_sessions (\<lambda>s. se_user s = uid) t db)"
    using use_token_tables(3) [OF u] by (simp add: db' db1 account_simps)
  have "\<forall>u\<in>set (adb_users db'). us_id u = uid \<longrightarrow> us_password u = hash"
  proof (intro ballI impI)
    fix v assume v: "v \<in> set (adb_users db')" "us_id v = uid"
    from v(1) have "v \<in> set (sql_update (\<lambda>u. us_id u = uid) (\<lambda>u. u\<lparr>us_password := hash, us_updated := t\<rparr>) (adb_users db0))"
      by (simp add: db' db1 account_simps)
    from updated_row [OF this] v(2) show "us_password v = hash" by (elim bexE disjE) simp_all
  qed
  moreover have "\<forall>s\<in>set (adb_sessions db). se_user s = uid \<longrightarrow>
      (\<forall>es now. user_by_session (se_hash s) now (store_run account_step db' es) = Inl ErrNoRows)"
    using revoked_sessions_useless [OF assms(1) _ _ ss wf] by blast
  ultimately show ?thesis using h k k1 by blast
qed

theorem reset_ends_sessions_witness:
  "user_by_session ''t-s1'' 5 sample_accounts = Inr (sample_user ''u2'' ''user'')
   \<and> user_by_session ''t-s1'' 9 (snd (auth_reset_password sample_crypt sample_draw ''k1'' ''new'' 5 sample_accounts)) = Inl ErrNoRows"
proof
  show "user_by_session ''t-s1'' 5 sample_accounts = Inr (sample_user ''u2'' ''user'')" by code_simp
  obtain db' where r: "auth_reset_password sample_crypt sample_draw ''k1'' ''new'' 5 sample_accounts = (Inr (), db')"
    by (simp add: auth_reset_password_def reset_password_def use_token_def query_row_def token_valid_def sample_accounts_def
        sample_crypt_def sample_draw_def)
  from reset_ends_sessions [OF sample_accounts_wf r] have "user_by_session ''t-s1'' 9 (store_run account_step db' []) = Inl ErrNoRows"
    by (simp add: sample_accounts_def) (metis store_run.simps(1))
  then show "user_by_session ''t-s1'' 9 (snd (auth_reset_password sample_crypt sample_draw ''k1'' ''new'' 5 sample_accounts)) = Inl ErrNoRows"
    by (simp add: r)
qed

text \<open>C27: A user an administrator deleted never comes back, whatever operations follow: no session identifies them,
  no login succeeds for them, and they are not among the active users the gateways and connections look up.\<close>

theorem deleted_user_never_returns:
  assumes "account_wf db" and "delete_admin_user uid actor t db = (Inr (), db')"
  shows "\<forall>es. let now_db = store_run account_step db' es in
     uid \<notin> set (active_users (accounts_of now_db))
     \<and> (\<forall>hash now u. user_by_session hash now now_db = Inr u \<longrightarrow> us_id u \<noteq> uid)
     \<and> (\<forall>x d ident email password required ip agent now token u.
          fst (auth_login x d ident email password required ip agent now now_db) = Inr (token, u) \<longrightarrow> us_id u \<noteq> uid)"
proof
  fix es
  let ?db = "store_run account_step db' es"
  from deleted_user_row [OF assms(2)] obtain u0 where u0: "u0 \<in> set (adb_users db')" "us_id u0 = uid" "us_status u0 = ''deleted''" by blast
  have wf: "account_wf db'"
    using delete_user_change [of db uid actor t] by (intro account_wf_change [OF assms(1)]) (simp add: ends_in_def assms(2))
  have gone: "us_status v \<noteq> ''active''" if "v \<in> set (adb_users ?db)" "us_id v = uid" for v
    using deleted_user_stays [OF wf u0(1,3) that(1)] that(2) u0(2) by simp
  then have "uid \<notin> set (active_users (accounts_of ?db))" by (auto simp: active_users_iff)
  moreover have "us_id u \<noteq> uid" if "user_by_session hash now ?db = Inr u" for hash now u
    using user_by_session_active [OF that] gone by blast
  moreover have "us_id u \<noteq> uid" if "fst (auth_login x d ident email password required ip agent now ?db) = Inr (token, u)"
    for x d ident email password required ip agent now token u
    using login_active [OF that] gone by metis
  ultimately show "let now_db = ?db in uid \<notin> set (active_users (accounts_of now_db))
     \<and> (\<forall>hash now u. user_by_session hash now now_db = Inr u \<longrightarrow> us_id u \<noteq> uid)
     \<and> (\<forall>x d ident email password required ip agent now token u.
          fst (auth_login x d ident email password required ip agent now now_db) = Inr (token, u) \<longrightarrow> us_id u \<noteq> uid)"
    unfolding Let_def by blast
qed

definition sample_deleted :: account_db where
  "sample_deleted = snd (delete_admin_user ''u2'' ''u1'' 5 sample_accounts)"

lemma sample_deletes: "delete_admin_user ''u2'' ''u1'' 5 sample_accounts = (Inr (), sample_deleted)"
proof -
  have "fst (delete_admin_user ''u2'' ''u1'' 5 sample_accounts) = Inr ()"
    by (simp add: delete_admin_user_def sample_accounts_def sample_user_def query_row_def user_live_def)
  then show ?thesis by (simp add: sample_deleted_def prod_eq_iff)
qed

theorem deleted_user_never_returns_witness:
  "''u2'' \<in> set (active_users (accounts_of sample_accounts))
   \<and> ''u2'' \<notin> set (active_users (accounts_of (store_run account_step sample_deleted
       [(AUserStatus ''u2'' ''u1'' ''active'', 6), (sample_reset, 7)])))"
proof
  show "''u2'' \<in> set (active_users (accounts_of sample_accounts))" by code_simp
  show "''u2'' \<notin> set (active_users (accounts_of (store_run account_step sample_deleted
       [(AUserStatus ''u2'' ''u1'' ''active'', 6), (sample_reset, 7)])))"
    using deleted_user_never_returns [OF sample_accounts_wf sample_deletes] unfolding Let_def by blast
qed



text \<open>C26: Managing the members of a workspace touches no other workspace, no active owner and not the caller: an
  operation neither adds, changes nor removes such a row, whoever it names.\<close>

theorem members_protect_owner_and_caller:
  assumes "account_wf db" and "manages_members op = Some (oid, actor)"
  shows "\<forall>m. mb_org m \<noteq> oid \<or> mb_user m = actor \<or> owner_row m \<longrightarrow>
     (m \<in> set (adb_members (account_step op db t)) \<longleftrightarrow> m \<in> set (adb_members db))"
  using manages_members_protects [OF assms] by (simp add: protects_def protected_row_def)

theorem members_protect_owner_and_caller_witness:
  "sample_member ''u1'' ''owner'' \<in> set (adb_members (account_step (ABulkRemove ''o1'' ''u2'' [''u1'', ''u3'']) sample_accounts 5))
   \<and> sample_member ''u3'' ''viewer'' \<notin> set (adb_members (account_step (ABulkRemove ''o1'' ''u2'' [''u3'']) sample_accounts 5))"
proof
  show "sample_member ''u1'' ''owner'' \<in> set (adb_members (account_step (ABulkRemove ''o1'' ''u2'' [''u1'', ''u3'']) sample_accounts 5))"
    using members_protect_owner_and_caller [OF sample_accounts_wf, of "ABulkRemove ''o1'' ''u2'' [''u1'', ''u3'']" "''o1''" "''u2''" 5]
    by (auto simp: org_or_default_def owner_row_def sample_member_def sample_accounts_def)
  show "sample_member ''u3'' ''viewer'' \<notin> set (adb_members (account_step (ABulkRemove ''o1'' ''u2'' [''u3'']) sample_accounts 5))"
    by code_simp
qed

lemma bulk_orgs_ok:
  assumes "bulk_orgs ids a g f db = (Inr (), db')"
  shows "db' = audit_each a ids (f db)"
  using assms by (simp add: bulk_orgs_def split: if_splits)

lemma bulk_plans_ok:
  assumes "bulk_update_org_plans ids plan t db = (Inr (), db')"
  obtains plan' where "db' = audit_each ''admin.org.bulk_plan'' (unique_trimmed [] ids) (deactivate_deleted_orgs (unique_trimmed [] ids) t
    (update_orgs (unique_trimmed [] ids) (\<lambda>w. w\<lparr>wo_plan := plan', wo_updated := t\<rparr>) db))"
  using assms by (auto simp: bulk_update_org_plans_def Let_def dest!: bulk_orgs_ok split: if_splits sum.splits)

lemma bulk_delete_ok:
  assumes "bulk_delete_orgs ids t db = (Inr (), db')"
  shows "db' = audit_each ''admin.org.bulk_deleted'' (unique_trimmed [] ids) (update_orgs (unique_trimmed [] ids) (deleted_org t) db)"
  using assms by (auto simp: bulk_delete_orgs_def Let_def dest!: bulk_orgs_ok split: if_splits)

lemma deactivate_orgs_status:
  "map wo_status (adb_orgs (deactivate_deleted_orgs oids t db)) = map wo_status (adb_orgs db)"
  by (simp add: deactivate_deleted_orgs_def Let_def account_simps map_sql_update)

text \<open>C29: Changing the plan of selected workspaces in bulk deletes all their gateways, revokes their keys and removes all
  their members while the workspaces stay as active as they were; deleting them in bulk leaves gateways, keys and members
  untouched. The two operations have each other's cleanup.\<close>

theorem bulk_plan_change_tears_down:
  "(\<forall>db'. bulk_update_org_plans ids plan t db = (Inr (), db') \<longrightarrow>
      (\<forall>oid\<in>set (unique_trimmed [] ids). closed_workspace oid db'
         \<and> (\<forall>m\<in>set (adb_members db'). mb_org m = oid \<longrightarrow> mb_status m = ''removed''))
      \<and> map wo_status (adb_orgs db') = map wo_status (adb_orgs db))
   \<and> (\<forall>db'. bulk_delete_orgs ids t db = (Inr (), db') \<longrightarrow>
      adb_members db' = adb_members db
      \<and> gdb_gateways (kdb_gateways (adb_store db')) = gdb_gateways (kdb_gateways (adb_store db))
      \<and> gdb_keys (kdb_gateways (adb_store db')) = gdb_keys (kdb_gateways (adb_store db)))"
proof (intro conjI allI impI ballI)
  fix db' assume "bulk_update_org_plans ids plan t db = (Inr (), db')"
  then obtain plan' where db': "db' = audit_each ''admin.org.bulk_plan'' (unique_trimmed [] ids) (deactivate_deleted_orgs
    (unique_trimmed [] ids) t (update_orgs (unique_trimmed [] ids) (\<lambda>w. w\<lparr>wo_plan := plan', wo_updated := t\<rparr>) db))"
    by (rule bulk_plans_ok)
  show "map wo_status (adb_orgs db') = map wo_status (adb_orgs db)"
    by (simp add: db' account_simps deactivate_orgs_status update_orgs_def map_sql_update)
  fix oid assume oid: "oid \<in> set (unique_trimmed [] ids)"
  show "closed_workspace oid db'" using oid by (simp add: db' deactivate_deleted_orgs_closes unique_trimmed_again)
  fix m assume m: "m \<in> set (adb_members db')" "mb_org m = oid"
  have "m \<in> set (sql_update (\<lambda>m. mb_org m \<in> set (unique_trimmed [] (unique_trimmed [] ids)) \<and> mb_status m \<noteq> ''removed'')
      (\<lambda>m. m\<lparr>mb_status := ''removed''\<rparr>) (adb_members db))"
    using m(1) by (simp add: db' account_simps)
  from updated_row [OF this] m(2) oid show "mb_status m = ''removed''"
    by (elim bexE disjE) (simp_all add: unique_trimmed_again)
next
  fix db' assume "bulk_delete_orgs ids t db = (Inr (), db')"
  from bulk_delete_ok [OF this] show "adb_members db' = adb_members db"
    and "gdb_gateways (kdb_gateways (adb_store db')) = gdb_gateways (kdb_gateways (adb_store db))"
    and "gdb_keys (kdb_gateways (adb_store db')) = gdb_keys (kdb_gateways (adb_store db))"
    by (simp_all add: account_simps update_orgs_def)
qed

theorem bulk_plan_change_tears_down_witness:
  "\<exists>db'. bulk_update_org_plans [''o1''] ''team'' 5 sample_accounts = (Inr (), db')
     \<and> closed_workspace ''o1'' db' \<and> \<not> closed_workspace ''o1'' sample_accounts"
proof -
  have t: "unique_trimmed [] [''o1''] = [''o1'']" "validate_admin_plan ''team'' = Inr ''team''" by code_simp+
  have "org_bulk_states [''o1''] sample_accounts" "sql_affected (\<lambda>w. wo_id w = ''o1'' \<and> org_live_row w) (adb_orgs sample_accounts) = 1"
    by (simp_all add: org_bulk_states_def sample_accounts_def org_live_row_def sql_affected_def)
  then have "fst (bulk_update_org_plans [''o1''] ''team'' 5 sample_accounts) = Inr ()"
    unfolding bulk_update_org_plans_def t Let_def by (simp add: t bulk_orgs_def)
  then obtain db' where d: "bulk_update_org_plans [''o1''] ''team'' 5 sample_accounts = (Inr (), db')" by (metis prod.collapse)
  have "''o1'' \<in> set (unique_trimmed [] [''o1''])" unfolding t by simp
  with d bulk_plan_change_tears_down [of "[''o1'']" "''team''" 5 sample_accounts] have "closed_workspace ''o1'' db'" by blast
  moreover have "\<not> closed_workspace ''o1'' sample_accounts" by code_simp
  ultimately show ?thesis using d by blast
qed

lemma not_owner_after:
  assumes "role \<noteq> ''owner''" and "\<forall>u\<in>set (adb_users db). active_owner u \<longrightarrow> us_id u \<in> set (a # ids) \<and> user_live u"
  shows "\<forall>u\<in>set (adb_users (snd (write_user_role a role t db))). active_owner u \<longrightarrow> us_id u \<in> set ids \<and> user_live u"
proof
  fix u assume u: "u \<in> set (adb_users (snd (write_user_role a role t db)))"
  show "active_owner u \<longrightarrow> us_id u \<in> set ids \<and> user_live u"
  proof (cases "sql_affected (\<lambda>u. us_id u = a \<and> user_live u) (adb_users db) = 0")
    case True
    with u have "u \<in> set (adb_users db)" "\<not> (us_id u = a \<and> user_live u)"
      by (auto simp: write_user_role_def sql_affected_0)
    with assms(2) show ?thesis by auto
  next
    case False
    with u have "u \<in> set (sql_update (\<lambda>u. us_id u = a \<and> user_live u) (\<lambda>u. u\<lparr>us_role := role, us_updated := t\<rparr>) (adb_users db))"
      by (simp add: write_user_role_def account_simps)
    from updated_row [OF this] assms show ?thesis by (elim bexE disjE) (auto simp: active_owner_def)
  qed
qed

text \<open>C25: The guard of \<open>UpdateAdminUserRole\<close> runs outside a transaction. When two requests that demote the only two active
  owners both pass their checks before either writes, no owner is left (requests run one after the other always leave one).\<close>

theorem concurrent_demotions_lose_owner:
  assumes "check_user_role a role db = Inr r" and "check_user_role b role db = Inr r" and "r \<noteq> ''owner''"
    and "\<forall>u\<in>set (adb_users db). active_owner u \<longrightarrow> us_id u \<in> {a, b} \<and> user_live u"
  shows "\<not> has_owner (snd (write_user_role b r t' (snd (write_user_role a r t db))))"
proof -
  have "\<forall>u\<in>set (adb_users (snd (write_user_role a r t db))). active_owner u \<longrightarrow> us_id u \<in> set [b] \<and> user_live u"
    using not_owner_after [of r db a "[b]" t] assms(3,4) by simp
  from not_owner_after [OF assms(3) this] show ?thesis by (auto simp: has_owner_def sql_simps)
qed

theorem concurrent_demotions_lose_owner_witness:
  "let db = sample_accounts\<lparr>adb_users := [sample_user ''u1'' ''owner'', sample_user ''u2'' ''owner'']\<rparr> in
     has_owner db \<and> check_user_role ''u1'' ''user'' db = Inr ''user'' \<and> check_user_role ''u2'' ''user'' db = Inr ''user''
     \<and> \<not> has_owner (snd (write_user_role ''u2'' ''user'' 6 (snd (write_user_role ''u1'' ''user'' 5 db))))"
proof -
  let ?db = "sample_accounts\<lparr>adb_users := [sample_user ''u1'' ''owner'', sample_user ''u2'' ''owner'']\<rparr>"
  have v: "validate_admin_role ''user'' = Inr ''user''" by code_simp
  have c: "check_user_role ''u1'' ''user'' ?db = Inr ''user''" "check_user_role ''u2'' ''user'' ?db = Inr ''user''"
    by (simp_all add: check_user_role_def v query_row_def sample_user_def owner_outside_def sql_exists_def)
  have "has_owner ?db" by (simp add: has_owner_def sql_exists_def active_owner_def sample_user_def)
  moreover have "\<not> has_owner (snd (write_user_role ''u2'' ''user'' 6 (snd (write_user_role ''u1'' ''user'' 5 ?db))))"
    by (rule concurrent_demotions_lose_owner [OF c]) (simp_all add: sample_user_def user_live_def)
  ultimately show ?thesis using c unfolding Let_def by blast
qed

end
