(* ===== verification/Spec2Isabelle.thy ===== *)
theory Spec2Isabelle
  imports Client_Risk Client_Tasks Browser_Risk Browser_Tasks Probe_Runner Upstream_Safety Anthropic_Safety Gateway_Serve_Safety Relay_Safety Auth_Safety Runtime_Safety Browser_Contract_Safety Account_Safety
begin

text \<open>
  TokHub: a gateway for AI services. People log in, enter connections to AI services (API keys, OAuth
  logins, programs on their own machine), group the resulting channels into gateways, and hand out
  gateway keys. A request with such a key is admitted, routed over the upstreams of its gateway and
  billed to the key; channels are probed, and incidents tell when one is down. The program is in Go over
  PostgreSQL and Redis; the development models the Go code under \<open>src/internal\<close> and the SQL in it.

  \<^bold>\<open>How the program is modelled.\<close>
  A Go function is an Isabelle function of its arguments and the state it touches. A table is the list of
  its rows, a row a record with the columns the code reads or writes, an SQL statement one of
  \<open>sql_update\<close>, \<open>sql_delete\<close>, a filter or a new row at the end (\<open>TH_Prelude\<close>). A transaction is the function that
  returns the new tables or the old ones; each call is atomic, and runs are any sequence of calls. Where
  that hides a race of the code, the race is modelled on its own (\<open>concurrent_demotions_lose_owner\<close>,
  the refreshes in \<open>Gateway_Auth\<close>). Errors are values: \<open>Ok\<close> or \<open>Err\<close> with the error of the source. Strings are
  lists of bytes, as in Go; instants are integers of nanoseconds; counters are kept at their width where
  a claim depends on it. Loops are structural recursion, \<open>function\<close> with a termination proof
  (\<open>valid_utf8\<close>, \<open>trim_left_by\<close>, \<open>slug_from\<close>, \<open>anthropic_content_text\<close>), or \<open>partial_function (option)\<close> with a theorem
  that it returns (\<open>shrink_to_valid\<close>). There is no fuel anywhere.

  Code that is not under \<open>src/\<close> is an argument of the definitions that use it: AES-GCM, SHA-256, HMAC,
  base64 and bcrypt, the text of \<open>encoding/json\<close>, \<open>url.Parse\<close>, the network, Redis replies, random tokens and
  the clock. What the code relies on (decryption inverts encryption, hashes of different tokens differ, a
  clock does not run backwards) is a hypothesis of the theorem that needs it, and the witness of the
  theorem runs it with a concrete function.

  \<^bold>\<open>Shared theories.\<close>
  \<^item> \<open>TH_Prelude\<close>: results, instants, package \<open>strings\<close>, the SQL statements and their lemmas, and the
    collections the proofs use.
  \<^item> \<open>Go_Json\<close>, \<open>Go_Utf8\<close>, \<open>Stable_Sort\<close>: values of type \<open>any\<close> and their conversions; \<open>unicode/utf8\<close> over bytes;
    \<open>sort.SliceStable\<close> with its contract \<open>weak_order\<close>.
  \<^item> \<open>Row_Lifecycle\<close>: the contracts of tables that keep rows and change their status. \<open>row_lifecycle\<close>: what a
    row has lost stays lost over any run. \<open>one_shot\<close>: what happens to a row once happens at most once.
    \<open>task_queue\<close>: a connector has at most one active task. Every store below interprets one of them
    on its own step function.
  \<^item> \<open>Rate_Guard\<close>: the contract of a counter over a window (\<open>rate_guard\<close>) and the bound it gives on any interval of time.
  \<^item> \<open>Store_Tables\<close>, \<open>Connector_Base\<close>: rows that several stores share, and what the stores of the two kinds of
    connectors have in common.

  \<^bold>\<open>Local connectors\<close> (\<open>store/client_connectors.go\<close>, \<open>store/browser_connectors.go\<close>).
  Programs on a person's machine poll TokHub for tasks.
  \<^item> \<open>Client_Risk\<close>, \<open>Browser_Risk\<close>: the request guards, table \<open>ai_client_account_risk\<close> and
    \<open>ai_browser_account_risk\<close>: reservations, results, locks. Granted requests keep the interval and the
    windows over any interleaving; what a result does to a lock, also where it overwrites one.
  \<^item> \<open>Client_Tasks\<close>, \<open>Browser_Tasks\<close>: pairing, heartbeat, revocation, the queues, response sessions and
    maintenance. One active task per connector, no task completed twice, a pairing code used once.
  \<^item> \<open>Browser_Contract\<close>, \<open>Browser_Contract_Safety\<close>: \<open>browserconnector/contract.go\<close> and the executor of
    \<open>opencliconnector/connector.go\<close>: prompts, commands, results and their sanitizer at both ends.

  \<^bold>\<open>Upstreams\<close> (\<open>gateway/upstream.go\<close>).
  \<^item> \<open>Upstream_Adapt\<close>, \<open>Upstream_Stream\<close>, \<open>Upstream_Http\<close>: requests and answers of OpenAI, Anthropic, Gemini and Codex
    upstreams, the two translated streams line by line, headers, credentials and exchanges.
    \<open>Upstream_Safety\<close> says what they promise and what they lose.
  \<^item> \<open>Provider_Policy\<close>: \<open>connections/policy.go\<close>, \<open>connections/registry.go\<close>: the policy compiled into a release.

  \<^bold>\<open>Gateways\<close> (\<open>store/gateway.go\<close>, \<open>gateway/cache.go\<close>, \<open>api/gateway_handlers.go\<close>, parts of \<open>api/server.go\<close>).
  \<^item> \<open>Gateway_Store\<close>: gateways, links, keys, authentication, quota and route planning. \<open>Gateway_Safety\<close>: revoked keys
    never authenticate, authentication is exact, quotas hold, workspaces are apart, planning is a stable sort.
  \<^item> \<open>Gateway_Entry\<close>: limiter, slots, admission, circuits, candidates. \<open>Gateway_Entry_Safety\<close>: admission charges once.
  \<^item> \<open>Gateway_Serve\<close>: the search over the upstreams, answers and the event for the bill. \<open>Gateway_Serve_Safety\<close>: the search
    refines its specification \<open>passed_over\<close>, the number of requests is bounded, one event per request.
  \<^item> \<open>Anthropic_Bridge\<close>, \<open>Anthropic_Safety\<close>: the Anthropic endpoint: conversions, answers, streams.

  \<^bold>\<open>Connections and credentials\<close> (\<open>store/connections.go\<close>, \<open>store/connection_auth.go\<close>, \<open>connections/auth.go\<close>,
  \<open>connections/authorization_store.go\<close>, \<open>crypto\<close>, \<open>events/credential_refresh_runtime.go\<close>).
  \<^item> \<open>Connection_Store\<close>: connections, secrets, models, authorization attempts, refreshes, quick relays.
    \<open>Connection_Safety\<close>, \<open>Credential_Safety\<close>, \<open>Relay_Safety\<close>: the limit of 32, deleted connections, credentials
    that stay distinct, what disconnecting closes.
  \<^item> \<open>Auth_Session\<close>, \<open>Auth_Safety\<close>: login transactions, step-up grants and refresh locks, in memory and in Redis, with the
    contracts \<open>one_time\<close> and \<open>lease_lock\<close>; the store over Redis refines the one in memory.
  \<^item> \<open>Credential_Keys\<close>, \<open>Gateway_Auth\<close>, \<open>Runtime_Safety\<close>: keyring, box and bundles; the credential of a channel at run
    time; background refreshes and their rate gate.

  \<^bold>\<open>Accounts\<close> (\<open>store/store.go\<close>, \<open>store/accounts.go\<close>, \<open>store/workspace.go\<close>, \<open>store/admin_governance.go\<close>, \<open>auth/service.go\<close>).
  \<^item> \<open>Account_Store\<close>, \<open>Workspace_Store\<close>, \<open>Account_Admin\<close>: users, sessions, mail tokens, workspaces, members, and the
    administration of users and workspaces with everything it closes.
  \<^item> \<open>Account_Steps\<close>, \<open>Account_Rows\<close>, \<open>Account_Owner\<close>: all of these operations as one step function, what a step does to each
    table, and why an owner remains. \<open>Account_Safety\<close>: the properties.

  \<^bold>\<open>Probes\<close> (\<open>prober\<close>, \<open>store/probe.go\<close>, the incidents of \<open>store/phase7.go\<close>).
  \<^item> \<open>Probe_Status\<close>, \<open>Probe_Store\<close>, \<open>Probe_Runner\<close>: steps, summaries, the decision over three layers, runs, status changes,
    incidents, one run from the target to the status. \<open>Probe_Safety\<close>, \<open>Incident_Safety\<close>: which summaries make a channel
    healthy, and that the unique index of open incidents never rejects a write.

  \<^bold>\<open>Not modelled.\<close>
  Route tables, cookies, CSRF and the JSON decoding of the console's handlers (\<open>api/server.go\<close> and most of
  \<open>api/*_handlers.go\<close>), which hand their arguments to the modelled stores; the OAuth exchanges of
  \<open>connections/provider_*.go\<close>, HTTP calls to services whose answers are parameters here; the drivers and
  programs of the official-client connector, which control processes; listing, import and configuration of
  channels and sites (\<open>store/admin_channels.go\<close>, \<open>store/channel_sites.go\<close>, \<open>store/admin_agent.go\<close>) and the
  usage reports, mostly SQL projections; alerts, plans and notifications (\<open>store/phase6.go\<close>, the rest of
  \<open>store/phase7.go\<close>); public pages and SEO (\<open>store/public.go\<close>, \<open>api/seo.go\<close>); timers and worker pools
  around the probes and refreshes; configuration, start-up and the web console. Lost commits and other
  failures of the database inside a transaction are not modelled: a statement does what it says.
\<close>

end
